(* ===== verification/Prelude.thy ===== *)
theory Prelude
  imports Main "HOL-Library.Multiset" "HOL-Library.Product_Lexorder" "HOL-Library.Word"
begin

text \<open>
  Shared foundations of the development: the collections of rewrite rules the component
  theories add to, generic lemmas on lists, and the interfaces (locales) that more than one
  component relies on. Nothing here models code; every locale is interpreted on the model's
  own definitions in the theory of the component that provides it.
\<close>

section \<open>Collections\<close>

named_theorems frame_simps \<open>fields an operation leaves unchanged\<close>
named_theorems cell_simps \<open>reads of the board after a write\<close>
named_theorems wf_intros \<open>operations that keep a well-formedness predicate\<close>

section \<open>Lists\<close>

lemma find_Some_in_set: "find P xs = Some x \<Longrightarrow> x \<in> set xs \<and> P x"
  by (induction xs) (auto split: if_splits)

lemma find_None_all: "find P xs = None \<longleftrightarrow> (\<forall>x \<in> set xs. \<not> P x)"
  by (induction xs) auto

lemma find_unique:
  "distinct (map f xs) \<Longrightarrow> x \<in> set xs \<Longrightarrow> find (\<lambda>y. f y = f x) xs = Some x"
  by (induction xs) auto

lemma distinct_map_filter_key: "distinct (map f xs) \<Longrightarrow> distinct (map f (filter P xs))"
  by (induction xs) auto

lemma distinct_map_eq_iff:
  "distinct (map f xs) \<Longrightarrow> x \<in> set xs \<Longrightarrow> y \<in> set xs \<Longrightarrow> f x = f y \<longleftrightarrow> x = y"
  by (auto simp: distinct_map dest: inj_onD)

lemma sum_list_filter_le_nat:
  fixes f :: "'a \<Rightarrow> nat"
  shows "sum_list (map f (filter P xs)) \<le> sum_list (map f xs)"
  by (induction xs) auto

lemma sum_list_member_le_nat:
  fixes f :: "'a \<Rightarrow> nat"
  shows "x \<in> set xs \<Longrightarrow> f x \<le> sum_list (map f xs)"
  by (induction xs) auto

lemma sum_list_filter_less_nat:
  fixes f :: "'a \<Rightarrow> nat"
  assumes "x \<in> set xs" "\<not> P x" "0 < f x"
  shows "sum_list (map f (filter P xs)) < sum_list (map f xs)"
  using assms
proof (induction xs)
  case Nil
  then show ?case by simp
next
  case (Cons y ys)
  then show ?case
    using sum_list_filter_le_nat [of f P ys] by auto
qed

section \<open>Interfaces\<close>

text \<open>
  A machine driven by events: an invariant that one step keeps, under a side condition on
  the event, holds after any run all of whose events meet the condition in their state.
\<close>

locale event_machine =
  fixes step :: "'s \<Rightarrow> 'e \<Rightarrow> 's"
    and inv :: "'s \<Rightarrow> bool"
    and enabled :: "'s \<Rightarrow> 'e \<Rightarrow> bool"
  assumes step_inv: "inv s \<Longrightarrow> enabled s e \<Longrightarrow> inv (step s e)"
begin

fun run_enabled :: "'s \<Rightarrow> 'e list \<Rightarrow> bool" where
  "run_enabled s [] = True"
| "run_enabled s (e # es) = (enabled s e \<and> run_enabled (step s e) es)"

lemma run_inv: "inv s \<Longrightarrow> run_enabled s es \<Longrightarrow> inv (foldl step s es)"
  by (induction es arbitrary: s) (auto intro: step_inv)

lemma run_inv_always:
  assumes "\<And>s e. inv s \<Longrightarrow> enabled s e" and "inv s"
  shows "inv (foldl step s es)"
  using assms(2) by (induction es arbitrary: s) (auto intro: step_inv assms(1))

end

text \<open>
  A store of cells addressed by position, with an extent outside of which writes are
  ignored and reads find nothing.
\<close>

locale cell_store =
  fixes rd :: "'b \<Rightarrow> 'p \<Rightarrow> 'r option"
    and wr :: "'b \<Rightarrow> 'p \<Rightarrow> 'r option \<Rightarrow> 'b"
    and inside :: "'b \<Rightarrow> 'p \<Rightarrow> bool"
    and wf :: "'b \<Rightarrow> bool"
  assumes rd_wr: "wf b \<Longrightarrow> inside b p \<Longrightarrow> rd (wr b p v) q = (if q = p then v else rd b q)"
    and rd_outside: "\<not> inside b p \<Longrightarrow> rd b p = None"
    and wr_outside: "\<not> inside b p \<Longrightarrow> wr b p v = b"
    and inside_wr: "inside (wr b p v) q = inside b q"
    and wf_wr: "wf b \<Longrightarrow> wf (wr b p v)"
begin

definition holds_once :: "'b \<Rightarrow> bool" where
  "holds_once b \<longleftrightarrow> (\<forall>p q r. rd b p = Some r \<longrightarrow> rd b q = Some r \<longrightarrow> p = q)"

lemma rd_wr_any:
  "wf b \<Longrightarrow> rd (wr b p v) q = (if q = p \<and> inside b p then v else rd b q)"
  by (cases "inside b p") (auto simp: rd_wr wr_outside)

lemma rd_Some_inside: "rd b p = Some r \<Longrightarrow> inside b p"
  using rd_outside by fastforce

lemma holds_onceD: "holds_once b \<Longrightarrow> rd b p = Some r \<Longrightarrow> rd b q = Some r \<Longrightarrow> p = q"
  unfolding holds_once_def by blast

lemma holds_once_erase:
  assumes "wf b" "holds_once b"
  shows "holds_once (wr b p None)"
  unfolding holds_once_def
proof (intro allI impI)
  fix x y s
  assume x: "rd (wr b p None) x = Some s" and y: "rd (wr b p None) y = Some s"
  have "rd b x = Some s" "rd b y = Some s"
    using x y assms(1) by (simp_all add: rd_wr_any split: if_splits)
  then show "x = y" by (rule holds_onceD [OF assms(2)])
qed

lemma holds_once_place:
  assumes "wf b" "holds_once b" and absent: "\<And>q. rd b q \<noteq> Some r \<or> q = p"
  shows "holds_once (wr b p (Some r))"
  unfolding holds_once_def
proof (intro allI impI)
  fix x y s
  assume x: "rd (wr b p (Some r)) x = Some s" and y: "rd (wr b p (Some r)) y = Some s"
  have x': "x = p \<and> s = r \<or> rd b x = Some s" and y': "y = p \<and> s = r \<or> rd b y = Some s"
    using x y assms(1) by (simp_all add: rd_wr_any split: if_splits)
  show "x = y"
    using x' y' absent [of x] absent [of y] holds_onceD [OF assms(2)] by metis
qed

end

text \<open>A first-in first-out queue, seen through the list of its waiting items.\<close>

locale fifo_queue =
  fixes enq :: "'q \<Rightarrow> 'a \<Rightarrow> 'q"
    and deq :: "'q \<Rightarrow> ('a \<times> 'q) option"
    and items :: "'q \<Rightarrow> 'a list"
  assumes items_enq: "items (enq q x) = items q @ [x]"
    and deq_empty: "items q = [] \<Longrightarrow> deq q = None"
    and deq_Cons: "items q = x # xs \<Longrightarrow> \<exists>q'. deq q = Some (x, q') \<and> items q' = xs"
begin

fun drain :: "nat \<Rightarrow> 'q \<Rightarrow> 'a list \<times> 'q" where
  "drain 0 q = ([], q)"
| "drain (Suc n) q =
     (case deq q of None \<Rightarrow> ([], q) | Some (x, q') \<Rightarrow> (let (xs, r) = drain n q' in (x # xs, r)))"

lemma drain_takes_in_order:
  "fst (drain n q) = take n (items q) \<and> items (snd (drain n q)) = drop n (items q)"
proof (induction n arbitrary: q)
  case 0
  then show ?case by simp
next
  case (Suc n)
  show ?case
  proof (cases "items q")
    case Nil
    then show ?thesis by (simp add: deq_empty)
  next
    case (Cons x xs)
    then obtain q' where "deq q = Some (x, q')" "items q' = xs"
      using deq_Cons by blast
    with Cons Suc.IH [of q'] show ?thesis by (simp add: case_prod_beta)
  qed
qed

lemma items_enq_all: "items (foldl enq q xs) = items q @ xs"
  by (induction xs arbitrary: q) (simp_all add: items_enq)

lemma enq_then_drain:
  assumes "items q = []"
  shows "fst (drain (length xs) (foldl enq q xs)) = xs"
  using assms by (simp add: drain_takes_in_order items_enq_all)

end

text \<open>An encoding with a decoder that reverses it on the valid values.\<close>

locale codec =
  fixes enc :: "'a \<Rightarrow> 'c"
    and dec :: "'c \<Rightarrow> 'a option"
    and valid :: "'a \<Rightarrow> bool"
  assumes dec_enc: "valid x \<Longrightarrow> dec (enc x) = Some x"
begin

lemma enc_inject: "valid x \<Longrightarrow> valid y \<Longrightarrow> enc x = enc y \<longleftrightarrow> x = y"
  using dec_enc by (metis option.inject)

lemma enc_distinct: "distinct xs \<Longrightarrow> (\<And>x. x \<in> set xs \<Longrightarrow> valid x) \<Longrightarrow> distinct (map enc xs)"
  by (simp add: distinct_map inj_on_def enc_inject)

end

end
