(* ===== verification/Core.thy ===== *)
theory Core
  imports Prelude
begin

text \<open>
  The value types of \<open>src/shared/cpp/include/Core\<close> and \<open>src/shared/cpp/src/Core\<close>: board
  positions, pieces and their cooldown clock, the reasons and results of requests, and the
  entries of the move history. A C++ \<open>int\<close> or \<open>long long\<close> is an \<open>int\<close>: signed overflow is
  undefined behaviour in the source, and the values stay far below it. A piece is shared
  through \<open>shared_ptr\<close>, so a pointer is a reference into a heap of pieces; a pointer that may
  be null is a \<open>ref option\<close>.
\<close>

section \<open>Positions\<close>

datatype Position = Position (getRow: int) (getCol: int)

definition noPosition :: Position where
  "noPosition = Position (-1) (-1)"

text \<open>Row-major order: the order in which the code scans a board.\<close>

instantiation Position :: linorder
begin

definition less_eq_Position :: "Position \<Rightarrow> Position \<Rightarrow> bool" where
  "less_eq_Position p q \<longleftrightarrow> (getRow p, getCol p) \<le> (getRow q, getCol q)"

definition less_Position :: "Position \<Rightarrow> Position \<Rightarrow> bool" where
  "less_Position p q \<longleftrightarrow> (getRow p, getCol p) < (getRow q, getCol q)"

instance
proof
  fix p q r :: Position
  show "(p < q) = (p \<le> q \<and> \<not> q \<le> p)"
    by (auto simp: less_Position_def less_eq_Position_def)
  show "p \<le> p" by (simp add: less_eq_Position_def)
  show "p \<le> q \<Longrightarrow> q \<le> r \<Longrightarrow> p \<le> r" by (auto simp: less_eq_Position_def)
  show "p \<le> q \<Longrightarrow> q \<le> p \<Longrightarrow> p = q"
    by (cases p; cases q) (auto simp: less_eq_Position_def)
  show "p \<le> q \<or> q \<le> p" by (auto simp: less_eq_Position_def)
qed

end

section \<open>Pieces\<close>

datatype PieceColor = White | Black

datatype PieceKind = King | Queen | Rook | Bishop | Knight | Pawn

datatype PieceState = Idle | Moving | Airborne | Captured

record Piece =
  getId :: int
  getColor :: PieceColor
  getKind :: PieceKind
  getState :: PieceState
  cooldownStartedAtMs :: int
  cooldownUntilMs :: int
  totalCooldownMs :: int
  hasMoved :: bool

definition newPiece :: "int \<Rightarrow> PieceColor \<Rightarrow> PieceKind \<Rightarrow> Piece" where
  "newPiece i c k = \<lparr>getId = i, getColor = c, getKind = k, getState = Idle,
     cooldownStartedAtMs = 0, cooldownUntilMs = 0, totalCooldownMs = 0, hasMoved = False\<rparr>"

definition setState :: "PieceState \<Rightarrow> Piece \<Rightarrow> Piece" where
  "setState s p = p\<lparr>getState := s\<rparr>"

definition setKind :: "PieceKind \<Rightarrow> Piece \<Rightarrow> Piece" where
  "setKind k p = p\<lparr>getKind := k\<rparr>"

definition markAsMoved :: "Piece \<Rightarrow> Piece" where
  "markAsMoved p = p\<lparr>hasMoved := True\<rparr>"

definition startCooldown :: "int \<Rightarrow> int \<Rightarrow> Piece \<Rightarrow> Piece" where
  "startCooldown currentTimeMs durationMs p =
     (let d = (if durationMs < 0 then 0 else durationMs)
      in p\<lparr>cooldownStartedAtMs := currentTimeMs, totalCooldownMs := d,
           cooldownUntilMs := currentTimeMs + d\<rparr>)"

definition isOnCooldown :: "int \<Rightarrow> Piece \<Rightarrow> bool" where
  "isOnCooldown currentTimeMs p \<longleftrightarrow> getState p = Idle \<and> currentTimeMs < cooldownUntilMs p"

definition getRemainingCooldownMs :: "int \<Rightarrow> Piece \<Rightarrow> int" where
  "getRemainingCooldownMs currentTimeMs p =
     (if \<not> isOnCooldown currentTimeMs p then 0 else cooldownUntilMs p - currentTimeMs)"

definition getTotalCooldownMs :: "Piece \<Rightarrow> int" where
  "getTotalCooldownMs p = totalCooldownMs p"

definition colorFromChar :: "char \<Rightarrow> PieceColor" where
  "colorFromChar c = (if c = CHR ''w'' then White else Black)"

definition kindFromChar :: "char \<Rightarrow> PieceKind" where
  "kindFromChar c =
     (if c = CHR ''K'' then King
      else if c = CHR ''Q'' then Queen
      else if c = CHR ''R'' then Rook
      else if c = CHR ''B'' then Bishop
      else if c = CHR ''N'' then Knight
      else Pawn)"

definition colorToChar :: "PieceColor \<Rightarrow> char" where
  "colorToChar c = (if c = White then CHR ''w'' else CHR ''b'')"

definition kindToChar :: "PieceKind \<Rightarrow> char" where
  "kindToChar k =
     (if k = King then CHR ''K''
      else if k = Queen then CHR ''Q''
      else if k = Rook then CHR ''R''
      else if k = Bishop then CHR ''B''
      else if k = Knight then CHR ''N''
      else CHR ''P'')"

definition token :: "Piece \<Rightarrow> string" where
  "token p = [colorToChar (getColor p), kindToChar (getKind p)]"

lemmas piece_defs = setState_def setKind_def markAsMoved_def startCooldown_def Let_def

section \<open>The heap of pieces\<close>

type_synonym ref = nat

type_synonym heap = "ref \<Rightarrow> Piece"

definition onPiece :: "(Piece \<Rightarrow> Piece) \<Rightarrow> ref \<Rightarrow> heap \<Rightarrow> heap" where
  "onPiece f r h = h(r := f (h r))"

lemma onPiece_apply: "onPiece f r h s = (if s = r then f (h r) else h s)"
  by (simp add: onPiece_def)

section \<open>Configuration and results\<close>

definition CELL_SIZE :: int where "CELL_SIZE = 100"

definition EMPTY_CELL :: string where "EMPTY_CELL = ''.''"

definition ERROR_UNKNOWN_TOKEN :: string where
  "ERROR_UNKNOWN_TOKEN = ''ERROR UNKNOWN_TOKEN''"

definition ERROR_ROW_WIDTH_MISMATCH :: string where
  "ERROR_ROW_WIDTH_MISMATCH = ''ERROR ROW_WIDTH_MISMATCH''"

record MoveValidation =
  isValid :: bool
  validationReason :: string

record MoveResult =
  isAccepted :: bool
  moveReason :: string

record ControllerResult =
  handled :: bool
  controllerReason :: string

definition validation :: "bool \<Rightarrow> string \<Rightarrow> MoveValidation" where
  "validation b r = \<lparr>isValid = b, validationReason = r\<rparr>"

definition moveResult :: "bool \<Rightarrow> string \<Rightarrow> MoveResult" where
  "moveResult b r = \<lparr>isAccepted = b, moveReason = r\<rparr>"

definition controllerResult :: "bool \<Rightarrow> string \<Rightarrow> ControllerResult" where
  "controllerResult b r = \<lparr>handled = b, controllerReason = r\<rparr>"

lemma result_simps [simp]:
  "isValid (validation b r) = b" "validationReason (validation b r) = r"
  "isAccepted (moveResult b r) = b" "moveReason (moveResult b r) = r"
  "handled (controllerResult b r) = b" "controllerReason (controllerResult b r) = r"
  by (simp_all add: validation_def moveResult_def controllerResult_def)

definition R_OK :: string where "R_OK = ''ok''"
definition R_OUTSIDE_BOARD :: string where "R_OUTSIDE_BOARD = ''outside_board''"
definition R_EMPTY_SOURCE :: string where "R_EMPTY_SOURCE = ''empty_source''"
definition R_FRIENDLY_DESTINATION :: string where
  "R_FRIENDLY_DESTINATION = ''friendly_destination''"
definition R_ILLEGAL_PIECE_MOVE :: string where
  "R_ILLEGAL_PIECE_MOVE = ''illegal_piece_move''"
definition R_GAME_OVER :: string where "R_GAME_OVER = ''game_over''"
definition R_SELECTED :: string where "R_SELECTED = ''selected''"
definition R_CLICK_OUTSIDE :: string where "R_CLICK_OUTSIDE = ''click_outside''"
definition R_EMPTY_CLICK :: string where "R_EMPTY_CLICK = ''empty_click''"
definition R_MOTION_IN_PROGRESS :: string where
  "R_MOTION_IN_PROGRESS = ''motion_in_progress''"
definition R_CANNOT_JUMP :: string where "R_CANNOT_JUMP = ''cannot_jump''"
definition R_JUMP_STARTED :: string where "R_JUMP_STARTED = ''jump_started''"

lemmas reason_defs = R_OK_def R_OUTSIDE_BOARD_def R_EMPTY_SOURCE_def
  R_FRIENDLY_DESTINATION_def R_ILLEGAL_PIECE_MOVE_def R_GAME_OVER_def R_SELECTED_def
  R_CLICK_OUTSIDE_def R_EMPTY_CLICK_def R_MOTION_IN_PROGRESS_def R_CANNOT_JUMP_def
  R_JUMP_STARTED_def

record MoveHistoryEntry =
  h_completedAtMs :: int
  h_color :: PieceColor
  h_pieceKind :: PieceKind
  h_source :: Position
  h_destination :: Position
  h_wasCapture :: bool
  h_wasPromotion :: bool
  h_wasJump :: bool
  h_notation :: string

definition newMoveHistoryEntry :: MoveHistoryEntry where
  "newMoveHistoryEntry = \<lparr>h_completedAtMs = 0, h_color = White, h_pieceKind = Pawn,
     h_source = noPosition, h_destination = noPosition, h_wasCapture = False,
     h_wasPromotion = False, h_wasJump = False, h_notation = []\<rparr>"

section \<open>Properties of pieces\<close>

lemma colorFromChar_colorToChar [simp]: "colorFromChar (colorToChar c) = c"
  by (cases c) (simp_all add: colorFromChar_def colorToChar_def)

lemma kindFromChar_kindToChar [simp]: "kindFromChar (kindToChar k) = k"
  by (cases k) (simp_all add: kindFromChar_def kindToChar_def)

definition tokenPiece :: "string \<Rightarrow> (PieceColor \<times> PieceKind) option" where
  "tokenPiece t = (case t of [c, k] \<Rightarrow> Some (colorFromChar c, kindFromChar k) | _ \<Rightarrow> None)"

interpretation piece_token: codec
  "\<lambda>(c, k). [colorToChar c, kindToChar k]" tokenPiece "\<lambda>_. True"
  by unfold_locales (auto simp: tokenPiece_def)

lemma token_eq_iff:
  "token p = token q \<longleftrightarrow> getColor p = getColor q \<and> getKind p = getKind q"
  using piece_token.enc_inject [of "(getColor p, getKind p)" "(getColor q, getKind q)"]
  by (simp add: token_def)

text \<open>
  The cooldown clock: a piece whose clock was started at a time not after now has a
  remaining time between 0 and the total, and counts down with the clock.
\<close>

definition cooldown_ok :: "int \<Rightarrow> Piece \<Rightarrow> bool" where
  "cooldown_ok now p \<longleftrightarrow>
     cooldownUntilMs p = cooldownStartedAtMs p + totalCooldownMs p \<and>
     0 \<le> totalCooldownMs p \<and> cooldownStartedAtMs p \<le> now"

lemma cooldown_ok_new [wf_intros]: "0 \<le> now \<Longrightarrow> cooldown_ok now (newPiece i c k)"
  by (simp add: cooldown_ok_def newPiece_def)

lemma cooldown_ok_start [wf_intros]: "t \<le> now \<Longrightarrow> cooldown_ok now (startCooldown t d p)"
  by (simp add: cooldown_ok_def startCooldown_def Let_def)

lemma cooldown_ok_frame [simp]:
  "cooldown_ok now (setState s p) = cooldown_ok now p"
  "cooldown_ok now (setKind k p) = cooldown_ok now p"
  "cooldown_ok now (markAsMoved p) = cooldown_ok now p"
  by (simp_all add: cooldown_ok_def piece_defs)

lemma cooldown_ok_later: "cooldown_ok now p \<Longrightarrow> now \<le> now' \<Longrightarrow> cooldown_ok now' p"
  by (simp add: cooldown_ok_def)

lemma remaining_bounds:
  assumes "cooldown_ok now p"
  shows "0 \<le> getRemainingCooldownMs now p" "getRemainingCooldownMs now p \<le> getTotalCooldownMs p"
  using assms by (auto simp: cooldown_ok_def getRemainingCooldownMs_def isOnCooldown_def
      getTotalCooldownMs_def)

lemma remaining_counts_down:
  assumes "0 \<le> d" "getState p = Idle" "0 \<le> getRemainingCooldownMs now p"
  shows "getRemainingCooldownMs (now + d) p = max 0 (getRemainingCooldownMs now p - d)"
  using assms by (auto simp: getRemainingCooldownMs_def isOnCooldown_def)

end
