(* ===== verification/Board.thy ===== *)
theory Board
  imports Core
begin

text \<open>
  The board of \<open>src/shared/cpp/src/Core/Board.cpp\<close>: a height, a width and a grid of cells, each
  holding a pointer to a piece or null. Every access goes through \<open>isInside\<close>, as in the
  source, so a cell outside the grid reads as null and a write there does nothing.
\<close>

section \<open>State and operations\<close>

record Board =
  getHeight :: int
  getWidth :: int
  cells :: "ref option list list"

definition emptyBoard :: Board where
  "emptyBoard = \<lparr>getHeight = 0, getWidth = 0, cells = []\<rparr>"

definition newBoard :: "int \<Rightarrow> int \<Rightarrow> Board" where
  "newBoard h w = \<lparr>getHeight = h, getWidth = w,
     cells = replicate (nat h) (replicate (nat w) None)\<rparr>"

definition isInside :: "Board \<Rightarrow> Position \<Rightarrow> bool" where
  "isInside b p =
     (let row = getRow p; col = getCol p in
      if row < 0 \<or> col < 0 then False
      else if row \<ge> getHeight b then False
      else if col \<ge> getWidth b then False
      else True)"

definition cellAt :: "Board \<Rightarrow> Position \<Rightarrow> ref option" where
  "cellAt b p = cells b ! nat (getRow p) ! nat (getCol p)"

definition setCell :: "Board \<Rightarrow> Position \<Rightarrow> ref option \<Rightarrow> Board" where
  "setCell b p v =
     b\<lparr>cells := (cells b)[nat (getRow p) := (cells b ! nat (getRow p))[nat (getCol p) := v]]\<rparr>"

definition getPieceAt :: "Board \<Rightarrow> Position \<Rightarrow> ref option" where
  "getPieceAt b p = (if \<not> isInside b p then None else cellAt b p)"

definition isEmpty :: "Board \<Rightarrow> Position \<Rightarrow> bool" where
  "isEmpty b p \<longleftrightarrow> getPieceAt b p = None"

definition placePiece :: "Board \<Rightarrow> Position \<Rightarrow> ref option \<Rightarrow> bool \<times> Board" where
  "placePiece b p v =
     (if \<not> isInside b p then (False, b)
      else if \<not> isEmpty b p then (False, b)
      else (True, setCell b p v))"

definition removePiece :: "Board \<Rightarrow> Position \<Rightarrow> Board" where
  "removePiece b p = (if \<not> isInside b p then b else setCell b p None)"

definition setPieceAt :: "Board \<Rightarrow> Position \<Rightarrow> ref option \<Rightarrow> Board" where
  "setPieceAt b p v = (if \<not> isInside b p then b else setCell b p v)"

definition movePiece :: "Board \<Rightarrow> Position \<Rightarrow> Position \<Rightarrow> Board" where
  "movePiece b source destination =
     (if \<not> isInside b source \<or> \<not> isInside b destination then b
      else let movingPiece = cellAt b source;
               b1 = setCell b destination movingPiece
           in setCell b1 source None)"

definition boardPositions :: "Board \<Rightarrow> Position list" where
  "boardPositions b =
     concat (map (\<lambda>row. map (\<lambda>col. Position row col) [0..getWidth b - 1]) [0..getHeight b - 1])"

section \<open>Well-formed boards\<close>

definition wf_board :: "Board \<Rightarrow> bool" where
  "wf_board b \<longleftrightarrow> 0 \<le> getHeight b \<and> 0 \<le> getWidth b \<and>
     length (cells b) = nat (getHeight b) \<and>
     (\<forall>row \<in> set (cells b). length row = nat (getWidth b))"

lemma wf_newBoard [wf_intros]: "0 \<le> h \<Longrightarrow> 0 \<le> w \<Longrightarrow> wf_board (newBoard h w)"
  by (simp add: wf_board_def newBoard_def)

lemma isInside_iff:
  "isInside b p \<longleftrightarrow>
     0 \<le> getRow p \<and> getRow p < getHeight b \<and> 0 \<le> getCol p \<and> getCol p < getWidth b"
  by (auto simp: isInside_def Let_def)

lemma setCell_size [simp]:
  "getHeight (setCell b p v) = getHeight b" "getWidth (setCell b p v) = getWidth b"
  by (simp_all add: setCell_def)

lemma isInside_setCell [simp]: "isInside (setCell b p v) q = isInside b q"
  by (simp add: isInside_iff)

lemma wf_board_row: "wf_board b \<Longrightarrow> isInside b p \<Longrightarrow> length (cells b ! nat (getRow p)) = nat (getWidth b)"
  by (auto simp: wf_board_def isInside_iff)

lemma wf_setCell [wf_intros]:
  assumes "wf_board b" "isInside b p"
  shows "wf_board (setCell b p v)"
proof -
  have "\<forall>row \<in> set ((cells b)[nat (getRow p) := (cells b ! nat (getRow p))[nat (getCol p) := v]]).
          length row = nat (getWidth b)"
    using assms wf_board_row [OF assms]
    by (auto simp: wf_board_def dest!: set_update_subset_insert [THEN subsetD])
  then show ?thesis using assms by (simp add: wf_board_def setCell_def)
qed

lemma cellAt_setCell:
  assumes "wf_board b" "isInside b p" "isInside b q"
  shows "cellAt (setCell b p v) q = (if q = p then v else cellAt b q)"
proof -
  have bounds: "nat (getRow p) < length (cells b)" "nat (getCol p) < length (cells b ! nat (getRow p))"
    using assms wf_board_row [OF assms(1,2)] by (auto simp: wf_board_def isInside_iff)
  show ?thesis
  proof (cases "getRow q = getRow p")
    case True
    have "q = p \<longleftrightarrow> nat (getCol q) = nat (getCol p)"
      using True assms by (cases p; cases q) (auto simp: isInside_iff)
    then show ?thesis
      using True bounds by (auto simp: cellAt_def setCell_def)
  next
    case False
    then have "nat (getRow q) \<noteq> nat (getRow p)" and "q \<noteq> p"
      using assms by (auto simp: isInside_iff)
    then show ?thesis by (simp add: cellAt_def setCell_def)
  qed
qed

interpretation grid: cell_store getPieceAt setPieceAt isInside wf_board
  by unfold_locales
    (auto simp: getPieceAt_def setPieceAt_def cellAt_setCell intro: wf_setCell)

lemma removePiece_eq: "removePiece b p = setPieceAt b p None"
  by (simp add: removePiece_def setPieceAt_def)

lemma board_size [simp]:
  "getHeight (setPieceAt b p v) = getHeight b" "getWidth (setPieceAt b p v) = getWidth b"
  by (simp_all add: setPieceAt_def)

lemma isInside_setPieceAt [simp]: "isInside (setPieceAt b p v) q = isInside b q"
  by (simp add: isInside_iff)

lemmas getPieceAt_setPieceAt [cell_simps] = grid.rd_wr_any

lemmas wf_setPieceAt [wf_intros, simp] = grid.wf_wr

lemma getPieceAt_inside: "getPieceAt b p = Some r \<Longrightarrow> isInside b p"
  by (rule grid.rd_Some_inside)

lemma getPieceAt_newBoard [simp]: "getPieceAt (newBoard h w) p = None"
  by (simp add: getPieceAt_def newBoard_def cellAt_def isInside_iff)

lemma movePiece_eq:
  assumes "wf_board b" "isInside b s" "isInside b d"
  shows "movePiece b s d = setPieceAt (setPieceAt b d (getPieceAt b s)) s None"
  using assms by (simp add: movePiece_def setPieceAt_def getPieceAt_def Let_def)

text \<open>Placing is refused exactly outside the board and on an occupied cell.\<close>

lemma placePiece_spec:
  assumes "wf_board b"
  shows "placePiece b p v =
     (if isInside b p \<and> getPieceAt b p = None then (True, setPieceAt b p v) else (False, b))"
  by (simp add: placePiece_def setPieceAt_def isEmpty_def)

lemma placePiece_keeps [wf_intros]: "wf_board b \<Longrightarrow> wf_board (snd (placePiece b p v))"
  by (simp add: placePiece_spec)

section \<open>Scanning the board\<close>

lemma set_boardPositions: "set (boardPositions b) = {p. isInside b p}"
proof
  show "set (boardPositions b) \<subseteq> {p. isInside b p}"
    by (auto simp: boardPositions_def isInside_iff)
  show "{p. isInside b p} \<subseteq> set (boardPositions b)"
  proof
    fix p assume "p \<in> {p. isInside b p}"
    then have "getRow p \<in> set [0..getHeight b - 1]" "getCol p \<in> set [0..getWidth b - 1]"
      by (auto simp: isInside_iff)
    then have "\<exists>row \<in> set [0..getHeight b - 1].
        p \<in> set (map (\<lambda>col. Position row col) [0..getWidth b - 1])"
      by (intro bexI [of _ "getRow p"]) (cases p, auto)+
    then show "p \<in> set (boardPositions b)" by (simp add: boardPositions_def)
  qed
qed

lemma sorted_wrt_row: "sorted_wrt (<) (map (\<lambda>col. Position row col) [i..j])"
proof (induction "nat (j - i + 1)" arbitrary: i)
  case 0
  then show ?case by simp
next
  case (Suc n)
  then have "i \<le> j" by simp
  moreover have "sorted_wrt (<) (map (\<lambda>col. Position row col) [i + 1..j])"
    using Suc.hyps(2) by (intro Suc.hyps(1)) simp
  ultimately show ?case by (simp add: upto_rec1 less_Position_def)
qed

lemma sorted_wrt_rows:
  "sorted_wrt (<) (concat (map (\<lambda>row. map (\<lambda>col. Position row col) [0..w]) [i..j]))"
proof (induction "nat (j - i + 1)" arbitrary: i)
  case 0
  then show ?case by simp
next
  case (Suc n)
  then have "i \<le> j" by simp
  moreover have "sorted_wrt (<) (concat (map (\<lambda>row. map (\<lambda>col. Position row col) [0..w]) [i + 1..j]))"
    using Suc.hyps(2) by (intro Suc.hyps(1)) simp
  ultimately show ?case
    by (simp add: upto_rec1 sorted_wrt_append sorted_wrt_row) (auto simp: less_Position_def)
qed

text \<open>The scan visits every cell once, in row-major order.\<close>

lemma boardPositions_sorted: "sorted_wrt (<) (boardPositions b)"
  by (simp add: boardPositions_def sorted_wrt_rows)

lemma distinct_boardPositions: "distinct (boardPositions b)"
  using boardPositions_sorted strict_sorted_iff by blast

end
