(* ===== verification/Rules.thy ===== *)
theory Rules
  imports Board
begin

text \<open>
  Move shapes and move validation: \<open>src/server/chess_server/src/Rules/PieceRules.cpp\<close> and
  \<open>RuleEngine.cpp\<close>. The rules read the logical board only. The path scan is a \<open>while\<close> loop
  that stops only on a cell it may never reach, so it is a partial function; the callers
  reach it on aligned cells, where it returns.
\<close>

section \<open>Path scan\<close>

text \<open>
  The loop of \<open>isPathClear\<close>: \<open>None\<close> stands for a run that never leaves the loop.
\<close>

partial_function (option) pathLoop ::
    "Board \<Rightarrow> int \<Rightarrow> int \<Rightarrow> int \<Rightarrow> int \<Rightarrow> int \<Rightarrow> int \<Rightarrow> bool option" where
  "pathLoop b currentRow currentCol toRow toCol rowStep colStep =
     (if currentRow \<noteq> toRow \<or> currentCol \<noteq> toCol then
        (if \<not> isEmpty b (Position currentRow currentCol) then Some False
         else pathLoop b (currentRow + rowStep) (currentCol + colStep) toRow toCol rowStep colStep)
      else Some True)"

declare pathLoop.simps [code]

definition stepTowards :: "int \<Rightarrow> int \<Rightarrow> int" where
  "stepTowards from to = (if to > from then 1 else if to < from then -1 else 0)"

definition isPathClear :: "Board \<Rightarrow> Position \<Rightarrow> Position \<Rightarrow> bool option" where
  "isPathClear b source destination =
     (let fromRow = getRow source; fromCol = getCol source;
          toRow = getRow destination; toCol = getCol destination;
          rowStep = stepTowards fromRow toRow;
          colStep = stepTowards fromCol toCol
      in pathLoop b (fromRow + rowStep) (fromCol + colStep) toRow toCol rowStep colStep)"

section \<open>Move shapes\<close>

definition canMoveLikeRook :: "Board \<Rightarrow> Position \<Rightarrow> Position \<Rightarrow> bool" where
  "canMoveLikeRook b source destination =
     (if source = destination then False
      else let sameRow = getRow source = getRow destination;
               sameCol = getCol source = getCol destination
           in if \<not> sameRow \<and> \<not> sameCol then False
              else isPathClear b source destination = Some True)"

definition canMoveLikeBishop :: "Board \<Rightarrow> Position \<Rightarrow> Position \<Rightarrow> bool" where
  "canMoveLikeBishop b source destination =
     (if source = destination then False
      else let rowDiff = \<bar>getRow destination - getRow source\<bar>;
               colDiff = \<bar>getCol destination - getCol source\<bar>
           in if rowDiff \<noteq> colDiff then False
              else isPathClear b source destination = Some True)"

definition canMoveLikeQueen :: "Board \<Rightarrow> Position \<Rightarrow> Position \<Rightarrow> bool" where
  "canMoveLikeQueen b source destination \<longleftrightarrow>
     canMoveLikeRook b source destination \<or> canMoveLikeBishop b source destination"

definition canMoveLikeKnight :: "Position \<Rightarrow> Position \<Rightarrow> bool" where
  "canMoveLikeKnight source destination =
     (if source = destination then False
      else let rowDiff = \<bar>getRow destination - getRow source\<bar>;
               colDiff = \<bar>getCol destination - getCol source\<bar>
           in (rowDiff = 2 \<and> colDiff = 1) \<or> (rowDiff = 1 \<and> colDiff = 2))"

definition canMoveLikeKing :: "Position \<Rightarrow> Position \<Rightarrow> bool" where
  "canMoveLikeKing source destination =
     (if source = destination then False
      else let rowDiff = \<bar>getRow destination - getRow source\<bar>;
               colDiff = \<bar>getCol destination - getCol source\<bar>
           in rowDiff \<le> 1 \<and> colDiff \<le> 1)"

definition canMoveLikePawn ::
    "heap \<Rightarrow> Board \<Rightarrow> Position \<Rightarrow> Position \<Rightarrow> PieceColor \<Rightarrow> bool" where
  "canMoveLikePawn h b source destination color =
     (if source = destination then False
      else let direction = (if color = White then -1 else 1);
               startRow = (if color = White then getHeight b - 2 else 1);
               rowDiff = getRow destination - getRow source;
               colDiff = getCol destination - getCol source
           in if rowDiff = direction \<and> colDiff = 0 then isEmpty b destination
              else if getRow source = startRow \<and> rowDiff = 2 * direction \<and> colDiff = 0 then
                (let middleCell = Position (getRow source + direction) (getCol source)
                 in isEmpty b middleCell \<and> isEmpty b destination)
              else if rowDiff = direction \<and> \<bar>colDiff\<bar> = 1 then
                (case getPieceAt b destination of
                   None \<Rightarrow> False
                 | Some target \<Rightarrow> getColor (h target) \<noteq> color)
              else False)"

section \<open>Validation\<close>

definition isLegalByPieceKind :: "heap \<Rightarrow> Board \<Rightarrow> Position \<Rightarrow> Position \<Rightarrow> bool" where
  "isLegalByPieceKind h b source destination =
     (case getPieceAt b source of
        None \<Rightarrow> False
      | Some piece \<Rightarrow>
          (case getKind (h piece) of
             Rook \<Rightarrow> canMoveLikeRook b source destination
           | Bishop \<Rightarrow> canMoveLikeBishop b source destination
           | Queen \<Rightarrow> canMoveLikeQueen b source destination
           | Knight \<Rightarrow> canMoveLikeKnight source destination
           | King \<Rightarrow> canMoveLikeKing source destination
           | Pawn \<Rightarrow> canMoveLikePawn h b source destination (getColor (h piece))))"

definition validateMove :: "heap \<Rightarrow> Board \<Rightarrow> Position \<Rightarrow> Position \<Rightarrow> MoveValidation" where
  "validateMove h b source destination =
     (if \<not> isInside b source \<or> \<not> isInside b destination then validation False R_OUTSIDE_BOARD
      else case getPieceAt b source of
        None \<Rightarrow> validation False R_EMPTY_SOURCE
      | Some sourcePiece \<Rightarrow>
          (if (case getPieceAt b destination of
                 None \<Rightarrow> False
               | Some d \<Rightarrow> getColor (h d) = getColor (h sourcePiece))
           then validation False R_FRIENDLY_DESTINATION
           else if \<not> isLegalByPieceKind h b source destination
           then validation False R_ILLEGAL_PIECE_MOVE
           else validation True R_OK))"

section \<open>The path scan on aligned cells\<close>

definition aligned :: "Position \<Rightarrow> Position \<Rightarrow> bool" where
  "aligned p q \<longleftrightarrow> getRow p = getRow q \<or> getCol p = getCol q \<or>
     \<bar>getRow q - getRow p\<bar> = \<bar>getCol q - getCol p\<bar>"

definition distance :: "Position \<Rightarrow> Position \<Rightarrow> int" where
  "distance p q = max \<bar>getRow q - getRow p\<bar> \<bar>getCol q - getCol p\<bar>"

text \<open>The cell \<open>k\<close> steps from \<open>p\<close> on the way to \<open>q\<close>.\<close>

definition stepCell :: "Position \<Rightarrow> Position \<Rightarrow> int \<Rightarrow> Position" where
  "stepCell p q k = Position (getRow p + k * stepTowards (getRow p) (getRow q))
                             (getCol p + k * stepTowards (getCol p) (getCol q))"

lemma stepCell_distance: "aligned p q \<Longrightarrow> stepCell p q (distance p q) = q"
  by (cases p; cases q) (auto simp: stepCell_def distance_def aligned_def stepTowards_def)

lemma stepCell_not_end:
  assumes "aligned p q" "0 \<le> k" "k < distance p q"
  shows "stepCell p q k \<noteq> q"
  using assms by (cases p; cases q) (auto simp: stepCell_def distance_def aligned_def stepTowards_def)

lemma pathLoop_from_step:
  assumes "aligned p q" "0 \<le> k" "k \<le> distance p q"
  shows "pathLoop b (getRow (stepCell p q k)) (getCol (stepCell p q k)) (getRow q) (getCol q)
           (stepTowards (getRow p) (getRow q)) (stepTowards (getCol p) (getCol q))
         = Some (\<forall>i. k \<le> i \<and> i < distance p q \<longrightarrow> isEmpty b (stepCell p q i))"
  using assms(2,3)
proof (induction "nat (distance p q - k)" arbitrary: k)
  case 0
  then have "k = distance p q" by simp
  then show ?case
    using stepCell_distance [OF assms(1)] by (subst pathLoop.simps) auto
next
  case (Suc n)
  then have less: "k < distance p q" by simp
  have next_cell: "getRow (stepCell p q (k + 1)) =
      getRow (stepCell p q k) + stepTowards (getRow p) (getRow q)"
    "getCol (stepCell p q (k + 1)) =
      getCol (stepCell p q k) + stepTowards (getCol p) (getCol q)"
    by (simp_all add: stepCell_def algebra_simps)
  have IH: "pathLoop b (getRow (stepCell p q (k + 1))) (getCol (stepCell p q (k + 1)))
      (getRow q) (getCol q) (stepTowards (getRow p) (getRow q)) (stepTowards (getCol p) (getCol q))
      = Some (\<forall>i. k + 1 \<le> i \<and> i < distance p q \<longrightarrow> isEmpty b (stepCell p q i))"
    using Suc.hyps(2) Suc.prems less by (intro Suc.hyps(1)) simp_all
  have split: "(\<forall>i. k \<le> i \<and> i < distance p q \<longrightarrow> isEmpty b (stepCell p q i)) \<longleftrightarrow>
      isEmpty b (stepCell p q k) \<and>
      (\<forall>i. k + 1 \<le> i \<and> i < distance p q \<longrightarrow> isEmpty b (stepCell p q i))"
    using less by (metis add1_zle_eq dual_order.order_iff_strict order_refl)
  have "getRow (stepCell p q k) \<noteq> getRow q \<or> getCol (stepCell p q k) \<noteq> getCol q"
    using stepCell_not_end [OF assms(1) Suc.prems(1) less] Position.expand by blast
  then show ?case
    by (subst pathLoop.simps) (simp add: next_cell [symmetric] IH split)
qed

lemma isPathClear_aligned:
  assumes "aligned p q" "p \<noteq> q"
  shows "isPathClear b p q =
    Some (\<forall>i. 1 \<le> i \<and> i < distance p q \<longrightarrow> isEmpty b (stepCell p q i))"
proof -
  have "1 \<le> distance p q"
    using assms(2) by (cases p; cases q) (auto simp: distance_def)
  then show ?thesis
    using pathLoop_from_step [OF assms(1), of 1 b]
    by (simp add: isPathClear_def Let_def stepCell_def)
qed

lemma isPathClear_same [simp]: "isPathClear b p p = Some True"
  by (simp add: isPathClear_def stepTowards_def pathLoop.simps)

definition clearBetween :: "Board \<Rightarrow> Position \<Rightarrow> Position \<Rightarrow> bool" where
  "clearBetween b p q \<longleftrightarrow> (\<forall>i \<in> {1..<distance p q}. isEmpty b (stepCell p q i))"

lemma isPathClear_iff: "aligned p q \<Longrightarrow> isPathClear b p q = Some (clearBetween b p q)"
  by (cases "p = q") (auto simp: clearBetween_def isPathClear_aligned distance_def)

lemma aligned_lines:
  "getRow p = getRow q \<Longrightarrow> aligned p q" "getCol p = getCol q \<Longrightarrow> aligned p q"
  "\<bar>getRow q - getRow p\<bar> = \<bar>getCol q - getCol p\<bar> \<Longrightarrow> aligned p q"
  by (simp_all add: aligned_def)

lemma canMoveLikeRook_iff:
  "canMoveLikeRook b p q \<longleftrightarrow>
     p \<noteq> q \<and> (getRow p = getRow q \<or> getCol p = getCol q) \<and> clearBetween b p q"
  by (auto simp: canMoveLikeRook_def Let_def isPathClear_iff aligned_lines)

lemma canMoveLikeBishop_iff:
  "canMoveLikeBishop b p q \<longleftrightarrow>
     p \<noteq> q \<and> \<bar>getRow q - getRow p\<bar> = \<bar>getCol q - getCol p\<bar> \<and> clearBetween b p q"
  by (auto simp: canMoveLikeBishop_def Let_def isPathClear_iff aligned_lines)

lemma canMoveLikeQueen_iff:
  "canMoveLikeQueen b p q \<longleftrightarrow> p \<noteq> q \<and> aligned p q \<and> clearBetween b p q"
  by (auto simp: canMoveLikeQueen_def canMoveLikeRook_iff canMoveLikeBishop_iff aligned_def)

section \<open>What a legal move is\<close>

text \<open>The declarative chess move: by kind, on the current board.\<close>

definition pawnDirection :: "PieceColor \<Rightarrow> int" where
  "pawnDirection c = (if c = White then -1 else 1)"

definition pawnHomeRow :: "Board \<Rightarrow> PieceColor \<Rightarrow> int" where
  "pawnHomeRow b c = (if c = White then getHeight b - 2 else 1)"

definition pawnMove :: "heap \<Rightarrow> Board \<Rightarrow> PieceColor \<Rightarrow> Position \<Rightarrow> Position \<Rightarrow> bool" where
  "pawnMove h b c p q \<longleftrightarrow>
     (getCol q = getCol p \<and> getRow q = getRow p + pawnDirection c \<and> isEmpty b q) \<or>
     (getCol q = getCol p \<and> getRow q = getRow p + 2 * pawnDirection c \<and>
      getRow p = pawnHomeRow b c \<and> isEmpty b q \<and>
      isEmpty b (Position (getRow p + pawnDirection c) (getCol p))) \<or>
     (\<bar>getCol q - getCol p\<bar> = 1 \<and> getRow q = getRow p + pawnDirection c \<and>
      (\<exists>t. getPieceAt b q = Some t \<and> getColor (h t) \<noteq> c))"

definition chessMove :: "heap \<Rightarrow> Board \<Rightarrow> Piece \<Rightarrow> Position \<Rightarrow> Position \<Rightarrow> bool" where
  "chessMove h b piece p q \<longleftrightarrow> p \<noteq> q \<and>
     (case getKind piece of
        Rook \<Rightarrow> (getRow p = getRow q \<or> getCol p = getCol q) \<and> clearBetween b p q
      | Bishop \<Rightarrow> \<bar>getRow q - getRow p\<bar> = \<bar>getCol q - getCol p\<bar> \<and> clearBetween b p q
      | Queen \<Rightarrow> aligned p q \<and> clearBetween b p q
      | Knight \<Rightarrow> {\<bar>getRow q - getRow p\<bar>, \<bar>getCol q - getCol p\<bar>} = {1, 2}
      | King \<Rightarrow> distance p q = 1
      | Pawn \<Rightarrow> pawnMove h b (getColor piece) p q)"

lemma canMoveLikePawn_iff:
  "canMoveLikePawn h b p q c \<longleftrightarrow> p \<noteq> q \<and> pawnMove h b c p q"
proof (cases "p = q")
  case True
  then show ?thesis by (simp add: canMoveLikePawn_def)
next
  case False
  then show ?thesis
    by (auto simp: canMoveLikePawn_def pawnMove_def pawnDirection_def pawnHomeRow_def Let_def
        algebra_simps split: option.splits)
qed

lemma canMoveLikeKnight_iff:
  "canMoveLikeKnight p q \<longleftrightarrow> {\<bar>getRow q - getRow p\<bar>, \<bar>getCol q - getCol p\<bar>} = {1, 2}"
  by (auto simp: canMoveLikeKnight_def Let_def doubleton_eq_iff)

lemma canMoveLikeKing_iff: "canMoveLikeKing p q \<longleftrightarrow> p \<noteq> q \<and> distance p q = 1"
  by (cases p; cases q) (auto simp: canMoveLikeKing_def Let_def distance_def)

lemma knight_not_same: "{\<bar>getRow q - getRow p\<bar>, \<bar>getCol q - getCol p\<bar>} = {1, 2} \<Longrightarrow> p \<noteq> q"
  by (auto simp: doubleton_eq_iff)

lemma isLegalByPieceKind_iff:
  "isLegalByPieceKind h b p q \<longleftrightarrow>
     (\<exists>r. getPieceAt b p = Some r \<and> chessMove h b (h r) p q)"
  by (auto simp: isLegalByPieceKind_def chessMove_def canMoveLikeRook_iff canMoveLikeBishop_iff
      canMoveLikeQueen_iff canMoveLikeKnight_iff canMoveLikeKing_iff canMoveLikePawn_iff
      dest: knight_not_same split: option.splits PieceKind.splits)

end
