(* ===== verification/Arbiter.thy ===== *)
theory Arbiter
  imports Board
begin

text \<open>
  The real-time arbiter of \<open>src/server/chess_server/src/Realtime/RealTimeArbiter.cpp\<close>: the game
  clock, the motions and jumps under way, and the events that become due. The arbiter shares
  the pieces with the engine through pointers, so its operations take the heap. A pointer
  stored in a motion, jump or event is never null (only \<open>startMotion\<close> and \<open>startJump\<close> store
  one, and they return on null), so the null tests of the loops are always false and the
  stored pointers are plain references. The comparator of \<open>std::sort\<close> orders by event time,
  then by motion order, which is the lexicographic order of the pair.
\<close>

section \<open>State\<close>

record Motion =
  m_piece :: ref
  m_source :: Position
  m_destination :: Position
  m_currentCell :: Position
  m_rowStep :: int
  m_colStep :: int
  m_directMove :: bool
  m_stepDurationMs :: int
  m_nextStepTimeMs :: int
  m_order :: int

record Jump =
  j_piece :: ref
  j_cell :: Position
  j_finishTimeMs :: int

record StepEvent =
  s_piece :: ref
  s_source :: Position
  s_from :: Position
  s_to :: Position
  s_reachedDestination :: bool
  s_eventTimeMs :: int
  s_order :: int

record JumpLandingEvent =
  l_piece :: ref
  l_cell :: Position
  l_eventTimeMs :: int

record TimeEvents =
  steps :: "StepEvent list"
  jumpLandings :: "JumpLandingEvent list"

record RealTimeArbiter =
  currentTimeMs :: int
  activeMotions :: "Motion list"
  activeJumps :: "Jump list"
  nextMotionOrder :: int

definition newArbiter :: RealTimeArbiter where
  "newArbiter = \<lparr>currentTimeMs = 0, activeMotions = [], activeJumps = [], nextMotionOrder = 0\<rparr>"

section \<open>Operations\<close>

definition signValue :: "int \<Rightarrow> int" where
  "signValue v = (if v > 0 then 1 else if v < 0 then -1 else 0)"

definition hasActiveMotion :: "RealTimeArbiter \<Rightarrow> bool" where
  "hasActiveMotion a \<longleftrightarrow> activeMotions a \<noteq> []"

definition startMotion ::
    "ref option \<Rightarrow> Position \<Rightarrow> Position \<Rightarrow> int \<Rightarrow> bool \<Rightarrow> heap \<times> RealTimeArbiter
     \<Rightarrow> heap \<times> RealTimeArbiter" where
  "startMotion piece source destination stepDurationMs forceDirectMove = (\<lambda>(h, a).
     (case piece of
        None \<Rightarrow> (h, a)
      | Some r \<Rightarrow>
          (let dur = (if stepDurationMs \<le> 0 then 1 else stepDurationMs);
               motion = \<lparr>m_piece = r, m_source = source, m_destination = destination,
                 m_currentCell = source,
                 m_rowStep = signValue (getRow destination - getRow source),
                 m_colStep = signValue (getCol destination - getCol source),
                 m_directMove = (forceDirectMove \<or> getKind (h r) = Knight),
                 m_stepDurationMs = dur,
                 m_nextStepTimeMs = currentTimeMs a + dur,
                 m_order = nextMotionOrder a\<rparr>
           in (onPiece (setState Moving) r h,
               a\<lparr>nextMotionOrder := nextMotionOrder a + 1,
                 activeMotions := activeMotions a @ [motion]\<rparr>))))"

definition startJump ::
    "ref option \<Rightarrow> Position \<Rightarrow> int \<Rightarrow> heap \<times> RealTimeArbiter \<Rightarrow> heap \<times> RealTimeArbiter" where
  "startJump piece cell jumpDurationMs = (\<lambda>(h, a).
     (case piece of
        None \<Rightarrow> (h, a)
      | Some r \<Rightarrow>
          (let dur = (if jumpDurationMs \<le> 0 then 1 else jumpDurationMs);
               jump = \<lparr>j_piece = r, j_cell = cell, j_finishTimeMs = currentTimeMs a + dur\<rparr>
           in (onPiece (setState Airborne) r h, a\<lparr>activeJumps := activeJumps a @ [jump]\<rparr>))))"

definition nextCellOf :: "Motion \<Rightarrow> Position" where
  "nextCellOf m =
     (if m_directMove m then m_destination m
      else Position (getRow (m_currentCell m) + m_rowStep m) (getCol (m_currentCell m) + m_colStep m))"

definition stepEventOf :: "Motion \<Rightarrow> StepEvent" where
  "stepEventOf m = \<lparr>s_piece = m_piece m, s_source = m_source m, s_from = m_currentCell m,
     s_to = nextCellOf m, s_reachedDestination = (nextCellOf m = m_destination m),
     s_eventTimeMs = m_nextStepTimeMs m, s_order = m_order m\<rparr>"

definition landingOf :: "Jump \<Rightarrow> JumpLandingEvent" where
  "landingOf j = \<lparr>l_piece = j_piece j, l_cell = j_cell j, l_eventTimeMs = j_finishTimeMs j\<rparr>"

text \<open>
  The \<open>while\<close> of \<open>advanceTime\<close> ends with \<open>break\<close>, so a motion that is due gives one event.
\<close>

definition motionDue :: "heap \<Rightarrow> int \<Rightarrow> Motion \<Rightarrow> bool" where
  "motionDue h now m \<longleftrightarrow> getState (h (m_piece m)) = Moving \<and> now \<ge> m_nextStepTimeMs m"

definition advanceTime :: "heap \<Rightarrow> int \<Rightarrow> RealTimeArbiter \<Rightarrow> TimeEvents \<times> RealTimeArbiter" where
  "advanceTime h ms a =
     (if ms < 0 then (\<lparr>steps = [], jumpLandings = []\<rparr>, a)
      else
        (let now = currentTimeMs a + ms;
             due = map stepEventOf (filter (motionDue h now) (activeMotions a));
             sorted = sort_key (\<lambda>e. (s_eventTimeMs e, s_order e)) due;
             landings = map landingOf (filter (\<lambda>j. now \<ge> j_finishTimeMs j) (activeJumps a));
             stillJumping = filter (\<lambda>j. \<not> now \<ge> j_finishTimeMs j) (activeJumps a);
             stillMoving = filter (\<lambda>m. \<not> getState (h (m_piece m)) \<noteq> Moving) (activeMotions a)
         in (\<lparr>steps = sorted, jumpLandings = landings\<rparr>,
             a\<lparr>currentTimeMs := now, activeJumps := stillJumping, activeMotions := stillMoving\<rparr>)))"

fun updateFirst :: "('a \<Rightarrow> bool) \<Rightarrow> ('a \<Rightarrow> 'a) \<Rightarrow> 'a list \<Rightarrow> 'a list" where
  "updateFirst P f [] = []"
| "updateFirst P f (x # xs) = (if P x then f x # xs else x # updateFirst P f xs)"

definition advanceMotion :: "Position \<Rightarrow> Motion \<Rightarrow> Motion" where
  "advanceMotion cell m =
     m\<lparr>m_currentCell := cell, m_nextStepTimeMs := m_nextStepTimeMs m + m_stepDurationMs m\<rparr>"

definition updateMotionCell :: "ref \<Rightarrow> Position \<Rightarrow> RealTimeArbiter \<Rightarrow> RealTimeArbiter" where
  "updateMotionCell piece cell a =
     a\<lparr>activeMotions :=
        updateFirst (\<lambda>m. m_piece m = piece) (advanceMotion cell) (activeMotions a)\<rparr>"

definition cancelMotion :: "ref \<Rightarrow> RealTimeArbiter \<Rightarrow> RealTimeArbiter" where
  "cancelMotion piece a =
     a\<lparr>activeMotions := filter (\<lambda>m. \<not> m_piece m = piece) (activeMotions a)\<rparr>"

definition finishMotion :: "ref \<Rightarrow> RealTimeArbiter \<Rightarrow> RealTimeArbiter" where
  "finishMotion piece a = cancelMotion piece a"

section \<open>Motions\<close>

lemma updateFirst_map_key:
  "(\<And>x. key (f x) = key x) \<Longrightarrow> map key (updateFirst P f xs) = map key xs"
  by (induction xs) auto

lemma set_updateFirst_subset: "x \<in> set (updateFirst P f xs) \<Longrightarrow> x \<in> set xs \<or> (\<exists>y \<in> set xs. P y \<and> x = f y)"
  by (induction xs) (auto split: if_splits)

lemma advanceMotion_frame [simp]:
  "m_piece (advanceMotion c m) = m_piece m" "m_source (advanceMotion c m) = m_source m"
  "m_destination (advanceMotion c m) = m_destination m"
  "m_currentCell (advanceMotion c m) = c"
  "m_rowStep (advanceMotion c m) = m_rowStep m" "m_colStep (advanceMotion c m) = m_colStep m"
  "m_directMove (advanceMotion c m) = m_directMove m"
  "m_stepDurationMs (advanceMotion c m) = m_stepDurationMs m"
  "m_nextStepTimeMs (advanceMotion c m) = m_nextStepTimeMs m + m_stepDurationMs m"
  "m_order (advanceMotion c m) = m_order m"
  by (simp_all add: advanceMotion_def)

lemma updateFirst_distinct_key:
  "distinct (map key xs) \<Longrightarrow> updateFirst (\<lambda>x. key x = k) f xs = map (\<lambda>x. if key x = k then f x else x) xs"
proof (induction xs)
  case Nil
  then show ?case by simp
next
  case (Cons y ys)
  show ?case
  proof (cases "key y = k")
    case True
    then have "k \<notin> key ` set ys" using Cons.prems by simp
    then have "\<forall>x \<in> set ys. key x \<noteq> k" by blast
    then have "map (\<lambda>x. if key x = k then f x else x) ys = ys" by (simp add: map_idI)
    with True show ?thesis by simp
  next
    case False
    then show ?thesis using Cons by simp
  qed
qed

text \<open>
  A well-formed arbiter: each piece has at most one motion, every motion makes progress in
  time, and motion numbers are unused ones.
\<close>

definition wf_motion :: "Motion \<Rightarrow> bool" where
  "wf_motion m \<longleftrightarrow> 1 \<le> m_stepDurationMs m \<and>
     m_rowStep m \<in> {-1, 0, 1} \<and> m_colStep m \<in> {-1, 0, 1} \<and> 0 \<le> m_order m"

definition wf_arbiter :: "RealTimeArbiter \<Rightarrow> bool" where
  "wf_arbiter a \<longleftrightarrow> 0 \<le> currentTimeMs a \<and> 0 \<le> nextMotionOrder a \<and>
     distinct (map m_piece (activeMotions a)) \<and>
     distinct (map m_order (activeMotions a)) \<and>
     (\<forall>m \<in> set (activeMotions a). wf_motion m \<and> m_order m < nextMotionOrder a \<and>
        0 \<le> m_nextStepTimeMs m) \<and>
     (\<forall>j \<in> set (activeJumps a). 0 \<le> j_finishTimeMs j)"

lemma wf_newArbiter [wf_intros]: "wf_arbiter newArbiter"
  by (simp add: wf_arbiter_def newArbiter_def)

lemma wf_motion_advance [simp]: "wf_motion (advanceMotion c m) = wf_motion m"
  by (simp add: wf_motion_def)

lemma updateMotionCell_motions:
  "wf_arbiter a \<Longrightarrow> activeMotions (updateMotionCell r c a) =
     map (\<lambda>m. if m_piece m = r then advanceMotion c m else m) (activeMotions a)"
  by (simp add: updateMotionCell_def wf_arbiter_def updateFirst_distinct_key)

lemma arbiter_frame [simp]:
  "currentTimeMs (updateMotionCell r c a) = currentTimeMs a"
  "activeJumps (updateMotionCell r c a) = activeJumps a"
  "nextMotionOrder (updateMotionCell r c a) = nextMotionOrder a"
  "currentTimeMs (cancelMotion r a) = currentTimeMs a"
  "activeJumps (cancelMotion r a) = activeJumps a"
  "nextMotionOrder (cancelMotion r a) = nextMotionOrder a"
  "activeMotions (cancelMotion r a) = filter (\<lambda>m. m_piece m \<noteq> r) (activeMotions a)"
  by (simp_all add: updateMotionCell_def cancelMotion_def)

lemma finishMotion_eq [simp]: "finishMotion r a = cancelMotion r a"
  by (simp add: finishMotion_def)

lemma comp_advance [simp]:
  "m_piece \<circ> (\<lambda>m. if P m then advanceMotion c m else m) = m_piece"
  "m_order \<circ> (\<lambda>m. if P m then advanceMotion c m else m) = m_order"
  by (simp_all add: fun_eq_iff)

lemma wf_updateMotionCell [wf_intros]:
  assumes "wf_arbiter a"
  shows "wf_arbiter (updateMotionCell r c a)"
proof -
  have "0 \<le> m_nextStepTimeMs m + m_stepDurationMs m" if "m \<in> set (activeMotions a)" for m
    using assms that by (fastforce simp: wf_arbiter_def wf_motion_def)
  then show ?thesis
    using assms updateMotionCell_motions [OF assms]
    by (auto simp: wf_arbiter_def)
qed

lemma wf_cancelMotion [wf_intros]: "wf_arbiter a \<Longrightarrow> wf_arbiter (cancelMotion r a)"
  by (auto simp: wf_arbiter_def distinct_map_filter_key)

lemma startMotion_heap:
  "fst (startMotion (Some r) s d t f (h, a)) = onPiece (setState Moving) r h"
  by (simp add: startMotion_def Let_def)

lemma wf_startMotion [wf_intros]:
  assumes "wf_arbiter a" "\<forall>m \<in> set (activeMotions a). m_piece m \<noteq> r"
  shows "wf_arbiter (snd (startMotion (Some r) s d t f (h, a)))"
  using assms by (auto simp: wf_arbiter_def startMotion_def wf_motion_def signValue_def Let_def)

lemma wf_startJump [wf_intros]:
  "wf_arbiter a \<Longrightarrow> wf_arbiter (snd (startJump (Some r) c t (h, a)))"
  by (auto simp: wf_arbiter_def startJump_def Let_def)

section \<open>Advancing the clock\<close>

lemma advanceTime_steps_set:
  "0 \<le> ms \<Longrightarrow> set (steps (fst (advanceTime h ms a))) =
     stepEventOf ` {m \<in> set (activeMotions a). motionDue h (currentTimeMs a + ms) m}"
  by (auto simp: advanceTime_def Let_def)

lemma advanceTime_landings_set:
  "0 \<le> ms \<Longrightarrow> set (jumpLandings (fst (advanceTime h ms a))) =
     landingOf ` {j \<in> set (activeJumps a). j_finishTimeMs j \<le> currentTimeMs a + ms}"
  by (auto simp: advanceTime_def Let_def)

lemma advanceTime_state:
  assumes "0 \<le> ms"
  shows "currentTimeMs (snd (advanceTime h ms a)) = currentTimeMs a + ms"
    "activeMotions (snd (advanceTime h ms a)) =
       filter (\<lambda>m. getState (h (m_piece m)) = Moving) (activeMotions a)"
    "activeJumps (snd (advanceTime h ms a)) =
       filter (\<lambda>j. currentTimeMs a + ms < j_finishTimeMs j) (activeJumps a)"
    "nextMotionOrder (snd (advanceTime h ms a)) = nextMotionOrder a"
  using assms by (simp_all add: advanceTime_def Let_def not_le)

lemma wf_advanceTime [wf_intros]:
  assumes "wf_arbiter a"
  shows "wf_arbiter (snd (advanceTime h ms a))"
proof (cases "ms < 0")
  case True
  then show ?thesis using assms by (simp add: advanceTime_def)
next
  case False
  then have "0 \<le> ms" by simp
  then show ?thesis
    using assms by (auto simp: wf_arbiter_def advanceTime_state distinct_map_filter_key)
qed

lemma advanceTime_no_time:
  "steps (fst (advanceTime h ms a)) = [] \<Longrightarrow> 0 \<le> ms \<Longrightarrow>
     \<forall>m \<in> set (activeMotions a). \<not> motionDue h (currentTimeMs a + ms) m"
  using advanceTime_steps_set [of ms h a] by auto

text \<open>The step events come out in order of time, and of motion number at equal times.\<close>

lemma advanceTime_steps_sorted:
  "sorted (map (\<lambda>e. (s_eventTimeMs e, s_order e)) (steps (fst (advanceTime h ms a))))"
  by (simp add: advanceTime_def Let_def)

lemma advanceTime_steps_distinct:
  assumes "wf_arbiter a"
  shows "distinct (map s_piece (steps (fst (advanceTime h ms a))))"
proof (cases "ms < 0")
  case True
  then show ?thesis by (simp add: advanceTime_def)
next
  case False
  let ?due = "filter (motionDue h (currentTimeMs a + ms)) (activeMotions a)"
  let ?key = "\<lambda>e. (s_eventTimeMs e, s_order e)"
  have due: "distinct (map s_piece (map stepEventOf ?due))"
    using assms by (simp add: wf_arbiter_def stepEventOf_def comp_def distinct_map_filter_key)
  have "mset (map s_piece (sort_key ?key (map stepEventOf ?due))) =
      mset (map s_piece (map stepEventOf ?due))"
    by (simp only: mset_map mset_sort)
  then have "distinct (map s_piece (sort_key ?key (map stepEventOf ?due)))"
    using due mset_eq_imp_distinct_iff by blast
  then show ?thesis using False by (simp add: advanceTime_def Let_def)
qed

end
