(* ===== verification/Events.thy ===== *)
theory Events
  imports Core
begin

text \<open>
  Game events, the event bus and its subscribers:
  \<open>src/server/chess_server/include/Messaging/GameEvent.hpp\<close>, \<open>src/Messaging/EventBus.cpp\<close> and
  \<open>src/Messaging/GameEventSubscribers.cpp\<close>. A handler is a closure that updates its
  subscriber; here it is a function on the joint state \<open>'s\<close> of the subscribers, and an empty
  \<open>std::function\<close> is \<open>None\<close>. The bus keeps its subscriptions in an \<open>unordered_map\<close>: the list
  below is its unspecified iteration order, and \<open>publish_any_order\<close> shows that the order does
  not matter for the subscribers of the server. Each lock protects one object and no handler
  calls back into the bus, so a publication is a single step.
\<close>

section \<open>Events\<close>

datatype GameEventType = MoveCompleted | ScoreUpdated | GameStarted | GameEnded | SoundRequested

record GameEvent =
  g_type :: GameEventType
  g_source :: Position
  g_destination :: Position
  g_movingPieceKind :: PieceKind
  g_movingPieceColor :: PieceColor
  g_wasCapture :: bool
  g_hasCapturedPiece :: bool
  g_capturedPieceKind :: PieceKind
  g_capturedPieceColor :: PieceColor
  g_wasPromotion :: bool
  g_wasJump :: bool
  g_completedAtMs :: int
  g_whiteScore :: int
  g_blackScore :: int
  g_hasWinner :: bool
  g_winner :: PieceColor
  g_gameEndReason :: string
  g_sound :: string

definition newGameEvent :: GameEvent where
  "newGameEvent = \<lparr>g_type = MoveCompleted, g_source = noPosition, g_destination = noPosition,
     g_movingPieceKind = Pawn, g_movingPieceColor = White, g_wasCapture = False,
     g_hasCapturedPiece = False, g_capturedPieceKind = Pawn, g_capturedPieceColor = Black,
     g_wasPromotion = False, g_wasJump = False, g_completedAtMs = 0, g_whiteScore = 0,
     g_blackScore = 0, g_hasWinner = False, g_winner = White, g_gameEndReason = [],
     g_sound = []\<rparr>"

section \<open>The bus\<close>

type_synonym SubscriptionId = "64 word"

type_synonym 's EventHandler = "('s \<Rightarrow> GameEvent \<Rightarrow> 's) option"

record 's Subscription =
  subscribedType :: GameEventType
  handler :: "'s EventHandler"

record 's EventBus =
  nextId :: SubscriptionId
  subscriptions :: "(SubscriptionId \<times> 's Subscription) list"

definition newEventBus :: "'s EventBus" where
  "newEventBus = \<lparr>nextId = 1, subscriptions = []\<rparr>"

definition subscribe ::
    "GameEventType \<Rightarrow> 's EventHandler \<Rightarrow> 's EventBus \<Rightarrow> SubscriptionId \<times> 's EventBus" where
  "subscribe t f bus =
     (let i = nextId bus;
          bus1 = bus\<lparr>nextId := nextId bus + 1\<rparr>
      in (i, if i \<in> fst ` set (subscriptions bus1) then bus1
             else bus1\<lparr>subscriptions := subscriptions bus1 @
                    [(i, \<lparr>subscribedType = t, handler = f\<rparr>)]\<rparr>))"

definition unsubscribe :: "SubscriptionId \<Rightarrow> 's EventBus \<Rightarrow> bool \<times> 's EventBus" where
  "unsubscribe i bus =
     (i \<in> fst ` set (subscriptions bus),
      bus\<lparr>subscriptions := filter (\<lambda>s. fst s \<noteq> i) (subscriptions bus)\<rparr>)"

definition handlersFor :: "GameEvent \<Rightarrow> 's EventBus \<Rightarrow> 's EventHandler list" where
  "handlersFor ev bus =
     map (handler \<circ> snd) (filter (\<lambda>s. subscribedType (snd s) = g_type ev) (subscriptions bus))"

definition callHandler :: "GameEvent \<Rightarrow> 's EventHandler \<Rightarrow> 's \<Rightarrow> 's" where
  "callHandler ev h s = (case h of None \<Rightarrow> s | Some f \<Rightarrow> f s ev)"

definition publish :: "GameEvent \<Rightarrow> 's EventBus \<Rightarrow> 's \<Rightarrow> 's" where
  "publish ev bus s = fold (callHandler ev) (handlersFor ev bus) s"

definition wf_bus :: "'s EventBus \<Rightarrow> bool" where
  "wf_bus bus \<longleftrightarrow> distinct (map fst (subscriptions bus))"

lemma wf_newEventBus [wf_intros]: "wf_bus newEventBus"
  by (simp add: wf_bus_def newEventBus_def)

lemma wf_subscribe [wf_intros]: "wf_bus bus \<Longrightarrow> wf_bus (snd (subscribe t f bus))"
  by (auto simp: wf_bus_def subscribe_def Let_def)

lemma wf_unsubscribe [wf_intros]: "wf_bus bus \<Longrightarrow> wf_bus (snd (unsubscribe i bus))"
  by (simp add: wf_bus_def unsubscribe_def distinct_map_filter_key)

text \<open>
  The iteration order of the hash table does not matter when the handlers commute: the
  library's \<open>fold_multiset_equiv\<close> for any two orders of the same subscriptions.
\<close>

lemma publish_any_order:
  assumes "mset (subscriptions bus') = mset (subscriptions bus)"
    and commute: "\<And>h k. h \<in> set (handlersFor ev bus) \<Longrightarrow> k \<in> set (handlersFor ev bus) \<Longrightarrow>
      callHandler ev h \<circ> callHandler ev k = callHandler ev k \<circ> callHandler ev h"
  shows "publish ev bus' s = publish ev bus s"
proof -
  have "mset (handlersFor ev bus) = mset (handlersFor ev bus')"
    using assms(1) by (simp add: handlersFor_def)
  then have "fold (callHandler ev) (handlersFor ev bus) = fold (callHandler ev) (handlersFor ev bus')"
    by (intro fold_multiset_equiv commute)
  then show ?thesis by (simp add: publish_def)
qed

section \<open>Subscribers\<close>

record MoveHistorySubscriber =
  completedMoveCount :: "64 word"
  lastCompletedMove :: GameEvent

record ScoreSubscriber =
  updateCount :: "64 word"
  subWhiteScore :: int
  subBlackScore :: int

record LifecycleSubscriber =
  startedCount :: "64 word"
  endedCount :: "64 word"
  lastEndedEvent :: GameEvent

record GameLifecyclePublisher =
  started :: bool
  ended :: bool

record Subscribers =
  moveHistory :: MoveHistorySubscriber
  score :: ScoreSubscriber
  lifecycle :: LifecycleSubscriber
  publisher :: GameLifecyclePublisher

definition newSubscribers :: Subscribers where
  "newSubscribers =
     \<lparr>moveHistory = \<lparr>completedMoveCount = 0, lastCompletedMove = newGameEvent\<rparr>,
      score = \<lparr>updateCount = 0, subWhiteScore = 0, subBlackScore = 0\<rparr>,
      lifecycle = \<lparr>startedCount = 0, endedCount = 0, lastEndedEvent = newGameEvent\<rparr>,
      publisher = \<lparr>started = False, ended = False\<rparr>\<rparr>"

definition onMoveCompleted :: "Subscribers \<Rightarrow> GameEvent \<Rightarrow> Subscribers" where
  "onMoveCompleted s ev = s\<lparr>moveHistory :=
     \<lparr>completedMoveCount = completedMoveCount (moveHistory s) + 1, lastCompletedMove = ev\<rparr>\<rparr>"

definition onScoreUpdated :: "Subscribers \<Rightarrow> GameEvent \<Rightarrow> Subscribers" where
  "onScoreUpdated s ev = s\<lparr>score := \<lparr>updateCount = updateCount (score s) + 1,
     subWhiteScore = g_whiteScore ev, subBlackScore = g_blackScore ev\<rparr>\<rparr>"

definition onGameStarted :: "Subscribers \<Rightarrow> GameEvent \<Rightarrow> Subscribers" where
  "onGameStarted s ev =
     s\<lparr>lifecycle := (lifecycle s)\<lparr>startedCount := startedCount (lifecycle s) + 1\<rparr>\<rparr>"

definition onGameEnded :: "Subscribers \<Rightarrow> GameEvent \<Rightarrow> Subscribers" where
  "onGameEnded s ev = s\<lparr>lifecycle := (lifecycle s)\<lparr>endedCount := endedCount (lifecycle s) + 1,
     lastEndedEvent := ev\<rparr>\<rparr>"

definition onEndedPublisher :: "Subscribers \<Rightarrow> GameEvent \<Rightarrow> Subscribers" where
  "onEndedPublisher s ev = s\<lparr>publisher := (publisher s)\<lparr>ended := True\<rparr>\<rparr>"

text \<open>The five subscriptions, in the order the members of \<open>GameServer\<close> are constructed.\<close>

definition subscribeMoveHistory :: "Subscribers EventBus \<Rightarrow> SubscriptionId \<times> Subscribers EventBus" where
  "subscribeMoveHistory = subscribe MoveCompleted (Some onMoveCompleted)"

definition subscribeScore :: "Subscribers EventBus \<Rightarrow> SubscriptionId \<times> Subscribers EventBus" where
  "subscribeScore = subscribe ScoreUpdated (Some onScoreUpdated)"

definition subscribeLifecycle ::
    "Subscribers EventBus \<Rightarrow> SubscriptionId \<times> SubscriptionId \<times> Subscribers EventBus" where
  "subscribeLifecycle bus =
     (let (startedId, bus1) = subscribe GameStarted (Some onGameStarted) bus;
          (endedId, bus2) = subscribe GameEnded (Some onGameEnded) bus1
      in (startedId, endedId, bus2))"

definition subscribePublisher :: "Subscribers EventBus \<Rightarrow> SubscriptionId \<times> Subscribers EventBus" where
  "subscribePublisher = subscribe GameEnded (Some onEndedPublisher)"

definition serverBus :: "Subscribers EventBus" where
  "serverBus =
     snd (subscribePublisher (snd (snd (subscribeLifecycle
       (snd (subscribeScore (snd (subscribeMoveHistory newEventBus))))))))"

definition publishStarted :: "Subscribers EventBus \<Rightarrow> Subscribers \<Rightarrow> bool \<times> Subscribers" where
  "publishStarted bus s =
     (if started (publisher s) then (False, s)
      else let s1 = s\<lparr>publisher := (publisher s)\<lparr>started := True\<rparr>\<rparr>;
               ev = newGameEvent\<lparr>g_type := GameStarted\<rparr>
           in (True, publish ev bus s1))"

definition publishEnded ::
    "string \<Rightarrow> bool \<Rightarrow> PieceColor \<Rightarrow> int \<Rightarrow> int \<Rightarrow> Subscribers EventBus \<Rightarrow> Subscribers
     \<Rightarrow> bool \<times> Subscribers" where
  "publishEnded reason hasWinner winner ws bs bus s =
     (if ended (publisher s) then (False, s)
      else let s1 = s\<lparr>publisher := (publisher s)\<lparr>ended := True\<rparr>\<rparr>;
               ev = newGameEvent\<lparr>g_type := GameEnded, g_gameEndReason := reason,
                      g_hasWinner := hasWinner, g_winner := winner,
                      g_whiteScore := ws, g_blackScore := bs\<rparr>
           in (True, publish ev bus s1))"

definition resetPublisher :: "Subscribers \<Rightarrow> Subscribers" where
  "resetPublisher s = s\<lparr>publisher := \<lparr>started = False, ended = False\<rparr>\<rparr>"

definition publishAll :: "GameEvent list \<Rightarrow> Subscribers EventBus \<Rightarrow> Subscribers \<Rightarrow> Subscribers" where
  "publishAll evs bus s = fold (\<lambda>ev. publish ev bus) evs s"

section \<open>The server's bus\<close>

lemma serverBus_subscriptions:
  "subscriptions serverBus =
     [(1, \<lparr>subscribedType = MoveCompleted, handler = Some onMoveCompleted\<rparr>),
      (2, \<lparr>subscribedType = ScoreUpdated, handler = Some onScoreUpdated\<rparr>),
      (3, \<lparr>subscribedType = GameStarted, handler = Some onGameStarted\<rparr>),
      (4, \<lparr>subscribedType = GameEnded, handler = Some onGameEnded\<rparr>),
      (5, \<lparr>subscribedType = GameEnded, handler = Some onEndedPublisher\<rparr>)]"
  by (simp add: serverBus_def subscribePublisher_def subscribeLifecycle_def subscribeScore_def
      subscribeMoveHistory_def subscribe_def newEventBus_def Let_def)

lemma handlersFor_serverBus:
  "handlersFor ev serverBus =
     (case g_type ev of
        MoveCompleted \<Rightarrow> [Some onMoveCompleted]
      | ScoreUpdated \<Rightarrow> [Some onScoreUpdated]
      | GameStarted \<Rightarrow> [Some onGameStarted]
      | GameEnded \<Rightarrow> [Some onGameEnded, Some onEndedPublisher]
      | SoundRequested \<Rightarrow> [])"
  by (simp add: handlersFor_def serverBus_subscriptions split: GameEventType.split)

lemma publish_serverBus:
  "publish ev serverBus s =
     (case g_type ev of
        MoveCompleted \<Rightarrow> onMoveCompleted s ev
      | ScoreUpdated \<Rightarrow> onScoreUpdated s ev
      | GameStarted \<Rightarrow> onGameStarted s ev
      | GameEnded \<Rightarrow> onEndedPublisher (onGameEnded s ev) ev
      | SoundRequested \<Rightarrow> s)"
  by (simp add: publish_def handlersFor_serverBus callHandler_def split: GameEventType.split)

lemma serverBus_handlers_commute:
  assumes "h \<in> set (handlersFor ev serverBus)" "k \<in> set (handlersFor ev serverBus)"
  shows "callHandler ev h \<circ> callHandler ev k = callHandler ev k \<circ> callHandler ev h"
  using assms
  by (auto simp: handlersFor_serverBus callHandler_def fun_eq_iff onGameEnded_def onEndedPublisher_def
      split: GameEventType.splits)

lemma publishAll_Cons [simp]: "publishAll (ev # evs) bus s = publishAll evs bus (publish ev bus s)"
  and publishAll_Nil [simp]: "publishAll [] bus s = s"
  by (simp_all add: publishAll_def)

lemma publishAll_append:
  "publishAll (xs @ ys) bus s = publishAll ys bus (publishAll xs bus s)"
  by (simp add: publishAll_def)

text \<open>What the subscribers know after a list of events: a fold per subscriber.\<close>

definition ofType :: "GameEventType \<Rightarrow> GameEvent list \<Rightarrow> GameEvent list" where
  "ofType t = filter (\<lambda>ev. g_type ev = t)"

lemma ofType_simps [simp]:
  "ofType t [] = []"
  "ofType t (ev # evs) = (if g_type ev = t then ev # ofType t evs else ofType t evs)"
  "ofType t (xs @ ys) = ofType t xs @ ofType t ys"
  by (simp_all add: ofType_def)

lemma moveHistory_after:
  "completedMoveCount (moveHistory (publishAll evs serverBus s)) =
     completedMoveCount (moveHistory s) + of_nat (length (ofType MoveCompleted evs))"
  "lastCompletedMove (moveHistory (publishAll evs serverBus s)) =
     last (lastCompletedMove (moveHistory s) # ofType MoveCompleted evs)"
  by (induction evs arbitrary: s)
    (auto simp: publish_serverBus onMoveCompleted_def onScoreUpdated_def onGameStarted_def
      onGameEnded_def onEndedPublisher_def split: GameEventType.split)

lemma score_after:
  "updateCount (score (publishAll evs serverBus s)) =
     updateCount (score s) + of_nat (length (ofType ScoreUpdated evs))"
  "(subWhiteScore (score (publishAll evs serverBus s)), subBlackScore (score (publishAll evs serverBus s))) =
     last ((subWhiteScore (score s), subBlackScore (score s)) #
       map (\<lambda>ev. (g_whiteScore ev, g_blackScore ev)) (ofType ScoreUpdated evs))"
  by (induction evs arbitrary: s)
    (auto simp: publish_serverBus onMoveCompleted_def onScoreUpdated_def onGameStarted_def
      onGameEnded_def onEndedPublisher_def split: GameEventType.split)

lemma lifecycle_after:
  "startedCount (lifecycle (publishAll evs serverBus s)) =
     startedCount (lifecycle s) + of_nat (length (ofType GameStarted evs))"
  "endedCount (lifecycle (publishAll evs serverBus s)) =
     endedCount (lifecycle s) + of_nat (length (ofType GameEnded evs))"
  "ended (publisher (publishAll evs serverBus s)) \<longleftrightarrow>
     ended (publisher s) \<or> ofType GameEnded evs \<noteq> []"
  by (induction evs arbitrary: s)
    (auto simp: publish_serverBus onMoveCompleted_def onScoreUpdated_def onGameStarted_def
      onGameEnded_def onEndedPublisher_def split: GameEventType.split)

end
