(* ===== verification/Messages.thy ===== *)
theory Messages
  imports Core
begin

text \<open>
  The messages that cross the wire and the queues between a client and the engine:
  \<open>src/shared/cpp/include/Messaging/Message.hpp\<close> and \<open>GameStateSnapshot.hpp\<close>, and
  \<open>src/server/chess_server/src/Messaging/MessageBus.cpp\<close>. A sequence number is an
  \<open>unsigned long long\<close>, so a 64-bit word.
\<close>

section \<open>Snapshots\<close>

record PieceSnapshot =
  ps_id :: int
  ps_token :: string
  ps_position :: Position
  ps_state :: string
  ps_hasMoved :: bool
  ps_remainingCooldownMs :: int
  ps_totalCooldownMs :: int

record MotionSnapshot =
  ms_pieceId :: int
  ms_source :: Position
  ms_destination :: Position
  ms_currentCell :: Position
  ms_rowStep :: int
  ms_colStep :: int
  ms_directMove :: bool
  ms_stepDurationMs :: int
  ms_nextStepTimeMs :: int
  ms_order :: int

record JumpSnapshot =
  js_pieceId :: int
  js_cell :: Position
  js_finishTimeMs :: int

record MoveHistorySnapshot =
  hs_completedAtMs :: int
  hs_color :: string
  hs_pieceKind :: string
  hs_source :: Position
  hs_destination :: Position
  hs_wasCapture :: bool
  hs_wasPromotion :: bool
  hs_wasJump :: bool
  hs_notation :: string

record GameStateSnapshot =
  serverTimeMs :: int
  snapGameOver :: bool
  snapWhiteScore :: int
  snapBlackScore :: int
  snapWhiteUsername :: string
  snapBlackUsername :: string
  playersReady :: bool
  gameplayStartsAtEpochMs :: int
  snapPieces :: "PieceSnapshot list"
  snapMotions :: "MotionSnapshot list"
  snapJumps :: "JumpSnapshot list"
  snapWhiteMoveHistory :: "MoveHistorySnapshot list"
  snapBlackMoveHistory :: "MoveHistorySnapshot list"

definition newSnapshot :: GameStateSnapshot where
  "newSnapshot = \<lparr>serverTimeMs = 0, snapGameOver = False, snapWhiteScore = 0,
     snapBlackScore = 0, snapWhiteUsername = [], snapBlackUsername = [], playersReady = False,
     gameplayStartsAtEpochMs = 0, snapPieces = [], snapMotions = [], snapJumps = [],
     snapWhiteMoveHistory = [], snapBlackMoveHistory = []\<rparr>"

section \<open>Messages\<close>

datatype MessageType =
    MoveRequest | JumpRequest | MoveAccepted | MoveRejected | PlayerAssigned
  | WaitingForOpponent | GameStarted | GameFull | InvalidUsername | ReconnectRequest
  | Reconnecting | GameClosed | GameStateUpdated | GameOver

record Message =
  msgType :: MessageType
  sequence :: "64 word"
  msgSource :: Position
  msgDestination :: Position
  accepted :: bool
  reason :: string
  playerColor :: string
  reconnectToken :: string
  username :: string
  whiteUsername :: string
  blackUsername :: string
  secondsRemaining :: int
  createdAtMs :: int
  hasSnapshot :: bool
  snapshot :: GameStateSnapshot

definition newMessage :: Message where
  "newMessage = \<lparr>msgType = MoveRejected, sequence = 0, msgSource = noPosition,
     msgDestination = noPosition, accepted = False, reason = [], playerColor = [],
     reconnectToken = [], username = [], whiteUsername = [], blackUsername = [],
     secondsRemaining = 0, createdAtMs = 0, hasSnapshot = False, snapshot = newSnapshot\<rparr>"

section \<open>The message bus\<close>

text \<open>Receiving from an empty queue throws \<open>std::runtime_error\<close>.\<close>

datatype busError = NoMessageForEngine | NoMessageForClient

record MessageBus =
  clientToEngine :: "Message list"
  engineToClient :: "Message list"

definition newMessageBus :: MessageBus where
  "newMessageBus = \<lparr>clientToEngine = [], engineToClient = []\<rparr>"

definition sendToEngine :: "Message \<Rightarrow> MessageBus \<Rightarrow> MessageBus" where
  "sendToEngine m b = b\<lparr>clientToEngine := clientToEngine b @ [m]\<rparr>"

definition hasMessageForEngine :: "MessageBus \<Rightarrow> bool" where
  "hasMessageForEngine b \<longleftrightarrow> \<not> clientToEngine b = []"

definition receiveForEngine :: "MessageBus \<Rightarrow> busError + Message \<times> MessageBus" where
  "receiveForEngine b =
     (case clientToEngine b of
        [] \<Rightarrow> Inl NoMessageForEngine
      | m # rest \<Rightarrow> Inr (m, b\<lparr>clientToEngine := rest\<rparr>))"

definition sendToClient :: "Message \<Rightarrow> MessageBus \<Rightarrow> MessageBus" where
  "sendToClient m b = b\<lparr>engineToClient := engineToClient b @ [m]\<rparr>"

definition hasMessageForClient :: "MessageBus \<Rightarrow> bool" where
  "hasMessageForClient b \<longleftrightarrow> \<not> engineToClient b = []"

definition receiveForClient :: "MessageBus \<Rightarrow> busError + Message \<times> MessageBus" where
  "receiveForClient b =
     (case engineToClient b of
        [] \<Rightarrow> Inl NoMessageForClient
      | m # rest \<Rightarrow> Inr (m, b\<lparr>engineToClient := rest\<rparr>))"

definition pendingEngineMessages :: "MessageBus \<Rightarrow> nat" where
  "pendingEngineMessages b = length (clientToEngine b)"

definition pendingClientMessages :: "MessageBus \<Rightarrow> nat" where
  "pendingClientMessages b = length (engineToClient b)"

definition clear :: "MessageBus \<Rightarrow> MessageBus" where
  "clear b = b\<lparr>clientToEngine := [], engineToClient := []\<rparr>"

definition noError :: "'e + 'a \<Rightarrow> 'a option" where
  "noError r = (case r of Inl _ \<Rightarrow> None | Inr x \<Rightarrow> Some x)"

interpretation engine_queue: fifo_queue
  "\<lambda>b m. sendToEngine m b" "\<lambda>b. noError (receiveForEngine b)" clientToEngine
  by unfold_locales (simp_all add: sendToEngine_def receiveForEngine_def noError_def)

interpretation client_queue: fifo_queue
  "\<lambda>b m. sendToClient m b" "\<lambda>b. noError (receiveForClient b)" engineToClient
  by unfold_locales (simp_all add: sendToClient_def receiveForClient_def noError_def)

lemma bus_frame [frame_simps]:
  "engineToClient (sendToEngine m b) = engineToClient b"
  "clientToEngine (sendToClient m b) = clientToEngine b"
  by (simp_all add: sendToEngine_def sendToClient_def)

end
