(* ===== verification/Cpp_Text.thy ===== *)
theory Cpp_Text
  imports Prelude
begin

text \<open>
  The parts of the C++ standard library on text that the program uses: \<open>std::isspace\<close> in the
  default locale, decimal output (\<open>std::to_string\<close> and \<open>operator<<\<close> on integers) and
  \<open>std::stoll\<close>. A string is a list of bytes; a scan position in a string is the rest of the
  string from it.
\<close>

section \<open>White space\<close>

definition isspace :: "char \<Rightarrow> bool" where
  "isspace c \<longleftrightarrow> c \<in> {CHR '' '', CHR 0x09, CHR 0x0A, CHR 0x0B, CHR 0x0C, CHR 0x0D}"

definition skipSpace :: "string \<Rightarrow> string" where
  "skipSpace s = dropWhile isspace s"

lemma skipSpace_id: "s = [] \<or> \<not> isspace (hd s) \<Longrightarrow> skipSpace s = s"
  by (cases s) (auto simp: skipSpace_def)

lemma skipSpace_idem [simp]: "skipSpace (skipSpace s) = skipSpace s"
  by (induction s) (simp_all add: skipSpace_def)

section \<open>Decimal output\<close>

definition digitChar :: "nat \<Rightarrow> char" where
  "digitChar d = ''0123456789'' ! d"

fun natDigits :: "nat \<Rightarrow> string" where
  "natDigits n = (if n < 10 then [digitChar n] else natDigits (n div 10) @ [digitChar (n mod 10)])"

declare natDigits.simps [simp del]

definition to_string :: "int \<Rightarrow> string" where
  "to_string i = (if i < 0 then CHR ''-'' # natDigits (nat (- i)) else natDigits (nat i))"

section \<open>Decimal input\<close>

definition isdigit :: "char \<Rightarrow> bool" where
  "isdigit c \<longleftrightarrow> c \<in> set ''0123456789''"

definition digitValue :: "char \<Rightarrow> nat" where
  "digitValue c = length (takeWhile (\<lambda>d. d \<noteq> c) ''0123456789'')"

definition digitsValue :: "string \<Rightarrow> nat" where
  "digitsValue ds = foldl (\<lambda>n c. 10 * n + digitValue c) 0 ds"

definition LLONG_MIN :: int where "LLONG_MIN = - (2 ^ 63)"

definition LLONG_MAX :: int where "LLONG_MAX = 2 ^ 63 - 1"

definition inLongLong :: "int \<Rightarrow> bool" where
  "inLongLong i \<longleftrightarrow> LLONG_MIN \<le> i \<and> i \<le> LLONG_MAX"

text \<open>
  \<open>std::stoll\<close> skips white space, reads an optional sign and as many digits as there are. It
  throws without a digit and when the value does not fit. The result is the value and the
  rest of the text after the characters used.
\<close>

definition stollDigits :: "bool \<Rightarrow> string \<Rightarrow> (int \<times> string) option" where
  "stollDigits negative s =
     (let ds = takeWhile isdigit s;
          v = (if negative then - int (digitsValue ds) else int (digitsValue ds))
      in if ds = [] then None
         else if \<not> inLongLong v then None
         else Some (v, dropWhile isdigit s))"

definition stoll :: "string \<Rightarrow> (int \<times> string) option" where
  "stoll s =
     (case skipSpace s of
        [] \<Rightarrow> None
      | c # rest \<Rightarrow>
          (if c = CHR ''-'' then stollDigits True rest
           else if c = CHR ''+'' then stollDigits False rest
           else stollDigits False (c # rest)))"

section \<open>Reading back what was written\<close>

lemma digit_less_cases:
  "(d::nat) < 10 \<Longrightarrow> d = 0 \<or> d = 1 \<or> d = 2 \<or> d = 3 \<or> d = 4 \<or> d = 5 \<or> d = 6 \<or> d = 7 \<or> d = 8 \<or> d = 9"
  by arith

lemma isdigit_digitChar [simp]: "d < 10 \<Longrightarrow> isdigit (digitChar d)"
  by (drule digit_less_cases) (auto simp: digitChar_def isdigit_def)

lemma digitValue_digitChar [simp]: "d < 10 \<Longrightarrow> digitValue (digitChar d) = d"
  by (drule digit_less_cases) (auto simp: digitChar_def digitValue_def)

lemma digitChar_plain:
  "isdigit c \<Longrightarrow> \<not> isspace c" "isdigit c \<Longrightarrow> c \<noteq> CHR ''-''" "isdigit c \<Longrightarrow> c \<noteq> CHR ''+''"
  by (auto simp: isdigit_def isspace_def)

lemma digitsValue_snoc: "digitsValue (ds @ [c]) = 10 * digitsValue ds + digitValue c"
  by (simp add: digitsValue_def)

lemma natDigits_nonempty [simp]: "natDigits n \<noteq> []"
  by (subst natDigits.simps) simp

lemma natDigits_digits: "c \<in> set (natDigits n) \<Longrightarrow> isdigit c"
proof (induction n rule: natDigits.induct)
  case (1 n)
  then show ?case
    by (cases "n < 10") (auto simp: natDigits.simps [of n])
qed

lemma digitsValue_natDigits [simp]: "digitsValue (natDigits n) = n"
proof (induction n rule: natDigits.induct)
  case (1 n)
  then show ?case
    by (cases "n < 10") (simp_all add: natDigits.simps [of n] digitsValue_snoc,
        simp add: digitsValue_def)
qed

definition noDigitFirst :: "string \<Rightarrow> bool" where
  "noDigitFirst s \<longleftrightarrow> s = [] \<or> \<not> isdigit (hd s)"

lemma takeWhile_natDigits:
  assumes "noDigitFirst rest"
  shows "takeWhile isdigit (natDigits n @ rest) = natDigits n"
    "dropWhile isdigit (natDigits n @ rest) = rest"
  using assms natDigits_digits [of _ n]
  by (cases rest; simp add: takeWhile_append dropWhile_append noDigitFirst_def)+

lemma stollDigits_natDigits:
  assumes "noDigitFirst rest" "inLongLong (if neg then - int n else int n)"
  shows "stollDigits neg (natDigits n @ rest) = Some (if neg then - int n else int n, rest)"
  using assms takeWhile_natDigits [OF assms(1), of n] by (auto simp: stollDigits_def Let_def)

lemma natDigits_hd: obtains c cs where "natDigits n = c # cs" "isdigit c"
  using natDigits_digits [of _ n] by (cases "natDigits n") auto

theorem stoll_to_string:
  assumes "noDigitFirst rest" "inLongLong i"
  shows "stoll (to_string i @ rest) = Some (i, rest)"
proof (cases "i < 0")
  case True
  then show ?thesis
    using stollDigits_natDigits [OF assms(1), of True "nat (- i)"] assms(2)
    by (simp add: stoll_def to_string_def skipSpace_def isspace_def)
next
  case False
  obtain c cs where ds: "natDigits (nat i) = c # cs" and c: "isdigit c"
    by (rule natDigits_hd)
  have "stollDigits False (c # cs @ rest) = Some (i, rest)"
    using stollDigits_natDigits [OF assms(1), of False "nat i"] assms(2) False ds by simp
  then show ?thesis
    using False ds digitChar_plain [OF c] by (simp add: stoll_def to_string_def skipSpace_def)
qed

interpretation decimal: codec to_string "\<lambda>s. map_option fst (stoll s)" inLongLong
  by unfold_locales (use stoll_to_string [of "[]"] in \<open>simp add: noDigitFirst_def\<close>)

lemma to_string_chars: "c \<in> set (to_string i) \<Longrightarrow> isdigit c \<or> c = CHR ''-''"
  by (auto simp: to_string_def dest: natDigits_digits split: if_splits)

lemma to_string_hd: "hd (to_string i @ s) = hd (to_string i)" "to_string i \<noteq> []"
  by (auto simp: to_string_def)

end
