(* ===== verification/Engine.thy ===== *)
theory Engine
  imports Rules Arbiter Events Messages Cpp_Text
begin

text \<open>
  The authoritative game engine: \<open>src/server/chess_server/src/Engine/GameEngine.cpp\<close>. The state
  is the engine's members plus the heap the pieces live in. The configuration of a piece is
  read from asset files on every request (\<open>PieceConfigReader::load\<close>, modelled in
  \<open>Piece_Config\<close>), so the operations that read it take the reader as the parameter \<open>cfg\<close>. The
  events given to the event bus are collected, in order, in \<open>published\<close>; \<open>eventBus\<close> says
  whether the engine has a bus at all. Bool-returning operations that also write are pairs.
\<close>

section \<open>State\<close>

record PieceStateConfig =
  moveTimePerCellMs :: int
  jumpDurationMs :: int
  shortCooldownMs :: int

type_synonym configReader = "string \<Rightarrow> string \<Rightarrow> PieceStateConfig"

record PendingCastle =
  pc_king :: ref
  pc_rook :: ref
  pc_kingSource :: Position
  pc_kingDestination :: Position
  pc_rookSource :: Position
  pc_rookDestination :: Position

record GameEngine =
  heap :: heap
  board :: Board
  realTime :: RealTimeArbiter
  gameOver :: bool
  whiteScore :: int
  blackScore :: int
  whiteMoveHistory :: "MoveHistoryEntry list"
  blackMoveHistory :: "MoveHistoryEntry list"
  pendingCastles :: "PendingCastle list"
  eventBus :: bool
  published :: "GameEvent list"

definition newGameEngine :: "heap \<Rightarrow> Board \<Rightarrow> bool \<Rightarrow> GameEngine" where
  "newGameEngine h b bus = \<lparr>heap = h, board = b, realTime = newArbiter, gameOver = False,
     whiteScore = 0, blackScore = 0, whiteMoveHistory = [], blackMoveHistory = [],
     pendingCastles = [], eventBus = bus, published = []\<rparr>"

definition getCurrentTimeMs :: "GameEngine \<Rightarrow> int" where
  "getCurrentTimeMs g = currentTimeMs (realTime g)"

definition pieceOf :: "GameEngine \<Rightarrow> ref \<Rightarrow> Piece" where
  "pieceOf g r = heap g r"

definition modifyPiece :: "(Piece \<Rightarrow> Piece) \<Rightarrow> ref \<Rightarrow> GameEngine \<Rightarrow> GameEngine" where
  "modifyPiece f r g = g\<lparr>heap := onPiece f r (heap g)\<rparr>"

definition onBoard :: "(Board \<Rightarrow> Board) \<Rightarrow> GameEngine \<Rightarrow> GameEngine" where
  "onBoard f g = g\<lparr>board := f (board g)\<rparr>"

definition onArbiter :: "(RealTimeArbiter \<Rightarrow> RealTimeArbiter) \<Rightarrow> GameEngine \<Rightarrow> GameEngine" where
  "onArbiter f g = g\<lparr>realTime := f (realTime g)\<rparr>"

definition onHeapArbiter ::
    "(heap \<times> RealTimeArbiter \<Rightarrow> heap \<times> RealTimeArbiter) \<Rightarrow> GameEngine \<Rightarrow> GameEngine" where
  "onHeapArbiter f g = (let (h, a) = f (heap g, realTime g) in g\<lparr>heap := h, realTime := a\<rparr>)"

definition publishEvent :: "GameEvent \<Rightarrow> GameEngine \<Rightarrow> GameEngine" where
  "publishEvent ev g = (if \<not> eventBus g then g else g\<lparr>published := published g @ [ev]\<rparr>)"

section \<open>Scores, history and the end of the game\<close>

definition getPieceValue :: "PieceKind \<Rightarrow> int" where
  "getPieceValue k =
     (case k of Pawn \<Rightarrow> 1 | Knight \<Rightarrow> 3 | Bishop \<Rightarrow> 3 | Rook \<Rightarrow> 5 | Queen \<Rightarrow> 9 | King \<Rightarrow> 0)"

definition addCaptureScore :: "PieceColor \<Rightarrow> PieceKind \<Rightarrow> GameEngine \<Rightarrow> GameEngine" where
  "addCaptureScore attackerColor capturedKind g =
     (let v = getPieceValue capturedKind in
      if v = 0 then g
      else let g1 = (if attackerColor = White then g\<lparr>whiteScore := whiteScore g + v\<rparr>
                     else g\<lparr>blackScore := blackScore g + v\<rparr>)
           in publishEvent (newGameEvent\<lparr>g_type := ScoreUpdated,
                g_whiteScore := whiteScore g1, g_blackScore := blackScore g1\<rparr>) g1)"

definition publishMoveCompleted ::
    "MoveHistoryEntry \<Rightarrow> bool \<Rightarrow> PieceKind \<Rightarrow> PieceColor \<Rightarrow> GameEngine \<Rightarrow> GameEngine" where
  "publishMoveCompleted entry hasCapturedPiece capturedKind capturedColor g =
     publishEvent (newGameEvent\<lparr>g_type := MoveCompleted,
       g_source := h_source entry, g_destination := h_destination entry,
       g_movingPieceKind := h_pieceKind entry, g_movingPieceColor := h_color entry,
       g_wasCapture := h_wasCapture entry, g_hasCapturedPiece := hasCapturedPiece,
       g_capturedPieceKind := capturedKind, g_capturedPieceColor := capturedColor,
       g_wasPromotion := h_wasPromotion entry, g_wasJump := h_wasJump entry,
       g_completedAtMs := h_completedAtMs entry,
       g_whiteScore := whiteScore g, g_blackScore := blackScore g\<rparr>) g"

definition endGame :: "PieceColor \<Rightarrow> string \<Rightarrow> GameEngine \<Rightarrow> GameEngine" where
  "endGame winner endReason g =
     (if gameOver g then g
      else let g1 = g\<lparr>gameOver := True\<rparr>
           in publishEvent (newGameEvent\<lparr>g_type := GameEnded, g_hasWinner := True,
                g_winner := winner, g_gameEndReason := endReason,
                g_whiteScore := whiteScore g1, g_blackScore := blackScore g1\<rparr>) g1)"

text \<open>The column letter \<open>'a' + col\<close>, cut to one \<open>char\<close>.\<close>

definition columnLetter :: "int \<Rightarrow> char" where
  "columnLetter col = char_of (nat ((97 + col) mod 256))"

definition buildMoveNotation ::
    "GameEngine \<Rightarrow> PieceKind \<Rightarrow> Position \<Rightarrow> Position \<Rightarrow> bool \<Rightarrow> bool \<Rightarrow> string" where
  "buildMoveNotation g kind source destination wasCapture wasPromotion =
     (if kind \<noteq> Pawn then [kindToChar kind]
      else if wasCapture then [columnLetter (getCol source)] else []) @
     (if wasCapture then ''x'' else []) @
     [columnLetter (getCol destination)] @
     to_string (getHeight (board g) - getRow destination) @
     (if wasPromotion then ''=Q'' else [])"

definition pushHistory :: "MoveHistoryEntry \<Rightarrow> GameEngine \<Rightarrow> GameEngine" where
  "pushHistory entry g =
     (if h_color entry = White then g\<lparr>whiteMoveHistory := whiteMoveHistory g @ [entry]\<rparr>
      else g\<lparr>blackMoveHistory := blackMoveHistory g @ [entry]\<rparr>)"

definition recordMove ::
    "ref \<Rightarrow> PieceKind \<Rightarrow> Position \<Rightarrow> Position \<Rightarrow> bool \<Rightarrow> bool \<Rightarrow> bool \<Rightarrow> int \<Rightarrow> GameEngine \<Rightarrow> GameEngine" where
  "recordMove piece originalKind source destination wasCapture wasPromotion wasJump completedAtMs g =
     (let entry = newMoveHistoryEntry\<lparr>h_completedAtMs := completedAtMs,
            h_color := getColor (pieceOf g piece), h_pieceKind := originalKind,
            h_source := source, h_destination := destination, h_wasCapture := wasCapture,
            h_wasPromotion := wasPromotion, h_wasJump := wasJump,
            h_notation := buildMoveNotation g originalKind source destination wasCapture wasPromotion\<rparr>
      in pushHistory entry g)"

section \<open>Where a piece is\<close>

definition findPieceAtRealOrVirtualCell :: "GameEngine \<Rightarrow> Position \<Rightarrow> ref \<Rightarrow> ref option" where
  "findPieceAtRealOrVirtualCell g cell exceptPiece =
     (case find (\<lambda>m. m_piece m \<noteq> exceptPiece \<and> getState (pieceOf g (m_piece m)) = Moving \<and>
                     m_currentCell m = cell) (activeMotions (realTime g)) of
        Some m \<Rightarrow> Some (m_piece m)
      | None \<Rightarrow>
          (case getPieceAt (board g) cell of
             None \<Rightarrow> None
           | Some boardPiece \<Rightarrow>
               (if boardPiece = exceptPiece then None
                else if getState (pieceOf g boardPiece) = Moving \<and>
                        (\<exists>m \<in> set (activeMotions (realTime g)).
                           m_piece m = boardPiece \<and> m_currentCell m \<noteq> cell)
                then None
                else Some boardPiece)))"

definition getLogicalCellOfPiece :: "GameEngine \<Rightarrow> ref \<Rightarrow> Position" where
  "getLogicalCellOfPiece g piece =
     (case find (\<lambda>cell. getPieceAt (board g) cell = Some piece) (boardPositions (board g)) of
        Some cell \<Rightarrow> cell
      | None \<Rightarrow> noPosition)"

definition removePieceFromBoard :: "ref \<Rightarrow> GameEngine \<Rightarrow> GameEngine" where
  "removePieceFromBoard piece g =
     (let cell = getLogicalCellOfPiece g piece
      in if isInside (board g) cell then onBoard (\<lambda>b. removePiece b cell) g else g)"

definition commitPieceToCell :: "ref \<Rightarrow> Position \<Rightarrow> Position \<Rightarrow> GameEngine \<Rightarrow> GameEngine" where
  "commitPieceToCell piece source destination g =
     (if \<not> isInside (board g) destination then g
      else let g1 = (if getPieceAt (board g) source = Some piece
                     then onBoard (\<lambda>b. removePiece b source) g else g)
           in onBoard (\<lambda>b. setPieceAt b destination (Some piece)) g1)"

definition promotePawnIfNeeded :: "ref \<Rightarrow> Position \<Rightarrow> GameEngine \<Rightarrow> bool \<times> GameEngine" where
  "promotePawnIfNeeded piece cell g =
     (if getKind (pieceOf g piece) \<noteq> Pawn then (False, g)
      else let promoteWhite = (getColor (pieceOf g piece) = White \<and> getRow cell = 0);
               promoteBlack = (getColor (pieceOf g piece) = Black \<and>
                               getRow cell = getHeight (board g) - 1)
           in if \<not> promoteWhite \<and> \<not> promoteBlack then (False, g)
              else (True, modifyPiece (setKind Queen) piece g))"

section \<open>Castling\<close>

definition isCastlingRequest :: "GameEngine \<Rightarrow> Position \<Rightarrow> Position \<Rightarrow> bool" where
  "isCastlingRequest g source destination \<longleftrightarrow>
     (case getPieceAt (board g) source of
        None \<Rightarrow> False
      | Some piece \<Rightarrow> getKind (pieceOf g piece) = King \<and> getRow source = getRow destination \<and>
          \<bar>getCol destination - getCol source\<bar> = 2)"

definition attackedFrom :: "GameEngine \<Rightarrow> Position \<Rightarrow> PieceColor \<Rightarrow> Position \<Rightarrow> bool" where
  "attackedFrom g cell byColor source =
     (case getPieceAt (board g) source of
        None \<Rightarrow> False
      | Some attacker \<Rightarrow>
          (let p = pieceOf g attacker in
           if getColor p \<noteq> byColor \<or> getState p = Captured then False
           else case getKind p of
             Pawn \<Rightarrow> (let direction = (if byColor = White then -1 else 1)
                      in getRow cell - getRow source = direction \<and>
                         \<bar>getCol cell - getCol source\<bar> = 1)
           | King \<Rightarrow> canMoveLikeKing source cell
           | Knight \<Rightarrow> canMoveLikeKnight source cell
           | Rook \<Rightarrow> canMoveLikeRook (board g) source cell
           | Bishop \<Rightarrow> canMoveLikeBishop (board g) source cell
           | Queen \<Rightarrow> canMoveLikeQueen (board g) source cell))"

definition isSquareAttacked :: "GameEngine \<Rightarrow> Position \<Rightarrow> PieceColor \<Rightarrow> bool" where
  "isSquareAttacked g cell byColor = list_ex (attackedFrom g cell byColor) (boardPositions (board g))"

text \<open>
  The scan between king and rook, for \<open>col\<close> from the king's neighbour up to the rook's
  column: the columns strictly between the two.
\<close>

definition columnsBetween :: "int \<Rightarrow> int \<Rightarrow> int list" where
  "columnsBetween from to = (if from < to then [from + 1..to - 1] else rev [to + 1..from - 1])"

definition canCastle :: "GameEngine \<Rightarrow> Position \<Rightarrow> Position \<Rightarrow> PendingCastle option" where
  "canCastle g source destination =
     (if getHeight (board g) \<noteq> 8 \<or> getWidth (board g) \<noteq> 8 \<or> getCol source \<noteq> 4 then None
      else case getPieceAt (board g) source of
        None \<Rightarrow> None
      | Some king \<Rightarrow>
          (if getKind (pieceOf g king) \<noteq> King \<or> hasMoved (pieceOf g king) then None
           else let homeRow = (if getColor (pieceOf g king) = White then 7 else 0) in
             if getRow source \<noteq> homeRow \<or> getRow destination \<noteq> homeRow then None
             else let direction = (if getCol destination > getCol source then 1 else -1);
                      rookSource = Position homeRow (if direction > 0 then 7 else 0);
                      rookDestination = Position homeRow (getCol source + direction)
                  in case getPieceAt (board g) rookSource of
                       None \<Rightarrow> None
                     | Some rook \<Rightarrow>
                         (let k = pieceOf g king; r = pieceOf g rook in
                          if getKind r \<noteq> Rook \<or> getColor r \<noteq> getColor k \<or> hasMoved r \<or>
                             getState r \<noteq> Idle \<or> isOnCooldown (getCurrentTimeMs g) r then None
                          else if list_ex (\<lambda>col. \<not> isEmpty (board g) (Position homeRow col))
                                    (columnsBetween (getCol source) (getCol rookSource)) then None
                          else let enemy = (if getColor k = White then Black else White);
                                   middle = Position homeRow (getCol source + direction)
                               in if isSquareAttacked g source enemy \<or> isSquareAttacked g middle enemy \<or>
                                     isSquareAttacked g destination enemy then None
                                  else Some \<lparr>pc_king = king, pc_rook = rook,
                                         pc_kingSource = source, pc_kingDestination = destination,
                                         pc_rookSource = rookSource,
                                         pc_rookDestination = rookDestination\<rparr>)))"

fun removeFirst :: "('a \<Rightarrow> bool) \<Rightarrow> 'a list \<Rightarrow> 'a list" where
  "removeFirst P [] = []"
| "removeFirst P (x # xs) = (if P x then xs else x # removeFirst P xs)"

definition completeCastle :: "PendingCastle \<Rightarrow> int \<Rightarrow> GameEngine \<Rightarrow> GameEngine" where
  "completeCastle castle completedAt g =
     (let g1 = onBoard (\<lambda>b. removePiece b (pc_kingSource castle)) g;
          g2 = onBoard (\<lambda>b. removePiece b (pc_rookSource castle)) g1;
          g3 = onBoard (\<lambda>b. setPieceAt b (pc_kingDestination castle) (Some (pc_king castle))) g2;
          g4 = onBoard (\<lambda>b. setPieceAt b (pc_rookDestination castle) (Some (pc_rook castle))) g3;
          g5 = modifyPiece (setState Idle) (pc_king castle) g4;
          g6 = modifyPiece (setState Idle) (pc_rook castle) g5;
          g7 = modifyPiece (startCooldown completedAt 2000) (pc_king castle) g6;
          g8 = modifyPiece (startCooldown completedAt 2000) (pc_rook castle) g7;
          g9 = onArbiter (finishMotion (pc_king castle)) g8;
          g10 = onArbiter (finishMotion (pc_rook castle)) g9;
          entry = newMoveHistoryEntry\<lparr>h_completedAtMs := completedAt,
                    h_color := getColor (pieceOf g10 (pc_king castle)), h_pieceKind := King,
                    h_source := pc_kingSource castle, h_destination := pc_kingDestination castle,
                    h_notation := (if getCol (pc_kingDestination castle) > getCol (pc_kingSource castle)
                                   then ''O-O'' else ''O-O-O'')\<rparr>;
          g11 = pushHistory entry g10
      in publishMoveCompleted entry False Pawn Black g11)"

definition completeCastleFor :: "StepEvent \<Rightarrow> GameEngine \<Rightarrow> bool \<times> GameEngine" where
  "completeCastleFor event g =
     (let mine = (\<lambda>c. \<not> (s_piece event \<noteq> pc_king c \<and> s_piece event \<noteq> pc_rook c)) in
      case find mine (pendingCastles g) of
        None \<Rightarrow> (False, g)
      | Some castle \<Rightarrow>
          (let g1 = completeCastle castle (s_eventTimeMs event) g
           in (True, g1\<lparr>pendingCastles := removeFirst mine (pendingCastles g1)\<rparr>)))"

section \<open>Steps and landings\<close>

definition stopMovingPieceAt ::
    "ref \<Rightarrow> Position \<Rightarrow> Position \<Rightarrow> int \<Rightarrow> bool \<Rightarrow> PieceKind \<Rightarrow> PieceColor \<Rightarrow> GameEngine \<Rightarrow> GameEngine" where
  "stopMovingPieceAt piece source finalCell eventTimeMs wasCapture capturedKind capturedColor g =
     (let originalKind = getKind (pieceOf g piece);
          g1 = commitPieceToCell piece source finalCell g;
          (promoted, g2) = promotePawnIfNeeded piece finalCell g1;
          g3 = modifyPiece (setState Idle) piece g2;
          rowDistance = \<bar>getRow finalCell - getRow source\<bar>;
          colDistance = \<bar>getCol finalCell - getCol source\<bar>;
          dist = max rowDistance colDistance;
          g4 = modifyPiece (startCooldown eventTimeMs (dist * 1000)) piece g3;
          g5 = onArbiter (finishMotion piece) g4;
          g6 = recordMove piece originalKind source finalCell wasCapture promoted False eventTimeMs g5;
          history = (if getColor (pieceOf g6 piece) = White then whiteMoveHistory g6
                     else blackMoveHistory g6)
      in if history \<noteq> []
         then publishMoveCompleted (last history) wasCapture capturedKind capturedColor g6
         else g6)"

definition captureByJumper :: "ref \<Rightarrow> ref \<Rightarrow> GameEngine \<Rightarrow> GameEngine" where
  "captureByJumper piece target g =
     (let capturedKind = getKind (pieceOf g piece);
          capturedKing = (capturedKind = King);
          g1 = removePieceFromBoard piece g;
          g2 = modifyPiece (setState Captured) piece g1;
          g3 = onArbiter (cancelMotion piece) g2;
          g4 = addCaptureScore (getColor (pieceOf g3 target)) capturedKind g3
      in if capturedKing then endGame (getColor (pieceOf g4 target)) ''king_captured'' g4 else g4)"

definition captureTarget :: "ref \<Rightarrow> ref \<Rightarrow> Motion \<Rightarrow> StepEvent \<Rightarrow> GameEngine \<Rightarrow> GameEngine" where
  "captureTarget piece target motion event g =
     (let capturedKind = getKind (pieceOf g target);
          capturedKing = (capturedKind = King);
          g1 = modifyPiece (setState Captured) target g;
          g2 = removePieceFromBoard target g1;
          g3 = onArbiter (cancelMotion target) g2;
          g4 = addCaptureScore (getColor (pieceOf g3 piece)) capturedKind g3;
          g5 = onArbiter (updateMotionCell piece (s_to event)) g4;
          g6 = stopMovingPieceAt piece (m_source motion) (s_to event) (s_eventTimeMs event) True
                 capturedKind (getColor (pieceOf g5 target)) g5
      in if capturedKing then endGame (getColor (pieceOf g6 piece)) ''king_captured'' g6 else g6)"

definition processStepEvent :: "StepEvent \<Rightarrow> GameEngine \<Rightarrow> GameEngine" where
  "processStepEvent event g0 =
     (let piece = s_piece event in
      if getState (pieceOf g0 piece) \<noteq> Moving then g0
      else let (castled, g) = completeCastleFor event g0 in
        if castled then g
        else case find (\<lambda>m. m_piece m = piece) (activeMotions (realTime g)) of
          None \<Rightarrow> g
        | Some motion \<Rightarrow>
            (if \<not> isInside (board g) (s_to event)
             then stopMovingPieceAt piece (m_source motion) (s_from event) (s_eventTimeMs event)
                    False Pawn Black g
             else case findPieceAtRealOrVirtualCell g (s_to event) piece of
               None \<Rightarrow>
                 (let g1 = onArbiter (updateMotionCell piece (s_to event)) g
                  in if s_reachedDestination event
                     then stopMovingPieceAt piece (m_source motion) (s_to event)
                            (s_eventTimeMs event) False Pawn Black g1
                     else g1)
             | Some target \<Rightarrow>
                 (if getColor (pieceOf g target) = getColor (pieceOf g piece)
                  then stopMovingPieceAt piece (m_source motion) (s_from event)
                         (s_eventTimeMs event) False Pawn Black g
                  else if getState (pieceOf g target) = Airborne
                  then captureByJumper piece target g
                  else captureTarget piece target motion event g)))"

definition processJumpLanding :: "configReader \<Rightarrow> JumpLandingEvent \<Rightarrow> GameEngine \<Rightarrow> GameEngine" where
  "processJumpLanding cfg event g =
     (let piece = l_piece event in
      if getState (pieceOf g piece) \<noteq> Airborne then g
      else if getPieceAt (board g) (l_cell event) \<noteq> Some piece then g
      else let g1 = modifyPiece (setState Idle) piece g;
               jumpConfig = cfg (token (pieceOf g1 piece)) ''jump'';
               g2 = modifyPiece (startCooldown (l_eventTimeMs event) (shortCooldownMs jumpConfig)) piece g1;
               entry = newMoveHistoryEntry\<lparr>h_completedAtMs := l_eventTimeMs event,
                         h_color := getColor (pieceOf g2 piece), h_pieceKind := getKind (pieceOf g2 piece),
                         h_source := l_cell event, h_destination := l_cell event,
                         h_wasJump := True, h_notation := ''Jump''\<rparr>;
               g3 = pushHistory entry g2
           in publishMoveCompleted entry False Pawn Black g3)"

definition applyTimeEvents :: "configReader \<Rightarrow> TimeEvents \<Rightarrow> GameEngine \<Rightarrow> GameEngine" where
  "applyTimeEvents cfg events g =
     fold (processJumpLanding cfg) (jumpLandings events) (fold processStepEvent (steps events) g)"

definition advance :: "int \<Rightarrow> GameEngine \<Rightarrow> TimeEvents \<times> GameEngine" where
  "advance ms g = (let (events, a) = advanceTime (heap g) ms (realTime g) in (events, g\<lparr>realTime := a\<rparr>))"

text \<open>
  The loop of \<open>GameEngine::wait\<close>: \<open>None\<close> would be a call that never returns.
\<close>

partial_function (option) waitLoop :: "configReader \<Rightarrow> TimeEvents \<Rightarrow> GameEngine \<Rightarrow> GameEngine option" where
  "waitLoop cfg events g =
     (if steps events \<noteq> [] \<or> jumpLandings events \<noteq> []
      then waitLoop cfg (fst (advance 0 (applyTimeEvents cfg events g)))
                        (snd (advance 0 (applyTimeEvents cfg events g)))
      else Some g)"

declare waitLoop.simps [code]

definition wait :: "configReader \<Rightarrow> int \<Rightarrow> GameEngine \<Rightarrow> GameEngine option" where
  "wait cfg ms g =
     (if ms < 0 then Some g else let (events, g1) = advance ms g in waitLoop cfg events g1)"

section \<open>Requests\<close>

definition requestMove ::
    "configReader \<Rightarrow> Position \<Rightarrow> Position \<Rightarrow> GameEngine \<Rightarrow> MoveResult \<times> GameEngine" where
  "requestMove cfg source destination g =
     (if gameOver g then (moveResult False R_GAME_OVER, g)
      else if \<not> isInside (board g) source \<or> \<not> isInside (board g) destination
      then (moveResult False R_OUTSIDE_BOARD, g)
      else case getPieceAt (board g) source of
        None \<Rightarrow> (moveResult False R_EMPTY_SOURCE, g)
      | Some piece \<Rightarrow>
          (if getState (pieceOf g piece) \<noteq> Idle \<or> isOnCooldown (getCurrentTimeMs g) (pieceOf g piece)
           then (moveResult False R_MOTION_IN_PROGRESS, g)
           else if isCastlingRequest g source destination then
             (case canCastle g source destination of
                None \<Rightarrow> (moveResult False R_ILLEGAL_PIECE_MOVE, g)
              | Some castle \<Rightarrow>
                  (let kingConfig = cfg (token (pieceOf g (pc_king castle))) ''move'';
                       duration = max 1 (moveTimePerCellMs kingConfig * 2);
                       g1 = modifyPiece markAsMoved (pc_king castle) g;
                       g2 = modifyPiece markAsMoved (pc_rook castle) g1;
                       g3 = onHeapArbiter (startMotion (Some (pc_king castle)) (pc_kingSource castle)
                              (pc_kingDestination castle) duration True) g2;
                       g4 = onHeapArbiter (startMotion (Some (pc_rook castle)) (pc_rookSource castle)
                              (pc_rookDestination castle) duration True) g3
                   in (moveResult True R_OK, g4\<lparr>pendingCastles := pendingCastles g4 @ [castle]\<rparr>)))
           else let v = validateMove (heap g) (board g) source destination in
             if \<not> isValid v then (moveResult False (validationReason v), g)
             else let moveConfig = cfg (token (pieceOf g piece)) ''move'';
                      g1 = modifyPiece markAsMoved piece g;
                      g2 = onHeapArbiter (startMotion (Some piece) source destination
                             (moveTimePerCellMs moveConfig) False) g1
                  in (moveResult True R_OK, g2)))"

definition requestJump :: "configReader \<Rightarrow> Position \<Rightarrow> GameEngine \<Rightarrow> MoveResult \<times> GameEngine" where
  "requestJump cfg cell g =
     (if gameOver g then (moveResult False R_GAME_OVER, g)
      else if \<not> isInside (board g) cell then (moveResult False R_OUTSIDE_BOARD, g)
      else case getPieceAt (board g) cell of
        None \<Rightarrow> (moveResult False R_EMPTY_SOURCE, g)
      | Some piece \<Rightarrow>
          (if getState (pieceOf g piece) \<noteq> Idle \<or> isOnCooldown (getCurrentTimeMs g) (pieceOf g piece)
           then (moveResult False R_CANNOT_JUMP, g)
           else let jumpConfig = cfg (token (pieceOf g piece)) ''jump'';
                    g1 = onHeapArbiter (startJump (Some piece) cell (jumpDurationMs jumpConfig)) g
                in (moveResult True R_JUMP_STARTED, g1)))"

definition handleMessage :: "configReader \<Rightarrow> Message \<Rightarrow> GameEngine \<Rightarrow> Message \<times> GameEngine" where
  "handleMessage cfg request g =
     (let response = newMessage\<lparr>sequence := sequence request, msgSource := msgSource request,
            msgDestination := msgDestination request, createdAtMs := getCurrentTimeMs g\<rparr>;
          answer = (\<lambda>(result, g').
            (response\<lparr>accepted := isAccepted result, reason := moveReason result,
               msgType := (if isAccepted result then MoveAccepted else MoveRejected)\<rparr>, g'))
      in case msgType request of
           MoveRequest \<Rightarrow> answer (requestMove cfg (msgSource request) (msgDestination request) g)
         | JumpRequest \<Rightarrow> answer (requestJump cfg (msgSource request) g)
         | _ \<Rightarrow> (response\<lparr>msgType := MoveRejected, accepted := False,
                  reason := ''unsupported_request_type''\<rparr>, g))"

end
