(* ===== verification/Engine_Steps.thy ===== *)
theory Engine_Steps
  imports Engine
begin

text \<open>
  What each operation of the engine does to each part of its state. The lemmas are rewrite
  rules, collected in \<open>frame_simps\<close>, so that the invariants of \<open>Engine_Invariant\<close> are proved
  per part of the state without unfolding the operations again.
\<close>

section \<open>Small steps\<close>

lemma modifyPiece_frame [frame_simps]:
  "heap (modifyPiece f r g) = onPiece f r (heap g)"
  "board (modifyPiece f r g) = board g" "realTime (modifyPiece f r g) = realTime g"
  "gameOver (modifyPiece f r g) = gameOver g" "whiteScore (modifyPiece f r g) = whiteScore g"
  "blackScore (modifyPiece f r g) = blackScore g"
  "whiteMoveHistory (modifyPiece f r g) = whiteMoveHistory g"
  "blackMoveHistory (modifyPiece f r g) = blackMoveHistory g"
  "pendingCastles (modifyPiece f r g) = pendingCastles g"
  "eventBus (modifyPiece f r g) = eventBus g" "published (modifyPiece f r g) = published g"
  by (simp_all add: modifyPiece_def)

lemma onBoard_frame [frame_simps]:
  "heap (onBoard f g) = heap g" "board (onBoard f g) = f (board g)"
  "realTime (onBoard f g) = realTime g" "gameOver (onBoard f g) = gameOver g"
  "whiteScore (onBoard f g) = whiteScore g" "blackScore (onBoard f g) = blackScore g"
  "whiteMoveHistory (onBoard f g) = whiteMoveHistory g"
  "blackMoveHistory (onBoard f g) = blackMoveHistory g"
  "pendingCastles (onBoard f g) = pendingCastles g"
  "eventBus (onBoard f g) = eventBus g" "published (onBoard f g) = published g"
  by (simp_all add: onBoard_def)

lemma onArbiter_frame [frame_simps]:
  "heap (onArbiter f g) = heap g" "board (onArbiter f g) = board g"
  "realTime (onArbiter f g) = f (realTime g)" "gameOver (onArbiter f g) = gameOver g"
  "whiteScore (onArbiter f g) = whiteScore g" "blackScore (onArbiter f g) = blackScore g"
  "whiteMoveHistory (onArbiter f g) = whiteMoveHistory g"
  "blackMoveHistory (onArbiter f g) = blackMoveHistory g"
  "pendingCastles (onArbiter f g) = pendingCastles g"
  "eventBus (onArbiter f g) = eventBus g" "published (onArbiter f g) = published g"
  by (simp_all add: onArbiter_def)

lemma onHeapArbiter_frame [frame_simps]:
  "heap (onHeapArbiter f g) = fst (f (heap g, realTime g))"
  "board (onHeapArbiter f g) = board g"
  "realTime (onHeapArbiter f g) = snd (f (heap g, realTime g))"
  "gameOver (onHeapArbiter f g) = gameOver g" "whiteScore (onHeapArbiter f g) = whiteScore g"
  "blackScore (onHeapArbiter f g) = blackScore g"
  "whiteMoveHistory (onHeapArbiter f g) = whiteMoveHistory g"
  "blackMoveHistory (onHeapArbiter f g) = blackMoveHistory g"
  "pendingCastles (onHeapArbiter f g) = pendingCastles g"
  "eventBus (onHeapArbiter f g) = eventBus g" "published (onHeapArbiter f g) = published g"
  by (simp_all add: onHeapArbiter_def case_prod_beta Let_def)

lemma publishEvent_frame [frame_simps]:
  "heap (publishEvent ev g) = heap g" "board (publishEvent ev g) = board g"
  "realTime (publishEvent ev g) = realTime g" "gameOver (publishEvent ev g) = gameOver g"
  "whiteScore (publishEvent ev g) = whiteScore g" "blackScore (publishEvent ev g) = blackScore g"
  "whiteMoveHistory (publishEvent ev g) = whiteMoveHistory g"
  "blackMoveHistory (publishEvent ev g) = blackMoveHistory g"
  "pendingCastles (publishEvent ev g) = pendingCastles g"
  "eventBus (publishEvent ev g) = eventBus g"
  "published (publishEvent ev g) = (if eventBus g then published g @ [ev] else published g)"
  by (simp_all add: publishEvent_def)

lemma pushHistory_frame [frame_simps]:
  "heap (pushHistory e g) = heap g" "board (pushHistory e g) = board g"
  "realTime (pushHistory e g) = realTime g" "gameOver (pushHistory e g) = gameOver g"
  "whiteScore (pushHistory e g) = whiteScore g" "blackScore (pushHistory e g) = blackScore g"
  "whiteMoveHistory (pushHistory e g) =
     (if h_color e = White then whiteMoveHistory g @ [e] else whiteMoveHistory g)"
  "blackMoveHistory (pushHistory e g) =
     (if h_color e = White then blackMoveHistory g else blackMoveHistory g @ [e])"
  "pendingCastles (pushHistory e g) = pendingCastles g"
  "eventBus (pushHistory e g) = eventBus g" "published (pushHistory e g) = published g"
  by (simp_all add: pushHistory_def)

lemma pieceOf_eq [simp]: "pieceOf g r = heap g r"
  by (simp add: pieceOf_def)

lemma getPieceValue_nonneg [simp]: "0 \<le> getPieceValue k"
  by (cases k) (simp_all add: getPieceValue_def)

lemma getPieceValue_zero: "getPieceValue k = 0 \<longleftrightarrow> k = King"
  by (cases k) (simp_all add: getPieceValue_def)

definition scoreEvent :: "int \<Rightarrow> int \<Rightarrow> GameEvent" where
  "scoreEvent w b = newGameEvent\<lparr>g_type := ScoreUpdated, g_whiteScore := w, g_blackScore := b\<rparr>"

lemma addCaptureScore_frame [frame_simps]:
  "heap (addCaptureScore c k g) = heap g" "board (addCaptureScore c k g) = board g"
  "realTime (addCaptureScore c k g) = realTime g" "gameOver (addCaptureScore c k g) = gameOver g"
  "whiteScore (addCaptureScore c k g) = whiteScore g + (if c = White then getPieceValue k else 0)"
  "blackScore (addCaptureScore c k g) = blackScore g + (if c = White then 0 else getPieceValue k)"
  "whiteMoveHistory (addCaptureScore c k g) = whiteMoveHistory g"
  "blackMoveHistory (addCaptureScore c k g) = blackMoveHistory g"
  "pendingCastles (addCaptureScore c k g) = pendingCastles g"
  "eventBus (addCaptureScore c k g) = eventBus g"
  "published (addCaptureScore c k g) =
     (if k = King \<or> \<not> eventBus g then published g
      else published g @ [scoreEvent (whiteScore (addCaptureScore c k g))
                            (blackScore (addCaptureScore c k g))])"
  by (simp_all add: addCaptureScore_def publishEvent_def Let_def scoreEvent_def getPieceValue_zero)

definition endEvent :: "PieceColor \<Rightarrow> string \<Rightarrow> int \<Rightarrow> int \<Rightarrow> GameEvent" where
  "endEvent c why w b = newGameEvent\<lparr>g_type := GameEnded, g_hasWinner := True, g_winner := c,
     g_gameEndReason := why, g_whiteScore := w, g_blackScore := b\<rparr>"

lemma endGame_frame [frame_simps]:
  "heap (endGame c why g) = heap g" "board (endGame c why g) = board g"
  "realTime (endGame c why g) = realTime g" "gameOver (endGame c why g)"
  "whiteScore (endGame c why g) = whiteScore g" "blackScore (endGame c why g) = blackScore g"
  "whiteMoveHistory (endGame c why g) = whiteMoveHistory g"
  "blackMoveHistory (endGame c why g) = blackMoveHistory g"
  "pendingCastles (endGame c why g) = pendingCastles g"
  "eventBus (endGame c why g) = eventBus g"
  "published (endGame c why g) =
     (if gameOver g \<or> \<not> eventBus g then published g
      else published g @ [endEvent c why (whiteScore g) (blackScore g)])"
  by (simp_all add: endGame_def publishEvent_def Let_def endEvent_def)

definition completedEvent ::
    "MoveHistoryEntry \<Rightarrow> bool \<Rightarrow> PieceKind \<Rightarrow> PieceColor \<Rightarrow> int \<Rightarrow> int \<Rightarrow> GameEvent" where
  "completedEvent entry hasCaptured k c w b = newGameEvent\<lparr>g_type := MoveCompleted,
     g_source := h_source entry, g_destination := h_destination entry,
     g_movingPieceKind := h_pieceKind entry, g_movingPieceColor := h_color entry,
     g_wasCapture := h_wasCapture entry, g_hasCapturedPiece := hasCaptured,
     g_capturedPieceKind := k, g_capturedPieceColor := c, g_wasPromotion := h_wasPromotion entry,
     g_wasJump := h_wasJump entry, g_completedAtMs := h_completedAtMs entry,
     g_whiteScore := w, g_blackScore := b\<rparr>"

lemma publishMoveCompleted_eq:
  "publishMoveCompleted e h k c g =
     publishEvent (completedEvent e h k c (whiteScore g) (blackScore g)) g"
  by (simp add: publishMoveCompleted_def completedEvent_def)

lemma event_types [simp]:
  "g_type (scoreEvent w b) = ScoreUpdated" "g_type (endEvent c y w b) = GameEnded"
  "g_type (completedEvent e h k c w b) = MoveCompleted"
  by (simp_all add: scoreEvent_def endEvent_def completedEvent_def)

section \<open>Removing, committing and promoting\<close>

lemma getLogicalCell_cases:
  assumes "wf_board (board g)"
  obtains (found) p where "getLogicalCellOfPiece g r = p" "getPieceAt (board g) p = Some r"
    | (absent) "getLogicalCellOfPiece g r = noPosition" "\<And>p. getPieceAt (board g) p \<noteq> Some r"
proof (cases "find (\<lambda>cell. getPieceAt (board g) cell = Some r) (boardPositions (board g))")
  case None
  then have "\<forall>p. isInside (board g) p \<longrightarrow> getPieceAt (board g) p \<noteq> Some r"
    by (simp add: find_None_all set_boardPositions)
  then have "\<And>p. getPieceAt (board g) p \<noteq> Some r"
    using getPieceAt_inside by blast
  with None show ?thesis by (intro absent) (simp_all add: getLogicalCellOfPiece_def)
next
  case (Some p)
  then have "getPieceAt (board g) p = Some r" using find_Some_in_set by fastforce
  with Some show ?thesis by (intro found) (simp_all add: getLogicalCellOfPiece_def)
qed

lemma noPosition_outside [simp]: "\<not> isInside b noPosition"
  by (simp add: isInside_iff noPosition_def)

lemma removePieceFromBoard_frame [frame_simps]:
  "heap (removePieceFromBoard r g) = heap g" "realTime (removePieceFromBoard r g) = realTime g"
  "gameOver (removePieceFromBoard r g) = gameOver g"
  "whiteScore (removePieceFromBoard r g) = whiteScore g"
  "blackScore (removePieceFromBoard r g) = blackScore g"
  "whiteMoveHistory (removePieceFromBoard r g) = whiteMoveHistory g"
  "blackMoveHistory (removePieceFromBoard r g) = blackMoveHistory g"
  "pendingCastles (removePieceFromBoard r g) = pendingCastles g"
  "eventBus (removePieceFromBoard r g) = eventBus g"
  "published (removePieceFromBoard r g) = published g"
  by (simp_all add: removePieceFromBoard_def Let_def frame_simps)

lemma removePieceFromBoard_board:
  assumes "wf_board (board g)"
  shows "board (removePieceFromBoard r g) = board g \<and> (\<forall>p. getPieceAt (board g) p \<noteq> Some r) \<or>
    (\<exists>p. getPieceAt (board g) p = Some r \<and>
         board (removePieceFromBoard r g) = setPieceAt (board g) p None)"
proof (rule getLogicalCell_cases [OF assms, of r])
  fix p
  assume cell: "getLogicalCellOfPiece g r = p" "getPieceAt (board g) p = Some r"
  then have "isInside (board g) p" using getPieceAt_inside by blast
  then have "board (removePieceFromBoard r g) = setPieceAt (board g) p None"
    using cell by (simp add: removePieceFromBoard_def frame_simps removePiece_eq)
  then show ?thesis using cell by blast
next
  assume "getLogicalCellOfPiece g r = noPosition" "\<And>p. getPieceAt (board g) p \<noteq> Some r"
  then show ?thesis by (simp add: removePieceFromBoard_def)
qed

lemma removePieceFromBoard_size [simp]:
  "wf_board (board g) \<Longrightarrow> wf_board (board (removePieceFromBoard r g))"
  "wf_board (board g) \<Longrightarrow> getHeight (board (removePieceFromBoard r g)) = getHeight (board g)"
  "wf_board (board g) \<Longrightarrow> getWidth (board (removePieceFromBoard r g)) = getWidth (board g)"
  using removePieceFromBoard_board [of g r] by auto

text \<open>With every piece on the board at most once, removing one leaves exactly the others.\<close>

lemma removePieceFromBoard_cells:
  assumes "wf_board (board g)" "grid.holds_once (board g)"
  shows "getPieceAt (board (removePieceFromBoard r g)) p =
     (if getPieceAt (board g) p = Some r then None else getPieceAt (board g) p)"
  using removePieceFromBoard_board [OF assms(1), of r]
proof (elim disjE exE conjE)
  assume "board (removePieceFromBoard r g) = board g" "\<forall>p. getPieceAt (board g) p \<noteq> Some r"
  then show ?thesis by simp
next
  fix q
  assume q: "getPieceAt (board g) q = Some r"
    and b: "board (removePieceFromBoard r g) = setPieceAt (board g) q None"
  have "isInside (board g) q" using q getPieceAt_inside by blast
  then have "getPieceAt (board (removePieceFromBoard r g)) p = (if p = q then None else getPieceAt (board g) p)"
    using b assms(1) by (simp add: cell_simps)
  moreover have "getPieceAt (board g) p = Some r \<longleftrightarrow> p = q"
    using q grid.holds_onceD [OF assms(2)] by blast
  ultimately show ?thesis by simp
qed

definition commitBoard :: "ref \<Rightarrow> Position \<Rightarrow> Position \<Rightarrow> Board \<Rightarrow> Board" where
  "commitBoard r s d b =
     (if \<not> isInside b d then b
      else setPieceAt (if getPieceAt b s = Some r then setPieceAt b s None else b) d (Some r))"

lemma commitPieceToCell_frame [frame_simps]:
  "heap (commitPieceToCell r s d g) = heap g"
  "board (commitPieceToCell r s d g) = commitBoard r s d (board g)"
  "realTime (commitPieceToCell r s d g) = realTime g"
  "gameOver (commitPieceToCell r s d g) = gameOver g"
  "whiteScore (commitPieceToCell r s d g) = whiteScore g"
  "blackScore (commitPieceToCell r s d g) = blackScore g"
  "whiteMoveHistory (commitPieceToCell r s d g) = whiteMoveHistory g"
  "blackMoveHistory (commitPieceToCell r s d g) = blackMoveHistory g"
  "pendingCastles (commitPieceToCell r s d g) = pendingCastles g"
  "eventBus (commitPieceToCell r s d g) = eventBus g"
  "published (commitPieceToCell r s d g) = published g"
  by (simp_all add: commitPieceToCell_def commitBoard_def Let_def frame_simps removePiece_eq)

lemma commitBoard_size [simp]:
  "wf_board b \<Longrightarrow> wf_board (commitBoard r s d b)"
  "getHeight (commitBoard r s d b) = getHeight b" "getWidth (commitBoard r s d b) = getWidth b"
  "isInside (commitBoard r s d b) p = isInside b p"
  by (simp_all add: commitBoard_def)

lemma commitBoard_cells:
  "wf_board b \<Longrightarrow> isInside b d \<Longrightarrow> getPieceAt (commitBoard r s d b) p =
     (if p = d then Some r else if p = s \<and> getPieceAt b s = Some r then None else getPieceAt b p)"
  by (auto simp: commitBoard_def cell_simps dest: getPieceAt_inside)

definition promotes :: "ref \<Rightarrow> Position \<Rightarrow> GameEngine \<Rightarrow> bool" where
  "promotes r c g = fst (promotePawnIfNeeded r c g)"

lemma promotePawn_eq:
  "promotePawnIfNeeded r c g =
     (promotes r c g, if promotes r c g then modifyPiece (setKind Queen) r g else g)"
  by (simp add: promotes_def promotePawnIfNeeded_def Let_def)

lemma promotes_iff:
  "promotes r c g \<longleftrightarrow> getKind (heap g r) = Pawn \<and>
     (getColor (heap g r) = White \<and> getRow c = 0 \<or>
      getColor (heap g r) = Black \<and> getRow c = getHeight (board g) - 1)"
  by (auto simp: promotes_def promotePawnIfNeeded_def Let_def)

section \<open>Stopping a moving piece\<close>

definition stopPiece :: "bool \<Rightarrow> int \<Rightarrow> int \<Rightarrow> Piece \<Rightarrow> Piece" where
  "stopPiece promoted t dist p =
     startCooldown t (dist * 1000) (setState Idle (if promoted then setKind Queen p else p))"

lemma stopPiece_fields [simp]:
  "getColor (stopPiece q t d p) = getColor p" "getId (stopPiece q t d p) = getId p"
  "getState (stopPiece q t d p) = Idle" "hasMoved (stopPiece q t d p) = hasMoved p"
  "getKind (stopPiece q t d p) = (if q then Queen else getKind p)"
  by (simp_all add: stopPiece_def piece_defs)

lemma cooldown_ok_stopPiece [simp]: "t \<le> now \<Longrightarrow> cooldown_ok now (stopPiece q t d p)"
  by (simp add: stopPiece_def cooldown_ok_start)

definition stopEntry ::
    "ref \<Rightarrow> Position \<Rightarrow> Position \<Rightarrow> int \<Rightarrow> bool \<Rightarrow> GameEngine \<Rightarrow> MoveHistoryEntry" where
  "stopEntry r s c t cap g = newMoveHistoryEntry\<lparr>h_completedAtMs := t,
     h_color := getColor (heap g r), h_pieceKind := getKind (heap g r), h_source := s,
     h_destination := c, h_wasCapture := cap, h_wasPromotion := promotes r c g,
     h_wasJump := False,
     h_notation := buildMoveNotation g (getKind (heap g r)) s c cap (promotes r c g)\<rparr>"

lemma promotes_commit [simp]: "promotes r c (commitPieceToCell r' s d g) = promotes r c g"
  by (simp add: promotes_iff frame_simps)

lemma stop_frame [frame_simps]:
  "heap (stopMovingPieceAt r s c t cap k col g) =
     onPiece (stopPiece (promotes r c g) t (distance s c)) r (heap g)"
  "board (stopMovingPieceAt r s c t cap k col g) = commitBoard r s c (board g)"
  "realTime (stopMovingPieceAt r s c t cap k col g) = cancelMotion r (realTime g)"
  "gameOver (stopMovingPieceAt r s c t cap k col g) = gameOver g"
  "whiteScore (stopMovingPieceAt r s c t cap k col g) = whiteScore g"
  "blackScore (stopMovingPieceAt r s c t cap k col g) = blackScore g"
  "pendingCastles (stopMovingPieceAt r s c t cap k col g) = pendingCastles g"
  "eventBus (stopMovingPieceAt r s c t cap k col g) = eventBus g"
  "whiteMoveHistory (stopMovingPieceAt r s c t cap k col g) =
     (if getColor (heap g r) = White then whiteMoveHistory g @ [stopEntry r s c t cap g]
      else whiteMoveHistory g)"
  "blackMoveHistory (stopMovingPieceAt r s c t cap k col g) =
     (if getColor (heap g r) = White then blackMoveHistory g
      else blackMoveHistory g @ [stopEntry r s c t cap g])"
  "published (stopMovingPieceAt r s c t cap k col g) =
     (if eventBus g then published g @ [completedEvent (stopEntry r s c t cap g) cap k col
        (whiteScore g) (blackScore g)] else published g)"
  by (simp_all add: stopMovingPieceAt_def recordMove_def promotePawn_eq publishMoveCompleted_eq
      Let_def frame_simps onPiece_def stopPiece_def stopEntry_def distance_def
      buildMoveNotation_def piece_defs)

end
