(* ===== verification/Engine_Invariant.thy ===== *)
theory Engine_Invariant
  imports Engine_Steps
begin

text \<open>
  The well-formedness invariant of the engine and its preservation by every operation, castling
  included: motions and moving pieces correspond, everything refers to cells of the board,
  cooldown clocks are consistent and scores are not negative. From it follows that
  \<open>GameEngine::wait\<close> always returns.
\<close>

section \<open>The invariant\<close>

abbreviation motions :: "GameEngine \<Rightarrow> Motion list" where
  "motions g \<equiv> activeMotions (realTime g)"

abbreviation jumps :: "GameEngine \<Rightarrow> Jump list" where
  "jumps g \<equiv> activeJumps (realTime g)"

abbreviation now :: "GameEngine \<Rightarrow> int" where
  "now g \<equiv> currentTimeMs (realTime g)"

abbreviation stateOf :: "GameEngine \<Rightarrow> ref \<Rightarrow> PieceState" where
  "stateOf g r \<equiv> getState (heap g r)"

abbreviation pieceAt :: "GameEngine \<Rightarrow> Position \<Rightarrow> ref option" where
  "pieceAt g p \<equiv> getPieceAt (board g) p"

definition movingOk :: "GameEngine \<Rightarrow> bool" where
  "movingOk g \<longleftrightarrow> (\<forall>m \<in> set (motions g). stateOf g (m_piece m) = Moving) \<and>
     (\<forall>p r. pieceAt g p = Some r \<longrightarrow> stateOf g r = Moving \<longrightarrow> (\<exists>m \<in> set (motions g). m_piece m = r))"

lemma movingOk_pieces:
  "movingOk g \<longleftrightarrow> (\<forall>r \<in> set (map m_piece (motions g)). stateOf g r = Moving) \<and>
     (\<forall>p r. pieceAt g p = Some r \<longrightarrow> stateOf g r = Moving \<longrightarrow> r \<in> set (map m_piece (motions g)))"
proof -
  have "(\<exists>m \<in> set (motions g). m_piece m = r) \<longleftrightarrow> r \<in> set (map m_piece (motions g))" for r
    by auto
  then show ?thesis unfolding movingOk_def by simp
qed

definition motionPlacesOk :: "Board \<Rightarrow> Motion \<Rightarrow> bool" where
  "motionPlacesOk b m \<longleftrightarrow>
     isInside b (m_source m) \<and> isInside b (m_destination m) \<and> isInside b (m_currentCell m)"

definition castlePlacesOk :: "Board \<Rightarrow> PendingCastle \<Rightarrow> bool" where
  "castlePlacesOk b c \<longleftrightarrow> isInside b (pc_kingSource c) \<and> isInside b (pc_kingDestination c) \<and>
     isInside b (pc_rookSource c) \<and> isInside b (pc_rookDestination c)"

text \<open>On a board with letters for its columns the notation is printable text.\<close>

definition printable :: "string \<Rightarrow> bool" where
  "printable t \<longleftrightarrow> (\<forall>c \<in> set t. 32 \<le> (of_char c :: nat))"

lemma printable_simps [simp]:
  "printable []" "printable (c # t) \<longleftrightarrow> 32 \<le> (of_char c :: nat) \<and> printable t"
  "printable (s @ t) \<longleftrightarrow> printable s \<and> printable t"
  by (auto simp: printable_def)

lemma printable_digits: "printable (natDigits n)"
proof -
  have "32 \<le> (of_char c :: nat)" if "isdigit c" for c using that by (auto simp: isdigit_def)
  then show ?thesis using natDigits_digits by (auto simp: printable_def)
qed

lemma printable_to_string: "printable (to_string i)"
  by (simp add: to_string_def printable_digits)

lemma printable_column: "0 \<le> c \<Longrightarrow> c < 26 \<Longrightarrow> 32 \<le> (of_char (columnLetter c) :: nat)"
  by (simp add: columnLetter_def)

lemma printable_notation:
  assumes "isInside b s" "isInside b d" "getWidth b \<le> 26"
  shows "printable (buildMoveNotation g k s d c q)"
proof -
  have "0 \<le> getCol s" "getCol s < 26" "0 \<le> getCol d" "getCol d < 26"
    using assms by (auto simp: isInside_iff)
  then show ?thesis
    by (cases k) (simp_all add: buildMoveNotation_def kindToChar_def printable_to_string printable_column)
qed

definition entryOk :: "Board \<Rightarrow> MoveHistoryEntry \<Rightarrow> bool" where
  "entryOk b e \<longleftrightarrow> isInside b (h_source e) \<and> isInside b (h_destination e) \<and> 0 \<le> h_completedAtMs e \<and>
     (getWidth b \<le> 26 \<longrightarrow> printable (h_notation e))"

definition placesOk :: "GameEngine \<Rightarrow> bool" where
  "placesOk g \<longleftrightarrow> (\<forall>m \<in> set (motions g). motionPlacesOk (board g) m) \<and>
     (\<forall>j \<in> set (jumps g). isInside (board g) (j_cell j)) \<and>
     (\<forall>c \<in> set (pendingCastles g). castlePlacesOk (board g) c) \<and>
     (\<forall>e \<in> set (whiteMoveHistory g) \<union> set (blackMoveHistory g). entryOk (board g) e)"

definition clockOk :: "GameEngine \<Rightarrow> bool" where
  "clockOk g \<longleftrightarrow> (\<forall>r. cooldown_ok (now g) (heap g r))"

definition engine_wf :: "GameEngine \<Rightarrow> bool" where
  "engine_wf g \<longleftrightarrow> wf_board (board g) \<and> wf_arbiter (realTime g) \<and> movingOk g \<and> placesOk g \<and>
     clockOk g \<and> 0 \<le> whiteScore g \<and> 0 \<le> blackScore g"

lemma engine_wfI:
  "wf_board (board g) \<Longrightarrow> wf_arbiter (realTime g) \<Longrightarrow> movingOk g \<Longrightarrow> placesOk g \<Longrightarrow> clockOk g \<Longrightarrow>
   0 \<le> whiteScore g \<Longrightarrow> 0 \<le> blackScore g \<Longrightarrow> engine_wf g"
  by (simp add: engine_wf_def)

lemma engine_wfD:
  assumes "engine_wf g"
  shows "wf_board (board g)" "wf_arbiter (realTime g)" "movingOk g" "placesOk g" "clockOk g"
    "0 \<le> whiteScore g" "0 \<le> blackScore g"
  using assms by (simp_all add: engine_wf_def)

text \<open>Events under way agree with the motion they came from.\<close>

definition stepOk :: "GameEngine \<Rightarrow> StepEvent \<Rightarrow> bool" where
  "stepOk g e \<longleftrightarrow> isInside (board g) (s_from e) \<and> 0 \<le> s_eventTimeMs e \<and> s_eventTimeMs e \<le> now g \<and>
     (\<forall>m \<in> set (motions g). m_piece m = s_piece e \<longrightarrow> e = stepEventOf m)"

definition landOk :: "GameEngine \<Rightarrow> JumpLandingEvent \<Rightarrow> bool" where
  "landOk g l \<longleftrightarrow> isInside (board g) (l_cell l) \<and> 0 \<le> l_eventTimeMs l \<and> l_eventTimeMs l \<le> now g"

section \<open>Parts of the state\<close>

lemma isInside_size: "getHeight b = getHeight b' \<Longrightarrow> getWidth b = getWidth b' \<Longrightarrow> isInside b p = isInside b' p"
  by (simp add: isInside_iff)

lemma placesOk_frame:
  assumes "placesOk g" "getHeight (board g') = getHeight (board g)" "getWidth (board g') = getWidth (board g)"
    "set (motions g') \<subseteq> set (motions g)" "set (jumps g') \<subseteq> set (jumps g)"
    "set (pendingCastles g') \<subseteq> set (pendingCastles g)"
    "set (whiteMoveHistory g') \<union> set (blackMoveHistory g') \<subseteq>
       insert e (set (whiteMoveHistory g) \<union> set (blackMoveHistory g))"
    "entryOk (board g) e \<or> set (whiteMoveHistory g') \<union> set (blackMoveHistory g') \<subseteq>
       set (whiteMoveHistory g) \<union> set (blackMoveHistory g)"
  shows "placesOk g'"
proof -
  have inside: "isInside (board g') p = isInside (board g) p" for p
    using assms(2,3) by (rule isInside_size)
  have "entryOk (board g) x" if "x \<in> set (whiteMoveHistory g') \<union> set (blackMoveHistory g')" for x
    using assms(1,7,8) that unfolding placesOk_def by blast
  then show ?thesis
    using assms(1,4,5,6) unfolding placesOk_def motionPlacesOk_def castlePlacesOk_def entryOk_def inside assms(3)
    by blast
qed

text \<open>
  Retiring pieces: their motions are gone and they do not move; every other piece is as
  before, and nothing else came onto the board.
\<close>

lemma movingOk_retire:
  assumes "movingOk g" "motions g' = filter (\<lambda>m. m_piece m \<notin> R) (motions g)"
    and same: "\<And>r. r \<notin> R \<Longrightarrow> stateOf g' r = stateOf g r"
    and retired: "\<And>r. r \<in> R \<Longrightarrow> stateOf g' r \<noteq> Moving"
    and from_board: "\<And>p r. pieceAt g' p = Some r \<Longrightarrow> r \<in> R \<or> (\<exists>q. pieceAt g q = Some r)"
  shows "movingOk g'"
  unfolding movingOk_def
proof (intro conjI ballI allI impI)
  fix m assume "m \<in> set (motions g')"
  then show "stateOf g' (m_piece m) = Moving"
    using assms(1,2) same by (auto simp: movingOk_def)
next
  fix p r assume p: "pieceAt g' p = Some r" and moving: "stateOf g' r = Moving"
  then have "r \<notin> R" using retired by blast
  with p moving obtain q where "pieceAt g q = Some r" "stateOf g r = Moving"
    using from_board same by metis
  with assms(1) obtain m where "m \<in> set (motions g)" "m_piece m = r"
    unfolding movingOk_def by blast
  with \<open>r \<notin> R\<close> assms(2) show "\<exists>m \<in> set (motions g'). m_piece m = r" by auto
qed

lemma commitBoard_from:
  assumes "wf_board b" "getPieceAt (commitBoard r s d b) p = Some r'"
  shows "r' = r \<or> getPieceAt b p = Some r'"
proof (cases "isInside b d")
  case True
  then show ?thesis using assms by (auto simp: commitBoard_cells split: if_splits)
next
  case False
  then show ?thesis using assms by (simp add: commitBoard_def)
qed

lemma removePieceFromBoard_from:
  assumes "wf_board (board g)" "pieceAt (removePieceFromBoard r g) p = Some r'"
  shows "pieceAt g p = Some r'"
  using removePieceFromBoard_board [OF assms(1), of r] assms by (auto simp: cell_simps split: if_splits)

lemma clockOk_update:
  assumes "clockOk g" "now g' = now g"
    and "\<And>r. heap g' r = heap g r \<or> cooldown_ok (now g) (heap g' r)"
  shows "clockOk g'"
  using assms unfolding clockOk_def by metis

section \<open>Stopping, capturing and castling\<close>

lemma wf_stop:
  assumes "engine_wf g" "isInside (board g) s" "isInside (board g) c" "0 \<le> t" "t \<le> now g"
  shows "engine_wf (stopMovingPieceAt r s c t cap k col g)"
proof (rule engine_wfI)
  let ?g = "stopMovingPieceAt r s c t cap k col g"
  note wf = engine_wfD [OF assms(1)]
  show "wf_board (board ?g)" using wf by (simp add: frame_simps)
  show "wf_arbiter (realTime ?g)" using wf by (simp add: frame_simps wf_cancelMotion)
  show "movingOk ?g"
  proof (rule movingOk_retire [OF wf(3), where R = "{r}"])
    show "pieceAt ?g p = Some r' \<Longrightarrow> r' \<in> {r} \<or> (\<exists>q. pieceAt g q = Some r')" for p r'
      using wf(1) by (auto simp: frame_simps dest: commitBoard_from)
  qed (auto simp: frame_simps onPiece_apply)
  show "placesOk ?g"
  proof (rule placesOk_frame [OF wf(4), where e = "stopEntry r s c t cap g"])
    show "entryOk (board g) (stopEntry r s c t cap g) \<or>
      set (whiteMoveHistory ?g) \<union> set (blackMoveHistory ?g) \<subseteq> set (whiteMoveHistory g) \<union> set (blackMoveHistory g)"
      using assms by (simp add: entryOk_def stopEntry_def printable_notation)
  qed (auto simp: frame_simps)
  show "clockOk ?g"
    by (rule clockOk_update [OF wf(5)]) (use assms in \<open>auto simp: frame_simps onPiece_apply\<close>)
  show "0 \<le> whiteScore ?g" "0 \<le> blackScore ?g" using wf by (simp_all add: frame_simps)
qed

definition capturePiece :: "ref \<Rightarrow> GameEngine \<Rightarrow> GameEngine" where
  "capturePiece r g =
     onArbiter (cancelMotion r) (removePieceFromBoard r (modifyPiece (setState Captured) r g))"

lemma removePieceFromBoard_modifyPiece:
  "modifyPiece f x (removePieceFromBoard r g) = removePieceFromBoard r (modifyPiece f x g)"
  by (simp add: removePieceFromBoard_def getLogicalCellOfPiece_def modifyPiece_def onBoard_def Let_def)

lemma removePieceFromBoard_board_heap:
  "board (removePieceFromBoard r (modifyPiece f x g)) = board (removePieceFromBoard r g)"
  by (simp add: removePieceFromBoard_modifyPiece [symmetric] frame_simps)

lemma capturePiece_frame [frame_simps]:
  "heap (capturePiece r g) = onPiece (setState Captured) r (heap g)"
  "board (capturePiece r g) = board (removePieceFromBoard r g)"
  "realTime (capturePiece r g) = cancelMotion r (realTime g)"
  "gameOver (capturePiece r g) = gameOver g" "whiteScore (capturePiece r g) = whiteScore g"
  "blackScore (capturePiece r g) = blackScore g"
  "whiteMoveHistory (capturePiece r g) = whiteMoveHistory g"
  "blackMoveHistory (capturePiece r g) = blackMoveHistory g"
  "pendingCastles (capturePiece r g) = pendingCastles g"
  "eventBus (capturePiece r g) = eventBus g" "published (capturePiece r g) = published g"
  by (simp_all add: capturePiece_def frame_simps removePieceFromBoard_board_heap)

lemma setState_fields [simp]:
  "getState (setState s p) = s" "getColor (setState s p) = getColor p"
  "getKind (setState s p) = getKind p" "getId (setState s p) = getId p"
  by (simp_all add: setState_def)

lemma wf_capture:
  assumes "engine_wf g"
  shows "engine_wf (capturePiece r g)"
proof (rule engine_wfI)
  let ?g = "capturePiece r g"
  note wf = engine_wfD [OF assms(1)]
  show "wf_board (board ?g)" using wf by (simp add: frame_simps)
  show "wf_arbiter (realTime ?g)" using wf by (simp add: frame_simps wf_cancelMotion)
  show "movingOk ?g"
  proof (rule movingOk_retire [OF wf(3), where R = "{r}"])
    show "pieceAt ?g p = Some r' \<Longrightarrow> r' \<in> {r} \<or> (\<exists>q. pieceAt g q = Some r')" for p r'
      using removePieceFromBoard_from [OF wf(1)] by (auto simp: frame_simps)
  qed (auto simp: frame_simps onPiece_apply)
  show "placesOk ?g"
    by (rule placesOk_frame [OF wf(4)]) (use wf(1) in \<open>auto simp: frame_simps\<close>)
  show "clockOk ?g"
    by (rule clockOk_update [OF wf(5)])
      (use wf(5) in \<open>auto simp: frame_simps onPiece_apply clockOk_def\<close>)
  show "0 \<le> whiteScore ?g" "0 \<le> blackScore ?g" using wf by (simp_all add: frame_simps)
qed

lemma wf_same_state:
  assumes "engine_wf g" "heap g' = heap g" "board g' = board g" "realTime g' = realTime g"
    "set (pendingCastles g') \<subseteq> set (pendingCastles g)" "whiteMoveHistory g' = whiteMoveHistory g"
    "blackMoveHistory g' = blackMoveHistory g" "0 \<le> whiteScore g'" "0 \<le> blackScore g'"
  shows "engine_wf g'"
  using assms by (auto simp: engine_wf_def movingOk_def placesOk_def clockOk_def)

lemma wf_addCaptureScore: "engine_wf g \<Longrightarrow> engine_wf (addCaptureScore c k g)"
  by (rule wf_same_state [of g]) (simp_all add: frame_simps engine_wf_def)

lemma wf_endGame: "engine_wf g \<Longrightarrow> engine_wf (endGame c why g)"
  by (rule wf_same_state [of g]) (simp_all add: frame_simps engine_wf_def)

lemma wf_publishEvent: "engine_wf g \<Longrightarrow> engine_wf (publishEvent ev g)"
  by (rule wf_same_state [of g]) (simp_all add: frame_simps engine_wf_def)

lemma wf_pushHistory:
  assumes "engine_wf g" "entryOk (board g) e"
  shows "engine_wf (pushHistory e g)"
proof (rule engine_wfI)
  note wf = engine_wfD [OF assms(1)]
  show "placesOk (pushHistory e g)"
    by (rule placesOk_frame [OF wf(4), where e = e]) (use assms(2) in \<open>auto simp: frame_simps\<close>)
  show "movingOk (pushHistory e g)" "clockOk (pushHistory e g)"
    using wf by (simp_all add: movingOk_def clockOk_def frame_simps)
qed (use engine_wfD [OF assms(1)] in \<open>simp_all add: frame_simps\<close>)

lemma wf_updateMotion:
  assumes "engine_wf g" "isInside (board g) p"
  shows "engine_wf (onArbiter (updateMotionCell r p) g)"
proof (rule engine_wfI)
  let ?g = "onArbiter (updateMotionCell r p) g"
  note wf = engine_wfD [OF assms(1)]
  have ms: "motions ?g = map (\<lambda>m. if m_piece m = r then advanceMotion p m else m) (motions g)"
    using updateMotionCell_motions [OF wf(2)] by (simp add: frame_simps)
  show "wf_arbiter (realTime ?g)" using wf by (simp add: frame_simps wf_updateMotionCell)
  have "map m_piece (motions ?g) = map m_piece (motions g)" unfolding ms by simp
  then show "movingOk ?g"
    using wf(3) unfolding movingOk_pieces by (simp only: frame_simps)
  show "placesOk ?g"
    using wf(4) assms(2) unfolding placesOk_def ms by (auto simp: frame_simps motionPlacesOk_def)
  show "clockOk ?g" using wf(5) by (simp add: clockOk_def frame_simps)
qed (use engine_wfD [OF assms(1)] in \<open>simp_all add: frame_simps\<close>)

lemma captureByJumper_eq:
  "captureByJumper r t g =
     (let g1 = addCaptureScore (getColor (heap (capturePiece r g) t)) (getKind (heap g r)) (capturePiece r g)
      in if getKind (heap g r) = King then endGame (getColor (heap g1 t)) ''king_captured'' g1 else g1)"
  by (simp add: captureByJumper_def Let_def capturePiece_def removePieceFromBoard_modifyPiece)

lemma captureTarget_eq:
  "captureTarget r t m e g =
     (let g1 = addCaptureScore (getColor (heap (capturePiece t g) r)) (getKind (heap g t)) (capturePiece t g);
          g2 = onArbiter (updateMotionCell r (s_to e)) g1;
          g3 = stopMovingPieceAt r (m_source m) (s_to e) (s_eventTimeMs e) True (getKind (heap g t))
                 (getColor (heap g2 t)) g2
      in if getKind (heap g t) = King then endGame (getColor (heap g3 r)) ''king_captured'' g3 else g3)"
  by (simp add: captureTarget_def Let_def capturePiece_def)

lemma wf_captureByJumper: "engine_wf g \<Longrightarrow> engine_wf (captureByJumper r t g)"
  by (simp add: captureByJumper_eq Let_def wf_endGame wf_addCaptureScore wf_capture)

lemma wf_captureTarget:
  assumes "engine_wf g" "isInside (board g) (m_source m)" "isInside (board g) (s_to e)"
    "0 \<le> s_eventTimeMs e" "s_eventTimeMs e \<le> now g"
  shows "engine_wf (captureTarget r t m e g)"
proof -
  have size: "getHeight (board (removePieceFromBoard t g)) = getHeight (board g)"
    "getWidth (board (removePieceFromBoard t g)) = getWidth (board g)"
    using engine_wfD(1) [OF assms(1)] by simp_all
  have inside: "isInside (board (removePieceFromBoard t g)) p = isInside (board g) p" for p
    using size by (simp add: isInside_iff)
  show ?thesis
    unfolding captureTarget_eq Let_def
    using assms by (auto simp: frame_simps inside
        intro!: wf_endGame wf_stop wf_updateMotion wf_addCaptureScore wf_capture)
qed

lemma finishMotion_fun: "finishMotion r = cancelMotion r"
  by (simp add: fun_eq_iff)

definition castleBoard :: "PendingCastle \<Rightarrow> Board \<Rightarrow> Board" where
  "castleBoard c b =
     setPieceAt (setPieceAt (setPieceAt (setPieceAt b (pc_kingSource c) None) (pc_rookSource c) None)
       (pc_kingDestination c) (Some (pc_king c))) (pc_rookDestination c) (Some (pc_rook c))"

definition castleEntry :: "PendingCastle \<Rightarrow> int \<Rightarrow> GameEngine \<Rightarrow> MoveHistoryEntry" where
  "castleEntry c t g = newMoveHistoryEntry\<lparr>h_completedAtMs := t,
     h_color := getColor (heap g (pc_king c)), h_pieceKind := King,
     h_source := pc_kingSource c, h_destination := pc_kingDestination c,
     h_notation := (if getCol (pc_kingDestination c) > getCol (pc_kingSource c)
                    then ''O-O'' else ''O-O-O'')\<rparr>"

definition castlePiece :: "int \<Rightarrow> Piece \<Rightarrow> Piece" where
  "castlePiece t p = startCooldown t 2000 (setState Idle p)"

lemma castlePiece_fields [simp]:
  "getState (castlePiece t p) = Idle" "getColor (castlePiece t p) = getColor p"
  "getKind (castlePiece t p) = getKind p" "getId (castlePiece t p) = getId p"
  "castlePiece t (castlePiece t p) = castlePiece t p"
  by (simp_all add: castlePiece_def piece_defs)

lemma completeCastle_frame [frame_simps]:
  "heap (completeCastle c t g) r =
     (if r = pc_king c \<or> r = pc_rook c then castlePiece t (heap g r) else heap g r)"
  "board (completeCastle c t g) = castleBoard c (board g)"
  "realTime (completeCastle c t g) = cancelMotion (pc_rook c) (cancelMotion (pc_king c) (realTime g))"
  "gameOver (completeCastle c t g) = gameOver g"
  "whiteScore (completeCastle c t g) = whiteScore g" "blackScore (completeCastle c t g) = blackScore g"
  "whiteMoveHistory (completeCastle c t g) =
     (if getColor (heap g (pc_king c)) = White then whiteMoveHistory g @ [castleEntry c t g]
      else whiteMoveHistory g)"
  "blackMoveHistory (completeCastle c t g) =
     (if getColor (heap g (pc_king c)) = White then blackMoveHistory g
      else blackMoveHistory g @ [castleEntry c t g])"
  "pendingCastles (completeCastle c t g) = pendingCastles g"
  "eventBus (completeCastle c t g) = eventBus g"
  "published (completeCastle c t g) = (if eventBus g then published g @
     [completedEvent (castleEntry c t g) False Pawn Black (whiteScore g) (blackScore g)] else published g)"
  by (simp_all add: completeCastle_def Let_def frame_simps publishMoveCompleted_eq castleBoard_def
      removePiece_eq castleEntry_def onPiece_apply castlePiece_def piece_defs)

lemma castleBoard_size [simp]:
  "wf_board b \<Longrightarrow> wf_board (castleBoard c b)" "getHeight (castleBoard c b) = getHeight b"
  "getWidth (castleBoard c b) = getWidth b"
  by (simp_all add: castleBoard_def)

lemma castleBoard_from:
  assumes "wf_board b" "getPieceAt (castleBoard c b) p = Some r"
  shows "r \<in> {pc_king c, pc_rook c} \<or> getPieceAt b p = Some r"
  using assms unfolding castleBoard_def by (auto simp: cell_simps split: if_splits)

lemma set_removeFirst_subset: "set (removeFirst P xs) \<subseteq> set xs"
  by (induction xs) auto

lemma wf_completeCastle:
  assumes "engine_wf g" "castlePlacesOk (board g) c" "0 \<le> t" "t \<le> now g"
  shows "engine_wf (completeCastle c t g)"
proof (rule engine_wfI)
  let ?g = "completeCastle c t g"
  note wf = engine_wfD [OF assms(1)]
  show "wf_board (board ?g)" using wf by (simp add: frame_simps)
  show "wf_arbiter (realTime ?g)" using wf by (simp add: frame_simps wf_cancelMotion)
  show "movingOk ?g"
  proof (rule movingOk_retire [OF wf(3), where R = "{pc_king c, pc_rook c}"])
    show "pieceAt ?g p = Some r \<Longrightarrow> r \<in> {pc_king c, pc_rook c} \<or> (\<exists>q. pieceAt g q = Some r)" for p r
      using castleBoard_from [OF wf(1)] by (auto simp: frame_simps)
  qed (auto simp: frame_simps conj_commute)
  show "placesOk ?g"
  proof (rule placesOk_frame [OF wf(4), where e = "castleEntry c t g"])
    show "entryOk (board g) (castleEntry c t g) \<or>
      set (whiteMoveHistory ?g) \<union> set (blackMoveHistory ?g) \<subseteq> set (whiteMoveHistory g) \<union> set (blackMoveHistory g)"
      using assms by (simp add: entryOk_def castleEntry_def castlePlacesOk_def)
  qed (auto simp: frame_simps)
  show "clockOk ?g"
    by (rule clockOk_update [OF wf(5)])
      (use assms in \<open>auto simp: frame_simps castlePiece_def cooldown_ok_start\<close>)
  show "0 \<le> whiteScore ?g" "0 \<le> blackScore ?g" using wf by (simp_all add: frame_simps)
qed

section \<open>One step event\<close>

text \<open>The branches of \<open>processStepEvent\<close>, each with what the code knows there.\<close>

definition concerns :: "StepEvent \<Rightarrow> PendingCastle \<Rightarrow> bool" where
  "concerns e c \<longleftrightarrow> s_piece e = pc_king c \<or> s_piece e = pc_rook c"

lemma completeCastleFor_eq:
  "completeCastleFor e g =
     (case find (concerns e) (pendingCastles g) of
        None \<Rightarrow> (False, g)
      | Some c \<Rightarrow> (True, (completeCastle c (s_eventTimeMs e) g)
          \<lparr>pendingCastles := removeFirst (concerns e) (pendingCastles g)\<rparr>))"
proof -
  have "concerns e = (\<lambda>c. \<not> (s_piece e \<noteq> pc_king c \<and> s_piece e \<noteq> pc_rook c))"
    by (auto simp: concerns_def fun_eq_iff)
  then show ?thesis
    by (simp add: completeCastleFor_def Let_def frame_simps split: option.split)
qed

lemma processStep_cases:
  obtains (not_moving) "stateOf g (s_piece e) \<noteq> Moving" "processStepEvent e g = g"
  | (castled) c where "stateOf g (s_piece e) = Moving" "find (concerns e) (pendingCastles g) = Some c"
      "processStepEvent e g = (completeCastle c (s_eventTimeMs e) g)
          \<lparr>pendingCastles := removeFirst (concerns e) (pendingCastles g)\<rparr>"
  | (no_motion) "find (concerns e) (pendingCastles g) = None"
      "\<forall>m \<in> set (motions g). m_piece m \<noteq> s_piece e" "processStepEvent e g = g"
  | (blocked) m where "m \<in> set (motions g)" "m_piece m = s_piece e" "stateOf g (s_piece e) = Moving"
      "find (concerns e) (pendingCastles g) = None"
      "processStepEvent e g = stopMovingPieceAt (s_piece e) (m_source m) (s_from e) (s_eventTimeMs e)
         False Pawn Black g"
  | (entered) m where "m \<in> set (motions g)" "m_piece m = s_piece e" "stateOf g (s_piece e) = Moving"
      "find (concerns e) (pendingCastles g) = None" "isInside (board g) (s_to e)"
      "findPieceAtRealOrVirtualCell g (s_to e) (s_piece e) = None" "\<not> s_reachedDestination e"
      "processStepEvent e g = onArbiter (updateMotionCell (s_piece e) (s_to e)) g"
  | (arrived) m where "m \<in> set (motions g)" "m_piece m = s_piece e" "stateOf g (s_piece e) = Moving"
      "find (concerns e) (pendingCastles g) = None" "isInside (board g) (s_to e)"
      "findPieceAtRealOrVirtualCell g (s_to e) (s_piece e) = None" "s_reachedDestination e"
      "processStepEvent e g = stopMovingPieceAt (s_piece e) (m_source m) (s_to e) (s_eventTimeMs e)
         False Pawn Black (onArbiter (updateMotionCell (s_piece e) (s_to e)) g)"
  | (shot) m t where "m \<in> set (motions g)" "m_piece m = s_piece e" "stateOf g (s_piece e) = Moving"
      "find (concerns e) (pendingCastles g) = None" "isInside (board g) (s_to e)"
      "findPieceAtRealOrVirtualCell g (s_to e) (s_piece e) = Some t"
      "getColor (heap g t) \<noteq> getColor (heap g (s_piece e))" "stateOf g t = Airborne"
      "processStepEvent e g = captureByJumper (s_piece e) t g"
  | (captured) m t where "m \<in> set (motions g)" "m_piece m = s_piece e" "stateOf g (s_piece e) = Moving"
      "find (concerns e) (pendingCastles g) = None" "isInside (board g) (s_to e)"
      "findPieceAtRealOrVirtualCell g (s_to e) (s_piece e) = Some t"
      "getColor (heap g t) \<noteq> getColor (heap g (s_piece e))" "stateOf g t \<noteq> Airborne"
      "processStepEvent e g = captureTarget (s_piece e) t m e g"
proof (cases "stateOf g (s_piece e) = Moving")
  case False
  then show ?thesis by (intro not_moving) (simp_all add: processStepEvent_def)
next
  case moving: True
  show ?thesis
  proof (cases "find (concerns e) (pendingCastles g)")
    case (Some c)
    then show ?thesis
      using moving by (intro castled) (simp_all add: processStepEvent_def completeCastleFor_eq)
  next
    case castle: None
    show ?thesis
    proof (cases "find (\<lambda>m. m_piece m = s_piece e) (motions g)")
      case None
      then show ?thesis
        using castle moving find_None_all [THEN iffD1, OF None]
        by (intro no_motion) (simp_all add: processStepEvent_def completeCastleFor_eq)
    next
      case (Some m)
      then have m: "m \<in> set (motions g)" "m_piece m = s_piece e"
        using find_Some_in_set by fastforce+
      note branch = processStepEvent_def completeCastleFor_eq castle Some moving Let_def
      show ?thesis
      proof (cases "isInside (board g) (s_to e)")
        case False
        then show ?thesis using m moving castle by (intro blocked) (simp_all add: branch)
      next
        case inside: True
        show ?thesis
        proof (cases "findPieceAtRealOrVirtualCell g (s_to e) (s_piece e)")
          case None
          show ?thesis
          proof (cases "s_reachedDestination e")
            case True
            then show ?thesis
              using m moving castle inside None by (intro arrived [of m]) (simp_all add: branch)
          next
            case False
            then show ?thesis
              using m moving castle inside None by (intro entered [of m]) (simp_all add: branch)
          qed
        next
          case target: (Some t)
          show ?thesis
          proof (cases "getColor (heap g t) = getColor (heap g (s_piece e))")
            case True
            then show ?thesis
              using m moving castle inside target by (intro blocked [of m]) (simp_all add: branch)
          next
            case enemy: False
            show ?thesis
            proof (cases "stateOf g t = Airborne")
              case True
              then show ?thesis
                using m moving castle inside target enemy by (intro shot [of m t]) (simp_all add: branch)
            next
              case False
              then show ?thesis
                using m moving castle inside target enemy
                by (intro captured [of m t]) (simp_all add: branch)
            qed
          qed
        qed
      qed
    qed
  qed
qed

end
