(* ===== verification/Engine_Progress.thy ===== *)
theory Engine_Progress
  imports Engine_Invariant
begin

text \<open>
  Every operation of the engine keeps its invariant, and the loop of \<open>GameEngine::wait\<close> ends:
  each round of events either cancels a motion that was due or moves its next step later, so
  the total time the motions are behind the clock shrinks.
\<close>

section \<open>Step events keep the invariant\<close>

lemma motion_places:
  "engine_wf g \<Longrightarrow> m \<in> set (motions g) \<Longrightarrow> motionPlacesOk (board g) m"
  by (simp add: engine_wf_def placesOk_def)

lemma pending_places:
  assumes "engine_wf g" "find P (pendingCastles g) = Some c"
  shows "castlePlacesOk (board g) c"
  using assms find_Some_in_set [OF assms(2)] by (simp add: engine_wf_def placesOk_def)

lemma wf_drop_castle:
  "engine_wf g \<Longrightarrow> set cs \<subseteq> set (pendingCastles g) \<Longrightarrow> engine_wf (g\<lparr>pendingCastles := cs\<rparr>)"
  by (rule wf_same_state [of g]) (simp_all add: engine_wf_def)

lemma wf_processStep:
  assumes wf: "engine_wf g" and ok: "stepOk g e"
  shows "engine_wf (processStepEvent e g)"
proof (cases rule: processStep_cases [of g e])
  case not_moving
  then show ?thesis using wf by simp
next
  case (castled c)
  have "engine_wf (completeCastle c (s_eventTimeMs e) g)"
    using wf ok pending_places [OF wf castled(2)] by (simp add: stepOk_def wf_completeCastle)
  then show ?thesis
    by (simp add: castled wf_drop_castle frame_simps set_removeFirst_subset)
next
  case no_motion
  then show ?thesis using wf by simp
next
  case (blocked m)
  then show ?thesis
    using wf ok motion_places [OF wf, of m] by (auto simp: stepOk_def motionPlacesOk_def intro!: wf_stop)
next
  case (entered m)
  then show ?thesis using wf by (simp add: wf_updateMotion)
next
  case (arrived m)
  then show ?thesis
    using wf ok motion_places [OF wf, of m]
    by (auto simp: stepOk_def motionPlacesOk_def frame_simps intro!: wf_stop wf_updateMotion)
next
  case (shot m t)
  then show ?thesis using wf by (simp add: wf_captureByJumper)
next
  case (captured m t)
  then show ?thesis
    using wf ok motion_places [OF wf, of m]
    by (auto simp: stepOk_def motionPlacesOk_def intro!: wf_captureTarget)
qed

section \<open>What a step event leaves alone\<close>

text \<open>
  Motions only disappear or, for the piece of the event, move on; the clock, the jumps, the
  extent of the board and the subscribers' flag stay.
\<close>

definition sameExtent :: "GameEngine \<Rightarrow> GameEngine \<Rightarrow> bool" where
  "sameExtent g g' \<longleftrightarrow> getHeight (board g') = getHeight (board g) \<and>
     getWidth (board g') = getWidth (board g) \<and> now g' = now g \<and> jumps g' = jumps g \<and>
     nextMotionOrder (realTime g') = nextMotionOrder (realTime g) \<and> eventBus g' = eventBus g"

lemma captureByJumper_frame [frame_simps]:
  "realTime (captureByJumper r t g) = cancelMotion r (realTime g)"
  "board (captureByJumper r t g) = board (removePieceFromBoard r g)"
  "heap (captureByJumper r t g) = onPiece (setState Captured) r (heap g)"
  "eventBus (captureByJumper r t g) = eventBus g"
  "pendingCastles (captureByJumper r t g) = pendingCastles g"
  by (simp_all add: captureByJumper_eq Let_def frame_simps)

lemma captureTarget_frame [frame_simps]:
  "realTime (captureTarget r t m e g) =
     cancelMotion r (updateMotionCell r (s_to e) (cancelMotion t (realTime g)))"
  "board (captureTarget r t m e g) =
     commitBoard r (m_source m) (s_to e) (board (removePieceFromBoard t g))"
  "eventBus (captureTarget r t m e g) = eventBus g"
  "pendingCastles (captureTarget r t m e g) = pendingCastles g"
  by (simp_all add: captureTarget_eq Let_def frame_simps)

lemma processStep_extent:
  assumes "engine_wf g"
  shows "sameExtent g (processStepEvent e g)"
  using engine_wfD(1) [OF assms]
  by (cases rule: processStep_cases [of g e]) (simp_all add: sameExtent_def frame_simps)

lemma updateMotionCell_others:
  assumes "m \<in> set (activeMotions (updateMotionCell r c a))" "m_piece m \<noteq> r"
  shows "m \<in> set (activeMotions a)"
  using set_updateFirst_subset [of m "\<lambda>m. m_piece m = r" "advanceMotion c" "activeMotions a"] assms
  by (auto simp: updateMotionCell_def)

lemma processStep_others:
  assumes "m \<in> set (motions (processStepEvent e g))" "m_piece m \<noteq> s_piece e"
  shows "m \<in> set (motions g)"
  using assms updateMotionCell_others
  by (cases rule: processStep_cases [of g e]) (auto simp: frame_simps dest: updateMotionCell_others)

lemma stepOk_after:
  assumes wf: "engine_wf g" and ok: "stepOk g e'" and other: "s_piece e' \<noteq> s_piece e"
  shows "stepOk (processStepEvent e g) e'"
proof -
  have extent: "sameExtent g (processStepEvent e g)" using wf by (rule processStep_extent)
  have "isInside (board (processStepEvent e g)) p = isInside (board g) p" for p
    using extent by (intro isInside_size) (simp_all add: sameExtent_def)
  moreover have "e' = stepEventOf m"
    if "m \<in> set (motions (processStepEvent e g))" "m_piece m = s_piece e'" for m
    using that processStep_others [of m e g] ok other by (auto simp: stepOk_def)
  ultimately show ?thesis using ok extent by (simp add: stepOk_def sameExtent_def)
qed

lemma fold_steps_wf:
  assumes "engine_wf g" "\<forall>e \<in> set es. stepOk g e" "distinct (map s_piece es)"
  shows "engine_wf (fold processStepEvent es g) \<and> sameExtent g (fold processStepEvent es g)"
  using assms
proof (induction es arbitrary: g)
  case Nil
  then show ?case by (simp add: sameExtent_def)
next
  case (Cons e es)
  let ?g = "processStepEvent e g"
  have wf: "engine_wf ?g" using Cons.prems by (simp add: wf_processStep)
  have ext: "sameExtent g ?g" using Cons.prems(1) by (rule processStep_extent)
  have "\<forall>e' \<in> set es. stepOk ?g e'"
  proof
    fix e' assume e': "e' \<in> set es"
    have "s_piece e \<notin> s_piece ` set es" using Cons.prems(3) by simp
    moreover from e' have "s_piece e' \<in> s_piece ` set es" by (rule imageI)
    ultimately have other: "s_piece e' \<noteq> s_piece e" by metis
    have "stepOk g e'" using Cons.prems(2) e' by simp
    then show "stepOk ?g e'" using Cons.prems(1) other by (intro stepOk_after)
  qed
  then have "engine_wf (fold processStepEvent es ?g) \<and> sameExtent ?g (fold processStepEvent es ?g)"
    using Cons.prems(3) wf by (intro Cons.IH) simp_all
  then show ?case using ext by (simp add: sameExtent_def)
qed

section \<open>Jump landings\<close>

definition landPiece :: "int \<Rightarrow> int \<Rightarrow> Piece \<Rightarrow> Piece" where
  "landPiece t d p = startCooldown t d (setState Idle p)"

definition landEntry :: "JumpLandingEvent \<Rightarrow> GameEngine \<Rightarrow> MoveHistoryEntry" where
  "landEntry l g = newMoveHistoryEntry\<lparr>h_completedAtMs := l_eventTimeMs l,
     h_color := getColor (heap g (l_piece l)), h_pieceKind := getKind (heap g (l_piece l)),
     h_source := l_cell l, h_destination := l_cell l, h_wasJump := True, h_notation := ''Jump''\<rparr>"

definition landed :: "configReader \<Rightarrow> JumpLandingEvent \<Rightarrow> GameEngine \<Rightarrow> GameEngine" where
  "landed cfg l g =
     (let g1 = modifyPiece (landPiece (l_eventTimeMs l)
             (shortCooldownMs (cfg (token (heap g (l_piece l))) ''jump''))) (l_piece l) g;
          g2 = pushHistory (landEntry l g) g1
      in publishEvent (completedEvent (landEntry l g) False Pawn Black (whiteScore g) (blackScore g)) g2)"

lemma processJumpLanding_eq:
  "processJumpLanding cfg l g =
     (if stateOf g (l_piece l) = Airborne \<and> pieceAt g (l_cell l) = Some (l_piece l)
      then landed cfg l g else g)"
proof -
  have land: "landPiece t d = (\<lambda>p. startCooldown t d (setState Idle p))" for t d
    by (simp add: fun_eq_iff landPiece_def)
  have tok: "token (setState s p) = token p" for s p by (simp add: token_def)
  have upd: "modifyPiece f r (modifyPiece f' r g) = modifyPiece (\<lambda>p. f (f' p)) r g" for f f' r g
    by (simp add: modifyPiece_def onPiece_def)
  show ?thesis
    by (simp add: processJumpLanding_def landed_def Let_def upd tok frame_simps onPiece_apply
        publishMoveCompleted_eq landEntry_def land startCooldown_def)
qed

lemma landPiece_fields [simp]:
  "getState (landPiece t d p) = Idle" "getColor (landPiece t d p) = getColor p"
  "getKind (landPiece t d p) = getKind p" "getId (landPiece t d p) = getId p"
  by (simp_all add: landPiece_def piece_defs)

lemma landed_frame [frame_simps]:
  "heap (landed cfg l g) = onPiece (landPiece (l_eventTimeMs l)
     (shortCooldownMs (cfg (token (heap g (l_piece l))) ''jump''))) (l_piece l) (heap g)"
  "board (landed cfg l g) = board g" "realTime (landed cfg l g) = realTime g"
  "gameOver (landed cfg l g) = gameOver g" "whiteScore (landed cfg l g) = whiteScore g"
  "blackScore (landed cfg l g) = blackScore g" "pendingCastles (landed cfg l g) = pendingCastles g"
  "eventBus (landed cfg l g) = eventBus g"
  "whiteMoveHistory (landed cfg l g) =
     (if getColor (heap g (l_piece l)) = White then whiteMoveHistory g @ [landEntry l g]
      else whiteMoveHistory g)"
  "blackMoveHistory (landed cfg l g) =
     (if getColor (heap g (l_piece l)) = White then blackMoveHistory g
      else blackMoveHistory g @ [landEntry l g])"
  "published (landed cfg l g) = (if eventBus g then published g @
     [completedEvent (landEntry l g) False Pawn Black (whiteScore g) (blackScore g)] else published g)"
  by (simp_all add: landed_def Let_def frame_simps landEntry_def)

lemma wf_landed:
  assumes "engine_wf g" "landOk g l" "stateOf g (l_piece l) = Airborne"
  shows "engine_wf (landed cfg l g)"
proof (rule engine_wfI)
  let ?g = "landed cfg l g"
  note wf = engine_wfD [OF assms(1)]
  have no_motion: "\<forall>m \<in> set (motions g). m_piece m \<noteq> l_piece l"
    using wf(3) assms(3) by (auto simp: movingOk_def)
  show "movingOk ?g"
    by (rule movingOk_retire [OF wf(3), where R = "{l_piece l}"])
      (use no_motion in \<open>auto simp: frame_simps onPiece_apply filter_id_conv\<close>)
  show "placesOk ?g"
    by (rule placesOk_frame [OF wf(4), where e = "landEntry l g"])
      (use assms(2) in \<open>auto simp: frame_simps landEntry_def entryOk_def landOk_def\<close>)
  show "clockOk ?g"
    by (rule clockOk_update [OF wf(5)])
      (use assms(2) in \<open>auto simp: frame_simps onPiece_apply landPiece_def cooldown_ok_start landOk_def\<close>)
qed (use engine_wfD [OF assms(1)] in \<open>simp_all add: frame_simps\<close>)

lemma landing_wf:
  "engine_wf g \<Longrightarrow> landOk g l \<Longrightarrow> engine_wf (processJumpLanding cfg l g)"
  by (simp add: processJumpLanding_eq wf_landed)

lemma landing_frame [frame_simps]:
  "board (processJumpLanding cfg l g) = board g" "realTime (processJumpLanding cfg l g) = realTime g"
  "gameOver (processJumpLanding cfg l g) = gameOver g"
  "whiteScore (processJumpLanding cfg l g) = whiteScore g"
  "blackScore (processJumpLanding cfg l g) = blackScore g"
  "pendingCastles (processJumpLanding cfg l g) = pendingCastles g"
  "eventBus (processJumpLanding cfg l g) = eventBus g"
  by (simp_all add: processJumpLanding_eq frame_simps)

lemma landing_not_moving:
  "stateOf (processJumpLanding cfg l g) r = Moving \<longleftrightarrow> stateOf g r = Moving"
  by (simp add: processJumpLanding_eq frame_simps onPiece_apply)

lemma fold_landings_frame [frame_simps]:
  "board (fold (processJumpLanding cfg) ls g) = board g"
  "realTime (fold (processJumpLanding cfg) ls g) = realTime g"
  "gameOver (fold (processJumpLanding cfg) ls g) = gameOver g"
  "whiteScore (fold (processJumpLanding cfg) ls g) = whiteScore g"
  "blackScore (fold (processJumpLanding cfg) ls g) = blackScore g"
  "pendingCastles (fold (processJumpLanding cfg) ls g) = pendingCastles g"
  "eventBus (fold (processJumpLanding cfg) ls g) = eventBus g"
  by (induction ls arbitrary: g) (simp_all add: frame_simps)

lemma fold_landings_moving:
  "stateOf (fold (processJumpLanding cfg) ls g) r = Moving \<longleftrightarrow> stateOf g r = Moving"
  by (induction ls arbitrary: g) (simp_all add: landing_not_moving)

lemma fold_landings_wf:
  "engine_wf g \<Longrightarrow> \<forall>l \<in> set ls. landOk g l \<Longrightarrow> engine_wf (fold (processJumpLanding cfg) ls g)"
  by (induction ls arbitrary: g) (simp_all add: landing_wf landOk_def frame_simps)

section \<open>The lateness of the motions\<close>

definition late :: "int \<Rightarrow> Motion \<Rightarrow> nat" where
  "late t m = nat (t + 1 - m_nextStepTimeMs m)"

definition lateness :: "GameEngine \<Rightarrow> nat" where
  "lateness g = sum_list (map (late (now g)) (motions g))"

lemma sum_list_less_nat:
  fixes f h :: "'a \<Rightarrow> nat"
  assumes "\<And>x. x \<in> set xs \<Longrightarrow> f x \<le> h x" "x \<in> set xs" "f x < h x"
  shows "sum_list (map f xs) < sum_list (map h xs)"
  using assms
proof (induction xs)
  case Nil
  then show ?case by simp
next
  case (Cons y ys)
  have tail: "sum_list (map f ys) \<le> sum_list (map h ys)"
    using Cons.prems(1) by (intro sum_list_mono) simp
  show ?case
  proof (cases "y = x")
    case True
    then show ?thesis using tail Cons.prems(3) by simp
  next
    case False
    then have "sum_list (map f ys) < sum_list (map h ys)"
      using Cons.prems by (intro Cons.IH) auto
    then show ?thesis using Cons.prems(1) [of y] by simp
  qed
qed

lemma filter_advance:
  "filter (\<lambda>m. m_piece m \<noteq> r) (map (\<lambda>m. if m_piece m = r then advanceMotion c m else m) ms) =
   filter (\<lambda>m. m_piece m \<noteq> r) ms"
  by (induction ms) simp_all

lemma cancel_update_motions:
  "wf_arbiter a \<Longrightarrow>
   activeMotions (cancelMotion r (updateMotionCell r c a)) = activeMotions (cancelMotion r a)"
  by (simp add: updateMotionCell_motions filter_advance del: filter_map)

text \<open>What is left of the motions after a step event.\<close>

lemma processStep_motions:
  assumes "engine_wf g" "m \<in> set (motions g)" "m_piece m = s_piece e" "stateOf g (s_piece e) = Moving"
  obtains (retired) R where "s_piece e \<in> R"
      "motions (processStepEvent e g) = filter (\<lambda>m. m_piece m \<notin> R) (motions g)"
    | (advanced) "motions (processStepEvent e g) =
        map (\<lambda>m. if m_piece m = s_piece e then advanceMotion (s_to e) m else m) (motions g)"
proof (cases rule: processStep_cases [of g e])
  case not_moving
  then show ?thesis using assms(4) by simp
next
  case (castled c)
  then show ?thesis
    by (intro retired [of "{pc_king c, pc_rook c}"])
      (auto simp: frame_simps concerns_def conj_commute dest: find_Some_in_set)
next
  case no_motion
  then show ?thesis using assms(2,3) by blast
next
  case blocked
  then show ?thesis by (intro retired [of "{s_piece e}"]) (simp_all add: frame_simps)
next
  case entered
  then show ?thesis
    using engine_wfD(2) [OF assms(1)]
    by (intro advanced) (simp add: frame_simps updateMotionCell_motions)
next
  case arrived
  then show ?thesis
    using cancel_update_motions [OF engine_wfD(2) [OF assms(1)]]
    by (intro retired [of "{s_piece e}"]) (simp_all add: frame_simps)
next
  case shot
  then show ?thesis by (intro retired [of "{s_piece e}"]) (simp_all add: frame_simps)
next
  case (captured m t)
  then show ?thesis
    using cancel_update_motions [OF wf_cancelMotion [OF engine_wfD(2) [OF assms(1)]]]
    by (intro retired [of "{s_piece e, t}"]) (simp_all add: frame_simps conj_commute)
qed

lemma lateness_decreases:
  assumes wf: "engine_wf g" and m: "m \<in> set (motions g)" "m_piece m = s_piece e"
    and moving: "stateOf g (s_piece e) = Moving" and due: "m_nextStepTimeMs m \<le> now g"
  shows "lateness (processStepEvent e g) < lateness g"
proof -
  have now: "now (processStepEvent e g) = now g"
    using processStep_extent [OF wf] by (simp add: sameExtent_def)
  have positive: "0 < late (now g) m" using due by (simp add: late_def)
  show ?thesis
  proof (rule processStep_motions [OF wf m moving])
    fix R
    assume retired: "s_piece e \<in> R"
      "motions (processStepEvent e g) = filter (\<lambda>m. m_piece m \<notin> R) (motions g)"
    then have "\<not> m_piece m \<notin> R" using m by simp
    then show ?thesis
      using sum_list_filter_less_nat [of m "motions g" "\<lambda>m. m_piece m \<notin> R" "late (now g)"] m(1) positive
      by (simp add: lateness_def now retired)
  next
    let ?adv = "\<lambda>m. if m_piece m = s_piece e then advanceMotion (s_to e) m else m"
    assume advanced: "motions (processStepEvent e g) = map ?adv (motions g)"
    have duration: "1 \<le> m_stepDurationMs m'" if "m' \<in> set (motions g)" for m'
      using engine_wfD(2) [OF wf] that by (simp add: wf_arbiter_def wf_motion_def)
    have "sum_list (map (late (now g) \<circ> ?adv) (motions g)) < sum_list (map (late (now g)) (motions g))"
    proof (rule sum_list_less_nat)
      show "m \<in> set (motions g)" by (rule m(1))
      show "(late (now g) \<circ> ?adv) m < late (now g) m"
        using duration [OF m(1)] due m(2) by (simp add: late_def)
      show "(late (now g) \<circ> ?adv) m' \<le> late (now g) m'" if "m' \<in> set (motions g)" for m'
        using duration [OF that] by (auto simp: late_def intro!: nat_mono)
    qed
    then show ?thesis by (simp add: lateness_def now advanced)
  qed
qed

lemma lateness_no_motion:
  assumes "engine_wf g" "\<forall>m \<in> set (motions g). m_piece m \<noteq> s_piece e"
    "stateOf g (s_piece e) = Moving \<longrightarrow> find (concerns e) (pendingCastles g) = None"
  shows "processStepEvent e g = g"
  using assms by (cases rule: processStep_cases [of g e]) auto

lemma lateness_nonincreasing:
  assumes "engine_wf g"
  shows "lateness (processStepEvent e g) \<le> lateness g"
proof (cases "stateOf g (s_piece e) = Moving \<and> (\<exists>m \<in> set (motions g). m_piece m = s_piece e)")
  case True
  then obtain m where m: "m \<in> set (motions g)" "m_piece m = s_piece e" and moving: "stateOf g (s_piece e) = Moving"
    by blast
  have now: "now (processStepEvent e g) = now g"
    using processStep_extent [OF assms] by (simp add: sameExtent_def)
  show ?thesis
  proof (rule processStep_motions [OF assms m moving])
    fix R
    assume "motions (processStepEvent e g) = filter (\<lambda>m. m_piece m \<notin> R) (motions g)"
    then show ?thesis by (simp add: lateness_def now sum_list_filter_le_nat)
  next
    assume advanced: "motions (processStepEvent e g) =
        map (\<lambda>m. if m_piece m = s_piece e then advanceMotion (s_to e) m else m) (motions g)"
    have "late (now g) (if m_piece m' = s_piece e then advanceMotion (s_to e) m' else m') \<le> late (now g) m'"
      if "m' \<in> set (motions g)" for m'
      using engine_wfD(2) [OF assms] that by (auto simp: wf_arbiter_def wf_motion_def late_def)
    then show ?thesis by (simp add: lateness_def now advanced comp_def sum_list_mono)
  qed
next
  case False
  have now: "now (processStepEvent e g) = now g"
    using processStep_extent [OF assms] by (simp add: sameExtent_def)
  show ?thesis
  proof (cases rule: processStep_cases [of g e])
    case (castled c)
    have "motions (processStepEvent e g) =
        filter (\<lambda>m. m_piece m \<noteq> pc_rook c) (filter (\<lambda>m. m_piece m \<noteq> pc_king c) (motions g))"
      by (simp add: castled frame_simps)
    then show ?thesis
      by (simp add: lateness_def now) (metis sum_list_filter_le_nat order_trans filter_filter)
  qed (use False in auto)
qed

end
