(* ===== verification/Engine_Log.thy ===== *)
theory Engine_Log
  imports Engine_Runs
begin

text \<open>
  Runs of the engine and what its event log says about them. A run is any sequence of move
  requests, jump requests and waits, as the server's loop makes them. Along every run the
  published events agree with the engine: the completed moves are the move histories, the game
  ended event comes exactly once and with the end of the game, and the last score update is the
  score.
\<close>

section \<open>Runs\<close>

datatype EngineOp =
    OpMove Position Position
  | OpJump Position
  | OpWait int

definition runOp :: "configReader \<Rightarrow> GameEngine \<Rightarrow> EngineOp \<Rightarrow> GameEngine" where
  "runOp cfg g action =
     (case action of
        OpMove s d \<Rightarrow> snd (requestMove cfg s d g)
      | OpJump c \<Rightarrow> snd (requestJump cfg c g)
      | OpWait ms \<Rightarrow> (case wait cfg ms g of Some g' \<Rightarrow> g' | None \<Rightarrow> g))"

definition runOps :: "configReader \<Rightarrow> GameEngine \<Rightarrow> EngineOp list \<Rightarrow> GameEngine" where
  "runOps cfg g ops = foldl (runOp cfg) g ops"

text \<open>The same as a step relation; a wait that does not return has no step.\<close>

inductive engineStep :: "configReader \<Rightarrow> GameEngine \<Rightarrow> GameEngine \<Rightarrow> bool" for cfg where
  move: "requestMove cfg s d g = (res, g') \<Longrightarrow> engineStep cfg g g'"
| jump: "requestJump cfg c g = (res, g') \<Longrightarrow> engineStep cfg g g'"
| pass: "wait cfg ms g = Some g' \<Longrightarrow> engineStep cfg g g'"

inductive_cases engineStepE: "engineStep cfg g g'"

inductive reachable :: "configReader \<Rightarrow> GameEngine \<Rightarrow> GameEngine \<Rightarrow> bool" for cfg g0 where
  start: "reachable cfg g0 g0"
| step: "reachable cfg g0 g \<Longrightarrow> engineStep cfg g g' \<Longrightarrow> reachable cfg g0 g'"

text \<open>An engine as it is constructed: nothing has moved and no piece is under way.\<close>

definition freshEngine :: "GameEngine \<Rightarrow> bool" where
  "freshEngine g \<longleftrightarrow> wf_board (board g) \<and> realTime g = newArbiter \<and> pendingCastles g = [] \<and>
     whiteScore g = 0 \<and> blackScore g = 0 \<and> whiteMoveHistory g = [] \<and> blackMoveHistory g = [] \<and>
     published g = [] \<and> \<not> gameOver g \<and> (\<forall>r. cooldown_ok 0 (heap g r)) \<and>
     (\<forall>p r. pieceAt g p = Some r \<longrightarrow> stateOf g r = Idle)"

lemma fresh_newGameEngine:
  assumes "wf_board b" "\<And>r. cooldown_ok 0 (h r)" "\<And>p r. getPieceAt b p = Some r \<Longrightarrow> getState (h r) = Idle"
  shows "freshEngine (newGameEngine h b bus)"
  using assms by (auto simp: freshEngine_def newGameEngine_def)

lemma fresh_engine_wf: "freshEngine g \<Longrightarrow> engine_wf g"
  using wf_newArbiter
  by (auto simp: freshEngine_def engine_wf_def movingOk_def placesOk_def clockOk_def newArbiter_def)

text \<open>An invariant of all runs: kept by requests, by the clock and by a round of events.\<close>

lemma runOp_wait:
  assumes "engine_wf g"
  obtains g' where "wait cfg ms g = Some g'" "runOp cfg g (OpWait ms) = g'" "engine_wf g'"
    "if ms < 0 then g' = g else quiet g' \<and> now g' = now g + ms"
  using wait_rule [of g "\<lambda>_. True" cfg ms] assms by (auto simp: runOp_def)

lemma wf_runOp: "engine_wf g \<Longrightarrow> engine_wf (runOp cfg g action)"
proof (cases action)
  case (OpWait ms)
  assume "engine_wf g"
  then show ?thesis
    by (rule runOp_wait [of g cfg ms]) (simp add: OpWait)
qed (simp_all add: runOp_def wf_requestMove wf_requestJump)

interpretation engine_run: event_machine "runOp cfg" engine_wf "\<lambda>_ _. True" for cfg
  by unfold_locales (rule wf_runOp)

lemma wf_runOps: "engine_wf g \<Longrightarrow> engine_wf (runOps cfg g ops)"
  unfolding runOps_def by (rule engine_run.run_inv_always) simp_all

lemma engineStep_runOp: "engineStep cfg g g' \<Longrightarrow> \<exists>action. g' = runOp cfg g action"
proof (erule engineStepE)
  fix s d res assume "requestMove cfg s d g = (res, g')"
  then have "g' = runOp cfg g (OpMove s d)" by (simp add: runOp_def)
  then show ?thesis by blast
next
  fix c res assume "requestJump cfg c g = (res, g')"
  then have "g' = runOp cfg g (OpJump c)" by (simp add: runOp_def)
  then show ?thesis by blast
next
  fix ms assume "wait cfg ms g = Some g'"
  then have "g' = runOp cfg g (OpWait ms)" by (simp add: runOp_def)
  then show ?thesis by blast
qed

lemma runOp_engineStep:
  assumes "engine_wf g"
  shows "engineStep cfg g (runOp cfg g action)"
proof (cases action)
  case (OpMove s d)
  then show ?thesis
    by (intro engineStep.move [of cfg s d g "fst (requestMove cfg s d g)"]) (simp add: runOp_def)
next
  case (OpJump c)
  then show ?thesis
    by (intro engineStep.jump [of cfg c g "fst (requestJump cfg c g)"]) (simp add: runOp_def)
next
  case (OpWait ms)
  then show ?thesis
    using runOp_wait [OF assms, of cfg ms] by (metis engineStep.pass)
qed

text \<open>Both views of a run agree.\<close>

lemma reachable_iff_runOps:
  assumes "engine_wf g0"
  shows "reachable cfg g0 g \<longleftrightarrow> (\<exists>ops. g = runOps cfg g0 ops)"
proof
  assume "reachable cfg g0 g"
  then show "\<exists>ops. g = runOps cfg g0 ops"
  proof induction
    case start
    have "g0 = runOps cfg g0 []" by (simp add: runOps_def)
    then show ?case by blast
  next
    case (step g g')
    then obtain ops action where "g = runOps cfg g0 ops" "g' = runOp cfg g action"
      using engineStep_runOp by blast
    then have "g' = runOps cfg g0 (ops @ [action])" by (simp add: runOps_def)
    then show ?case by blast
  qed
next
  assume "\<exists>ops. g = runOps cfg g0 ops"
  then obtain ops where g: "g = runOps cfg g0 ops" by blast
  have "reachable cfg g0 (runOps cfg g0 ops)"
  proof (induction ops rule: rev_induct)
    case Nil
    show ?case by (simp add: runOps_def reachable.start)
  next
    case (snoc action ops)
    have "engineStep cfg (runOps cfg g0 ops) (runOp cfg (runOps cfg g0 ops) action)"
      using wf_runOps [OF assms] by (rule runOp_engineStep)
    with snoc show ?case by (simp add: runOps_def) (rule reachable.step)
  qed
  then show "reachable cfg g0 g" by (simp add: g)
qed

section \<open>The event log\<close>

definition eventKey :: "GameEvent \<Rightarrow> PieceColor \<times> PieceKind \<times> Position \<times> Position \<times> bool \<times> bool \<times> bool \<times> int" where
  "eventKey ev = (g_movingPieceColor ev, g_movingPieceKind ev, g_source ev, g_destination ev,
     g_wasCapture ev, g_wasPromotion ev, g_wasJump ev, g_completedAtMs ev)"

definition entryKey :: "MoveHistoryEntry \<Rightarrow> PieceColor \<times> PieceKind \<times> Position \<times> Position \<times> bool \<times> bool \<times> bool \<times> int" where
  "entryKey e = (h_color e, h_pieceKind e, h_source e, h_destination e,
     h_wasCapture e, h_wasPromotion e, h_wasJump e, h_completedAtMs e)"

definition movesOf :: "PieceColor \<Rightarrow> GameEvent list \<Rightarrow> GameEvent list" where
  "movesOf c evs = filter (\<lambda>ev. g_movingPieceColor ev = c) (ofType MoveCompleted evs)"

lemma movesOf_simps [simp]:
  "movesOf c [] = []" "movesOf c (xs @ ys) = movesOf c xs @ movesOf c ys"
  "movesOf c [ev] = (if g_type ev = MoveCompleted \<and> g_movingPieceColor ev = c then [ev] else [])"
  by (simp_all add: movesOf_def)

lemma movesOf_all:
  "length (ofType MoveCompleted evs) = length (movesOf White evs) + length (movesOf Black evs)"
proof (induction evs)
  case (Cons ev evs)
  then show ?case by (cases "g_movingPieceColor ev") (simp_all add: movesOf_def)
qed simp

definition lastScores :: "GameEvent list \<Rightarrow> int \<times> int" where
  "lastScores evs = last ((0, 0) # map (\<lambda>ev. (g_whiteScore ev, g_blackScore ev)) (ofType ScoreUpdated evs))"

lemma lastScores_append:
  "lastScores (xs @ [ev]) =
     (if g_type ev = ScoreUpdated then (g_whiteScore ev, g_blackScore ev) else lastScores xs)"
  by (simp add: lastScores_def)

definition logOk :: "GameEngine \<Rightarrow> bool" where
  "logOk g \<longleftrightarrow>
     (if eventBus g
      then map eventKey (movesOf White (published g)) = map entryKey (whiteMoveHistory g) \<and>
           map eventKey (movesOf Black (published g)) = map entryKey (blackMoveHistory g) \<and>
           length (ofType GameEnded (published g)) = (if gameOver g then 1 else 0) \<and>
           lastScores (published g) = (whiteScore g, blackScore g) \<and>
           ofType GameEventType.GameStarted (published g) = []
      else published g = [])"

lemma logOk_same:
  assumes "logOk g" "eventBus g' = eventBus g" "published g' = published g"
    "whiteMoveHistory g' = whiteMoveHistory g" "blackMoveHistory g' = blackMoveHistory g"
    "gameOver g' = gameOver g" "whiteScore g' = whiteScore g" "blackScore g' = blackScore g"
  shows "logOk g'"
  using assms by (simp add: logOk_def)

text \<open>Recording a move: an entry in its colour's history and the event made of it.\<close>

lemma logOk_record:
  assumes "logOk g" "eventBus g' = eventBus g" "gameOver g' = gameOver g"
    "whiteScore g' = whiteScore g" "blackScore g' = blackScore g"
    and "whiteMoveHistory g' = (if h_color e = White then whiteMoveHistory g @ [e] else whiteMoveHistory g)"
    and "blackMoveHistory g' = (if h_color e = White then blackMoveHistory g else blackMoveHistory g @ [e])"
    and "published g' = (if eventBus g then published g @ [completedEvent e b k c w w'] else published g)"
  shows "logOk g'"
proof -
  have "h_color e \<noteq> White \<longleftrightarrow> h_color e = Black" by (cases "h_color e") simp_all
  then show ?thesis
    using assms by (auto simp: logOk_def lastScores_append eventKey_def entryKey_def completedEvent_def)
qed

lemma logOk_addCaptureScore: "logOk g \<Longrightarrow> logOk (addCaptureScore c k g)"
  by (auto simp: logOk_def frame_simps lastScores_append scoreEvent_def getPieceValue_def)

lemma logOk_endGame: "logOk g \<Longrightarrow> logOk (endGame c why g)"
  by (auto simp: logOk_def frame_simps lastScores_append)

lemma logOk_stop:
  assumes "logOk g"
  shows "logOk (stopMovingPieceAt r s c t cap k col g)"
  by (rule logOk_record [OF assms, where e = "stopEntry r s c t cap g"])
    (simp_all add: frame_simps stopEntry_def)

lemma logOk_capturePiece: "logOk g \<Longrightarrow> logOk (capturePiece r g)"
  by (rule logOk_same) (simp_all add: frame_simps)

lemma logOk_onArbiter: "logOk g \<Longrightarrow> logOk (onArbiter f g)"
  by (rule logOk_same) (simp_all add: frame_simps)

lemma logOk_castle:
  assumes "logOk g"
  shows "logOk ((completeCastle c t g)\<lparr>pendingCastles := cs\<rparr>)"
  by (rule logOk_record [OF assms, where e = "castleEntry c t g"])
    (simp_all add: frame_simps castleEntry_def)

lemma logOk_processStep: "logOk g \<Longrightarrow> logOk (processStepEvent e g)"
  by (cases rule: processStep_cases [of g e])
    (simp_all add: logOk_stop logOk_castle logOk_onArbiter captureByJumper_eq captureTarget_eq Let_def
      logOk_capturePiece logOk_addCaptureScore logOk_endGame)

lemma logOk_landing:
  assumes "logOk g"
  shows "logOk (processJumpLanding cfg l g)"
proof -
  have "logOk (landed cfg l g)"
    by (rule logOk_record [OF assms, where e = "landEntry l g"]) (simp_all add: frame_simps landEntry_def)
  with assms show ?thesis by (simp add: processJumpLanding_eq)
qed

lemma fold_keeps:
  assumes "\<And>x s. P s \<Longrightarrow> P (f x s)" "P s"
  shows "P (fold f xs s)"
  using assms(2)
proof (induction xs arbitrary: s)
  case (Cons x xs)
  have "P (f x s)" using Cons.prems by (rule assms(1))
  then have "P (fold f xs (f x s))" by (rule Cons.IH)
  then show ?case by simp
qed simp

lemma logOk_events:
  assumes "logOk g"
  shows "logOk (applyTimeEvents cfg ev g)"
  unfolding applyTimeEvents_def
  by (rule fold_keeps [where P = logOk, OF logOk_landing],
      assumption, rule fold_keeps [where P = logOk, OF logOk_processStep], assumption, rule assms)

lemma logOk_start:
  "logOk g \<Longrightarrow> logOk (startMove r s d t g)" "logOk g \<Longrightarrow> logOk (startCastle c t g)"
  "logOk g \<Longrightarrow> logOk (onHeapArbiter f g)"
  by (rule logOk_same; simp add: startMove_def startCastle_def frame_simps Let_def)+

lemma logOk_runOp:
  assumes wf: "engine_wf g" and ok: "logOk g"
  shows "logOk (runOp cfg g action)"
proof (cases action)
  case (OpMove s d)
  show ?thesis
    by (cases rule: requestMove_cases [of cfg s d g]) (simp_all add: OpMove runOp_def ok logOk_start)
next
  case (OpJump c)
  show ?thesis
    by (cases rule: requestJump_cases [of cfg c g]) (simp_all add: OpJump runOp_def ok logOk_start)
next
  case (OpWait ms)
  have "logOk (snd (advance ms g))" if "logOk g" for ms g
    by (rule logOk_same [OF that]) (simp_all add: advance_parts)
  then show ?thesis
    using wait_rule [of g logOk cfg ms, OF wf ok] logOk_events by (auto simp: OpWait runOp_def)
qed

interpretation engine_log: event_machine "runOp cfg" "\<lambda>g. engine_wf g \<and> logOk g" "\<lambda>_ _. True" for cfg
  by unfold_locales (simp add: wf_runOp logOk_runOp)

lemma fresh_logOk: "freshEngine g \<Longrightarrow> logOk g"
  by (simp add: freshEngine_def logOk_def lastScores_def)

lemma logOk_runOps: "freshEngine g \<Longrightarrow> logOk (runOps cfg g ops)"
  using engine_log.run_inv_always [of g cfg ops] by (simp add: runOps_def fresh_logOk fresh_engine_wf)

end
