(* ===== verification/Engine_Occupancy.thy ===== *)
theory Engine_Occupancy
  imports Engine_Log
begin

text \<open>
  What the engine promises while no castling is under way: every cell shows at most one piece,
  a moving piece stands on the board at most at the cell it left, no captured piece is on the
  board, each side's score is the material it has captured, and the game is over exactly when
  a king has been captured. Castling is excluded because \<open>completeCastle\<close> writes its cells
  without looking at them.
\<close>

section \<open>The invariant\<close>

definition occ :: "GameEngine \<Rightarrow> bool" where
  "occ g \<longleftrightarrow> pendingCastles g = [] \<and> grid.holds_once (board g) \<and>
     (\<forall>m \<in> set (motions g). \<forall>p. pieceAt g p = Some (m_piece m) \<longrightarrow> p = m_source m) \<and>
     (\<forall>m \<in> set (motions g). \<forall>m' \<in> set (motions g).
        m_currentCell m = m_currentCell m' \<longrightarrow> m_piece m = m_piece m') \<and>
     (\<forall>m \<in> set (motions g). \<forall>r. pieceAt g (m_currentCell m) = Some r \<longrightarrow> stateOf g r = Moving) \<and>
     (\<forall>p r. pieceAt g p = Some r \<longrightarrow> stateOf g r \<noteq> Captured)"

lemma occD:
  assumes "occ g"
  shows "pendingCastles g = []" "grid.holds_once (board g)"
    "\<And>m p. m \<in> set (motions g) \<Longrightarrow> pieceAt g p = Some (m_piece m) \<Longrightarrow> p = m_source m"
    "\<And>m m'. m \<in> set (motions g) \<Longrightarrow> m' \<in> set (motions g) \<Longrightarrow> m_currentCell m = m_currentCell m' \<Longrightarrow>
       m_piece m = m_piece m'"
    "\<And>m r. m \<in> set (motions g) \<Longrightarrow> pieceAt g (m_currentCell m) = Some r \<Longrightarrow> stateOf g r = Moving"
    "\<And>p r. pieceAt g p = Some r \<Longrightarrow> stateOf g r \<noteq> Captured"
  using assms unfolding occ_def by blast+

lemma occI:
  assumes "pendingCastles g = []" "grid.holds_once (board g)"
    "\<And>m p. m \<in> set (motions g) \<Longrightarrow> pieceAt g p = Some (m_piece m) \<Longrightarrow> p = m_source m"
    "\<And>m m'. m \<in> set (motions g) \<Longrightarrow> m' \<in> set (motions g) \<Longrightarrow> m_currentCell m = m_currentCell m' \<Longrightarrow>
       m_piece m = m_piece m'"
    "\<And>m r. m \<in> set (motions g) \<Longrightarrow> pieceAt g (m_currentCell m) = Some r \<Longrightarrow> stateOf g r = Moving"
    "\<And>p r. pieceAt g p = Some r \<Longrightarrow> stateOf g r \<noteq> Captured"
  shows "occ g"
  using assms unfolding occ_def by blast

text \<open>A cell no piece but \<open>r\<close> is seen at.\<close>

definition freeFor :: "ref \<Rightarrow> Position \<Rightarrow> GameEngine \<Rightarrow> bool" where
  "freeFor r c g \<longleftrightarrow> (\<forall>m \<in> set (motions g). m_piece m \<noteq> r \<longrightarrow> m_currentCell m \<noteq> c) \<and>
     (\<forall>r'. pieceAt g c = Some r' \<longrightarrow> r' = r \<or> stateOf g r' = Moving)"

lemma find_none_free:
  assumes "engine_wf g" "findPieceAtRealOrVirtualCell g c r = None"
  shows "freeFor r c g"
  unfolding freeFor_def
proof (intro conjI ballI allI impI)
  have "find (\<lambda>m. m_piece m \<noteq> r \<and> stateOf g (m_piece m) = Moving \<and> m_currentCell m = c) (motions g) = None"
    using assms(2) by (auto simp: findPieceAtRealOrVirtualCell_def split: option.splits)
  then have none: "\<forall>m \<in> set (motions g). \<not> (m_piece m \<noteq> r \<and> stateOf g (m_piece m) = Moving \<and> m_currentCell m = c)"
    by (simp only: find_None_all)
  show "m_currentCell m \<noteq> c" if "m \<in> set (motions g)" "m_piece m \<noteq> r" for m
    using none that engine_wfD(3) [OF assms(1)] by (auto simp: movingOk_def)
  show "r' = r \<or> stateOf g r' = Moving" if "pieceAt g c = Some r'" for r'
    using assms(2) that by (auto simp: findPieceAtRealOrVirtualCell_def split: option.splits if_splits)
qed

lemma find_some_target:
  assumes "engine_wf g" "occ g" "findPieceAtRealOrVirtualCell g c r = Some t"
  shows "t \<noteq> r" "stateOf g t \<noteq> Captured"
    "(\<exists>m \<in> set (motions g). m_piece m = t \<and> m_currentCell m = c) \<or>
     (\<forall>m \<in> set (motions g). m_piece m \<noteq> r \<longrightarrow> m_currentCell m \<noteq> c) \<and> pieceAt g c = Some t"
proof -
  let ?P = "\<lambda>m. m_piece m \<noteq> r \<and> stateOf g (m_piece m) = Moving \<and> m_currentCell m = c"
  have "t \<noteq> r \<and> stateOf g t \<noteq> Captured \<and> ((\<exists>m \<in> set (motions g). m_piece m = t \<and> m_currentCell m = c) \<or>
     (\<forall>m \<in> set (motions g). m_piece m \<noteq> r \<longrightarrow> m_currentCell m \<noteq> c) \<and> pieceAt g c = Some t)"
  proof (cases "find ?P (motions g)")
    case (Some m)
    then have m: "m \<in> set (motions g)" "?P m" using find_Some_in_set [OF Some] by auto
    have "t = m_piece m" using assms(3) Some by (simp add: findPieceAtRealOrVirtualCell_def)
    with m show ?thesis by auto
  next
    case None
    then have none: "\<forall>m \<in> set (motions g). \<not> ?P m" by (simp only: find_None_all)
    have free: "\<forall>m \<in> set (motions g). m_piece m \<noteq> r \<longrightarrow> m_currentCell m \<noteq> c"
      using none engine_wfD(3) [OF assms(1)] by (auto simp: movingOk_def)
    have "pieceAt g c = Some t" "t \<noteq> r"
      using assms(3) None by (auto simp: findPieceAtRealOrVirtualCell_def split: option.splits if_splits)
    with free show ?thesis using occD(6) [OF assms(2)] by blast
  qed
  then show "t \<noteq> r" "stateOf g t \<noteq> Captured"
    "(\<exists>m \<in> set (motions g). m_piece m = t \<and> m_currentCell m = c) \<or>
     (\<forall>m \<in> set (motions g). m_piece m \<noteq> r \<longrightarrow> m_currentCell m \<noteq> c) \<and> pieceAt g c = Some t" by blast+
qed

section \<open>Steps\<close>

lemma occ_same:
  assumes "occ g" "board g' = board g" "motions g' = motions g" "pendingCastles g' = pendingCastles g"
    and "\<And>r. stateOf g r = Moving \<Longrightarrow> stateOf g' r = Moving"
    and "\<And>r. stateOf g' r = Captured \<Longrightarrow> stateOf g r = Captured"
  shows "occ g'"
proof (rule occI)
  note old = occD [OF assms(1)] and same = assms(2-4)
  show "pendingCastles g' = []" "grid.holds_once (board g')" using old(1,2) same by simp_all
  show "p = m_source m" if "m \<in> set (motions g')" "pieceAt g' p = Some (m_piece m)" for m p
    using that old(3) unfolding same by blast
  show "m_piece m = m_piece m'"
    if "m \<in> set (motions g')" "m' \<in> set (motions g')" "m_currentCell m = m_currentCell m'" for m m'
    using that old(4) unfolding same by blast
  show "stateOf g' r = Moving" if "m \<in> set (motions g')" "pieceAt g' (m_currentCell m) = Some r" for m r
    using that old(5) assms(5) unfolding same by blast
  show "stateOf g' r \<noteq> Captured" if "pieceAt g' p = Some r" for p r
    using that old(6) assms(6) unfolding same by blast
qed

lemma occ_stop:
  assumes wf: "engine_wf g" and ok: "occ g" and inside: "isInside (board g) c"
    and home: "\<And>p. pieceAt g p = Some r \<Longrightarrow> p = s" and free: "freeFor r c g"
  shows "occ (stopMovingPieceAt r s c t cap k col g)"
proof (rule occI)
  let ?g = "stopMovingPieceAt r s c t cap k col g"
  note wfb = engine_wfD(1) [OF wf]
  have cells: "pieceAt ?g p = (if p = c then Some r else if p = s \<and> pieceAt g s = Some r then None
      else pieceAt g p)" for p
    by (simp add: frame_simps commitBoard_cells [OF wfb inside])
  have state: "stateOf ?g x = (if x = r then Idle else stateOf g x)" for x
    by (simp add: frame_simps onPiece_apply)
  have from_old: "x \<noteq> r \<and> pieceAt g p = Some x \<and> p \<noteq> c" if "pieceAt ?g p = Some x" "p \<noteq> c" for p x
  proof -
    have old: "pieceAt g p = Some x" "\<not> (p = s \<and> pieceAt g s = Some r)"
      using that by (simp_all add: cells split: if_split_asm)
    then have "x \<noteq> r" using home [of p] by blast
    with old(1) that(2) show ?thesis by blast
  qed
  have at_c: "x = r" if "pieceAt ?g c = Some x" for x using that by (simp add: cells)
  have ms: "set (motions ?g) = {m \<in> set (motions g). m_piece m \<noteq> r}" by (simp add: frame_simps)
  show "pendingCastles ?g = []" using occD(1) [OF ok] by (simp add: frame_simps)
  show "grid.holds_once (board ?g)"
    unfolding grid.holds_once_def
  proof (intro allI impI)
    fix p q x assume p: "pieceAt ?g p = Some x" and q: "pieceAt ?g q = Some x"
    show "p = q"
    proof (cases "x = r")
      case True
      then show ?thesis using from_old [OF p] from_old [OF q] by blast
    next
      case False
      then have "p \<noteq> c" "q \<noteq> c" using at_c p q by blast+
      then show ?thesis
        using from_old [OF p] from_old [OF q] grid.holds_onceD [OF occD(2) [OF ok]] by blast
    qed
  qed
  show "p = m_source m" if "m \<in> set (motions ?g)" "pieceAt ?g p = Some (m_piece m)" for m p
  proof -
    have m: "m \<in> set (motions g)" "m_piece m \<noteq> r" using that ms by auto
    then have "p \<noteq> c" using that(2) at_c by blast
    then show ?thesis using from_old [OF that(2)] occD(3) [OF ok m(1)] by blast
  qed
  show "m_piece m = m_piece m'"
    if "m \<in> set (motions ?g)" "m' \<in> set (motions ?g)" "m_currentCell m = m_currentCell m'" for m m'
    using that occD(4) [OF ok] ms by blast
  show "stateOf ?g x = Moving" if "m \<in> set (motions ?g)" "pieceAt ?g (m_currentCell m) = Some x" for m x
  proof -
    have m: "m \<in> set (motions g)" "m_piece m \<noteq> r" using that ms by auto
    then have "m_currentCell m \<noteq> c" using free unfolding freeFor_def by blast
    then show ?thesis using from_old [OF that(2)] occD(5) [OF ok m(1)] by (simp add: state)
  qed
  show "stateOf ?g x \<noteq> Captured" if "pieceAt ?g p = Some x" for p x
    using that from_old [OF that] at_c occD(6) [OF ok] by (cases "p = c") (auto simp: state)
qed

lemma capturePiece_cells:
  assumes "engine_wf g" "occ g"
  shows "pieceAt (capturePiece t g) p = (if pieceAt g p = Some t then None else pieceAt g p)"
  using removePieceFromBoard_cells [OF engine_wfD(1) [OF assms(1)] occD(2) [OF assms(2)]]
  by (simp add: frame_simps)

lemma occ_capture:
  assumes wf: "engine_wf g" and ok: "occ g"
  shows "occ (capturePiece t g)"
proof (rule occI)
  let ?g = "capturePiece t g"
  have state: "stateOf ?g x = (if x = t then Captured else stateOf g x)" for x
    by (simp add: frame_simps onPiece_apply)
  have from_old: "x \<noteq> t \<and> pieceAt g p = Some x" if "pieceAt ?g p = Some x" for p x
    using that by (auto simp: capturePiece_cells [OF wf ok] split: if_splits)
  have ms: "m \<in> set (motions g)" "m_piece m \<noteq> t" if "m \<in> set (motions ?g)" for m
    using that by (auto simp: frame_simps)
  show "pendingCastles ?g = []" using occD(1) [OF ok] by (simp add: frame_simps)
  show "grid.holds_once (board ?g)"
    unfolding grid.holds_once_def using from_old grid.holds_onceD [OF occD(2) [OF ok]] by blast
  show "p = m_source m" if "m \<in> set (motions ?g)" "pieceAt ?g p = Some (m_piece m)" for m p
    using ms [OF that(1)] from_old [OF that(2)] occD(3) [OF ok] by blast
  show "m_piece m = m_piece m'"
    if "m \<in> set (motions ?g)" "m' \<in> set (motions ?g)" "m_currentCell m = m_currentCell m'" for m m'
    using ms [OF that(1)] ms [OF that(2)] that(3) occD(4) [OF ok] by blast
  show "stateOf ?g x = Moving" if "m \<in> set (motions ?g)" "pieceAt ?g (m_currentCell m) = Some x" for m x
    using ms [OF that(1)] from_old [OF that(2)] occD(5) [OF ok] by (simp add: state)
  show "stateOf ?g x \<noteq> Captured" if "pieceAt ?g p = Some x" for p x
    using from_old [OF that] occD(6) [OF ok, of p x] by (simp add: state)
qed

lemma occ_update:
  assumes wf: "engine_wf g" and ok: "occ g" and free: "freeFor r c g" and moving: "stateOf g r = Moving"
  shows "occ (onArbiter (updateMotionCell r c) g)"
proof (rule occI)
  let ?g = "onArbiter (updateMotionCell r c) g"
  have ms: "motions ?g = map (\<lambda>m. if m_piece m = r then advanceMotion c m else m) (motions g)"
    using updateMotionCell_motions [OF engine_wfD(2) [OF wf]] by (simp add: frame_simps)
  have motion: "\<exists>m0 \<in> set (motions g). m_piece m = m_piece m0 \<and> m_source m = m_source m0 \<and>
      m_currentCell m = (if m_piece m0 = r then c else m_currentCell m0)" if "m \<in> set (motions ?g)" for m
    using that unfolding ms by auto
  show "pendingCastles ?g = []" "grid.holds_once (board ?g)"
    using occD(1,2) [OF ok] by (simp_all add: frame_simps)
  show "p = m_source m" if "m \<in> set (motions ?g)" "pieceAt ?g p = Some (m_piece m)" for m p
    using motion [OF that(1)] that(2) occD(3) [OF ok] by (auto simp: frame_simps)
  show "m_piece m = m_piece m'"
    if "m \<in> set (motions ?g)" "m' \<in> set (motions ?g)" "m_currentCell m = m_currentCell m'" for m m'
  proof -
    from motion [OF that(1)] obtain m0 where m0: "m0 \<in> set (motions g)" "m_piece m = m_piece m0"
      "m_currentCell m = (if m_piece m0 = r then c else m_currentCell m0)"
      by blast
    from motion [OF that(2)] obtain m1 where m1: "m1 \<in> set (motions g)" "m_piece m' = m_piece m1"
      "m_currentCell m' = (if m_piece m1 = r then c else m_currentCell m1)"
      by blast
    have "m_piece m0 = m_piece m1"
    proof (cases "m_piece m0 = r \<or> m_piece m1 = r")
      case True
      then show ?thesis
        using that(3) m0 m1 free unfolding freeFor_def by (metis (full_types))
    next
      case False
      then show ?thesis using that(3) m0 m1 occD(4) [OF ok m0(1) m1(1)] by simp
    qed
    then show ?thesis using m0 m1 by simp
  qed
  show "stateOf ?g x = Moving" if "m \<in> set (motions ?g)" "pieceAt ?g (m_currentCell m) = Some x" for m x
  proof -
    from motion [OF that(1)] obtain m0 where m0: "m0 \<in> set (motions g)"
      "m_currentCell m = (if m_piece m0 = r then c else m_currentCell m0)"
      by blast
    show ?thesis
      using that(2) m0 free moving occD(5) [OF ok m0(1)] by (auto simp: frame_simps freeFor_def split: if_splits)
  qed
  show "stateOf ?g x \<noteq> Captured" if "pieceAt ?g p = Some x" for p x
    using that occD(6) [OF ok] by (simp add: frame_simps)
qed

lemma occ_scores:
  "occ g \<Longrightarrow> occ (addCaptureScore c k g)" "occ g \<Longrightarrow> occ (endGame c why g)"
  by (rule occ_same; simp add: frame_simps)+

lemma occ_end_if: "occ g \<Longrightarrow> occ (if b then endGame c why g else g)"
  by (simp add: occ_scores)

lemma free_current:
  assumes "occ g" "m \<in> set (motions g)"
  shows "freeFor (m_piece m) (m_currentCell m) g"
  unfolding freeFor_def using occD(4,5) [OF assms(1)] assms(2) by blast

lemma free_after_capture:
  assumes wf: "engine_wf g" and ok: "occ g" and t: "findPieceAtRealOrVirtualCell g c r = Some t"
  shows "freeFor r c (capturePiece t g)"
  unfolding freeFor_def
proof (intro conjI ballI allI impI)
  note target = find_some_target [OF wf ok t]
  show "m_currentCell m \<noteq> c" if m: "m \<in> set (motions (capturePiece t g))" "m_piece m \<noteq> r" for m
  proof -
    have m': "m \<in> set (motions g)" "m_piece m \<noteq> t" using m(1) by (auto simp: frame_simps)
    show ?thesis
    proof (cases "\<exists>m0 \<in> set (motions g). m_piece m0 = t \<and> m_currentCell m0 = c")
      case True
      then obtain m0 where m0: "m0 \<in> set (motions g)" "m_piece m0 = t" "m_currentCell m0 = c" by blast
      then show ?thesis using occD(4) [OF ok m'(1) m0(1)] m'(2) by auto
    next
      case False
      then show ?thesis using target(3) m(2) m'(1) by blast
    qed
  qed
  show "r' = r \<or> stateOf (capturePiece t g) r' = Moving" if "pieceAt (capturePiece t g) c = Some r'" for r'
  proof -
    have r': "pieceAt g c = Some r'" "r' \<noteq> t"
      using that by (auto simp: capturePiece_cells [OF wf ok] split: if_splits)
    have "\<exists>m \<in> set (motions g). m_currentCell m = c" using target(3) r' by auto
    then have "stateOf g r' = Moving" using r'(1) occD(5) [OF ok] by blast
    with r'(2) show ?thesis by (simp add: frame_simps onPiece_apply)
  qed
qed

lemma free_update:
  "freeFor r c g \<Longrightarrow> freeFor r c (onArbiter (updateMotionCell r d) g)"
  by (auto simp: freeFor_def frame_simps dest: updateMotionCell_others)

lemma free_score: "freeFor r c (addCaptureScore x k g) = freeFor r c g"
  by (simp add: freeFor_def frame_simps)

lemma stepEventOf_from: "s_from (stepEventOf m) = m_currentCell m"
  by (simp add: stepEventOf_def)

lemma occ_processStep:
  assumes wf: "engine_wf g" and ok: "occ g" and step: "stepOk g e"
  shows "occ (processStepEvent e g)"
proof (cases rule: processStep_cases [of g e])
  case not_moving
  then show ?thesis using ok by simp
next
  case (castled c)
  then show ?thesis using occD(1) [OF ok] by simp
next
  case no_motion
  then show ?thesis using ok by simp
next
  case (blocked m)
  have "s_from e = m_currentCell m" using step blocked(1,2) unfolding stepOk_def by (metis stepEventOf_from)
  moreover have "freeFor (m_piece m) (m_currentCell m) g" using free_current [OF ok blocked(1)] .
  moreover have "isInside (board g) (m_currentCell m)"
    using motion_places [OF wf blocked(1)] by (simp add: motionPlacesOk_def)
  ultimately show ?thesis
    using blocked(1,2) occD(3) [OF ok blocked(1)] by (auto simp: blocked(5) intro!: occ_stop wf ok)
next
  case (entered m)
  then show ?thesis using occ_update [OF wf ok find_none_free [OF wf]] by simp
next
  case (arrived m)
  note free = find_none_free [OF wf arrived(6)]
  let ?g = "onArbiter (updateMotionCell (s_piece e) (s_to e)) g"
  have "occ ?g" using occ_update [OF wf ok free arrived(3)] .
  moreover have "engine_wf ?g" using wf arrived(5) by (rule wf_updateMotion)
  moreover have "pieceAt ?g p = Some (s_piece e) \<Longrightarrow> p = m_source m" for p
    using occD(3) [OF ok arrived(1)] arrived(2) by (simp add: frame_simps)
  ultimately show ?thesis
    using arrived(5) free_update [OF free] by (auto simp: arrived(8) frame_simps intro!: occ_stop)
next
  case (shot m t)
  then show ?thesis using occ_capture [OF wf ok] by (simp add: captureByJumper_eq Let_def occ_scores)
next
  case (captured m t)
  note target = find_some_target [OF wf ok captured(6)]
  let ?g1 = "addCaptureScore (getColor (heap (capturePiece t g) (s_piece e))) (getKind (heap g t)) (capturePiece t g)"
  let ?g2 = "onArbiter (updateMotionCell (s_piece e) (s_to e)) ?g1"
  have wf1: "engine_wf ?g1" using wf by (simp add: wf_addCaptureScore wf_capture)
  have inside: "isInside (board ?g1) p = isInside (board g) p" for p
    using engine_wfD(1) [OF wf] by (intro isInside_size) (simp_all add: frame_simps)
  have wf2: "engine_wf ?g2" using wf1 captured(5) by (intro wf_updateMotion) (simp_all add: inside)
  have free: "freeFor (s_piece e) (s_to e) ?g1"
    using free_after_capture [OF wf ok captured(6)] by (simp add: free_score)
  have "occ ?g1" using occ_capture [OF wf ok] by (rule occ_scores)
  moreover have "stateOf ?g1 (s_piece e) = Moving"
    using captured(3) target(1) by (simp add: frame_simps onPiece_apply)
  ultimately have ok2: "occ ?g2" using occ_update [OF wf1 _ free] by simp
  have home: "p = m_source m" if "pieceAt ?g2 p = Some (s_piece e)" for p
  proof -
    have "pieceAt (capturePiece t g) p = Some (s_piece e)" using that by (simp add: frame_simps)
    then have "pieceAt g p = Some (s_piece e)"
      by (simp add: capturePiece_cells [OF wf ok] split: if_splits)
    then show ?thesis using occD(3) [OF ok captured(1)] captured(2) by simp
  qed
  have inside2: "isInside (board ?g2) (s_to e)" using captured(5) inside by (simp add: onArbiter_frame)
  have stopped: "occ (stopMovingPieceAt (s_piece e) (m_source m) (s_to e) (s_eventTimeMs e) True k col ?g2)" for k col
    using wf2 ok2 inside2 home free_update [OF free] by (rule occ_stop)
  show ?thesis
    unfolding captured(9) captureTarget_eq Let_def by (rule occ_end_if, rule stopped)
qed


text \<open>Events of a round, and requests that are no castling.\<close>

lemma occ_fold_steps:
  assumes "engine_wf g" "\<forall>e \<in> set es. stepOk g e" "distinct (map s_piece es)" "occ g"
  shows "occ (fold processStepEvent es g)"
  using assms
proof (induction es arbitrary: g)
  case (Cons e es)
  have "\<forall>e' \<in> set es. stepOk (processStepEvent e g) e'"
  proof
    fix e' assume e': "e' \<in> set es"
    have "s_piece e' \<in> s_piece ` set es" using e' by (rule imageI)
    then have "s_piece e' \<noteq> s_piece e" using Cons.prems(3) by auto
    then show "stepOk (processStepEvent e g) e'" using Cons.prems(1,2) e' by (intro stepOk_after) simp_all
  qed
  then have "occ (fold processStepEvent es (processStepEvent e g))"
    using Cons.prems by (intro Cons.IH) (simp_all add: wf_processStep occ_processStep)
  then show ?case by simp
qed simp

lemma occ_landing:
  assumes "occ g"
  shows "occ (processJumpLanding cfg l g)"
proof (rule occ_same [OF assms])
  fix r
  show "stateOf g r = Moving \<Longrightarrow> stateOf (processJumpLanding cfg l g) r = Moving"
    by (simp add: landing_not_moving)
  show "stateOf (processJumpLanding cfg l g) r = Captured \<Longrightarrow> stateOf g r = Captured"
    by (simp add: processJumpLanding_eq frame_simps onPiece_apply split: if_split_asm)
qed (simp_all add: frame_simps)

lemma occ_events: "roundOk ev g \<Longrightarrow> occ g \<Longrightarrow> occ (applyTimeEvents cfg ev g)"
  unfolding applyTimeEvents_def
  by (rule fold_keeps [where P = occ, OF occ_landing], assumption, rule occ_fold_steps)
    (simp_all add: roundOk_def)

lemma occ_startMove:
  assumes wf: "engine_wf g" and ok: "occ g" and r: "pieceAt g s = Some r" "stateOf g r = Idle"
  shows "occ (startMove r s d t g)"
proof (rule occI)
  let ?g = "startMove r s d t g"
  let ?m = "newMotion r s d t False (modifyPiece markAsMoved r g)"
  have ms: "set (motions ?g) = insert ?m (set (motions g))" and board: "board ?g = board g"
    using startMotion_frame(2) [of r s d t False "modifyPiece markAsMoved r g"]
    by (simp_all add: startMove_def onHeapArbiter_frame modifyPiece_frame)
  have state: "stateOf ?g x = (if x = r then Moving else stateOf g x)" for x
    by (simp add: startMove_def frame_simps startMotion_heap onPiece_apply markAsMoved_def)
  have nobody: "m_currentCell m \<noteq> s" if "m \<in> set (motions g)" for m
    using occD(5) [OF ok that] r by auto
  show "pendingCastles ?g = []" "grid.holds_once (board ?g)"
    using occD(1,2) [OF ok] by (simp_all add: startMove_def frame_simps)
  show "p = m_source m" if "m \<in> set (motions ?g)" "pieceAt ?g p = Some (m_piece m)" for m p
    using that occD(3) [OF ok] grid.holds_onceD [OF occD(2) [OF ok]] r(1) unfolding ms board by auto
  show "m_piece m = m_piece m'"
    if "m \<in> set (motions ?g)" "m' \<in> set (motions ?g)" "m_currentCell m = m_currentCell m'" for m m'
  proof (cases "m = ?m \<or> m' = ?m")
    case True
    then show ?thesis
      using that nobody [of m] nobody [of m'] newMotion_fields(4) unfolding ms insert_iff by metis
  next
    case False
    then show ?thesis using that occD(4) [OF ok] unfolding ms insert_iff by blast
  qed
  show "stateOf ?g x = Moving" if "m \<in> set (motions ?g)" "pieceAt ?g (m_currentCell m) = Some x" for m x
    using that r(1) occD(5) [OF ok] unfolding ms board by (auto simp: state)
  show "stateOf ?g x \<noteq> Captured" if "pieceAt ?g p = Some x" for p x
    using that occD(6) [OF ok, of p x] unfolding board by (simp add: state)
qed

lemma occ_startJump:
  assumes "occ g" "stateOf g r = Idle"
  shows "occ (onHeapArbiter (startJump (Some r) c t) g)"
  by (rule occ_same [OF assms(1)])
    (use assms(2) in \<open>auto simp: frame_simps startJump_def onPiece_apply Let_def split: if_split_asm\<close>)


section \<open>Material\<close>

text \<open>The value of the pieces of a colour that have been captured, over the pieces of the game.\<close>

definition lostValue :: "PieceColor \<Rightarrow> Piece \<Rightarrow> int" where
  "lostValue c p = (if getState p = Captured \<and> getColor p = c then getPieceValue (getKind p) else 0)"

definition lostMaterial :: "PieceColor \<Rightarrow> ref set \<Rightarrow> GameEngine \<Rightarrow> int" where
  "lostMaterial c R g = (\<Sum>r \<in> R. lostValue c (heap g r))"

definition kingLost :: "ref set \<Rightarrow> GameEngine \<Rightarrow> bool" where
  "kingLost R g \<longleftrightarrow> (\<exists>r \<in> R. stateOf g r = Captured \<and> getKind (heap g r) = King)"

text \<open>\<open>k\<close> says that a king was captured and the game not ended yet.\<close>

definition materialBut :: "bool \<Rightarrow> ref set \<Rightarrow> GameEngine \<Rightarrow> bool" where
  "materialBut k R g \<longleftrightarrow> finite R \<and> (\<forall>p r. pieceAt g p = Some r \<longrightarrow> r \<in> R) \<and>
     (\<forall>m \<in> set (motions g). m_piece m \<in> R) \<and>
     whiteScore g = lostMaterial Black R g \<and> blackScore g = lostMaterial White R g \<and>
     (gameOver g \<or> k \<longleftrightarrow> kingLost R g)"

abbreviation materialOk :: "ref set \<Rightarrow> GameEngine \<Rightarrow> bool" where
  "materialOk \<equiv> materialBut False"

lemma materialButD:
  assumes "materialBut k R g"
  shows "finite R" "\<And>p r. pieceAt g p = Some r \<Longrightarrow> r \<in> R"
    "\<And>m. m \<in> set (motions g) \<Longrightarrow> m_piece m \<in> R"
    "whiteScore g = lostMaterial Black R g" "blackScore g = lostMaterial White R g"
    "gameOver g \<or> k \<longleftrightarrow> kingLost R g"
  using assms unfolding materialBut_def by blast+

text \<open>Operations that capture nothing.\<close>

lemma material_same:
  assumes ok: "materialBut k R g" and "whiteScore g' = whiteScore g" "blackScore g' = blackScore g"
    "gameOver g' = gameOver g"
    and heap: "\<And>r. getState (heap g' r) = Captured \<longleftrightarrow> stateOf g r = Captured"
      "\<And>r. getColor (heap g' r) = getColor (heap g r)"
      "\<And>r. stateOf g r = Captured \<Longrightarrow> getKind (heap g' r) = getKind (heap g r)"
    and "\<And>p r. pieceAt g' p = Some r \<Longrightarrow> r \<in> R" "\<And>m. m \<in> set (motions g') \<Longrightarrow> m_piece m \<in> R"
  shows "materialBut k R g'"
proof -
  have "lostValue c (heap g' r) = lostValue c (heap g r)" for c r
    using heap by (auto simp: lostValue_def)
  then have "lostMaterial c R g' = lostMaterial c R g" for c by (simp add: lostMaterial_def)
  moreover have "kingLost R g' = kingLost R g" using heap unfolding kingLost_def by metis
  ultimately show ?thesis using materialButD [OF ok] assms(2-) unfolding materialBut_def by metis
qed

lemma material_stop:
  assumes wf: "engine_wf g" and ok: "materialBut b R g" and r: "r \<in> R" "stateOf g r \<noteq> Captured"
  shows "materialBut b R (stopMovingPieceAt r s c t cap k col g)"
proof (rule material_same [OF ok])
  show "p \<in> R" if "pieceAt (stopMovingPieceAt r s c t cap k col g) q = Some p" for p q
    using that commitBoard_from [OF engine_wfD(1) [OF wf], of r s c q p] materialButD(2) [OF ok] r(1)
    by (auto simp: frame_simps)
  show "m_piece m \<in> R" if "m \<in> set (motions (stopMovingPieceAt r s c t cap k col g))" for m
    using that materialButD(3) [OF ok] by (auto simp: frame_simps)
qed (use r(2) in \<open>auto simp: frame_simps onPiece_apply\<close>)

lemma material_update:
  assumes wf: "engine_wf g" and ok: "materialBut b R g"
  shows "materialBut b R (onArbiter (updateMotionCell r c) g)"
proof (rule material_same [OF ok])
  show "m_piece m \<in> R" if "m \<in> set (motions (onArbiter (updateMotionCell r c) g))" for m
    using that materialButD(3) [OF ok] updateMotionCell_motions [OF engine_wfD(2) [OF wf]]
    by (auto simp: frame_simps)
qed (use materialButD(2) [OF ok] in \<open>auto simp: frame_simps\<close>)

text \<open>
  A capture with all that the code does after it: the score of the other side goes up by the
  value of the piece, and a captured king ends the game.
\<close>

definition scoreCapture :: "ref \<Rightarrow> PieceColor \<Rightarrow> GameEngine \<Rightarrow> GameEngine" where
  "scoreCapture t by g = addCaptureScore by (getKind (heap g t)) (capturePiece t g)"

lemma lostMaterial_capture:
  assumes "finite R" "t \<in> R" "stateOf g t \<noteq> Captured"
  shows "lostMaterial c R (capturePiece t g) =
     lostMaterial c R g + (if getColor (heap g t) = c then getPieceValue (getKind (heap g t)) else 0)"
proof -
  have others: "(\<Sum>r \<in> R - {t}. lostValue c (heap (capturePiece t g) r)) = (\<Sum>r \<in> R - {t}. lostValue c (heap g r))"
    by (rule sum.cong) (simp_all add: frame_simps onPiece_apply)
  have "lostValue c (heap g t) = 0" using assms(3) by (simp add: lostValue_def)
  moreover have "lostValue c (heap (capturePiece t g) t) =
      (if getColor (heap g t) = c then getPieceValue (getKind (heap g t)) else 0)"
    by (simp add: lostValue_def frame_simps onPiece_apply)
  ultimately show ?thesis
    using others by (simp add: lostMaterial_def sum.remove [OF assms(1,2)])
qed

lemma kingLost_capture:
  assumes "t \<in> R" "stateOf g t \<noteq> Captured"
  shows "kingLost R (capturePiece t g) \<longleftrightarrow> kingLost R g \<or> getKind (heap g t) = King"
  using assms unfolding kingLost_def by (auto simp: frame_simps onPiece_apply)

lemma materialBut_capture:
  assumes wf: "engine_wf g" and ok: "materialOk R g" and t: "t \<in> R" "stateOf g t \<noteq> Captured"
    and enemy: "by \<noteq> getColor (heap g t)"
  shows "materialBut (getKind (heap g t) = King) R (scoreCapture t by g)"
  unfolding materialBut_def
proof (intro conjI allI impI ballI)
  let ?g = "scoreCapture t by g"
  note fin = materialButD(1) [OF ok]
  have lost: "lostMaterial c R ?g = lostMaterial c R (capturePiece t g)" for c
    by (simp add: lostMaterial_def scoreCapture_def frame_simps)
  have king: "kingLost R ?g = kingLost R (capturePiece t g)"
    by (simp add: kingLost_def scoreCapture_def frame_simps)
  have colors: "by = White \<longleftrightarrow> getColor (heap g t) = Black" "getColor (heap g t) = White \<longleftrightarrow> by \<noteq> White"
    using enemy by (cases "by"; cases "getColor (heap g t)"; simp)+
  show "finite R" by (rule fin)
  show "r \<in> R" if "pieceAt ?g p = Some r" for p r
    using that removePieceFromBoard_from [OF engine_wfD(1) [OF wf], of t p r] materialButD(2) [OF ok]
    by (auto simp: scoreCapture_def frame_simps)
  show "m_piece m \<in> R" if "m \<in> set (motions ?g)" for m
    using that materialButD(3) [OF ok] by (simp add: scoreCapture_def frame_simps)
  show "whiteScore ?g = lostMaterial Black R ?g"
    unfolding lost lostMaterial_capture [OF fin t] materialButD(4) [OF ok, symmetric]
    using colors by (simp add: scoreCapture_def frame_simps)
  show "blackScore ?g = lostMaterial White R ?g"
    unfolding lost lostMaterial_capture [OF fin t] materialButD(5) [OF ok, symmetric]
    using colors by (simp add: scoreCapture_def frame_simps)
  have "gameOver ?g = gameOver g" by (simp add: scoreCapture_def frame_simps)
  then show "(gameOver ?g \<or> getKind (heap g t) = King) = kingLost R ?g"
    using materialButD(6) [OF ok] kingLost_capture [OF t] king by simp
qed

lemma material_end:
  assumes "materialBut k R g"
  shows "materialOk R (if k then endGame c why g else g)"
  using assms unfolding materialBut_def lostMaterial_def kingLost_def
  by (cases k) (simp_all add: frame_simps)


lemma capturePiece_color: "getColor (heap (capturePiece t g) r) = getColor (heap g r)"
  by (simp add: frame_simps onPiece_apply)

lemma captureByJumper_score:
  "captureByJumper r t g =
     (if getKind (heap g r) = King
      then endGame (getColor (heap g t)) ''king_captured'' (scoreCapture r (getColor (heap g t)) g)
      else scoreCapture r (getColor (heap g t)) g)"
  by (simp add: captureByJumper_eq Let_def scoreCapture_def capturePiece_color addCaptureScore_frame)

lemma captureTarget_score:
  "captureTarget r t m e g =
     (let g1 = onArbiter (updateMotionCell r (s_to e)) (scoreCapture t (getColor (heap g r)) g);
          g2 = stopMovingPieceAt r (m_source m) (s_to e) (s_eventTimeMs e) True (getKind (heap g t))
                 (getColor (heap g1 t)) g1
      in if getKind (heap g t) = King then endGame (getColor (heap g2 r)) ''king_captured'' g2 else g2)"
  by (simp add: captureTarget_eq Let_def scoreCapture_def capturePiece_color)

lemma material_processStep:
  assumes wf: "engine_wf g" and ok: "occ g" and step: "stepOk g e" and mat: "materialOk R g"
  shows "materialOk R (processStepEvent e g)"
proof (cases rule: processStep_cases [of g e])
  case not_moving
  then show ?thesis using mat by simp
next
  case (castled c)
  then show ?thesis using occD(1) [OF ok] by simp
next
  case no_motion
  then show ?thesis using mat by simp
next
  case (blocked m)
  then show ?thesis using materialButD(3) [OF mat, of m] wf mat by (auto intro: material_stop)
next
  case (entered m)
  then show ?thesis using wf mat by (simp add: material_update)
next
  case (arrived m)
  have "engine_wf (onArbiter (updateMotionCell (s_piece e) (s_to e)) g)"
    using wf arrived(5) by (rule wf_updateMotion)
  moreover have "materialOk R (onArbiter (updateMotionCell (s_piece e) (s_to e)) g)"
    using wf mat by (rule material_update)
  ultimately show ?thesis
    using arrived materialButD(3) [OF mat, of m] by (auto simp: frame_simps intro!: material_stop)
next
  case (shot m t)
  have r: "s_piece e \<in> R" using materialButD(3) [OF mat shot(1)] shot(2) by simp
  have "materialBut (getKind (heap g (s_piece e)) = King) R
      (scoreCapture (s_piece e) (getColor (heap g t)) g)"
    using materialBut_capture [OF wf mat r] shot(3,7) by simp
  then show ?thesis unfolding shot(9) captureByJumper_score by (rule material_end)
next
  case (captured m t)
  note target = find_some_target [OF wf ok captured(6)]
  let ?k = "getKind (heap g t) = King"
  let ?g1 = "scoreCapture t (getColor (heap g (s_piece e))) g"
  let ?g2 = "onArbiter (updateMotionCell (s_piece e) (s_to e)) ?g1"
  have r: "s_piece e \<in> R" using materialButD(3) [OF mat captured(1)] captured(2) by simp
  have t: "t \<in> R" using target(3) materialButD(2,3) [OF mat] by blast
  have wf1: "engine_wf ?g1" using wf by (simp add: scoreCapture_def wf_addCaptureScore wf_capture)
  have inside: "isInside (board ?g1) p = isInside (board g) p" for p
    using engine_wfD(1) [OF wf] by (intro isInside_size) (simp_all add: scoreCapture_def frame_simps)
  have wf2: "engine_wf ?g2" using wf1 captured(5) by (intro wf_updateMotion) (simp_all add: inside)
  have "materialBut ?k R ?g1"
    using materialBut_capture [OF wf mat t target(2)] captured(7) by simp
  then have mat2: "materialBut ?k R ?g2" using wf1 by (intro material_update)
  have "stateOf ?g2 (s_piece e) = Moving"
    using captured(3) target(1) by (simp add: scoreCapture_def frame_simps onPiece_apply)
  then have "materialBut ?k R (stopMovingPieceAt (s_piece e) (m_source m) (s_to e) (s_eventTimeMs e)
      True (getKind (heap g t)) (getColor (heap ?g2 t)) ?g2)"
    using wf2 mat2 r by (intro material_stop) simp_all
  then show ?thesis unfolding captured(9) captureTarget_score Let_def by (rule material_end)
qed

text \<open>Both invariants together, along a round and along a run.\<close>

definition consistent :: "ref set \<Rightarrow> GameEngine \<Rightarrow> bool" where
  "consistent R g \<longleftrightarrow> occ g \<and> materialOk R g"

lemma consistent_fold_steps:
  assumes "engine_wf g" "\<forall>e \<in> set es. stepOk g e" "distinct (map s_piece es)" "consistent R g"
  shows "consistent R (fold processStepEvent es g)"
  using assms
proof (induction es arbitrary: g)
  case (Cons e es)
  have "\<forall>e' \<in> set es. stepOk (processStepEvent e g) e'"
  proof
    fix e' assume e': "e' \<in> set es"
    have "s_piece e' \<in> s_piece ` set es" using e' by (rule imageI)
    then have "s_piece e' \<noteq> s_piece e" using Cons.prems(3) by auto
    then show "stepOk (processStepEvent e g) e'" using Cons.prems(1,2) e' by (intro stepOk_after) simp_all
  qed
  then have "consistent R (fold processStepEvent es (processStepEvent e g))"
    using Cons.prems
    by (intro Cons.IH) (simp_all add: wf_processStep occ_processStep material_processStep consistent_def)
  then show ?case by simp
qed simp

lemma material_landing:
  assumes "materialOk R g"
  shows "materialOk R (processJumpLanding cfg l g)"
proof (rule material_same [OF assms])
  fix r
  show "stateOf (processJumpLanding cfg l g) r = Captured \<longleftrightarrow> stateOf g r = Captured"
    "getColor (heap (processJumpLanding cfg l g) r) = getColor (heap g r)"
    "getKind (heap (processJumpLanding cfg l g) r) = getKind (heap g r)"
    by (auto simp: processJumpLanding_eq frame_simps onPiece_apply)
qed (use materialButD [OF assms] in \<open>simp_all add: frame_simps\<close>)

lemma consistent_landing: "consistent R g \<Longrightarrow> consistent R (processJumpLanding cfg l g)"
  by (simp add: consistent_def occ_landing material_landing)

lemma consistent_events: "roundOk ev g \<Longrightarrow> consistent R g \<Longrightarrow> consistent R (applyTimeEvents cfg ev g)"
  unfolding applyTimeEvents_def
  by (rule fold_keeps [where P = "consistent R", OF consistent_landing], assumption,
      rule consistent_fold_steps) (simp_all add: roundOk_def)

lemma consistent_requestMove:
  assumes wf: "engine_wf g" and ok: "consistent R g" and plain: "\<not> isCastlingRequest g s d"
  shows "consistent R (snd (requestMove cfg s d g))"
proof (cases rule: requestMove_cases [of cfg s d g])
  case refused
  then show ?thesis using ok by simp
next
  case castle
  then show ?thesis using plain by simp
next
  case (move r)
  let ?t = "moveTimePerCellMs (cfg (token (heap g r)) ''move'')"
  have "materialOk R (startMove r s d ?t g)"
  proof (rule material_same)
    show mat: "materialOk R g" using ok by (simp add: consistent_def)
    show "m_piece m \<in> R" if "m \<in> set (motions (startMove r s d ?t g))" for m
      using that materialButD(2,3) [OF mat] move(4)
        startMotion_frame(2) [of r s d ?t False "modifyPiece markAsMoved r g"]
      by (auto simp: startMove_def onHeapArbiter_frame modifyPiece_frame)
    show "p \<in> R" if "pieceAt (startMove r s d ?t g) q = Some p" for p q
      using that materialButD(2) [OF mat] by (simp add: startMove_def frame_simps)
  qed (use move(5) in \<open>auto simp: startMove_def frame_simps startMotion_heap onPiece_apply markAsMoved_def\<close>)
  moreover have "occ (startMove r s d ?t g)"
    using wf ok move(4,5) by (simp add: occ_startMove consistent_def)
  ultimately show ?thesis using move(9) by (simp add: consistent_def)
qed

lemma consistent_requestJump:
  assumes wf: "engine_wf g" and ok: "consistent R g"
  shows "consistent R (snd (requestJump cfg c g))"
proof (cases rule: requestJump_cases [of cfg c g])
  case refused
  then show ?thesis using ok by simp
next
  case (jump r)
  have mat: "materialOk R g" and occ: "occ g" using ok by (simp_all add: consistent_def)
  have "materialOk R (onHeapArbiter (startJump (Some r) c t) g)" for t
    by (rule material_same [OF mat])
      (use jump(4) materialButD(2,3) [OF mat] in
        \<open>auto simp: frame_simps startJump_def onPiece_apply Let_def\<close>)
  then show ?thesis using jump(6) occ_startJump [OF occ jump(4)] by (simp add: consistent_def)
qed

text \<open>The operations the invariant speaks of: everything but a castling request.\<close>

definition noCastling :: "GameEngine \<Rightarrow> EngineOp \<Rightarrow> bool" where
  "noCastling g action = (case action of OpMove s d \<Rightarrow> \<not> isCastlingRequest g s d | _ \<Rightarrow> True)"

fun noCastlingRun :: "configReader \<Rightarrow> GameEngine \<Rightarrow> EngineOp list \<Rightarrow> bool" where
  "noCastlingRun cfg g [] = True"
| "noCastlingRun cfg g (action # ops) = (noCastling g action \<and> noCastlingRun cfg (runOp cfg g action) ops)"

lemma consistent_runOp:
  assumes wf: "engine_wf g" and ok: "consistent R g" and plain: "noCastling g action"
  shows "consistent R (runOp cfg g action)"
proof (cases action)
  case (OpMove s d)
  then show ?thesis using wf ok plain by (simp add: runOp_def noCastling_def consistent_requestMove)
next
  case (OpJump c)
  then show ?thesis using wf ok by (simp add: runOp_def consistent_requestJump)
next
  case (OpWait ms)
  have "consistent R (snd (advance ms g))" if t: "0 \<le> ms" "engine_wf g" "consistent R g" for ms g
  proof -
    have same: "motions (snd (advance ms g)) = motions g" using t(2,1) by (rule advance_motions)
    have rest: "board (snd (advance ms g)) = board g" "heap (snd (advance ms g)) = heap g"
      "pendingCastles (snd (advance ms g)) = pendingCastles g" "gameOver (snd (advance ms g)) = gameOver g"
      "whiteScore (snd (advance ms g)) = whiteScore g" "blackScore (snd (advance ms g)) = blackScore g"
      by (simp_all add: advance_parts)
    have mat: "materialOk R g" and occ: "occ g" using t(3) by (simp_all add: consistent_def)
    have "occ (snd (advance ms g))"
      by (rule occ_same [OF occ rest(1) same rest(3)]) (simp_all add: rest(2))
    moreover have "materialOk R (snd (advance ms g))"
      by (rule material_same [OF mat rest(5,6,4)])
        (use materialButD(2,3) [OF mat] in \<open>simp_all add: rest same\<close>)
    ultimately show ?thesis by (simp add: consistent_def)
  qed
  then show ?thesis
    using wait_rule [of g "consistent R" cfg ms, OF wf ok] consistent_events by (auto simp: OpWait runOp_def)
qed

interpretation engine_board: event_machine "runOp cfg" "\<lambda>g. engine_wf g \<and> consistent R g" noCastling for cfg R
  by unfold_locales (simp add: wf_runOp consistent_runOp)

lemma run_enabled_noCastling: "engine_board.run_enabled cfg g ops = noCastlingRun cfg g ops"
  by (induction ops arbitrary: g) simp_all

text \<open>A fresh engine with every piece on one cell and in the game's set of pieces.\<close>

definition standing :: "ref set \<Rightarrow> GameEngine \<Rightarrow> bool" where
  "standing R g \<longleftrightarrow> finite R \<and> grid.holds_once (board g) \<and> (\<forall>p r. pieceAt g p = Some r \<longrightarrow> r \<in> R) \<and>
     (\<forall>r \<in> R. stateOf g r \<noteq> Captured)"

lemma fresh_consistent:
  assumes "freshEngine g" "standing R g"
  shows "consistent R g"
proof -
  have "lostMaterial c R g = 0" for c
    unfolding lostMaterial_def
    by (rule sum.neutral) (use assms(2) in \<open>auto simp: lostValue_def standing_def\<close>)
  then show ?thesis
    using assms unfolding consistent_def occ_def materialBut_def freshEngine_def standing_def kingLost_def
    by (auto simp: newArbiter_def)
qed

lemma consistent_run:
  assumes "freshEngine g" "standing R g" "noCastlingRun cfg g ops"
  shows "engine_wf (runOps cfg g ops) \<and> consistent R (runOps cfg g ops)"
  using engine_board.run_inv [of g R cfg ops] assms
  by (simp add: runOps_def run_enabled_noCastling fresh_consistent fresh_engine_wf)

text \<open>What the invariant says of the cells: each shows at most one piece.\<close>

definition seenAt :: "GameEngine \<Rightarrow> ref \<Rightarrow> Position \<Rightarrow> bool" where
  "seenAt g r c \<longleftrightarrow> list_ex (\<lambda>m. m_piece m = r \<and> m_currentCell m = c) (motions g) \<or>
     (pieceAt g c = Some r \<and> stateOf g r \<noteq> Moving)"

lemma occ_seen_once:
  assumes wf: "engine_wf g" and ok: "occ g" and "seenAt g r c" "seenAt g r' c"
  shows "r = r'"
proof -
  have seen: "(\<exists>m \<in> set (motions g). m_piece m = x \<and> m_currentCell m = c) \<or>
      (pieceAt g c = Some x \<and> stateOf g x \<noteq> Moving)" if "seenAt g x c" for x
    using that by (auto simp: seenAt_def list_ex_iff)
  show ?thesis
  proof (cases "\<exists>m \<in> set (motions g). m_currentCell m = c")
    case True
    then obtain m where m: "m \<in> set (motions g)" "m_currentCell m = c" by blast
    have "x = m_piece m" if "seenAt g x c" for x
      using seen [OF that]
    proof (elim disjE bexE conjE)
      fix m' assume "m' \<in> set (motions g)" "m_piece m' = x" "m_currentCell m' = c"
      then show ?thesis using occD(4) [OF ok m(1), of m'] m(2) by simp
    next
      assume "pieceAt g c = Some x" "stateOf g x \<noteq> Moving"
      then show ?thesis using occD(5) [OF ok m(1)] m(2) by blast
    qed
    then show ?thesis using assms(3,4) by blast
  next
    case False
    then have "pieceAt g c = Some r" "pieceAt g c = Some r'"
      using seen [OF assms(3)] seen [OF assms(4)] by blast+
    then show ?thesis by simp
  qed
qed

lemma occ_seen_at_one_cell:
  assumes wf: "engine_wf g" and ok: "occ g" and "seenAt g r c" "seenAt g r c'"
  shows "c = c'"
proof -
  have seen: "(\<exists>m \<in> set (motions g). m_piece m = r \<and> m_currentCell m = x) \<or>
      (pieceAt g x = Some r \<and> stateOf g r \<noteq> Moving)" if "seenAt g r x" for x
    using that by (auto simp: seenAt_def list_ex_iff)
  have same: "m = m'" if "m \<in> set (motions g)" "m' \<in> set (motions g)" "m_piece m = m_piece m'" for m m'
    using that engine_wfD(2) [OF wf] distinct_map_eq_iff [of m_piece "motions g" m m']
    by (simp add: wf_arbiter_def)
  have moving: "stateOf g (m_piece m) = Moving" if "m \<in> set (motions g)" for m
    using that engine_wfD(3) [OF wf] by (simp add: movingOk_def)
  show ?thesis
  proof (cases "stateOf g r = Moving")
    case True
    then show ?thesis using seen [OF assms(3)] seen [OF assms(4)] same by metis
  next
    case False
    then have "pieceAt g c = Some r" "pieceAt g c' = Some r"
      using seen [OF assms(3)] seen [OF assms(4)] moving by metis+
    then show ?thesis by (rule grid.holds_onceD [OF occD(2) [OF ok]])
  qed
qed

end
