(* ===== verification/Engine_Identity.thy ===== *)
theory Engine_Identity
  imports Engine_Occupancy
begin

text \<open>
  What a piece keeps for good: its id and its colour, and its kind unless it is a pawn that has
  become a queen. It holds along every run, castling included.
\<close>

definition becomes :: "Piece \<Rightarrow> Piece \<Rightarrow> bool" where
  "becomes p q \<longleftrightarrow> getId q = getId p \<and> getColor q = getColor p \<and>
     (getKind q = getKind p \<or> (getKind p = Pawn \<and> getKind q = Queen))"

lemma becomes_refl [simp]: "becomes p p"
  by (simp add: becomes_def)

lemma becomes_trans: "becomes p q \<Longrightarrow> becomes q r \<Longrightarrow> becomes p r"
  by (auto simp: becomes_def)

lemma becomes_updates [simp]:
  "becomes p (setState s q) \<longleftrightarrow> becomes p q" "becomes p (markAsMoved q) \<longleftrightarrow> becomes p q"
  "becomes p (castlePiece t q) \<longleftrightarrow> becomes p q" "becomes p (landPiece t d q) \<longleftrightarrow> becomes p q"
  "becomes p (stopPiece False t d q) \<longleftrightarrow> becomes p q"
  by (simp_all add: becomes_def markAsMoved_def)

lemma becomes_stop: "(b \<longrightarrow> getKind q = Pawn) \<Longrightarrow> becomes p q \<Longrightarrow> becomes p (stopPiece b t d q)"
  by (auto simp: becomes_def)

definition sameGame :: "GameEngine \<Rightarrow> GameEngine \<Rightarrow> bool" where
  "sameGame g0 g \<longleftrightarrow> (\<forall>r. becomes (heap g0 r) (heap g r))"

lemma sameGame_refl: "sameGame g g"
  by (simp add: sameGame_def)

lemma sameGame_stop: "sameGame g0 g \<Longrightarrow> sameGame g0 (stopMovingPieceAt r s c t cap k col g)"
  by (auto simp: sameGame_def frame_simps onPiece_apply promotes_iff intro!: becomes_stop)

lemma sameGame_capturePiece: "sameGame g0 g \<Longrightarrow> sameGame g0 (capturePiece r g)"
  by (simp add: sameGame_def frame_simps onPiece_apply)

lemma sameGame_heap: "sameGame g0 g \<Longrightarrow> heap g' = heap g \<Longrightarrow> sameGame g0 g'"
  by (simp add: sameGame_def)

lemma sameGame_end: "sameGame g0 g \<Longrightarrow> sameGame g0 (if b then endGame c why g else g)"
  by (simp add: sameGame_def frame_simps)

lemma sameGame_processStep:
  assumes "sameGame g0 g"
  shows "sameGame g0 (processStepEvent e g)"
proof (cases rule: processStep_cases [of g e])
  case (castled c)
  then show ?thesis using assms by (simp add: sameGame_def frame_simps)
next
  case (arrived m)
  have "sameGame g0 (onArbiter (updateMotionCell (s_piece e) (s_to e)) g)"
    using assms by (rule sameGame_heap) (simp add: frame_simps)
  then show ?thesis by (simp add: arrived sameGame_stop)
next
  case (shot m t)
  have "sameGame g0 (capturePiece (s_piece e) g)" using assms by (rule sameGame_capturePiece)
  then show ?thesis by (simp add: shot sameGame_def frame_simps)
next
  case (captured m t)
  have "sameGame g0 (capturePiece t g)" using assms by (rule sameGame_capturePiece)
  then have "sameGame g0 (onArbiter (updateMotionCell (s_piece e) (s_to e)) (scoreCapture t c g))" for c
    by (rule sameGame_heap) (simp add: scoreCapture_def frame_simps)
  then have stopped: "sameGame g0 (stopMovingPieceAt (s_piece e) (m_source m) (s_to e) (s_eventTimeMs e) True k col
      (onArbiter (updateMotionCell (s_piece e) (s_to e)) (scoreCapture t c g)))" for k col c
    by (rule sameGame_stop)
  show ?thesis
    unfolding captured(9) captureTarget_score Let_def by (rule sameGame_end, rule stopped)
qed (use assms in \<open>simp_all add: sameGame_stop sameGame_heap frame_simps\<close>)

lemma sameGame_landing: "sameGame g0 g \<Longrightarrow> sameGame g0 (processJumpLanding cfg l g)"
  by (simp add: processJumpLanding_eq sameGame_def frame_simps onPiece_apply)

lemma sameGame_events: "sameGame g0 g \<Longrightarrow> sameGame g0 (applyTimeEvents cfg ev g)"
  unfolding applyTimeEvents_def
  by (rule fold_keeps [where P = "sameGame g0", OF sameGame_landing], assumption,
      rule fold_keeps [where P = "sameGame g0", OF sameGame_processStep])

lemma sameGame_runOp:
  assumes wf: "engine_wf g" and ok: "sameGame g0 g"
  shows "sameGame g0 (runOp cfg g action)"
proof (cases action)
  case (OpMove s d)
  show ?thesis
    by (cases rule: requestMove_cases [of cfg s d g])
      (use ok in \<open>simp_all add: OpMove runOp_def sameGame_def startMove_def startCastle_def Let_def
         frame_simps startMotion_heap onPiece_apply\<close>)
next
  case (OpJump c)
  show ?thesis
    by (cases rule: requestJump_cases [of cfg c g])
      (use ok in \<open>simp_all add: OpJump runOp_def sameGame_def frame_simps startJump_def onPiece_apply Let_def\<close>)
next
  case (OpWait ms)
  have "sameGame g0 (snd (advance ms g))" if "sameGame g0 g" for ms g
    using that by (rule sameGame_heap) (simp add: advance_parts)
  then show ?thesis
    using wait_rule [of g "sameGame g0" cfg ms, OF wf ok] sameGame_events by (auto simp: OpWait runOp_def)
qed

interpretation engine_identity: event_machine "runOp cfg" "\<lambda>g. engine_wf g \<and> sameGame g0 g" "\<lambda>_ _. True"
  for cfg g0
  by unfold_locales (simp add: wf_runOp sameGame_runOp)

lemma sameGame_runOps: "engine_wf g \<Longrightarrow> sameGame g (runOps cfg g ops)"
  using engine_identity.run_inv_always [of g g cfg ops] by (simp add: runOps_def sameGame_refl)

section \<open>The extent of the board\<close>

definition extent :: "GameEngine \<Rightarrow> int \<times> int" where
  "extent g = (getHeight (board g), getWidth (board g))"

lemma extent_runOp:
  assumes "engine_wf g"
  shows "extent (runOp cfg g action) = extent g"
proof (cases action)
  case (OpMove s d)
  show ?thesis
    by (cases rule: requestMove_cases [of cfg s d g])
      (simp_all add: OpMove runOp_def extent_def startMove_def startCastle_def Let_def frame_simps startMotion_frame)
next
  case (OpJump c)
  show ?thesis
    by (cases rule: requestJump_cases [of cfg c g])
      (simp_all add: OpJump runOp_def extent_def frame_simps startJump_def Let_def)
next
  case (OpWait ms)
  have "extent (snd (advance ms h)) = extent g" if "extent h = extent g" for ms h
    using that by (simp add: advance_parts extent_def)
  moreover have "extent (applyTimeEvents cfg ev h) = extent g" if "roundOk ev h" "extent h = extent g" for ev h
    using apply_round [OF that(1), of cfg] that(2) by (simp add: extent_def sameExtent_def)
  ultimately show ?thesis
    using wait_rule [of g "\<lambda>h. extent h = extent g" cfg ms] assms by (auto simp: OpWait runOp_def)
qed

interpretation engine_extent: event_machine "runOp cfg" "\<lambda>g. engine_wf g \<and> extent g = z" "\<lambda>_ _. True"
  for cfg z
  by unfold_locales (simp add: wf_runOp extent_runOp)

lemma extent_runOps: "engine_wf g \<Longrightarrow> extent (runOps cfg g ops) = extent g"
  using engine_extent.run_inv_always [of "extent g" g cfg ops] by (simp add: runOps_def)

end
