(* ===== verification/Snapshot.thy ===== *)
theory Snapshot
  imports Engine_Identity
begin

text \<open>
  The snapshot of the game that a client is sent:
  \<open>src/server/chess_server/src/Messaging/GameStateSnapshotBuilder.cpp\<close>. The board is scanned in
  row-major order; the set of ids already added keeps a piece from appearing twice. A piece in
  motion is shown at its motion's current cell. A motion or jump never holds a null piece, so
  the null tests of the loops are always false.
\<close>

section \<open>Operations\<close>

definition stateToString :: "PieceState \<Rightarrow> string" where
  "stateToString s =
     (case s of Idle \<Rightarrow> ''idle'' | Moving \<Rightarrow> ''moving'' | Airborne \<Rightarrow> ''airborne''
      | Captured \<Rightarrow> ''captured'')"

definition colorToString :: "PieceColor \<Rightarrow> string" where
  "colorToString c = (if c = White then ''w'' else ''b'')"

definition kindToString :: "PieceKind \<Rightarrow> string" where
  "kindToString k = [kindToChar k]"

definition visiblePositionOf :: "ref \<Rightarrow> Position \<Rightarrow> Motion list \<Rightarrow> Position" where
  "visiblePositionOf piece boardPosition ms =
     (case find (\<lambda>m. m_piece m = piece) ms of
        Some m \<Rightarrow> m_currentCell m
      | None \<Rightarrow> boardPosition)"

definition makeHistorySnapshot :: "MoveHistoryEntry \<Rightarrow> MoveHistorySnapshot" where
  "makeHistorySnapshot e = \<lparr>hs_completedAtMs = h_completedAtMs e, hs_color = colorToString (h_color e),
     hs_pieceKind = kindToString (h_pieceKind e), hs_source = h_source e,
     hs_destination = h_destination e, hs_wasCapture = h_wasCapture e,
     hs_wasPromotion = h_wasPromotion e, hs_wasJump = h_wasJump e, hs_notation = h_notation e\<rparr>"

definition makePieceSnapshot :: "GameEngine \<Rightarrow> ref \<Rightarrow> Position \<Rightarrow> PieceSnapshot" where
  "makePieceSnapshot g piece boardPosition =
     (let p = pieceOf g piece in
      \<lparr>ps_id = getId p, ps_token = token p,
       ps_position = visiblePositionOf piece boardPosition (activeMotions (realTime g)),
       ps_state = stateToString (getState p), ps_hasMoved = hasMoved p,
       ps_remainingCooldownMs = getRemainingCooldownMs (getCurrentTimeMs g) p,
       ps_totalCooldownMs = getTotalCooldownMs p\<rparr>)"

text \<open>One cell of the scan: the pieces found so far and the ids of them.\<close>

definition addPieceAt ::
    "GameEngine \<Rightarrow> Position \<Rightarrow> PieceSnapshot list \<times> int set \<Rightarrow> PieceSnapshot list \<times> int set" where
  "addPieceAt g boardPosition = (\<lambda>(found, addedPieceIds).
     (case getPieceAt (board g) boardPosition of
        None \<Rightarrow> (found, addedPieceIds)
      | Some piece \<Rightarrow>
          (if getState (pieceOf g piece) = Captured \<or> getId (pieceOf g piece) \<in> addedPieceIds
           then (found, addedPieceIds)
           else (found @ [makePieceSnapshot g piece boardPosition],
                 insert (getId (pieceOf g piece)) addedPieceIds))))"

definition makeMotionSnapshot :: "GameEngine \<Rightarrow> Motion \<Rightarrow> MotionSnapshot" where
  "makeMotionSnapshot g m = \<lparr>ms_pieceId = getId (pieceOf g (m_piece m)), ms_source = m_source m,
     ms_destination = m_destination m, ms_currentCell = m_currentCell m,
     ms_rowStep = m_rowStep m, ms_colStep = m_colStep m, ms_directMove = m_directMove m,
     ms_stepDurationMs = m_stepDurationMs m, ms_nextStepTimeMs = m_nextStepTimeMs m,
     ms_order = m_order m\<rparr>"

definition makeJumpSnapshot :: "GameEngine \<Rightarrow> Jump \<Rightarrow> JumpSnapshot" where
  "makeJumpSnapshot g j = \<lparr>js_pieceId = getId (pieceOf g (j_piece j)), js_cell = j_cell j,
     js_finishTimeMs = j_finishTimeMs j\<rparr>"

definition build :: "GameEngine \<Rightarrow> GameStateSnapshot" where
  "build g =
     newSnapshot\<lparr>serverTimeMs := getCurrentTimeMs g, snapGameOver := gameOver g,
       snapWhiteScore := whiteScore g, snapBlackScore := blackScore g,
       snapPieces := fst (fold (addPieceAt g) (boardPositions (board g)) ([], {})),
       snapMotions := map (makeMotionSnapshot g) (activeMotions (realTime g)),
       snapJumps := map (makeJumpSnapshot g) (activeJumps (realTime g)),
       snapWhiteMoveHistory := map makeHistorySnapshot (whiteMoveHistory g),
       snapBlackMoveHistory := map makeHistorySnapshot (blackMoveHistory g)\<rparr>"

section \<open>What is in a snapshot\<close>

text \<open>The standing pieces of the board, by cell, that are not captured.\<close>

definition shownAt :: "GameEngine \<Rightarrow> Position \<Rightarrow> ref list" where
  "shownAt g p = (case pieceAt g p of None \<Rightarrow> [] | Some r \<Rightarrow> if stateOf g r = Captured then [] else [r])"

lemma addPieceAt_fold_fresh:
  assumes "\<And>p r. p \<in> set ps \<Longrightarrow> r \<in> set (shownAt g p) \<Longrightarrow> getId (heap g r) \<notin> ids"
    and "\<And>p q r r'. p \<in> set ps \<Longrightarrow> q \<in> set ps \<Longrightarrow> r \<in> set (shownAt g p) \<Longrightarrow> r' \<in> set (shownAt g q) \<Longrightarrow>
      getId (heap g r) = getId (heap g r') \<Longrightarrow> p = q"
    and "distinct ps"
  shows "fst (fold (addPieceAt g) ps (found, ids)) =
     found @ concat (map (\<lambda>p. map (\<lambda>r. makePieceSnapshot g r p) (shownAt g p)) ps)"
  using assms
proof (induction ps arbitrary: found ids)
  case Nil
  then show ?case by simp
next
  case (Cons p ps)
  show ?case
  proof (cases "shownAt g p")
    case Nil
    then have "addPieceAt g p (found, ids) = (found, ids)"
      by (auto simp: addPieceAt_def shownAt_def split: option.splits if_splits)
    moreover have "fst (fold (addPieceAt g) ps (found, ids)) =
        found @ concat (map (\<lambda>p. map (\<lambda>r. makePieceSnapshot g r p) (shownAt g p)) ps)"
    proof (rule Cons.IH)
      show "getId (heap g r) \<notin> ids" if "q \<in> set ps" "r \<in> set (shownAt g q)" for q r
        using Cons.prems(1) [of q r] that by simp
      show "q = q'" if "q \<in> set ps" "q' \<in> set ps" "a \<in> set (shownAt g q)" "b \<in> set (shownAt g q')"
        "getId (heap g a) = getId (heap g b)" for q q' a b
        using Cons.prems(2) [of q q' a b] that by simp
      show "distinct ps" using Cons.prems(3) by simp
    qed
    ultimately show ?thesis using Nil by simp
  next
    case (Cons r rs)
    then have r: "pieceAt g p = Some r" "stateOf g r \<noteq> Captured" "rs = []"
      by (auto simp: shownAt_def split: option.splits if_splits)
    have fresh: "getId (heap g r) \<notin> ids" using Cons.prems(1) [of p r] Cons by simp
    have step: "addPieceAt g p (found, ids) =
        (found @ [makePieceSnapshot g r p], insert (getId (heap g r)) ids)"
      using r fresh by (simp add: addPieceAt_def)
    have "fst (fold (addPieceAt g) ps (found @ [makePieceSnapshot g r p], insert (getId (heap g r)) ids)) =
        (found @ [makePieceSnapshot g r p]) @ concat (map (\<lambda>p. map (\<lambda>r. makePieceSnapshot g r p) (shownAt g p)) ps)"
    proof (rule Cons.IH)
      fix q r' assume q: "q \<in> set ps" "r' \<in> set (shownAt g q)"
      have "q \<noteq> p" using q(1) Cons.prems(3) by auto
      then have "getId (heap g r') \<noteq> getId (heap g r)"
        using Cons.prems(2) [of q p r' r] q Cons by auto
      then show "getId (heap g r') \<notin> insert (getId (heap g r)) ids"
        using Cons.prems(1) [of q r'] q by simp
    next
      show "distinct ps" using Cons.prems(3) by simp
      show "q = q'" if "q \<in> set ps" "q' \<in> set ps" "a \<in> set (shownAt g q)" "b \<in> set (shownAt g q')"
        "getId (heap g a) = getId (heap g b)" for q q' a b
        using Cons.prems(2) [of q q' a b] that by simp
    qed
    then show ?thesis using step Cons r(3) by simp
  qed
qed

text \<open>
  The ids of the pieces of the game are theirs alone, as the code that sets up a board makes
  them.
\<close>

definition idsUnique :: "GameEngine \<Rightarrow> bool" where
  "idsUnique g \<longleftrightarrow> (\<forall>p q r r'. pieceAt g p = Some r \<longrightarrow> pieceAt g q = Some r' \<longrightarrow>
     getId (heap g r) = getId (heap g r') \<longrightarrow> r = r')"

lemma build_pieces:
  assumes "occ g" "idsUnique g"
  shows "snapPieces (build g) =
     concat (map (\<lambda>p. case pieceAt g p of None \<Rightarrow> [] | Some r \<Rightarrow> [makePieceSnapshot g r p])
       (boardPositions (board g)))"
proof -
  have shown: "shownAt g p = (case pieceAt g p of None \<Rightarrow> [] | Some r \<Rightarrow> [r])" for p
    using occD(6) [OF assms(1)] by (auto simp: shownAt_def split: option.split)
  have "fst (fold (addPieceAt g) (boardPositions (board g)) ([], {})) =
     [] @ concat (map (\<lambda>p. map (\<lambda>r. makePieceSnapshot g r p) (shownAt g p)) (boardPositions (board g)))"
  proof (rule addPieceAt_fold_fresh)
    show "p = q" if "r \<in> set (shownAt g p)" "r' \<in> set (shownAt g q)"
      "getId (heap g r) = getId (heap g r')" for p q r r'
    proof -
      have at: "pieceAt g p = Some r" "pieceAt g q = Some r'"
        using that(1,2) by (auto simp: shown split: option.splits)
      then have "r = r'" using assms(2) that(3) unfolding idsUnique_def by blast
      with at show ?thesis using grid.holds_onceD [OF occD(2) [OF assms(1)]] by blast
    qed
  qed (simp_all add: distinct_boardPositions)
  moreover have "map (\<lambda>r. makePieceSnapshot g r p) (shownAt g p) =
      (case pieceAt g p of None \<Rightarrow> [] | Some r \<Rightarrow> [makePieceSnapshot g r p])" for p
    by (simp add: shown split: option.split)
  ultimately show ?thesis by (simp add: build_def newSnapshot_def)
qed

lemma set_build_pieces:
  assumes "occ g" "idsUnique g"
  shows "ps \<in> set (snapPieces (build g)) \<longleftrightarrow> (\<exists>p r. pieceAt g p = Some r \<and> ps = makePieceSnapshot g r p)"
proof -
  have inside: "p \<in> set (boardPositions (board g))" if "pieceAt g p = Some r" for p r
    using getPieceAt_inside [OF that] by (simp add: set_boardPositions)
  show ?thesis
  proof
    assume "ps \<in> set (snapPieces (build g))"
    then obtain p where "ps \<in> set (case pieceAt g p of None \<Rightarrow> [] | Some r \<Rightarrow> [makePieceSnapshot g r p])"
      unfolding build_pieces [OF assms] by auto
    then show "\<exists>p r. pieceAt g p = Some r \<and> ps = makePieceSnapshot g r p"
      by (cases "pieceAt g p") auto
  next
    assume "\<exists>p r. pieceAt g p = Some r \<and> ps = makePieceSnapshot g r p"
    then obtain p r where "pieceAt g p = Some r" "ps = makePieceSnapshot g r p" by blast
    then show "ps \<in> set (snapPieces (build g))"
      unfolding build_pieces [OF assms] by (auto intro!: bexI [OF _ inside])
  qed
qed

lemma visible_seen:
  assumes "engine_wf g" "pieceAt g p = Some r"
  shows "seenAt g r (visiblePositionOf r p (motions g))"
proof (cases "find (\<lambda>m. m_piece m = r) (motions g)")
  case None
  then have none: "\<forall>m \<in> set (motions g). m_piece m \<noteq> r" by (simp only: find_None_all)
  then have "stateOf g r \<noteq> Moving"
    using engine_wfD(3) [OF assms(1)] assms(2) unfolding movingOk_def by blast
  then show ?thesis using None assms(2) by (simp add: visiblePositionOf_def seenAt_def)
next
  case (Some m)
  then have "m \<in> set (motions g)" "m_piece m = r" using find_Some_in_set [OF Some] by auto
  then show ?thesis using Some by (auto simp: visiblePositionOf_def seenAt_def list_ex_iff)
qed

end
