(* ===== verification/Control.thy ===== *)
theory Control
  imports Snapshot
begin

text \<open>
  From a click to the engine: \<open>src/server/chess_server/src/IO/BoardMapper.cpp\<close>,
  \<open>Messaging/EngineMessageHandler.cpp\<close> and \<open>Control/Controller.cpp\<close>. The handler and the
  controller share one engine and one bus through references, so both are part of the
  controller's state. \<open>nextSequence\<close> is an \<open>unsigned long long\<close>: a 64-bit word that wraps.
\<close>

section \<open>Pixels and cells\<close>

definition pixelToCell ::
    "int \<Rightarrow> int \<Rightarrow> Board \<Rightarrow> int \<Rightarrow> int \<Rightarrow> int \<Rightarrow> int \<Rightarrow> Position option" where
  "pixelToCell x y b boardStartX boardStartY cellSizeX cellSizeY =
     (if cellSizeX \<le> 0 \<or> cellSizeY \<le> 0 then None
      else let relativeX = x - boardStartX; relativeY = y - boardStartY in
        if relativeX < 0 \<or> relativeY < 0 then None
        else let boardPixelWidth = getWidth b * cellSizeX;
                 boardPixelHeight = getHeight b * cellSizeY in
          if relativeX \<ge> boardPixelWidth \<or> relativeY \<ge> boardPixelHeight then None
          else let col = relativeX div cellSizeX; row = relativeY div cellSizeY;
                   position = Position row col in
            if \<not> isInside b position then None else Some position)"

definition pixelToCellDefault :: "int \<Rightarrow> int \<Rightarrow> Board \<Rightarrow> Position option" where
  "pixelToCellDefault x y b = pixelToCell x y b 0 0 CELL_SIZE CELL_SIZE"

lemma div_cell: "0 < (c::int) \<Longrightarrow> x div c = k \<longleftrightarrow> k * c \<le> x \<and> x < (k + 1) * c"
proof
  assume c: "0 < c" and k: "x div c = k"
  have "x = k * c + x mod c" using div_mult_mod_eq [of x c] k by simp
  moreover have "0 \<le> x mod c" "x mod c < c" using c by simp_all
  ultimately show "k * c \<le> x \<and> x < (k + 1) * c" by (simp add: ring_distribs)
next
  assume "0 < c" "k * c \<le> x \<and> x < (k + 1) * c"
  then show "x div c = k"
    by (intro int_div_pos_eq [of x c k "x - k * c"]) (auto simp: algebra_simps)
qed

section \<open>The message handler\<close>

definition processNextMessage ::
    "configReader \<Rightarrow> GameEngine \<times> MessageBus \<Rightarrow> bool \<times> GameEngine \<times> MessageBus" where
  "processNextMessage cfg = (\<lambda>(g, bus).
     if \<not> hasMessageForEngine bus then (False, g, bus)
     else case receiveForEngine bus of
       Inl _ \<Rightarrow> (False, g, bus)
     | Inr (request, bus1) \<Rightarrow>
         (let (response, g1) = handleMessage cfg request g;
              response1 = response\<lparr>hasSnapshot := True, snapshot := build g1\<rparr>
          in (True, g1, sendToClient response1 bus1)))"

function processAllMessages :: "configReader \<Rightarrow> GameEngine \<times> MessageBus \<Rightarrow> GameEngine \<times> MessageBus" where
  "processAllMessages cfg s =
     (if fst (processNextMessage cfg s) then processAllMessages cfg (snd (processNextMessage cfg s))
      else snd (processNextMessage cfg s))"
  by pat_completeness auto

termination
  by (relation "measure (\<lambda>(cfg, g, bus). length (clientToEngine bus))")
    (auto simp: processNextMessage_def receiveForEngine_def hasMessageForEngine_def sendToClient_def
      Let_def case_prod_beta split: list.splits if_splits)

declare processAllMessages.simps [simp del]

text \<open>The answer to one request: the engine's response with the snapshot after it.\<close>

definition answer :: "configReader \<Rightarrow> Message \<Rightarrow> GameEngine \<Rightarrow> Message" where
  "answer cfg request g = (fst (handleMessage cfg request g))
     \<lparr>hasSnapshot := True, snapshot := build (snd (handleMessage cfg request g))\<rparr>"

lemma processNextMessage_empty:
  "clientToEngine bus = [] \<Longrightarrow> processNextMessage cfg (g, bus) = (False, g, bus)"
  by (simp add: processNextMessage_def hasMessageForEngine_def)

lemma processNextMessage_Cons:
  "clientToEngine bus = request # rest \<Longrightarrow> processNextMessage cfg (g, bus) =
     (True, snd (handleMessage cfg request g),
      bus\<lparr>clientToEngine := rest, engineToClient := engineToClient bus @ [answer cfg request g]\<rparr>)"
  by (simp add: processNextMessage_def hasMessageForEngine_def receiveForEngine_def sendToClient_def
      answer_def case_prod_beta Let_def)

fun answers :: "configReader \<Rightarrow> Message list \<Rightarrow> GameEngine \<Rightarrow> Message list \<times> GameEngine" where
  "answers cfg [] g = ([], g)"
| "answers cfg (request # rest) g =
     (let (out, g') = answers cfg rest (snd (handleMessage cfg request g))
      in (answer cfg request g # out, g'))"

lemma processAll_answers:
  "processAllMessages cfg (g, bus) =
     (snd (answers cfg (clientToEngine bus) g),
      bus\<lparr>clientToEngine := [], engineToClient := engineToClient bus @ fst (answers cfg (clientToEngine bus) g)\<rparr>)"
proof (induction "clientToEngine bus" arbitrary: bus g)
  case Nil
  then show ?case
    by (subst processAllMessages.simps) (simp add: processNextMessage_empty)
next
  case (Cons request rest)
  let ?bus = "bus\<lparr>clientToEngine := rest, engineToClient := engineToClient bus @ [answer cfg request g]\<rparr>"
  have "processAllMessages cfg (g, bus) = processAllMessages cfg (snd (handleMessage cfg request g), ?bus)"
    by (subst processAllMessages.simps) (simp add: processNextMessage_Cons [OF Cons.hyps(2) [symmetric]])
  then show ?case
    using Cons.hyps(1) [of ?bus "snd (handleMessage cfg request g)"] Cons.hyps(2) [symmetric]
    by (simp add: case_prod_beta Let_def)
qed

lemma answer_sequence [simp]: "sequence (answer cfg request g) = sequence request"
  by (simp add: answer_def handleMessage_def newMessage_def case_prod_beta Let_def split: MessageType.split)

section \<open>The controller\<close>

record Controller =
  engine :: GameEngine
  messageBus :: MessageBus
  nextSequence :: "64 word"
  selectedCell :: "Position option"
  boardStartX :: int
  boardStartY :: int
  cellSizeX :: int
  cellSizeY :: int

definition newController :: "GameEngine \<Rightarrow> int \<Rightarrow> int \<Rightarrow> int \<Rightarrow> int \<Rightarrow> Controller" where
  "newController g x y sx sy = \<lparr>engine = g, messageBus = newMessageBus, nextSequence = 1,
     selectedCell = None, boardStartX = x, boardStartY = y, cellSizeX = sx, cellSizeY = sy\<rparr>"

definition newControllerDefault :: "GameEngine \<Rightarrow> Controller" where
  "newControllerDefault g = newController g 0 0 CELL_SIZE CELL_SIZE"

definition mapClickToCell :: "int \<Rightarrow> int \<Rightarrow> Controller \<Rightarrow> Position option" where
  "mapClickToCell x y c = pixelToCell x y (board (engine c)) (boardStartX c) (boardStartY c)
     (cellSizeX c) (cellSizeY c)"

definition isPieceAvailable :: "Controller \<Rightarrow> ref option \<Rightarrow> bool" where
  "isPieceAvailable c piece =
     (case piece of
        None \<Rightarrow> False
      | Some r \<Rightarrow> getState (pieceOf (engine c) r) = Idle \<and>
          \<not> isOnCooldown (getCurrentTimeMs (engine c)) (pieceOf (engine c) r))"

definition selectFirstPiece :: "Position \<Rightarrow> Controller \<Rightarrow> ControllerResult \<times> Controller" where
  "selectFirstPiece clicked c =
     (let piece = getPieceAt (board (engine c)) clicked in
      if piece = None then (controllerResult False R_EMPTY_CLICK, c)
      else if \<not> isPieceAvailable c piece then (controllerResult False R_MOTION_IN_PROGRESS, c)
      else (controllerResult True R_SELECTED, c\<lparr>selectedCell := Some clicked\<rparr>))"

definition selectFriendlyPiece :: "Position \<Rightarrow> Controller \<Rightarrow> ControllerResult \<times> Controller" where
  "selectFriendlyPiece clicked c =
     (let piece = getPieceAt (board (engine c)) clicked in
      if \<not> isPieceAvailable c piece
      then (controllerResult False R_MOTION_IN_PROGRESS, c\<lparr>selectedCell := None\<rparr>)
      else (controllerResult True R_SELECTED, c\<lparr>selectedCell := Some clicked\<rparr>))"

definition sendRequest ::
    "configReader \<Rightarrow> MessageType \<Rightarrow> Position \<Rightarrow> Position \<Rightarrow> Controller \<Rightarrow> ControllerResult \<times> Controller" where
  "sendRequest cfg kind source destination c =
     (let request = newMessage\<lparr>msgType := kind, sequence := nextSequence c, msgSource := source,
            msgDestination := destination, createdAtMs := getCurrentTimeMs (engine c)\<rparr>;
          c1 = c\<lparr>nextSequence := nextSequence c + 1,
                 messageBus := sendToEngine request (messageBus c)\<rparr>;
          (_, g, bus) = processNextMessage cfg (engine c1, messageBus c1);
          c2 = c1\<lparr>engine := g, messageBus := bus\<rparr>
      in if \<not> hasMessageForClient (messageBus c2)
         then (controllerResult False ''missing_engine_response'', c2)
         else case receiveForClient (messageBus c2) of
           Inl _ \<Rightarrow> (controllerResult False ''missing_engine_response'', c2)
         | Inr (response, bus2) \<Rightarrow>
             (let c3 = c2\<lparr>messageBus := bus2\<rparr>
              in if sequence response \<noteq> sequence request
                 then (controllerResult False ''unexpected_response_sequence'', c3)
                 else (controllerResult (accepted response) (reason response), c3)))"

definition requestSelectedMove ::
    "configReader \<Rightarrow> Position \<Rightarrow> Position \<Rightarrow> Controller \<Rightarrow> ControllerResult \<times> Controller" where
  "requestSelectedMove cfg source destination c =
     sendRequest cfg MoveRequest source destination (c\<lparr>selectedCell := None\<rparr>)"

definition handleSelectedCell ::
    "configReader \<Rightarrow> Position \<Rightarrow> Position \<Rightarrow> Controller \<Rightarrow> ControllerResult \<times> Controller" where
  "handleSelectedCell cfg source clicked c =
     (if clicked = source
      then sendRequest cfg JumpRequest source source (c\<lparr>selectedCell := None\<rparr>)
      else case getPieceAt (board (engine c)) source of
        None \<Rightarrow> (controllerResult False R_EMPTY_SOURCE, c\<lparr>selectedCell := None\<rparr>)
      | Some selectedPiece \<Rightarrow>
          (if (case getPieceAt (board (engine c)) clicked of
                 None \<Rightarrow> False
               | Some clickedPiece \<Rightarrow>
                   getColor (pieceOf (engine c) selectedPiece) = getColor (pieceOf (engine c) clickedPiece))
           then selectFriendlyPiece clicked c
           else requestSelectedMove cfg source clicked c))"

definition click :: "configReader \<Rightarrow> int \<Rightarrow> int \<Rightarrow> Controller \<Rightarrow> ControllerResult \<times> Controller" where
  "click cfg x y c =
     (case mapClickToCell x y c of
        None \<Rightarrow> (controllerResult (selectedCell c \<noteq> None) R_CLICK_OUTSIDE, c\<lparr>selectedCell := None\<rparr>)
      | Some clicked \<Rightarrow>
          (case selectedCell c of
             None \<Rightarrow> selectFirstPiece clicked c
           | Some source \<Rightarrow> handleSelectedCell cfg source clicked c))"

definition jump :: "configReader \<Rightarrow> int \<Rightarrow> int \<Rightarrow> Controller \<Rightarrow> ControllerResult \<times> Controller" where
  "jump cfg x y c =
     (let clicked = mapClickToCell x y c; c1 = c\<lparr>selectedCell := None\<rparr> in
      case clicked of
        None \<Rightarrow> (controllerResult False R_CLICK_OUTSIDE, c1)
      | Some p \<Rightarrow> sendRequest cfg JumpRequest p p c1)"

definition hasSelection :: "Controller \<Rightarrow> bool" where
  "hasSelection c \<longleftrightarrow> selectedCell c \<noteq> None"

section \<open>The bus between them is invisible\<close>

definition idleBus :: "Controller \<Rightarrow> bool" where
  "idleBus c \<longleftrightarrow> clientToEngine (messageBus c) = [] \<and> engineToClient (messageBus c) = []"

lemma idleBus_new [simp]: "idleBus (newController g x y sx sy)"
  by (simp add: idleBus_def newController_def newMessageBus_def)

lemma handleMessage_move:
  "handleMessage cfg (newMessage\<lparr>msgType := MoveRequest, sequence := n, msgSource := s, msgDestination := d,
      createdAtMs := t\<rparr>) g =
   (newMessage\<lparr>sequence := n, msgSource := s, msgDestination := d, createdAtMs := getCurrentTimeMs g,
      accepted := isAccepted (fst (requestMove cfg s d g)), reason := moveReason (fst (requestMove cfg s d g)),
      msgType := (if isAccepted (fst (requestMove cfg s d g)) then MoveAccepted else MoveRejected)\<rparr>,
    snd (requestMove cfg s d g))"
  by (simp add: handleMessage_def newMessage_def case_prod_beta Let_def)

lemma handleMessage_jump:
  "handleMessage cfg (newMessage\<lparr>msgType := JumpRequest, sequence := n, msgSource := s, msgDestination := d,
      createdAtMs := t\<rparr>) g =
   (newMessage\<lparr>sequence := n, msgSource := s, msgDestination := d, createdAtMs := getCurrentTimeMs g,
      accepted := isAccepted (fst (requestJump cfg s g)), reason := moveReason (fst (requestJump cfg s g)),
      msgType := (if isAccepted (fst (requestJump cfg s g)) then MoveAccepted else MoveRejected)\<rparr>,
    snd (requestJump cfg s g))"
  by (simp add: handleMessage_def newMessage_def case_prod_beta Let_def)

lemma sendRequest_eq:
  assumes "idleBus c"
  shows "sendRequest cfg kind s d c =
     (let (response, g) = handleMessage cfg (newMessage\<lparr>msgType := kind, sequence := nextSequence c,
            msgSource := s, msgDestination := d, createdAtMs := getCurrentTimeMs (engine c)\<rparr>) (engine c)
      in (controllerResult (accepted response) (reason response),
          c\<lparr>engine := g, nextSequence := nextSequence c + 1\<rparr>))"
proof -
  let ?request = "newMessage\<lparr>msgType := kind, sequence := nextSequence c,
      msgSource := s, msgDestination := d, createdAtMs := getCurrentTimeMs (engine c)\<rparr>"
  let ?g = "snd (handleMessage cfg ?request (engine c))"
  have bus: "messageBus c = \<lparr>clientToEngine = [], engineToClient = []\<rparr>"
    using assms by (cases "messageBus c") (simp add: idleBus_def)
  have send: "sendToEngine ?request (messageBus c) = \<lparr>clientToEngine = [?request], engineToClient = []\<rparr>"
    by (simp add: sendToEngine_def bus)
  have step: "processNextMessage cfg (engine c, \<lparr>clientToEngine = [?request], engineToClient = []\<rparr>) =
      (True, ?g, \<lparr>clientToEngine = [], engineToClient = [answer cfg ?request (engine c)]\<rparr>)"
    using processNextMessage_Cons [of "\<lparr>clientToEngine = [?request], engineToClient = []\<rparr>" ?request "[]"]
    by simp
  have unchanged: "c\<lparr>engine := g, messageBus := \<lparr>clientToEngine = [], engineToClient = []\<rparr>, nextSequence := n\<rparr> =
      c\<lparr>engine := g, nextSequence := n\<rparr>" for g n
    using bus by (cases c) simp
  have fields: "accepted (answer cfg ?request (engine c)) = accepted (fst (handleMessage cfg ?request (engine c)))"
    "reason (answer cfg ?request (engine c)) = reason (fst (handleMessage cfg ?request (engine c)))"
    by (simp_all add: answer_def)
  show ?thesis
    unfolding sendRequest_def Let_def
    by (simp add: send step hasMessageForClient_def receiveForClient_def case_prod_beta fields
        unchanged [symmetric])
qed

end
