(* ===== verification/Engine_Liveness.thy ===== *)
theory Engine_Liveness
  imports Engine_Occupancy
begin

text \<open>
  A piece that is asked to move on a quiet board gets there: the motion walks the cells of its
  line one by one, each in the time of one cell, and the piece then stands on the destination,
  idle and resting for a second per cell. The loop of \<open>GameEngine::wait\<close> is followed round by
  round.
\<close>

section \<open>A board with one motion\<close>

definition loneMotion :: "GameEngine \<Rightarrow> Motion \<Rightarrow> bool" where
  "loneMotion g m \<longleftrightarrow> motions g = [m] \<and> jumps g = [] \<and> pendingCastles g = [] \<and>
     stateOf g (m_piece m) = Moving"

text \<open>The rest of the loop, from the state after a round of events.\<close>

definition restOfLoop :: "configReader \<Rightarrow> GameEngine \<Rightarrow> GameEngine option" where
  "restOfLoop cfg g = waitLoop cfg (fst (advance 0 g)) (snd (advance 0 g))"

lemma advance_no_time:
  assumes "jumps g = []" "\<forall>m \<in> set (motions g). stateOf g (m_piece m) = Moving"
  shows "advance 0 g = (\<lparr>steps = sort_key (\<lambda>e. (s_eventTimeMs e, s_order e))
     (map stepEventOf (filter (\<lambda>m. m_nextStepTimeMs m \<le> now g) (motions g))), jumpLandings = []\<rparr>, g)"
proof -
  have "filter (motionDue (heap g) (now g)) (motions g) = filter (\<lambda>m. m_nextStepTimeMs m \<le> now g) (motions g)"
    using assms(2) by (intro filter_cong) (simp_all add: motionDue_def)
  moreover have "filter (\<lambda>m. stateOf g (m_piece m) = Moving) (motions g) = motions g"
    using assms(2) by (simp add: filter_id_conv)
  ultimately show ?thesis using assms(1) by (simp add: advance_def advanceTime_def Let_def)
qed

lemma restOfLoop_done: "motions g = [] \<Longrightarrow> jumps g = [] \<Longrightarrow> restOfLoop cfg g = Some g"
  unfolding restOfLoop_def by (subst waitLoop.simps) (simp add: advance_no_time)

lemma restOfLoop_step:
  assumes "loneMotion g m" "m_nextStepTimeMs m \<le> now g"
  shows "restOfLoop cfg g = restOfLoop cfg (processStepEvent (stepEventOf m) g)"
proof -
  have "advance 0 g = (\<lparr>steps = [stepEventOf m], jumpLandings = []\<rparr>, g)"
    using assms advance_no_time [of g] by (simp add: loneMotion_def)
  then show ?thesis
    unfolding restOfLoop_def by (subst waitLoop.simps) (simp add: applyTimeEvents_def)
qed

lemma find_lone:
  assumes "loneMotion g m" "pieceAt g c = None"
  shows "findPieceAtRealOrVirtualCell g c (m_piece m) = None"
  using assms by (simp add: findPieceAtRealOrVirtualCell_def loneMotion_def)

lemma step_lone:
  assumes "loneMotion g m" "isInside (board g) (nextCellOf m)" "pieceAt g (nextCellOf m) = None"
  shows "processStepEvent (stepEventOf m) g =
     (let g1 = onArbiter (updateMotionCell (m_piece m) (nextCellOf m)) g
      in if nextCellOf m = m_destination m
         then stopMovingPieceAt (m_piece m) (m_source m) (nextCellOf m) (m_nextStepTimeMs m) False Pawn Black g1
         else g1)"
  using assms find_lone [OF assms(1,3)]
  by (simp add: processStepEvent_def stepEventOf_def completeCastleFor_def loneMotion_def Let_def)

lemma lone_update:
  assumes "loneMotion g m"
  shows "loneMotion (onArbiter (updateMotionCell (m_piece m) c) g) (advanceMotion c m)"
  using assms by (simp add: loneMotion_def frame_simps) (simp add: updateMotionCell_def)

section \<open>Walking a line\<close>

text \<open>The motion of piece \<open>r\<close> from \<open>s\<close> to \<open>d\<close>, after \<open>k\<close> cells, first step at \<open>t\<close>.\<close>

definition walks :: "ref \<Rightarrow> Position \<Rightarrow> Position \<Rightarrow> int \<Rightarrow> int \<Rightarrow> int \<Rightarrow> Motion \<Rightarrow> bool" where
  "walks r s d t dur k m \<longleftrightarrow> m_piece m = r \<and> m_source m = s \<and> m_destination m = d \<and>
     m_currentCell m = stepCell s d k \<and> m_rowStep m = stepTowards (getRow s) (getRow d) \<and>
     m_colStep m = stepTowards (getCol s) (getCol d) \<and> \<not> m_directMove m \<and>
     m_stepDurationMs m = dur \<and> m_nextStepTimeMs m = t + k * dur"

lemma walks_next: "walks r s d t dur k m \<Longrightarrow> nextCellOf m = stepCell s d (k + 1)"
  by (simp add: walks_def nextCellOf_def stepCell_def algebra_simps)

lemma walks_advance:
  "walks r s d t dur k m \<Longrightarrow> walks r s d t dur (k + 1) (advanceMotion (stepCell s d (k + 1)) m)"
  by (simp add: walks_def algebra_simps)

definition arrivedAt :: "ref \<Rightarrow> Position \<Rightarrow> Position \<Rightarrow> int \<Rightarrow> GameEngine \<Rightarrow> GameEngine \<Rightarrow> bool" where
  "arrivedAt r s d t g g' \<longleftrightarrow> (\<exists>h. board h = board g \<and> heap h = heap g \<and> now h = now g \<and>
     (\<forall>m \<in> set (motions h). m_piece m = r) \<and> jumps h = [] \<and> g' = stopMovingPieceAt r s d t False Pawn Black h)"

lemma arrive_rest:
  assumes "arrivedAt r s d t g g'"
  shows "motions g' = [] \<and> jumps g' = []"
  using assms by (auto simp: arrivedAt_def frame_simps filter_empty_conv)

lemma lone_last:
  assumes lone: "loneMotion g m" and m: "m_piece m = r" "m_source m = s" "m_destination m = d" "nextCellOf m = d"
    and due: "m_nextStepTimeMs m \<le> now g" and goal: "isInside (board g) d" "pieceAt g d = None"
  shows "\<exists>g'. restOfLoop cfg g = Some g' \<and> arrivedAt r s d (m_nextStepTimeMs m) g g'"
proof -
  let ?h = "onArbiter (updateMotionCell r d) g"
  let ?g = "stopMovingPieceAt r s d (m_nextStepTimeMs m) False Pawn Black ?h"
  have "motions ?h = [advanceMotion d m]" using lone_update [OF lone, of d] m by (simp add: loneMotion_def)
  then have arrived: "arrivedAt r s d (m_nextStepTimeMs m) g ?g"
    unfolding arrivedAt_def using lone m
    by (intro exI [of _ ?h]) (simp_all add: frame_simps loneMotion_def)
  have "processStepEvent (stepEventOf m) g = ?g"
    using step_lone [OF lone] m goal by (simp add: Let_def)
  then have "restOfLoop cfg g = restOfLoop cfg ?g" using restOfLoop_step [OF lone due] by simp
  also have "\<dots> = Some ?g" using arrive_rest [OF arrived] by (simp add: restOfLoop_done)
  finally show ?thesis using arrived by blast
qed

lemma lone_walk:
  assumes "aligned s d" "1 \<le> dur" "loneMotion g m" "walks r s d t dur k m" "0 \<le> k" "k < distance s d"
    and "t + (distance s d - 1) * dur \<le> now g"
    and "\<And>i. k < i \<Longrightarrow> i \<le> distance s d \<Longrightarrow>
      isInside (board g) (stepCell s d i) \<and> pieceAt g (stepCell s d i) = None"
  shows "\<exists>g'. restOfLoop cfg g = Some g' \<and> arrivedAt r s d (t + (distance s d - 1) * dur) g g'"
  using assms(3-)
proof (induction "nat (distance s d - k)" arbitrary: g m k)
  case 0
  then show ?case by simp
next
  case (Suc n)
  let ?c = "stepCell s d (k + 1)"
  note lone = Suc.prems(1) and walk = Suc.prems(2)
  have fields: "m_piece m = r" "m_source m = s" "m_destination m = d" "m_nextStepTimeMs m = t + k * dur"
    using walk by (simp_all add: walks_def)
  note next_cell = walks_next [OF walk]
  have cell: "isInside (board g) ?c" "pieceAt g ?c = None"
    using Suc.prems(4) Suc.prems(6) [of "k + 1"] by auto
  have "k * dur \<le> (distance s d - 1) * dur"
    using Suc.prems(4) assms(2) by (intro mult_right_mono) simp_all
  then have due: "m_nextStepTimeMs m \<le> now g" using Suc.prems(5) fields(4) by simp
  show ?case
  proof (cases "k + 1 = distance s d")
    case True
    then have "?c = d" using stepCell_distance [OF assms(1)] by simp
    moreover have "distance s d - 1 = k" using True by simp
    ultimately show ?thesis
      using lone_last [OF lone fields(1-3) _ due] next_cell cell fields(4) by simp
  next
    case False
    let ?g = "onArbiter (updateMotionCell r ?c) g"
    have "?c \<noteq> d" using stepCell_not_end [OF assms(1), of "k + 1"] False Suc.prems(3,4) by simp
    then have step: "processStepEvent (stepEventOf m) g = ?g"
      using step_lone [OF lone] next_cell cell fields by simp
    have "\<exists>g'. restOfLoop cfg ?g = Some g' \<and> arrivedAt r s d (t + (distance s d - 1) * dur) ?g g'"
    proof (rule Suc.hyps(1))
      show "n = nat (distance s d - (k + 1))" using Suc.hyps(2) by simp
      show "loneMotion ?g (advanceMotion ?c m)" using lone_update [OF lone] fields(1) by simp
      show "walks r s d t dur (k + 1) (advanceMotion ?c m)" using walk by (rule walks_advance)
      show "isInside (board ?g) (stepCell s d i) \<and> pieceAt ?g (stepCell s d i) = None"
        if "k + 1 < i" "i \<le> distance s d" for i
        using that Suc.prems(6) [of i] by (simp add: frame_simps)
    qed (use False Suc.prems in \<open>simp_all add: frame_simps\<close>)
    then obtain g' where g': "restOfLoop cfg ?g = Some g'"
      "arrivedAt r s d (t + (distance s d - 1) * dur) ?g g'" by blast
    have "arrivedAt r s d (t + (distance s d - 1) * dur) g g'"
      using g'(2) by (simp add: arrivedAt_def frame_simps)
    then show ?thesis using restOfLoop_step [OF lone due] step g'(1) by simp
  qed
qed

section \<open>From the request to the arrival\<close>

lemma signValue_step: "signValue (b - a) = stepTowards a b"
  by (simp add: signValue_def stepTowards_def)

lemma stepCell_inside:
  assumes "isInside b p" "isInside b q" "0 \<le> i" "i \<le> distance p q" "aligned p q"
  shows "isInside b (stepCell p q i)"
proof (cases "p = q")
  case True
  then show ?thesis using assms by (simp add: stepCell_def stepTowards_def)
next
  case False
  have "i \<le> \<bar>getRow q - getRow p\<bar>" if "getRow q \<noteq> getRow p"
    using that assms(4,5) by (auto simp: distance_def aligned_def)
  moreover have "i \<le> \<bar>getCol q - getCol p\<bar>" if "getCol q \<noteq> getCol p"
    using that assms(4,5) by (auto simp: distance_def aligned_def)
  ultimately show ?thesis
    using assms(1-3) by (auto simp: isInside_iff stepCell_def stepTowards_def)
qed

text \<open>How long a legal move of a piece takes, in cells of its motion.\<close>

definition travelCells :: "Piece \<Rightarrow> Position \<Rightarrow> Position \<Rightarrow> int" where
  "travelCells p s d = (if getKind p = Knight then 1 else distance s d)"

lemma chessMove_line:
  assumes "chessMove h b p s d" "getKind p \<noteq> Knight" "getPieceAt b d = None"
  shows "aligned s d \<and> s \<noteq> d \<and> (\<forall>i. 1 \<le> i \<longrightarrow> i < distance s d \<longrightarrow> getPieceAt b (stepCell s d i) = None)"
proof -
  have king: "distance s d = 1 \<Longrightarrow> aligned s d" for s d :: Position
    by (auto simp: distance_def aligned_def)
  have pawn: "aligned s d \<and> (\<forall>i. 1 \<le> i \<longrightarrow> i < distance s d \<longrightarrow> isEmpty b (stepCell s d i))"
    if "pawnMove h b c s d" for c
  proof -
    consider (one) "getCol d = getCol s" "getRow d = getRow s + pawnDirection c"
      | (two) "getCol d = getCol s" "getRow d = getRow s + 2 * pawnDirection c"
          "isEmpty b (Position (getRow s + pawnDirection c) (getCol s))"
      using \<open>pawnMove h b c s d\<close> assms(3) by (auto simp: pawnMove_def)
    then show ?thesis
    proof cases
      case one
      then show ?thesis by (auto simp: aligned_def distance_def pawnDirection_def)
    next
      case two
      have one: "i = 1" if "1 \<le> i" "i < distance s d" for i
        using that two by (auto simp: distance_def pawnDirection_def split: if_splits)
      have "stepCell s d 1 = Position (getRow s + pawnDirection c) (getCol s)"
        using two by (simp add: stepCell_def stepTowards_def pawnDirection_def)
      then have "isEmpty b (stepCell s d i)" if "1 \<le> i" "i < distance s d" for i
        using two(3) one [OF that] by simp
      then show ?thesis using two by (auto simp: aligned_def)
    qed
  qed
  show ?thesis
    using assms king [of s d] pawn
    by (auto simp: chessMove_def clearBetween_def aligned_lines isEmpty_def split: PieceKind.splits)
qed

lemma request_arrives:
  assumes wf: "engine_wf g" and calm: "motions g = []" "jumps g = []" "pendingCastles g = []"
    and request: "requestMove cfg s d g = (res, g1)" "isAccepted res" "\<not> isCastlingRequest g s d"
    and r: "pieceAt g s = Some r" and target: "pieceAt g d = None"
    and dur: "dur = max 1 (moveTimePerCellMs (cfg (token (heap g r)) ''move''))"
  shows "\<exists>g'. wait cfg (travelCells (heap g r) s d * dur) g1 = Some g' \<and>
     arrivedAt r s d (now g + travelCells (heap g r) s d * dur) (snd (advance (travelCells (heap g r) s d * dur) g1)) g'"
proof -
  let ?t = "moveTimePerCellMs (cfg (token (heap g r)) ''move'')"
  let ?m = "newMotion r s d ?t False (modifyPiece markAsMoved r g)"
  let ?n = "travelCells (heap g r) s d"
  have move: "isInside (board g) s" "isInside (board g) d" "isValid (validateMove (heap g) (board g) s d)"
    "g1 = startMove r s d ?t g"
    by (cases rule: requestMove_cases [of cfg s d g], use request r in \<open>auto simp: moveResult_def\<close>)+
  have chess: "chessMove (heap g) (board g) (heap g r) s d"
    using move(3) r by (auto simp: validateMove_def isLegalByPieceKind_iff validation_def
        split: option.splits if_splits)
  have dur1: "1 \<le> dur" "(if ?t \<le> 0 then 1 else ?t) = dur" by (auto simp: dur)
  have g1: "motions g1 = [?m]" "board g1 = board g" "now g1 = now g" "jumps g1 = []" "pendingCastles g1 = []"
    "stateOf g1 r = Moving"
    using calm startMotion_frame(2) [of r s d ?t False "modifyPiece markAsMoved r g"]
    by (simp_all add: move(4) startMove_def onHeapArbiter_frame modifyPiece_frame startMotion_heap onPiece_apply)
  have kind: "getKind (heap (modifyPiece markAsMoved r g) r) = getKind (heap g r)"
    by (simp add: frame_simps onPiece_apply markAsMoved_def)
  have m: "m_stepDurationMs ?m = dur" "m_nextStepTimeMs ?m = now g + dur"
    "m_directMove ?m = (getKind (heap g r) = Knight)"
    "m_rowStep ?m = stepTowards (getRow s) (getRow d)" "m_colStep ?m = stepTowards (getCol s) (getCol d)"
    using dur1(2) kind by (simp_all add: newMotion_def Let_def signValue_step frame_simps)
  have n: "1 \<le> ?n" using chess by (cases s; cases d) (auto simp: travelCells_def distance_def chessMove_def)
  have dist: "0 \<le> ?n * dur" using n dur1(1) by simp
  let ?g2 = "snd (advance (?n * dur) g1)"
  have lone: "loneMotion ?g2 ?m"
    using advanceTime_state [OF dist, of "heap g1" "realTime g1"] g1
    by (simp add: loneMotion_def advance_parts)
  have g2: "now ?g2 = now g + ?n * dur" "board ?g2 = board g"
    using advance_now [OF dist, of g1] g1(2,3) by (simp_all add: advance_parts)
  have "advance 0 ?g2 = (fst (advance (?n * dur) g1), ?g2)"
    using g1 dist by (auto simp: advance_def advanceTime_def Let_def motionDue_def)
  then have "restOfLoop cfg ?g2 = waitLoop cfg (fst (advance (?n * dur) g1)) ?g2"
    by (simp add: restOfLoop_def)
  also have "\<dots> = wait cfg (?n * dur) g1"
    using dist by (simp add: wait_def case_prod_beta Let_def)
  finally have loop: "wait cfg (?n * dur) g1 = restOfLoop cfg ?g2" by simp
  show ?thesis
  proof (cases "getKind (heap g r) = Knight")
    case True
    then have "?n = 1" by (simp add: travelCells_def)
    moreover have "nextCellOf ?m = d" using m(3) True by (simp add: nextCellOf_def)
    ultimately show ?thesis
      using lone_last [OF lone, of r s d cfg] m(2) g2 move(2) target loop by simp
  next
    case False
    note line = chessMove_line [OF chess False target]
    have n': "?n = distance s d" using False by (simp add: travelCells_def)
    have "walks r s d (now g + dur) dur 0 ?m"
      using m False by (simp add: walks_def stepCell_def)
    moreover have "isInside (board ?g2) (stepCell s d i) \<and> pieceAt ?g2 (stepCell s d i) = None"
      if "0 < i" "i \<le> distance s d" for i
      using that line target stepCell_distance [of s d] stepCell_inside [OF move(1,2), of i] move(2)
      by (cases "i = distance s d") (auto simp: g2)
    moreover have last_step: "now g + dur + (distance s d - 1) * dur = now g + ?n * dur"
      by (simp add: n' algebra_simps)
    ultimately have "\<exists>g'. restOfLoop cfg ?g2 = Some g' \<and>
        arrivedAt r s d (now g + dur + (distance s d - 1) * dur) ?g2 g'"
      using line dur1(1) lone n n' g2(1) by (intro lone_walk [of s d dur ?g2 ?m r "now g + dur" 0]) simp_all
    then show ?thesis unfolding loop last_step .
  qed
qed

lemma arrived_facts:
  assumes wf: "engine_wf g1" and home: "\<And>p. pieceAt g1 p = Some r \<Longrightarrow> p = s"
    and inside: "isInside (board g1) d" and arrived: "arrivedAt r s d t g1 g'" and "s \<noteq> d"
  shows "pieceAt g' d = Some r" "\<And>p. pieceAt g' p = Some r \<Longrightarrow> p = d" "stateOf g' r = Idle" "motions g' = []"
    "now g' = now g1" "cooldownUntilMs (heap g' r) = t + max 0 (distance s d * 1000)"
proof -
  from arrived obtain h where h: "board h = board g1" "heap h = heap g1" "now h = now g1"
    "g' = stopMovingPieceAt r s d t False Pawn Black h"
    unfolding arrivedAt_def by blast
  note wfb = engine_wfD(1) [OF wf]
  have cells: "pieceAt g' p = (if p = d then Some r else if p = s \<and> pieceAt g1 s = Some r then None else pieceAt g1 p)" for p
    using h commitBoard_cells [OF wfb inside, of r s p] by (simp add: frame_simps)
  show "pieceAt g' d = Some r" by (simp add: cells)
  show "p = d" if "pieceAt g' p = Some r" for p
    using that home [of p] by (simp add: cells split: if_split_asm)
  show "stateOf g' r = Idle" "now g' = now g1" using h by (simp_all add: frame_simps onPiece_apply)
  show "motions g' = []" using arrive_rest [OF arrived] by simp
  show "cooldownUntilMs (heap g' r) = t + max 0 (distance s d * 1000)"
    using h by (simp add: frame_simps onPiece_apply stopPiece_def piece_defs)
qed

end
