(* ===== verification/Engine_Properties.thy ===== *)
theory Engine_Properties
  imports Engine_Occupancy Engine_Liveness
begin

text \<open>
  The properties of the rules and of the engine, each with a witness on a concrete game where
  it has hypotheses. The proofs are the invariants of \<open>Engine_Runs\<close>, \<open>Engine_Log\<close>,
  \<open>Engine_Occupancy\<close> and \<open>Engine_Liveness\<close>.
\<close>

section \<open>A small game for the witnesses\<close>

definition demoConfig :: configReader where
  "demoConfig tok state = \<lparr>moveTimePerCellMs = 1000, jumpDurationMs = 1000, shortCooldownMs = 500\<rparr>"

definition demoHeap :: heap where
  "demoHeap r = (if r = 0 then newPiece 0 White King else if r = 1 then newPiece 1 Black King
     else if r = 2 then newPiece 2 White Rook else newPiece (int r) Black Pawn)"

definition demoBoard :: Board where
  "demoBoard = setPieceAt (setPieceAt (setPieceAt (setPieceAt (newBoard 4 4)
     (Position 0 0) (Some 0)) (Position 3 3) (Some 1)) (Position 0 3) (Some 2)) (Position 1 0) (Some 3)"

definition demoEngine :: GameEngine where
  "demoEngine = newGameEngine demoHeap demoBoard True"

definition demoRun :: "EngineOp list" where
  "demoRun = [OpMove (Position 0 3) (Position 3 3), OpJump (Position 0 0), OpWait 1000,
     OpMove (Position 0 0) (Position 0 1), OpWait 2000]"

lemma demoBoard_cells:
  "pieceAt demoEngine p = (if p = Position 1 0 then Some 3 else if p = Position 0 3 then Some 2
     else if p = Position 3 3 then Some 1 else if p = Position 0 0 then Some 0 else None)"
proof -
  have "wf_board (newBoard 4 4)" by (intro wf_intros) simp_all
  moreover have "isInside (newBoard 4 4) q \<longleftrightarrow> 0 \<le> getRow q \<and> getRow q < 4 \<and> 0 \<le> getCol q \<and> getCol q < 4" for q
    by (simp add: isInside_iff newBoard_def)
  ultimately show ?thesis
    by (simp add: demoEngine_def newGameEngine_def demoBoard_def cell_simps)
qed

lemma demo_fresh: "freshEngine demoEngine"
proof -
  have "wf_board demoBoard" unfolding demoBoard_def by (intro wf_intros) simp_all
  moreover have "getState (demoHeap r) = Idle" "cooldown_ok 0 (demoHeap r)" for r
    by (simp_all add: demoHeap_def newPiece_def cooldown_ok_def)
  ultimately show ?thesis unfolding demoEngine_def by (intro fresh_newGameEngine)
qed

lemma demo_standing: "standing {0, 1, 2, 3} demoEngine"
proof -
  have "grid.holds_once (board demoEngine)"
    unfolding grid.holds_once_def demoBoard_cells by (auto split: if_splits)
  moreover have "stateOf demoEngine r = Idle" for r
    by (simp add: demoEngine_def newGameEngine_def demoHeap_def newPiece_def)
  ultimately show ?thesis by (auto simp: standing_def demoBoard_cells split: if_splits)
qed

section \<open>The rules\<close>

text \<open>C1: \<open>RuleEngine::validateMove\<close> accepts a move exactly when both cells are on the board, a
  piece stands on the source, no piece of its colour stands on the destination, and the move is
  a chess move of that kind of piece on this board, stated without the code's loops and tests.\<close>

theorem validateMove_accepts_chess_moves:
  "isValid (validateMove h b p q) \<longleftrightarrow>
     isInside b p \<and> isInside b q \<and>
     (\<exists>r. getPieceAt b p = Some r \<and> chessMove h b (h r) p q \<and>
       (\<nexists>t. getPieceAt b q = Some t \<and> getColor (h t) = getColor (h r)))"
  by (auto simp: validateMove_def isLegalByPieceKind_iff validation_def split: option.split)

text \<open>The path scan of the sliding pieces returns on every pair of cells on a common row,
  column or diagonal, and answers whether all cells strictly between them are empty.\<close>

theorem path_scan_returns:
  assumes "aligned p q"
  shows "isPathClear b p q = Some (\<forall>i \<in> {1..<distance p q}. isEmpty b (stepCell p q i))"
  using isPathClear_iff [OF assms, of b] by (simp add: clearBetween_def)

theorem path_scan_returns_witness:
  "isPathClear demoBoard (Position 0 0) (Position 3 3) = Some True"
proof -
  have "aligned (Position 0 0) (Position 3 3)" by (simp add: aligned_def)
  note path_scan_returns [OF this, of demoBoard]
  moreover have "\<forall>i \<in> {1..<distance (Position 0 0) (Position 3 3)}.
      isEmpty demoBoard (stepCell (Position 0 0) (Position 3 3) i)"
    by code_simp
  ultimately show ?thesis by simp
qed

section \<open>Runs of the engine\<close>

text \<open>C2: \<open>GameEngine::wait\<close> returns from every well-formed state: its loop over step events and
  landings ends. It leaves the engine well-formed, with the clock advanced by exactly the time
  waited and nothing overdue; a negative time changes nothing.\<close>

theorem wait_returns:
  assumes "engine_wf g"
  shows "\<exists>g'. wait cfg ms g = Some g' \<and> engine_wf g' \<and>
     (if ms < 0 then g' = g else quiet g' \<and> now g' = now g + ms)"
  using wait_rule [of g "\<lambda>_. True" cfg ms] assms by simp

theorem wait_returns_witness:
  "\<exists>g'. wait demoConfig 2500 (runOp demoConfig demoEngine (OpMove (Position 0 3) (Position 3 3))) = Some g' \<and>
     engine_wf g' \<and> quiet g' \<and> now g' = 2500"
proof -
  let ?g = "runOp demoConfig demoEngine (OpMove (Position 0 3) (Position 3 3))"
  have "engine_wf ?g" using demo_fresh by (intro wf_runOp fresh_engine_wf)
  moreover have "now ?g = 0" by code_simp
  ultimately show ?thesis using wait_returns [of ?g demoConfig 2500] by simp
qed

text \<open>C3: Every state the engine can reach from a new one by requests and waits, castling
  included, is well-formed: the pieces in motion are exactly the moving pieces, each with one
  motion; every cell a motion, a jump, a pending castling or the history refers to is on the
  board; cooldown clocks are consistent and the scores are not negative.\<close>

theorem reachable_wf:
  assumes "freshEngine g0" "reachable cfg g0 g"
  shows "engine_wf g"
proof -
  have "\<exists>ops. g = runOps cfg g0 ops"
    using reachable_iff_runOps [OF fresh_engine_wf [OF assms(1)]] assms(2) by blast
  then show ?thesis using wf_runOps [OF fresh_engine_wf [OF assms(1)]] by blast
qed

theorem reachable_wf_witness:
  "engine_wf (runOps demoConfig demoEngine demoRun)"
proof -
  have "reachable demoConfig demoEngine (runOps demoConfig demoEngine demoRun)"
    using reachable_iff_runOps [OF fresh_engine_wf [OF demo_fresh]] by blast
  with demo_fresh show ?thesis by (rule reachable_wf)
qed

text \<open>C4: While no castling is requested, every cell shows at most one piece and every piece shows
  at one cell at most: a moving piece at the cell of its motion, any other where it stands on
  the board. No captured piece is on the board.\<close>

theorem one_piece_per_cell:
  assumes "freshEngine g" "standing R g" "noCastlingRun cfg g ops"
  defines "g' \<equiv> runOps cfg g ops"
  shows "(seenAt g' r c \<and> seenAt g' r' c \<longrightarrow> r = r') \<and> (seenAt g' r c \<and> seenAt g' r c' \<longrightarrow> c = c') \<and>
     (pieceAt g' c = Some r \<longrightarrow> stateOf g' r \<noteq> Captured)"
proof -
  have wf: "engine_wf g'" and ok: "occ g'"
    using consistent_run [OF assms(1-3)] by (simp_all add: g'_def consistent_def)
  have "r = r'" if "seenAt g' r c" "seenAt g' r' c" using wf ok that by (rule occ_seen_once)
  moreover have "c = c'" if "seenAt g' r c" "seenAt g' r c'" using wf ok that by (rule occ_seen_at_one_cell)
  ultimately show ?thesis using occD(6) [OF ok] by blast
qed

theorem one_piece_per_cell_witness:
  "(let g' = runOps demoConfig demoEngine demoRun in seenAt g' 2 (Position 3 3)) \<and>
   \<not> (let g' = runOps demoConfig demoEngine demoRun in seenAt g' 1 (Position 3 3))"
proof -
  have plain: "noCastlingRun demoConfig demoEngine demoRun" by code_simp
  have "seenAt (runOps demoConfig demoEngine demoRun) 2 (Position 3 3)" by code_simp
  then show ?thesis
    using one_piece_per_cell [OF demo_fresh demo_standing plain, of 2 "Position 3 3" 1 "Position 3 3"]
    by simp
qed

text \<open>C5: While no castling is requested, each side's score is the value of the enemy pieces it has
  captured, counted at the kind they had when they were taken, and the game is over exactly when
  a king has been captured.\<close>

theorem score_is_captured_material:
  assumes "freshEngine g" "standing R g" "noCastlingRun cfg g ops"
  defines "g' \<equiv> runOps cfg g ops"
  shows "whiteScore g' = (\<Sum>r \<in> R. lostValue Black (heap g' r)) \<and>
     blackScore g' = (\<Sum>r \<in> R. lostValue White (heap g' r)) \<and>
     (gameOver g' \<longleftrightarrow> (\<exists>r \<in> R. stateOf g' r = Captured \<and> getKind (heap g' r) = King))"
  using consistent_run [OF assms(1-3)]
  by (simp add: g'_def consistent_def materialBut_def lostMaterial_def kingLost_def)

theorem score_is_captured_material_witness:
  "gameOver (runOps demoConfig demoEngine demoRun) \<and> whiteScore (runOps demoConfig demoEngine demoRun) = 0 \<and>
   (\<exists>r \<in> {0, 1, 2, 3}. stateOf (runOps demoConfig demoEngine demoRun) r = Captured \<and>
      getKind (heap (runOps demoConfig demoEngine demoRun) r) = King)"
proof -
  have plain: "noCastlingRun demoConfig demoEngine demoRun" by code_simp
  have "gameOver (runOps demoConfig demoEngine demoRun)" "whiteScore (runOps demoConfig demoEngine demoRun) = 0"
    by code_simp+
  then show ?thesis
    using score_is_captured_material [OF demo_fresh demo_standing plain] by blast
qed

text \<open>C6: With an event bus, the events published along any run are the engine's own record: the
  completed moves of each colour are that colour's move history in order, field by field; one
  game ended event has been published if the game is over and none otherwise; and the last
  score update is the current score.\<close>

theorem event_log_matches_engine:
  assumes "freshEngine g" "eventBus (runOps cfg g ops)"
  defines "g' \<equiv> runOps cfg g ops"
  shows "map eventKey (movesOf White (published g')) = map entryKey (whiteMoveHistory g') \<and>
     map eventKey (movesOf Black (published g')) = map entryKey (blackMoveHistory g') \<and>
     length (ofType GameEnded (published g')) = (if gameOver g' then 1 else 0) \<and>
     lastScores (published g') = (whiteScore g', blackScore g')"
  using logOk_runOps [OF assms(1), of cfg ops] assms(2) by (simp add: g'_def logOk_def)

theorem event_log_matches_engine_witness:
  "length (ofType GameEnded (published (runOps demoConfig demoEngine demoRun))) = 1"
proof -
  have "eventBus (runOps demoConfig demoEngine demoRun)" "gameOver (runOps demoConfig demoEngine demoRun)"
    by code_simp+
  then show ?thesis using event_log_matches_engine [OF demo_fresh, of demoConfig demoRun] by simp
qed


text \<open>C8: A move request is accepted exactly when the game runs, both cells are on the board, an
  idle and rested piece stands on the source, and the move is a castling that is allowed or a
  move the rules accept; a request that is refused leaves the engine as it was.\<close>

theorem requestMove_accepts:
  "(isAccepted (fst (requestMove cfg s d g)) \<longleftrightarrow>
      \<not> gameOver g \<and> isInside (board g) s \<and> isInside (board g) d \<and>
      (\<exists>r. pieceAt g s = Some r \<and> stateOf g r = Idle \<and> \<not> isOnCooldown (now g) (heap g r) \<and>
         (if isCastlingRequest g s d then canCastle g s d \<noteq> None
          else isValid (validateMove (heap g) (board g) s d)))) \<and>
   (isAccepted (fst (requestMove cfg s d g)) \<or> snd (requestMove cfg s d g) = g)"
proof (cases "gameOver g \<or> \<not> isInside (board g) s \<or> \<not> isInside (board g) d")
  case True
  then show ?thesis by (auto simp: requestMove_def moveResult_def)
next
  case False
  then show ?thesis
    by (cases "pieceAt g s"; cases "canCastle g s d")
      (auto simp: requestMove_def moveResult_def getCurrentTimeMs_def Let_def)
qed

text \<open>C7: On a quiet board an accepted move to an empty cell is completed: after the time of one
  cell for each cell of the way (of one cell for a knight) the piece stands on the destination
  and no longer on the source, is idle, nothing is in motion, and it rests for one second per
  cell moved.\<close>

theorem accepted_move_arrives:
  assumes wf: "engine_wf g" and ok: "occ g" and calm: "motions g = []" "jumps g = []"
    and request: "requestMove cfg s d g = (res, g1)" "isAccepted res" "\<not> isCastlingRequest g s d"
    and r: "pieceAt g s = Some r" and target: "pieceAt g d = None"
    and dur: "dur = max 1 (moveTimePerCellMs (cfg (token (heap g r)) ''move''))"
  shows "\<exists>g'. wait cfg (travelCells (heap g r) s d * dur) g1 = Some g' \<and> pieceAt g' d = Some r \<and>
     pieceAt g' s \<noteq> Some r \<and> stateOf g' r = Idle \<and> motions g' = [] \<and>
     cooldownUntilMs (heap g' r) = now g' + distance s d * 1000"
proof -
  let ?n = "travelCells (heap g r) s d * dur"
  let ?g2 = "snd (advance ?n g1)"
  have "g1 = snd (requestMove cfg s d g)" using request(1) by simp
  then have wf1: "engine_wf g1" using wf_requestMove [OF wf] by simp
  have move: "isInside (board g) d" "s \<noteq> d" "board g1 = board g" "now g1 = now g"
    by (cases rule: requestMove_cases [of cfg s d g], use request r target in
        \<open>auto simp: moveResult_def startMove_def frame_simps startMotion_def Let_def\<close>)+
  have "0 \<le> ?n" by (auto simp: travelCells_def distance_def dur)
  then have wf2: "engine_wf ?g2" and now2: "now ?g2 = now g + ?n"
    using wf1 move(4) by (simp_all add: wf_advance advance_now)
  have board2: "board ?g2 = board g" using move(3) by (simp add: advance_parts)
  obtain g' where g': "wait cfg ?n g1 = Some g'" "arrivedAt r s d (now g + ?n) ?g2 g'"
    using request_arrives [OF wf calm occD(1) [OF ok] request r target dur] by blast
  have home: "p = s" if "pieceAt ?g2 p = Some r" for p
    using that r grid.holds_onceD [OF occD(2) [OF ok]] by (simp add: board2)
  have inside: "isInside (board ?g2) d" using move(1) by (simp add: board2)
  note facts = arrived_facts [OF wf2 home inside g'(2) move(2)]
  have "0 \<le> distance s d * 1000" by (simp add: distance_def)
  then have rest: "cooldownUntilMs (heap g' r) = now g' + distance s d * 1000"
    using facts(5,6) now2 by simp
  have "pieceAt g' s \<noteq> Some r" using facts(2) [of s] move(2) by blast
  with g'(1) facts(1,3,4) rest show ?thesis by blast
qed

theorem accepted_move_arrives_witness:
  "\<exists>g'. wait demoConfig 3000 (snd (requestMove demoConfig (Position 0 3) (Position 2 3) demoEngine)) \<noteq> None \<and>
     wait demoConfig 2000 (snd (requestMove demoConfig (Position 0 3) (Position 2 3) demoEngine)) = Some g' \<and>
     pieceAt g' (Position 2 3) = Some 2 \<and> cooldownUntilMs (heap g' 2) = now g' + 2000"
proof -
  let ?s = "Position 0 3" and ?d = "Position 2 3"
  have "consistent {0, 1, 2, 3} demoEngine" using demo_fresh demo_standing by (rule fresh_consistent)
  then have ok: "occ demoEngine" by (simp add: consistent_def)
  have calm: "motions demoEngine = []" "jumps demoEngine = []" by code_simp+
  have request: "requestMove demoConfig ?s ?d demoEngine =
      (fst (requestMove demoConfig ?s ?d demoEngine), snd (requestMove demoConfig ?s ?d demoEngine))" by simp
  have accepted: "isAccepted (fst (requestMove demoConfig ?s ?d demoEngine))" by code_simp
  have plain: "\<not> isCastlingRequest demoEngine ?s ?d" by code_simp
  have r: "pieceAt demoEngine ?s = Some 2" "pieceAt demoEngine ?d = None" by (simp_all add: demoBoard_cells)
  have dur: "1000 = max 1 (moveTimePerCellMs (demoConfig (token (heap demoEngine 2)) ''move''))"
    by (simp add: demoConfig_def)
  have cells: "travelCells (heap demoEngine 2) ?s ?d = 2" "distance ?s ?d = 2" by code_simp+
  have more: "wait demoConfig 3000 (snd (requestMove demoConfig ?s ?d demoEngine)) \<noteq> None" by code_simp
  show ?thesis
    using accepted_move_arrives [OF fresh_engine_wf [OF demo_fresh] ok calm request accepted plain r dur] more
    by (auto simp: cells)
qed

text \<open>A piece that is resting cannot be used: while its cooldown runs, both a move request
  from its cell and a jump request on it are refused and change nothing.\<close>

theorem resting_piece_is_refused:
  assumes "pieceAt g s = Some r" "isOnCooldown (now g) (heap g r)"
  shows "requestMove cfg s d g \<in> {(moveResult False why, g) | why. True} \<and>
     requestJump cfg s g \<in> {(moveResult False why, g) | why. True}"
  using assms by (auto simp: requestMove_def requestJump_def getCurrentTimeMs_def)

theorem resting_piece_is_refused_witness:
  "snd (requestMove demoConfig (Position 2 3) (Position 0 3)
      (runOps demoConfig demoEngine [OpMove (Position 0 3) (Position 2 3), OpWait 2500])) =
   runOps demoConfig demoEngine [OpMove (Position 0 3) (Position 2 3), OpWait 2500]"
proof -
  let ?g = "runOps demoConfig demoEngine [OpMove (Position 0 3) (Position 2 3), OpWait 2500]"
  have "pieceAt ?g (Position 2 3) = Some 2" by code_simp
  moreover have "isOnCooldown (now ?g) (heap ?g 2)" by code_simp
  ultimately have "requestMove demoConfig (Position 2 3) (Position 0 3) ?g \<in> {(moveResult False why, ?g) | why. True}"
    using resting_piece_is_refused [of ?g "Position 2 3" 2 demoConfig "Position 0 3"] by blast
  then show ?thesis by auto
qed

section \<open>Where castling breaks the board\<close>

text \<open>
  A white king on e1 castles with the rook on h1 while a black rook is on its way down the e
  file and a second white rook has stepped in behind it, so that no piece attacks the king from
  its board cell. The black rook arrives while the castling is under way.
\<close>

definition castleHeap :: heap where
  "castleHeap r = (if r = 0 then newPiece 0 White King else if r = 1 then newPiece 1 Black King
     else if r = 2 then newPiece 2 White Rook else if r = 3 then newPiece 3 Black Rook
     else newPiece (int r) White Rook)"

definition castleStart :: Board where
  "castleStart = setPieceAt (setPieceAt (setPieceAt (setPieceAt (setPieceAt (newBoard 8 8)
     (Position 7 4) (Some 0)) (Position 0 0) (Some 1)) (Position 7 7) (Some 2))
     (Position 4 4) (Some 3)) (Position 5 3) (Some 4)"

definition castleEngine :: GameEngine where
  "castleEngine = newGameEngine castleHeap castleStart True"

definition castleOps :: "EngineOp list" where
  "castleOps = [OpMove (Position 4 4) (Position 7 4), OpWait 1500, OpMove (Position 5 3) (Position 5 4),
     OpWait 1100, OpMove (Position 7 4) (Position 7 6)]"

text \<open>What to look at: is the game over, the states of the white king and the black rook, who
  stands on e1 and on g1, and on how many cells the black rook stands.\<close>

definition castleReport ::
    "GameEngine \<Rightarrow> bool \<times> PieceState \<times> PieceState \<times> ref option \<times> ref option \<times> nat" where
  "castleReport g = (gameOver g, stateOf g 0, stateOf g 3, pieceAt g (Position 7 4), pieceAt g (Position 7 6),
     length (filter (\<lambda>p. pieceAt g p = Some 3) (boardPositions (board g))))"

fun castleReports :: "configReader \<Rightarrow> GameEngine \<Rightarrow> EngineOp list \<Rightarrow>
    (bool \<times> PieceState \<times> PieceState \<times> ref option \<times> ref option \<times> nat) list" where
  "castleReports cfg g [] = [castleReport g]"
| "castleReports cfg g (action # ops) = castleReport g # castleReports cfg (runOp cfg g action) ops"

text \<open>A castling under way is completed even when its king has been captured meanwhile: in this
  game the black rook takes the king and the game ends, and the white rook's half of the
  castling then puts the captured king back on the board, idle, on g1, and erases the black rook
  that stands on e1, which is not captured but on no cell of the board any more.\<close>

theorem castling_revives_captured_king:
  "drop 6 (castleReports demoConfig castleEngine (castleOps @ [OpWait 1000, OpWait 1500])) =
     [(True, Captured, Idle, Some 3, None, 1), (True, Idle, Idle, None, Some 0, 0)]"
  by code_simp

definition slowPawn :: configReader where
  "slowPawn tok state = \<lparr>moveTimePerCellMs = (if tok = ''bP'' then 2500 else 1000),
     jumpDurationMs = 1000, shortCooldownMs = 500\<rparr>"

definition completionTimes :: "GameEngine \<Rightarrow> int list" where
  "completionTimes g = map g_completedAtMs (ofType MoveCompleted (published g))"

definition twoMoves :: "EngineOp list" where
  "twoMoves = [OpMove (Position 0 3) (Position 2 3), OpMove (Position 1 0) (Position 2 0)]"

text \<open>A long wait is not the same as several short ones: a call takes one due step of every
  motion per round, so a slow piece's step is completed before a fast piece's earlier second
  step. With a pawn of 2.5 seconds and a rook of one second per cell, one wait of three seconds
  completes the pawn's move of time 2500 before the rook's of time 2000; three waits of one
  second complete them in the order of time.\<close>

theorem long_wait_reorders_moves:
  "completionTimes (runOps slowPawn demoEngine (twoMoves @ [OpWait 3000])) = [2500, 2000] \<and>
   completionTimes (runOps slowPawn demoEngine (twoMoves @ [OpWait 1000, OpWait 1000, OpWait 1000])) = [2000, 2500]"
  by (intro conjI) code_simp+

end
