(* ===== verification/Control_Properties.thy ===== *)
theory Control_Properties
  imports Control Engine_Properties
begin

text \<open>
  Properties of what surrounds the engine on the server: the identity of pieces, the snapshots
  sent to the clients, the mapping of clicks to cells, the message handler and the controller.
\<close>

section \<open>Pieces keep their identity\<close>

text \<open>Whatever is requested and however long it runs, a piece keeps its id and its colour, and
  its kind changes only when a pawn becomes a queen.\<close>

theorem pieces_keep_identity:
  fixes cfg ops
  assumes "engine_wf g"
  defines "g' \<equiv> runOps cfg g ops"
  shows "getId (heap g' r) = getId (heap g r) \<and> getColor (heap g' r) = getColor (heap g r) \<and>
     (getKind (heap g' r) = getKind (heap g r) \<or>
      getKind (heap g r) = Pawn \<and> getKind (heap g' r) = Queen)"
  using sameGame_runOps [OF assms(1), of cfg ops] by (auto simp: g'_def sameGame_def becomes_def)

theorem pieces_keep_identity_witness:
  "getId (heap (runOps demoConfig demoEngine demoRun) 2) = 2 \<and>
   getColor (heap (runOps demoConfig demoEngine demoRun) 2) = White"
proof -
  have "getId (heap demoEngine 2) = 2" "getColor (heap demoEngine 2) = White" by code_simp+
  then show ?thesis
    using pieces_keep_identity [OF fresh_engine_wf [OF demo_fresh], of demoConfig demoRun 2] by simp
qed

section \<open>Snapshots\<close>

lemma idsUnique_run:
  assumes "engine_wf g" "inj_on (\<lambda>r. getId (heap g r)) R"
    and "consistent R (runOps cfg g ops)"
  shows "idsUnique (runOps cfg g ops)"
  unfolding idsUnique_def
proof (intro allI impI)
  let ?g = "runOps cfg g ops"
  fix p q r r' assume "pieceAt ?g p = Some r" "pieceAt ?g q = Some r'" and same: "getId (heap ?g r) = getId (heap ?g r')"
  then have "r \<in> R" "r' \<in> R" using assms(3) unfolding consistent_def materialBut_def by blast+
  moreover have "getId (heap g r) = getId (heap g r')"
    using same sameGame_runOps [OF assms(1), of cfg ops] by (simp add: sameGame_def becomes_def)
  ultimately show "r = r'" using assms(2) by (auto dest: inj_onD)
qed



text \<open>Two rooks: the black one captures towards the cell the white one has just left.\<close>

definition rooksHeap :: heap where
  "rooksHeap r = (if r = 0 then newPiece 1 White Rook else newPiece 2 Black Rook)"

definition rooksEngine :: GameEngine where
  "rooksEngine = newGameEngine rooksHeap
     (setPieceAt (setPieceAt (newBoard 8 8) (Position 0 3) (Some 0)) (Position 0 0) (Some 1)) True"

definition rooksOps :: "EngineOp list" where
  "rooksOps = [OpMove (Position 0 3) (Position 7 3), OpMove (Position 0 0) (Position 0 3), OpWait 3000]"

text \<open>A piece that is still in motion is left out of the snapshot when another piece has come to
  rest on the cell it started from: the snapshot has its motion and not the piece. When the motion
  ends the piece is on the board and in the snapshot again.\<close>

theorem moving_piece_missing_from_snapshot:
  "map ms_pieceId (snapMotions (build (runOps demoConfig rooksEngine rooksOps))) = [1] \<and>
   map ps_id (snapPieces (build (runOps demoConfig rooksEngine rooksOps))) = [2] \<and>
   map ps_id (snapPieces (build (runOps demoConfig rooksEngine (rooksOps @ [OpWait 4000])))) = [2, 1]"
  by (intro conjI; code_simp)

section \<open>Clicks and cells\<close>

text \<open>A pixel maps to a cell exactly when it lies in that cell's rectangle, the cell is on the
  board and the cell size is positive.\<close>

theorem pixelToCell_is_the_rectangle:
  "pixelToCell x y b startX startY sizeX sizeY = Some p \<longleftrightarrow>
     0 < sizeX \<and> 0 < sizeY \<and> isInside b p \<and>
     startX + getCol p * sizeX \<le> x \<and> x < startX + (getCol p + 1) * sizeX \<and>
     startY + getRow p * sizeY \<le> y \<and> y < startY + (getRow p + 1) * sizeY"
proof (cases "0 < sizeX \<and> 0 < sizeY")
  case True
  then have size: "0 < sizeX" "0 < sizeY" by simp_all
  have mapped: "pixelToCell x y b startX startY sizeX sizeY = Some p \<longleftrightarrow>
      (x - startX) div sizeX = getCol p \<and> (y - startY) div sizeY = getRow p \<and> isInside b p \<and>
      0 \<le> x - startX \<and> 0 \<le> y - startY \<and> x - startX < getWidth b * sizeX \<and> y - startY < getHeight b * sizeY"
    using size by (cases p) (auto simp: pixelToCell_def Let_def)
  have inner: "0 \<le> x - startX \<and> x - startX < getWidth b * sizeX"
    if "(x - startX) div sizeX = getCol p" "isInside b p"
  proof -
    have "0 \<le> getCol p" "getCol p + 1 \<le> getWidth b" using that(2) by (simp_all add: isInside_iff)
    then have "0 \<le> getCol p * sizeX" "(getCol p + 1) * sizeX \<le> getWidth b * sizeX"
      using size(1) by (simp_all add: mult_right_mono)
    moreover have "getCol p * sizeX \<le> x - startX" "x - startX < (getCol p + 1) * sizeX"
      using that(1) div_cell [OF size(1)] by blast+
    ultimately show ?thesis by linarith
  qed
  have innerY: "0 \<le> y - startY \<and> y - startY < getHeight b * sizeY"
    if "(y - startY) div sizeY = getRow p" "isInside b p"
  proof -
    have "0 \<le> getRow p" "getRow p + 1 \<le> getHeight b" using that(2) by (simp_all add: isInside_iff)
    then have "0 \<le> getRow p * sizeY" "(getRow p + 1) * sizeY \<le> getHeight b * sizeY"
      using size(2) by (simp_all add: mult_right_mono)
    moreover have "getRow p * sizeY \<le> y - startY" "y - startY < (getRow p + 1) * sizeY"
      using that(1) div_cell [OF size(2)] by blast+
    ultimately show ?thesis by linarith
  qed
  have "pixelToCell x y b startX startY sizeX sizeY = Some p \<longleftrightarrow>
      (x - startX) div sizeX = getCol p \<and> (y - startY) div sizeY = getRow p \<and> isInside b p"
    unfolding mapped using inner innerY by blast
  then show ?thesis unfolding div_cell [OF size(1)] div_cell [OF size(2)] using size by auto
next
  case False
  then show ?thesis by (auto simp: pixelToCell_def)
qed

section \<open>The message handler\<close>

text \<open>\<open>processAllMessages\<close> returns with every request answered: the requests are handled in the
  order they were sent, each by the engine the one before left, each answer carries the
  sequence number of its request, and the answers follow those not yet received.\<close>

theorem requests_answered_in_order:
  "fst (processAllMessages cfg (g, bus)) = fold (\<lambda>m g. snd (handleMessage cfg m g)) (clientToEngine bus) g \<and>
   clientToEngine (snd (processAllMessages cfg (g, bus))) = [] \<and>
   map sequence (engineToClient (snd (processAllMessages cfg (g, bus)))) =
     map sequence (engineToClient bus) @ map sequence (clientToEngine bus)"
proof -
  have "snd (answers cfg ms g) = fold (\<lambda>m g. snd (handleMessage cfg m g)) ms g \<and>
      map sequence (fst (answers cfg ms g)) = map sequence ms" for ms
    by (induction ms arbitrary: g) (simp_all add: case_prod_beta Let_def)
  then show ?thesis unfolding processAll_answers by simp
qed

section \<open>The controller\<close>

lemma sendRequest_move:
  assumes "idleBus c"
  shows "sendRequest cfg MoveRequest s d c =
    (controllerResult (isAccepted (fst (requestMove cfg s d (engine c)))) (moveReason (fst (requestMove cfg s d (engine c)))),
     c\<lparr>engine := snd (requestMove cfg s d (engine c)), nextSequence := nextSequence c + 1\<rparr>)"
  using sendRequest_eq [OF assms, of cfg MoveRequest s d] unfolding handleMessage_move by simp

lemma sendRequest_jump:
  assumes "idleBus c"
  shows "sendRequest cfg JumpRequest s d c =
    (controllerResult (isAccepted (fst (requestJump cfg s (engine c)))) (moveReason (fst (requestJump cfg s (engine c)))),
     c\<lparr>engine := snd (requestJump cfg s (engine c)), nextSequence := nextSequence c + 1\<rparr>)"
  using sendRequest_eq [OF assms, of cfg JumpRequest s d] unfolding handleMessage_jump by simp

lemma idleBus_frame [simp]:
  "idleBus (c\<lparr>selectedCell := s\<rparr>) = idleBus c"
  "idleBus (c\<lparr>engine := g, nextSequence := n\<rparr>) = idleBus c"
  "idleBus (c\<lparr>selectedCell := s, engine := g, nextSequence := n\<rparr>) = idleBus c"
  by (simp_all add: idleBus_def)

text \<open>Whether two cells of the controller's board hold pieces of one colour.\<close>

definition friendly :: "Controller \<Rightarrow> Position \<Rightarrow> Position \<Rightarrow> bool" where
  "friendly c p q \<longleftrightarrow>
     (case (getPieceAt (board (engine c)) p, getPieceAt (board (engine c)) q) of
        (Some r, Some t) \<Rightarrow> getColor (pieceOf (engine c) r) = getColor (pieceOf (engine c) t)
      | _ \<Rightarrow> False)"

text \<open>The request a click makes of the engine, if it makes one.\<close>

definition clickRequest :: "int \<Rightarrow> int \<Rightarrow> Controller \<Rightarrow> EngineOp option" where
  "clickRequest x y c =
     (case (selectedCell c, mapClickToCell x y c) of
        (Some s, Some d) \<Rightarrow>
          (if s = d then Some (OpJump s)
           else if getPieceAt (board (engine c)) s = None \<or> friendly c s d then None
           else Some (OpMove s d))
      | _ \<Rightarrow> None)"

definition engineAnswer :: "configReader \<Rightarrow> EngineOp \<Rightarrow> GameEngine \<Rightarrow> MoveResult" where
  "engineAnswer cfg action g =
     (case action of OpMove s d \<Rightarrow> fst (requestMove cfg s d g) | OpJump p \<Rightarrow> fst (requestJump cfg p g)
      | OpWait _ \<Rightarrow> moveResult False [])"

text \<open>C10: A click makes at most one request of the engine: a jump when it hits the selected cell, a
  move when the selected cell holds a piece and the cell hit holds none of its colour. Then the
  result is the engine's answer, the engine is the one the request leaves, the selection is
  cleared, and the queues between them are empty again. Any other click leaves the engine, the
  queues and the sequence number alone.\<close>

theorem click_makes_one_request:
  fixes cfg x y
  assumes "idleBus c"
  defines "c' \<equiv> snd (click cfg x y c)" and "r \<equiv> fst (click cfg x y c)"
  shows "idleBus c' \<and>
    (case clickRequest x y c of
       None \<Rightarrow> engine c' = engine c \<and> nextSequence c' = nextSequence c
     | Some action \<Rightarrow> engine c' = runOp cfg (engine c) action \<and> nextSequence c' = nextSequence c + 1 \<and>
         selectedCell c' = None \<and>
         r = controllerResult (isAccepted (engineAnswer cfg action (engine c)))
               (moveReason (engineAnswer cfg action (engine c))))"
proof (cases "mapClickToCell x y c")
  case None
  then show ?thesis using assms(1) by (simp add: c'_def r_def click_def clickRequest_def split: option.split)
next
  case (Some d)
  note d = Some
  show ?thesis
  proof (cases "selectedCell c")
    case None
    then show ?thesis
      using assms(1) d by (simp add: c'_def r_def click_def clickRequest_def selectFirstPiece_def Let_def)
  next
    case (Some s)
    show ?thesis
    proof (cases "s = d")
      case True
      then show ?thesis
        using assms(1) d Some
        by (simp add: c'_def r_def click_def clickRequest_def handleSelectedCell_def sendRequest_jump
            runOp_def engineAnswer_def)
    next
      case False
      then show ?thesis
        using assms(1) d Some
        by (auto simp: c'_def r_def click_def clickRequest_def handleSelectedCell_def requestSelectedMove_def
            sendRequest_move selectFriendlyPiece_def friendly_def runOp_def engineAnswer_def Let_def split: option.splits)
    qed
  qed
qed

definition demoController :: Controller where
  "demoController = (newController demoEngine 0 0 10 10)\<lparr>selectedCell := Some (Position 0 3)\<rparr>"

theorem click_makes_one_request_witness:
  "engine (snd (click demoConfig 35 25 demoController)) = runOp demoConfig demoEngine (OpMove (Position 0 3) (Position 2 3)) \<and>
   idleBus (snd (click demoConfig 35 25 demoController))"
proof -
  have idle: "idleBus demoController" by (simp add: demoController_def)
  have "clickRequest 35 25 demoController = Some (OpMove (Position 0 3) (Position 2 3))" by code_simp
  moreover have "engine demoController = demoEngine" by (simp add: demoController_def newController_def)
  ultimately show ?thesis
    using click_makes_one_request [OF idle, of demoConfig 35 25] by simp
qed

end
