(* ===== verification/Protocol_Scan.thy ===== *)
theory Protocol_Scan
  imports Core Cpp_Text "HOL-Library.Monad_Syntax"
begin

text \<open>
  The hand-written JSON scanner of \<open>src/shared/cpp/src/Network/Protocol.cpp\<close>. Every failure of the
  source is \<open>std::invalid_argument\<close>, here the value \<open>None\<close>. A position in a text is the rest of
  the text from it, so a function that returns a position returns that rest, and one whose
  callers cut the text at the position returns the piece as well.
\<close>

section \<open>Strings\<close>

definition quote :: char where "quote = CHR 0x22"

definition backslash :: char where "backslash = CHR 0x5C"

definition escapeChar :: "char \<Rightarrow> string option" where
  "escapeChar c =
     (if c = backslash then Some [backslash, backslash]
      else if c = quote then Some [backslash, quote]
      else if c = CHR 0x0A then Some [backslash, CHR ''n'']
      else if c = CHR 0x0D then Some [backslash, CHR ''r'']
      else if c = CHR 0x09 then Some [backslash, CHR ''t'']
      else if (of_char c :: nat) < 32 then None
      else Some [c])"

fun escapeJson :: "string \<Rightarrow> string option" where
  "escapeJson [] = Some []"
| "escapeJson (c # cs) = do { e \<leftarrow> escapeChar c; r \<leftarrow> escapeJson cs; Some (e @ r) }"

text \<open>
  From behind the opener quote: the text before the closer quote, and the rest from the
  closer quote on. The first argument is the flag \<open>escaped\<close>.
\<close>

fun findStringEnd :: "bool \<Rightarrow> string \<Rightarrow> (string \<times> string) option" where
  "findStringEnd escaped [] = None"
| "findStringEnd escaped (c # cs) =
     (if escaped then map_option (apfst (Cons c)) (findStringEnd False cs)
      else if c = backslash then map_option (apfst (Cons c)) (findStringEnd True cs)
      else if c = quote then Some ([], c # cs)
      else map_option (apfst (Cons c)) (findStringEnd False cs))"

lemma findStringEnd_length:
  "findStringEnd e s = Some (content, r) \<Longrightarrow> r \<noteq> [] \<and> length r \<le> length s"
  by (induction e s arbitrary: content rule: findStringEnd.induct) (auto split: if_splits)

section \<open>Finding a field\<close>

function findValueLoop :: "string \<Rightarrow> int \<Rightarrow> int \<Rightarrow> string \<Rightarrow> string option" where
  "findValueLoop key objectDepth arrayDepth rest =
     (case rest of
        [] \<Rightarrow> None
      | c # cs \<Rightarrow>
          (if cs = [] then None
           else if c = quote then
             (case findStringEnd False cs of
                None \<Rightarrow> None
              | Some (content, end) \<Rightarrow>
                  (let after = skipSpace (tl end) in
                   if objectDepth = 1 \<and> arrayDepth = 0 \<and> after \<noteq> [] \<and> hd after = CHR '':'' \<and> content = key
                   then Some (skipSpace (tl after))
                   else findValueLoop key objectDepth arrayDepth (tl end)))
           else if c = CHR ''{'' then findValueLoop key (objectDepth + 1) arrayDepth cs
           else if c = CHR ''}'' then findValueLoop key (objectDepth - 1) arrayDepth cs
           else if c = CHR ''['' then findValueLoop key objectDepth (arrayDepth + 1) cs
           else if c = CHR '']'' then findValueLoop key objectDepth (arrayDepth - 1) cs
           else findValueLoop key objectDepth arrayDepth cs))"
  by pat_completeness auto

termination
proof (relation "measure (\<lambda>(key, od, ad, rest). length rest)")
  fix key :: string and od ad :: int and rest cs content r end' and c after
  assume "findStringEnd False cs = Some end'" "(content, r) = end'" "rest = c # cs"
  then have "findStringEnd False cs = Some (content, r)" by simp
  then have "r \<noteq> []" "length r \<le> length cs" using findStringEnd_length by blast+
  then show "((key, od, ad, tl r), key, od, ad, rest) \<in> measure (\<lambda>(key, od, ad, rest). length rest)"
    using \<open>rest = c # cs\<close> by simp
qed auto

declare findValueLoop.simps [simp del]

definition findValue :: "string \<Rightarrow> string \<Rightarrow> string option" where
  "findValue json key =
     (if length json < 2 \<or> hd json \<noteq> CHR ''{'' \<or> last json \<noteq> CHR ''}'' then None
      else findValueLoop key 1 0 (tl json))"

section \<open>Matching brackets\<close>

function matchLoop :: "char \<Rightarrow> char \<Rightarrow> int \<Rightarrow> string \<Rightarrow> (string \<times> string) option" where
  "matchLoop opener closer depth rest =
     (case rest of
        [] \<Rightarrow> None
      | c # cs \<Rightarrow>
          (if c = quote then
             (case findStringEnd False cs of
                None \<Rightarrow> None
              | Some (content, end) \<Rightarrow>
                  map_option (apfst (\<lambda>t. c # content @ hd end # t)) (matchLoop opener closer depth (tl end)))
           else if c = opener then map_option (apfst (Cons c)) (matchLoop opener closer (depth + 1) cs)
           else if c = closer then
             (if depth - 1 = 0 then Some ([c], cs)
              else map_option (apfst (Cons c)) (matchLoop opener closer (depth - 1) cs))
           else map_option (apfst (Cons c)) (matchLoop opener closer depth cs)))"
  by pat_completeness auto

termination
proof (relation "measure (\<lambda>(opener, closer, depth, rest). length rest)")
  fix opener closer c :: char and depth :: int and rest cs content r :: string and end'
  assume "findStringEnd False cs = Some end'" "(content, r) = end'" "rest = c # cs"
  then have "findStringEnd False cs = Some (content, r)" by simp
  then have "r \<noteq> []" "length r \<le> length cs" using findStringEnd_length by blast+
  then show "((opener, closer, depth, tl r), opener, closer, depth, rest)
      \<in> measure (\<lambda>(opener, closer, depth, rest). length rest)"
    using \<open>rest = c # cs\<close> by simp
qed auto

declare matchLoop.simps [simp del]

text \<open>The bracketed piece and what follows it.\<close>

definition findMatchingDelimiter :: "string \<Rightarrow> char \<Rightarrow> char \<Rightarrow> (string \<times> string) option" where
  "findMatchingDelimiter rest opener closer =
     (if rest = [] \<or> hd rest \<noteq> opener then None else matchLoop opener closer 0 rest)"

lemma matchLoop_length:
  "matchLoop opener closer depth rest = Some (piece, r) \<Longrightarrow> length r < length rest"
proof (induction opener closer depth rest arbitrary: piece rule: matchLoop.induct)
  case (1 opener closer depth rest)
  note IH = "1.IH" and run = "1.prems"
  show ?case
  proof (cases rest)
    case Nil
    then show ?thesis using run by (subst (asm) matchLoop.simps) simp
  next
    case (Cons c cs)
    show ?thesis
    proof (cases "c = quote")
      case True
      then obtain content r' where e: "findStringEnd False cs = Some (content, r')"
        using run Cons by (subst (asm) matchLoop.simps) (auto split: option.splits)
      then obtain t where "matchLoop opener closer depth (tl r') = Some (t, r)"
        using run Cons True by (subst (asm) matchLoop.simps) auto
      then have "length r < length (tl r')"
        using IH(1) [OF Cons True e refl] by blast
      then show ?thesis using findStringEnd_length [OF e] Cons by (cases r') auto
    next
      case False
      then consider (nested) t where "c = opener" "matchLoop opener closer (depth + 1) cs = Some (t, r)"
        | (finished) "r = cs"
        | (closed) t where "c \<noteq> opener" "c = closer" "depth - 1 \<noteq> 0"
            "matchLoop opener closer (depth - 1) cs = Some (t, r)"
        | (plain) t where "c \<noteq> opener" "c \<noteq> closer" "matchLoop opener closer depth cs = Some (t, r)"
        using run Cons by (subst (asm) matchLoop.simps) (auto split: if_splits)
      then show ?thesis
      proof cases
        case nested
        then show ?thesis using IH(2) [OF Cons False] Cons by fastforce
      next
        case finished
        then show ?thesis using Cons by simp
      next
        case closed
        then show ?thesis using IH(3) [OF Cons False] Cons by fastforce
      next
        case plain
        then show ?thesis using IH(4) [OF Cons False] Cons by fastforce
      qed
    qed
  qed
qed

section \<open>Reading a field\<close>

definition readObject :: "string \<Rightarrow> string \<Rightarrow> string option" where
  "readObject json key = do {
     start \<leftarrow> findValue json key;
     if start = [] \<or> hd start \<noteq> CHR ''{'' then None
     else map_option fst (findMatchingDelimiter start CHR ''{'' CHR ''}'') }"

definition readArray :: "string \<Rightarrow> string \<Rightarrow> string option" where
  "readArray json key = do {
     start \<leftarrow> findValue json key;
     if start = [] \<or> hd start \<noteq> CHR ''['' then None
     else map_option fst (findMatchingDelimiter start CHR ''['' CHR '']'') }"

lemma length_skipSpace: "length (skipSpace s) \<le> length s"
  by (simp add: skipSpace_def length_dropWhile_le)

text \<open>The loop over an array, from a position inside it; its last character closes the array.\<close>

function objectsLoop :: "string \<Rightarrow> string list option" where
  "objectsLoop rest =
     (if length rest \<le> 1 then Some []
      else if hd rest \<noteq> CHR ''{'' then None
      else case findMatchingDelimiter rest CHR ''{'' CHR ''}'' of
        None \<Rightarrow> None
      | Some (object, after) \<Rightarrow>
          (let next = skipSpace after in
           if length next = 1 then Some [object]
           else if next = [] \<or> hd next \<noteq> CHR '','' then None
           else let following = skipSpace (tl next) in
             if length following = 1 then None
             else map_option (Cons object) (objectsLoop following)))"
  by pat_completeness auto

termination
proof (relation "measure length")
  fix rest x object after nx following
  assume "findMatchingDelimiter rest CHR ''{'' CHR ''}'' = Some x" "(object, after) = x"
    "nx = skipSpace after" "following = skipSpace (tl nx)"
  then have "length after < length rest"
    using matchLoop_length [of "CHR ''{''" "CHR ''}''" 0 rest object after]
    by (auto simp: findMatchingDelimiter_def split: if_splits)
  moreover have "length following \<le> length after"
    using length_skipSpace [of "tl nx"] length_skipSpace [of after]
      \<open>nx = skipSpace after\<close> \<open>following = skipSpace (tl nx)\<close> by simp
  ultimately show "(following, rest) \<in> measure length" by simp
qed simp

declare objectsLoop.simps [simp del]

definition readObjectArray :: "string \<Rightarrow> string \<Rightarrow> string list option" where
  "readObjectArray json key = do {
     array \<leftarrow> readArray json key;
     objectsLoop (skipSpace (tl array)) }"

definition unescape :: "char \<Rightarrow> char option" where
  "unescape c =
     (if c = backslash then Some backslash
      else if c = quote then Some quote
      else if c = CHR ''n'' then Some CHR 0x0A
      else if c = CHR ''r'' then Some CHR 0x0D
      else if c = CHR ''t'' then Some CHR 0x09
      else None)"

fun readStringLoop :: "bool \<Rightarrow> string \<Rightarrow> string option" where
  "readStringLoop escaped [] = None"
| "readStringLoop escaped (c # cs) =
     (if escaped then do { d \<leftarrow> unescape c; r \<leftarrow> readStringLoop False cs; Some (d # r) }
      else if c = backslash then readStringLoop True cs
      else if c = quote then Some []
      else map_option (Cons c) (readStringLoop False cs))"

definition readString :: "string \<Rightarrow> string \<Rightarrow> string option" where
  "readString json key = do {
     position \<leftarrow> findValue json key;
     if position = [] \<or> hd position \<noteq> quote then None else readStringLoop False (tl position) }"

definition readSigned :: "string \<Rightarrow> string \<Rightarrow> int option" where
  "readSigned json key = do {
     position \<leftarrow> findValue json key;
     (v, rest) \<leftarrow> stoll position;
     (let after = skipSpace rest in
      if after = [] \<or> hd after \<noteq> CHR '','' \<and> hd after \<noteq> CHR ''}'' \<and> hd after \<noteq> CHR '']''
      then None else Some v) }"

definition INT_MIN :: int where "INT_MIN = - (2 ^ 31)"

definition INT_MAX :: int where "INT_MAX = 2 ^ 31 - 1"

definition inInt :: "int \<Rightarrow> bool" where
  "inInt i \<longleftrightarrow> INT_MIN \<le> i \<and> i \<le> INT_MAX"

definition readInt :: "string \<Rightarrow> string \<Rightarrow> int option" where
  "readInt json key = do {
     v \<leftarrow> readSigned json key;
     if v < INT_MIN \<or> v > INT_MAX then None else Some v }"

definition readUnsigned :: "string \<Rightarrow> string \<Rightarrow> 64 word option" where
  "readUnsigned json key = do {
     v \<leftarrow> readSigned json key;
     if v < 0 then None else Some (word_of_int v) }"

definition readBool :: "string \<Rightarrow> string \<Rightarrow> bool option" where
  "readBool json key = do {
     position \<leftarrow> findValue json key;
     if take 4 position = ''true'' then Some True
     else if take 5 position = ''false'' then Some False
     else None }"

end
