(* ===== verification/Protocol.thy ===== *)
theory Protocol
  imports Protocol_Scan Messages
begin

text \<open>
  The wire format: writers, readers, \<open>serialize\<close> and \<open>deserialize\<close> of
  \<open>src/shared/cpp/src/Network/Protocol.cpp\<close>. Both sides fail with \<open>std::invalid_argument\<close>, here
  \<open>None\<close>: a writer on a control character it cannot escape, a reader on anything it does not
  accept. Nothing is written before a failure is seen, since the output is a local stream.
\<close>

section \<open>Writing\<close>

definition VERSION :: int where "VERSION = 5"

definition boolText :: "bool \<Rightarrow> string" where
  "boolText b = (if b then ''true'' else ''false'')"

definition quoted :: "string \<Rightarrow> string option" where
  "quoted s = do { e \<leftarrow> escapeJson s; Some ([quote] @ e @ [quote]) }"

definition key :: "string \<Rightarrow> string" where
  "key k = [quote] @ k @ [quote] @ '':''"

definition writePosition :: "Position \<Rightarrow> string" where
  "writePosition p = ''{'' @ key ''row'' @ to_string (getRow p) @ '','' @ key ''col'' @ to_string (getCol p) @ ''}''"

definition writePiece :: "PieceSnapshot \<Rightarrow> string option" where
  "writePiece p = do {
     tok \<leftarrow> quoted (ps_token p);
     st \<leftarrow> quoted (ps_state p);
     Some (''{'' @ key ''id'' @ to_string (ps_id p) @ '','' @ key ''token'' @ tok @
       '','' @ key ''position'' @ writePosition (ps_position p) @ '','' @ key ''state'' @ st @
       '','' @ key ''hasMoved'' @ boolText (ps_hasMoved p) @
       '','' @ key ''remainingCooldownMs'' @ to_string (ps_remainingCooldownMs p) @
       '','' @ key ''totalCooldownMs'' @ to_string (ps_totalCooldownMs p) @ ''}'') }"

definition writeMotion :: "MotionSnapshot \<Rightarrow> string option" where
  "writeMotion m = Some (
     ''{'' @ key ''pieceId'' @ to_string (ms_pieceId m) @
     '','' @ key ''source'' @ writePosition (ms_source m) @
     '','' @ key ''destination'' @ writePosition (ms_destination m) @
     '','' @ key ''currentCell'' @ writePosition (ms_currentCell m) @
     '','' @ key ''rowStep'' @ to_string (ms_rowStep m) @
     '','' @ key ''colStep'' @ to_string (ms_colStep m) @
     '','' @ key ''directMove'' @ boolText (ms_directMove m) @
     '','' @ key ''stepDurationMs'' @ to_string (ms_stepDurationMs m) @
     '','' @ key ''nextStepTimeMs'' @ to_string (ms_nextStepTimeMs m) @
     '','' @ key ''order'' @ to_string (ms_order m) @ ''}'')"

definition writeJump :: "JumpSnapshot \<Rightarrow> string option" where
  "writeJump j = Some (
     ''{'' @ key ''pieceId'' @ to_string (js_pieceId j) @
     '','' @ key ''cell'' @ writePosition (js_cell j) @
     '','' @ key ''finishTimeMs'' @ to_string (js_finishTimeMs j) @ ''}'')"

definition writeHistory :: "MoveHistorySnapshot \<Rightarrow> string option" where
  "writeHistory h = do {
     color \<leftarrow> quoted (hs_color h);
     kind \<leftarrow> quoted (hs_pieceKind h);
     notation' \<leftarrow> quoted (hs_notation h);
     Some (''{'' @ key ''completedAtMs'' @ to_string (hs_completedAtMs h) @
       '','' @ key ''color'' @ color @ '','' @ key ''pieceKind'' @ kind @
       '','' @ key ''source'' @ writePosition (hs_source h) @
       '','' @ key ''destination'' @ writePosition (hs_destination h) @
       '','' @ key ''wasCapture'' @ boolText (hs_wasCapture h) @
       '','' @ key ''wasPromotion'' @ boolText (hs_wasPromotion h) @
       '','' @ key ''wasJump'' @ boolText (hs_wasJump h) @
       '','' @ key ''notation'' @ notation' @ ''}'') }"

text \<open>The items in order; the first that fails makes the whole fail.\<close>

fun mapAll :: "('a \<Rightarrow> 'b option) \<Rightarrow> 'a list \<Rightarrow> 'b list option" where
  "mapAll f [] = Some []"
| "mapAll f (x # xs) = do { y \<leftarrow> f x; ys \<leftarrow> mapAll f xs; Some (y # ys) }"

fun joinItems :: "string list \<Rightarrow> string" where
  "joinItems [] = []"
| "joinItems [x] = x"
| "joinItems (x # y # ys) = x @ '','' @ joinItems (y # ys)"

definition writeArray :: "('a \<Rightarrow> string option) \<Rightarrow> 'a list \<Rightarrow> string option" where
  "writeArray writer items = do { ts \<leftarrow> mapAll writer items; Some (''['' @ joinItems ts @ '']'') }"

definition writeSnapshot :: "GameStateSnapshot \<Rightarrow> string option" where
  "writeSnapshot s = do {
     white \<leftarrow> quoted (snapWhiteUsername s);
     black \<leftarrow> quoted (snapBlackUsername s);
     pieces \<leftarrow> writeArray writePiece (snapPieces s);
     motions \<leftarrow> writeArray writeMotion (snapMotions s);
     jumps \<leftarrow> writeArray writeJump (snapJumps s);
     whiteHistory \<leftarrow> writeArray writeHistory (snapWhiteMoveHistory s);
     blackHistory \<leftarrow> writeArray writeHistory (snapBlackMoveHistory s);
     Some (''{'' @ key ''serverTimeMs'' @ to_string (serverTimeMs s) @
       '','' @ key ''gameOver'' @ boolText (snapGameOver s) @
       '','' @ key ''whiteScore'' @ to_string (snapWhiteScore s) @
       '','' @ key ''blackScore'' @ to_string (snapBlackScore s) @
       '','' @ key ''whiteUsername'' @ white @ '','' @ key ''blackUsername'' @ black @
       '','' @ key ''playersReady'' @ boolText (playersReady s) @
       '','' @ key ''gameplayStartsAtEpochMs'' @ to_string (gameplayStartsAtEpochMs s) @
       '','' @ key ''pieces'' @ pieces @ '','' @ key ''motions'' @ motions @
       '','' @ key ''jumps'' @ jumps @ '','' @ key ''whiteMoveHistory'' @ whiteHistory @
       '','' @ key ''blackMoveHistory'' @ blackHistory @ ''}'') }"

definition messageTypeToString :: "MessageType \<Rightarrow> string" where
  "messageTypeToString t =
     (case t of
        MoveRequest \<Rightarrow> ''move_request'' | JumpRequest \<Rightarrow> ''jump_request''
      | MoveAccepted \<Rightarrow> ''move_accepted'' | MoveRejected \<Rightarrow> ''move_rejected''
      | PlayerAssigned \<Rightarrow> ''player_assigned'' | WaitingForOpponent \<Rightarrow> ''waiting_for_opponent''
      | MessageType.GameStarted \<Rightarrow> ''game_started'' | GameFull \<Rightarrow> ''game_full''
      | InvalidUsername \<Rightarrow> ''invalid_username'' | ReconnectRequest \<Rightarrow> ''reconnect_request''
      | Reconnecting \<Rightarrow> ''reconnecting'' | GameClosed \<Rightarrow> ''game_closed''
      | GameStateUpdated \<Rightarrow> ''game_state_updated'' | GameOver \<Rightarrow> ''game_over'')"

definition messageTypeFromString :: "string \<Rightarrow> MessageType option" where
  "messageTypeFromString s =
     (if s = ''move_request'' then Some MoveRequest
      else if s = ''jump_request'' then Some JumpRequest
      else if s = ''move_accepted'' then Some MoveAccepted
      else if s = ''move_rejected'' then Some MoveRejected
      else if s = ''player_assigned'' then Some PlayerAssigned
      else if s = ''waiting_for_opponent'' then Some WaitingForOpponent
      else if s = ''game_started'' then Some MessageType.GameStarted
      else if s = ''game_full'' then Some GameFull
      else if s = ''invalid_username'' then Some InvalidUsername
      else if s = ''reconnect_request'' then Some ReconnectRequest
      else if s = ''reconnecting'' then Some Reconnecting
      else if s = ''game_closed'' then Some GameClosed
      else if s = ''game_state_updated'' then Some GameStateUpdated
      else if s = ''game_over'' then Some GameOver
      else None)"

definition serialize :: "Message \<Rightarrow> string option" where
  "serialize m = do {
     reasonText \<leftarrow> quoted (reason m);
     colorText \<leftarrow> quoted (playerColor m);
     tokenText \<leftarrow> quoted (reconnectToken m);
     userText \<leftarrow> quoted (username m);
     whiteText \<leftarrow> quoted (whiteUsername m);
     blackText \<leftarrow> quoted (blackUsername m);
     snapshotText \<leftarrow> (if hasSnapshot m
       then do { s \<leftarrow> writeSnapshot (snapshot m); Some ('','' @ key ''snapshot'' @ s) }
       else Some []);
     Some (''{'' @ key ''version'' @ to_string VERSION @
       '','' @ key ''type'' @ [quote] @ messageTypeToString (msgType m) @ [quote] @
       '','' @ key ''sequence'' @ to_string (uint (sequence m)) @
       '','' @ key ''source'' @ writePosition (msgSource m) @
       '','' @ key ''destination'' @ writePosition (msgDestination m) @
       '','' @ key ''accepted'' @ boolText (accepted m) @
       '','' @ key ''reason'' @ reasonText @ '','' @ key ''playerColor'' @ colorText @
       '','' @ key ''reconnectToken'' @ tokenText @ '','' @ key ''username'' @ userText @
       '','' @ key ''whiteUsername'' @ whiteText @ '','' @ key ''blackUsername'' @ blackText @
       '','' @ key ''secondsRemaining'' @ to_string (secondsRemaining m) @
       '','' @ key ''createdAtMs'' @ to_string (createdAtMs m) @
       '','' @ key ''hasSnapshot'' @ boolText (hasSnapshot m) @ snapshotText @ ''}'') }"

section \<open>Reading\<close>

definition check :: "bool \<Rightarrow> unit option" where
  "check b = (if b then Some () else None)"

definition requireNonNegative :: "int \<Rightarrow> unit option" where
  "requireNonNegative v = (if v < 0 then None else Some ())"

definition isBoardPosition :: "Position \<Rightarrow> bool" where
  "isBoardPosition p \<longleftrightarrow> getRow p \<ge> 0 \<and> getRow p \<le> 7 \<and> getCol p \<ge> 0 \<and> getCol p \<le> 7"

definition readPosition :: "string \<Rightarrow> string \<Rightarrow> bool \<Rightarrow> Position option" where
  "readPosition json k allowUnused = do {
     object \<leftarrow> readObject json k;
     row \<leftarrow> readInt object ''row'';
     col \<leftarrow> readInt object ''col'';
     (let position = Position row col in
      if allowUnused \<and> row = -1 \<and> col = -1 then Some position
      else if \<not> isBoardPosition position then None
      else Some position) }"

definition isValidToken :: "string \<Rightarrow> bool" where
  "isValidToken tok =
     (if length tok \<noteq> 2 \<or> tok ! 0 \<noteq> CHR ''w'' \<and> tok ! 0 \<noteq> CHR ''b'' then False
      else tok ! 1 \<in> set ''KQRBNP'')"

definition isValidState :: "string \<Rightarrow> bool" where
  "isValidState s \<longleftrightarrow> s = ''idle'' \<or> s = ''moving'' \<or> s = ''airborne'' \<or> s = ''captured''"

definition isValidColor :: "string \<Rightarrow> bool" where
  "isValidColor s \<longleftrightarrow> s = ''w'' \<or> s = ''b''"

definition isValidKind :: "string \<Rightarrow> bool" where
  "isValidKind s \<longleftrightarrow> length s = 1 \<and> s ! 0 \<in> set ''KQRBNP''"

definition readPiece :: "string \<Rightarrow> PieceSnapshot option" where
  "readPiece object = do {
     i \<leftarrow> readInt object ''id'';
     tok \<leftarrow> readString object ''token'';
     p \<leftarrow> readPosition object ''position'' False;
     st \<leftarrow> readString object ''state'';
     moved \<leftarrow> readBool object ''hasMoved'';
     remaining \<leftarrow> readSigned object ''remainingCooldownMs'';
     total \<leftarrow> readSigned object ''totalCooldownMs'';
     _ \<leftarrow> check (\<not> i < 0);
     _ \<leftarrow> check (isValidToken tok);
     _ \<leftarrow> check (isValidState st);
     _ \<leftarrow> requireNonNegative remaining;
     _ \<leftarrow> requireNonNegative total;
     _ \<leftarrow> check (\<not> remaining > total);
     Some \<lparr>ps_id = i, ps_token = tok, ps_position = p, ps_state = st, ps_hasMoved = moved,
       ps_remainingCooldownMs = remaining, ps_totalCooldownMs = total\<rparr> }"

definition readMotion :: "string \<Rightarrow> MotionSnapshot option" where
  "readMotion object = do {
     i \<leftarrow> readInt object ''pieceId'';
     s \<leftarrow> readPosition object ''source'' False;
     d \<leftarrow> readPosition object ''destination'' False;
     c \<leftarrow> readPosition object ''currentCell'' False;
     rs \<leftarrow> readInt object ''rowStep'';
     cs \<leftarrow> readInt object ''colStep'';
     direct \<leftarrow> readBool object ''directMove'';
     duration \<leftarrow> readSigned object ''stepDurationMs'';
     next \<leftarrow> readSigned object ''nextStepTimeMs'';
     ord \<leftarrow> readInt object ''order'';
     _ \<leftarrow> check (\<not> i < 0);
     _ \<leftarrow> check (\<not> (rs < -1 \<or> rs > 1 \<or> cs < -1 \<or> cs > 1));
     _ \<leftarrow> requireNonNegative duration;
     _ \<leftarrow> requireNonNegative next;
     _ \<leftarrow> check (\<not> ord < 0);
     Some \<lparr>ms_pieceId = i, ms_source = s, ms_destination = d, ms_currentCell = c, ms_rowStep = rs,
       ms_colStep = cs, ms_directMove = direct, ms_stepDurationMs = duration,
       ms_nextStepTimeMs = next, ms_order = ord\<rparr> }"

definition readJump :: "string \<Rightarrow> JumpSnapshot option" where
  "readJump object = do {
     i \<leftarrow> readInt object ''pieceId'';
     c \<leftarrow> readPosition object ''cell'' False;
     t \<leftarrow> readSigned object ''finishTimeMs'';
     _ \<leftarrow> check (\<not> i < 0);
     _ \<leftarrow> requireNonNegative t;
     Some \<lparr>js_pieceId = i, js_cell = c, js_finishTimeMs = t\<rparr> }"

definition readHistory :: "string \<Rightarrow> MoveHistorySnapshot option" where
  "readHistory object = do {
     t \<leftarrow> readSigned object ''completedAtMs'';
     color \<leftarrow> readString object ''color'';
     kind \<leftarrow> readString object ''pieceKind'';
     s \<leftarrow> readPosition object ''source'' False;
     d \<leftarrow> readPosition object ''destination'' False;
     capture \<leftarrow> readBool object ''wasCapture'';
     promotion \<leftarrow> readBool object ''wasPromotion'';
     jump \<leftarrow> readBool object ''wasJump'';
     notation' \<leftarrow> readString object ''notation'';
     _ \<leftarrow> requireNonNegative t;
     _ \<leftarrow> check (isValidColor color);
     _ \<leftarrow> check (isValidKind kind);
     Some \<lparr>hs_completedAtMs = t, hs_color = color, hs_pieceKind = kind, hs_source = s,
       hs_destination = d, hs_wasCapture = capture, hs_wasPromotion = promotion, hs_wasJump = jump,
       hs_notation = notation'\<rparr> }"

definition readSnapshot :: "string \<Rightarrow> GameStateSnapshot option" where
  "readSnapshot object = do {
     t \<leftarrow> readSigned object ''serverTimeMs'';
     over \<leftarrow> readBool object ''gameOver'';
     ws \<leftarrow> readInt object ''whiteScore'';
     bs \<leftarrow> readInt object ''blackScore'';
     white \<leftarrow> readString object ''whiteUsername'';
     black \<leftarrow> readString object ''blackUsername'';
     ready \<leftarrow> readBool object ''playersReady'';
     start \<leftarrow> readSigned object ''gameplayStartsAtEpochMs'';
     _ \<leftarrow> requireNonNegative t;
     _ \<leftarrow> requireNonNegative start;
     _ \<leftarrow> check (\<not> (ws < 0 \<or> bs < 0));
     pieceTexts \<leftarrow> readObjectArray object ''pieces'';
     pieces \<leftarrow> mapAll readPiece pieceTexts;
     motionTexts \<leftarrow> readObjectArray object ''motions'';
     motions \<leftarrow> mapAll readMotion motionTexts;
     jumpTexts \<leftarrow> readObjectArray object ''jumps'';
     jumps \<leftarrow> mapAll readJump jumpTexts;
     whiteTexts \<leftarrow> readObjectArray object ''whiteMoveHistory'';
     whiteHistory \<leftarrow> mapAll readHistory whiteTexts;
     blackTexts \<leftarrow> readObjectArray object ''blackMoveHistory'';
     blackHistory \<leftarrow> mapAll readHistory blackTexts;
     Some \<lparr>serverTimeMs = t, snapGameOver = over, snapWhiteScore = ws, snapBlackScore = bs,
       snapWhiteUsername = white, snapBlackUsername = black, playersReady = ready,
       gameplayStartsAtEpochMs = start, snapPieces = pieces, snapMotions = motions,
       snapJumps = jumps, snapWhiteMoveHistory = whiteHistory, snapBlackMoveHistory = blackHistory\<rparr> }"

definition deserialize :: "string \<Rightarrow> Message option" where
  "deserialize json =
     (if json = [] \<or> hd json \<noteq> CHR ''{'' \<or> last json \<noteq> CHR ''}'' then None
      else do {
        version \<leftarrow> readSigned json ''version'';
        _ \<leftarrow> check (version = VERSION);
        typeText \<leftarrow> readString json ''type'';
        kind \<leftarrow> messageTypeFromString typeText;
        sq \<leftarrow> readUnsigned json ''sequence'';
        s \<leftarrow> readPosition json ''source'' True;
        d \<leftarrow> readPosition json ''destination'' True;
        acc \<leftarrow> readBool json ''accepted'';
        why \<leftarrow> readString json ''reason'';
        color \<leftarrow> readString json ''playerColor'';
        tok \<leftarrow> readString json ''reconnectToken'';
        user \<leftarrow> readString json ''username'';
        white \<leftarrow> readString json ''whiteUsername'';
        black \<leftarrow> readString json ''blackUsername'';
        seconds \<leftarrow> readInt json ''secondsRemaining'';
        created \<leftarrow> readSigned json ''createdAtMs'';
        has \<leftarrow> readBool json ''hasSnapshot'';
        _ \<leftarrow> requireNonNegative created;
        _ \<leftarrow> requireNonNegative seconds;
        snap \<leftarrow> (if has then do { object \<leftarrow> readObject json ''snapshot''; readSnapshot object }
                 else Some newSnapshot);
        Some \<lparr>msgType = kind, sequence = sq, msgSource = s, msgDestination = d, accepted = acc,
          reason = why, playerColor = color, reconnectToken = tok, username = user,
          whiteUsername = white, blackUsername = black, secondsRemaining = seconds,
          createdAtMs = created, hasSnapshot = has, snapshot = snap\<rparr> })"

lemma messageType_roundtrip: "messageTypeFromString (messageTypeToString t) = Some t"
  by (cases t) (simp_all add: messageTypeToString_def messageTypeFromString_def)

interpretation message_type: codec messageTypeToString messageTypeFromString "\<lambda>_. True"
  by unfold_locales (rule messageType_roundtrip)

end
