(* ===== verification/Json_Text.thy ===== *)
theory Json_Text
  imports Protocol
begin

text \<open>
  What the scanner of \<open>Protocol_Scan\<close> does on text that is the rendering of a structured value: it
  finds a field of an object at its top level only, cuts out exactly the object or array it
  stands before, and splits an array into its items. The structured value is the abstract
  specification of what the writers write; nothing here models code.
\<close>

section \<open>Structured values\<close>

datatype json =
    JText string
  | JStr string
  | JObj "(string \<times> json) list"
  | JArr "json list"

definition escaped :: "string \<Rightarrow> string" where
  "escaped s = the (escapeJson s)"

definition escapable :: "string \<Rightarrow> bool" where
  "escapable s \<longleftrightarrow> escapeJson s \<noteq> None"

primrec render :: "json \<Rightarrow> string" where
  "render (JText t) = t"
| "render (JStr s) = [quote] @ escaped s @ [quote]"
| "render (JObj fs) = ''{'' @ joinItems (map (\<lambda>(k, t). key k @ t) (map (map_prod id render) fs)) @ ''}''"
| "render (JArr vs) = ''['' @ joinItems (map render vs) @ '']''"

definition fieldText :: "string \<times> json \<Rightarrow> string" where
  "fieldText f = key (fst f) @ render (snd f)"

abbreviation fieldTexts :: "(string \<times> json) list \<Rightarrow> string list" where
  "fieldTexts fs \<equiv> map fieldText fs"

lemma render_JObj: "render (JObj fs) = ''{'' @ joinItems (fieldTexts fs) @ ''}''"
proof -
  have eq: "map (\<lambda>(k, t). key k @ t) (map (map_prod id render) fs) = fieldTexts fs"
    by (induction fs) (auto simp: fieldText_def)
  show ?thesis unfolding render.simps(3) eq by (rule refl)
qed

declare render.simps(3) [simp del]
declare render_JObj [simp]

lemma fieldText_pair [simp]: "fieldText (k, v) = key k @ render v"
  by (simp add: fieldText_def)

definition plainText :: "string \<Rightarrow> bool" where
  "plainText t \<longleftrightarrow> t \<noteq> [] \<and> \<not> isspace (hd t) \<and> (\<forall>c \<in> set t. c \<notin> {quote, CHR ''{'', CHR ''}'', CHR ''['', CHR '']''})"

definition plainKey :: "string \<Rightarrow> bool" where
  "plainKey k \<longleftrightarrow> (\<forall>c \<in> set k. c \<noteq> quote \<and> c \<noteq> backslash)"

inductive okJson :: "json \<Rightarrow> bool" where
  okText: "plainText t \<Longrightarrow> okJson (JText t)"
| okStr: "escapable s \<Longrightarrow> okJson (JStr s)"
| okObj: "(\<And>k v. (k, v) \<in> set fs \<Longrightarrow> plainKey k \<and> okJson v) \<Longrightarrow> okJson (JObj fs)"
| okArr: "(\<And>v. v \<in> set vs \<Longrightarrow> okJson v) \<Longrightarrow> okJson (JArr vs)"

inductive_simps okJson_simps [simp]:
  "okJson (JText t)" "okJson (JStr s)" "okJson (JArr vs)"

lemma okJson_JObj [simp]: "okJson (JObj fs) \<longleftrightarrow> (\<forall>(k, v) \<in> set fs. plainKey k \<and> okJson v)"
  by (subst okJson.simps) auto

text \<open>What can follow a value.\<close>

definition okRest :: "string \<Rightarrow> bool" where
  "okRest r \<longleftrightarrow> r \<noteq> [] \<and> hd r \<in> {CHR '','', CHR ''}'', CHR '']''}"

lemma okRest_facts:
  assumes "okRest r"
  shows "r \<noteq> []" "skipSpace r = r" "hd r \<noteq> CHR '':''" "noDigitFirst r"
  using assms by (cases r; auto simp: okRest_def skipSpace_def isspace_def noDigitFirst_def isdigit_def)+

lemma char_facts [simp]:
  "quote \<noteq> backslash" "backslash \<noteq> quote" "quote \<noteq> CHR ''{''" "quote \<noteq> CHR ''}''" "quote \<noteq> CHR ''[''"
  "quote \<noteq> CHR '']''" "CHR ''{'' \<noteq> quote" "CHR ''}'' \<noteq> quote" "CHR ''['' \<noteq> quote" "CHR '']'' \<noteq> quote"
  "CHR '','' \<noteq> quote" "CHR '':'' \<noteq> quote" "quote \<noteq> CHR '',''" "quote \<noteq> CHR '':''"
  by (simp_all add: quote_def backslash_def)

lemma render_hd: "okJson j \<Longrightarrow> render j \<noteq> [] \<and> \<not> isspace (hd (render j))"
  by (cases j) (auto simp: plainText_def isspace_def quote_def)

section \<open>Strings\<close>

lemma escapable_Cons: "escapable (c # cs) \<longleftrightarrow> escapeChar c \<noteq> None \<and> escapable cs"
  by (cases "escapeChar c") (auto simp: escapable_def split: Option.bind_splits)

lemma escaped_Cons: "escapable (c # cs) \<Longrightarrow> escaped (c # cs) = the (escapeChar c) @ escaped cs"
  by (auto simp: escapable_def escaped_def split: Option.bind_splits)

lemma escaped_Nil [simp]: "escaped [] = []" "escapable []"
  by (simp_all add: escaped_def escapable_def)

lemma findStringEnd_escaped:
  "escapable s \<Longrightarrow> findStringEnd False (escaped s @ quote # rest) = Some (escaped s, quote # rest)"
proof (induction s)
  case (Cons c cs)
  then have "escapable cs" "escapeChar c \<noteq> None" by (simp_all add: escapable_Cons)
  then show ?case
    using Cons by (auto simp: escaped_Cons escapeChar_def split: if_splits)
qed simp

lemma findStringEnd_plain: "plainKey k \<Longrightarrow> findStringEnd False (k @ quote # rest) = Some (k, quote # rest)"
  by (induction k) (simp_all add: plainKey_def)

lemma readStringLoop_escaped:
  "escapable s \<Longrightarrow> readStringLoop False (escaped s @ quote # rest) = Some s"
proof (induction s)
  case (Cons c cs)
  then have "escapable cs" "escapeChar c \<noteq> None" by (simp_all add: escapable_Cons)
  then show ?case
    using Cons by (auto simp: escaped_Cons escapeChar_def unescape_def backslash_def quote_def split: if_splits)
qed simp

section \<open>Passing over values\<close>

lemma loop_plain:
  "c \<notin> {quote, CHR ''{'', CHR ''}'', CHR ''['', CHR '']''} \<Longrightarrow> cs \<noteq> [] \<Longrightarrow>
   findValueLoop k od ad (c # cs) = findValueLoop k od ad cs"
  by (subst findValueLoop.simps) simp

lemma loop_text:
  "\<forall>c \<in> set t. c \<notin> {quote, CHR ''{'', CHR ''}'', CHR ''['', CHR '']''} \<Longrightarrow> rest \<noteq> [] \<Longrightarrow>
   findValueLoop k od ad (t @ rest) = findValueLoop k od ad rest"
  by (induction t) (simp_all add: loop_plain)

lemma loop_brackets:
  "cs \<noteq> [] \<Longrightarrow> findValueLoop k od ad (CHR ''{'' # cs) = findValueLoop k (od + 1) ad cs"
  "cs \<noteq> [] \<Longrightarrow> findValueLoop k od ad (CHR ''}'' # cs) = findValueLoop k (od - 1) ad cs"
  "cs \<noteq> [] \<Longrightarrow> findValueLoop k od ad (CHR ''['' # cs) = findValueLoop k od (ad + 1) cs"
  "cs \<noteq> [] \<Longrightarrow> findValueLoop k od ad (CHR '']'' # cs) = findValueLoop k od (ad - 1) cs"
  by (subst findValueLoop.simps; simp)+

lemma loop_string:
  "findStringEnd False (t @ quote # rest) = Some (t, quote # rest) \<Longrightarrow>
   \<not> (od = 1 \<and> ad = 0 \<and> skipSpace rest \<noteq> [] \<and> hd (skipSpace rest) = CHR '':'' \<and> t = k) \<Longrightarrow>
   findValueLoop k od ad (quote # t @ quote # rest) = findValueLoop k od ad rest"
  by (subst findValueLoop.simps) (auto simp: Let_def)

lemma loop_found:
  "findStringEnd False (k @ quote # rest) = Some (k, quote # rest) \<Longrightarrow>
   skipSpace rest \<noteq> [] \<Longrightarrow> hd (skipSpace rest) = CHR '':'' \<Longrightarrow>
   findValueLoop k 1 0 (quote # k @ quote # rest) = Some (skipSpace (tl (skipSpace rest)))"
  by (subst findValueLoop.simps) (auto simp: Let_def)


lemma joinItems_Cons:
  "joinItems (x # xs) = x @ (case xs of [] \<Rightarrow> [] | _ \<Rightarrow> '','' @ joinItems xs)"
  by (cases xs) simp_all

lemma okRest_after:
  "okRest ((case map f xs of [] \<Rightarrow> [] | _ \<Rightarrow> '','' @ joinItems (map f xs)) @ CHR ''}'' # rest)"
  "okRest ((case map f xs of [] \<Rightarrow> [] | _ \<Rightarrow> '','' @ joinItems (map f xs)) @ CHR '']'' # rest)"
  by (cases xs; simp add: okRest_def)+

lemma loop_field:
  assumes "plainKey k'" "rest \<noteq> []" "\<not> (od = 1 \<and> ad = 0 \<and> k' = k)"
  shows "findValueLoop k od ad (key k' @ rest) = findValueLoop k od ad rest"
proof -
  have "findValueLoop k od ad (quote # k' @ quote # CHR '':'' # rest) = findValueLoop k od ad (CHR '':'' # rest)"
    using assms(1,3) by (intro loop_string findStringEnd_plain) auto
  also have "\<dots> = findValueLoop k od ad rest" using assms(2) by (intro loop_plain) (simp_all add: quote_def)
  finally show ?thesis by (simp add: key_def)
qed

lemma loop_pass:
  assumes "okJson j"
  shows "1 \<le> od \<Longrightarrow> 0 \<le> ad \<Longrightarrow> okRest rest \<Longrightarrow>
    findValueLoop k od ad (render j @ rest) = findValueLoop k od ad rest"
  using assms
proof (induction j arbitrary: od ad rest rule: okJson.induct)
  case (okText t)
  then show ?case using okRest_facts(1) [OF okText.prems(3)] by (simp add: loop_text plainText_def)
next
  case (okStr s)
  then show ?case
    using okRest_facts [OF okStr.prems(3)] by (simp add: loop_string findStringEnd_escaped)
next
  case (okObj fs)
  have fields: "findValueLoop k (od + 1) ad (joinItems (fieldTexts gs) @ CHR ''}'' # rest) =
      findValueLoop k (od + 1) ad (CHR ''}'' # rest)"
    if "set gs \<subseteq> set fs" for gs
    using that
  proof (induction gs)
    case (Cons g gs)
    obtain k' v where g: "g = (k', v)" by (cases g)
    have v: "plainKey k'" using okObj.IH [of k' v] Cons.prems g by simp
    let ?after = "(case fieldTexts gs of [] \<Rightarrow> [] | _ \<Rightarrow> '','' @ joinItems (fieldTexts gs)) @ CHR ''}'' # rest"
    have after: "okRest ?after" by (rule okRest_after(1))
    have "findValueLoop k (od + 1) ad (key k' @ render v @ ?after) = findValueLoop k (od + 1) ad (render v @ ?after)"
      using v okObj.prems by (intro loop_field) auto
    also have "\<dots> = findValueLoop k (od + 1) ad ?after"
      using okObj.IH [of k' v] Cons.prems g okObj.prems after by simp
    also have "\<dots> = findValueLoop k (od + 1) ad (CHR ''}'' # rest)"
      using Cons by (cases gs) (simp_all add: loop_plain)
    finally show ?case by (simp add: g joinItems_Cons)
  qed simp
  have "rest \<noteq> []" using okObj.prems(3) okRest_facts(1) by blast
  then show ?case using fields [of fs] by (simp add: loop_brackets)
next
  case (okArr vs)
  have items: "findValueLoop k od (ad + 1) (joinItems (map render ws) @ CHR '']'' # rest) =
      findValueLoop k od (ad + 1) (CHR '']'' # rest)"
    if "set ws \<subseteq> set vs" for ws
    using that
  proof (induction ws)
    case (Cons w ws)
    let ?after = "(case map render ws of [] \<Rightarrow> [] | _ \<Rightarrow> '','' @ joinItems (map render ws)) @ CHR '']'' # rest"
    have after: "okRest ?after" by (rule okRest_after(2))
    have "findValueLoop k od (ad + 1) (render w @ ?after) = findValueLoop k od (ad + 1) ?after"
      using okArr.IH [of w] Cons.prems okArr.prems after by simp
    also have "\<dots> = findValueLoop k od (ad + 1) (CHR '']'' # rest)"
      using Cons by (cases ws) (simp_all add: loop_plain)
    finally show ?case by (simp add: joinItems_Cons)
  qed simp
  have "rest \<noteq> []" using okArr.prems(3) okRest_facts(1) by blast
  then show ?case using items [of vs] by (simp add: loop_brackets)
qed

section \<open>Finding a field\<close>

lemma findValueLoop_field:
  assumes "\<forall>(k, v) \<in> set fs. plainKey k \<and> okJson v" "map_of fs k = Some v"
  shows "\<exists>rest. findValueLoop k 1 0 (joinItems (fieldTexts fs) @ ''}'') = Some (render v @ rest) \<and> okRest rest"
  using assms
proof (induction fs)
  case (Cons f fs)
  obtain k' v' where f: "f = (k', v')" by (cases f)
  have ok: "plainKey k'" "okJson v'" using Cons.prems(1) f by auto
  let ?after = "(case fieldTexts fs of [] \<Rightarrow> [] | _ \<Rightarrow> '','' @ joinItems (fieldTexts fs)) @ ''}''"
  have after: "okRest ?after" by (rule okRest_after(1))
  have shown: "joinItems (fieldTexts (f # fs)) @ ''}'' = key k' @ render v' @ ?after"
    by (simp add: f joinItems_Cons)
  show ?case
  proof (cases "k' = k")
    case True
    have "skipSpace (render v' @ ?after) = render v' @ ?after"
      using render_hd [OF ok(2)] by (intro skipSpace_id) simp
    then have "findValueLoop k 1 0 (quote # k @ quote # CHR '':'' # render v' @ ?after) = Some (render v' @ ?after)"
      using ok(1) True by (subst loop_found) (simp_all add: findStringEnd_plain skipSpace_def isspace_def)
    then show ?thesis using Cons.prems(2) True after shown f by (auto simp: key_def)
  next
    case False
    have "findValueLoop k 1 0 (key k' @ render v' @ ?after) = findValueLoop k 1 0 (render v' @ ?after)"
      using ok(1) False after by (intro loop_field) auto
    also have "\<dots> = findValueLoop k 1 0 ?after" using ok(2) after by (intro loop_pass) simp_all
    finally have step: "findValueLoop k 1 0 (joinItems (fieldTexts (f # fs)) @ ''}'') = findValueLoop k 1 0 ?after"
      using shown by simp
    have "map_of fs k = Some v" "fs \<noteq> []" using Cons.prems(2) False f by auto
    then have "findValueLoop k 1 0 ?after = findValueLoop k 1 0 (joinItems (fieldTexts fs) @ ''}'')"
      by (cases fs) (simp_all add: loop_plain)
    then show ?thesis
      using Cons.IH Cons.prems(1) \<open>map_of fs k = Some v\<close> step by simp
  qed
qed simp

lemma findValue_field:
  assumes "okJson (JObj fs)" "map_of fs k = Some v"
  shows "\<exists>rest. findValue (render (JObj fs)) k = Some (render v @ rest) \<and> okRest rest"
  using findValueLoop_field [of fs k v] assms by (simp add: findValue_def)

section \<open>Cutting out objects and arrays\<close>

text \<open>Text put before the piece of a match.\<close>

definition pre :: "string \<Rightarrow> (string \<times> string) option \<Rightarrow> (string \<times> string) option" where
  "pre t x = map_option (\<lambda>(piece, r). (t @ piece, r)) x"

lemma pre_simps [simp]:
  "pre [] x = x" "pre s (pre t x) = pre (s @ t) x" "pre t (Some (piece, r)) = Some (t @ piece, r)" "pre t None = None"
  by (cases x; simp add: pre_def split: prod.split)+

lemma apfst_pre: "map_option (apfst (Cons c)) x = pre [c] x" "map_option (apfst (\<lambda>t. c # u @ d # t)) x = pre (c # u @ [d]) x"
  by (cases x; auto simp: pre_def)+

lemma match_plain:
  "c \<notin> {quote, opener, closer} \<Longrightarrow>
   matchLoop opener closer d (c # cs) = pre [c] (matchLoop opener closer d cs)"
  by (subst matchLoop.simps) (simp add: apfst_pre)

lemma match_opener:
  "opener \<noteq> quote \<Longrightarrow>
   matchLoop opener closer d (opener # cs) = pre [opener] (matchLoop opener closer (d + 1) cs)"
  by (subst matchLoop.simps) (simp add: apfst_pre)

lemma match_closer:
  "closer \<noteq> quote \<Longrightarrow> closer \<noteq> opener \<Longrightarrow> matchLoop opener closer d (closer # cs) =
     (if d = 1 then Some ([closer], cs) else pre [closer] (matchLoop opener closer (d - 1) cs))"
  by (subst matchLoop.simps) (simp add: apfst_pre)

lemma match_string:
  "findStringEnd False (t @ quote # rest) = Some (t, quote # rest) \<Longrightarrow>
   matchLoop opener closer d (quote # t @ quote # rest) = pre (quote # t @ [quote]) (matchLoop opener closer d rest)"
  by (subst matchLoop.simps) (simp add: apfst_pre)

lemma match_text:
  "\<forall>c \<in> set t. c \<notin> {quote, opener, closer} \<Longrightarrow>
   matchLoop opener closer d (t @ rest) = pre t (matchLoop opener closer d rest)"
  by (induction t) (simp_all add: match_plain)

definition delimiters :: "char \<Rightarrow> char \<Rightarrow> bool" where
  "delimiters opener closer \<longleftrightarrow> opener = CHR ''{'' \<and> closer = CHR ''}'' \<or> opener = CHR ''['' \<and> closer = CHR '']''"

lemma delimiters_facts:
  assumes "delimiters opener closer"
  shows "opener \<noteq> quote" "closer \<noteq> quote" "closer \<noteq> opener" "CHR '','' \<notin> {quote, opener, closer}"
    "CHR '':'' \<notin> {quote, opener, closer}"
  using assms by (auto simp: delimiters_def quote_def)

lemma match_field:
  assumes "delimiters opener closer" "plainKey k"
  shows "matchLoop opener closer d (key k @ rest) =
    pre (key k) (matchLoop opener closer d rest)"
  using match_string [OF findStringEnd_plain [OF assms(2)], of opener closer d "CHR '':'' # rest"]
    match_plain [OF delimiters_facts(5) [OF assms(1)], of d rest]
  by (simp add: key_def)

text \<open>A bracket that is one of the two being counted changes the depth; the other kind does not.\<close>

lemma match_bracketed:
  assumes delims: "delimiters opener closer" and "1 \<le> d"
    and b: "b = CHR ''{'' \<and> b' = CHR ''}'' \<or> b = CHR ''['' \<and> b' = CHR '']''"
    and inner: "\<And>d rest. 1 \<le> d \<Longrightarrow> matchLoop opener closer d (t @ rest) =
      pre t (matchLoop opener closer d rest)"
  shows "matchLoop opener closer d (b # t @ b' # rest) =
    pre (b # t @ [b']) (matchLoop opener closer d rest)"
proof (cases "b = opener")
  case True
  then have "b' = closer" using b delims by (auto simp: delimiters_def)
  then show ?thesis
    using True assms(2) inner [of "d + 1" "closer # rest"] delimiters_facts [OF delims]
    by (simp add: match_opener match_closer)
next
  case False
  then have "b \<notin> {quote, opener, closer}" "b' \<notin> {quote, opener, closer}"
    using b delims by (auto simp: delimiters_def quote_def)
  then show ?thesis
    using inner [OF assms(2), of "b' # rest"] by (simp add: match_plain)
qed

lemma match_join:
  assumes delims: "delimiters opener closer"
    and each: "\<And>t rest. t \<in> set ts \<Longrightarrow> matchLoop opener closer d (t @ rest) =
      pre t (matchLoop opener closer d rest)"
  shows "matchLoop opener closer d (joinItems ts @ rest) =
    pre (joinItems ts) (matchLoop opener closer d rest)"
  using each
proof (induction ts rule: joinItems.induct)
  case 1
  then show ?case by simp
next
  case (2 x)
  then show ?case by simp
next
  case (3 x y ys)
  have "matchLoop opener closer d (joinItems (y # ys) @ rest) =
      pre (joinItems (y # ys)) (matchLoop opener closer d rest)"
    using 3(2) by (intro 3(1)) simp
  moreover have "matchLoop opener closer d (x @ '','' @ joinItems (y # ys) @ rest) =
      pre x (matchLoop opener closer d ('','' @ joinItems (y # ys) @ rest))"
    using 3(2) [of x] by simp
  ultimately show ?case
    using match_plain [OF delimiters_facts(4) [OF delims], of d] by (simp add:)
qed

lemma match_pass:
  assumes "delimiters opener closer" "okJson j"
  shows "1 \<le> d \<Longrightarrow> matchLoop opener closer d (render j @ rest) =
    pre (render j) (matchLoop opener closer d rest)"
  using assms(2)
proof (induction j arbitrary: d rest rule: okJson.induct)
  case (okText t)
  then show ?case using assms(1) by (auto simp: plainText_def delimiters_def intro!: match_text)
next
  case (okStr s)
  then show ?case using match_string [OF findStringEnd_escaped [OF okStr.hyps]] by simp
next
  case (okObj fs)
  have "matchLoop opener closer d (joinItems (fieldTexts fs) @ rest) =
      pre (joinItems (fieldTexts fs)) (matchLoop opener closer d rest)" if "1 \<le> d" for d rest
    using okObj.IH that assms(1)
    by (intro match_join) (auto simp: match_field)
  then show ?case
    using match_bracketed [OF assms(1) okObj.prems, of "CHR ''{''" "CHR ''}''" "joinItems (fieldTexts fs)"] by simp
next
  case (okArr vs)
  have "matchLoop opener closer d (joinItems (map render vs) @ rest) =
      pre (joinItems (map render vs)) (matchLoop opener closer d rest)" if "1 \<le> d" for d rest
    using okArr.IH that assms(1) by (intro match_join) auto
  then show ?case
    using match_bracketed [OF assms(1) okArr.prems, of "CHR ''[''" "CHR '']''" "joinItems (map render vs)"] by simp
qed

end
