(* ===== verification/Protocol_Roundtrip.thy ===== *)
theory Protocol_Roundtrip
  imports Json_Text
begin

text \<open>
  What is written can be read back: the writers render structured values, each reader applied to
  the rendering returns the value it was made of, and so \<open>deserialize\<close> inverts \<open>serialize\<close> on every
  message the protocol can carry.
\<close>

section \<open>Readers on rendered objects\<close>

lemma cut_object:
  assumes "okJson (JObj fs)"
  shows "findMatchingDelimiter (render (JObj fs) @ rest) CHR ''{'' CHR ''}'' = Some (render (JObj fs), rest)"
proof -
  have d: "delimiters CHR ''{'' CHR ''}''" by (simp add: delimiters_def)
  have "matchLoop CHR ''{'' CHR ''}'' 1 (joinItems (fieldTexts fs) @ CHR ''}'' # rest) =
      pre (joinItems (fieldTexts fs)) (matchLoop CHR ''{'' CHR ''}'' 1 (CHR ''}'' # rest))"
    using assms d by (intro match_join [OF d]) (auto simp: match_field match_pass)
  then show ?thesis
    by (simp add: findMatchingDelimiter_def match_opener match_closer)
qed

lemma cut_array:
  assumes "okJson (JArr vs)"
  shows "findMatchingDelimiter (render (JArr vs) @ rest) CHR ''['' CHR '']'' = Some (render (JArr vs), rest)"
proof -
  have d: "delimiters CHR ''['' CHR '']''" by (simp add: delimiters_def)
  have "matchLoop CHR ''['' CHR '']'' 1 (joinItems (map render vs) @ CHR '']'' # rest) =
      pre (joinItems (map render vs)) (matchLoop CHR ''['' CHR '']'' 1 (CHR '']'' # rest))"
    using assms d by (intro match_join [OF d]) (auto simp: match_pass)
  then show ?thesis
    by (simp add: findMatchingDelimiter_def match_opener match_closer)
qed

lemma okJson_field:
  assumes "okJson (JObj fs)" "map_of fs k = Some v"
  shows "okJson v"
  using assms(1) map_of_SomeD [OF assms(2)] unfolding okJson_JObj by fast

lemma read_object:
  assumes "okJson (JObj fs)" "map_of fs k = Some (JObj gs)"
  shows "readObject (render (JObj fs)) k = Some (render (JObj gs))"
proof -
  have ok: "okJson (JObj gs)" by (rule okJson_field [OF assms])
  obtain rest where "findValue (render (JObj fs)) k = Some (render (JObj gs) @ rest)"
    using findValue_field [OF assms] by blast
  moreover have "hd (render (JObj gs) @ rest) = CHR ''{''" "render (JObj gs) @ rest \<noteq> []" by simp_all
  ultimately show ?thesis
    using cut_object [OF ok, of rest] by (simp add: readObject_def del: render_JObj)
qed

lemma objects_array:
  assumes "\<forall>v \<in> set vs. okJson v \<and> (\<exists>fs. v = JObj fs)"
  shows "objectsLoop (joinItems (map render vs) @ '']'') = Some (map render vs)"
  using assms
proof (induction vs)
  case Nil
  then show ?case by (subst objectsLoop.simps) simp
next
  case (Cons v vs)
  obtain fs where v: "v = JObj fs" "okJson (JObj fs)" using Cons.prems by auto
  let ?after = "(case map render vs of [] \<Rightarrow> [] | _ \<Rightarrow> '','' @ joinItems (map render vs)) @ '']''"
  have shown: "joinItems (map render (v # vs)) @ '']'' = render v @ ?after"
    by (simp add: joinItems_Cons)
  have cut: "findMatchingDelimiter (render v @ ?after) CHR ''{'' CHR ''}'' = Some (render v, ?after)"
    using cut_object [OF v(2)] v(1) by simp
  have skip: "skipSpace ?after = ?after" using okRest_after(2) [of render vs "[]"] okRest_facts(2) by blast
  have head: "hd (render v @ ?after) = CHR ''{''" "\<not> length (render v @ ?after) \<le> 1" by (simp_all add: v(1))
  show ?case
  proof (cases vs)
    case Nil
    then show ?thesis
      using cut skip head unfolding shown by (subst objectsLoop.simps) (simp add: Nil)
  next
    case (Cons w ws)
    have w: "okJson w" "\<exists>gs. w = JObj gs" using Cons.prems Cons by auto
    have next_start: "skipSpace (joinItems (map render vs) @ '']'') = joinItems (map render vs) @ '']''"
      using w Cons by (intro skipSpace_id) (auto simp: joinItems_Cons isspace_def)
    have long: "length (joinItems (map render vs) @ '']'') \<noteq> 1" using w Cons by (auto simp: joinItems_Cons)
    have IH: "objectsLoop (joinItems (map render vs) @ '']'') = Some (map render vs)"
      using Cons.IH Cons.prems by simp
    have after: "?after = CHR '','' # joinItems (map render vs) @ '']''" using Cons by simp
    show ?thesis
      unfolding shown using cut skip head next_start long IH
      by (subst objectsLoop.simps) (simp add: after Let_def)
  qed
qed

lemma read_array:
  assumes "okJson (JObj fs)" "map_of fs k = Some (JArr vs)" "\<forall>v \<in> set vs. \<exists>gs. v = JObj gs"
  shows "readObjectArray (render (JObj fs)) k = Some (map render vs)"
proof -
  have ok: "okJson (JArr vs)" using assms(1) map_of_SomeD [OF assms(2)] by auto
  have "readArray (render (JObj fs)) k = Some (render (JArr vs))"
    using findValue_field [OF assms(1,2)] cut_array [OF ok] by (auto simp: readArray_def)
  moreover have "objectsLoop (joinItems (map render vs) @ '']'') = Some (map render vs)"
    using ok assms(3) by (intro objects_array) simp
  moreover have "skipSpace (joinItems (map render vs) @ '']'') = joinItems (map render vs) @ '']''"
    using assms(3) by (cases vs; intro skipSpace_id) (auto simp: joinItems_Cons isspace_def)
  ultimately show ?thesis by (simp add: readObjectArray_def)
qed

lemma read_string:
  assumes "okJson (JObj fs)" "map_of fs k = Some (JStr s)"
  shows "readString (render (JObj fs)) k = Some s"
proof -
  have "escapable s" using assms map_of_SomeD [OF assms(2)] by auto
  then show ?thesis
    using findValue_field [OF assms] by (auto simp: readString_def readStringLoop_escaped)
qed

lemma read_signed:
  assumes "okJson (JObj fs)" "map_of fs k = Some (JText (to_string i))" "inLongLong i"
  shows "readSigned (render (JObj fs)) k = Some i"
proof -
  obtain rest where rest: "findValue (render (JObj fs)) k = Some (to_string i @ rest)" "okRest rest"
    using findValue_field [OF assms(1,2)] by auto
  have "hd rest = CHR '','' \<or> hd rest = CHR ''}'' \<or> hd rest = CHR '']''" using rest(2) by (auto simp: okRest_def)
  then show ?thesis
    using rest stoll_to_string [OF okRest_facts(4) [OF rest(2)] assms(3)] okRest_facts(1,2) [OF rest(2)]
    by (simp add: readSigned_def Let_def)
qed

lemma inInt_inLongLong: "inInt i \<Longrightarrow> inLongLong i"
  by (simp add: inInt_def inLongLong_def INT_MIN_def INT_MAX_def LLONG_MIN_def LLONG_MAX_def)

lemma read_int:
  assumes "okJson (JObj fs)" "map_of fs k = Some (JText (to_string i))" "inInt i"
  shows "readInt (render (JObj fs)) k = Some i"
  using read_signed [OF assms(1,2) inInt_inLongLong [OF assms(3)]] assms(3)
  by (simp add: readInt_def inInt_def)

lemma read_unsigned:
  assumes "okJson (JObj fs)" "map_of fs k = Some (JText (to_string (uint w)))" "uint w \<le> LLONG_MAX"
  shows "readUnsigned (render (JObj fs)) k = Some w"
proof -
  have "inLongLong (uint w)" using assms(3) by (simp add: inLongLong_def LLONG_MIN_def order_trans [OF _ uint_ge_0])
  then show ?thesis using read_signed [OF assms(1,2)] by (simp add: readUnsigned_def)
qed

lemma read_bool:
  assumes "okJson (JObj fs)" "map_of fs k = Some (JText (boolText b))"
  shows "readBool (render (JObj fs)) k = Some b"
  using findValue_field [OF assms] by (cases b) (auto simp: readBool_def boolText_def)

section \<open>Numbers and strings as values\<close>

lemma isdigit_plain:
  "isdigit c \<Longrightarrow> c \<notin> {quote, CHR ''{'', CHR ''}'', CHR ''['', CHR '']''}"
  by (auto simp: isdigit_def quote_def)

lemma minus_plain: "CHR ''-'' \<notin> {quote, CHR ''{'', CHR ''}'', CHR ''['', CHR '']''}"
  by (simp add: quote_def)

lemma plain_to_string [simp]: "plainText (to_string i)"
proof -
  have "c \<notin> {quote, CHR ''{'', CHR ''}'', CHR ''['', CHR '']''}" if "c \<in> set (to_string i)" for c
    using to_string_chars [OF that] isdigit_plain [of c] minus_plain by metis
  moreover have "\<not> isspace (hd (to_string i))"
    using to_string_chars [of "hd (to_string i)" i] to_string_hd(2) [of i] digitChar_plain(1)
    by (auto simp: isspace_def)
  ultimately show ?thesis using to_string_hd(2) [of i] unfolding plainText_def by blast
qed

lemma plain_bool [simp]: "plainText (boolText b)"
  by (simp add: plainText_def boolText_def isspace_def quote_def)

lemma quoted_eq: "escapable s \<Longrightarrow> quoted s = Some (render (JStr s))"
  by (auto simp: quoted_def escapable_def escaped_def)

lemma plain_key_chars: "plainKey k \<longleftrightarrow> list_all (\<lambda>c. c \<noteq> CHR 0x22 \<and> c \<noteq> CHR 0x5C) k"
  by (simp add: plainKey_def quote_def backslash_def list_all_iff)

section \<open>Positions\<close>

definition jsonPosition :: "Position \<Rightarrow> json" where
  "jsonPosition p = JObj [(''row'', JText (to_string (getRow p))), (''col'', JText (to_string (getCol p)))]"

lemma writePosition_render: "writePosition p = render (jsonPosition p)"
  by (simp add: writePosition_def jsonPosition_def)

lemma ok_jsonPosition [simp]: "okJson (jsonPosition p)"
  by (simp add: jsonPosition_def plain_key_chars)

definition wirePosition :: "bool \<Rightarrow> Position \<Rightarrow> bool" where
  "wirePosition allowUnused p \<longleftrightarrow> isBoardPosition p \<or> allowUnused \<and> p = noPosition"

lemma read_position:
  assumes "okJson (JObj fs)" "map_of fs k = Some (jsonPosition p)" "wirePosition u p"
  shows "readPosition (render (JObj fs)) k u = Some p"
proof -
  have ints: "inInt (getRow p)" "inInt (getCol p)"
    using assms(3) by (auto simp: wirePosition_def isBoardPosition_def noPosition_def inInt_def INT_MIN_def INT_MAX_def)
  have object: "readObject (render (JObj fs)) k = Some (render (jsonPosition p))"
    using assms(1,2) unfolding jsonPosition_def by (rule read_object)
  have "readInt (render (jsonPosition p)) ''row'' = Some (getRow p)"
    "readInt (render (jsonPosition p)) ''col'' = Some (getCol p)"
    using ints by (simp_all add: jsonPosition_def read_int plain_key_chars del: render_JObj)
  then show ?thesis
    using object assms(3) by (cases p) (auto simp: readPosition_def wirePosition_def noPosition_def Let_def)
qed

section \<open>The values written for each record\<close>

definition jsonInt :: "int \<Rightarrow> json" where "jsonInt i = JText (to_string i)"

definition jsonBool :: "bool \<Rightarrow> json" where "jsonBool b = JText (boolText b)"

definition pieceFields :: "PieceSnapshot \<Rightarrow> (string \<times> json) list" where
  "pieceFields p = [(''id'', jsonInt (ps_id p)), (''token'', JStr (ps_token p)),
     (''position'', jsonPosition (ps_position p)), (''state'', JStr (ps_state p)),
     (''hasMoved'', jsonBool (ps_hasMoved p)),
     (''remainingCooldownMs'', jsonInt (ps_remainingCooldownMs p)),
     (''totalCooldownMs'', jsonInt (ps_totalCooldownMs p))]"

definition motionFields :: "MotionSnapshot \<Rightarrow> (string \<times> json) list" where
  "motionFields m = [(''pieceId'', jsonInt (ms_pieceId m)), (''source'', jsonPosition (ms_source m)),
     (''destination'', jsonPosition (ms_destination m)), (''currentCell'', jsonPosition (ms_currentCell m)),
     (''rowStep'', jsonInt (ms_rowStep m)), (''colStep'', jsonInt (ms_colStep m)),
     (''directMove'', jsonBool (ms_directMove m)), (''stepDurationMs'', jsonInt (ms_stepDurationMs m)),
     (''nextStepTimeMs'', jsonInt (ms_nextStepTimeMs m)), (''order'', jsonInt (ms_order m))]"

definition jumpFields :: "JumpSnapshot \<Rightarrow> (string \<times> json) list" where
  "jumpFields j = [(''pieceId'', jsonInt (js_pieceId j)), (''cell'', jsonPosition (js_cell j)),
     (''finishTimeMs'', jsonInt (js_finishTimeMs j))]"

definition historyFields :: "MoveHistorySnapshot \<Rightarrow> (string \<times> json) list" where
  "historyFields h = [(''completedAtMs'', jsonInt (hs_completedAtMs h)), (''color'', JStr (hs_color h)),
     (''pieceKind'', JStr (hs_pieceKind h)), (''source'', jsonPosition (hs_source h)),
     (''destination'', jsonPosition (hs_destination h)), (''wasCapture'', jsonBool (hs_wasCapture h)),
     (''wasPromotion'', jsonBool (hs_wasPromotion h)), (''wasJump'', jsonBool (hs_wasJump h)),
     (''notation'', JStr (hs_notation h))]"

definition objects :: "('a \<Rightarrow> (string \<times> json) list) \<Rightarrow> 'a list \<Rightarrow> json" where
  "objects fs xs = JArr (map (\<lambda>x. JObj (fs x)) xs)"

definition snapshotFields :: "GameStateSnapshot \<Rightarrow> (string \<times> json) list" where
  "snapshotFields s = [(''serverTimeMs'', jsonInt (serverTimeMs s)), (''gameOver'', jsonBool (snapGameOver s)),
     (''whiteScore'', jsonInt (snapWhiteScore s)), (''blackScore'', jsonInt (snapBlackScore s)),
     (''whiteUsername'', JStr (snapWhiteUsername s)), (''blackUsername'', JStr (snapBlackUsername s)),
     (''playersReady'', jsonBool (playersReady s)),
     (''gameplayStartsAtEpochMs'', jsonInt (gameplayStartsAtEpochMs s)),
     (''pieces'', objects pieceFields (snapPieces s)), (''motions'', objects motionFields (snapMotions s)),
     (''jumps'', objects jumpFields (snapJumps s)),
     (''whiteMoveHistory'', objects historyFields (snapWhiteMoveHistory s)),
     (''blackMoveHistory'', objects historyFields (snapBlackMoveHistory s))]"

definition messageFields :: "Message \<Rightarrow> (string \<times> json) list" where
  "messageFields m = [(''version'', jsonInt VERSION), (''type'', JStr (messageTypeToString (msgType m))),
     (''sequence'', jsonInt (uint (sequence m))), (''source'', jsonPosition (msgSource m)),
     (''destination'', jsonPosition (msgDestination m)), (''accepted'', jsonBool (accepted m)),
     (''reason'', JStr (reason m)), (''playerColor'', JStr (playerColor m)),
     (''reconnectToken'', JStr (reconnectToken m)), (''username'', JStr (username m)),
     (''whiteUsername'', JStr (whiteUsername m)), (''blackUsername'', JStr (blackUsername m)),
     (''secondsRemaining'', jsonInt (secondsRemaining m)), (''createdAtMs'', jsonInt (createdAtMs m)),
     (''hasSnapshot'', jsonBool (hasSnapshot m))] @
     (if hasSnapshot m then [(''snapshot'', JObj (snapshotFields (snapshot m)))] else [])"

lemma render_scalars [simp]:
  "render (jsonInt i) = to_string i" "render (jsonBool b) = boolText b"
  by (simp_all add: jsonInt_def jsonBool_def)

lemma ok_scalars [simp]: "okJson (jsonInt i)" "okJson (jsonBool b)"
  by (simp_all add: jsonInt_def jsonBool_def)

section \<open>What the protocol can carry\<close>

text \<open>The bounds a reader checks, with the condition on free text as a parameter: a reader takes any
  text, a writer only \<open>escapable\<close> text.\<close>

definition wirePiece :: "PieceSnapshot \<Rightarrow> bool" where
  "wirePiece p \<longleftrightarrow> inInt (ps_id p) \<and> 0 \<le> ps_id p \<and> isValidToken (ps_token p) \<and> isValidState (ps_state p) \<and>
     isBoardPosition (ps_position p) \<and> 0 \<le> ps_remainingCooldownMs p \<and>
     ps_remainingCooldownMs p \<le> ps_totalCooldownMs p \<and> ps_totalCooldownMs p \<le> LLONG_MAX"

definition wireMotion :: "MotionSnapshot \<Rightarrow> bool" where
  "wireMotion m \<longleftrightarrow> inInt (ms_pieceId m) \<and> 0 \<le> ms_pieceId m \<and> isBoardPosition (ms_source m) \<and>
     isBoardPosition (ms_destination m) \<and> isBoardPosition (ms_currentCell m) \<and>
     -1 \<le> ms_rowStep m \<and> ms_rowStep m \<le> 1 \<and> -1 \<le> ms_colStep m \<and> ms_colStep m \<le> 1 \<and>
     0 \<le> ms_stepDurationMs m \<and> ms_stepDurationMs m \<le> LLONG_MAX \<and>
     0 \<le> ms_nextStepTimeMs m \<and> ms_nextStepTimeMs m \<le> LLONG_MAX \<and> inInt (ms_order m) \<and> 0 \<le> ms_order m"

definition wireJump :: "JumpSnapshot \<Rightarrow> bool" where
  "wireJump j \<longleftrightarrow> inInt (js_pieceId j) \<and> 0 \<le> js_pieceId j \<and> isBoardPosition (js_cell j) \<and>
     0 \<le> js_finishTimeMs j \<and> js_finishTimeMs j \<le> LLONG_MAX"

definition validHistory :: "(string \<Rightarrow> bool) \<Rightarrow> MoveHistorySnapshot \<Rightarrow> bool" where
  "validHistory okText h \<longleftrightarrow> 0 \<le> hs_completedAtMs h \<and> hs_completedAtMs h \<le> LLONG_MAX \<and> isValidColor (hs_color h) \<and>
     isValidKind (hs_pieceKind h) \<and> isBoardPosition (hs_source h) \<and> isBoardPosition (hs_destination h) \<and>
     okText (hs_notation h)"

definition validSnapshot :: "(string \<Rightarrow> bool) \<Rightarrow> GameStateSnapshot \<Rightarrow> bool" where
  "validSnapshot okText s \<longleftrightarrow> 0 \<le> serverTimeMs s \<and> serverTimeMs s \<le> LLONG_MAX \<and>
     inInt (snapWhiteScore s) \<and> 0 \<le> snapWhiteScore s \<and> inInt (snapBlackScore s) \<and> 0 \<le> snapBlackScore s \<and>
     okText (snapWhiteUsername s) \<and> okText (snapBlackUsername s) \<and>
     0 \<le> gameplayStartsAtEpochMs s \<and> gameplayStartsAtEpochMs s \<le> LLONG_MAX \<and>
     list_all wirePiece (snapPieces s) \<and> list_all wireMotion (snapMotions s) \<and> list_all wireJump (snapJumps s) \<and>
     list_all (validHistory okText) (snapWhiteMoveHistory s) \<and> list_all (validHistory okText) (snapBlackMoveHistory s)"

definition validMessage :: "(string \<Rightarrow> bool) \<Rightarrow> Message \<Rightarrow> bool" where
  "validMessage okText m \<longleftrightarrow> uint (sequence m) \<le> LLONG_MAX \<and> wirePosition True (msgSource m) \<and>
     wirePosition True (msgDestination m) \<and> okText (reason m) \<and> okText (playerColor m) \<and>
     okText (reconnectToken m) \<and> okText (username m) \<and> okText (whiteUsername m) \<and>
     okText (blackUsername m) \<and> inInt (secondsRemaining m) \<and> 0 \<le> secondsRemaining m \<and>
     0 \<le> createdAtMs m \<and> createdAtMs m \<le> LLONG_MAX \<and>
     (if hasSnapshot m then validSnapshot okText (snapshot m) else snapshot m = newSnapshot)"

abbreviation wireHistory :: "MoveHistorySnapshot \<Rightarrow> bool" where "wireHistory \<equiv> validHistory escapable"

abbreviation wireSnapshot :: "GameStateSnapshot \<Rightarrow> bool" where "wireSnapshot \<equiv> validSnapshot escapable"

abbreviation wireMessage :: "Message \<Rightarrow> bool" where "wireMessage \<equiv> validMessage escapable"

section \<open>Writers render\<close>

lemma escapable_iff: "escapable s \<longleftrightarrow> list_all (\<lambda>c. escapeChar c \<noteq> None) s"
  by (induction s) (simp_all add: escapable_Cons)

lemma escapeChar_letters:
  "c \<in> set ''wb'' \<or> c \<in> set ''KQRBNP'' \<Longrightarrow> escapeChar c \<noteq> None"
proof -
  have "list_all (\<lambda>c. escapeChar c \<noteq> None) (''wb'' @ ''KQRBNP'')" by code_simp
  then show "c \<in> set ''wb'' \<or> c \<in> set ''KQRBNP'' \<Longrightarrow> escapeChar c \<noteq> None"
    unfolding list_all_iff set_append by blast
qed

lemma escapable_token [simp]:
  assumes "isValidToken t"
  shows "escapable t"
proof -
  have two: "length t = Suc (Suc 0)" and letters: "t ! 0 \<in> set ''wb''" "t ! 1 \<in> set ''KQRBNP''"
    using assms unfolding isValidToken_def by (simp_all del: list.set split: if_splits) auto
  have "t = [t ! 0, t ! 1]" using two by (intro nth_equalityI) (auto simp: less_Suc_eq)
  moreover have "escapable [t ! 0, t ! 1]"
    using escapeChar_letters letters by (simp add: escapable_Cons del: list.set)
  ultimately show ?thesis by simp
qed

lemma escapable_state [simp]: "isValidState t \<Longrightarrow> escapable t"
  by (auto simp: isValidState_def escapable_Cons escapeChar_def)

lemma escapable_color [simp]: "isValidColor t \<Longrightarrow> escapable t"
  by (auto simp: isValidColor_def escapable_Cons escapeChar_def)

lemma escapable_kind [simp]:
  assumes "isValidKind t"
  shows "escapable t"
proof -
  have one: "length t = Suc 0" and letter: "t ! 0 \<in> set ''KQRBNP''" using assms by (auto simp: isValidKind_def)
  have "t = [t ! 0]" using one by (intro nth_equalityI) auto
  moreover have "escapable [t ! 0]" using escapeChar_letters letter by (simp add: escapable_Cons del: list.set)
  ultimately show ?thesis by simp
qed

lemma escapable_type [simp]: "escapable (messageTypeToString t)"
  by (cases t) (simp_all add: messageTypeToString_def escapable_iff escapeChar_def)

lemma writePiece_render: "wirePiece p \<Longrightarrow> writePiece p = Some (render (JObj (pieceFields p)))"
  by (simp add: writePiece_def wirePiece_def quoted_eq pieceFields_def writePosition_render)

lemma writeMotion_render: "writeMotion m = Some (render (JObj (motionFields m)))"
  by (simp add: writeMotion_def motionFields_def writePosition_render)

lemma writeJump_render: "writeJump j = Some (render (JObj (jumpFields j)))"
  by (simp add: writeJump_def jumpFields_def writePosition_render)

lemma writeHistory_render: "wireHistory h \<Longrightarrow> writeHistory h = Some (render (JObj (historyFields h)))"
  by (simp add: writeHistory_def validHistory_def quoted_eq historyFields_def writePosition_render)

lemma mapAll_Some: "(\<And>x. x \<in> set xs \<Longrightarrow> f x = Some (g x)) \<Longrightarrow> mapAll f xs = Some (map g xs)"
  by (induction xs) simp_all

lemma mapAll_map: "(\<And>x. x \<in> set xs \<Longrightarrow> f (g x) = Some x) \<Longrightarrow> mapAll f (map g xs) = Some xs"
  by (induction xs) simp_all

lemma writeArray_render:
  assumes "\<And>x. x \<in> set xs \<Longrightarrow> w x = Some (render (JObj (fs x)))"
  shows "writeArray w xs = Some (render (objects fs xs))"
  using mapAll_Some [of xs w "\<lambda>x. render (JObj (fs x))"] assms
  by (simp add: writeArray_def objects_def comp_def)

lemma writeSnapshot_render:
  assumes "wireSnapshot s"
  shows "writeSnapshot s = Some (render (JObj (snapshotFields s)))"
proof -
  have arrays: "writeArray writePiece (snapPieces s) = Some (render (objects pieceFields (snapPieces s)))"
    "writeArray writeMotion (snapMotions s) = Some (render (objects motionFields (snapMotions s)))"
    "writeArray writeJump (snapJumps s) = Some (render (objects jumpFields (snapJumps s)))"
    "writeArray writeHistory (snapWhiteMoveHistory s) = Some (render (objects historyFields (snapWhiteMoveHistory s)))"
    "writeArray writeHistory (snapBlackMoveHistory s) = Some (render (objects historyFields (snapBlackMoveHistory s)))"
    using assms by (auto simp: validSnapshot_def list_all_iff simp del: render_JObj intro!: writeArray_render
      writePiece_render writeMotion_render writeJump_render writeHistory_render)
  have "escapable (snapWhiteUsername s)" "escapable (snapBlackUsername s)"
    using assms by (simp_all add: validSnapshot_def)
  then show ?thesis
    by (simp add: writeSnapshot_def quoted_eq arrays snapshotFields_def)
qed

lemma serialize_render:
  assumes "wireMessage m"
  shows "serialize m = Some (render (JObj (messageFields m)))"
proof -
  have strings: "escapable (reason m)" "escapable (playerColor m)" "escapable (reconnectToken m)"
    "escapable (username m)" "escapable (whiteUsername m)" "escapable (blackUsername m)"
    using assms by (simp_all add: validMessage_def)
  have kind: "escaped (messageTypeToString (msgType m)) = messageTypeToString (msgType m)"
    by (cases "msgType m") (simp_all add: messageTypeToString_def escaped_def escapeChar_def backslash_def quote_def)
  show ?thesis
  proof (cases "hasSnapshot m")
    case True
    then have "writeSnapshot (snapshot m) = Some (render (JObj (snapshotFields (snapshot m))))"
      using assms by (intro writeSnapshot_render) (simp add: validMessage_def)
    then show ?thesis
      using strings kind True by (simp add: serialize_def quoted_eq messageFields_def writePosition_render)
  next
    case False
    then show ?thesis
      using strings kind by (simp add: serialize_def quoted_eq messageFields_def writePosition_render)
  qed
qed

section \<open>Readers read back\<close>

lemma ok_objects [simp]: "okJson (objects fs xs) \<longleftrightarrow> (\<forall>x \<in> set xs. okJson (JObj (fs x)))"
  by (auto simp: objects_def simp del: okJson_JObj)

lemma ok_piece: "wirePiece p \<Longrightarrow> okJson (JObj (pieceFields p))"
  by (simp add: pieceFields_def wirePiece_def plain_key_chars)

lemma ok_motion: "okJson (JObj (motionFields m))"
  by (simp add: motionFields_def plain_key_chars)

lemma ok_jump: "okJson (JObj (jumpFields j))"
  by (simp add: jumpFields_def plain_key_chars)

lemma ok_history: "wireHistory h \<Longrightarrow> okJson (JObj (historyFields h))"
  by (simp add: historyFields_def validHistory_def plain_key_chars)

lemma ok_snapshot:
  assumes "wireSnapshot s"
  shows "okJson (JObj (snapshotFields s))"
proof -
  have "okJson (objects pieceFields (snapPieces s))" "okJson (objects motionFields (snapMotions s))"
    "okJson (objects jumpFields (snapJumps s))" "okJson (objects historyFields (snapWhiteMoveHistory s))"
    "okJson (objects historyFields (snapBlackMoveHistory s))"
    using assms by (auto simp: validSnapshot_def list_all_iff ok_piece ok_motion ok_jump ok_history simp del: okJson_JObj)
  moreover have "escapable (snapWhiteUsername s)" "escapable (snapBlackUsername s)"
    using assms by (simp_all add: validSnapshot_def)
  ultimately show ?thesis
    unfolding snapshotFields_def okJson_JObj by (simp add: plain_key_chars del: ok_objects)
qed

lemma ok_message:
  assumes "wireMessage m"
  shows "okJson (JObj (messageFields m))"
proof (cases "hasSnapshot m")
  case True
  then have "okJson (JObj (snapshotFields (snapshot m)))"
    using assms by (intro ok_snapshot) (simp add: validMessage_def)
  then show ?thesis
    using assms True unfolding messageFields_def okJson_JObj [of "_ @ _"]
    by (simp add: validMessage_def plain_key_chars del: okJson_JObj)
next
  case False
  then show ?thesis
    using assms unfolding messageFields_def by (simp add: validMessage_def plain_key_chars)
qed

text \<open>The readers on a field of a known object.\<close>

lemmas field_reads =
  read_int [folded jsonInt_def] read_signed [folded jsonInt_def] read_unsigned [folded jsonInt_def]
  read_bool [folded jsonBool_def] read_string read_position

lemma inLongLong_nonneg: "0 \<le> i \<Longrightarrow> i \<le> LLONG_MAX \<Longrightarrow> inLongLong i"
  by (simp add: inLongLong_def LLONG_MIN_def)

lemma check_simps [simp]: "check True = Some ()" "0 \<le> i \<Longrightarrow> requireNonNegative i = Some ()"
  by (simp_all add: check_def requireNonNegative_def)

lemma wirePosition_board [simp]: "isBoardPosition p \<Longrightarrow> wirePosition u p"
  by (simp add: wirePosition_def)

lemma readPiece_render:
  assumes "wirePiece p"
  shows "readPiece (render (JObj (pieceFields p))) = Some p"
proof -
  note ok = ok_piece [OF assms]
  note wire = assms [unfolded wirePiece_def]
  let ?t = "render (JObj (pieceFields p))"
  have "readInt ?t ''id'' = Some (ps_id p)" "readString ?t ''token'' = Some (ps_token p)"
    "readPosition ?t ''position'' False = Some (ps_position p)" "readString ?t ''state'' = Some (ps_state p)"
    "readBool ?t ''hasMoved'' = Some (ps_hasMoved p)"
    "readSigned ?t ''remainingCooldownMs'' = Some (ps_remainingCooldownMs p)"
    "readSigned ?t ''totalCooldownMs'' = Some (ps_totalCooldownMs p)"
    by (rule field_reads [OF ok]; use wire in \<open>simp add: pieceFields_def inLongLong_nonneg\<close>)+
  then show ?thesis
    using wire by (simp add: readPiece_def del: render_JObj)
qed

lemma readMotion_render:
  assumes "wireMotion m"
  shows "readMotion (render (JObj (motionFields m))) = Some m"
proof -
  note ok = ok_motion [of m]
  note wire = assms [unfolded wireMotion_def]
  let ?t = "render (JObj (motionFields m))"
  have "readInt ?t ''pieceId'' = Some (ms_pieceId m)"
    "readPosition ?t ''source'' False = Some (ms_source m)"
    "readPosition ?t ''destination'' False = Some (ms_destination m)"
    "readPosition ?t ''currentCell'' False = Some (ms_currentCell m)"
    "readInt ?t ''rowStep'' = Some (ms_rowStep m)" "readInt ?t ''colStep'' = Some (ms_colStep m)"
    "readBool ?t ''directMove'' = Some (ms_directMove m)"
    "readSigned ?t ''stepDurationMs'' = Some (ms_stepDurationMs m)"
    "readSigned ?t ''nextStepTimeMs'' = Some (ms_nextStepTimeMs m)" "readInt ?t ''order'' = Some (ms_order m)"
    by (rule field_reads [OF ok]; use wire in \<open>simp add: motionFields_def inLongLong_nonneg inInt_def INT_MIN_def INT_MAX_def\<close>)+
  then show ?thesis
    using wire by (simp add: readMotion_def not_less del: render_JObj)
qed

lemma readJump_render:
  assumes "wireJump j"
  shows "readJump (render (JObj (jumpFields j))) = Some j"
proof -
  note ok = ok_jump [of j]
  note wire = assms [unfolded wireJump_def]
  let ?t = "render (JObj (jumpFields j))"
  have "readInt ?t ''pieceId'' = Some (js_pieceId j)" "readPosition ?t ''cell'' False = Some (js_cell j)"
    "readSigned ?t ''finishTimeMs'' = Some (js_finishTimeMs j)"
    by (rule field_reads [OF ok]; use wire in \<open>simp add: jumpFields_def inLongLong_nonneg\<close>)+
  then show ?thesis
    using wire by (simp add: readJump_def del: render_JObj)
qed

lemma readHistory_render:
  assumes "wireHistory h"
  shows "readHistory (render (JObj (historyFields h))) = Some h"
proof -
  note ok = ok_history [OF assms]
  note wire = assms [unfolded validHistory_def]
  let ?t = "render (JObj (historyFields h))"
  have "readSigned ?t ''completedAtMs'' = Some (hs_completedAtMs h)"
    "readString ?t ''color'' = Some (hs_color h)" "readString ?t ''pieceKind'' = Some (hs_pieceKind h)"
    "readPosition ?t ''source'' False = Some (hs_source h)"
    "readPosition ?t ''destination'' False = Some (hs_destination h)"
    "readBool ?t ''wasCapture'' = Some (hs_wasCapture h)" "readBool ?t ''wasPromotion'' = Some (hs_wasPromotion h)"
    "readBool ?t ''wasJump'' = Some (hs_wasJump h)" "readString ?t ''notation'' = Some (hs_notation h)"
    by (rule field_reads [OF ok]; use wire in \<open>simp add: historyFields_def inLongLong_nonneg\<close>)+
  then show ?thesis
    using wire by (simp add: readHistory_def del: render_JObj)
qed

lemma field_objects:
  assumes "okJson (JObj gs)" "map_of gs k = Some (objects fs xs)"
    and "\<And>x. x \<in> set xs \<Longrightarrow> r (render (JObj (fs x))) = Some x"
  shows "\<exists>ts. readObjectArray (render (JObj gs)) k = Some ts \<and> mapAll r ts = Some xs"
proof -
  have "readObjectArray (render (JObj gs)) k = Some (map render (map (\<lambda>x. JObj (fs x)) xs))"
    using assms(1,2) unfolding objects_def by (rule read_array) auto
  moreover have "mapAll r (map (\<lambda>x. render (JObj (fs x))) xs) = Some xs"
    using assms(3) by (intro mapAll_map) simp
  ultimately show ?thesis by (auto simp: comp_def simp del: render_JObj)
qed

lemma readSnapshot_render:
  assumes "wireSnapshot s"
  shows "readSnapshot (render (JObj (snapshotFields s))) = Some s"
proof -
  note ok = ok_snapshot [OF assms]
  note wire = assms [unfolded validSnapshot_def list_all_iff]
  let ?t = "render (JObj (snapshotFields s))"
  have scalars: "readSigned ?t ''serverTimeMs'' = Some (serverTimeMs s)"
    "readBool ?t ''gameOver'' = Some (snapGameOver s)"
    "readInt ?t ''whiteScore'' = Some (snapWhiteScore s)" "readInt ?t ''blackScore'' = Some (snapBlackScore s)"
    "readString ?t ''whiteUsername'' = Some (snapWhiteUsername s)"
    "readString ?t ''blackUsername'' = Some (snapBlackUsername s)"
    "readBool ?t ''playersReady'' = Some (playersReady s)"
    "readSigned ?t ''gameplayStartsAtEpochMs'' = Some (gameplayStartsAtEpochMs s)"
    by (rule field_reads [OF ok]; use wire in \<open>simp add: snapshotFields_def inLongLong_nonneg\<close>)+
  have arrays:
    "\<exists>ts. readObjectArray ?t ''pieces'' = Some ts \<and> mapAll readPiece ts = Some (snapPieces s)"
    "\<exists>ts. readObjectArray ?t ''motions'' = Some ts \<and> mapAll readMotion ts = Some (snapMotions s)"
    "\<exists>ts. readObjectArray ?t ''jumps'' = Some ts \<and> mapAll readJump ts = Some (snapJumps s)"
    "\<exists>ts. readObjectArray ?t ''whiteMoveHistory'' = Some ts \<and> mapAll readHistory ts = Some (snapWhiteMoveHistory s)"
    "\<exists>ts. readObjectArray ?t ''blackMoveHistory'' = Some ts \<and> mapAll readHistory ts = Some (snapBlackMoveHistory s)"
    by (rule field_objects [OF ok], simp add: snapshotFields_def,
      use wire readPiece_render readMotion_render readJump_render readHistory_render in blast)+
  show ?thesis
    using wire scalars arrays by (auto simp: readSnapshot_def not_less simp del: render_JObj)
qed

lemma readMessage_render:
  assumes "wireMessage m"
  shows "deserialize (render (JObj (messageFields m))) = Some m"
proof -
  note ok = ok_message [OF assms]
  note wire = assms [unfolded validMessage_def]
  let ?t = "render (JObj (messageFields m))"
  have scalars: "readSigned ?t ''version'' = Some VERSION"
    "readString ?t ''type'' = Some (messageTypeToString (msgType m))"
    "readUnsigned ?t ''sequence'' = Some (sequence m)" "readPosition ?t ''source'' True = Some (msgSource m)"
    "readPosition ?t ''destination'' True = Some (msgDestination m)" "readBool ?t ''accepted'' = Some (accepted m)"
    "readString ?t ''reason'' = Some (reason m)" "readString ?t ''playerColor'' = Some (playerColor m)"
    "readString ?t ''reconnectToken'' = Some (reconnectToken m)" "readString ?t ''username'' = Some (username m)"
    "readString ?t ''whiteUsername'' = Some (whiteUsername m)"
    "readString ?t ''blackUsername'' = Some (blackUsername m)"
    "readInt ?t ''secondsRemaining'' = Some (secondsRemaining m)"
    "readSigned ?t ''createdAtMs'' = Some (createdAtMs m)" "readBool ?t ''hasSnapshot'' = Some (hasSnapshot m)"
    by (rule field_reads [OF ok]; use wire in \<open>simp add: messageFields_def inLongLong_nonneg
      VERSION_def inLongLong_def LLONG_MIN_def LLONG_MAX_def\<close>)+
  have shape: "?t \<noteq> []" "hd ?t = CHR ''{''" "last ?t = CHR ''}''" by simp_all
  have snapshot: "(if hasSnapshot m then do { object \<leftarrow> readObject ?t ''snapshot''; readSnapshot object }
      else Some newSnapshot) = Some (snapshot m)"
  proof (cases "hasSnapshot m")
    case True
    then have field: "map_of (messageFields m) ''snapshot'' = Some (JObj (snapshotFields (snapshot m)))"
      by (simp add: messageFields_def)
    show ?thesis
      using read_object [OF ok field] readSnapshot_render [of "snapshot m"] wire True
      by (simp del: render_JObj)
  next
    case False
    then show ?thesis using wire by simp
  qed
  show ?thesis
    using wire scalars shape snapshot messageType_roundtrip [of "msgType m"]
    by (simp add: deserialize_def not_less del: render_JObj)
qed

section \<open>The round trip\<close>

interpretation wire: codec "\<lambda>m. the (serialize m)" deserialize wireMessage
  by unfold_locales (simp add: serialize_render readMessage_render del: render_JObj)

end
