(* ===== verification/Protocol_Properties.thy ===== *)
theory Protocol_Properties
  imports Protocol_Roundtrip
begin

text \<open>
  Properties of the wire format: messages survive the round trip, and whatever text arrives, a
  message that is accepted keeps the bounds the rest of the program relies on.
\<close>

section \<open>What is accepted\<close>

lemma stollDigits_inLongLong: "stollDigits neg s = Some (i, r) \<Longrightarrow> inLongLong i"
  by (auto simp: stollDigits_def Let_def split: if_splits)

lemma stoll_inLongLong: "stoll s = Some (i, r) \<Longrightarrow> inLongLong i"
  by (auto simp: stoll_def split: list.splits if_splits dest: stollDigits_inLongLong)

lemma readSigned_bounds: "readSigned t k = Some i \<Longrightarrow> inLongLong i"
  by (auto simp: readSigned_def Let_def bind_eq_Some_conv split: if_splits dest: stoll_inLongLong)

lemma readSigned_max: "readSigned t k = Some i \<Longrightarrow> i \<le> LLONG_MAX"
  by (drule readSigned_bounds) (simp add: inLongLong_def)

lemma readInt_bounds: "readInt t k = Some i \<Longrightarrow> inInt i"
  by (auto simp: readInt_def inInt_def bind_eq_Some_conv split: if_splits)

lemma readUnsigned_bounds:
  assumes "readUnsigned t k = Some w"
  shows "uint w \<le> LLONG_MAX"
proof -
  obtain v where v: "readSigned t k = Some v" "\<not> v < 0" "w = word_of_int v"
    using assms by (auto simp: readUnsigned_def bind_eq_Some_conv split: if_splits)
  then have "v \<le> LLONG_MAX" using readSigned_max by blast
  moreover from this v have "uint w = v"
    by (simp add: uint_word_of_int LLONG_MAX_def)
  ultimately show ?thesis by simp
qed

lemma readPosition_bounds: "readPosition t k u = Some p \<Longrightarrow> wirePosition u p"
  by (auto simp: readPosition_def wirePosition_def noPosition_def Let_def bind_eq_Some_conv split: if_splits)

lemma readPosition_board: "readPosition t k False = Some p \<Longrightarrow> isBoardPosition p"
  by (drule readPosition_bounds) (simp add: wirePosition_def)

lemma check_Some [simp]: "check b = Some x \<longleftrightarrow> b" "requireNonNegative i = Some x \<longleftrightarrow> 0 \<le> i"
  by (auto simp: check_def requireNonNegative_def)

lemmas read_bounds = readInt_bounds readSigned_max readPosition_board

lemma readPiece_bounds: "readPiece t = Some p \<Longrightarrow> wirePiece p"
  by (auto simp: readPiece_def wirePiece_def bind_eq_Some_conv dest: read_bounds)

lemma readMotion_bounds: "readMotion t = Some m \<Longrightarrow> wireMotion m"
  by (auto simp: readMotion_def wireMotion_def bind_eq_Some_conv dest: read_bounds)

lemma readJump_bounds: "readJump t = Some j \<Longrightarrow> wireJump j"
  by (auto simp: readJump_def wireJump_def bind_eq_Some_conv dest: read_bounds)

lemma readHistory_bounds: "readHistory t = Some h \<Longrightarrow> validHistory (\<lambda>_. True) h"
  by (auto simp: readHistory_def validHistory_def bind_eq_Some_conv dest: read_bounds)

lemma mapAll_all: "mapAll r ts = Some xs \<Longrightarrow> (\<And>t x. r t = Some x \<Longrightarrow> P x) \<Longrightarrow> list_all P xs"
  by (induction ts arbitrary: xs) (auto simp: bind_eq_Some_conv)

lemma readSnapshot_bounds: "readSnapshot t = Some s \<Longrightarrow> validSnapshot (\<lambda>_. True) s"
  by (auto simp: readSnapshot_def validSnapshot_def bind_eq_Some_conv dest: read_bounds
    elim!: mapAll_all intro: readPiece_bounds readMotion_bounds readJump_bounds readHistory_bounds)

section \<open>What is written\<close>

lemma quoted_escapable: "quoted s = Some t \<Longrightarrow> escapable s"
  by (auto simp: quoted_def escapable_def bind_eq_Some_conv)

lemma writeHistory_escapable: "writeHistory h = Some t \<Longrightarrow> escapable (hs_notation h)"
  by (auto simp: writeHistory_def bind_eq_Some_conv dest: quoted_escapable)

lemma mapAll_each: "mapAll f xs = Some ys \<Longrightarrow> x \<in> set xs \<Longrightarrow> \<exists>y. f x = Some y"
  by (induction xs arbitrary: ys) (auto simp: bind_eq_Some_conv)

lemma writeArray_escapable:
  "writeArray writeHistory hs = Some t \<Longrightarrow> h \<in> set hs \<Longrightarrow> escapable (hs_notation h)"
  by (auto simp: writeArray_def bind_eq_Some_conv dest!: mapAll_each dest: writeHistory_escapable)

lemma written_history:
  assumes "list_all (validHistory (\<lambda>_. True)) hs" "writeArray writeHistory hs = Some t"
  shows "list_all wireHistory hs"
  using assms(1) writeArray_escapable [OF assms(2)] by (auto simp: list_all_iff validHistory_def)

lemma written_snapshot:
  assumes "validSnapshot (\<lambda>_. True) s" "writeSnapshot s = Some t"
  shows "wireSnapshot s"
proof -
  have "escapable (snapWhiteUsername s)" "escapable (snapBlackUsername s)"
    "\<exists>t. writeArray writeHistory (snapWhiteMoveHistory s) = Some t"
    "\<exists>t. writeArray writeHistory (snapBlackMoveHistory s) = Some t"
    using assms(2) by (auto simp: writeSnapshot_def bind_eq_Some_conv dest: quoted_escapable)
  then show ?thesis using assms(1) written_history by (auto simp: validSnapshot_def)
qed

lemma written_message:
  assumes "validMessage (\<lambda>_. True) m" "serialize m = Some t"
  shows "wireMessage m"
proof -
  have "escapable (reason m)" "escapable (playerColor m)" "escapable (reconnectToken m)"
    "escapable (username m)" "escapable (whiteUsername m)" "escapable (blackUsername m)"
    "hasSnapshot m \<longrightarrow> (\<exists>t. writeSnapshot (snapshot m) = Some t)"
    using assms(2) by (auto simp: serialize_def bind_eq_Some_conv dest: quoted_escapable split: if_splits)
  then show ?thesis using assms(1) written_snapshot by (auto simp: validMessage_def split: if_splits)
qed

lemma deserialize_bounds: "deserialize t = Some m \<Longrightarrow> validMessage (\<lambda>_. True) m"
  by (auto simp: deserialize_def validMessage_def bind_eq_Some_conv split: if_splits
    dest: read_bounds readUnsigned_bounds readPosition_bounds readSnapshot_bounds)

section \<open>Properties\<close>

text \<open>C9: A message survives the wire, that is, \<open>serialize\<close> writes it and \<open>deserialize\<close> reads back
  exactly that message, if and only if it is within the bounds of the protocol: a sequence
  number of at most 63 bits, source and destination on the 8x8 board or the unused position,
  times and seconds that are not negative, texts without a control character that has no
  escape, and either no snapshot or one with known tokens, states, colors and kinds, cells
  on the board, steps of at most one cell and no cooldown longer than its total.\<close>

theorem roundtrip_exactly:
  "(\<exists>t. serialize m = Some t \<and> deserialize t = Some m) \<longleftrightarrow> validMessage escapable m"
  using written_message deserialize_bounds serialize_render readMessage_render by meson

text \<open>Whatever text arrives, a message that \<open>deserialize\<close> accepts is within the bounds of the
  protocol, its free texts apart.\<close>

theorem deserialize_accepts_bounded:
  assumes "deserialize t = Some m"
  shows "validMessage (\<lambda>_. True) m"
  using assms by (rule deserialize_bounds)

definition demoSnapshot :: GameStateSnapshot where
  "demoSnapshot = newSnapshot\<lparr>serverTimeMs := 4000, snapWhiteUsername := ''dana'',
     snapPieces := [\<lparr>ps_id = 7, ps_token = ''wP'', ps_position = Position 4 0, ps_state = ''moving'',
       ps_hasMoved = True, ps_remainingCooldownMs = 250, ps_totalCooldownMs = 1000\<rparr>],
     snapMotions := [\<lparr>ms_pieceId = 7, ms_source = Position 6 0, ms_destination = Position 4 0,
       ms_currentCell = Position 5 0, ms_rowStep = -1, ms_colStep = 0, ms_directMove = False,
       ms_stepDurationMs = 1000, ms_nextStepTimeMs = 5000, ms_order = 3\<rparr>]\<rparr>"

definition demoMessage :: Message where
  "demoMessage = newMessage\<lparr>msgType := GameStateUpdated, sequence := 12, reason := [CHR 0x0A, CHR 0x22],
     createdAtMs := 4000, hasSnapshot := True, snapshot := demoSnapshot\<rparr>"

lemma deserialize_accepts_bounded_witness: "validMessage (\<lambda>_. True) demoMessage"
proof -
  have "wireMessage demoMessage" by code_simp
  then show ?thesis by (rule deserialize_accepts_bounded [OF readMessage_render])
qed

definition smuggledText :: string where
  "smuggledText = map (\<lambda>c. if c = CHR ''~'' then CHR 0x01 else c)
     (the (serialize (newMessage\<lparr>msgType := WaitingForOpponent, username := ''~''\<rparr>)))"

text \<open>A control character inside a string passes \<open>deserialize\<close> unescaped, although
  \<open>serialize\<close> refuses to write it: the message read from such a text cannot be sent on.\<close>

theorem control_characters_pass_the_reader:
  "deserialize smuggledText = Some (newMessage\<lparr>msgType := WaitingForOpponent, username := [CHR 0x01]\<rparr>) \<and>
   serialize (newMessage\<lparr>msgType := WaitingForOpponent, username := [CHR 0x01]\<rparr>) = None"
  by (intro conjI; code_simp)

end
