(* ===== verification/Tcp_Connection.thy ===== *)
theory Tcp_Connection
  imports Protocol_Roundtrip
begin

text \<open>
  Messages over a socket, \<open>src/shared/cpp/src/Network/TcpConnection.cpp\<close>: one line of text per
  message. The calls of the operating system are a parameter \<open>os\<close> on a state \<open>'w\<close> of the network;
  an object of the class is its handle, \<open>None\<close> for \<open>INVALID_SOCKET\<close>. A result of \<open>send\<close> and
  \<open>recv\<close> is the \<open>int\<close> of the call.
\<close>

section \<open>The calls of the operating system\<close>

record 'w sockets =
  os_socket :: "'w \<Rightarrow> nat option \<times> 'w"
  os_inet_pton :: "string \<Rightarrow> int \<times> int"
  os_connect :: "nat \<Rightarrow> int \<Rightarrow> int \<Rightarrow> 'w \<Rightarrow> int \<times> 'w"
  os_send :: "nat \<Rightarrow> string \<Rightarrow> 'w \<Rightarrow> int \<times> 'w"
  os_recv :: "nat \<Rightarrow> 'w \<Rightarrow> int \<times> char \<times> 'w"
  os_select :: "nat \<Rightarrow> int \<Rightarrow> int \<Rightarrow> 'w \<Rightarrow> int \<times> bool \<times> 'w"
  os_close :: "nat \<Rightarrow> 'w \<Rightarrow> 'w"

type_synonym connection = "nat option"

datatype tcpError =
  CreationFailed | InvalidServerIp | ConnectionFailed | NotOpen | TooLarge | SendFailure | ReceiveFailure |
  NegativeTimeout | SelectFailed

definition SOCKET_ERROR :: int where "SOCKET_ERROR = -1"

definition MESSAGE_LIMIT :: nat where "MESSAGE_LIMIT = 1024 * 1024"

definition newline :: char where "newline = CHR 0x0A"

section \<open>Operations\<close>

definition isOpen :: "connection \<Rightarrow> bool" where
  "isOpen c \<longleftrightarrow> c \<noteq> None"

definition close :: "'w sockets \<Rightarrow> connection \<Rightarrow> 'w \<Rightarrow> connection \<times> 'w" where
  "close os c w = (case c of None \<Rightarrow> (None, w) | Some h \<Rightarrow> (None, os_close os h w))"

text \<open>Move assignment \<open>this = std::move(other)\<close> of two objects; both are returned.\<close>

definition moveAssign :: "'w sockets \<Rightarrow> connection \<Rightarrow> connection \<Rightarrow> 'w \<Rightarrow> connection \<times> connection \<times> 'w" where
  "moveAssign os this other w = (let (_, w1) = close os this w in (other, None, w1))"

definition connectTo ::
    "'w sockets \<Rightarrow> string \<Rightarrow> int \<Rightarrow> connection \<Rightarrow> 'w \<Rightarrow> (tcpError + unit) \<times> connection \<times> 'w" where
  "connectTo os ip port c w =
     (let (_, w1) = close os c w; (s, w2) = os_socket os w1
      in case s of
           None \<Rightarrow> (Inl CreationFailed, None, w2)
         | Some h \<Rightarrow>
             (let (ok, address) = os_inet_pton os ip in
              if ok \<noteq> 1 then (let (c1, w3) = close os s w2 in (Inl InvalidServerIp, c1, w3))
              else let (result, w3) = os_connect os h address port w2 in
                if result = SOCKET_ERROR then (let (c1, w4) = close os s w3 in (Inl ConnectionFailed, c1, w4))
                else (Inr (), s, w3)))"

text \<open>
  The loop of \<open>sendAll\<close>; \<open>sentBytes\<close> is a \<open>size_t\<close>, to which the \<open>int\<close> result is added modulo
  \<open>2 ^ 64\<close>. The loop ends only if the calls make progress, so it is a partial function.
\<close>

partial_function (option) sendLoop ::
    "'w sockets \<Rightarrow> nat \<Rightarrow> string \<Rightarrow> nat \<Rightarrow> 'w \<Rightarrow> ((tcpError + unit) \<times> 'w) option" where
  "sendLoop os h data sentBytes w =
     (if sentBytes < length data
      then if fst (os_send os h (drop sentBytes data) w) \<in> {SOCKET_ERROR, 0}
           then Some (Inl SendFailure, snd (os_send os h (drop sentBytes data) w))
           else sendLoop os h data
                  (nat ((int sentBytes + fst (os_send os h (drop sentBytes data) w)) mod 2 ^ 64))
                  (snd (os_send os h (drop sentBytes data) w))
      else Some (Inr (), w))"

declare sendLoop.simps [code]

definition sendAll :: "'w sockets \<Rightarrow> nat \<Rightarrow> string \<Rightarrow> 'w \<Rightarrow> ((tcpError + unit) \<times> 'w) option" where
  "sendAll os h data w = sendLoop os h data 0 w"

definition sendMessage :: "'w sockets \<Rightarrow> connection \<Rightarrow> string \<Rightarrow> 'w \<Rightarrow> ((tcpError + unit) \<times> 'w) option" where
  "sendMessage os c json w =
     (case c of
        None \<Rightarrow> Some (Inl NotOpen, w)
      | Some h \<Rightarrow>
          (if length json > MESSAGE_LIMIT then Some (Inl TooLarge, w)
           else sendAll os h (json @ [newline]) w))"

function receiveLoop :: "'w sockets \<Rightarrow> nat \<Rightarrow> string \<Rightarrow> 'w \<Rightarrow> (tcpError + string) \<times> 'w" where
  "receiveLoop os h message w =
     (case os_recv os h w of (result, currentCharacter, w1) \<Rightarrow>
        if result = 0 then (Inr [], w1)
        else if result = SOCKET_ERROR then (Inl ReceiveFailure, w1)
        else if currentCharacter = newline then (Inr message, w1)
        else if length (message @ [currentCharacter]) > MESSAGE_LIMIT then (Inl TooLarge, w1)
        else receiveLoop os h (message @ [currentCharacter]) w1)"
  by pat_completeness auto

termination
  by (relation "measure (\<lambda>(os, h, message, w). MESSAGE_LIMIT - length message)") auto

declare receiveLoop.simps [simp del]

definition receiveMessage :: "'w sockets \<Rightarrow> connection \<Rightarrow> 'w \<Rightarrow> (tcpError + string) \<times> 'w" where
  "receiveMessage os c w = (case c of None \<Rightarrow> (Inl NotOpen, w) | Some h \<Rightarrow> receiveLoop os h [] w)"

text \<open>The timeout is given to \<open>select\<close> in seconds and microseconds.\<close>

definition waitForIncomingData ::
    "'w sockets \<Rightarrow> int \<Rightarrow> connection \<Rightarrow> 'w \<Rightarrow> (tcpError + bool) \<times> 'w" where
  "waitForIncomingData os timeoutMs c w =
     (case c of
        None \<Rightarrow> (Inl NotOpen, w)
      | Some h \<Rightarrow>
          (if timeoutMs < 0 then (Inl NegativeTimeout, w)
           else let (result, isSet, w1) =
                  os_select os h (timeoutMs div 1000) ((timeoutMs mod 1000) * 1000) w
                in if result = SOCKET_ERROR then (Inl SelectFailed, w1)
                   else (Inr (result > 0 \<and> isSet), w1)))"

section \<open>A reliable stream\<close>

text \<open>
  What the operating system documents of a connected stream socket, between a handle \<open>h\<close> that
  writes and a handle \<open>k\<close> that reads: \<open>send\<close> takes a non-empty prefix of the data, and \<open>recv\<close>
  returns the oldest byte that was not read. \<open>pipe\<close> are the bytes between the two.
\<close>

definition reliable :: "'w sockets \<Rightarrow> nat \<Rightarrow> nat \<Rightarrow> ('w \<Rightarrow> string) \<Rightarrow> bool" where
  "reliable os h k pipe \<longleftrightarrow>
     (\<forall>w d. d \<noteq> [] \<longrightarrow> 0 < fst (os_send os h d w) \<and> fst (os_send os h d w) \<le> int (length d) \<and>
        pipe (snd (os_send os h d w)) = pipe w @ take (nat (fst (os_send os h d w))) d) \<and>
     (\<forall>w b bs. pipe w = b # bs \<longrightarrow> (\<exists>w1. os_recv os k w = (1, b, w1) \<and> pipe w1 = bs))"

lemma reliable_send:
  assumes "reliable os h k pipe" "d \<noteq> []"
  shows "0 < fst (os_send os h d w)" "fst (os_send os h d w) \<le> int (length d)"
    "pipe (snd (os_send os h d w)) = pipe w @ take (nat (fst (os_send os h d w))) d"
  using assms unfolding reliable_def by blast+

lemma reliable_recv:
  assumes "reliable os h k pipe" "pipe w = b # bs"
  obtains w1 where "os_recv os k w = (1, b, w1)" "pipe w1 = bs"
  using assms unfolding reliable_def by blast

lemma sendLoop_reliable:
  assumes "reliable os h k pipe" "length data < 2 ^ 64" "n \<le> length data"
  shows "\<exists>w1. sendLoop os h data n w = Some (Inr (), w1) \<and> pipe w1 = pipe w @ drop n data"
  using assms(3)
proof (induction "length data - n" arbitrary: n w rule: less_induct)
  case less
  show ?case
  proof (cases "n < length data")
    case False
    then show ?thesis using less.prems by (subst sendLoop.simps) simp
  next
    case True
    let ?r = "os_send os h (drop n data) w"
    have d: "drop n data \<noteq> []" using True by simp
    note r = reliable_send [OF assms(1) d, of w]
    obtain i where i: "fst ?r = int i" using r(1) by (metis less_le nonneg_int_cases)
    have "0 < i" "i \<le> length data - n" using r(1,2) True i by simp_all
    then have step: "n + i \<le> length data" "length data - (n + i) < length data - n" using True by simp_all
    have "int (n + i) mod 2 ^ 64 = int (n + i)" using step(1) assms(2) by simp
    then have "nat ((int n + int i) mod 2 ^ 64) = n + i" "nat (int n + int i) = n + i"
      by (metis nat_int of_nat_add)+
    then have "sendLoop os h data n w = sendLoop os h data (n + i) (snd ?r)"
      using True i \<open>0 < i\<close> by (subst sendLoop.simps) (simp add: SOCKET_ERROR_def)
    moreover have "pipe (snd ?r) @ drop (n + i) data = pipe w @ drop n data"
      using r(3) i by (simp add: take_drop) (metis append_take_drop_id drop_drop add.commute take_drop)
    ultimately show ?thesis using less.hyps [OF step(2,1), of "snd ?r"] by simp
  qed
qed

lemma sendMessage_reliable:
  assumes "reliable os h k pipe" "length t \<le> MESSAGE_LIMIT"
  shows "\<exists>w1. sendMessage os (Some h) t w = Some (Inr (), w1) \<and> pipe w1 = pipe w @ t @ [newline]"
  using sendLoop_reliable [OF assms(1), of "t @ [newline]" 0 w] assms(2)
  by (simp add: sendMessage_def sendAll_def MESSAGE_LIMIT_def)

lemma receiveLoop_reliable:
  assumes "reliable os h k pipe"
  shows "newline \<notin> set t \<Longrightarrow> length (m @ t) \<le> MESSAGE_LIMIT \<Longrightarrow> pipe w = t @ newline # rest \<Longrightarrow>
    \<exists>w1. receiveLoop os k m w = (Inr (m @ t), w1) \<and> pipe w1 = rest"
proof (induction t arbitrary: m w)
  case Nil
  then obtain w1 where "os_recv os k w = (1, newline, w1)" "pipe w1 = rest"
    by (auto elim: reliable_recv [OF assms])
  then show ?case by (subst receiveLoop.simps) (simp add: SOCKET_ERROR_def)
next
  case (Cons b t)
  from Cons.prems(3) obtain w1 where w1: "os_recv os k w = (1, b, w1)" "pipe w1 = t @ newline # rest"
    by (auto elim: reliable_recv [OF assms])
  have "\<exists>w2. receiveLoop os k (m @ [b]) w1 = (Inr ((m @ [b]) @ t), w2) \<and> pipe w2 = rest"
    using Cons.IH [of "m @ [b]" w1] Cons.prems w1(2) by simp
  then show ?case
    using w1(1) Cons.prems(1,2) by (subst receiveLoop.simps) (auto simp: SOCKET_ERROR_def)
qed

lemma receiveMessage_reliable:
  assumes "reliable os h k pipe" "newline \<notin> set t" "length t \<le> MESSAGE_LIMIT" "pipe w = t @ newline # rest"
  shows "\<exists>w1. receiveMessage os (Some k) w = (Inr t, w1) \<and> pipe w1 = rest"
  using receiveLoop_reliable [OF assms(1,2), of "[]" w rest] assms(3,4) by (simp add: receiveMessage_def)

section \<open>A serialized message is one line\<close>

definition oneLine :: "string \<Rightarrow> bool" where
  "oneLine t \<longleftrightarrow> newline \<notin> set t"

lemma oneLine_simps [simp]:
  "oneLine []" "oneLine (c # t) \<longleftrightarrow> c \<noteq> newline \<and> oneLine t" "oneLine (t @ u) \<longleftrightarrow> oneLine t \<and> oneLine u"
  by (auto simp: oneLine_def)

lemma newline_char [simp]: "newline = CHR 0x0A"
  by (rule newline_def)

lemma oneLine_escapeChar: "escapeChar c = Some t \<Longrightarrow> oneLine t"
  by (auto simp: escapeChar_def backslash_def quote_def split: if_splits)

lemma oneLine_escapeJson: "escapeJson s = Some t \<Longrightarrow> oneLine t"
  by (induction s arbitrary: t) (auto simp: bind_eq_Some_conv dest: oneLine_escapeChar)

lemma oneLine_quoted: "quoted s = Some t \<Longrightarrow> oneLine t"
  by (auto simp: quoted_def bind_eq_Some_conv quote_def dest: oneLine_escapeJson)

lemma oneLine_key [simp]: "oneLine (key k) \<longleftrightarrow> oneLine k"
  by (simp add: key_def quote_def)

lemma oneLine_natDigits: "oneLine (natDigits n)"
proof (induction n rule: natDigits.induct)
  case (1 n)
  have "digitChar (m mod 10) \<noteq> CHR 0x0A" for m
  proof -
    have "list_all (\<lambda>d. digitChar d \<noteq> CHR 0x0A) [0..<10]" by code_simp
    then show ?thesis by (simp add: list_all_iff)
  qed
  from this [of n] show ?case using 1 by (subst natDigits.simps) auto
qed

lemma oneLine_numbers [simp]: "oneLine (to_string i)" "oneLine (boolText b)" "oneLine (writePosition p)"
  by (simp_all add: to_string_def oneLine_natDigits boolText_def writePosition_def)

lemma oneLine_joinItems: "\<forall>t \<in> set ts. oneLine t \<Longrightarrow> oneLine (joinItems ts)"
  by (induction ts rule: joinItems.induct) auto

lemma mapAll_onto: "mapAll f xs = Some ys \<Longrightarrow> (\<And>x y. f x = Some y \<Longrightarrow> P y) \<Longrightarrow> \<forall>y \<in> set ys. P y"
  by (induction xs arbitrary: ys) (auto simp: bind_eq_Some_conv)

lemma oneLine_writeArray:
  assumes "writeArray f xs = Some t" "\<And>x y. f x = Some y \<Longrightarrow> oneLine y"
  shows "oneLine t"
  using assms(1) mapAll_onto [of f xs _ oneLine] assms(2)
  by (auto simp: writeArray_def bind_eq_Some_conv intro!: oneLine_joinItems)

lemma oneLine_writers:
  "writePiece p = Some t \<Longrightarrow> oneLine t" "writeMotion m = Some t \<Longrightarrow> oneLine t"
  "writeJump j = Some t \<Longrightarrow> oneLine t" "writeHistory h = Some t \<Longrightarrow> oneLine t"
  by (auto simp: writePiece_def writeMotion_def writeJump_def writeHistory_def bind_eq_Some_conv dest!: oneLine_quoted)

lemma oneLine_writeSnapshot: "writeSnapshot s = Some t \<Longrightarrow> oneLine t"
  by (auto simp: writeSnapshot_def bind_eq_Some_conv dest!: oneLine_quoted oneLine_writeArray intro: oneLine_writers)

lemma oneLine_type: "oneLine (messageTypeToString k)"
  by (cases k) (simp_all add: messageTypeToString_def)

lemma oneLine_serialize: "serialize m = Some t \<Longrightarrow> oneLine t"
  by (auto simp: serialize_def bind_eq_Some_conv quote_def oneLine_type split: if_splits
    dest!: oneLine_quoted oneLine_writeSnapshot)

section \<open>Messages end to end\<close>

text \<open>A sequence of sends and of receives on a connection, each stopping at the first exception.\<close>

fun sendEach :: "'w sockets \<Rightarrow> connection \<Rightarrow> string list \<Rightarrow> 'w \<Rightarrow> ((tcpError + unit) \<times> 'w) option" where
  "sendEach os c [] w = Some (Inr (), w)"
| "sendEach os c (t # ts) w =
     (case sendMessage os c t w of
        Some (Inr _, w1) \<Rightarrow> sendEach os c ts w1
      | failed \<Rightarrow> failed)"

fun receiveEach :: "'w sockets \<Rightarrow> connection \<Rightarrow> nat \<Rightarrow> 'w \<Rightarrow> (tcpError + string list) \<times> 'w" where
  "receiveEach os c 0 w = (Inr [], w)"
| "receiveEach os c (Suc n) w =
     (case receiveMessage os c w of
        (Inl e, w1) \<Rightarrow> (Inl e, w1)
      | (Inr t, w1) \<Rightarrow> (case receiveEach os c n w1 of (Inl e, w2) \<Rightarrow> (Inl e, w2) | (Inr ts, w2) \<Rightarrow> (Inr (t # ts), w2)))"

lemma sendEach_reliable:
  assumes "reliable os h k pipe"
  shows "\<forall>t \<in> set ts. length t \<le> MESSAGE_LIMIT \<Longrightarrow>
    \<exists>w1. sendEach os (Some h) ts w = Some (Inr (), w1) \<and> pipe w1 = pipe w @ concat (map (\<lambda>t. t @ [newline]) ts)"
proof (induction ts arbitrary: w)
  case (Cons t ts)
  then obtain w1 where w1: "sendMessage os (Some h) t w = Some (Inr (), w1)" "pipe w1 = pipe w @ t @ [newline]"
    using sendMessage_reliable [OF assms, of t w] by auto
  from Cons obtain w2 where "sendEach os (Some h) ts w1 = Some (Inr (), w2)"
    "pipe w2 = pipe w1 @ concat (map (\<lambda>t. t @ [newline]) ts)" by force
  with w1 show ?case by simp
qed simp

lemma receiveEach_reliable:
  assumes "reliable os h k pipe"
  shows "\<forall>t \<in> set ts. length t \<le> MESSAGE_LIMIT \<and> oneLine t \<Longrightarrow> pipe w = concat (map (\<lambda>t. t @ [newline]) ts) \<Longrightarrow>
    \<exists>w1. receiveEach os (Some k) (length ts) w = (Inr ts, w1) \<and> pipe w1 = []"
proof (induction ts arbitrary: w)
  case (Cons t ts)
  have "newline \<notin> set t" "length t \<le> MESSAGE_LIMIT" using Cons.prems(1) by (simp_all add: oneLine_def)
  then obtain w1 where w1: "receiveMessage os (Some k) w = (Inr t, w1)" "pipe w1 = concat (map (\<lambda>t. t @ [newline]) ts)"
    using receiveMessage_reliable [OF assms, of t w "concat (map (\<lambda>t. t @ [newline]) ts)"] Cons.prems(2)
    by auto
  from Cons.IH [of w1] Cons.prems(1) w1(2) obtain w2 where "receiveEach os (Some k) (length ts) w1 = (Inr ts, w2)" "pipe w2 = []"
    by auto
  with w1 show ?case by simp
qed simp

text \<open>A network for examples: the bytes under way, and how many bytes each \<open>send\<close> takes at most.\<close>

definition demoSockets :: "(string \<times> nat list) sockets" where
  "demoSockets = \<lparr>
     os_socket = (\<lambda>w. (Some 0, w)), os_inet_pton = (\<lambda>_. (1, 0)), os_connect = (\<lambda>_ _ _ w. (0, w)),
     os_send = (\<lambda>_ d (bytes, sizes).
       (let n = min (length d) (case sizes of [] \<Rightarrow> length d | m # _ \<Rightarrow> Suc m)
        in (int n, (bytes @ take n d, drop 1 sizes)))),
     os_recv = (\<lambda>_ (bytes, sizes). (case bytes of [] \<Rightarrow> (0, CHR 0x00, (bytes, sizes)) | b # bs \<Rightarrow> (1, b, (bs, sizes)))),
     os_select = (\<lambda>_ _ _ w. (1, True, w)), os_close = (\<lambda>_ w. w)\<rparr>"

lemma demoSockets_reliable: "reliable demoSockets h k fst"
  by (auto simp: reliable_def demoSockets_def Let_def split: list.splits)

text \<open>C22: On a connected stream the messages of the protocol arrive as they were sent: however the
  system cuts the bytes into pieces, sending any list of messages that are within the bounds
  of the protocol and the size limit returns, receiving as many lines returns exactly their texts,
  in order, with nothing left over, and each line is read back as its message.\<close>

theorem messages_arrive:
  assumes "reliable os h k pipe" "pipe w = []"
    and "\<forall>m \<in> set ms. validMessage escapable m \<and> length (the (serialize m)) \<le> MESSAGE_LIMIT"
  shows "\<exists>w1 w2 ts. sendEach os (Some h) (map (\<lambda>m. the (serialize m)) ms) w = Some (Inr (), w1) \<and>
    receiveEach os (Some k) (length ms) w1 = (Inr ts, w2) \<and> pipe w2 = [] \<and>
    map deserialize ts = map Some ms"
proof -
  let ?ts = "map (\<lambda>m. the (serialize m)) ms"
  have each: "\<exists>t. serialize m = Some t \<and> deserialize t = Some m" if "m \<in> set ms" for m
    using assms(3) that serialize_render readMessage_render by meson
  have small: "\<forall>t \<in> set ?ts. length t \<le> MESSAGE_LIMIT" using assms(3) by simp
  moreover have lines: "\<forall>t \<in> set ?ts. oneLine t" using each oneLine_serialize by force
  moreover have "map deserialize ?ts = map Some ms" using each by force
  moreover obtain w1 where w1: "sendEach os (Some h) ?ts w = Some (Inr (), w1)"
    "pipe w1 = concat (map (\<lambda>t. t @ [newline]) ?ts)"
    using sendEach_reliable [OF assms(1) small, of w] assms(2) by auto
  moreover obtain w2 where "receiveEach os (Some k) (length ?ts) w1 = (Inr ?ts, w2)" "pipe w2 = []"
    using receiveEach_reliable [OF assms(1), of ?ts w1] small lines w1(2) by blast
  ultimately show ?thesis by auto
qed

theorem messages_arrive_witness:
  "\<exists>w1 w2 ts. sendEach demoSockets (Some 4) [the (serialize newMessage)] ([], [3, 0, 7]) = Some (Inr (), w1) \<and>
    receiveEach demoSockets (Some 5) 1 w1 = (Inr ts, w2) \<and> fst w2 = [] \<and> map deserialize ts = [Some newMessage]"
proof -
  have "length (the (serialize newMessage)) \<le> 1000" by code_simp
  then have "length (the (serialize newMessage)) \<le> MESSAGE_LIMIT" by (simp add: MESSAGE_LIMIT_def)
  moreover have "validMessage escapable newMessage" by code_simp
  ultimately show ?thesis
    using messages_arrive [OF demoSockets_reliable, of "([], [3, 0, 7])" "[newMessage]" 4 5] by simp
qed

end
