(* ===== verification/Client_State.thy ===== *)
theory Client_State
  imports Messages Cpp_Text
begin

text \<open>
  What the desktop client keeps of the game: the latest snapshot
  (\<open>src/client/desktop_client/src/Client/ClientGameState.cpp\<close>), the phase shown to the player
  (\<open>include/Client/GameStartState.hpp\<close>) and the score line (\<open>include/Client/PlayerDisplay.hpp\<close>).
  The mutex is left out: each call is one step.
\<close>

section \<open>The latest snapshot\<close>

record ClientGameState =
  currentSnapshot :: GameStateSnapshot
  initialized :: bool

definition newClientGameState :: ClientGameState where
  "newClientGameState = \<lparr>currentSnapshot = newSnapshot, initialized = False\<rparr>"

definition applyMessage :: "Message \<Rightarrow> ClientGameState \<Rightarrow> bool \<times> ClientGameState" where
  "applyMessage m s =
     (if \<not> hasSnapshot m then (False, s)
      else if initialized s \<and> serverTimeMs (snapshot m) < serverTimeMs (currentSnapshot s) then (False, s)
      else if initialized s \<and> serverTimeMs (snapshot m) = serverTimeMs (currentSnapshot s) \<and>
          \<not> (\<not> playersReady (currentSnapshot s) \<and> playersReady (snapshot m)) \<and>
          \<not> (\<not> snapGameOver (currentSnapshot s) \<and> snapGameOver (snapshot m)) then (False, s)
      else if initialized s \<and> playersReady (currentSnapshot s) \<and> \<not> playersReady (snapshot m) then (False, s)
      else if initialized s \<and> playersReady (currentSnapshot s) \<and> snapPieces (currentSnapshot s) \<noteq> [] \<and>
          snapPieces (snapshot m) = [] \<and> \<not> snapGameOver (snapshot m) then (False, s)
      else (True, s\<lparr>currentSnapshot := snapshot m, initialized := True\<rparr>))"

definition findPieceById :: "int \<Rightarrow> ClientGameState \<Rightarrow> PieceSnapshot option" where
  "findPieceById i s =
     (if \<not> initialized s then None else find (\<lambda>p. ps_id p = i) (snapPieces (currentSnapshot s)))"

definition findPieceAt :: "Position \<Rightarrow> ClientGameState \<Rightarrow> PieceSnapshot option" where
  "findPieceAt c s =
     (if \<not> initialized s then None else find (\<lambda>p. ps_position p = c) (snapPieces (currentSnapshot s)))"

definition isGameOver :: "ClientGameState \<Rightarrow> bool" where
  "isGameOver s \<longleftrightarrow> initialized s \<and> snapGameOver (currentSnapshot s)"

definition getServerTimeMs :: "ClientGameState \<Rightarrow> int" where
  "getServerTimeMs s = serverTimeMs (currentSnapshot s)"

section \<open>The phase of the user interface\<close>

datatype ClientUiPhase =
  UsernameEntry | Connecting | WaitingPhase | Countdown | Playing | ReconnectingPhase | GameOverPhase

record GameStartDisplay =
  displayPhase :: ClientUiPhase
  displayText :: string

definition waitingDisplay :: GameStartDisplay where
  "waitingDisplay = \<lparr>displayPhase = WaitingPhase, displayText = ''Waiting for another player...''\<rparr>"

definition buildGameStartDisplay :: "bool \<Rightarrow> int \<Rightarrow> int \<Rightarrow> GameStartDisplay" where
  "buildGameStartDisplay ready startsAt clock =
     (if \<not> ready then waitingDisplay
      else let remaining = startsAt - clock in
        if remaining \<le> 0 then \<lparr>displayPhase = Playing, displayText = []\<rparr>
        else if remaining \<le> 1000 then \<lparr>displayPhase = Countdown, displayText = ''GO!''\<rparr>
        else if remaining \<le> 2000 then \<lparr>displayPhase = Countdown, displayText = ''1''\<rparr>
        else if remaining \<le> 3000 then \<lparr>displayPhase = Countdown, displayText = ''2''\<rparr>
        else \<lparr>displayPhase = Countdown, displayText = ''3''\<rparr>)"

record ClientUiPhaseMachine =
  currentPhase :: ClientUiPhase
  startObserved :: bool
  playingReached :: bool
  steadyStartMs :: int

definition newPhaseMachine :: ClientUiPhaseMachine where
  "newPhaseMachine = \<lparr>currentPhase = UsernameEntry, startObserved = False, playingReached = False, steadyStartMs = 0\<rparr>"

definition markConnecting :: "ClientUiPhaseMachine \<Rightarrow> ClientUiPhaseMachine" where
  "markConnecting p = (if playingReached p then p else p\<lparr>currentPhase := Connecting\<rparr>)"

definition markReconnecting :: "ClientUiPhaseMachine \<Rightarrow> ClientUiPhaseMachine" where
  "markReconnecting p = (if startObserved p then p\<lparr>currentPhase := ReconnectingPhase\<rparr> else p)"

definition observe ::
    "GameStateSnapshot \<Rightarrow> int \<Rightarrow> int \<Rightarrow> ClientUiPhaseMachine \<Rightarrow> GameStartDisplay \<times> ClientUiPhaseMachine" where
  "observe s nowEpochMs nowSteadyMs p =
     (if snapGameOver s then (\<lparr>displayPhase = GameOverPhase, displayText = []\<rparr>, p\<lparr>currentPhase := GameOverPhase\<rparr>)
      else if playingReached p then (\<lparr>displayPhase = Playing, displayText = []\<rparr>, p\<lparr>currentPhase := Playing\<rparr>)
      else let p1 = (if \<not> startObserved p \<and> playersReady s
             then let remaining = gameplayStartsAtEpochMs s - nowEpochMs
                  in p\<lparr>startObserved := True, steadyStartMs := nowSteadyMs + (if remaining > 0 then remaining else 0)\<rparr>
             else p)
           in if \<not> startObserved p1 then (waitingDisplay, p1\<lparr>currentPhase := WaitingPhase\<rparr>)
              else let display = buildGameStartDisplay True (steadyStartMs p1) nowSteadyMs;
                       p2 = p1\<lparr>currentPhase := displayPhase display\<rparr>
                   in (display, if currentPhase p2 = Playing then p2\<lparr>playingReached := True\<rparr> else p2))"

section \<open>The score line\<close>

record PlayerScoreDisplay =
  topName :: string
  topScore :: int
  bottomName :: string
  bottomScore :: int

definition nameWithRating :: "string \<Rightarrow> int \<Rightarrow> string" where
  "nameWithRating name rating =
     (if name = [] then ''Waiting for opponent''
      else if rating \<ge> 0 then name @ '' ('' @ to_string rating @ '')'' else name)"

definition buildPlayerScoreDisplay :: "string \<Rightarrow> string \<Rightarrow> int \<Rightarrow> int \<Rightarrow> int \<Rightarrow> int \<Rightarrow> PlayerScoreDisplay" where
  "buildPlayerScoreDisplay white black whiteScore' blackScore' whiteRating' blackRating' =
     \<lparr>topName = nameWithRating black blackRating', topScore = blackScore',
      bottomName = nameWithRating white whiteRating', bottomScore = whiteScore'\<rparr>"

end
