(* ===== verification/Username.thy ===== *)
theory Username
  imports Cpp_Text
begin

text \<open>
  Display names: \<open>src/shared/cpp/include/Client/Username.hpp\<close>. The loops of \<open>trim\<close> move an index
  from each end over white space; the prompt reads lines from a stream, given here as the list
  of lines still to come, and throws when the stream ends.
\<close>

definition MAX_LENGTH :: nat where
  "MAX_LENGTH = 64"

text \<open>The two loops: the first index that is no space, and the last one before it from the end.\<close>

function trimFirst :: "string \<Rightarrow> nat \<Rightarrow> nat" where
  "trimFirst s i = (if i < length s \<and> isspace (s ! i) then trimFirst s (i + 1) else i)"
  by pat_completeness auto

termination by (relation "measure (\<lambda>(s, i). length s - i)") auto

fun trimLast :: "string \<Rightarrow> nat \<Rightarrow> nat \<Rightarrow> nat" where
  "trimLast s first 0 = 0"
| "trimLast s first (Suc n) = (if Suc n > first \<and> isspace (s ! n) then trimLast s first n else Suc n)"

definition trim :: "string \<Rightarrow> string" where
  "trim s = (let first = trimFirst s 0; last = trimLast s first (length s)
     in take (last - first) (drop first s))"

definition isValid :: "string \<Rightarrow> bool" where
  "isValid s = (let trimmed = trim s in trimmed \<noteq> [] \<and> length trimmed \<le> MAX_LENGTH)"

text \<open>\<open>None\<close> is the exception at the end of the input; the second part is what was written.\<close>

definition promptText :: string where
  "promptText = ''Enter display name: ''"

definition retryText :: string where
  "retryText = ''Display name must contain 1-64 non-whitespace bytes.'' @ [CHR 0x0A]"

fun prompt :: "string list \<Rightarrow> string option \<times> string" where
  "prompt [] = (None, promptText)"
| "prompt (line # rest) =
     (let name = trim line in
      if isValid name then (Some name, promptText)
      else let (r, out) = prompt rest in (r, promptText @ retryText @ out))"

section \<open>The loops compute the text between the white space\<close>

declare trimFirst.simps [simp del]

lemma trimFirst_drop: "i \<le> length s \<Longrightarrow> trimFirst s i = i + length (takeWhile isspace (drop i s))"
proof (induction s i rule: trimFirst.induct)
  case (1 s i)
  show ?case
  proof (cases "i < length s \<and> isspace (s ! i)")
    case True
    then have "drop i s = s ! i # drop (Suc i) s" by (simp add: Cons_nth_drop_Suc)
    then show ?thesis using 1 True by (subst trimFirst.simps) simp
  next
    case False
    then have "takeWhile isspace (drop i s) = []"
      using 1(2) by (cases "i < length s") (auto simp: Cons_nth_drop_Suc [symmetric])
    then show ?thesis using False by (subst trimFirst.simps) auto
  qed
qed

lemma trimFirst_eq: "drop (trimFirst s 0) s = dropWhile isspace s" "trimFirst s 0 \<le> length s"
  by (simp_all add: trimFirst_drop dropWhile_eq_drop [symmetric] length_takeWhile_le)

definition stripEnd :: "string \<Rightarrow> string" where
  "stripEnd s = rev (dropWhile isspace (rev s))"

lemma stripEnd_snoc [simp]: "stripEnd (s @ [c]) = (if isspace c then stripEnd s else s @ [c])" "stripEnd [] = []"
  by (simp_all add: stripEnd_def)

lemma trimLast_bounds: "k \<le> n \<Longrightarrow> k \<le> trimLast s k n \<and> trimLast s k n \<le> n"
  by (induction n) auto

lemma trimLast_strip:
  "k \<le> n \<Longrightarrow> n \<le> length s \<Longrightarrow>
     take (trimLast s k n - k) (drop k s) = stripEnd (take (n - k) (drop k s))"
proof (induction n)
  case 0
  then show ?case by simp
next
  case (Suc n)
  show ?case
  proof (cases "Suc n > k")
    case False
    then show ?thesis using Suc.prems by simp
  next
    case True
    then have "take (Suc n - k) (drop k s) = take (n - k) (drop k s) @ [s ! n]"
      using Suc.prems(2) by (simp add: Suc_diff_le take_Suc_conv_app_nth)
    then show ?thesis using Suc True by simp
  qed
qed

lemma trim_eq: "trim s = stripEnd (dropWhile isspace s)"
proof -
  have "length (dropWhile isspace s) = length s - trimFirst s 0" by (metis trimFirst_eq(1) length_drop)
  then show ?thesis
    using trimLast_strip [of "trimFirst s 0" "length s" s] trimFirst_eq [of s]
    by (simp add: trim_def Let_def)
qed

lemma stripEnd_dropWhile: "stripEnd s = [] \<or> \<not> isspace (last (stripEnd s))"
proof (cases "dropWhile isspace (rev s)")
  case (Cons c cs)
  then have "\<not> isspace c" by (metis dropWhile_eq_Cons_conv)
  then show ?thesis by (simp add: stripEnd_def Cons)
qed (simp add: stripEnd_def)

lemma stripEnd_prefix: "\<exists>t. s = stripEnd s @ t \<and> (\<forall>c \<in> set t. isspace c)"
proof (induction s rule: rev_induct)
  case (snoc c s)
  then obtain t where t: "s = stripEnd s @ t" "\<forall>c \<in> set t. isspace c" by blast
  show ?case
  proof (cases "isspace c")
    case True
    then have "s @ [c] = stripEnd (s @ [c]) @ (t @ [c])" "\<forall>x \<in> set (t @ [c]). isspace x"
      using t by simp_all
    then show ?thesis by blast
  next
    case False
    then have "s @ [c] = stripEnd (s @ [c]) @ []" by simp
    then show ?thesis by (metis empty_iff empty_set)
  qed
qed simp

lemma trim_ends: "trim s = [] \<or> \<not> isspace (hd (trim s)) \<and> \<not> isspace (last (trim s))"
proof (cases "dropWhile isspace s")
  case Nil
  show ?thesis by (simp add: trim_eq Nil)
next
  case (Cons c cs)
  then have c: "\<not> isspace c" by (metis dropWhile_eq_Cons_conv)
  obtain t where t: "c # cs = stripEnd (c # cs) @ t" "\<forall>x \<in> set t. isspace x"
    using stripEnd_prefix [of "c # cs"] by blast
  have "stripEnd (c # cs) \<noteq> []"
  proof
    assume "stripEnd (c # cs) = []"
    then have "c \<in> set t" using t(1) by (metis append_Nil list.set_intros(1))
    then show False using t(2) c by blast
  qed
  then have "hd (stripEnd (c # cs)) = c" using t(1) by (metis hd_append2 list.sel(1))
  then show ?thesis using stripEnd_dropWhile [of "c # cs"] c by (auto simp: trim_eq Cons)
qed

lemma strip_id: "s = [] \<or> \<not> isspace (hd s) \<and> \<not> isspace (last s) \<Longrightarrow> trim s = s"
proof (cases s rule: rev_cases)
  case (snoc t c)
  assume "s = [] \<or> \<not> isspace (hd s) \<and> \<not> isspace (last s)"
  then have "\<not> isspace (hd s)" "\<not> isspace c" using snoc by auto
  then have "dropWhile isspace s = s" by (cases s) auto
  then show ?thesis using snoc \<open>\<not> isspace c\<close> by (simp add: trim_eq)
qed (simp add: trim_eq)

lemma trim_infix: "\<exists>u v. s = u @ trim s @ v \<and> (\<forall>c \<in> set u. isspace c) \<and> (\<forall>c \<in> set v. isspace c)"
proof -
  obtain v where v: "dropWhile isspace s = trim s @ v" "\<forall>c \<in> set v. isspace c"
    using stripEnd_prefix [of "dropWhile isspace s"] by (auto simp: trim_eq)
  have "s = takeWhile isspace s @ trim s @ v" using v(1) by (metis takeWhile_dropWhile_id)
  moreover have "\<forall>c \<in> set (takeWhile isspace s). isspace c" by (auto dest: set_takeWhileD)
  ultimately show ?thesis using v(2) by blast
qed

text \<open>Trimming a name removes exactly its outer white space: what is left is a contiguous part
  of the name with only white space before and after it, begins and ends with no white space,
  and trimming again changes nothing; the index loops of the code do this without reading
  outside the string.\<close>

theorem trim_removes_outer_space:
  "(\<exists>u v. s = u @ trim s @ v \<and> list_all isspace u \<and> list_all isspace v) \<and>
   (trim s = [] \<or> \<not> isspace (hd (trim s)) \<and> \<not> isspace (last (trim s))) \<and> trim (trim s) = trim s \<and>
   trimFirst s 0 \<le> trimLast s (trimFirst s 0) (length s) \<and>
   trimLast s (trimFirst s 0) (length s) \<le> length s"
  using trim_infix [of s] trim_ends [of s] strip_id [of "trim s"]
    trimLast_bounds [of "trimFirst s 0" "length s" s] trimFirst_eq(2) [of s]
  by (simp add: list_all_iff)

text \<open>The name prompt returns the first acceptable line, trimmed, and every name it returns is
  valid as it stands: not empty, at most 64 bytes, and its own trimmed form; it fails only when
  the input ends without an acceptable line.\<close>

theorem prompt_returns_first_valid:
  "fst (prompt ls) = map_option trim (find isValid ls) \<and>
   pred_option (\<lambda>name. isValid name \<and> trim name = name \<and> 0 < length name \<and> length name \<le> 64) (fst (prompt ls))"
proof -
  have idem: "trim (trim s) = trim s" for s using trim_ends strip_id by blast
  then have valid: "isValid (trim s) = isValid s" for s by (simp add: isValid_def)
  have "fst (prompt ls) = map_option trim (find isValid ls)"
    by (induction ls) (simp_all add: valid Let_def case_prod_beta)
  moreover have "pred_option isValid (find isValid ls)" by (induction ls) simp_all
  ultimately show ?thesis
    using idem valid by (cases "find isValid ls") (auto simp: isValid_def MAX_LENGTH_def Let_def)
qed

end
