(* ===== verification/Server_State.thy ===== *)
theory Server_State
  imports Control Username Protocol
begin

text \<open>
  The state of the game server, \<open>src/server/chess_server/src/Server/GameServer.cpp\<close>, and the
  operations that work on it under its locks: sessions (\<open>ClientSession.cpp\<close>), the initial
  board, tokens, and messages sent to the players.

  A session is shared by reference, so sessions live in a store and the two player slots hold
  references; \<open>connection\<close> numbers the accepted sockets. The clocks, the random words of a token
  and whether a socket takes a message are arguments: \<open>net c\<close> says that sending on the connection
  \<open>c\<close> succeeds now. Times of the steady clock are in nanoseconds. What is sent is appended
  to \<open>outbox\<close>.
\<close>

section \<open>State\<close>

type_synonym sref = nat

type_synonym network = "nat \<Rightarrow> bool"

record ClientSession =
  clientId :: int
  assignedColor :: PieceColor
  sessionUsername :: string
  connection :: nat
  connected :: bool

datatype serverError = SendFailed | SerializeFailed | NotProcessed | NoResponse | NotAHandshake | NotAMessage

record GameServer =
  subscribers :: Subscribers
  game :: GameEngine
  requests :: MessageBus
  sessions :: "sref \<Rightarrow> ClientSession"
  sessionCount :: nat
  whitePlayer :: "sref option"
  blackPlayer :: "sref option"
  nextClientId :: int
  gameStarted :: bool
  whiteReconnectToken :: string
  blackReconnectToken :: string
  whiteName :: string
  blackName :: string
  expiredReconnectTokens :: "string set"
  gameWasStarted :: bool
  reconnectionPending :: bool
  closingExpiredGame :: bool
  reservedColor :: PieceColor
  reconnectionDeadline :: int
  lastReconnectSecondsSent :: int
  startsAtEpochMs :: int
  outbox :: "(nat \<times> string) list"
  closedConnections :: "nat set"

section \<open>The initial board\<close>

definition backRank :: "PieceKind list" where
  "backRank = [Rook, Knight, Bishop, Queen, King, Bishop, Knight, Rook]"

text \<open>The piece with id \<open>i\<close> has the address \<open>i\<close>; one row of eight pieces is placed from an id on.\<close>

definition placeRow :: "int \<Rightarrow> PieceColor \<Rightarrow> PieceKind list \<Rightarrow> int \<Rightarrow> heap \<times> Board \<Rightarrow> heap \<times> Board" where
  "placeRow row color kinds firstId = fold (\<lambda>col (h, b).
     (let i = firstId + int col in
      (h(nat i := newPiece i color (kinds ! col)), snd (placePiece b (Position row (int col)) (Some (nat i)))))) [0..<8]"

definition createInitialBoard :: "heap \<times> Board" where
  "createInitialBoard =
     placeRow 7 White backRank 25 (placeRow 6 White (replicate 8 Pawn) 17
       (placeRow 1 Black (replicate 8 Pawn) 9 (placeRow 0 Black backRank 1
         (\<lambda>r. newPiece 0 White Pawn, newBoard 8 8))))"

definition newGame :: GameEngine where
  "newGame = newGameEngine (fst createInitialBoard) (snd createInitialBoard) True"

definition noSession :: ClientSession where
  "noSession = \<lparr>clientId = 0, assignedColor = White, sessionUsername = [], connection = 0, connected = False\<rparr>"

definition newGameServer :: GameServer where
  "newGameServer = \<lparr>subscribers = newSubscribers, game = newGame, requests = newMessageBus,
     sessions = (\<lambda>_. noSession), sessionCount = 0, whitePlayer = None, blackPlayer = None,
     nextClientId = 1, gameStarted = False, whiteReconnectToken = [], blackReconnectToken = [],
     whiteName = [], blackName = [], expiredReconnectTokens = {}, gameWasStarted = False,
     reconnectionPending = False, closingExpiredGame = False, reservedColor = White,
     reconnectionDeadline = 0, lastReconnectSecondsSent = -1, startsAtEpochMs = 0,
     outbox = [], closedConnections = {}\<rparr>"

section \<open>The engine and its event bus\<close>

text \<open>
  An operation on the engine publishes events on the bus it was given; the subscribers get
  those that were not published before.
\<close>

definition onGame :: "(GameEngine \<Rightarrow> GameEngine) \<Rightarrow> GameServer \<Rightarrow> GameServer" where
  "onGame f s =
     (let g = f (game s); fresh = drop (length (published (game s))) (published g)
      in s\<lparr>game := g, subscribers := publishAll fresh serverBus (subscribers s)\<rparr>)"

section \<open>Sessions\<close>

definition isConnected :: "GameServer \<Rightarrow> sref \<Rightarrow> bool" where
  "isConnected s r \<longleftrightarrow> connected (sessions s r)"

definition slotConnected :: "GameServer \<Rightarrow> sref option \<Rightarrow> bool" where
  "slotConnected s p = (case p of None \<Rightarrow> False | Some r \<Rightarrow> isConnected s r)"

definition closeConnection :: "nat \<Rightarrow> GameServer \<Rightarrow> GameServer" where
  "closeConnection c s = s\<lparr>closedConnections := insert c (closedConnections s)\<rparr>"

definition MAX_MESSAGE_BYTES :: nat where "MAX_MESSAGE_BYTES = 1024 * 1024"

text \<open>\<open>TcpConnection::sendMessage\<close>: fails on a closed socket, on a text that is too long and when the
  network fails.\<close>

definition tcpSend :: "network \<Rightarrow> nat \<Rightarrow> string \<Rightarrow> GameServer \<Rightarrow> serverError + GameServer" where
  "tcpSend net c json s =
     (if c \<in> closedConnections s then Inl SendFailed
      else if length json > MAX_MESSAGE_BYTES then Inl SendFailed
      else if \<not> net c then Inl SendFailed
      else Inr (s\<lparr>outbox := outbox s @ [(c, json)]\<rparr>))"

definition sessionSend :: "network \<Rightarrow> sref \<Rightarrow> string \<Rightarrow> GameServer \<Rightarrow> serverError + GameServer" where
  "sessionSend net r json s =
     (if \<not> isConnected s r then Inr s else tcpSend net (connection (sessions s r)) json s)"

definition disconnect :: "sref \<Rightarrow> GameServer \<Rightarrow> GameServer" where
  "disconnect r s =
     (if \<not> isConnected s r then s
      else closeConnection (connection (sessions s r))
        (s\<lparr>sessions := (sessions s)(r := (sessions s r)\<lparr>connected := False\<rparr>)\<rparr>))"

definition hasTwoPlayers :: "GameServer \<Rightarrow> bool" where
  "hasTwoPlayers s \<longleftrightarrow> slotConnected s (whitePlayer s) \<and> slotConnected s (blackPlayer s)"

text \<open>\<open>std::make_shared<ClientSession>\<close>: a new session at the next free address.\<close>

definition makeSession :: "int \<Rightarrow> PieceColor \<Rightarrow> string \<Rightarrow> nat \<Rightarrow> GameServer \<Rightarrow> sref \<times> GameServer" where
  "makeSession i color name c s =
     (let r = sessionCount s in
      (r, s\<lparr>sessionCount := r + 1, sessions := (sessions s)(r :=
         \<lparr>clientId = i, assignedColor = color, sessionUsername = name, connection = c, connected = True\<rparr>)\<rparr>))"

section \<open>Snapshots and the countdown\<close>

definition buildSnapshot :: "GameServer \<Rightarrow> GameStateSnapshot" where
  "buildSnapshot s = (build (game s))
     \<lparr>snapWhiteUsername := whiteName s, snapBlackUsername := blackName s,
      playersReady := (gameStarted s \<or> gameWasStarted s \<and> hasTwoPlayers s),
      gameplayStartsAtEpochMs := startsAtEpochMs s\<rparr>"

definition isGameplayEnabled :: "int \<Rightarrow> GameServer \<Rightarrow> bool" where
  "isGameplayEnabled epochMs s \<longleftrightarrow> gameStarted s \<and> startsAtEpochMs s > 0 \<and> epochMs \<ge> startsAtEpochMs s"

section \<open>Tokens\<close>

definition hexDigit :: "nat \<Rightarrow> char" where
  "hexDigit d = ''0123456789abcdef'' ! d"

fun hexDigits :: "nat \<Rightarrow> string" where
  "hexDigits n = (if n < 16 then [hexDigit n] else hexDigits (n div 16) @ [hexDigit (n mod 16)])"

declare hexDigits.simps [simp del]

definition toHex :: "64 word \<Rightarrow> string" where
  "toHex w = hexDigits (unat w)"

text \<open>The generator yields two 64-bit words.\<close>

definition createReconnectToken :: "64 word \<Rightarrow> 64 word \<Rightarrow> int \<Rightarrow> string" where
  "createReconnectToken random1 random2 i = toHex random1 @ toHex random2 @ toHex (word_of_int i)"

end
