(* ===== verification/Server.thy ===== *)
theory Server
  imports Server_State Engine_Log
begin

text \<open>
  What the server does, \<open>src/server/chess_server/src/Server/GameServer.cpp\<close>. Each thread works in
  sections under a lock; an operation here is such a section with the sends that follow it, and
  \<open>Server_Steps\<close> interleaves them. An exception is a \<open>serverError\<close> next to the state it leaves
  behind. A message whose texts are literals of the program always serializes
  (\<open>serialize_literals\<close> in \<open>Server_Steps\<close>), so its text is written \<open>textOf\<close>.
\<close>

section \<open>Messages of the server\<close>

definition notice :: "MessageType \<Rightarrow> bool \<Rightarrow> string \<Rightarrow> Message" where
  "notice kind ok why = newMessage\<lparr>msgType := kind, accepted := ok, reason := why\<rparr>"

definition textOf :: "Message \<Rightarrow> string" where
  "textOf m = the (serialize m)"

definition reconnectingMessage :: "int \<Rightarrow> Message" where
  "reconnectingMessage seconds =
     (notice Reconnecting True ''opponent_disconnected'')\<lparr>secondsRemaining := seconds\<rparr>"

definition waitingMessage :: Message where
  "waitingMessage = notice WaitingForOpponent True ''waiting_for_opponent''"

text \<open>\<open>session->sendMessage(Protocol::serialize(m))\<close>.\<close>

definition sendTo :: "network \<Rightarrow> sref \<Rightarrow> Message \<Rightarrow> GameServer \<Rightarrow> serverError option \<times> GameServer" where
  "sendTo net r m s =
     (case serialize m of
        None \<Rightarrow> (Some SerializeFailed, s)
      | Some t \<Rightarrow> (case sessionSend net r t s of Inl e \<Rightarrow> (Some e, s) | Inr s1 \<Rightarrow> (None, s1)))"

section \<open>Joining\<close>

definition replyAndClose ::
    "network \<Rightarrow> nat \<Rightarrow> Message \<Rightarrow> GameServer \<Rightarrow> (serverError + sref option) \<times> GameServer" where
  "replyAndClose net c m s =
     (case tcpSend net c (textOf m) s of
        Inl e \<Rightarrow> (Inl e, s)
      | Inr s1 \<Rightarrow> (Inr None, closeConnection c s1))"

definition reservedToken :: "GameServer \<Rightarrow> string" where
  "reservedToken s = (if reservedColor s = White then whiteReconnectToken s else blackReconnectToken s)"

definition createSession ::
    "network \<Rightarrow> 64 word \<times> 64 word \<Rightarrow> nat \<Rightarrow> string \<Rightarrow> string \<Rightarrow> GameServer \<Rightarrow>
       (serverError + sref option) \<times> GameServer" where
  "createSession net random c requestedToken requestedUsername s0 =
     (let trimmed = Username.trim requestedUsername;
          i = nextClientId s0;
          s = s0\<lparr>nextClientId := i + 1\<rparr>;
          validReconnect = (reconnectionPending s \<and> requestedToken \<noteq> [] \<and> requestedToken = reservedToken s)
      in if closingExpiredGame s then replyAndClose net c (notice GameFull False ''game_closing'') s
         else if requestedToken \<noteq> [] \<and> requestedToken \<in> expiredReconnectTokens s
           then replyAndClose net c (notice GameClosed False ''opponent_did_not_reconnect'') s
         else if \<not> validReconnect \<and> \<not> Username.isValid trimmed
           then replyAndClose net c (notice InvalidUsername False
                  (if trimmed = [] then ''empty_username'' else ''invalid_username'')) s
         else if reconnectionPending s \<and> requestedToken = reservedToken s \<and> requestedToken \<noteq> []
           then (let (r, s1) = makeSession i (reservedColor s)
                       (if reservedColor s = White then whiteName s else blackName s) c s;
                     s2 = (if reservedColor s = White then s1\<lparr>whitePlayer := Some r\<rparr>
                           else s1\<lparr>blackPlayer := Some r\<rparr>)
                 in (Inr (Some r), s2\<lparr>reconnectionPending := False, lastReconnectSecondsSent := -1\<rparr>))
         else if \<not> reconnectionPending s \<and> \<not> slotConnected s (whitePlayer s)
           then (let s1 = s\<lparr>whiteReconnectToken := createReconnectToken (fst random) (snd random) i,
                           whiteName := trimmed\<rparr>;
                     (r, s2) = makeSession i White trimmed c s1
                 in (Inr (Some r), s2\<lparr>whitePlayer := Some r\<rparr>))
         else if \<not> reconnectionPending s \<and> \<not> slotConnected s (blackPlayer s)
           then (let s1 = s\<lparr>blackReconnectToken := createReconnectToken (fst random) (snd random) i,
                           blackName := trimmed\<rparr>;
                     (r, s2) = makeSession i Black trimmed c s1
                 in (Inr (Some r), s2\<lparr>blackPlayer := Some r\<rparr>))
         else replyAndClose net c (notice GameFull False ''game_full'') s)"

section \<open>Leaving\<close>

text \<open>
  The section of \<open>removeSession\<close> under the lock: the state after it, whether a reconnection
  period starts, and the player that remains.
\<close>

definition clearSlotNames :: "PieceColor \<Rightarrow> GameServer \<Rightarrow> GameServer" where
  "clearSlotNames color s =
     (if color = White then s\<lparr>whiteReconnectToken := [], whiteName := []\<rparr>
      else s\<lparr>blackReconnectToken := [], blackName := []\<rparr>)"

definition dropSession :: "int \<Rightarrow> sref \<Rightarrow> GameServer \<Rightarrow> bool \<times> sref option \<times> GameServer" where
  "dropSession clock r s =
     (let removed = (whitePlayer s = Some r \<or> blackPlayer s = Some r);
          s1 = (if whitePlayer s = Some r then s\<lparr>whitePlayer := None\<rparr> else s);
          s2 = (if blackPlayer s1 = Some r then s1\<lparr>blackPlayer := None\<rparr> else s1)
      in if \<not> removed then (False, None, s2)
         else let s3 = s2\<lparr>gameStarted := False\<rparr>;
                  remaining = (if whitePlayer s3 \<noteq> None then whitePlayer s3 else blackPlayer s3)
              in if gameWasStarted s3 \<and> \<not> closingExpiredGame s3 \<and> slotConnected s3 remaining
                 then (True, remaining,
                       s3\<lparr>reservedColor := assignedColor (sessions s3 r), reconnectionPending := True,
                          reconnectionDeadline := clock + 20 * 10 ^ 9, lastReconnectSecondsSent := -1\<rparr>)
                 else if \<not> gameWasStarted s3
                 then (False, remaining, clearSlotNames (assignedColor (sessions s3 r)) s3)
                 else (False, remaining, s3))"

text \<open>What \<open>removeSession\<close> sends to a remaining player when no reconnection period starts.\<close>

definition notifyWaiting :: "network \<Rightarrow> sref option \<Rightarrow> GameServer \<Rightarrow> GameServer" where
  "notifyWaiting net remaining s =
     (case remaining of
        None \<Rightarrow> s
      | Some r \<Rightarrow>
          (if \<not> isConnected s r then s
           else case sendTo net r waitingMessage s of
             (None, s1) \<Rightarrow> s1
           | (Some _, s1) \<Rightarrow> disconnect r s1))"

definition connectedPlayers :: "GameServer \<Rightarrow> sref list" where
  "connectedPlayers s =
     (if slotConnected s (whitePlayer s) then [the (whitePlayer s)] else []) @
     (if slotConnected s (blackPlayer s) then [the (blackPlayer s)] else [])"

definition playerCount :: "GameServer \<Rightarrow> nat" where
  "playerCount s = (if whitePlayer s = None then 0 else 1) + (if blackPlayer s = None then 0 else 1)"

text \<open>
  \<open>broadcast\<close> sends to each player in turn; a failed send disconnects and removes that player,
  which may itself broadcast the countdown before the loop goes on. The list of sends still to do
  is the call stack: a nested broadcast goes in front of it.
\<close>

lemma connected_frame [simp]:
  "isConnected (s\<lparr>gameStarted := b\<rparr>) r = isConnected s r"
  by (simp add: isConnected_def)

lemma disconnect_slots [simp]:
  "whitePlayer (disconnect r s) = whitePlayer s" "blackPlayer (disconnect r s) = blackPlayer s"
  by (simp_all add: disconnect_def closeConnection_def)

lemma disconnect_count [simp]: "playerCount (disconnect r s) = playerCount s"
  by (simp add: playerCount_def)

lemma dropSession_count:
  assumes "(period, remaining, s') = dropSession clock r s"
  shows "playerCount s' \<le> playerCount s" "period \<Longrightarrow> playerCount s' < playerCount s"
  using assms
  by (auto simp: dropSession_def playerCount_def clearSlotNames_def Let_def split: if_splits)

lemma notifyWaiting_count [simp]: "playerCount (notifyWaiting net p s) = playerCount s"
  by (auto simp: notifyWaiting_def sendTo_def sessionSend_def tcpSend_def playerCount_def split: option.splits sum.splits if_splits)

lemma sessionSend_count: "sessionSend net r t s = Inr s' \<Longrightarrow> playerCount s' = playerCount s"
  by (auto simp: sessionSend_def tcpSend_def playerCount_def split: if_splits)

function runSends :: "network \<Rightarrow> int \<Rightarrow> (sref \<times> string) list \<Rightarrow> GameServer \<Rightarrow> GameServer" where
  "runSends net clock [] s = s"
| "runSends net clock ((r, t) # todo) s =
     (case sessionSend net r t s of
        Inr s1 \<Rightarrow> runSends net clock todo s1
      | Inl _ \<Rightarrow>
          (case dropSession clock r (disconnect r s) of (period, remaining, s1) \<Rightarrow>
             if period
             then runSends net clock (map (\<lambda>p. (p, textOf (reconnectingMessage 20))) (connectedPlayers s1) @ todo) s1
             else runSends net clock todo (notifyWaiting net remaining s1)))"
  by pat_completeness auto

termination
  by (relation "measures [\<lambda>(net, clock, todo, s). playerCount s, \<lambda>(net, clock, todo, s). length todo]")
    (auto simp: sessionSend_count dest: dropSession_count order_le_imp_less_or_eq)

definition broadcast :: "network \<Rightarrow> int \<Rightarrow> string \<Rightarrow> GameServer \<Rightarrow> GameServer" where
  "broadcast net clock t s = runSends net clock (map (\<lambda>p. (p, t)) (connectedPlayers s)) s"

definition broadcastMessage ::
    "network \<Rightarrow> int \<Rightarrow> Message \<Rightarrow> GameServer \<Rightarrow> serverError option \<times> GameServer" where
  "broadcastMessage net clock m s =
     (case serialize m of None \<Rightarrow> (Some SerializeFailed, s) | Some t \<Rightarrow> (None, broadcast net clock t s))"

definition sendReconnectingStatus :: "network \<Rightarrow> int \<Rightarrow> int \<Rightarrow> GameServer \<Rightarrow> GameServer" where
  "sendReconnectingStatus net clock seconds s = broadcast net clock (textOf (reconnectingMessage seconds)) s"

definition removeSession :: "network \<Rightarrow> int \<Rightarrow> sref \<Rightarrow> GameServer \<Rightarrow> GameServer" where
  "removeSession net clock r s =
     (case dropSession clock r s of (period, remaining, s1) \<Rightarrow>
        if period then sendReconnectingStatus net clock 20 s1
        else notifyWaiting net remaining s1)"

section \<open>Closing an expired game\<close>

text \<open>The three locked sections of \<open>closeExpiredGame\<close>; the sends follow the first.\<close>

definition closeBegin :: "network \<Rightarrow> GameServer \<Rightarrow> bool \<times> GameServer" where
  "closeBegin net s =
     (let s1 = s\<lparr>closingExpiredGame := True, reconnectionPending := False, gameStarted := False,
            expiredReconnectTokens := expiredReconnectTokens s \<union>
              (if whiteReconnectToken s = [] then {} else {whiteReconnectToken s}) \<union>
              (if blackReconnectToken s = [] then {} else {blackReconnectToken s})\<rparr>;
          players = (case whitePlayer s1 of None \<Rightarrow> [] | Some r \<Rightarrow> [r]) @
            (case blackPlayer s1 of None \<Rightarrow> [] | Some r \<Rightarrow> [r]);
          closed = textOf (notice GameClosed False ''opponent_did_not_reconnect'')
      in (gameWasStarted s,
          fold (\<lambda>r s. disconnect r (case sessionSend net r closed s of Inl _ \<Rightarrow> s | Inr s' \<Rightarrow> s')) players s1))"

definition closeEngine :: "bool \<Rightarrow> GameServer \<Rightarrow> GameServer" where
  "closeEngine wasActiveGame s =
     (let s1 = (if wasActiveGame
            then s\<lparr>subscribers := snd (publishEnded ''opponent_did_not_reconnect'' False White
                   (whiteScore (game s)) (blackScore (game s)) serverBus (subscribers s))\<rparr>
            else s)
      in s1\<lparr>game := newGame, requests := clear (requests s1)\<rparr>)"

definition closeFinish :: "GameServer \<Rightarrow> GameServer" where
  "closeFinish s =
     (let s1 = s\<lparr>whitePlayer := None, blackPlayer := None, whiteReconnectToken := [],
            blackReconnectToken := [], whiteName := [], blackName := [], gameWasStarted := False,
            closingExpiredGame := False, lastReconnectSecondsSent := -1, startsAtEpochMs := 0\<rparr>
      in s1\<lparr>subscribers := resetPublisher (subscribers s1)\<rparr>)"

definition closeExpiredGame :: "network \<Rightarrow> GameServer \<Rightarrow> GameServer" where
  "closeExpiredGame net s =
     (let (wasActiveGame, s1) = closeBegin net s in closeFinish (closeEngine wasActiveGame s1))"

text \<open>The seconds left, rounded up to a whole second from a millisecond on.\<close>

definition secondsLeft :: "int \<Rightarrow> int \<Rightarrow> int" where
  "secondsLeft deadline clock = (deadline - clock + 999 * 10 ^ 6) div 10 ^ 9"

definition updateReconnectionState :: "network \<Rightarrow> int \<Rightarrow> GameServer \<Rightarrow> GameServer" where
  "updateReconnectionState net clock s =
     (if \<not> reconnectionPending s then s
      else if clock \<ge> reconnectionDeadline s then closeExpiredGame net s
      else let seconds = secondsLeft (reconnectionDeadline s) clock in
        if seconds = lastReconnectSecondsSent s then s
        else sendReconnectingStatus net clock seconds (s\<lparr>lastReconnectSecondsSent := seconds\<rparr>))"

section \<open>One client\<close>

definition assignmentMessage :: "sref \<Rightarrow> GameServer \<Rightarrow> Message" where
  "assignmentMessage r s =
     (let session = sessions s r in
      (notice PlayerAssigned True ''player_assigned'')
        \<lparr>playerColor := (if assignedColor session = White then ''white'' else ''black''),
         reconnectToken := (if assignedColor session = White then whiteReconnectToken s else blackReconnectToken s),
         username := sessionUsername session, whiteUsername := whiteName s, blackUsername := blackName s\<rparr>)"

definition greet :: "network \<Rightarrow> sref \<Rightarrow> GameServer \<Rightarrow> serverError option \<times> GameServer" where
  "greet net r s = sendTo net r (assignmentMessage r s) s"

text \<open>A state update: the message of the start of a session and of the game loop.\<close>

definition stateMessage :: "string \<Rightarrow> GameServer \<Rightarrow> Message" where
  "stateMessage why s = (notice GameStateUpdated True why)
     \<lparr>createdAtMs := getCurrentTimeMs (game s), hasSnapshot := True, snapshot := buildSnapshot s\<rparr>"

definition sendInitialState :: "network \<Rightarrow> sref \<Rightarrow> GameServer \<Rightarrow> serverError option \<times> GameServer" where
  "sendInitialState net r s = sendTo net r (stateMessage ''initial_state'' s) s"

definition startedMessage :: "GameServer \<Rightarrow> Message" where
  "startedMessage s = (notice MessageType.GameStarted True ''game_started'')
     \<lparr>whiteUsername := whiteName s, blackUsername := blackName s,
      hasSnapshot := True, snapshot := buildSnapshot s\<rparr>"

definition startOrWait :: "network \<Rightarrow> int \<Rightarrow> int \<Rightarrow> sref \<Rightarrow> GameServer \<Rightarrow> serverError option \<times> GameServer" where
  "startOrWait net clock epochMs r s =
     (if hasTwoPlayers s
      then if gameStarted s then (None, s)
           else let firstGameStart = (\<not> gameWasStarted s);
                    s1 = s\<lparr>gameStarted := True\<rparr>;
                    s2 = (if firstGameStart then s1\<lparr>startsAtEpochMs := epochMs + 4000\<rparr> else s1);
                    s3 = s2\<lparr>gameWasStarted := True, reconnectionPending := False\<rparr>;
                    s4 = (if firstGameStart
                      then s3\<lparr>subscribers := snd (publishStarted serverBus (subscribers s3))\<rparr> else s3)
                in broadcastMessage net clock (startedMessage s4) s4
      else sendTo net r waitingMessage s)"

definition refusal :: "Message \<Rightarrow> string \<Rightarrow> GameServer \<Rightarrow> Message" where
  "refusal request why s =
     newMessage\<lparr>msgType := MoveRejected, sequence := sequence request, msgSource := msgSource request,
       msgDestination := msgDestination request, accepted := False, reason := why,
       createdAtMs := getCurrentTimeMs (game s), hasSnapshot := True, snapshot := buildSnapshot s\<rparr>"

text \<open>The locked section of one request: the response, or the exception of a lost one.\<close>

definition respond ::
    "configReader \<Rightarrow> int \<Rightarrow> sref \<Rightarrow> Message \<Rightarrow> GameServer \<Rightarrow> (serverError + Message) \<times> GameServer" where
  "respond cfg epochMs r request s =
     (if \<not> isGameplayEnabled epochMs s
      then (Inr (refusal request
              (if gameStarted s then ''countdown_in_progress'' else ''waiting_for_opponent'') s), s)
      else if (case getPieceAt (board (game s)) (msgSource request) of
                 None \<Rightarrow> False
               | Some p \<Rightarrow> getColor (pieceOf (game s) p) \<noteq> assignedColor (sessions s r))
      then (Inr (refusal request ''not_your_piece'' s), s)
      else let (done', g, bus) = processNextMessage cfg (game s, sendToEngine request (requests s));
               s1 = onGame (\<lambda>_. g) (s\<lparr>requests := bus\<rparr>)
           in if \<not> done' then (Inl NotProcessed, s1)
              else if \<not> hasMessageForClient (requests s1) then (Inl NoResponse, s1)
              else case receiveForClient (requests s1) of
                Inl _ \<Rightarrow> (Inl NoResponse, s1)
              | Inr (response, bus1) \<Rightarrow> (Inr response, s1\<lparr>requests := bus1\<rparr>))"

definition handleRequest ::
    "configReader \<Rightarrow> network \<Rightarrow> int \<Rightarrow> sref \<Rightarrow> string \<Rightarrow> GameServer \<Rightarrow> serverError option \<times> GameServer" where
  "handleRequest cfg net epochMs r requestJson s =
     (case deserialize requestJson of
        None \<Rightarrow> (Some NotAMessage, s)
      | Some request \<Rightarrow>
          (case respond cfg epochMs r request s of
             (Inl e, s1) \<Rightarrow> (Some e, s1)
           | (Inr response, s1) \<Rightarrow> sendTo net r response s1))"

text \<open>The end of a session, and what the thread does with an exception.\<close>

definition endSession :: "network \<Rightarrow> int \<Rightarrow> sref \<Rightarrow> GameServer \<Rightarrow> GameServer" where
  "endSession net clock r s = removeSession net clock r (disconnect r s)"

definition guarded :: "network \<Rightarrow> int \<Rightarrow> sref \<Rightarrow> serverError option \<times> GameServer \<Rightarrow> GameServer" where
  "guarded net clock r outcome =
     (case outcome of (None, s) \<Rightarrow> s | (Some _, s) \<Rightarrow> endSession net clock r s)"

section \<open>The game loop\<close>

record GameLoop =
  previousTime :: int
  lastStateUpdate :: int

definition milliseconds :: "int \<Rightarrow> int" where
  "milliseconds ns = ns div 10 ^ 6"

text \<open>One round; an exception that leaves the thread ends the program, here \<open>Inl\<close>.\<close>

definition gameLoopRound ::
    "configReader \<Rightarrow> network \<Rightarrow> int \<Rightarrow> GameLoop \<times> GameServer \<Rightarrow> serverError + GameLoop \<times> GameServer" where
  "gameLoopRound cfg net currentTime = (\<lambda>(l, s0).
     (let deltaMs = milliseconds (currentTime - previousTime l);
          l1 = l\<lparr>previousTime := currentTime\<rparr>;
          s = updateReconnectionState net currentTime s0
      in if \<not> gameStarted s then Inr (l1, s)
         else let s1 = (if deltaMs > 0 then onGame (\<lambda>g. runOp cfg g (OpWait deltaMs)) s else s)
              in if milliseconds (currentTime - lastStateUpdate l1) \<ge> 50
                 then let l2 = l1\<lparr>lastStateUpdate := currentTime\<rparr>
                      in (case broadcastMessage net currentTime (stateMessage ''state_update'' s1) s1 of
                            (Some e, _) \<Rightarrow> Inl e
                          | (None, s2) \<Rightarrow> Inr (l2, s2))
                 else Inr (l1, s1)))"

section \<open>Accepting a client\<close>

text \<open>
  One round of \<open>run\<close> on a new connection and its first line. The socket is closed with the
  connection object when no session takes it over.
\<close>

definition acceptClient ::
    "network \<Rightarrow> 64 word \<times> 64 word \<Rightarrow> nat \<Rightarrow> string \<Rightarrow> GameServer \<Rightarrow> (serverError + sref option) \<times> GameServer" where
  "acceptClient net random c handshakeJson s =
     (if handshakeJson = [] then (Inr None, closeConnection c s)
      else case deserialize handshakeJson of
        None \<Rightarrow> (Inl NotAMessage, closeConnection c s)
      | Some handshake \<Rightarrow>
          (if msgType handshake \<noteq> ReconnectRequest then (Inl NotAHandshake, closeConnection c s)
           else case createSession net random c (reconnectToken handshake) (username handshake) s of
             (Inl e, s1) \<Rightarrow> (Inl e, closeConnection c s1)
           | (Inr session, s1) \<Rightarrow> (Inr session, s1)))"

end
