(* ===== verification/Server_Steps.thy ===== *)
theory Server_Steps
  imports Server Json_Text
begin

text \<open>
  The threads of the server interleaved: \<open>serverStep\<close> is any section any thread can run, in any
  order, and \<open>serverOk\<close> the invariant that all of them keep.
\<close>

section \<open>Literal messages serialize\<close>

lemma escapeJson_Some: "list_all (\<lambda>c. escapeChar c \<noteq> None) t \<Longrightarrow> \<exists>e. escapeJson t = Some e"
  by (induction t) auto

lemma quoted_Some: "list_all (\<lambda>c. escapeChar c \<noteq> None) t \<Longrightarrow> \<exists>e. quoted t = Some e"
  by (drule escapeJson_Some) (auto simp: quoted_def)

lemma serialize_notice:
  assumes "list_all (\<lambda>c. escapeChar c \<noteq> None) why"
  shows "serialize ((notice kind b why)\<lparr>secondsRemaining := n\<rparr>) \<noteq> None" "serialize (notice kind b why) \<noteq> None"
proof -
  obtain e where "quoted why = Some e" using quoted_Some [OF assms] by blast
  moreover obtain e' where "quoted [] = Some e'" using quoted_Some [of "[]"] by auto
  ultimately show "serialize ((notice kind b why)\<lparr>secondsRemaining := n\<rparr>) \<noteq> None" "serialize (notice kind b why) \<noteq> None"
    by (simp_all add: serialize_def notice_def newMessage_def)
qed

lemma serialize_literals:
  "serialize (reconnectingMessage n) \<noteq> None" "serialize waitingMessage \<noteq> None"
  "serialize (notice GameFull False ''game_closing'') \<noteq> None"
  "serialize (notice GameFull False ''game_full'') \<noteq> None"
  "serialize (notice GameClosed False ''opponent_did_not_reconnect'') \<noteq> None"
  "serialize (notice InvalidUsername False ''empty_username'') \<noteq> None"
  "serialize (notice InvalidUsername False ''invalid_username'') \<noteq> None"
  unfolding reconnectingMessage_def waitingMessage_def
  by (intro serialize_notice; code_simp)+

section \<open>Sends change nothing but connections\<close>

text \<open>\<open>s'\<close> is \<open>s\<close> after sends and disconnections.\<close>

definition onlyLost :: "(sref \<Rightarrow> ClientSession) \<Rightarrow> (sref \<Rightarrow> ClientSession) \<Rightarrow> bool" where
  "onlyLost f f' \<longleftrightarrow> (\<forall>r. f' r = f r \<or> f' r = (f r)\<lparr>connected := False\<rparr>)"

definition afterSends :: "GameServer \<Rightarrow> GameServer \<Rightarrow> bool" where
  "afterSends s s' \<longleftrightarrow> (\<exists>sent closed f. onlyLost (sessions s) f \<and>
     s' = s\<lparr>outbox := sent, closedConnections := closed, sessions := f\<rparr>)"

lemma onlyLost_refl [simp]: "onlyLost f f"
  by (simp add: onlyLost_def)

lemma lost_twice: "(c\<lparr>connected := False\<rparr>)\<lparr>connected := False\<rparr> = c\<lparr>connected := False\<rparr>" for c :: ClientSession
  by simp

lemma onlyLost_trans: "onlyLost f g \<Longrightarrow> onlyLost g h \<Longrightarrow> onlyLost f h"
  unfolding onlyLost_def by (metis lost_twice)

lemma afterSendsI: "onlyLost (sessions s) f \<Longrightarrow> s' = s\<lparr>outbox := sent, closedConnections := closed, sessions := f\<rparr> \<Longrightarrow> afterSends s s'"
  unfolding afterSends_def by blast

lemma afterSends_refl [simp]: "afterSends s s"
  by (rule afterSendsI [where f = "sessions s" and sent = "outbox s" and closed = "closedConnections s"]) simp_all

lemma afterSends_trans: "afterSends s s' \<Longrightarrow> afterSends s' s'' \<Longrightarrow> afterSends s s''"
proof -
  assume a: "afterSends s s'" "afterSends s' s''"
  from a(1) obtain sent closed f where f: "onlyLost (sessions s) f"
    "s' = s\<lparr>outbox := sent, closedConnections := closed, sessions := f\<rparr>" unfolding afterSends_def by blast
  from a(2) obtain sent' closed' f' where f': "onlyLost (sessions s') f'"
    "s'' = s'\<lparr>outbox := sent', closedConnections := closed', sessions := f'\<rparr>" unfolding afterSends_def by blast
  have "onlyLost (sessions s) f'" using f f'(1) by (auto intro: onlyLost_trans)
  moreover have "s'' = s\<lparr>outbox := sent', closedConnections := closed', sessions := f'\<rparr>" by (simp add: f(2) f'(2))
  ultimately show ?thesis by (rule afterSendsI)
qed

lemma afterSends_fields:
  assumes "afterSends s s'"
  shows "subscribers s' = subscribers s" "game s' = game s" "requests s' = requests s"
    "sessionCount s' = sessionCount s" "whitePlayer s' = whitePlayer s" "blackPlayer s' = blackPlayer s"
    "nextClientId s' = nextClientId s" "gameStarted s' = gameStarted s"
    "whiteReconnectToken s' = whiteReconnectToken s" "blackReconnectToken s' = blackReconnectToken s"
    "whiteName s' = whiteName s" "blackName s' = blackName s"
    "expiredReconnectTokens s' = expiredReconnectTokens s" "gameWasStarted s' = gameWasStarted s"
    "reconnectionPending s' = reconnectionPending s" "closingExpiredGame s' = closingExpiredGame s"
    "reservedColor s' = reservedColor s" "reconnectionDeadline s' = reconnectionDeadline s"
    "lastReconnectSecondsSent s' = lastReconnectSecondsSent s" "startsAtEpochMs s' = startsAtEpochMs s"
    "assignedColor (sessions s' r) = assignedColor (sessions s r)"
    "isConnected s' r \<Longrightarrow> isConnected s r"
proof -
  obtain sent closed f where lost: "onlyLost (sessions s) f"
    and s': "s' = s\<lparr>outbox := sent, closedConnections := closed, sessions := f\<rparr>"
    using assms unfolding afterSends_def by blast
  show "subscribers s' = subscribers s" "game s' = game s" "requests s' = requests s"
    "sessionCount s' = sessionCount s" "whitePlayer s' = whitePlayer s" "blackPlayer s' = blackPlayer s"
    "nextClientId s' = nextClientId s" "gameStarted s' = gameStarted s"
    "whiteReconnectToken s' = whiteReconnectToken s" "blackReconnectToken s' = blackReconnectToken s"
    "whiteName s' = whiteName s" "blackName s' = blackName s"
    "expiredReconnectTokens s' = expiredReconnectTokens s" "gameWasStarted s' = gameWasStarted s"
    "reconnectionPending s' = reconnectionPending s" "closingExpiredGame s' = closingExpiredGame s"
    "reservedColor s' = reservedColor s" "reconnectionDeadline s' = reconnectionDeadline s"
    "lastReconnectSecondsSent s' = lastReconnectSecondsSent s" "startsAtEpochMs s' = startsAtEpochMs s"
    by (simp_all add: s')
  have "f r = sessions s r \<or> f r = (sessions s r)\<lparr>connected := False\<rparr>"
    using lost by (simp add: onlyLost_def)
  then show "assignedColor (sessions s' r) = assignedColor (sessions s r)" "isConnected s' r \<Longrightarrow> isConnected s r"
    by (auto simp: isConnected_def s')
qed

lemma afterSends_disconnect [simp]: "afterSends s (disconnect r s)"
proof (cases "isConnected s r")
  case True
  then show ?thesis
    by (intro afterSendsI [where f = "(sessions s)(r := (sessions s r)\<lparr>connected := False\<rparr>)" and sent = "outbox s" and
        closed = "insert (connection (sessions s r)) (closedConnections s)"])
      (simp_all add: onlyLost_def disconnect_def closeConnection_def)
qed (simp add: disconnect_def)

lemma afterSends_tcp:
  assumes "tcpSend net c t s = Inr s'"
  shows "afterSends s s'"
  using assms by (intro afterSendsI [where f = "sessions s" and sent = "outbox s @ [(c, t)]" and closed = "closedConnections s"])
    (auto simp: tcpSend_def split: if_splits)

lemma afterSends_session: "sessionSend net r t s = Inr s' \<Longrightarrow> afterSends s s'"
  by (auto simp: sessionSend_def split: if_splits dest: afterSends_tcp)

lemma afterSends_sendTo: "sendTo net r m s = (e, s') \<Longrightarrow> afterSends s s'"
  by (auto simp: sendTo_def split: option.splits sum.splits dest: afterSends_session)

lemma afterSends_close [simp]: "afterSends s (closeConnection c s)"
  by (rule afterSendsI [where f = "sessions s" and sent = "outbox s" and closed = "insert c (closedConnections s)"])
    (simp_all add: closeConnection_def)

lemma afterSends_reply: "replyAndClose net c m s = (x, s') \<Longrightarrow> afterSends s s'"
  by (auto simp: replyAndClose_def split: sum.splits intro: afterSends_trans [OF afterSends_tcp])

lemma afterSends_notify [simp]: "afterSends s (notifyWaiting net p s)"
  by (auto simp: notifyWaiting_def split: option.split prod.split
    dest: afterSends_sendTo intro: afterSends_trans [OF _ afterSends_disconnect])

section \<open>The initial game\<close>

lemma initial_scan:
  "map (getPieceAt (snd createInitialBoard)) (boardPositions (snd createInitialBoard)) =
     map Some [1..<17] @ replicate 32 None @ map Some [17..<33]"
  by code_simp

lemma placeRow_board: "wf_board (snd x) \<Longrightarrow> wf_board (snd (placeRow row color kinds i x))"
  unfolding placeRow_def
  by (rule fold_keeps [where P = "\<lambda>x. wf_board (snd x)"]) (auto simp: Let_def intro: placePiece_keeps)

lemma placeRow_heap:
  assumes "\<And>r. getState (fst x r) = Idle \<and> cooldown_ok 0 (fst x r)"
  shows "getState (fst (placeRow row color kinds i x) r) = Idle \<and> cooldown_ok 0 (fst (placeRow row color kinds i x) r)"
proof -
  have "\<forall>r. getState (fst (placeRow row color kinds i x) r) = Idle \<and> cooldown_ok 0 (fst (placeRow row color kinds i x) r)"
    unfolding placeRow_def
    by (rule fold_keeps [where P = "\<lambda>x. \<forall>r. getState (fst x r) = Idle \<and> cooldown_ok 0 (fst x r)"])
      (use assms in \<open>auto simp: Let_def newPiece_def cooldown_ok_def\<close>)
  then show ?thesis by blast
qed

lemma initial_board_wf: "wf_board (snd createInitialBoard)"
  unfolding createInitialBoard_def by (intro placeRow_board) (simp add: wf_newBoard)

lemma initial_heap:
  "getState (fst createInitialBoard r) = Idle \<and> cooldown_ok 0 (fst createInitialBoard r)"
  unfolding createInitialBoard_def by (intro placeRow_heap) (simp add: newPiece_def cooldown_ok_def)

lemma fresh_newGame: "freshEngine newGame"
  unfolding newGame_def using initial_board_wf initial_heap by (intro fresh_newGameEngine) simp_all

section \<open>The invariant\<close>

definition slotOk :: "PieceColor \<Rightarrow> sref option \<Rightarrow> string \<Rightarrow> GameServer \<Rightarrow> bool" where
  "slotOk color slot tok s \<longleftrightarrow> (\<forall>r. slot = Some r \<longrightarrow>
     r < sessionCount s \<and> assignedColor (sessions s r) = color \<and> tok \<noteq> [])"

definition pendingOk :: "GameServer \<Rightarrow> bool" where
  "pendingOk s \<longleftrightarrow> (reconnectionPending s \<longrightarrow>
     gameWasStarted s \<and> \<not> closingExpiredGame s \<and> \<not> gameStarted s \<and> reservedToken s \<noteq> [] \<and>
     (if reservedColor s = White then whitePlayer s else blackPlayer s) = None)"

definition startedOk :: "GameServer \<Rightarrow> bool" where
  "startedOk s \<longleftrightarrow> (gameStarted s \<longrightarrow> gameWasStarted s \<and> \<not> closingExpiredGame s \<and>
     whitePlayer s \<noteq> None \<and> blackPlayer s \<noteq> None)"

definition closingOk :: "GameServer \<Rightarrow> bool" where
  "closingOk s \<longleftrightarrow> (closingExpiredGame s \<longrightarrow>
     \<not> slotConnected s (whitePlayer s) \<and> \<not> slotConnected s (blackPlayer s))"

definition serverOk :: "GameServer \<Rightarrow> bool" where
  "serverOk s \<longleftrightarrow> engine_wf (game s) \<and> requests s = newMessageBus \<and>
     slotOk White (whitePlayer s) (whiteReconnectToken s) s \<and>
     slotOk Black (blackPlayer s) (blackReconnectToken s) s \<and> pendingOk s \<and> startedOk s \<and> closingOk s"

lemmas serverOk_parts = serverOk_def slotOk_def pendingOk_def startedOk_def closingOk_def

lemma serverOk_new: "serverOk newGameServer"
  using fresh_engine_wf [OF fresh_newGame] by (simp add: serverOk_parts newGameServer_def)

lemma slotConnected_sends: "afterSends s s' \<Longrightarrow> slotConnected s' p \<Longrightarrow> slotConnected s p"
  by (auto simp: slotConnected_def split: option.splits dest: afterSends_fields(22))

lemma reservedToken_sends: "afterSends s s' \<Longrightarrow> reservedToken s' = reservedToken s"
  by (simp add: reservedToken_def afterSends_fields)

lemma serverOk_frame:
  assumes "serverOk s" "engine_wf (game s')" "requests s' = newMessageBus" "sessions s' = sessions s"
    "sessionCount s' = sessionCount s" "whitePlayer s' = whitePlayer s" "blackPlayer s' = blackPlayer s"
    "whiteReconnectToken s' = whiteReconnectToken s" "blackReconnectToken s' = blackReconnectToken s"
    "gameStarted s' = gameStarted s" "gameWasStarted s' = gameWasStarted s"
    "reconnectionPending s' = reconnectionPending s" "closingExpiredGame s' = closingExpiredGame s"
    "reservedColor s' = reservedColor s"
  shows "serverOk s'"
proof -
  have "slotConnected s' p = slotConnected s p" for p
    by (simp add: slotConnected_def isConnected_def assms(4) split: option.split)
  moreover have "reservedToken s' = reservedToken s" by (simp add: reservedToken_def assms)
  ultimately show ?thesis using assms(1,2,3) unfolding serverOk_parts assms(4-) by simp
qed

lemma serverOk_sends:
  assumes "afterSends s s'" "serverOk s"
  shows "serverOk s'"
  using assms(2) slotConnected_sends [OF assms(1)]
  by (auto simp: serverOk_parts afterSends_fields [OF assms(1)] reservedToken_sends [OF assms(1)])

lemma serverOk_drop:
  assumes ok: "serverOk s"
  shows "serverOk (snd (snd (dropSession clock r s)))"
proof -
  have color: "assignedColor (sessions s r) = White" if "whitePlayer s = Some r"
    using ok that by (simp add: serverOk_parts)
  have color': "assignedColor (sessions s r) = Black" if "blackPlayer s = Some r"
    using ok that by (simp add: serverOk_parts)
  show ?thesis
    using ok color color'
    by (auto simp: dropSession_def serverOk_parts reservedToken_def clearSlotNames_def slotConnected_def
        isConnected_def Let_def split: if_splits option.splits)
qed

text \<open>The same for whatever property sends and removals keep: the interface of the messaging.\<close>

locale session_invariant =
  fixes P :: "GameServer \<Rightarrow> bool"
  assumes sends: "afterSends s s' \<Longrightarrow> P s \<Longrightarrow> P s'"
    and drop: "P s \<Longrightarrow> P (snd (snd (dropSession clock r s)))"
begin

lemma disconnects: "P s \<Longrightarrow> P (disconnect r s)"
  by (rule sends [OF afterSends_disconnect])

lemma sendTo: "P s \<Longrightarrow> P (snd (sendTo net r m s))"
  using sends [OF afterSends_sendTo] by (cases "sendTo net r m s") simp

lemma reply: "P s \<Longrightarrow> P (snd (replyAndClose net c m s))"
  using sends [OF afterSends_reply] by (cases "replyAndClose net c m s") simp

lemma runSends: "P s \<Longrightarrow> P (runSends net clock todo s)"
proof (induction net clock todo s rule: runSends.induct)
  case (2 net clock r t todo s)
  show ?case
  proof (cases "sessionSend net r t s")
    case (Inr s1)
    then show ?thesis using 2 sends [OF afterSends_session] by simp
  next
    case (Inl e)
    obtain period remaining s1 where after: "dropSession clock r (disconnect r s) = (period, remaining, s1)"
      by (cases "dropSession clock r (disconnect r s)")
    have "P s1" using drop [of "disconnect r s" clock r] disconnects [OF 2(4)] after by simp
    then show ?thesis
      using 2(1) [OF Inl after [symmetric] refl] 2(2) [OF Inl after [symmetric] refl]
        sends [OF afterSends_notify] Inl after by simp
  qed
qed simp

lemma broadcasts: "P s \<Longrightarrow> P (broadcast net clock t s)"
  by (simp add: broadcast_def runSends)

lemma broadcastMessages: "P s \<Longrightarrow> P (snd (broadcastMessage net clock m s))"
  by (simp add: broadcastMessage_def broadcasts split: option.split)

lemma removes:
  assumes "P s"
  shows "P (removeSession net clock r s)"
proof -
  obtain period remaining s1 where after: "dropSession clock r s = (period, remaining, s1)"
    by (cases "dropSession clock r s")
  then have "P s1" using drop [OF assms, of clock r] by simp
  then show ?thesis
    using after sends [OF afterSends_notify]
    by (simp add: removeSession_def sendReconnectingStatus_def broadcasts)
qed

lemma ends: "P s \<Longrightarrow> P (endSession net clock r s)"
  unfolding endSession_def by (intro removes disconnects)

lemma guards: "P (snd outcome) \<Longrightarrow> P (guarded net clock r outcome)"
  by (auto simp: guarded_def ends split: prod.split option.split)

end

interpretation server: session_invariant serverOk
  by unfold_locales (rule serverOk_sends serverOk_drop, assumption+)+

section \<open>Closing\<close>

lemma closeBegin_after:
  defines "step \<equiv> \<lambda>net closed r s. disconnect r (case sessionSend net r closed s of Inl _ \<Rightarrow> s | Inr s' \<Rightarrow> s')"
  shows "afterSends s (fold (step net closed) ps s) \<and> (\<forall>r \<in> set ps. \<not> isConnected (fold (step net closed) ps s) r)"
proof (induction ps arbitrary: s)
  case (Cons r ps)
  have one: "afterSends s (step net closed r s)"
    unfolding step_def by (auto split: sum.split intro: afterSends_trans [OF afterSends_session])
  have "\<not> isConnected (step net closed r s) r"
    by (simp add: step_def disconnect_def isConnected_def closeConnection_def)
  then show ?case
    using Cons.IH [of "step net closed r s"] one by (auto intro: afterSends_trans dest: afterSends_fields(22))
qed simp

lemma serverOk_closeBegin:
  assumes "serverOk s"
  shows "serverOk (snd (closeBegin net s))" "closingExpiredGame (snd (closeBegin net s))"
proof -
  define s1 where "s1 = s\<lparr>closingExpiredGame := True, reconnectionPending := False, gameStarted := False,
      expiredReconnectTokens := expiredReconnectTokens s \<union>
        (if whiteReconnectToken s = [] then {} else {whiteReconnectToken s}) \<union>
        (if blackReconnectToken s = [] then {} else {blackReconnectToken s})\<rparr>"
  let ?ps = "(case whitePlayer s1 of None \<Rightarrow> [] | Some r \<Rightarrow> [r]) @ (case blackPlayer s1 of None \<Rightarrow> [] | Some r \<Rightarrow> [r])"
  define s2 where "s2 = snd (closeBegin net s)"
  have s2: "afterSends s1 s2" and off: "\<forall>r \<in> set ?ps. \<not> isConnected s2 r"
    using closeBegin_after [of s1 net "textOf (notice GameClosed False ''opponent_did_not_reconnect'')" ?ps]
    by (simp_all add: s2_def closeBegin_def Let_def s1_def)
  have "\<not> slotConnected s2 (whitePlayer s2)" "\<not> slotConnected s2 (blackPlayer s2)"
    using off afterSends_fields(5,6) [OF s2] by (auto simp: slotConnected_def split: option.splits)
  moreover have "engine_wf (game s1) \<and> requests s1 = newMessageBus \<and> slotOk White (whitePlayer s1) (whiteReconnectToken s1) s1 \<and>
      slotOk Black (blackPlayer s1) (blackReconnectToken s1) s1 \<and> \<not> reconnectionPending s1 \<and> \<not> gameStarted s1 \<and> closingExpiredGame s1"
    using assms by (simp add: s1_def serverOk_parts)
  ultimately show "serverOk (snd (closeBegin net s))" "closingExpiredGame (snd (closeBegin net s))"
    unfolding s2_def [symmetric] by (simp_all add: serverOk_parts afterSends_fields [OF s2])
qed

lemma serverOk_closeEngine: "serverOk s \<Longrightarrow> serverOk (closeEngine b s)"
  by (erule serverOk_frame)
    (simp_all add: closeEngine_def Let_def clear_def newMessageBus_def fresh_engine_wf [OF fresh_newGame])

lemma closeEngine_closing [simp]: "closingExpiredGame (closeEngine b s) = closingExpiredGame s"
  by (simp add: closeEngine_def Let_def)

lemma serverOk_closeFinish: "serverOk s \<Longrightarrow> closingExpiredGame s \<Longrightarrow> serverOk (closeFinish s)"
  by (simp add: serverOk_parts closeFinish_def Let_def)

lemma serverOk_closeExpired:
  assumes "serverOk s"
  shows "serverOk (closeExpiredGame net s)"
  using serverOk_closeBegin [OF assms, of net]
  by (simp add: closeExpiredGame_def case_prod_beta Let_def serverOk_closeFinish serverOk_closeEngine)

lemma serverOk_update: "serverOk s \<Longrightarrow> serverOk (updateReconnectionState net clock s)"
proof -
  assume ok: "serverOk s"
  have "serverOk (closeExpiredGame net s)" using ok by (rule serverOk_closeExpired)
  moreover have "serverOk (s\<lparr>lastReconnectSecondsSent := n\<rparr>)" for n
    using ok by (rule serverOk_frame) (use ok in \<open>simp_all add: serverOk_def\<close>)
  ultimately show ?thesis
    using ok by (simp add: updateReconnectionState_def sendReconnectingStatus_def server.broadcasts Let_def)
qed

section \<open>Clients\<close>

lemma serverOk_onGame: "serverOk s \<Longrightarrow> engine_wf (f (game s)) \<Longrightarrow> serverOk (onGame f s)"
  by (rule serverOk_frame) (simp_all add: onGame_def Let_def serverOk_def)

lemma serverOk_startOrWait: "serverOk s \<Longrightarrow> serverOk (snd (startOrWait net clock epoch r s))"
proof -
  assume ok: "serverOk s"
  have two: "whitePlayer s \<noteq> None \<and> blackPlayer s \<noteq> None \<and> \<not> closingExpiredGame s" if "hasTwoPlayers s"
    using ok that by (auto simp: hasTwoPlayers_def slotConnected_def serverOk_parts split: option.splits)
  have start: "serverOk (s\<lparr>gameStarted := True, startsAtEpochMs := e, gameWasStarted := True, reconnectionPending := False, subscribers := u\<rparr>)"
    if "hasTwoPlayers s" for e u
    using ok two [OF that]
    by (simp add: serverOk_parts slotConnected_def isConnected_def reservedToken_def split: option.splits)
  have "s\<lparr>gameStarted := True, gameWasStarted := True, reconnectionPending := False\<rparr> =
      s\<lparr>gameStarted := True, startsAtEpochMs := startsAtEpochMs s, gameWasStarted := True, reconnectionPending := False, subscribers := subscribers s\<rparr>"
    by simp
  then have again: "serverOk (s\<lparr>gameStarted := True, gameWasStarted := True, reconnectionPending := False\<rparr>)"
    if "hasTwoPlayers s" using start [OF that] by metis
  show ?thesis
    using ok start again by (simp add: startOrWait_def Let_def server.sendTo server.broadcastMessages)
qed

end
