(* ===== verification/Client_Properties.thy ===== *)
theory Client_Properties
  imports Client_State Server_Steps
begin

text \<open>
  Properties of what the client shows: the snapshot it keeps and the countdown before the game.
\<close>

section \<open>The latest snapshot\<close>

definition applyAll :: "Message list \<Rightarrow> ClientGameState \<Rightarrow> ClientGameState" where
  "applyAll ms s = fold (\<lambda>m s. snd (applyMessage m s)) ms s"

lemma applyAll_simps [simp]:
  "applyAll [] s = s" "applyAll (m # ms) s = applyAll ms (snd (applyMessage m s))"
  by (simp_all add: applyAll_def)

text \<open>An update of a running game: both players are there and the board is not empty.\<close>

definition gameUpdate :: "Message \<Rightarrow> bool" where
  "gameUpdate m \<longleftrightarrow> hasSnapshot m \<and> playersReady (snapshot m) \<and> snapPieces (snapshot m) \<noteq> []"

text \<open>The state shows the snapshot of one of the messages, and none of them is later.\<close>

definition showsLatest :: "Message set \<Rightarrow> ClientGameState \<Rightarrow> bool" where
  "showsLatest M s \<longleftrightarrow> initialized s \<and> playersReady (currentSnapshot s) \<and> (\<exists>m \<in> M. currentSnapshot s = snapshot m) \<and>
     (\<forall>m \<in> M. serverTimeMs (snapshot m) \<le> serverTimeMs (currentSnapshot s))"

lemma showsLatest_first: "gameUpdate m \<Longrightarrow> showsLatest {m} (snd (applyMessage m newClientGameState))"
  by (simp add: showsLatest_def applyMessage_def gameUpdate_def newClientGameState_def)

lemma showsLatest_step: "gameUpdate m \<Longrightarrow> showsLatest M s \<Longrightarrow> showsLatest (insert m M) (snd (applyMessage m s))"
  by (auto simp: showsLatest_def applyMessage_def gameUpdate_def)

lemma showsLatest_all: "list_all gameUpdate ms \<Longrightarrow> showsLatest M s \<Longrightarrow> showsLatest (M \<union> set ms) (applyAll ms s)"
proof (induction ms arbitrary: M s)
  case (Cons m ms)
  then have "showsLatest (insert m M \<union> set ms) (applyAll ms (snd (applyMessage m s)))"
    using Cons.IH [OF _ showsLatest_step [of m M s]] by simp
  then show ?case by simp
qed simp


definition demoUpdate :: "int \<Rightarrow> Message" where
  "demoUpdate t = newMessage\<lparr>hasSnapshot := True, snapshot := newSnapshot\<lparr>serverTimeMs := t, playersReady := True,
     snapPieces := [\<lparr>ps_id = 1, ps_token = ''wK'', ps_position = Position 7 4, ps_state = ''idle'',
       ps_hasMoved = False, ps_remainingCooldownMs = 0, ps_totalCooldownMs = 0\<rparr>]\<rparr>\<rparr>"


section \<open>The countdown\<close>

text \<open>What happens to the phase machine: an observed snapshot with both clocks, or a lost connection.\<close>

datatype uiEvent =
  Observed GameStateSnapshot (epochClock: int) (steadyClock: int) | ConnectingMarked | ReconnectingMarked

fun displays :: "uiEvent list \<Rightarrow> ClientUiPhaseMachine \<Rightarrow> GameStartDisplay list" where
  "displays [] p = []"
| "displays (Observed s e t # es) p = (let (d, p1) = observe s e t p in d # displays es p1)"
| "displays (ConnectingMarked # es) p = displays es (markConnecting p)"
| "displays (ReconnectingMarked # es) p = displays es (markReconnecting p)"

fun steadyTimes :: "uiEvent list \<Rightarrow> int list" where
  "steadyTimes [] = []"
| "steadyTimes (Observed s e t # es) = t # steadyTimes es"
| "steadyTimes (_ # es) = steadyTimes es"

fun stillPlayed :: "uiEvent \<Rightarrow> bool" where
  "stillPlayed (Observed s e t) \<longleftrightarrow> \<not> snapGameOver s"
| "stillPlayed _ \<longleftrightarrow> True"

text \<open>The stages of the display: waiting, 3, 2, 1, GO!, playing.\<close>

definition stage :: "GameStartDisplay \<Rightarrow> nat" where
  "stage d = (if displayPhase d = Playing then 5
     else if displayPhase d \<noteq> Countdown then 0
     else if displayText d = ''3'' then 1 else if displayText d = ''2'' then 2
     else if displayText d = ''1'' then 3 else 4)"

definition reachedStage :: "ClientUiPhaseMachine \<Rightarrow> int \<Rightarrow> nat" where
  "reachedStage p t = (if playingReached p then 5
     else if startObserved p then stage (buildGameStartDisplay True (steadyStartMs p) t) else 0)"

lemma stage_build: "stage (buildGameStartDisplay True start t) =
    (if start - t \<le> 0 then 5 else if start - t \<le> 1000 then 4 else if start - t \<le> 2000 then 3
     else if start - t \<le> 3000 then 2 else 1)"
  by (simp add: buildGameStartDisplay_def stage_def Let_def)

lemma reachedStage_later: "t \<le> t' \<Longrightarrow> reachedStage p t \<le> reachedStage p t'"
  by (simp add: reachedStage_def stage_build)

lemma reachedStage_marks [simp]:
  "reachedStage (markConnecting p) t = reachedStage p t" "reachedStage (markReconnecting p) t = reachedStage p t"
  by (simp_all add: reachedStage_def markConnecting_def markReconnecting_def)

lemma build_Playing: "displayPhase (buildGameStartDisplay True start t) = Playing \<longleftrightarrow> start \<le> t"
  by (simp add: buildGameStartDisplay_def Let_def)

lemma stage_simps [simp]:
  "stage waitingDisplay = 0" "stage \<lparr>displayPhase = Playing, displayText = []\<rparr> = 5"
  by (simp_all add: stage_def waitingDisplay_def)

lemma observe_stage:
  assumes "\<not> snapGameOver s"
  shows "reachedStage p t \<le> stage (fst (observe s e t p))"
    "reachedStage (snd (observe s e t p)) t = stage (fst (observe s e t p))"
proof -
  consider "playingReached p" | "\<not> playingReached p" "startObserved p"
    | "\<not> playingReached p" "\<not> startObserved p" by blast
  then have "reachedStage p t \<le> stage (fst (observe s e t p)) \<and>
      reachedStage (snd (observe s e t p)) t = stage (fst (observe s e t p))"
    by cases (use assms in \<open>simp_all add: observe_def reachedStage_def Let_def build_Playing stage_build\<close>)
  then show "reachedStage p t \<le> stage (fst (observe s e t p))"
    "reachedStage (snd (observe s e t p)) t = stage (fst (observe s e t p))" by blast+
qed

lemma displays_advance:
  "\<lbrakk>sorted (t # steadyTimes es); list_all stillPlayed es\<rbrakk> \<Longrightarrow> sorted (reachedStage p t # map stage (displays es p))"
proof (induction es arbitrary: p t)
  case (Cons ev es)
  show ?case
  proof (cases ev)
    case (Observed s e u)
    define p1 where "p1 = snd (observe s e u p)"
    note o = observe_stage [where s = s and p = p and t = u and e = e, folded p1_def]
    have "reachedStage p t \<le> reachedStage p u" using Cons.prems Observed by (intro reachedStage_later) simp
    also have "\<dots> \<le> stage (fst (observe s e u p))" using o Cons.prems Observed by simp
    finally have here: "reachedStage p t \<le> stage (fst (observe s e u p))" .
    have "sorted (reachedStage p1 u # map stage (displays es p1))"
      using Cons.prems Observed by (intro Cons.IH) simp_all
    then have "sorted (stage (fst (observe s e u p)) # map stage (displays es p1))"
      using o Cons.prems Observed by simp
    then show ?thesis using here Observed by (auto simp: case_prod_beta p1_def)
  next
    case ConnectingMarked
    then show ?thesis using Cons.IH [of t "markConnecting p"] Cons.prems by simp
  next
    case ReconnectingMarked
    then show ?thesis using Cons.IH [of t "markReconnecting p"] Cons.prems by simp
  qed
qed simp

text \<open>The countdown of the client only moves forward, from waiting over 3, 2, 1 and GO! to
  playing, in whatever order snapshots arrive, whatever the wall clock does and however often the
  connection is lost, as long as the game is not over and the steady clock does not go back.\<close>

theorem countdown_only_advances:
  assumes "sorted (steadyTimes es)" "list_all stillPlayed es"
  shows "sorted (map stage (displays es newPhaseMachine))"
proof -
  obtain t where "\<forall>u \<in> set (steadyTimes es). t \<le> u"
    by (cases "steadyTimes es = []") (auto intro: Min_le [of "set (steadyTimes es)"])
  then have "sorted (reachedStage newPhaseMachine t # map stage (displays es newPhaseMachine))"
    using assms by (intro displays_advance) simp_all
  then show ?thesis by simp
qed

definition demoReady :: GameStateSnapshot where
  "demoReady = newSnapshot\<lparr>playersReady := True, gameplayStartsAtEpochMs := 9000\<rparr>"

definition demoEvents :: "uiEvent list" where
  "demoEvents = [Observed newSnapshot 5000 100, Observed demoReady 5500 600, ReconnectingMarked,
     Observed demoReady 1000 2700, Observed newSnapshot 9000 4099, Observed demoReady 0 4100]"

theorem countdown_only_advances_witness:
  "map stage (displays demoEvents newPhaseMachine) = [0, 1, 3, 4, 5] \<and> sorted (map stage (displays demoEvents newPhaseMachine))"
proof -
  have "map stage (displays demoEvents newPhaseMachine) = [0, 1, 3, 4, 5]" by code_simp
  moreover have "sorted (steadyTimes demoEvents)" "list_all stillPlayed demoEvents" by code_simp+
  ultimately show ?thesis using countdown_only_advances [of demoEvents] by blast
qed

text \<open>C24: A client that sees the snapshot of a started game at wall time \<open>e\<close>, with the server's
  clock, shows the countdown from then on exactly as long as the server refuses requests: \<open>d\<close>
  milliseconds later, by the client's steady clock and whatever its wall clock says by then, it
  shows the game as being played if and only if the server accepts requests at \<open>e + d\<close>.\<close>

theorem countdown_ends_when_the_server_accepts:
  assumes "gameStarted s" "startsAtEpochMs s > 0" "\<not> gameOver (game s)" "\<not> snapGameOver later" "d \<ge> 0"
  shows "displayPhase (fst (observe later e' (t + d) (snd (observe (buildSnapshot s) e t newPhaseMachine)))) =
    (if isGameplayEnabled (e + d) s then Playing else Countdown)"
proof -
  have "playersReady (buildSnapshot s)" "gameplayStartsAtEpochMs (buildSnapshot s) = startsAtEpochMs s"
    "\<not> snapGameOver (buildSnapshot s)"
    using assms(1,3) by (simp_all add: buildSnapshot_def build_def)
  then show ?thesis
    using assms by (simp add: observe_def isGameplayEnabled_def newPhaseMachine_def buildGameStartDisplay_def Let_def)
qed

theorem countdown_ends_when_the_server_accepts_witness:
  "displayPhase (fst (observe newSnapshot 77 (100 + 3999)
     (snd (observe (buildSnapshot (newGameServer\<lparr>gameStarted := True, startsAtEpochMs := 4000\<rparr>)) 0 100 newPhaseMachine)))) = Countdown"
proof -
  have "\<not> gameOver (game newGameServer)" "\<not> snapGameOver newSnapshot" by code_simp+
  then show ?thesis
    using countdown_ends_when_the_server_accepts
      [of "newGameServer\<lparr>gameStarted := True, startsAtEpochMs := 4000\<rparr>" newSnapshot 3999 77 100 0]
    by (simp add: isGameplayEnabled_def)
qed

end
