(* ===== verification/Game_Client.thy ===== *)
theory Game_Client
  imports Protocol
begin

text \<open>
  The network side of the desktop client,
  \<open>src/client/desktop_client/src/Client/GameClient.cpp\<close>: one connection to the server, a receiver
  thread that queues what arrives, and the requests of the user interface that wait for their
  response. The threads share the state of one object; an operation here is what one thread
  does between two waits. Opening a connection and sending on it are parameters: their results
  are a connection or nothing, or the text of an exception. The text of an exception of
  \<open>Protocol\<close> is the argument \<open>what\<close>.
\<close>

section \<open>State\<close>

record GameClient =
  tcp :: "nat option"
  gcConnected :: bool
  playerAssigned :: bool
  gcGameStarted :: bool
  gameEverStarted :: bool
  gcGameFull :: bool
  gcReconnecting :: bool
  tryingToReconnect :: bool
  gcGameClosed :: bool
  stopRequested :: bool
  reconnectSecondsRemaining :: int
  gcColor :: PieceColor
  nextSequence :: "64 word"
  receiverJoinable :: bool
  incomingMessages :: "Message list"
  connectionError :: string
  gcToken :: string
  gcUsername :: string
  gcWhiteUsername :: string
  gcBlackUsername :: string
  serverIp :: string
  serverPort :: int

text \<open>The token may come from the environment variable \<open>CTD_RECONNECT_TOKEN\<close>.\<close>

definition newGameClient :: "string option \<Rightarrow> GameClient" where
  "newGameClient environment = \<lparr>tcp = None, gcConnected = False, playerAssigned = False, gcGameStarted = False,
     gameEverStarted = False, gcGameFull = False, gcReconnecting = False, tryingToReconnect = False,
     gcGameClosed = False, stopRequested = False, reconnectSecondsRemaining = 0, gcColor = White,
     nextSequence = 1, receiverJoinable = False, incomingMessages = [], connectionError = [],
     gcToken = (case environment of None \<Rightarrow> [] | Some t \<Rightarrow> t), gcUsername = [], gcWhiteUsername = [],
     gcBlackUsername = [], serverIp = [], serverPort = 0\<rparr>"

type_synonym opener = "string \<Rightarrow> int \<Rightarrow> string + nat"

type_synonym sender = "nat \<Rightarrow> string \<Rightarrow> string option"

section \<open>Connecting\<close>

definition handshakeMessage :: "GameClient \<Rightarrow> Message" where
  "handshakeMessage s = newMessage\<lparr>msgType := ReconnectRequest, Message.reconnectToken := gcToken s, username := gcUsername s\<rparr>"

text \<open>A connection that is not kept is closed by its destructor; only a kept one is in the state.\<close>

definition connectWithSavedToken :: "opener \<Rightarrow> sender \<Rightarrow> string \<Rightarrow> GameClient \<Rightarrow> bool \<times> GameClient" where
  "connectWithSavedToken dial send what s =
     (case dial (serverIp s) (serverPort s) of
        Inl e \<Rightarrow> (False, s\<lparr>connectionError := e\<rparr>)
      | Inr c \<Rightarrow>
          (case serialize (handshakeMessage s) of
             None \<Rightarrow> (False, s\<lparr>connectionError := what\<rparr>)
           | Some t \<Rightarrow>
               (case send c t of
                  Some e \<Rightarrow> (False, s\<lparr>connectionError := e\<rparr>)
                | None \<Rightarrow>
                    (if stopRequested s then (False, s)
                     else (True, s\<lparr>tcp := Some c, gcConnected := True, connectionError := []\<rparr>)))))"

datatype connectOutcome = AlreadyConnected | ConnectFailed string | ProgramTerminated | ReceiverStarted

text \<open>
  Assigning a new thread to \<open>receiverThread\<close> while it is joinable ends the program, by the
  rule of \<open>std::thread\<close>.
\<close>

definition resetClient :: "string \<Rightarrow> int \<Rightarrow> string \<Rightarrow> GameClient \<Rightarrow> GameClient" where
  "resetClient ip port name s =
     (let s1 = s\<lparr>incomingMessages := [], connectionError := [], serverIp := ip, serverPort := port,
             gcUsername := name, gcWhiteUsername := [], gcBlackUsername := []\<rparr>
      in s1\<lparr>stopRequested := False, playerAssigned := False, gcGameStarted := False,
             gameEverStarted := False, gcGameFull := False, gcReconnecting := False,
             tryingToReconnect := False, gcGameClosed := False, reconnectSecondsRemaining := 0,
             gcColor := White, nextSequence := 1\<rparr>)"

definition connectClient ::
    "opener \<Rightarrow> sender \<Rightarrow> string \<Rightarrow> string \<Rightarrow> int \<Rightarrow> string \<Rightarrow> GameClient \<Rightarrow> connectOutcome \<times> GameClient" where
  "connectClient dial send what ip port name s =
     (if gcConnected s then (AlreadyConnected, s)
      else let (ok, s1) = connectWithSavedToken dial send what (resetClient ip port name s)
        in if \<not> ok then (ConnectFailed (connectionError s1), s1)
           else if receiverJoinable s1 then (ProgramTerminated, s1)
           else (ReceiverStarted, s1\<lparr>receiverJoinable := True\<rparr>))"

section \<open>The receiver thread\<close>

definition markConnectionLost :: "string \<Rightarrow> GameClient \<Rightarrow> GameClient" where
  "markConnectionLost e s =
     (let s1 = s\<lparr>gcConnected := False\<rparr>;
          s2 = (if playerAssigned s1 \<and> \<not> gcGameFull s1 \<and> \<not> gcGameClosed s1 \<and> \<not> stopRequested s1
                then s1\<lparr>tryingToReconnect := True\<rparr> else s1)
      in s2\<lparr>connectionError := e\<rparr>)"

definition noteUsernames :: "Message \<Rightarrow> GameClient \<Rightarrow> GameClient" where
  "noteUsernames m s =
     (if hasSnapshot m
      then let s1 = (if snapWhiteUsername (snapshot m) \<noteq> [] then s\<lparr>gcWhiteUsername := snapWhiteUsername (snapshot m)\<rparr> else s)
           in (if snapBlackUsername (snapshot m) \<noteq> [] then s1\<lparr>gcBlackUsername := snapBlackUsername (snapshot m)\<rparr> else s1)
      else if msgType m = PlayerAssigned \<or> msgType m = MessageType.GameStarted
      then s\<lparr>gcWhiteUsername := whiteUsername m, gcBlackUsername := blackUsername m\<rparr>
      else s)"

text \<open>The assignment: \<open>None\<close> is the exception on a color that is neither white nor black.\<close>

definition takeAssignment :: "Message \<Rightarrow> GameClient \<Rightarrow> GameClient option" where
  "takeAssignment m s =
     (let assigned = (\<lambda>c. Some (s\<lparr>gcColor := c, playerAssigned := True,
            gcToken := Message.reconnectToken m, gcUsername := username m\<rparr>))
      in if playerColor m = ''white'' then assigned White
         else if playerColor m = ''black'' then assigned Black
         else None)"

definition noteStatus :: "Message \<Rightarrow> GameClient \<Rightarrow> GameClient" where
  "noteStatus m s =
     (case msgType m of
        WaitingForOpponent \<Rightarrow>
          (let s1 = (if gameEverStarted s then s else s\<lparr>gcGameStarted := False\<rparr>)
           in s1\<lparr>gcReconnecting := False, tryingToReconnect := False, reconnectSecondsRemaining := 0\<rparr>)
      | MessageType.GameStarted \<Rightarrow>
          s\<lparr>gcGameStarted := True, gameEverStarted := True, gcReconnecting := False,
            tryingToReconnect := False, reconnectSecondsRemaining := 0\<rparr>
      | GameFull \<Rightarrow> s\<lparr>gcGameStarted := False, tryingToReconnect := False, gcGameFull := True\<rparr>
      | Reconnecting \<Rightarrow> s\<lparr>gcReconnecting := True, reconnectSecondsRemaining := secondsRemaining m\<rparr>
      | GameClosed \<Rightarrow>
          s\<lparr>gcGameStarted := False, gcReconnecting := False, tryingToReconnect := False,
            gcGameClosed := True, reconnectSecondsRemaining := 0\<rparr>
      | _ \<Rightarrow> s)"

text \<open>
  One line from the connection, with the handler of exceptions around the loop. The empty line is
  the end of the stream.
\<close>

definition lineFailed :: "string \<Rightarrow> GameClient \<Rightarrow> GameClient" where
  "lineFailed e s = (if stopRequested s then s else markConnectionLost e s)"

definition receiveLine :: "string \<Rightarrow> string \<Rightarrow> GameClient \<Rightarrow> GameClient" where
  "receiveLine what json s =
     (if json = [] then markConnectionLost ''Server disconnected'' s
      else case deserialize json of
        None \<Rightarrow> lineFailed what s
      | Some m \<Rightarrow>
          (let s1 = noteUsernames m s in
           if msgType m = PlayerAssigned
           then (case takeAssignment m s1 of
                   None \<Rightarrow> lineFailed ''Server assigned an invalid player color'' s1
                 | Some s2 \<Rightarrow> s2)
           else let s2 = noteStatus m s1 in s2\<lparr>incomingMessages := incomingMessages s2 @ [m]\<rparr>))"

text \<open>What follows the receiving loop: the thread ends (\<open>True\<close>) or starts to reconnect.\<close>

definition leaveOrRetry :: "GameClient \<Rightarrow> bool \<times> GameClient" where
  "leaveOrRetry s =
     (if stopRequested s \<or> gcGameFull s \<or> gcGameClosed s \<or> \<not> playerAssigned s
      then (True, s\<lparr>gcConnected := False\<rparr>)
      else (False, s\<lparr>tryingToReconnect := True\<rparr>))"

text \<open>One round of the reconnecting loop; \<open>True\<close> when it is left. The wait of a second is before it.\<close>

definition retryRound :: "opener \<Rightarrow> sender \<Rightarrow> string \<Rightarrow> GameClient \<Rightarrow> bool \<times> GameClient" where
  "retryRound dial send what s =
     (if stopRequested s \<or> gcGameClosed s \<or> gcGameFull s \<or> gcConnected s then (True, s)
      else connectWithSavedToken dial send what s)"

text \<open>\<open>disconnect\<close> waits for the receiver thread, which ends when a stop is requested.\<close>

definition disconnectClient :: "GameClient \<Rightarrow> GameClient" where
  "disconnectClient s =
     (let s1 = s\<lparr>stopRequested := True, tryingToReconnect := False, gcGameStarted := False\<rparr>;
          s2 = s1\<lparr>receiverJoinable := False\<rparr>
      in s2\<lparr>gcConnected := False, tcp := None\<rparr>)"

section \<open>Requests and updates\<close>

definition getAssignedColorOf :: "GameClient \<Rightarrow> string + PieceColor" where
  "getAssignedColorOf s =
     (if \<not> playerAssigned s then Inl ''Player color has not been assigned'' else Inr (gcColor s))"

definition createSequence :: "GameClient \<Rightarrow> 64 word \<times> GameClient" where
  "createSequence s = (nextSequence s, s\<lparr>nextSequence := nextSequence s + 1\<rparr>)"

definition sendToServer :: "sender \<Rightarrow> string \<Rightarrow> Message \<Rightarrow> GameClient \<Rightarrow> string option \<times> GameClient" where
  "sendToServer send what m s =
     (if \<not> gcConnected s then (Some ''GameClient is not connected'', s)
      else case serialize m of
        None \<Rightarrow> (Some what, s)
      | Some t \<Rightarrow>
          (case (case tcp s of None \<Rightarrow> Some ''TcpConnection: socket is not open'' | Some c \<Rightarrow> send c t) of
             Some e \<Rightarrow> (Some e, markConnectionLost ''TcpConnection: send failed'' s)
           | None \<Rightarrow> (None, s)))"

definition isMatchingResponse :: "64 word \<Rightarrow> Message \<Rightarrow> bool" where
  "isMatchingResponse sq m =
     (if sequence m \<noteq> sq then False else msgType m = MoveAccepted \<or> msgType m = MoveRejected)"

text \<open>The first message that satisfies \<open>P\<close>, and the queue without it.\<close>

fun takeFirst :: "(Message \<Rightarrow> bool) \<Rightarrow> Message list \<Rightarrow> (Message \<times> Message list) option" where
  "takeFirst P [] = None"
| "takeFirst P (m # q) =
     (if P m then Some (m, q) else map_option (\<lambda>(x, r). (x, m # r)) (takeFirst P q))"

text \<open>The end of the wait for a response: the state is the one in which the wait ends.\<close>

definition waitForResponse :: "64 word \<Rightarrow> int \<Rightarrow> GameClient \<Rightarrow> (string + Message) \<times> GameClient" where
  "waitForResponse sq timeoutMs s =
     (if timeoutMs \<le> 0 then (Inl ''Timeout must be positive'', s)
      else if \<not> list_ex (isMatchingResponse sq) (incomingMessages s) \<and> gcConnected s
      then (Inl ''Timed out while waiting for server response'', s)
      else case takeFirst (isMatchingResponse sq) (incomingMessages s) of
        Some (m, q) \<Rightarrow> (Inr m, s\<lparr>incomingMessages := q\<rparr>)
      | None \<Rightarrow>
          (Inl (if connectionError s \<noteq> [] then connectionError s
                else ''Connection closed before the response arrived''), s))"

definition isUpdate :: "Message \<Rightarrow> bool" where
  "isUpdate m \<longleftrightarrow> msgType m \<noteq> MoveAccepted \<and> msgType m \<noteq> MoveRejected"

definition tryReceiveUpdate :: "GameClient \<Rightarrow> Message option \<times> GameClient" where
  "tryReceiveUpdate s =
     (case takeFirst isUpdate (incomingMessages s) of
        None \<Rightarrow> (None, s)
      | Some (m, q) \<Rightarrow> (Some m, s\<lparr>incomingMessages := q\<rparr>))"

end
