(* ===== verification/Server_Runs.thy ===== *)
theory Server_Runs
  imports Server_Steps
begin

text \<open>
  The step relation of the server and the invariant over its runs.
\<close>

section \<open>Requests\<close>

definition foreignPiece :: "sref \<Rightarrow> Message \<Rightarrow> GameServer \<Rightarrow> bool" where
  "foreignPiece r request s \<longleftrightarrow>
     (case getPieceAt (board (game s)) (msgSource request) of
        None \<Rightarrow> False
      | Some p \<Rightarrow> getColor (pieceOf (game s) p) \<noteq> assignedColor (sessions s r))"

lemma respond_cases:
  assumes "requests s = newMessageBus"
  shows "respond cfg epoch r request s =
    (if \<not> isGameplayEnabled epoch s
     then (Inr (refusal request (if gameStarted s then ''countdown_in_progress'' else ''waiting_for_opponent'') s), s)
     else if foreignPiece r request s then (Inr (refusal request ''not_your_piece'' s), s)
     else (Inr (answer cfg request (game s)), onGame (\<lambda>g. snd (handleMessage cfg request g)) s))"
proof -
  let ?bus = "sendToEngine request (requests s)"
  have bus: "clientToEngine ?bus = [request]" "engineToClient ?bus = []"
    by (simp_all add: assms sendToEngine_def newMessageBus_def)
  have step: "processNextMessage cfg (game s, ?bus) = (True, snd (handleMessage cfg request (game s)),
      ?bus\<lparr>clientToEngine := [], engineToClient := [answer cfg request (game s)]\<rparr>)"
    using processNextMessage_Cons [OF bus(1)] bus(2) by simp
  have idle: "?bus\<lparr>clientToEngine := [], engineToClient := []\<rparr> = requests s"
    by (simp add: assms sendToEngine_def newMessageBus_def)
  have same: "onGame (\<lambda>_. g) (s\<lparr>requests := b\<rparr>)\<lparr>requests := requests s\<rparr> = onGame (\<lambda>_. g) s" for g b
    by (simp add: onGame_def Let_def)
  have game: "onGame (\<lambda>_. f (game s)) s = onGame f s" for f
    by (simp add: onGame_def)
  have got: "requests (onGame (\<lambda>_. g) (s\<lparr>requests := b\<rparr>)) = b" for g b
    by (simp add: onGame_def Let_def)
  show ?thesis
    by (simp add: respond_def foreignPiece_def step got hasMessageForClient_def receiveForClient_def idle same
        game [of "\<lambda>g. snd (handleMessage cfg request g)"])
qed

lemma serverOk_respond:
  assumes "serverOk s"
  shows "serverOk (snd (respond cfg epoch r request s))"
proof -
  have "requests s = newMessageBus" "engine_wf (game s)" using assms by (simp_all add: serverOk_def)
  then show ?thesis using assms by (simp add: respond_cases serverOk_onGame wf_handleMessage)
qed

lemma serverOk_handleRequest:
  assumes "serverOk s"
  shows "serverOk (snd (handleRequest cfg net epoch r t s))"
proof (cases "deserialize t")
  case None
  then show ?thesis using assms by (simp add: handleRequest_def)
next
  case (Some request)
  have "serverOk s1" if "respond cfg epoch r request s = (x, s1)" for x s1
    using serverOk_respond [OF assms, of cfg epoch r request] that by simp
  then show ?thesis
    by (auto simp: handleRequest_def Some split: prod.split sum.split intro: server.sendTo)
qed

section \<open>Joining\<close>

lemma hexDigits_nonempty: "hexDigits n \<noteq> []"
  by (subst hexDigits.simps) simp

lemma token_nonempty [simp]: "createReconnectToken a b i \<noteq> []"
  by (simp add: createReconnectToken_def toHex_def hexDigits_nonempty)

lemma serverOk_nextId: "serverOk s \<Longrightarrow> serverOk (s\<lparr>nextClientId := i\<rparr>)"
  by (rule serverOk_frame [of s]) (simp_all add: serverOk_def)

text \<open>A new session in one of the slots, with no reconnection period afterwards.\<close>

lemma serverOk_seat:
  assumes ok: "serverOk s" "\<not> closingExpiredGame s"
    and same: "game s' = game s" "requests s' = requests s" "gameStarted s' = gameStarted s"
      "gameWasStarted s' = gameWasStarted s" "closingExpiredGame s' = closingExpiredGame s" "\<not> reconnectionPending s'"
    and session: "sessionCount s' = Suc (sessionCount s)" "sessions s' = (sessions s)(sessionCount s := x)"
    and slots: "if assignedColor x = White
      then whitePlayer s' = Some (sessionCount s) \<and> whiteReconnectToken s' \<noteq> [] \<and>
        blackPlayer s' = blackPlayer s \<and> blackReconnectToken s' = blackReconnectToken s
      else blackPlayer s' = Some (sessionCount s) \<and> blackReconnectToken s' \<noteq> [] \<and>
        whitePlayer s' = whitePlayer s \<and> whiteReconnectToken s' = whiteReconnectToken s"
  shows "serverOk s'"
proof -
  have old: "slotOk White (whitePlayer s) (whiteReconnectToken s) s" "slotOk Black (blackPlayer s) (blackReconnectToken s) s"
    "startedOk s" using ok(1) by (simp_all add: serverOk_def)
  have "slotOk White (whitePlayer s') (whiteReconnectToken s') s'"
    using slots old(1) by (cases "assignedColor x") (auto simp: slotOk_def session)
  moreover have "slotOk Black (blackPlayer s') (blackReconnectToken s') s'"
    using slots old(2) by (cases "assignedColor x") (auto simp: slotOk_def session)
  moreover have "startedOk s'"
    using slots old(3) same ok(2) by (cases "assignedColor x") (auto simp: startedOk_def)
  ultimately show ?thesis
    using ok same by (simp add: serverOk_def pendingOk_def closingOk_def)
qed

lemma serverOk_create:
  assumes "serverOk s"
  shows "serverOk (snd (createSession net random c tok name s))"
proof -
  define s0 where "s0 = s\<lparr>nextClientId := nextClientId s + 1\<rparr>"
  have ok: "serverOk s0" using assms unfolding s0_def by (rule serverOk_nextId)
  have pending: "reservedToken s0 \<noteq> []" if "reconnectionPending s0"
    using ok that by (simp add: serverOk_def pendingOk_def)
  note seat = serverOk_seat [OF ok]
  show ?thesis
    unfolding createSession_def Let_def s0_def [symmetric]
    using server.reply [OF ok]
    by (auto simp: makeSession_def reservedToken_def Let_def intro: seat)
qed

lemma serverOk_accept:
  assumes "serverOk s"
  shows "serverOk (snd (acceptClient net random c json s))"
proof -
  have created: "serverOk s1" if "createSession net random c tok name s = (x, s1)" for x s1 tok name
    using serverOk_create [OF assms, of net random c tok name] that by simp
  then show ?thesis
    using assms serverOk_sends [OF afterSends_close]
    by (auto simp: acceptClient_def split: option.split prod.split sum.split)
qed

section \<open>The game loop\<close>

lemma serverOk_round:
  assumes "serverOk s" "gameLoopRound cfg net clock (l, s) = Inr (l', s')"
  shows "serverOk s'"
proof -
  let ?s = "updateReconnectionState net clock s"
  have ok: "serverOk ?s" using assms(1) by (rule serverOk_update)
  have waited: "serverOk (onGame (\<lambda>g. runOp cfg g (OpWait ms)) ?s)" for ms
    using ok by (simp add: serverOk_onGame wf_runOp serverOk_def [of ?s])
  have sent: "serverOk x" if "broadcastMessage net clock m y = (e, x)" "serverOk y" for m e x y
    using server.broadcastMessages [OF that(2), of net clock m] that(1) by simp
  show ?thesis
    using assms(2) ok waited
    by (auto simp: gameLoopRound_def Let_def split: if_splits prod.splits option.splits dest: sent)
qed

section \<open>Runs\<close>

text \<open>
  Any thread may run any of its sections next. The clocks, the outcome of sends, the random
  words and the texts received are whatever they are. \<open>lost\<close> and \<open>left\<close> are the two halves of the
  end of a session; the rounds of the game loop include the closing of an expired game in one
  piece, and \<open>expire\<close>, \<open>restart\<close> and \<open>reopen\<close> are its three sections.
\<close>

inductive serverStep :: "configReader \<Rightarrow> GameLoop \<times> GameServer \<Rightarrow> GameLoop \<times> GameServer \<Rightarrow> bool" for cfg where
  accept: "serverStep cfg (l, s) (l, snd (acceptClient net random c json s))"
| greeting: "serverStep cfg (l, s) (l, guarded net clock r (greet net r s))"
| initial: "serverStep cfg (l, s) (l, guarded net clock r (sendInitialState net r s))"
| start: "serverStep cfg (l, s) (l, guarded net clock r (startOrWait net clock epoch r s))"
| request: "serverStep cfg (l, s) (l, guarded net clock r (handleRequest cfg net epoch r json s))"
| lost: "serverStep cfg (l, s) (l, disconnect r s)"
| left: "serverStep cfg (l, s) (l, removeSession net clock r s)"
| round: "gameLoopRound cfg net clock (l, s) = Inr (l', s') \<Longrightarrow> serverStep cfg (l, s) (l', s')"
| expire: "reconnectionPending s \<Longrightarrow> clock \<ge> reconnectionDeadline s \<Longrightarrow> serverStep cfg (l, s) (l, snd (closeBegin net s))"
| restart: "closingExpiredGame s \<Longrightarrow> serverStep cfg (l, s) (l, closeEngine b s)"
| reopen: "closingExpiredGame s \<Longrightarrow> serverStep cfg (l, s) (l, closeFinish s)"

inductive_cases serverStepE: "serverStep cfg (l, s) (l', s')"

inductive serverReachable :: "configReader \<Rightarrow> GameLoop \<times> GameServer \<Rightarrow> bool" for cfg where
  boot: "serverReachable cfg (l, newGameServer)"
| step: "serverReachable cfg x \<Longrightarrow> serverStep cfg x y \<Longrightarrow> serverReachable cfg y"

lemma serverOk_sendInitial: "serverOk s \<Longrightarrow> serverOk (snd (sendInitialState net r s))"
  by (simp add: sendInitialState_def server.sendTo)

lemma serverOk_greet: "serverOk s \<Longrightarrow> serverOk (snd (greet net r s))"
  by (simp add: greet_def server.sendTo)

lemma serverOk_step: "serverStep cfg (l, s) (l', s') \<Longrightarrow> serverOk s \<Longrightarrow> serverOk s'"
  by (erule serverStepE)
    (auto intro: server.guards serverOk_greet serverOk_sendInitial serverOk_startOrWait
      serverOk_handleRequest server.removes serverOk_closeEngine serverOk_closeFinish serverOk_accept
      serverOk_round serverOk_closeBegin(1) serverOk_sends [OF afterSends_disconnect])

lemma serverOk_reachable: "serverReachable cfg x \<Longrightarrow> serverOk (snd x)"
proof (induction rule: serverReachable.induct)
  case (step x y)
  then show ?case using serverOk_step [of cfg "fst x" "snd x" "fst y" "snd y"] by simp
qed (simp add: serverOk_new)

section \<open>The engine of the server\<close>

text \<open>The games the engine can play from the initial position.\<close>

definition played :: "configReader \<Rightarrow> GameEngine \<Rightarrow> bool" where
  "played cfg g \<longleftrightarrow> (\<exists>ops. g = runOps cfg newGame ops)"

lemma played_new [simp]: "played cfg newGame"
  unfolding played_def runOps_def by (rule exI [of _ "[]"]) simp

lemma played_runOp: "played cfg g \<Longrightarrow> played cfg (runOp cfg g action)"
proof -
  assume "played cfg g"
  then obtain ops where "g = runOps cfg newGame ops" unfolding played_def by blast
  then have "runOp cfg g action = runOps cfg newGame (ops @ [action])" by (simp add: runOps_def)
  then show ?thesis unfolding played_def by blast
qed

lemma played_handle: "played cfg g \<Longrightarrow> played cfg (snd (handleMessage cfg m g))"
  using played_runOp [of cfg g "OpMove (msgSource m) (msgDestination m)"] played_runOp [of cfg g "OpJump (msgSource m)"]
  by (simp add: handleMessage_engine runOp_def split: MessageType.split)

lemma dropSession_keeps:
  "game (snd (snd (dropSession clock r s))) = game s"
  "expiredReconnectTokens (snd (snd (dropSession clock r s))) = expiredReconnectTokens s"
  by (simp_all add: dropSession_def clearSlotNames_def Let_def)

interpretation engine: session_invariant "\<lambda>s. played cfg (game s)" for cfg
  by unfold_locales (simp_all add: afterSends_fields(2) dropSession_keeps)

interpretation expired: session_invariant "\<lambda>s. X \<subseteq> expiredReconnectTokens s" for X
  by unfold_locales (simp_all add: afterSends_fields(13) dropSession_keeps)

lemma closeBegin_fields:
  "game (snd (closeBegin net s)) = game s"
  "expiredReconnectTokens s \<subseteq> expiredReconnectTokens (snd (closeBegin net s))"
  using afterSends_fields(2,13) [OF closeBegin_after [THEN conjunct1, of _ net]]
  by (auto simp: closeBegin_def Let_def)

lemma close_fields:
  "game (closeEngine b s) = newGame" "game (closeFinish s) = game s"
  "expiredReconnectTokens (closeEngine b s) = expiredReconnectTokens s"
  "expiredReconnectTokens (closeFinish s) = expiredReconnectTokens s"
  by (simp_all add: closeEngine_def closeFinish_def Let_def)

lemma create_keeps:
  "game (snd (createSession net random c tok name s)) = game s"
  "expiredReconnectTokens (snd (createSession net random c tok name s)) = expiredReconnectTokens s"
proof -
  have reply: "game (snd (replyAndClose net c m x)) = game x"
    "expiredReconnectTokens (snd (replyAndClose net c m x)) = expiredReconnectTokens x" for m x
    using afterSends_fields(2,13) [OF afterSends_reply] by (cases "replyAndClose net c m x"; simp)+
  show "game (snd (createSession net random c tok name s)) = game s"
    "expiredReconnectTokens (snd (createSession net random c tok name s)) = expiredReconnectTokens s"
    by (simp_all add: createSession_def Let_def makeSession_def reply)
qed

text \<open>
  What keeps a property in every step: it survives messages and removals, looks at the engine and
  the expired tokens only, and is kept by requests, by time, by a new game and by more tokens.
\<close>

locale step_invariant = session_invariant P for P +
  fixes cfg
  assumes looks: "P s \<Longrightarrow> game s' = game s \<Longrightarrow> expiredReconnectTokens s \<subseteq> expiredReconnectTokens s' \<Longrightarrow> P s'"
    and plays: "P s \<Longrightarrow> P (onGame (\<lambda>g. runOp cfg g action) s)"
    and requests: "P s \<Longrightarrow> P (onGame (\<lambda>g. snd (handleMessage cfg m g)) s)"
    and restarts: "P s \<Longrightarrow> P (closeEngine b s)"
begin

lemma responds: "serverOk s \<Longrightarrow> P s \<Longrightarrow> P (snd (respond cfg epoch r request s))"
  by (simp add: respond_cases serverOk_def requests)

lemma handles:
  assumes "serverOk s" "P s"
  shows "P (snd (handleRequest cfg net epoch r t s))"
proof (cases "deserialize t")
  case None
  then show ?thesis using assms by (simp add: handleRequest_def)
next
  case (Some request)
  have "P s1" if "respond cfg epoch r request s = (x, s1)" for x s1
    using responds [OF assms, of epoch r request] that by simp
  then show ?thesis
    by (auto simp: handleRequest_def Some split: prod.split sum.split intro: sendTo)
qed

lemma accepts:
  assumes "P s"
  shows "P (snd (acceptClient net random c json s))"
proof -
  have "P s1" if "createSession net random c tok name s = (x, s1)" for x s1 tok name
    by (rule looks [OF assms]) (use create_keeps [of net random c tok name s] that in simp_all)
  then show ?thesis
    using assms sends [OF afterSends_close]
    by (auto simp: acceptClient_def split: option.split prod.split sum.split)
qed

lemma starts: "P s \<Longrightarrow> P (snd (startOrWait net clock epoch r s))"
  using looks [of s "s\<lparr>gameStarted := True, startsAtEpochMs := epoch + 4000, gameWasStarted := True,
      reconnectionPending := False, subscribers := snd (publishStarted serverBus (subscribers s))\<rparr>"]
    looks [of s "s\<lparr>gameStarted := True, gameWasStarted := True, reconnectionPending := False\<rparr>"]
  by (simp add: startOrWait_def Let_def sendTo broadcastMessages)

lemma closes: "P s \<Longrightarrow> P (closeExpiredGame net s)"
proof -
  assume "P s"
  then have "P (snd (closeBegin net s))" by (rule looks) (rule closeBegin_fields)+
  then have "P (closeEngine (fst (closeBegin net s)) (snd (closeBegin net s)))" by (rule restarts)
  then show ?thesis
    unfolding closeExpiredGame_def case_prod_beta Let_def by (rule looks) (simp_all add: close_fields)
qed

lemma updates: "P s \<Longrightarrow> P (updateReconnectionState net clock s)"
  using looks [of s "s\<lparr>lastReconnectSecondsSent := secondsLeft (reconnectionDeadline s) clock\<rparr>"]
  by (simp add: updateReconnectionState_def sendReconnectingStatus_def Let_def closes broadcasts)

lemma rounds:
  assumes "P s" "gameLoopRound cfg net clock (l, s) = Inr (l', s')"
  shows "P s'"
proof -
  let ?s = "updateReconnectionState net clock s"
  have ok: "P ?s" using assms(1) by (rule updates)
  have sent: "P x" if "broadcastMessage net clock m y = (e, x)" "P y" for m e x y
    using broadcastMessages [OF that(2), of net clock m] that(1) by simp
  show ?thesis
    using assms(2) ok plays [OF ok]
    by (auto simp: gameLoopRound_def Let_def split: if_splits prod.splits option.splits dest: sent)
qed

lemma step_keeps:
  assumes "serverStep cfg (l, s) (l', s')" "serverOk s" "P s"
  shows "P s'"
proof -
  have "P (snd (closeBegin net s))" for net using assms(3) by (rule looks) (rule closeBegin_fields)+
  moreover have "P (closeFinish s)" using assms(3) by (rule looks) (simp_all add: close_fields)
  ultimately show ?thesis
    using assms
    by (elim serverStepE) (auto simp: greet_def sendInitialState_def
        intro: guards sendTo starts handles removes restarts accepts disconnects dest: rounds)
qed

lemma run_keeps:
  assumes "(serverStep cfg)\<^sup>*\<^sup>* x y" "serverOk (snd x)" "P (snd x)"
  shows "serverOk (snd y) \<and> P (snd y)"
  using assms(1)
proof (induction rule: rtranclp_induct)
  case (step y z)
  then show ?case
    using serverOk_step [of cfg "fst y" "snd y" "fst z" "snd z"] step_keeps [of "fst y" "snd y" "fst z" "snd z"] by simp
qed (use assms in simp)

end

interpretation engine_steps: step_invariant "\<lambda>s. played cfg (game s)" cfg for cfg
  by unfold_locales (auto simp: onGame_def Let_def close_fields intro: played_runOp played_handle)

interpretation expired_steps: step_invariant "\<lambda>s. X \<subseteq> expiredReconnectTokens s" cfg for X cfg
  by unfold_locales (auto simp: onGame_def Let_def close_fields)

lemma serverReachable_run: "serverReachable cfg x \<longleftrightarrow> (\<exists>l. (serverStep cfg)\<^sup>*\<^sup>* (l, newGameServer) x)"
proof
  assume "serverReachable cfg x"
  then show "\<exists>l. (serverStep cfg)\<^sup>*\<^sup>* (l, newGameServer) x"
    by (induction rule: serverReachable.induct) (auto intro: rtranclp.rtrancl_into_rtrancl)
next
  assume "\<exists>l. (serverStep cfg)\<^sup>*\<^sup>* (l, newGameServer) x"
  then obtain l where "(serverStep cfg)\<^sup>*\<^sup>* (l, newGameServer) x" by blast
  then show "serverReachable cfg x"
    by (induction rule: rtranclp_induct) (auto intro: serverReachable.intros)
qed

end
