(* ===== verification/Board_Text.thy ===== *)
theory Board_Text
  imports Board Cpp_Text
begin

text \<open>
  Boards as text: \<open>src/server/chess_server/src/IO/BoardParser.cpp\<close> and \<open>BoardPrinter.cpp\<close>, and
  the part of \<open>App/ConsoleApp.cpp\<close> that collects the lines of the board. The parser allocates a
  piece per token; the piece with id \<open>n\<close> is the reference \<open>n\<close> of the heap. What the parser writes
  to \<open>std::cout\<close> is part of its result.
\<close>

section \<open>Tokens\<close>

definition isAllowedToken :: "string \<Rightarrow> bool" where
  "isAllowedToken tok =
     (if tok = EMPTY_CELL then True
      else if length tok \<noteq> 2 then False
      else let color = tok ! 0; kind = tok ! 1;
               validColor = (color = CHR ''w'' \<or> color = CHR ''b'');
               validKind = (kind = CHR ''K'' \<or> kind = CHR ''Q'' \<or> kind = CHR ''R'' \<or>
                            kind = CHR ''B'' \<or> kind = CHR ''N'' \<or> kind = CHR ''P'')
           in validColor \<and> validKind)"

lemma skipSpace_Cons: "skipSpace s = c # cs \<Longrightarrow> \<not> isspace c \<and> length (c # cs) \<le> length s"
  unfolding skipSpace_def
  by (metis dropWhile_eq_Cons_conv length_dropWhile_le)

text \<open>\<open>stringstream >> token\<close>, until it fails: words separated by white space.\<close>

function splitLineToTokens :: "string \<Rightarrow> string list" where
  "splitLineToTokens s =
     (case skipSpace s of
        [] \<Rightarrow> []
      | c # cs \<Rightarrow> takeWhile (\<lambda>x. \<not> isspace x) (c # cs) #
          splitLineToTokens (dropWhile (\<lambda>x. \<not> isspace x) (c # cs)))"
  by pat_completeness auto

termination
proof (relation "measure length")
  fix s c cs assume "skipSpace s = c # cs"
  then have "\<not> isspace c" "length (c # cs) \<le> length s" using skipSpace_Cons by blast+
  then show "(dropWhile (\<lambda>x. \<not> isspace x) (c # cs), s) \<in> measure length"
    using length_dropWhile_le [of "\<lambda>x. \<not> isspace x" cs] by simp
qed simp

declare splitLineToTokens.simps [simp del]

section \<open>Parsing\<close>

type_synonym parsedBoard = "string list \<times> heap \<times> Board"

definition noPieces :: heap where
  "noPieces = (\<lambda>_. newPiece 0 White King)"

text \<open>The first error of the scan over the rows, row by row.\<close>

fun tokenRowError :: "nat \<Rightarrow> string list list \<Rightarrow> string option" where
  "tokenRowError expectedWidth [] = None"
| "tokenRowError expectedWidth (row # rows) =
     (if length row \<noteq> expectedWidth then Some ERROR_ROW_WIDTH_MISMATCH
      else if list_ex (\<lambda>tok. \<not> isAllowedToken tok) row then Some ERROR_UNKNOWN_TOKEN
      else tokenRowError expectedWidth rows)"

text \<open>One cell of the second scan: the next id, the heap and the board so far.\<close>

definition placeToken ::
    "string list list \<Rightarrow> Position \<Rightarrow> nat \<times> heap \<times> Board \<Rightarrow> nat \<times> heap \<times> Board" where
  "placeToken rows p = (\<lambda>(nextPieceId, h, b).
     let tok = rows ! nat (getRow p) ! nat (getCol p) in
     if tok = EMPTY_CELL then (nextPieceId, h, b)
     else let color = colorFromChar (tok ! 0); kind = kindFromChar (tok ! 1);
              h1 = h(nextPieceId := newPiece (int nextPieceId) color kind)
          in (nextPieceId + 1, h1, snd (placePiece b p (Some nextPieceId))))"

definition parse :: "string list \<Rightarrow> parsedBoard" where
  "parse boardLines =
     (let tokensByRow = filter (\<lambda>row. row \<noteq> []) (map splitLineToTokens boardLines) in
      case tokensByRow of
        [] \<Rightarrow> ([], noPieces, newBoard 0 0)
      | first # _ \<Rightarrow>
          (let expectedWidth = length first in
           case tokenRowError expectedWidth tokensByRow of
             Some err \<Rightarrow> ([err], noPieces, newBoard 0 0)
           | None \<Rightarrow>
               (let b = newBoard (int (length tokensByRow)) (int expectedWidth);
                    (_, h, b1) = fold (placeToken tokensByRow) (boardPositions b) (1, noPieces, b)
                in ([], h, b1))))"

section \<open>Printing\<close>

definition cellText :: "heap \<Rightarrow> Board \<Rightarrow> Position \<Rightarrow> string" where
  "cellText h b p = (case getPieceAt b p of None \<Rightarrow> ''.'' | Some r \<Rightarrow> token (h r))"

definition printRow :: "heap \<Rightarrow> Board \<Rightarrow> int \<Rightarrow> string" where
  "printRow h b row = concat (map (\<lambda>col. (if col > 0 then '' '' else []) @ cellText h b (Position row col))
     [0..getWidth b - 1])"

definition print :: "heap \<Rightarrow> Board \<Rightarrow> string" where
  "print h b = concat (map (\<lambda>row. printRow h b row @ [CHR 0x0A]) [0..getHeight b - 1])"

section \<open>Reading the console\<close>

definition trimChar :: "char \<Rightarrow> bool" where
  "trimChar c \<longleftrightarrow> c \<in> {CHR '' '', CHR 0x09, CHR 0x0D, CHR 0x0A}"

definition trim :: "string \<Rightarrow> string" where
  "trim s = (if \<forall>c \<in> set s. trimChar c then []
     else rev (dropWhile trimChar (rev (dropWhile trimChar s))))"

text \<open>The lines of the board and the lines left for the commands.\<close>

fun readBoardLines :: "bool \<Rightarrow> string list \<Rightarrow> string list \<times> string list" where
  "readBoardLines readingBoard [] = ([], [])"
| "readBoardLines readingBoard (raw # rest) =
     (let line = trim raw in
      if line = ''Board:'' \<or> line = ''Board'' then readBoardLines True rest
      else if line = ''Commands:'' \<or> line = ''Commands'' then ([], rest)
      else if readingBoard \<and> line \<noteq> [] then
        (let (bs, cs) = readBoardLines readingBoard rest in (line # bs, cs))
      else readBoardLines readingBoard rest)"

text \<open>The lines of a text, as \<open>getline\<close> gives them.\<close>

function textLines :: "string \<Rightarrow> string list" where
  "textLines s =
     (if s = [] then []
      else takeWhile (\<lambda>c. c \<noteq> CHR 0x0A) s # textLines (drop 1 (dropWhile (\<lambda>c. c \<noteq> CHR 0x0A) s)))"
  by pat_completeness auto

termination
proof (relation "measure length")
  fix s :: string assume "s \<noteq> []"
  then show "(drop 1 (dropWhile (\<lambda>c. c \<noteq> CHR 0x0A) s), s) \<in> measure length"
    using length_dropWhile_le [of "\<lambda>c. c \<noteq> CHR 0x0A" s] by (cases s) auto
qed simp

declare textLines.simps [simp del]

section \<open>Reading back a printed board\<close>

lemma textLines_append:
  assumes "CHR 0x0A \<notin> set line"
  shows "textLines (line @ CHR 0x0A # rest) = line # textLines rest"
proof -
  have "takeWhile (\<lambda>c. c \<noteq> CHR 0x0A) (line @ CHR 0x0A # rest) = line"
    "dropWhile (\<lambda>c. c \<noteq> CHR 0x0A) (line @ CHR 0x0A # rest) = CHR 0x0A # rest"
    using assms by (induction line) auto
  then show ?thesis by (subst textLines.simps) simp
qed

lemma textLines_print:
  assumes "\<And>x. x \<in> set rows \<Longrightarrow> CHR 0x0A \<notin> set (f x)"
  shows "textLines (concat (map (\<lambda>x. f x @ [CHR 0x0A]) rows)) = map f rows"
  using assms
proof (induction rows)
  case Nil
  then show ?case by (simp add: textLines.simps)
next
  case (Cons x xs)
  have "textLines (concat (map (\<lambda>x. f x @ [CHR 0x0A]) xs)) = map f xs"
    using Cons.prems by (intro Cons.IH) simp
  then show ?case using Cons.prems [of x] by (simp add: textLines_append)
qed

definition wordChars :: "string \<Rightarrow> bool" where
  "wordChars s \<longleftrightarrow> s \<noteq> [] \<and> (\<forall>c \<in> set s. \<not> isspace c)"

lemma splitLine_word:
  assumes "wordChars w" "rest = [] \<or> isspace (hd rest)"
  shows "splitLineToTokens (w @ rest) = w # splitLineToTokens rest"
proof -
  obtain c cs where w: "w = c # cs" "\<not> isspace c" "\<forall>x \<in> set cs. \<not> isspace x"
    using assms(1) by (cases w) (auto simp: wordChars_def)
  have "skipSpace (w @ rest) = w @ rest" using w by (simp add: skipSpace_def)
  moreover have "takeWhile (\<lambda>x. \<not> isspace x) (w @ rest) = w" "dropWhile (\<lambda>x. \<not> isspace x) (w @ rest) = rest"
    using w assms(2) by (cases rest; auto simp: takeWhile_append dropWhile_append)+
  ultimately show ?thesis
    by (subst splitLineToTokens.simps) (simp add: w(1))
qed

lemma splitLine_blank: "isspace c \<Longrightarrow> splitLineToTokens (c # s) = splitLineToTokens s"
  by (subst (1 2) splitLineToTokens.simps) (simp add: skipSpace_def)

lemma splitLine_nil [simp]: "splitLineToTokens [] = []"
  by (subst splitLineToTokens.simps) (simp add: skipSpace_def)

lemma splitLine_words:
  assumes "\<forall>w \<in> set (map f ws). wordChars w"
  shows "splitLineToTokens (concat (map (\<lambda>w. CHR '' '' # f w) ws)) = map f ws"
  using assms
proof (induction ws)
  case (Cons w ws)
  have "concat (map (\<lambda>w. CHR '' '' # f w) ws) = [] \<or> isspace (hd (concat (map (\<lambda>w. CHR '' '' # f w) ws)))"
    by (cases ws) (simp_all add: isspace_def)
  then show ?case
    using Cons splitLine_word [of "f w"] by (simp add: splitLine_blank isspace_def)
qed simp


lemma token_word: "wordChars (token p)" "token p \<noteq> EMPTY_CELL" "isAllowedToken (token p)" "CHR 0x0A \<notin> set (token p)"
  by (cases "getColor p"; cases "getKind p";
      simp add: token_def colorToChar_def kindToChar_def wordChars_def isspace_def EMPTY_CELL_def isAllowedToken_def)+

lemma cellText_word: "wordChars (cellText h b p)" "isAllowedToken (cellText h b p)" "CHR 0x0A \<notin> set (cellText h b p)"
  by (cases "getPieceAt b p"; simp add: cellText_def token_word;
      simp add: wordChars_def isspace_def isAllowedToken_def EMPTY_CELL_def)+

lemma printRow_words:
  assumes "0 < getWidth b"
  shows "printRow h b row = cellText h b (Position row 0) @
     concat (map (\<lambda>col. CHR '' '' # cellText h b (Position row col)) [1..getWidth b - 1])"
proof -
  have "[0..getWidth b - 1] = 0 # [1..getWidth b - 1]" using assms by (simp add: upto_rec1)
  moreover have "concat (map (\<lambda>col. (if 0 < col then '' '' else []) @ cellText h b (Position row col)) [1..getWidth b - 1]) =
      concat (map (\<lambda>col. CHR '' '' # cellText h b (Position row col)) [1..getWidth b - 1])"
    by (rule arg_cong [where f = concat], rule map_cong) auto
  ultimately show ?thesis by (simp add: printRow_def)
qed

definition cellRows :: "heap \<Rightarrow> Board \<Rightarrow> string list list" where
  "cellRows h b = map (\<lambda>row. map (\<lambda>col. cellText h b (Position row col)) [0..getWidth b - 1]) [0..getHeight b - 1]"

lemma split_printRow:
  assumes "0 < getWidth b"
  shows "splitLineToTokens (printRow h b row) = map (\<lambda>col. cellText h b (Position row col)) [0..getWidth b - 1]"
proof -
  let ?rest = "concat (map (\<lambda>col. CHR '' '' # cellText h b (Position row col)) [1..getWidth b - 1])"
  have "?rest = [] \<or> isspace (hd ?rest)"
    by (cases "[1..getWidth b - 1]") (simp_all add: isspace_def)
  moreover have "splitLineToTokens ?rest = map (\<lambda>col. cellText h b (Position row col)) [1..getWidth b - 1]"
    by (rule splitLine_words) (auto intro: cellText_word)
  moreover have "[0..getWidth b - 1] = 0 # [1..getWidth b - 1]" using assms by (simp add: upto_rec1)
  ultimately show ?thesis
    using splitLine_word [OF cellText_word(1)] by (simp add: printRow_words [OF assms])
qed

lemma print_lines:
  assumes "0 < getWidth b"
  shows "map splitLineToTokens (textLines (print h b)) = cellRows h b"
proof -
  have "CHR 0x0A \<notin> set (printRow h b row)" for row
    using cellText_word(3) by (auto simp: printRow_def)
  then have "textLines (print h b) = map (printRow h b) [0..getHeight b - 1]"
    unfolding print_def by (rule textLines_print)
  then show ?thesis by (simp add: split_printRow [OF assms] cellRows_def)
qed

lemma cellRows_shape:
  "length (cellRows h b) = nat (getHeight b)" "row \<in> set (cellRows h b) \<Longrightarrow> length row = nat (getWidth b)"
  "row \<in> set (cellRows h b) \<Longrightarrow> tok \<in> set row \<Longrightarrow> isAllowedToken tok"
  by (auto simp: cellRows_def cellText_word)

lemma cellRows_at:
  assumes "isInside b p"
  shows "cellRows h b ! nat (getRow p) ! nat (getCol p) = cellText h b p"
proof -
  have "[0..n - 1] ! nat i = i" if "0 \<le> i" "i < n" for i n :: int
    using that nth_upto [of 0 "nat i" "n - 1"] by simp
  then show ?thesis using assms by (simp add: cellRows_def isInside_iff)
qed

lemma tokenRowError_None:
  "\<forall>row \<in> set rows. length row = w \<and> (\<forall>tok \<in> set row. isAllowedToken tok) \<Longrightarrow> tokenRowError w rows = None"
  by (induction rows) (auto simp: list_ex_iff)

section \<open>What the parser builds\<close>

lemma allowed_token_piece:
  assumes "isAllowedToken tok" "tok \<noteq> EMPTY_CELL"
  shows "token (newPiece i (colorFromChar (tok ! 0)) (kindFromChar (tok ! 1))) = tok"
proof -
  have "length tok = 2" using assms by (auto simp: isAllowedToken_def split: if_splits)
  then obtain c k where tok: "tok = [c, k]"
    by (cases tok; cases "tl tok") auto
  then show ?thesis
    using assms by (auto simp: isAllowedToken_def token_def newPiece_def colorFromChar_def colorToChar_def
        kindFromChar_def kindToChar_def)
qed

definition freshPieces :: "heap \<Rightarrow> bool" where
  "freshPieces h \<longleftrightarrow> (\<forall>r. \<exists>i c k. h r = newPiece i c k)"

definition parsedOk :: "nat \<times> heap \<times> Board \<Rightarrow> bool" where
  "parsedOk = (\<lambda>(n, h, b). wf_board b \<and> grid.holds_once b \<and> freshPieces h \<and>
     (\<forall>p r. getPieceAt b p = Some r \<longrightarrow> 0 < r \<and> r < n \<and> getId (h r) = int r))"

lemma placeToken_step:
  assumes ok: "parsedOk (n, h, b)" and p: "isInside b p" "getPieceAt b p = None"
    and tok: "rows ! nat (getRow p) ! nat (getCol p) = tok" "isAllowedToken tok" and n: "0 < n"
    and step: "placeToken rows p (n, h, b) = (n', h', b')"
  shows "parsedOk (n', h', b')" "0 < n'" "getHeight b' = getHeight b" "getWidth b' = getWidth b"
    "cellText h' b' q = (if q = p then tok else cellText h b q)"
    "getPieceAt b' q = None \<longleftrightarrow> getPieceAt b q = None \<and> (q \<noteq> p \<or> tok = EMPTY_CELL)"
proof -
  have wf: "wf_board b" using ok by (simp add: parsedOk_def)
  have refs: "getPieceAt b q = Some r \<Longrightarrow> 0 < r \<and> r < n \<and> getId (h r) = int r" for q r
    using ok by (simp add: parsedOk_def)
  have "parsedOk (n', h', b') \<and> 0 < n' \<and> getHeight b' = getHeight b \<and> getWidth b' = getWidth b \<and>
    cellText h' b' q = (if q = p then tok else cellText h b q) \<and>
    (getPieceAt b' q = None \<longleftrightarrow> getPieceAt b q = None \<and> (q \<noteq> p \<or> tok = EMPTY_CELL))"
  proof (cases "tok = EMPTY_CELL")
    case True
    then show ?thesis
      using step tok ok n p by (auto simp: placeToken_def cellText_def EMPTY_CELL_def)
  next
    case False
    let ?piece = "newPiece (int n) (colorFromChar (tok ! 0)) (kindFromChar (tok ! 1))"
    have new: "n' = n + 1" "h' = h(n := ?piece)" "b' = setPieceAt b p (Some n)"
      using step tok False p wf by (auto simp: placeToken_def Let_def placePiece_spec)
    have cells: "getPieceAt b' q = (if q = p then Some n else getPieceAt b q)" for q
      using wf p(1) by (simp add: new cell_simps)
    have other: "r \<noteq> n" if "getPieceAt b q = Some r" for q r using refs [OF that] by simp
    have "grid.holds_once b'"
      unfolding new(3) using ok other wf
      by (intro grid.holds_once_place) (auto simp: parsedOk_def)
    moreover have "freshPieces h'"
      using ok by (auto simp: parsedOk_def freshPieces_def new)
    moreover have "0 < r \<and> r < n' \<and> getId (h' r) = int r" if "getPieceAt b' q = Some r" for q r
      using that refs [of q r] n by (auto simp: cells new(1,2) newPiece_def split: if_splits)
    moreover have "wf_board b'" using wf by (simp add: new)
    ultimately have "parsedOk (n', h', b')" by (simp add: parsedOk_def)
    moreover have "cellText h' b' q = (if q = p then tok else cellText h b q)"
      using allowed_token_piece [OF tok(2) False, of "int n"] other [of q]
      by (auto simp: cellText_def cells new(1,2) split: option.split)
    ultimately show ?thesis using n False by (simp add: new(1,3) cells [unfolded new(3)])
  qed
  then show "parsedOk (n', h', b')" "0 < n'" "getHeight b' = getHeight b" "getWidth b' = getWidth b"
    "cellText h' b' q = (if q = p then tok else cellText h b q)"
    "getPieceAt b' q = None \<longleftrightarrow> getPieceAt b q = None \<and> (q \<noteq> p \<or> tok = EMPTY_CELL)" by blast+
qed

lemma fold_placeToken:
  assumes "parsedOk (n, h, b)" "0 < n" "distinct ps"
    "\<forall>p \<in> set ps. isInside b p \<and> getPieceAt b p = None \<and>
       isAllowedToken (rows ! nat (getRow p) ! nat (getCol p))"
    "fold (placeToken rows) ps (n, h, b) = (n', h', b')"
  shows "parsedOk (n', h', b') \<and> getHeight b' = getHeight b \<and> getWidth b' = getWidth b \<and>
    (\<forall>q. cellText h' b' q = (if q \<in> set ps then rows ! nat (getRow q) ! nat (getCol q) else cellText h b q))"
  using assms
proof (induction ps arbitrary: n h b)
  case Nil
  then show ?case by simp
next
  case (Cons p ps)
  obtain n1 h1 b1 where step: "placeToken rows p (n, h, b) = (n1, h1, b1)"
    by (metis prod_cases3)
  note one = placeToken_step [OF Cons.prems(1) _ _ refl _ Cons.prems(2) step]
  have p: "isInside b p" "getPieceAt b p = None" "isAllowedToken (rows ! nat (getRow p) ! nat (getCol p))"
    using Cons.prems(4) by simp_all
  have inside: "isInside b1 q = isInside b q" for q
    using one(3,4) [OF p] by (simp add: isInside_iff)
  have "parsedOk (n', h', b') \<and> getHeight b' = getHeight b1 \<and> getWidth b' = getWidth b1 \<and>
    (\<forall>q. cellText h' b' q = (if q \<in> set ps then rows ! nat (getRow q) ! nat (getCol q) else cellText h1 b1 q))"
  proof (rule Cons.IH)
    show "\<forall>q \<in> set ps. isInside b1 q \<and> getPieceAt b1 q = None \<and>
       isAllowedToken (rows ! nat (getRow q) ! nat (getCol q))"
    proof
      fix q assume q: "q \<in> set ps"
      then have "q \<noteq> p" using Cons.prems(3) by auto
      then show "isInside b1 q \<and> getPieceAt b1 q = None \<and>
          isAllowedToken (rows ! nat (getRow q) ! nat (getCol q))"
        using q Cons.prems(4) one(6) [OF p, of q] inside [of q] by simp
    qed
  qed (use one [OF p] Cons.prems(3,5) step in simp_all)
  then show ?case using one [OF p] Cons.prems(3) by auto
qed

lemma parsedOk_new: "parsedOk (1, noPieces, newBoard (int m) (int n))"
  by (auto simp: parsedOk_def wf_newBoard grid.holds_once_def freshPieces_def noPieces_def)

text \<open>A successful parse: the board has the text's tokens, on fresh pieces with their own ids.\<close>

lemma parse_rows:
  assumes rows: "filter (\<lambda>row. row \<noteq> []) (map splitLineToTokens ls) = rows" "rows \<noteq> []"
    and shape: "\<forall>row \<in> set rows. length row = w \<and> (\<forall>tok \<in> set row. isAllowedToken tok)"
  shows "\<exists>n h b. parse ls = ([], h, b) \<and> parsedOk (n, h, b) \<and> getHeight b = int (length rows) \<and>
    getWidth b = int w \<and> (\<forall>p. isInside b p \<longrightarrow> cellText h b p = rows ! nat (getRow p) ! nat (getCol p))"
proof -
  let ?b = "newBoard (int (length rows)) (int w)"
  obtain first rest where first: "rows = first # rest" "length first = w"
    using rows(2) shape by (cases rows) auto
  obtain n h b where run: "fold (placeToken rows) (boardPositions ?b) (1, noPieces, ?b) = (n, h, b)"
    by (metis prod_cases3)
  have size: "getHeight ?b = int (length rows)" "getWidth ?b = int w" by (simp_all add: newBoard_def)
  have allowed: "isAllowedToken (rows ! nat (getRow p) ! nat (getCol p))" if "isInside ?b p" for p
  proof -
    have bounds: "nat (getRow p) < length rows" "nat (getCol p) < w"
      using that size by (auto simp: isInside_iff)
    then have "rows ! nat (getRow p) \<in> set rows" by simp
    then show ?thesis using shape bounds(2) by auto
  qed
  have result: "parsedOk (n, h, b) \<and> getHeight b = getHeight ?b \<and> getWidth b = getWidth ?b \<and>
    (\<forall>q. cellText h b q = (if q \<in> set (boardPositions ?b) then rows ! nat (getRow q) ! nat (getCol q)
       else cellText noPieces ?b q))"
    using allowed
    by (intro fold_placeToken [OF parsedOk_new _ _ _ run])
      (simp_all add: distinct_boardPositions set_boardPositions)
  have "parse ls = ([], h, b)"
    using rows(1) first tokenRowError_None [OF shape] run by (simp add: parse_def Let_def)
  moreover have "cellText h b p = rows ! nat (getRow p) ! nat (getCol p)" if "isInside b p" for p
    using result that size by (simp add: set_boardPositions isInside_iff)
  ultimately show ?thesis using result size by auto
qed



end
