(* ===== verification/Server_Properties.thy ===== *)
theory Server_Properties
  imports Server_Runs Engine_Properties Board_Text
begin

text \<open>
  Properties of the game server: its initial game, its invariant over all interleavings of its
  threads, who may move, who may take a seat, what the end of a game leaves behind, and two
  interleavings in which a game goes wrong.
\<close>

section \<open>The initial game\<close>

lemma map_filter_injective:
  assumes "distinct (List.map_filter f xs)" "x \<in> set xs" "y \<in> set xs" "f x = Some r" "f y = Some r"
  shows "x = y"
  using assms
proof (induction xs)
  case (Cons z zs)
  have seen: "r \<in> set (List.map_filter f zs)" if "u \<in> set zs" "f u = Some r" for u
    using that by (force simp: List.map_filter_def)
  show ?case
  proof (cases "z = x \<or> z = y")
    case True
    then show ?thesis using Cons.prems seen by (auto simp: map_filter_simps split: option.splits)
  next
    case False
    then show ?thesis using Cons.IH Cons.prems by (auto simp: map_filter_simps split: option.splits)
  qed
qed simp

lemma initial_refs: "List.map_filter (getPieceAt (board newGame)) (boardPositions (board newGame)) = [1..<33]"
  by code_simp

lemma standing_newGame: "standing {1..<33} newGame"
proof -
  have scan: "p \<in> set (boardPositions (board newGame))" if "pieceAt newGame p = Some r" for p r
    using getPieceAt_inside [OF that] by (simp add: set_boardPositions)
  have "grid.holds_once (board newGame)"
    unfolding grid.holds_once_def
    using map_filter_injective [of "getPieceAt (board newGame)" "boardPositions (board newGame)"] scan
    by (metis distinct_upt initial_refs)
  moreover have "r \<in> {1..<33}" if "pieceAt newGame p = Some r" for p r
  proof -
    have "r \<in> set (List.map_filter (getPieceAt (board newGame)) (boardPositions (board newGame)))"
      using scan [OF that] that by (force simp: List.map_filter_def)
    then show ?thesis by (simp add: initial_refs)
  qed
  moreover have "stateOf newGame r \<noteq> Captured" for r
    using initial_heap [of r] by (simp add: newGame_def newGameEngine_def)
  ultimately show ?thesis by (auto simp: standing_def)
qed

lemma initial_ids: "map (\<lambda>r. getId (heap newGame r)) [1..<33] = [1..32]"
  by code_simp

text \<open>The server starts from the usual position of chess, drawn here as text, with 32 pieces that
  have the ids 1 to 32, none of them captured, moving or resting, on a clock at zero.\<close>

theorem initial_game:
  "print (heap newGame) (board newGame) =
     ''bR bN bB bQ bK bB bN bR'' @ [CHR 0x0A] @ ''bP bP bP bP bP bP bP bP'' @ [CHR 0x0A] @
     concat (replicate 4 (''. . . . . . . .'' @ [CHR 0x0A])) @
     ''wP wP wP wP wP wP wP wP'' @ [CHR 0x0A] @ ''wR wN wB wQ wK wB wN wR'' @ [CHR 0x0A] \<and>
   freshEngine newGame \<and> standing {1..<33} newGame \<and> inj_on (\<lambda>r. getId (heap newGame r)) {1..<33}"
proof (intro conjI)
  show "print (heap newGame) (board newGame) =
     ''bR bN bB bQ bK bB bN bR'' @ [CHR 0x0A] @ ''bP bP bP bP bP bP bP bP'' @ [CHR 0x0A] @
     concat (replicate 4 (''. . . . . . . .'' @ [CHR 0x0A])) @
     ''wP wP wP wP wP wP wP wP'' @ [CHR 0x0A] @ ''wR wN wB wQ wK wB wN wR'' @ [CHR 0x0A]"
    by code_simp
  have "distinct (map (\<lambda>r. getId (heap newGame r)) [1..<33])" unfolding initial_ids by simp
  then show "inj_on (\<lambda>r. getId (heap newGame r)) {1..<33}" by (simp only: distinct_map set_upt)
qed (rule fresh_newGame standing_newGame)+

section \<open>The invariant\<close>


definition demoLoop :: GameLoop where
  "demoLoop = \<lparr>previousTime = 0, lastStateUpdate = 0\<rparr>"

definition demoHandshake :: string where
  "demoHandshake = the (serialize (newMessage\<lparr>msgType := ReconnectRequest, username := ''dana''\<rparr>))"


section \<open>Who may move\<close>

text \<open>C14: A request is refused, with the server's state unchanged, while gameplay is not enabled and
  when the piece on its source cell has the other colour. So a session whose request is accepted
  has started a piece of its own colour, standing on the source cell, in a running game; and every
  response carries the sequence number of its request.\<close>

theorem only_own_pieces_move:
  assumes "requests s = newMessageBus" "fst (respond cfg epoch r request s) = Inr response"
  defines "s' \<equiv> snd (respond cfg epoch r request s)"
  shows "sequence response = sequence request \<and>
    (accepted response \<longrightarrow> isGameplayEnabled epoch s \<and>
       (\<exists>p. getPieceAt (board (game s)) (msgSource request) = Some p \<and>
            getColor (pieceOf (game s) p) = assignedColor (sessions s r))) \<and>
    (\<not> isGameplayEnabled epoch s \<or> foreignPiece r request s \<longrightarrow> s' = s \<and> \<not> accepted response)"
proof -
  have refused: "accepted (refusal request why s) = False" "sequence (refusal request why s) = sequence request" for why
    by (simp_all add: refusal_def newMessage_def)
  have moved: "\<exists>p. getPieceAt (board (game s)) (msgSource request) = Some p"
    if "accepted (answer cfg request (game s))"
  proof -
    have "msgType request = MoveRequest \<and> isAccepted (fst (requestMove cfg (msgSource request) (msgDestination request) (game s))) \<or>
        msgType request = JumpRequest \<and> isAccepted (fst (requestJump cfg (msgSource request) (game s)))"
      using that by (auto simp: answer_def handleMessage_def newMessage_def case_prod_beta Let_def split: MessageType.splits)
    then show ?thesis
    proof
      assume m: "msgType request = MoveRequest \<and> isAccepted (fst (requestMove cfg (msgSource request) (msgDestination request) (game s)))"
      then show ?thesis
        by (cases rule: requestMove_cases [of cfg "msgSource request" "msgDestination request" "game s"]) auto
    next
      assume j: "msgType request = JumpRequest \<and> isAccepted (fst (requestJump cfg (msgSource request) (game s)))"
      then show ?thesis
        by (cases rule: requestJump_cases [of cfg "msgSource request" "game s"]) auto
    qed
  qed
  show ?thesis
    using assms(2) refused moved
    by (auto simp: s'_def respond_cases [OF assms(1)] foreignPiece_def split: if_splits option.splits)
qed

definition demoRunning :: GameServer where
  "demoRunning = newGameServer\<lparr>gameStarted := True, gameWasStarted := True, startsAtEpochMs := 1,
     sessionCount := 2, whitePlayer := Some 0, blackPlayer := Some 1,
     whiteReconnectToken := ''a1'', blackReconnectToken := ''b2'', whiteName := ''dana'', blackName := ''noam'',
     sessions := (\<lambda>r. if r = 0 then \<lparr>clientId = 1, assignedColor = White, sessionUsername = ''dana'', connection = 10, connected = True\<rparr>
       else if r = 1 then \<lparr>clientId = 2, assignedColor = Black, sessionUsername = ''noam'', connection = 11, connected = True\<rparr>
       else noSession)\<rparr>"

lemma demoRunning_ok: "serverOk demoRunning"
  using fresh_engine_wf [OF fresh_newGame]
  by (simp add: demoRunning_def newGameServer_def serverOk_parts)

definition demoRequest :: Message where
  "demoRequest = newMessage\<lparr>msgType := MoveRequest, sequence := 4, msgSource := Position 6 0, msgDestination := Position 5 0\<rparr>"

theorem only_own_pieces_move_witness:
  "\<exists>response. fst (respond demoConfig 10 0 demoRequest demoRunning) = Inr response \<and> accepted response \<and>
     (\<exists>p. getPieceAt (board (game demoRunning)) (Position 6 0) = Some p \<and> getColor (pieceOf (game demoRunning) p) = White)"
proof -
  have idle: "requests demoRunning = newMessageBus" by (simp add: demoRunning_def newGameServer_def)
  have "isGameplayEnabled 10 demoRunning" "\<not> foreignPiece 0 demoRequest demoRunning" by code_simp+
  then have response: "fst (respond demoConfig 10 0 demoRequest demoRunning) = Inr (answer demoConfig demoRequest (game demoRunning))"
    by (simp add: respond_cases [OF idle])
  have ok: "accepted (answer demoConfig demoRequest (game demoRunning))" by code_simp
  have at: "msgSource demoRequest = Position 6 0" "assignedColor (sessions demoRunning 0) = White"
    by (simp_all add: demoRunning_def demoRequest_def)
  have "\<exists>p. getPieceAt (board (game demoRunning)) (msgSource demoRequest) = Some p \<and>
      getColor (pieceOf (game demoRunning) p) = assignedColor (sessions demoRunning 0)"
    using only_own_pieces_move [OF idle response] ok by blast
  with response ok show ?thesis unfolding at by blast
qed

section \<open>Seats\<close>

lemma reply_no_session: "fst (replyAndClose net c m s) \<noteq> Inr (Some r)"
  by (simp add: replyAndClose_def split: sum.split)

text \<open>C17: While a reconnection period runs, a client gets a seat exactly when it presents the token of
  the seat that is reserved, whatever name it gives. It gets that seat under the name
  it had, the period ends, and the game goes on as it was.\<close>

theorem reserved_seat_needs_its_token:
  fixes net random c tok name
  assumes "reconnectionPending s" "\<not> closingExpiredGame s"
  defines "outcome \<equiv> fst (createSession net random c tok name s)"
    and "s' \<equiv> snd (createSession net random c tok name s)"
  shows "((\<exists>r. outcome = Inr (Some r)) \<longleftrightarrow> tok \<noteq> [] \<and> tok = reservedToken s \<and> tok \<notin> expiredReconnectTokens s) \<and>
    (\<forall>r. outcome = Inr (Some r) \<longrightarrow>
      assignedColor (sessions s' r) = reservedColor s \<and> isConnected s' r \<and>
      sessionUsername (sessions s' r) = (if reservedColor s = White then whiteName s else blackName s) \<and>
      (if reservedColor s = White then whitePlayer s' else blackPlayer s') = Some r \<and>
      \<not> reconnectionPending s' \<and> game s' = game s)"
  using assms(1,2) reply_no_session
  by (auto simp: outcome_def s'_def createSession_def Let_def reservedToken_def makeSession_def isConnected_def split: if_splits)

definition demoDropped :: GameServer where
  "demoDropped = snd (snd (dropSession 0 1 (disconnect 1 demoRunning)))"

theorem reserved_seat_needs_its_token_witness:
  "(\<exists>r. fst (createSession (\<lambda>_. True) (7, 9) 12 ''b2'' [] demoDropped) = Inr (Some r)) \<and>
   \<not> (\<exists>r. fst (createSession (\<lambda>_. True) (7, 9) 12 ''a1'' ''eve'' demoDropped) = Inr (Some r))"
proof -
  have pending: "reconnectionPending demoDropped" "\<not> closingExpiredGame demoDropped" by code_simp+
  have token: "reservedToken demoDropped = ''b2''" "''b2'' \<notin> expiredReconnectTokens demoDropped" by code_simp+
  show ?thesis
    using reserved_seat_needs_its_token [OF pending, of "\<lambda>_. True" "(7, 9)" 12 "''b2''" "[]"]
      reserved_seat_needs_its_token [OF pending, of "\<lambda>_. True" "(7, 9)" 12 "''a1''" "''eve''"] token
    by simp
qed

section \<open>The end of a game\<close>

lemma closing_fields:
  "expiredReconnectTokens (closeExpiredGame net s) = expiredReconnectTokens s \<union> ({whiteReconnectToken s, blackReconnectToken s} - {[]})"
  "whitePlayer s = Some r \<or> blackPlayer s = Some r \<Longrightarrow> \<not> isConnected (closeExpiredGame net s) r"
proof -
  define s1 where "s1 = s\<lparr>closingExpiredGame := True, reconnectionPending := False, gameStarted := False,
      expiredReconnectTokens := expiredReconnectTokens s \<union>
        (if whiteReconnectToken s = [] then {} else {whiteReconnectToken s}) \<union>
        (if blackReconnectToken s = [] then {} else {blackReconnectToken s})\<rparr>"
  define s2 where "s2 = snd (closeBegin net s)"
  let ?ps = "(case whitePlayer s1 of None \<Rightarrow> [] | Some r \<Rightarrow> [r]) @ (case blackPlayer s1 of None \<Rightarrow> [] | Some r \<Rightarrow> [r])"
  have s2: "afterSends s1 s2" and off: "\<forall>r \<in> set ?ps. \<not> isConnected s2 r"
    using closeBegin_after [of s1 net "textOf (notice GameClosed False ''opponent_did_not_reconnect'')" ?ps]
    by (simp_all add: s2_def closeBegin_def Let_def s1_def)
  have closed: "closeExpiredGame net s = closeFinish (closeEngine (gameWasStarted s) s2)"
    by (simp add: closeExpiredGame_def s2_def closeBegin_def Let_def)
  show "expiredReconnectTokens (closeExpiredGame net s) = expiredReconnectTokens s \<union> ({whiteReconnectToken s, blackReconnectToken s} - {[]})"
    unfolding closed close_fields by (auto simp: afterSends_fields [OF s2] s1_def)
  show "\<not> isConnected (closeExpiredGame net s) r" if "whitePlayer s = Some r \<or> blackPlayer s = Some r"
    using off that by (auto simp: s1_def closed closeFinish_def closeEngine_def Let_def isConnected_def)
qed

text \<open>Closing an expired game leaves a server like a new one: nobody is connected or holds a seat,
  there are no names, no game was started, none is being closed and no reconnection runs, the engine is
  at the initial position, and the tokens of both seats have expired.\<close>

theorem closing_leaves_a_new_game:
  fixes net s
  defines "s' \<equiv> closeExpiredGame net s"
  shows "game s' = newGame \<and> requests s' = newMessageBus \<and> whitePlayer s' = None \<and> blackPlayer s' = None \<and>
    whiteName s' = [] \<and> blackName s' = [] \<and> whiteReconnectToken s' = [] \<and> blackReconnectToken s' = [] \<and>
    \<not> gameStarted s' \<and> \<not> gameWasStarted s' \<and> \<not> closingExpiredGame s' \<and> \<not> reconnectionPending s' \<and>
    startsAtEpochMs s' = 0 \<and> publisher (subscribers s') = \<lparr>started = False, ended = False\<rparr> \<and>
    expiredReconnectTokens s' = expiredReconnectTokens s \<union> ({whiteReconnectToken s, blackReconnectToken s} - {[]}) \<and>
    \<not> slotConnected s' (whitePlayer s) \<and> \<not> slotConnected s' (blackPlayer s)"
proof -
  have pending: "reconnectionPending (snd (closeBegin net s)) = False" "gameStarted (snd (closeBegin net s)) = False"
    using afterSends_fields(8,15) [OF closeBegin_after [THEN conjunct1, of _ net]]
    by (auto simp: closeBegin_def Let_def)
  have after: "closeExpiredGame net s = closeFinish (closeEngine (gameWasStarted s) (snd (closeBegin net s)))"
    by (simp add: closeExpiredGame_def closeBegin_def Let_def)
  have seats: "\<not> slotConnected s' (whitePlayer s)" "\<not> slotConnected s' (blackPlayer s)"
    unfolding s'_def slotConnected_def using closing_fields(2) [of s] by (auto split: option.split)
  have tokens: "expiredReconnectTokens s' = expiredReconnectTokens s \<union> ({whiteReconnectToken s, blackReconnectToken s} - {[]})"
    unfolding s'_def by (rule closing_fields(1))
  have "game s' = newGame \<and> requests s' = newMessageBus \<and> whitePlayer s' = None \<and> blackPlayer s' = None \<and>
    whiteName s' = [] \<and> blackName s' = [] \<and> whiteReconnectToken s' = [] \<and> blackReconnectToken s' = [] \<and>
    \<not> gameStarted s' \<and> \<not> gameWasStarted s' \<and> \<not> closingExpiredGame s' \<and> \<not> reconnectionPending s' \<and>
    startsAtEpochMs s' = 0 \<and> publisher (subscribers s') = \<lparr>started = False, ended = False\<rparr>"
    using pending by (simp add: s'_def after closeFinish_def closeEngine_def Let_def clear_def newMessageBus_def resetPublisher_def)
  with seats tokens show ?thesis by simp
qed

text \<open>C18: A token that has expired never gets a seat again, however the server runs on from there and
  whatever else the client sends.\<close>

theorem expired_tokens_stay_out:
  assumes "serverOk (snd x)" "(serverStep cfg)\<^sup>*\<^sup>* x y"
    and "tok \<in> expiredReconnectTokens (snd x)" "tok \<noteq> []"
  shows "fst (createSession net random c tok name (snd y)) \<noteq> Inr (Some r)"
proof -
  have "{tok} \<subseteq> expiredReconnectTokens (snd y)"
    using expired_steps.run_keeps [OF assms(2,1), of "{tok}"] assms(3) by simp
  then show ?thesis
    using assms(4) reply_no_session by (simp add: createSession_def Let_def)
qed

theorem expired_tokens_stay_out_witness:
  "fst (createSession (\<lambda>_. True) (7, 9) 12 ''a1'' ''dana'' (closeExpiredGame (\<lambda>_. True) demoRunning)) \<noteq> Inr (Some 3)"
proof -
  let ?s = "closeExpiredGame (\<lambda>_. True) demoRunning"
  have "serverOk ?s" using demoRunning_ok by (rule serverOk_closeExpired)
  moreover have "''a1'' \<in> expiredReconnectTokens ?s"
    using closing_fields(1) [of "\<lambda>_. True" demoRunning] by (simp add: demoRunning_def)
  ultimately show ?thesis
    using expired_tokens_stay_out [of "(demoLoop, ?s)" demoConfig "(demoLoop, ?s)" "''a1''"] by simp
qed

section \<open>The engine behind the server\<close>

text \<open>C15: Whatever the clients send and however the threads interleave, the server's engine is always
  in a state that move requests, jump requests and waits lead to from the initial position, so all
  that holds of such runs of the engine holds of every game on the server.\<close>

theorem server_plays_the_engine:
  assumes "serverReachable cfg (l, s)"
  shows "\<exists>ops. game s = runOps cfg newGame ops"
proof -
  obtain l0 where "(serverStep cfg)\<^sup>*\<^sup>* (l0, newGameServer) (l, s)" using assms serverReachable_run by blast
  then have "played cfg (game s)"
    using engine_steps.run_keeps [of cfg "(l0, newGameServer)" "(l, s)"] serverOk_new
    by (simp add: newGameServer_def)
  then show ?thesis by (simp add: played_def)
qed

theorem server_plays_the_engine_witness:
  "\<exists>ops. game (snd (acceptClient (\<lambda>_. True) (7, 9) 1 demoHandshake newGameServer)) = runOps demoConfig newGame ops"
  using server_plays_the_engine [OF serverReachable.step [OF serverReachable.boot serverStep.accept]] .

section \<open>Interleavings that go wrong\<close>

text \<open>C19: When both players of a running game lose their connection before either is removed, no
  reconnection period starts and nothing is reset: the seats are free, the game still counts as
  started and its engine, scores and clock are kept. The next client without a token is
  seated as White in the old game.\<close>

theorem both_lost_keeps_the_old_game:
  fixes net clock w b
  assumes "whitePlayer s = Some w" "blackPlayer s = Some b" "w \<noteq> b"
    and "gameWasStarted s" "\<not> reconnectionPending s" "\<not> closingExpiredGame s"
  defines "s1 \<equiv> disconnect b (disconnect w s)"
  defines "s2 \<equiv> removeSession net clock b (removeSession net clock w s1)"
  shows "whitePlayer s2 = None \<and> blackPlayer s2 = None \<and> gameWasStarted s2 \<and> \<not> reconnectionPending s2 \<and>
    \<not> closingExpiredGame s2 \<and> game s2 = game s \<and> startsAtEpochMs s2 = startsAtEpochMs s \<and>
    (Username.isValid (Username.trim name) \<longrightarrow>
       (\<exists>r. fst (createSession net random c [] name s2) = Inr (Some r) \<and>
         whitePlayer (snd (createSession net random c [] name s2)) = Some r \<and>
         game (snd (createSession net random c [] name s2)) = game s))"
proof -
  have lost: "\<not> isConnected s1 w" "\<not> isConnected s1 b"
    by (simp_all add: s1_def isConnected_def disconnect_def closeConnection_def)
  have s1: "afterSends s s1" unfolding s1_def by (rule afterSends_trans [OF afterSends_disconnect afterSends_disconnect])
  note f = afterSends_fields [OF s1]
  have drop1: "dropSession clock w s1 = (False, Some b, s1\<lparr>whitePlayer := None, gameStarted := False\<rparr>)"
    using assms(1-6) lost by (auto simp: dropSession_def f slotConnected_def isConnected_def Let_def)
  have r1: "removeSession net clock w s1 = s1\<lparr>whitePlayer := None, gameStarted := False\<rparr>"
    using lost by (simp add: removeSession_def drop1 notifyWaiting_def isConnected_def)
  have last': "s2 = removeSession net clock b (s1\<lparr>whitePlayer := None, gameStarted := False\<rparr>)"
    by (simp only: s2_def r1)
  have "dropSession clock b (s1\<lparr>whitePlayer := None, gameStarted := False\<rparr>) =
      (False, None, s1\<lparr>whitePlayer := None, gameStarted := False, blackPlayer := None\<rparr>)"
    using assms(1-6) lost by (auto simp: dropSession_def f slotConnected_def Let_def)
  then have s2: "s2 = s1\<lparr>whitePlayer := None, gameStarted := False, blackPlayer := None\<rparr>"
    unfolding last' removeSession_def by (simp add: notifyWaiting_def)
  show ?thesis
    using assms(4-6) by (simp add: s2 f createSession_def Let_def slotConnected_def makeSession_def)
qed

theorem both_lost_keeps_the_old_game_witness:
  "(let s2 = removeSession (\<lambda>_. True) 5 1 (removeSession (\<lambda>_. True) 5 0 (disconnect 1 (disconnect 0 demoRunning)))
    in gameWasStarted s2 \<and> \<not> reconnectionPending s2 \<and> whitePlayer s2 = None)"
proof -
  have demo: "whitePlayer demoRunning = Some 0" "blackPlayer demoRunning = Some 1" "gameWasStarted demoRunning"
    "\<not> reconnectionPending demoRunning" "\<not> closingExpiredGame demoRunning"
    by (simp_all add: demoRunning_def newGameServer_def)
  show ?thesis
    using both_lost_keeps_the_old_game [OF demo(1,2) _ demo(3-5), of "\<lambda>_. True" 5] by (simp add: Let_def)
qed



end
