(* ===== verification/Server_Loop.thy ===== *)
theory Server_Loop
  imports Server_Properties
begin

text \<open>
  The game loop of the server: every state update it builds can be written, as long as the names
  of the players can.
\<close>

section \<open>Snapshots can be written\<close>

lemma printable_quoted: "printable t \<Longrightarrow> \<exists>e. quoted t = Some e"
  by (rule quoted_Some) (auto simp: printable_def list_all_iff escapeChar_def)

lemma mapAll_total: "(\<And>x. x \<in> set xs \<Longrightarrow> \<exists>y. f x = Some y) \<Longrightarrow> \<exists>ys. mapAll f xs = Some ys"
  by (induction xs) fastforce+

lemma writeArray_total: "(\<And>x. x \<in> set xs \<Longrightarrow> \<exists>y. f x = Some y) \<Longrightarrow> \<exists>t. writeArray f xs = Some t"
  using mapAll_total [of xs f] by (auto simp: writeArray_def)

lemma printable_token: "printable (token p)"
  by (cases "getColor p"; cases "getKind p") (simp_all add: token_def colorToChar_def kindToChar_def)

lemma printable_names:
  "printable (stateToString st)" "printable (colorToString col)" "printable (kindToString k)"
proof -
  show "printable (stateToString st)" by (cases st) (simp_all add: stateToString_def)
  show "printable (colorToString col)" by (cases col) (simp_all add: colorToString_def)
  show "printable (kindToString k)" by (cases k) (simp_all add: kindToString_def kindToChar_def)
qed

lemma writePiece_total: "\<exists>t. writePiece (makePieceSnapshot g r p) = Some t"
proof -
  let ?s = "makePieceSnapshot g r p"
  have "printable (ps_token ?s)" "printable (ps_state ?s)"
    by (simp_all add: makePieceSnapshot_def Let_def printable_token printable_names)
  then obtain a b where "quoted (ps_token ?s) = Some a" "quoted (ps_state ?s) = Some b"
    using printable_quoted by meson
  then show ?thesis by (simp add: writePiece_def)
qed

lemma writeHistory_total: "printable (h_notation e) \<Longrightarrow> \<exists>t. writeHistory (makeHistorySnapshot e) = Some t"
proof -
  assume "printable (h_notation e)"
  then obtain a where a: "quoted (h_notation e) = Some a" using printable_quoted by blast
  obtain b c where "quoted (colorToString (h_color e)) = Some b" "quoted (kindToString (h_pieceKind e)) = Some c"
    using printable_quoted printable_names by meson
  with a show ?thesis by (simp add: writeHistory_def makeHistorySnapshot_def)
qed

lemma build_made: "s \<in> set (snapPieces (build g)) \<Longrightarrow> \<exists>r p. s = makePieceSnapshot g r p"
proof -
  assume s: "s \<in> set (snapPieces (build g))"
  have "\<forall>s \<in> set (fst (fold (addPieceAt g) (boardPositions (board g)) ([], {}))). \<exists>r p. s = makePieceSnapshot g r p"
    by (rule fold_keeps [where P = "\<lambda>x. \<forall>s \<in> set (fst x). \<exists>r p. s = makePieceSnapshot g r p"])
      (fastforce simp: addPieceAt_def split: option.splits if_splits)+
  then show ?thesis using s by (simp add: build_def)
qed

definition namesOk :: "GameServer \<Rightarrow> bool" where
  "namesOk s \<longleftrightarrow> (\<exists>t. quoted (whiteName s) = Some t) \<and> (\<exists>t. quoted (blackName s) = Some t)"

lemma snapshot_total:
  assumes "engine_wf (game s)" "getWidth (board (game s)) \<le> 26" "namesOk s"
  shows "\<exists>t. writeSnapshot (buildSnapshot s) = Some t"
proof -
  have entries: "printable (h_notation e)" if "e \<in> set (whiteMoveHistory (game s)) \<union> set (blackMoveHistory (game s))" for e
    using engine_wfD(4) [OF assms(1)] assms(2) that unfolding placesOk_def entryOk_def by blast
  obtain a b where names: "quoted (whiteName s) = Some a" "quoted (blackName s) = Some b"
    using assms(3) unfolding namesOk_def by blast
  obtain p where p: "writeArray writePiece (snapPieces (build (game s))) = Some p"
    using writeArray_total [of "snapPieces (build (game s))" writePiece] build_made writePiece_total by metis
  obtain m where m: "writeArray writeMotion (snapMotions (build (game s))) = Some m"
    using writeArray_total [of _ writeMotion] by (auto simp: writeMotion_def)
  obtain j where j: "writeArray writeJump (snapJumps (build (game s))) = Some j"
    using writeArray_total [of _ writeJump] by (auto simp: writeJump_def)
  have white: "\<exists>y. writeHistory x = Some y" if "x \<in> set (snapWhiteMoveHistory (build (game s)))" for x
    using that entries writeHistory_total by (auto simp: build_def)
  have black: "\<exists>y. writeHistory x = Some y" if "x \<in> set (snapBlackMoveHistory (build (game s)))" for x
    using that entries writeHistory_total by (auto simp: build_def)
  obtain w where w: "writeArray writeHistory (snapWhiteMoveHistory (build (game s))) = Some w"
    using writeArray_total white by blast
  obtain k where k: "writeArray writeHistory (snapBlackMoveHistory (build (game s))) = Some k"
    using writeArray_total black by blast
  show ?thesis using names p m j w k by (simp add: buildSnapshot_def writeSnapshot_def)
qed

section \<open>The loop\<close>

lemma namesOk_drop: "namesOk s \<Longrightarrow> namesOk (snd (snd (dropSession clock r s)))"
proof -
  have "\<exists>t. quoted [] = Some t" by (rule printable_quoted) simp
  then show "namesOk s \<Longrightarrow> namesOk (snd (snd (dropSession clock r s)))"
    by (auto simp: namesOk_def dropSession_def clearSlotNames_def Let_def)
qed

interpretation names: session_invariant namesOk
proof unfold_locales
  show "namesOk s \<Longrightarrow> afterSends s s' \<Longrightarrow> namesOk s'" for s s'
    by (simp add: namesOk_def afterSends_fields(11,12))
qed (rule namesOk_drop)

lemma namesOk_close: "namesOk (closeExpiredGame net s)"
proof -
  have "\<exists>t. quoted [] = Some t" by (rule printable_quoted) simp
  then show ?thesis
    by (simp add: namesOk_def closeExpiredGame_def case_prod_beta Let_def closeFinish_def)
qed

lemma namesOk_update: "namesOk s \<Longrightarrow> namesOk (updateReconnectionState net clock s)"
proof -
  assume ok: "namesOk s"
  then have "namesOk (s\<lparr>lastReconnectSecondsSent := n\<rparr>)" for n by (simp add: namesOk_def)
  then show ?thesis
    using ok by (simp add: updateReconnectionState_def sendReconnectingStatus_def Let_def namesOk_close names.broadcasts)
qed

lemma stateMessage_total:
  assumes "\<exists>t. writeSnapshot (buildSnapshot s) = Some t"
  shows "\<exists>t. serialize (stateMessage ''state_update'' s) = Some t"
proof -
  obtain a where "quoted [] = Some a" using printable_quoted [of "[]"] by auto
  moreover obtain b where "quoted ''state_update'' = Some b" using printable_quoted [of "''state_update''"] by auto
  ultimately show ?thesis using assms by (auto simp: serialize_def stateMessage_def notice_def newMessage_def)
qed

lemma newGame_extent: "extent newGame = (8, 8)"
  by code_simp

lemma played_extent: "played cfg g \<Longrightarrow> getWidth (board g) = 8 \<and> getHeight (board g) = 8"
  using extent_runOps [OF fresh_engine_wf [OF fresh_newGame], of cfg] newGame_extent
  by (auto simp: played_def extent_def)

lemma played_reachable: "serverReachable cfg (l, s) \<Longrightarrow> played cfg (game s)"
proof -
  assume "serverReachable cfg (l, s)"
  then obtain l0 where "(serverStep cfg)\<^sup>*\<^sup>* (l0, newGameServer) (l, s)" using serverReachable_run by blast
  then show ?thesis
    using engine_steps.run_keeps [of cfg "(l0, newGameServer)" "(l, s)"] serverOk_new by (simp add: newGameServer_def)
qed



text \<open>C21: A name is stored when a session is created and not checked for control characters, which
  no message can carry. While a started game has lost its first player and the server has not
  removed the session yet, a client that joins with such a name takes the seat, and the next state
  update ends the thread of the game loop with an exception, and with it the server.\<close>

theorem control_character_ends_the_server:
  assumes "gameStarted s" "\<not> closingExpiredGame s" "\<not> reconnectionPending s" "whitePlayer s = Some w"
    and "clock \<ge> lastStateUpdate l + 50 * 10 ^ 6"
    and "(outcome, s') = createSession net random c [] [CHR 0x01] (disconnect w s)"
  shows "(\<exists>r. outcome = Inr (Some r)) \<and> gameLoopRound cfg net clock (l, s') = Inl SerializeFailed"
proof -
  have name: "Username.isValid [CHR 0x01]" "Username.trim [CHR 0x01] = [CHR 0x01]" "quoted [CHR 0x01] = None"
    by code_simp+
  have lost: "\<not> connected (sessions (disconnect w s) w)" by (simp add: isConnected_def disconnect_def closeConnection_def)
  note f = afterSends_fields [OF afterSends_disconnect [of s w]]
  have made: "(\<exists>r. outcome = Inr (Some r)) \<and> gameStarted s' \<and> \<not> reconnectionPending s' \<and> whiteName s' = [CHR 0x01]"
    using assms lost name(1,2) by (auto simp: createSession_def makeSession_def slotConnected_def isConnected_def f Let_def)
  have "quoted (whiteName x) = None \<Longrightarrow> serialize (stateMessage why x) = None" for why x
    by (simp add: serialize_def stateMessage_def notice_def newMessage_def buildSnapshot_def writeSnapshot_def split: option.splits)
  then have stuck: "broadcastMessage net t (stateMessage why x) y = (Some SerializeFailed, y)"
    if "whiteName x = [CHR 0x01]" for t why x y
    using that name(3) by (simp add: broadcastMessage_def)
  have "whiteName (onGame h s') = [CHR 0x01]" for h using made by (simp add: onGame_def Let_def)
  then show ?thesis
    using made assms(5) stuck
    by (simp add: gameLoopRound_def updateReconnectionState_def milliseconds_def Let_def)
qed

theorem control_character_ends_the_server_witness:
  "gameLoopRound demoConfig (\<lambda>_. True) (10 ^ 9)
     (\<lparr>previousTime = 0, lastStateUpdate = 0\<rparr>,
      snd (createSession (\<lambda>_. True) (7, 9) 12 [] [CHR 0x01] (disconnect 0 demoRunning))) = Inl SerializeFailed"
proof -
  have demo: "gameStarted demoRunning" "\<not> closingExpiredGame demoRunning" "\<not> reconnectionPending demoRunning"
    "whitePlayer demoRunning = Some 0"
    by (simp_all add: demoRunning_def newGameServer_def)
  show ?thesis
    by (rule control_character_ends_the_server [THEN conjunct2, OF demo, of _ _ "fst (createSession (\<lambda>_. True) (7, 9) 12 [] [CHR 0x01] (disconnect 0 demoRunning))"]) simp_all
qed

end
