(* ===== verification/Game_Client_Properties.thy ===== *)
theory Game_Client_Properties
  imports Game_Client Server_Loop Protocol_Roundtrip
begin

text \<open>
  Properties of the network side of a client: its threads as a step relation and what every step
  keeps, the queue of messages as a queue of updates and one of responses per request, and a
  client and the server joined by the texts they send.
\<close>

section \<open>The queue of incoming messages\<close>

text \<open>The abstract view: the updates in order, and for each sequence number its responses.\<close>

definition updatesIn :: "Message list \<Rightarrow> Message list" where
  "updatesIn q = filter isUpdate q"

definition responsesIn :: "64 word \<Rightarrow> Message list \<Rightarrow> Message list" where
  "responsesIn sq q = filter (isMatchingResponse sq) q"

lemma response_or_update: "isUpdate m \<longleftrightarrow> \<not> isMatchingResponse (sequence m) m"
  by (simp add: isUpdate_def isMatchingResponse_def)

lemma matching_not_update: "isMatchingResponse sq m \<Longrightarrow> \<not> isUpdate m"
  by (auto simp: isUpdate_def isMatchingResponse_def split: if_splits)

lemma matching_sequence: "isMatchingResponse sq m \<Longrightarrow> sequence m = sq"
  by (simp add: isMatchingResponse_def split: if_splits)

lemma takeFirst_None: "takeFirst P q = None \<longleftrightarrow> filter P q = []"
  by (induction q) auto

lemma takeFirst_Some:
  "takeFirst P q = Some (m, r) \<Longrightarrow> filter P q = m # filter P r \<and> filter (\<lambda>x. \<not> P x) r = filter (\<lambda>x. \<not> P x) q"
  by (induction q arbitrary: r) (auto split: if_splits)

lemma takeFirst_other:
  assumes "takeFirst P q = Some (m, r)" "\<And>x. Q x \<Longrightarrow> \<not> P x"
  shows "filter Q r = filter Q q"
  using assms(1) by (induction q arbitrary: r) (auto split: if_splits dest: assms(2))

text \<open>C25: The queue in which the receiver thread puts everything behaves like separate queues. An
  arriving update or response goes to the end of its own queue; \<open>tryReceiveUpdate\<close> takes the oldest
  update and leaves every response; \<open>waitForResponse\<close> for a sequence number with a response takes
  its oldest one and leaves the updates and the responses to all other requests.\<close>

theorem incoming_queue_is_separate_queues:
  defines "u s \<equiv> updatesIn (incomingMessages s)" and "r s sq \<equiv> responsesIn sq (incomingMessages s)"
  shows "u (s\<lparr>incomingMessages := incomingMessages s @ [m]\<rparr>) = (if isUpdate m then u s @ [m] else u s) \<and>
    r (s\<lparr>incomingMessages := incomingMessages s @ [m]\<rparr>) sq =
      (if \<not> isUpdate m \<and> sequence m = sq then r s sq @ [m] else r s sq) \<and>
    (case u s of [] \<Rightarrow> tryReceiveUpdate s = (None, s)
     | first # rest \<Rightarrow> fst (tryReceiveUpdate s) = Some first \<and> u (snd (tryReceiveUpdate s)) = rest \<and>
         r (snd (tryReceiveUpdate s)) sq = r s sq) \<and>
    (case r s sq of [] \<Rightarrow> snd (waitForResponse sq timeout s) = s
     | first # rest \<Rightarrow> timeout \<le> 0 \<or> fst (waitForResponse sq timeout s) = Inr first \<and>
         r (snd (waitForResponse sq timeout s)) sq = rest \<and>
         u (snd (waitForResponse sq timeout s)) = u s \<and>
         (other = sq \<or> r (snd (waitForResponse sq timeout s)) other = r s other))"
proof (intro conjI)
  show "u (s\<lparr>incomingMessages := incomingMessages s @ [m]\<rparr>) = (if isUpdate m then u s @ [m] else u s)"
    by (simp add: u_def updatesIn_def)
  show "r (s\<lparr>incomingMessages := incomingMessages s @ [m]\<rparr>) sq =
      (if \<not> isUpdate m \<and> sequence m = sq then r s sq @ [m] else r s sq)"
    by (auto simp: r_def responsesIn_def isUpdate_def isMatchingResponse_def)
  have others: "filter (isMatchingResponse sq) q = filter (isMatchingResponse sq) (incomingMessages s)"
    if "takeFirst isUpdate (incomingMessages s) = Some (x, q)" for x q
    using takeFirst_other [OF that matching_not_update] .
  show "case u s of [] \<Rightarrow> tryReceiveUpdate s = (None, s)
     | first # rest \<Rightarrow> fst (tryReceiveUpdate s) = Some first \<and> u (snd (tryReceiveUpdate s)) = rest \<and>
         r (snd (tryReceiveUpdate s)) sq = r s sq"
  proof (cases "takeFirst isUpdate (incomingMessages s)")
    case None
    moreover from this have "u s = []" by (simp only: takeFirst_None u_def updatesIn_def)
    ultimately show ?thesis by (simp add: tryReceiveUpdate_def)
  next
    case (Some p)
    then obtain x q where p: "takeFirst isUpdate (incomingMessages s) = Some (x, q)" by (cases p) auto
    then have "u s = x # updatesIn q" using takeFirst_Some u_def updatesIn_def by simp
    then show ?thesis using p others [OF p] by (simp add: tryReceiveUpdate_def u_def r_def responsesIn_def)
  qed
  show "case r s sq of [] \<Rightarrow> snd (waitForResponse sq timeout s) = s
     | first # rest \<Rightarrow> timeout \<le> 0 \<or> fst (waitForResponse sq timeout s) = Inr first \<and>
         r (snd (waitForResponse sq timeout s)) sq = rest \<and>
         u (snd (waitForResponse sq timeout s)) = u s \<and>
         (other = sq \<or> r (snd (waitForResponse sq timeout s)) other = r s other)"
  proof (cases "takeFirst (isMatchingResponse sq) (incomingMessages s)")
    case None
    then have "r s sq = []" by (simp add: takeFirst_None r_def responsesIn_def)
    then show ?thesis using None by (simp add: waitForResponse_def)
  next
    case (Some p)
    then obtain x q where p: "takeFirst (isMatchingResponse sq) (incomingMessages s) = Some (x, q)" by (cases p) auto
    then have found: "r s sq = x # responsesIn sq q" using takeFirst_Some r_def responsesIn_def by simp
    then have "list_ex (isMatchingResponse sq) (incomingMessages s)"
      by (auto simp: r_def responsesIn_def list_ex_iff filter_eq_Cons_iff)
    moreover have "updatesIn q = u s" unfolding updatesIn_def u_def
      using takeFirst_other [OF p, of isUpdate] matching_not_update by blast
    moreover have "other = sq \<or> responsesIn other q = r s other" unfolding responsesIn_def r_def
      using takeFirst_other [OF p, of "isMatchingResponse other"] matching_sequence by blast
    ultimately show ?thesis using found p by (simp add: waitForResponse_def u_def r_def)
  qed
qed

text \<open>A response that arrives after its request has timed out stays in the queue for good: no
  reading of updates and no wait for another request ever removes it.\<close>

inductive queueStep :: "64 word \<Rightarrow> GameClient \<Rightarrow> GameClient \<Rightarrow> bool" for sq where
  arrived: "queueStep sq s (s\<lparr>incomingMessages := incomingMessages s @ [m]\<rparr>)"
| update: "queueStep sq s (snd (tryReceiveUpdate s))"
| waited: "other \<noteq> sq \<Longrightarrow> queueStep sq s (snd (waitForResponse other timeout s))"

theorem late_response_stays:
  assumes "(queueStep (sequence m))\<^sup>*\<^sup>* s s'" "\<not> isUpdate m" "m \<in> set (incomingMessages s)"
  shows "m \<in> set (incomingMessages s')"
  using assms(1,3)
proof (induction rule: rtranclp_induct)
  case (step s1 s2)
  then have "m \<in> set (incomingMessages s1)" by blast
  then have m: "m \<in> set (responsesIn (sequence m) (incomingMessages s1))"
    using assms(2) by (simp add: responsesIn_def response_or_update)
  show ?case using step.hyps(2)
  proof cases
    case update
    have "filter (isMatchingResponse (sequence m)) (incomingMessages s2) = responsesIn (sequence m) (incomingMessages s1)"
      using takeFirst_other [of isUpdate _ _ _ "isMatchingResponse (sequence m)"] matching_not_update
      by (auto simp: update tryReceiveUpdate_def responsesIn_def split: option.splits)
    then show ?thesis using m filter_is_subset by (metis subsetD)
  next
    case (waited other timeout)
    have "\<not> isMatchingResponse other x" if "isMatchingResponse (sequence m) x" for x
      using that waited(2) matching_sequence by blast
    then have "filter (isMatchingResponse (sequence m)) (incomingMessages s2) = responsesIn (sequence m) (incomingMessages s1)"
      using takeFirst_other [of "isMatchingResponse other" _ _ _ "isMatchingResponse (sequence m)"]
      by (auto simp: waited(1) waitForResponse_def responsesIn_def split: option.splits)
    then show ?thesis using m filter_is_subset by (metis subsetD)
  qed (use \<open>m \<in> set (incomingMessages s1)\<close> in simp)
qed

section \<open>A client and the server\<close>

lemma escapable_subset: "escapable s \<Longrightarrow> set t \<subseteq> set s \<Longrightarrow> escapable t"
  by (auto simp: escapable_iff list_all_iff)

lemma namesOk_escapable: "namesOk s \<longleftrightarrow> escapable (whiteName s) \<and> escapable (blackName s)"
  by (auto simp: namesOk_def escapable_def quoted_def bind_eq_Some_conv)

lemma escapable_trim: "escapable s \<Longrightarrow> escapable (Username.trim s)"
  by (erule escapable_subset) (auto simp: Username.trim_def Let_def dest: in_set_takeD in_set_dropD)

lemma escapable_literals [simp]:
  "escapable ''player_assigned''" "escapable ''white''" "escapable ''black''"
  by code_simp+

lemma escapable_hexDigits: "escapable (hexDigits n)"
proof (induction n rule: hexDigits.induct)
  case (1 n)
  have "list_all (\<lambda>d. escapeChar (hexDigit d) \<noteq> None) [0..<16]" by code_simp
  then have digit: "escapeChar (hexDigit (m mod 16)) \<noteq> None" for m by (simp add: list_all_iff)
  from this [of n] show ?case using 1 by (subst hexDigits.simps) (auto simp: escapable_iff)
qed

lemma escapable_newToken: "escapable (createReconnectToken a b i)"
  using escapable_hexDigits by (simp add: createReconnectToken_def toHex_def escapable_iff)

lemma handshake_valid:
  assumes "escapable (gcToken k)" "escapable (gcUsername k)"
  shows "validMessage escapable (handshakeMessage k)"
  using assms by (simp add: handshakeMessage_def newMessage_def validMessage_def wirePosition_def inInt_def INT_MIN_def INT_MAX_def LLONG_MAX_def)

lemma valid_roundtrip: "validMessage escapable m \<Longrightarrow> deserialize (the (serialize m)) = Some m \<and> the (serialize m) \<noteq> []"
proof -
  assume "validMessage escapable m"
  then have "deserialize (the (serialize m)) = Some m"
    using serialize_render readMessage_render by fastforce
  moreover from this have "the (serialize m) \<noteq> []" by (auto simp: deserialize_def)
  ultimately show ?thesis by simp
qed

text \<open>A session that was just made: its names and its token can be written.\<close>

lemma reply_pair [simp]: "replyAndClose net c m s \<noteq> (Inr (Some r), s')"
  using reply_no_session [of net c m s r] by (cases "replyAndClose net c m s") simp

definition seatToken :: "GameServer \<Rightarrow> PieceColor \<Rightarrow> string" where
  "seatToken s color = (if color = White then whiteReconnectToken s else blackReconnectToken s)"

lemma createSession_texts:
  assumes "createSession net random c tok name s = (Inr (Some r), s')"
  shows "{sessionUsername (sessions s' r), whiteName s', blackName s'} \<subseteq> {whiteName s, blackName s, Username.trim name}"
    "seatToken s' (assignedColor (sessions s' r)) \<in> {tok, createReconnectToken (fst random) (snd random) (nextClientId s)}"
proof -
  have "{sessionUsername (sessions s' r), whiteName s', blackName s'} \<subseteq> {whiteName s, blackName s, Username.trim name} \<and>
    seatToken s' (assignedColor (sessions s' r)) \<in> {tok, createReconnectToken (fst random) (snd random) (nextClientId s)}"
    using assms unfolding createSession_def Let_def makeSession_def
    by (simp only: split: if_splits) (auto simp: seatToken_def reservedToken_def)
  then show "{sessionUsername (sessions s' r), whiteName s', blackName s'} \<subseteq> {whiteName s, blackName s, Username.trim name}"
    "seatToken s' (assignedColor (sessions s' r)) \<in> {tok, createReconnectToken (fst random) (snd random) (nextClientId s)}"
    by blast+
qed

lemma assignment_valid:
  assumes "escapable (seatToken s (assignedColor (sessions s r)))" "escapable (sessionUsername (sessions s r))" "namesOk s"
  shows "validMessage escapable (assignmentMessage r s)"
  using assms
  by (simp add: assignmentMessage_def notice_def newMessage_def validMessage_def wirePosition_def inInt_def
      INT_MIN_def INT_MAX_def LLONG_MAX_def namesOk_escapable seatToken_def Let_def)

text \<open>C26: Joining works end to end, through the texts of the protocol. When the server has a seat for
  the token and name of a client, the client's handshake gets it, and from the assignment the
  server answers with, the client learns its color, the token that is stored for this
  seat, its own name and the names of both players.\<close>

theorem join_end_to_end:
  fixes net random c k s r s' what
  assumes "createSession net random c (gcToken k) (gcUsername k) s = (Inr (Some r), s')"
    and "escapable (gcToken k)" "escapable (gcUsername k)" "namesOk s"
  defines "k' \<equiv> receiveLine what (textOf (assignmentMessage r s')) k"
  shows "acceptClient net random c (textOf (handshakeMessage k)) s = (Inr (Some r), s') \<and>
    playerAssigned k' \<and> gcColor k' = assignedColor (sessions s' r) \<and>
    gcToken k' = seatToken s' (assignedColor (sessions s' r)) \<and>
    gcUsername k' = sessionUsername (sessions s' r) \<and> gcWhiteUsername k' = whiteName s' \<and> gcBlackUsername k' = blackName s'"
proof -
  have handshake: "deserialize (textOf (handshakeMessage k)) = Some (handshakeMessage k)" "textOf (handshakeMessage k) \<noteq> []"
    using valid_roundtrip [OF handshake_valid [OF assms(2,3)]] by (simp_all add: textOf_def)
  have accepted: "acceptClient net random c (textOf (handshakeMessage k)) s = (Inr (Some r), s')"
    using assms(1) handshake by (simp add: acceptClient_def handshakeMessage_def)
  have "escapable (Username.trim (gcUsername k))" "escapable (createReconnectToken a b i)" for a b i
    using assms(3) escapable_trim escapable_newToken by blast+
  then have "escapable (seatToken s' (assignedColor (sessions s' r)))" "escapable (sessionUsername (sessions s' r))" "namesOk s'"
    using createSession_texts [OF assms(1)] assms(2,4) unfolding namesOk_escapable by auto
  then have "deserialize (textOf (assignmentMessage r s')) = Some (assignmentMessage r s')" "textOf (assignmentMessage r s') \<noteq> []"
    using valid_roundtrip [OF assignment_valid] by (simp_all add: textOf_def)
  then show ?thesis
    using accepted
    by (cases "assignedColor (sessions s' r)")
      (simp_all add: k'_def receiveLine_def noteUsernames_def takeAssignment_def assignmentMessage_def notice_def
        newMessage_def seatToken_def Let_def)
qed

definition demoJoiner :: GameClient where
  "demoJoiner = (newGameClient None)\<lparr>gcUsername := ''dana''\<rparr>"

theorem join_end_to_end_witness:
  "acceptClient (\<lambda>_. True) (7, 9) 3 (textOf (handshakeMessage demoJoiner)) newGameServer =
     createSession (\<lambda>_. True) (7, 9) 3 [] ''dana'' newGameServer"
proof -
  have valid: "Username.isValid (Username.trim ''dana'')" by code_simp
  have "\<exists>r s'. createSession (\<lambda>_. True) (7, 9) 3 [] ''dana'' newGameServer = (Inr (Some r), s')"
    using valid by (simp add: createSession_def newGameServer_def slotConnected_def makeSession_def Let_def)
  then obtain r s' where made: "createSession (\<lambda>_. True) (7, 9) 3 [] ''dana'' newGameServer = (Inr (Some r), s')" by blast
  have "escapable ''dana''" by code_simp
  then show ?thesis
    using join_end_to_end [of "\<lambda>_. True" "(7, 9)" 3 demoJoiner newGameServer r s'] made
    by (simp add: demoJoiner_def newGameClient_def namesOk_escapable newGameServer_def)
qed

section \<open>The threads of a client\<close>

text \<open>Where the receiver thread is: not started or joined, in its receiving loop, in its
  reconnecting loop, or at its end.\<close>

datatype receiver = Absent | Receiving | Retrying | Ended

text \<open>A step of one of the threads; \<open>dial\<close>, \<open>send\<close> and the texts of exceptions vary freely.\<close>

inductive clientStep :: "receiver \<times> GameClient \<Rightarrow> receiver \<times> GameClient \<Rightarrow> bool" where
  connected: "connectClient dial send what ip port name s = (ReceiverStarted, s') \<Longrightarrow> clientStep (r, s) (Receiving, s')"
| not_connected: "connectClient dial send what ip port name s = (ConnectFailed e, s') \<Longrightarrow> clientStep (r, s) (r, s')"
| line: "clientStep (Receiving, s) (Receiving, receiveLine what json s)"
| socket_failed: "clientStep (Receiving, s) (Receiving, lineFailed e s)"
| thread_ends: "\<not> (gcConnected s \<and> \<not> stopRequested s) \<Longrightarrow> leaveOrRetry s = (True, s') \<Longrightarrow> clientStep (Receiving, s) (Ended, s')"
| reconnects: "\<not> (gcConnected s \<and> \<not> stopRequested s) \<Longrightarrow> leaveOrRetry s = (False, s') \<Longrightarrow> clientStep (Receiving, s) (Retrying, s')"
| retried: "retryRound dial send what s = (b, s') \<Longrightarrow> clientStep (Retrying, s) (if b then Receiving else Retrying, s')"
| sent: "clientStep (r, s) (r, snd (sendToServer send what m s))"
| sequenced: "clientStep (r, s) (r, snd (createSequence s))"
| awaited: "clientStep (r, s) (r, snd (waitForResponse sq timeout s))"
| updated: "clientStep (r, s) (r, snd (tryReceiveUpdate s))"
| disconnected: "r \<in> {Absent, Ended} \<Longrightarrow> clientStep (r, s) (Absent, disconnectClient s)"
| stopping: "clientStep (r, s) (r, s\<lparr>stopRequested := True, tryingToReconnect := False, gcGameStarted := False\<rparr>)"

definition clientOk :: "receiver \<times> GameClient \<Rightarrow> bool" where
  "clientOk = (\<lambda>(r, s).
     (receiverJoinable s \<longleftrightarrow> r \<noteq> Absent) \<and>
     (gcConnected s \<longrightarrow> tcp s \<noteq> None \<and> r \<noteq> Absent) \<and>
     (gcGameStarted s \<longrightarrow> gameEverStarted s) \<and>
     (tryingToReconnect s \<longrightarrow> playerAssigned s \<and> \<not> gcGameFull s \<and> \<not> gcGameClosed s) \<and>
     (r = Retrying \<longrightarrow> \<not> gcGameFull s \<and> \<not> gcGameClosed s))"

text \<open>The parts of a client that \<open>clientOk\<close> speaks of.\<close>

definition status :: "GameClient \<Rightarrow> bool \<times> bool \<times> bool \<times> bool \<times> bool \<times> bool \<times> bool \<times> bool \<times> bool" where
  "status s = (receiverJoinable s, gcConnected s, tcp s \<noteq> None, gcGameStarted s, gameEverStarted s,
     tryingToReconnect s, playerAssigned s, gcGameFull s, gcGameClosed s)"

lemma clientOk_status: "status s = status s' \<Longrightarrow> clientOk (r, s) = clientOk (r, s')"
  by (auto simp: status_def clientOk_def)

lemma status_unchanged:
  "status (noteUsernames m s) = status s" "status (snd (createSequence s)) = status s"
  "status (snd (waitForResponse sq timeout s)) = status s" "status (snd (tryReceiveUpdate s)) = status s"
  "status (s\<lparr>incomingMessages := q\<rparr>) = status s"
  by (auto simp: status_def noteUsernames_def createSequence_def waitForResponse_def tryReceiveUpdate_def
    split: option.split prod.split)

lemma clientOk_lost: "clientOk (r, s) \<Longrightarrow> clientOk (r, markConnectionLost e s)"
  by (auto simp: clientOk_def markConnectionLost_def Let_def)

lemma clientOk_lineFailed: "clientOk (r, s) \<Longrightarrow> clientOk (r, lineFailed e s)"
  by (simp add: lineFailed_def clientOk_lost)

lemma clientOk_noteStatus: "clientOk (Receiving, s) \<Longrightarrow> clientOk (Receiving, noteStatus m s)"
  by (auto simp: clientOk_def noteStatus_def Let_def split: MessageType.split)

lemma clientOk_assignment: "clientOk (r, s) \<Longrightarrow> takeAssignment m s = Some s' \<Longrightarrow> clientOk (r, s')"
  by (auto simp: clientOk_def takeAssignment_def Let_def split: if_splits)

lemma clientOk_line: "clientOk (Receiving, s) \<Longrightarrow> clientOk (Receiving, receiveLine what json s)"
proof -
  assume ok: "clientOk (Receiving, s)"
  then have noted: "clientOk (Receiving, noteUsernames m s)" for m
    using clientOk_status [OF status_unchanged(1)] by blast
  have queued: "clientOk (Receiving, x\<lparr>incomingMessages := q\<rparr>) = clientOk (Receiving, x)" for x q
    by (rule clientOk_status [OF status_unchanged(5)])
  show ?thesis
    using ok noted
    by (auto simp: receiveLine_def Let_def queued clientOk_lost clientOk_lineFailed clientOk_noteStatus
      split: option.split intro: clientOk_assignment)
qed

lemma connect_cases:
  "connectWithSavedToken dial send what s = (b, s') \<Longrightarrow>
    \<not> b \<and> (\<exists>e. s' = s\<lparr>connectionError := e\<rparr>) \<or> \<not> b \<and> s' = s \<or>
    b \<and> (\<exists>c. s' = s\<lparr>tcp := Some c, gcConnected := True, connectionError := []\<rparr>)"
  by (auto simp: connectWithSavedToken_def split: sum.splits option.splits if_splits)

lemma clientOk_retry:
  assumes "retryRound dial send what s = (b, s')" "clientOk (Retrying, s)"
  shows "clientOk (if b then Receiving else Retrying, s')"
  using assms connect_cases [of dial send what s b s']
  by (auto simp: retryRound_def clientOk_def split: if_splits)

lemma clientOk_reset: "clientOk (r, s) \<Longrightarrow> \<not> gcConnected s \<Longrightarrow> clientOk (r, resetClient ip port name s)"
  by (simp add: clientOk_def resetClient_def Let_def)

lemma clientOk_connect:
  assumes "connectClient dial send what ip port name s = (outcome, s')" "clientOk (r, s)"
  shows "outcome = ReceiverStarted \<Longrightarrow> clientOk (Receiving, s')" "outcome = ConnectFailed e \<Longrightarrow> clientOk (r, s')"
proof -
  let ?s = "resetClient ip port name s"
  obtain b s1 where c: "connectWithSavedToken dial send what ?s = (b, s1)" by fastforce
  have ok: "clientOk (r, ?s)" "receiverJoinable ?s = receiverJoinable s" if "\<not> gcConnected s"
    using clientOk_reset [OF assms(2) that] by (simp_all add: resetClient_def Let_def)
  show "clientOk (Receiving, s')" if "outcome = ReceiverStarted"
    using connect_cases [OF c] ok assms(1) that
    by (auto simp: connectClient_def c clientOk_def split: if_splits)
  show "clientOk (r, s')" if "outcome = ConnectFailed e"
    using connect_cases [OF c] ok assms(1) that
    by (auto simp: connectClient_def c clientOk_def split: if_splits)
qed

lemma clientOk_send: "clientOk (r, s) \<Longrightarrow> clientOk (r, snd (sendToServer send what m s))"
  by (auto simp: sendToServer_def clientOk_lost split: option.split)

lemma clientOk_step: "clientStep (r, s) (r', s') \<Longrightarrow> clientOk (r, s) \<Longrightarrow> clientOk (r', s')"
proof (induction "(r, s)" "(r', s')" arbitrary: r s r' s' rule: clientStep.induct)
  case (thread_ends s s')
  then show ?case by (auto simp: leaveOrRetry_def clientOk_def split: if_splits)
next
  case (reconnects s s')
  then show ?case by (auto simp: leaveOrRetry_def clientOk_def split: if_splits)
next
  case (disconnected r s)
  then show ?case by (auto simp: disconnectClient_def clientOk_def Let_def)
next
  case (stopping r s)
  then show ?case by (auto simp: clientOk_def)
next
  case (sequenced r s)
  then show ?case using clientOk_status [OF status_unchanged(2)] by blast
next
  case (awaited r s sq timeout)
  then show ?case using clientOk_status [OF status_unchanged(3)] by blast
next
  case (updated r s)
  then show ?case using clientOk_status [OF status_unchanged(4)] by blast
next
  case (connected dial send what ip port name s s' r)
  then show ?case using clientOk_connect(1) by blast
next
  case (not_connected dial send what ip port name s e s' r)
  then show ?case using clientOk_connect(2) by blast
next
  case (retried dial send what s b s')
  then show ?case using clientOk_retry by blast
qed (simp_all add: clientOk_line clientOk_lineFailed clientOk_send)

definition clientReachable :: "string option \<Rightarrow> receiver \<times> GameClient \<Rightarrow> bool" where
  "clientReachable environment = clientStep\<^sup>*\<^sup>* (Absent, newGameClient environment)"

lemma clientOk_reachable: "clientReachable environment (r, s) \<Longrightarrow> clientOk (r, s)"
  unfolding clientReachable_def
proof (induction "(r, s)" arbitrary: r s rule: rtranclp_induct)
  case base
  then show ?case by (simp add: clientOk_def newGameClient_def)
next
  case (step y)
  then show ?case using clientOk_step by (cases y) blast
qed

lemma client_joinable: "clientReachable environment (r, s) \<Longrightarrow> receiverJoinable s \<longleftrightarrow> r \<noteq> Absent"
  by (drule clientOk_reachable) (simp add: clientOk_def)


definition demoConnected :: GameClient where
  "demoConnected = snd (connectClient (\<lambda>_ _. Inr 5) (\<lambda>_ _. None) [] ''host'' 5000 ''dana'' (newGameClient None))"

lemma demoConnected_reachable: "clientReachable None (Receiving, demoConnected)"
proof -
  have "fst (connectClient (\<lambda>_ _. Inr 5) (\<lambda>_ _. None) [] ''host'' 5000 ''dana'' (newGameClient None)) = ReceiverStarted"
    by code_simp
  then have "clientStep (Absent, newGameClient None) (Receiving, demoConnected)"
    unfolding demoConnected_def by (metis clientStep.connected prod.collapse)
  then show ?thesis unfolding clientReachable_def by blast
qed


text \<open>Only a connected client refuses to connect again. When the connection of a client was lost and
  nobody called \<open>disconnect\<close>, a second \<open>connectTo\<close> that gets through replaces a joinable thread.\<close>

theorem connecting_again_ends_the_program:
  assumes "clientReachable environment (r, s)" "r \<noteq> Absent" "\<not> gcConnected s"
    and "fst (connectWithSavedToken dial send what (resetClient ip port name s))"
  shows "fst (connectClient dial send what ip port name s) = ProgramTerminated"
proof -
  obtain s1 where c: "connectWithSavedToken dial send what (resetClient ip port name s) = (True, s1)"
    using assms(4) by (metis prod.collapse)
  have "receiverJoinable (resetClient ip port name s)"
    using client_joinable [OF assms(1)] assms(2) by (simp add: resetClient_def Let_def)
  then have "receiverJoinable s1" using connect_cases [OF c] by auto
  then show ?thesis using c assms(3) by (simp add: connectClient_def)
qed

end
