(* ===== verification/Network_Controller.thy ===== *)
theory Network_Controller
  imports Game_Client Client_State
begin

text \<open>
  The clicks of a player of the network game,
  \<open>src/client/desktop_client/src/Client/NetworkController.cpp\<close>. The controller, the client and the
  client's snapshot are one state. While a request waits for its response the receiver thread
  goes on: \<open>meanwhile\<close> is what it does to the client until the wait ends.
\<close>

section \<open>State\<close>

record NetworkController =
  client :: GameClient
  gameState :: ClientGameState
  netSelected :: "Position option"
  netStartX :: int
  netStartY :: int
  netCellX :: int
  netCellY :: int
  boardRows :: int
  boardCols :: int
  responseTimeoutMs :: int

text \<open>The constructor throws on a configuration that is not positive.\<close>

definition newNetworkController ::
    "GameClient \<Rightarrow> ClientGameState \<Rightarrow> int \<Rightarrow> int \<Rightarrow> int \<Rightarrow> int \<Rightarrow> int \<Rightarrow> int \<Rightarrow> int \<Rightarrow> NetworkController option" where
  "newNetworkController k s x y sx sy rows cols timeout =
     (if sx \<le> 0 \<or> sy \<le> 0 \<or> rows \<le> 0 \<or> cols \<le> 0 \<or> timeout \<le> 0 then None
      else Some \<lparr>client = k, gameState = s, netSelected = None, netStartX = x, netStartY = y,
        netCellX = sx, netCellY = sy, boardRows = rows, boardCols = cols, responseTimeoutMs = timeout\<rparr>)"

definition netResult :: "bool \<Rightarrow> string \<Rightarrow> ControllerResult" where
  "netResult ok why = \<lparr>handled = ok, controllerReason = why\<rparr>"

definition netClickToCell :: "int \<Rightarrow> int \<Rightarrow> NetworkController \<Rightarrow> Position option" where
  "netClickToCell x y c =
     (let relativeX = x - netStartX c; relativeY = y - netStartY c in
      if relativeX < 0 \<or> relativeY < 0 then None
      else let col = relativeX div netCellX c; row = relativeY div netCellY c in
        if row < 0 \<or> row \<ge> boardRows c \<or> col < 0 \<or> col \<ge> boardCols c then None
        else Some (Position row col))"

section \<open>Pieces\<close>

definition netAvailable :: "PieceSnapshot option \<Rightarrow> bool" where
  "netAvailable piece =
     (case piece of None \<Rightarrow> False | Some p \<Rightarrow> ps_state p = ''idle'' \<and> ps_remainingCooldownMs p \<le> 0)"

definition isOwnedPiece :: "NetworkController \<Rightarrow> PieceSnapshot option \<Rightarrow> bool" where
  "isOwnedPiece c piece =
     (case piece of
        None \<Rightarrow> False
      | Some p \<Rightarrow>
          (if ps_token p = [] \<or> \<not> playerAssigned (client c) then False
           else hd (ps_token p) = (if gcColor (client c) = White then CHR ''w'' else CHR ''b'')))"

definition haveSameColor :: "PieceSnapshot \<Rightarrow> PieceSnapshot \<Rightarrow> bool" where
  "haveSameColor p q \<longleftrightarrow> ps_token p \<noteq> [] \<and> ps_token q \<noteq> [] \<and> hd (ps_token p) = hd (ps_token q)"

section \<open>Updates\<close>

lemma takeFirst_shorter: "takeFirst P q = Some (m, r) \<Longrightarrow> length r < length q"
  by (induction q arbitrary: r) (auto split: if_splits)

function pendingUpdates :: "GameClient \<Rightarrow> ClientGameState \<Rightarrow> bool \<Rightarrow> bool \<times> GameClient \<times> ClientGameState" where
  "pendingUpdates k s stateWasUpdated =
     (case tryReceiveUpdate k of
        (None, _) \<Rightarrow> (stateWasUpdated, k, s)
      | (Some m, k1) \<Rightarrow>
          (case applyMessage m s of (applied, s1) \<Rightarrow> pendingUpdates k1 s1 (applied \<or> stateWasUpdated)))"
  by pat_completeness auto

termination
  by (relation "measure (\<lambda>(k, s, b). length (incomingMessages k))")
    (auto simp: tryReceiveUpdate_def dest: takeFirst_shorter split: option.splits)

declare pendingUpdates.simps [simp del]

definition applyPendingUpdates :: "NetworkController \<Rightarrow> bool \<times> NetworkController" where
  "applyPendingUpdates c =
     (case pendingUpdates (client c) (gameState c) False of (stateWasUpdated, k, s) \<Rightarrow>
        let c1 = c\<lparr>client := k, gameState := s\<rparr>;
            c2 = (if gcGameStarted (client c1) then c1 else c1\<lparr>netSelected := None\<rparr>);
            c3 = (case netSelected c2 of
                    None \<Rightarrow> c2
                  | Some cell \<Rightarrow>
                      (let piece = findPieceAt cell (gameState c2) in
                       if stateWasUpdated \<and> (\<not> netAvailable piece \<or> \<not> isOwnedPiece c2 piece)
                       then c2\<lparr>netSelected := None\<rparr> else c2))
        in (stateWasUpdated, c3))"

section \<open>Requests\<close>

definition netSendRequest ::
    "sender \<Rightarrow> string \<Rightarrow> (GameClient \<Rightarrow> GameClient) \<Rightarrow> MessageType \<Rightarrow> Position \<Rightarrow> Position \<Rightarrow>
       NetworkController \<Rightarrow> ControllerResult \<times> NetworkController" where
  "netSendRequest send what meanwhile kind source destination c =
     (if \<not> gcGameStarted (client c) then (netResult False ''waiting_for_opponent'', c\<lparr>netSelected := None\<rparr>)
      else if \<not> gcConnected (client c) then (netResult False ''network_error: client_not_connected'', c)
      else case createSequence (client c) of (sq, k1) \<Rightarrow>
        let request = newMessage\<lparr>msgType := kind, sequence := sq, msgSource := source,
              msgDestination := destination, createdAtMs := getServerTimeMs (gameState c)\<rparr>
        in (case sendToServer send what request k1 of
              (Some e, k2) \<Rightarrow> (netResult False (''network_error: '' @ e), c\<lparr>client := k2\<rparr>)
            | (None, k2) \<Rightarrow>
                (case waitForResponse sq (responseTimeoutMs c) (meanwhile k2) of
                   (Inl e, k3) \<Rightarrow> (netResult False (''network_error: '' @ e), c\<lparr>client := k3\<rparr>)
                 | (Inr response, k3) \<Rightarrow>
                     (let c1 = c\<lparr>client := k3, netSelected := None\<rparr> in
                      if \<not> hasSnapshot response then (netResult False ''missing_server_snapshot'', c1)
                      else (netResult (accepted response) (reason response),
                            c1\<lparr>gameState := snd (applyMessage response (gameState c1))\<rparr>)))))"

section \<open>Clicks\<close>

definition netSelectFirst :: "Position \<Rightarrow> NetworkController \<Rightarrow> ControllerResult \<times> NetworkController" where
  "netSelectFirst clicked c =
     (let piece = findPieceAt clicked (gameState c) in
      if piece = None then (netResult False R_EMPTY_CLICK, c)
      else if \<not> netAvailable piece then (netResult False R_MOTION_IN_PROGRESS, c)
      else if \<not> isOwnedPiece c piece then (netResult False ''not_your_piece'', c)
      else (netResult True R_SELECTED, c\<lparr>netSelected := Some clicked\<rparr>))"

definition netSelectFriendly :: "Position \<Rightarrow> NetworkController \<Rightarrow> ControllerResult \<times> NetworkController" where
  "netSelectFriendly clicked c =
     (let piece = findPieceAt clicked (gameState c) in
      if \<not> netAvailable piece \<or> \<not> isOwnedPiece c piece
      then (netResult False (if \<not> isOwnedPiece c piece then ''not_your_piece'' else R_MOTION_IN_PROGRESS),
            c\<lparr>netSelected := None\<rparr>)
      else (netResult True R_SELECTED, c\<lparr>netSelected := Some clicked\<rparr>))"

definition netSelectedCell ::
    "sender \<Rightarrow> string \<Rightarrow> (GameClient \<Rightarrow> GameClient) \<Rightarrow> Position \<Rightarrow> Position \<Rightarrow>
       NetworkController \<Rightarrow> ControllerResult \<times> NetworkController" where
  "netSelectedCell send what meanwhile source clicked c =
     (if clicked = source then netSendRequest send what meanwhile JumpRequest source source c
      else case findPieceAt source (gameState c) of
        None \<Rightarrow> (netResult False R_EMPTY_SOURCE, c\<lparr>netSelected := None\<rparr>)
      | Some piece \<Rightarrow>
          (if \<not> netAvailable (Some piece) then (netResult False R_MOTION_IN_PROGRESS, c\<lparr>netSelected := None\<rparr>)
           else if \<not> isOwnedPiece c (Some piece) then (netResult False ''not_your_piece'', c\<lparr>netSelected := None\<rparr>)
           else if (case findPieceAt clicked (gameState c) of None \<Rightarrow> False | Some other \<Rightarrow> haveSameColor piece other)
           then netSelectFriendly clicked c
           else netSendRequest send what meanwhile MoveRequest source clicked c))"

text \<open>The checks with which \<open>click\<close> and \<open>jump\<close> begin, after the updates are applied.\<close>

definition netReady :: "NetworkController \<Rightarrow> (ControllerResult \<times> NetworkController) option" where
  "netReady c =
     (if \<not> gcGameStarted (client c) then Some (netResult False ''waiting_for_opponent'', c\<lparr>netSelected := None\<rparr>)
      else if \<not> initialized (gameState c) then Some (netResult False ''client_state_not_initialized'', c)
      else if isGameOver (gameState c) then Some (netResult False R_GAME_OVER, c\<lparr>netSelected := None\<rparr>)
      else None)"

definition netClick ::
    "sender \<Rightarrow> string \<Rightarrow> (GameClient \<Rightarrow> GameClient) \<Rightarrow> int \<Rightarrow> int \<Rightarrow>
       NetworkController \<Rightarrow> ControllerResult \<times> NetworkController" where
  "netClick send what meanwhile x y c0 =
     (let c = snd (applyPendingUpdates c0) in
      case netReady c of
        Some refused \<Rightarrow> refused
      | None \<Rightarrow>
          (case netClickToCell x y c of
             None \<Rightarrow> (netResult (netSelected c \<noteq> None) R_CLICK_OUTSIDE, c\<lparr>netSelected := None\<rparr>)
           | Some clicked \<Rightarrow>
               (case netSelected c of
                  None \<Rightarrow> netSelectFirst clicked c
                | Some source \<Rightarrow> netSelectedCell send what meanwhile source clicked c)))"

definition netJump ::
    "sender \<Rightarrow> string \<Rightarrow> (GameClient \<Rightarrow> GameClient) \<Rightarrow> int \<Rightarrow> int \<Rightarrow>
       NetworkController \<Rightarrow> ControllerResult \<times> NetworkController" where
  "netJump send what meanwhile x y c0 =
     (let c = snd (applyPendingUpdates c0) in
      case netReady c of
        Some refused \<Rightarrow> refused
      | None \<Rightarrow>
          (case netClickToCell x y c of
             None \<Rightarrow> (netResult False R_CLICK_OUTSIDE, c\<lparr>netSelected := None\<rparr>)
           | Some clicked \<Rightarrow>
               (if \<not> isOwnedPiece c (findPieceAt clicked (gameState c))
                then (netResult False ''not_your_piece'', c\<lparr>netSelected := None\<rparr>)
                else netSendRequest send what meanwhile JumpRequest clicked clicked c)))"

section \<open>What a click asks the server\<close>

text \<open>A piece of this client's own color, at rest, at a cell on the board.\<close>

definition ownAtRest :: "NetworkController \<Rightarrow> Position \<Rightarrow> bool" where
  "ownAtRest c p \<longleftrightarrow> netAvailable (findPieceAt p (gameState c)) \<and> isOwnedPiece c (findPieceAt p (gameState c)) \<and>
     0 \<le> getRow p \<and> getRow p < boardRows c \<and> 0 \<le> getCol p \<and> getCol p < boardCols c"

definition selectionOk :: "NetworkController \<Rightarrow> bool" where
  "selectionOk c \<longleftrightarrow> (\<forall>p. netSelected c = Some p \<longrightarrow> ownAtRest c p)"

lemma netClickToCell_inside:
  "netClickToCell x y c = Some p \<Longrightarrow> 0 \<le> getRow p \<and> getRow p < boardRows c \<and> 0 \<le> getCol p \<and> getCol p < boardCols c"
  by (auto simp: netClickToCell_def Let_def split: if_splits)

lemma applyMessage_False: "applyMessage m s = (False, s1) \<Longrightarrow> s1 = s"
  by (auto simp: applyMessage_def split: if_splits)

lemma tryReceiveUpdate_client:
  "tryReceiveUpdate k = (r, k1) \<Longrightarrow> k1 = k\<lparr>incomingMessages := incomingMessages k1\<rparr>"
  by (auto simp: tryReceiveUpdate_def split: option.splits)

lemma pendingUpdates_result:
  "pendingUpdates k s b = (b', k', s') \<Longrightarrow>
    k' = k\<lparr>incomingMessages := incomingMessages k'\<rparr> \<and> (b \<longrightarrow> b') \<and> (\<not> b' \<longrightarrow> s' = s)"
proof (induction k s b arbitrary: b' k' s' rule: pendingUpdates.induct)
  case (1 k s b)
  show ?case
  proof (cases "fst (tryReceiveUpdate k)")
    case None
    then show ?thesis using 1(2) by (subst (asm) pendingUpdates.simps) (auto split: prod.splits)
  next
    case (Some m)
    then obtain k1 where k1: "tryReceiveUpdate k = (Some m, k1)" by (metis prod.collapse)
    obtain a s1 where a: "applyMessage m s = (a, s1)" by fastforce
    have "pendingUpdates k1 s1 (a \<or> b) = (b', k', s')"
      using 1(2) k1 a by (subst (asm) pendingUpdates.simps) simp
    then have "k' = k1\<lparr>incomingMessages := incomingMessages k'\<rparr> \<and> (a \<or> b \<longrightarrow> b') \<and> (\<not> b' \<longrightarrow> s' = s1)"
      by (rule 1(1) [OF k1 [symmetric] refl a [symmetric]])
    moreover have "k1 = k\<lparr>incomingMessages := incomingMessages k1\<rparr>" by (rule tryReceiveUpdate_client [OF k1])
    moreover have "a \<or> s1 = s" using applyMessage_False [of m s s1] a by (cases a) simp_all
    ultimately show ?thesis by (metis GameClient.update_convs(15) GameClient.surjective)
  qed
qed

lemma isOwned_client:
  "playerAssigned (client c) = playerAssigned (client d) \<Longrightarrow> gcColor (client c) = gcColor (client d) \<Longrightarrow>
    isOwnedPiece c p = isOwnedPiece d p"
  by (cases p) (simp_all add: isOwnedPiece_def)

lemma applyPending_selection:
  assumes "selectionOk c"
  shows "selectionOk (snd (applyPendingUpdates c))"
proof -
  obtain b k s where p: "pendingUpdates (client c) (gameState c) False = (b, k, s)" by (metis prod_cases3)
  note r = pendingUpdates_result [OF p]
  have "playerAssigned k = playerAssigned (client c)" "gcColor k = gcColor (client c)"
    using r by (metis GameClient.select_convs GameClient.surjective GameClient.update_convs(15))+
  then have owned: "isOwnedPiece (c\<lparr>client := k, gameState := s\<rparr>) x = isOwnedPiece c x" for x
    by (intro isOwned_client) simp_all
  have same: "s = gameState c" if "\<not> b" using r that by blast
  have out: "isOwnedPiece (c\<lparr>client := k, gameState := s, netSelected := t\<rparr>) x = isOwnedPiece c x" for x t
    using owned [of x] by (simp add: isOwned_client [of "c\<lparr>client := k, gameState := s, netSelected := t\<rparr>" "c\<lparr>client := k, gameState := s\<rparr>"])
  show ?thesis
    using assms owned same out
    by (auto simp: applyPendingUpdates_def p Let_def selectionOk_def ownAtRest_def split: option.splits)
qed

definition insideBoard :: "NetworkController \<Rightarrow> Position \<Rightarrow> bool" where
  "insideBoard c p \<longleftrightarrow> 0 \<le> getRow p \<and> getRow p < boardRows c \<and> 0 \<le> getCol p \<and> getCol p < boardCols c"

text \<open>The request that a click makes, if any: for a piece at rest of the player's own color.\<close>

definition ownRequest :: "NetworkController \<Rightarrow> MessageType \<Rightarrow> Position \<Rightarrow> Position \<Rightarrow> bool" where
  "ownRequest c kind source destination \<longleftrightarrow>
     gcGameStarted (client c) \<and> initialized (gameState c) \<and> \<not> isGameOver (gameState c) \<and>
     ownAtRest c source \<and> insideBoard c destination \<and>
     (kind = JumpRequest \<and> destination = source \<or>
      kind = MoveRequest \<and> destination \<noteq> source \<and>
        (case findPieceAt destination (gameState c) of
           None \<Rightarrow> True | Some q \<Rightarrow> \<not> haveSameColor (the (findPieceAt source (gameState c))) q))"

text \<open>A click that asks nothing changes at most the selection, and leaves a good one.\<close>

definition onlySelects :: "NetworkController \<Rightarrow> NetworkController \<Rightarrow> bool" where
  "onlySelects c c' \<longleftrightarrow> selectionOk c' \<and> (\<exists>p. c' = c\<lparr>netSelected := p\<rparr>)"

lemma isOwned_selected [simp]: "isOwnedPiece (c\<lparr>netSelected := p\<rparr>) q = isOwnedPiece c q"
  by (rule isOwned_client) simp_all

lemma selectionOk_update:
  "selectionOk (c\<lparr>netSelected := p\<rparr>) \<longleftrightarrow> (\<forall>q. p = Some q \<longrightarrow> ownAtRest c q)"
  by (auto simp: selectionOk_def ownAtRest_def)

lemma onlySelects_self: "selectionOk c \<Longrightarrow> onlySelects c c"
  by (auto simp: onlySelects_def intro: exI [of _ "netSelected c"])

lemma onlySelects_clear: "onlySelects c (c\<lparr>netSelected := None\<rparr>)"
  unfolding onlySelects_def selectionOk_update by blast

lemma onlySelects_select: "ownAtRest c p \<Longrightarrow> onlySelects c (c\<lparr>netSelected := Some p\<rparr>)"
  unfolding onlySelects_def selectionOk_update by blast

lemmas only_selects = onlySelects_self onlySelects_clear onlySelects_select

lemma selectFirst_only:
  "selectionOk c \<Longrightarrow> insideBoard c p \<Longrightarrow> onlySelects c (snd (netSelectFirst p c))"
  by (auto simp: netSelectFirst_def Let_def ownAtRest_def insideBoard_def intro: only_selects)

lemma selectFriendly_only: "insideBoard c p \<Longrightarrow> onlySelects c (snd (netSelectFriendly p c))"
  by (auto simp: netSelectFriendly_def Let_def ownAtRest_def insideBoard_def intro: only_selects)

lemma selectedCell_cases:
  assumes "netReady c = None" "ownAtRest c source" "insideBoard c clicked"
  shows "onlySelects c (snd (netSelectedCell send what meanwhile source clicked c)) \<or>
    (\<exists>kind. ownRequest c kind source clicked \<and>
      netSelectedCell send what meanwhile source clicked c = netSendRequest send what meanwhile kind source clicked c)"
proof -
  have ready: "gcGameStarted (client c)" "initialized (gameState c)" "\<not> isGameOver (gameState c)"
    using assms(1) by (auto simp: netReady_def split: if_splits)
  obtain piece where piece: "findPieceAt source (gameState c) = Some piece" "netAvailable (Some piece)" "isOwnedPiece c (Some piece)"
    using assms(2) by (cases "findPieceAt source (gameState c)") (auto simp: ownAtRest_def netAvailable_def)
  consider "clicked = source"
    | q where "clicked \<noteq> source" "findPieceAt clicked (gameState c) = Some q" "haveSameColor piece q"
    | "clicked \<noteq> source" "\<forall>q. findPieceAt clicked (gameState c) = Some q \<longrightarrow> \<not> haveSameColor piece q"
    by blast
  then show ?thesis
  proof cases
    case 1
    then show ?thesis using assms ready by (auto simp: netSelectedCell_def ownRequest_def)
  next
    case 2
    then show ?thesis using piece selectFriendly_only [OF assms(3)] by (simp add: netSelectedCell_def)
  next
    case 3
    then have "ownRequest c MoveRequest source clicked"
      using assms ready piece by (auto simp: ownRequest_def split: option.split)
    then show ?thesis using 3 piece by (auto simp: netSelectedCell_def split: option.split)
  qed
qed


definition demoPlayer :: NetworkController where
  "demoPlayer = \<lparr>client = (newGameClient None)\<lparr>gcConnected := True, tcp := Some 1, playerAssigned := True, gcGameStarted := True\<rparr>,
     gameState = \<lparr>currentSnapshot = newSnapshot\<lparr>snapPieces := [\<lparr>ps_id = 1, ps_token = ''wK'', ps_position = Position 7 4,
       ps_state = ''idle'', ps_hasMoved = False, ps_remainingCooldownMs = 0, ps_totalCooldownMs = 0\<rparr>]\<rparr>, initialized = True\<rparr>,
     netSelected = Some (Position 7 4), netStartX = 0, netStartY = 0, netCellX = 10, netCellY = 10,
     boardRows = 8, boardCols = 8, responseTimeoutMs = 5000\<rparr>"


end
