(* ===== verification/Json_Values.thy ===== *)
theory Json_Values
  imports Prelude Cpp_Text
begin

text \<open>
  The values of the library \<open>boost::json\<close>, as far as the client looks at them, and the library's
  two functions as a parameter. An exception is \<open>Inl\<close> with its text.
\<close>

section \<open>Values\<close>

text \<open>
  The kinds of \<open>boost::json::value\<close>. The client never reads a floating-point number, so such a value
  keeps only its text. An object has its members in the order they were inserted, every name once.
\<close>

datatype jvalue =
    JNull
  | JBool bool
  | JInt64 int
  | JUint64 int
  | JDouble string
  | JString string
  | JArray "jvalue list"
  | JObject "(string \<times> jvalue) list"

type_synonym jobject = "(string \<times> jvalue) list"

definition if_contains :: "jobject \<Rightarrow> string \<Rightarrow> jvalue option" where
  "if_contains object name = map_of object name"

text \<open>
  The library: \<open>parse\<close> fails with a text or yields a value, \<open>serialize\<close> writes a value. The third
  field is the text of the exception with which \<open>Protocol::deserialize\<close> refuses a message, which
  the model of the protocol leaves out.
\<close>

record JsonLibrary =
  jl_parse :: "string \<Rightarrow> string + jvalue"
  jl_serialize :: "jvalue \<Rightarrow> string"
  jl_refusal :: "string \<Rightarrow> string"

text \<open>The cast to \<open>int\<close> keeps the low 32 bits.\<close>

definition castInt :: "int \<Rightarrow> int" where
  "castInt i = sint (word_of_int i :: 32 word)"

section \<open>Failing computations\<close>

definition tryR :: "string + 'a \<Rightarrow> ('a \<Rightarrow> string + 'b) \<Rightarrow> string + 'b" where
  "tryR r f = (case r of Inl e \<Rightarrow> Inl e | Inr x \<Rightarrow> f x)"

lemma tryR_simps [simp]: "tryR (Inl e) f = Inl e" "tryR (Inr x) f = f x"
  by (simp_all add: tryR_def)

lemma tryR_Inr: "tryR r f = Inr y \<longleftrightarrow> (\<exists>x. r = Inr x \<and> f x = Inr y)"
  by (cases r) simp_all

fun tryAll :: "('a \<Rightarrow> string + 'b) \<Rightarrow> 'a list \<Rightarrow> string + 'b list" where
  "tryAll f [] = Inr []"
| "tryAll f (x # xs) = tryR (f x) (\<lambda>y. tryR (tryAll f xs) (\<lambda>ys. Inr (y # ys)))"

lemma tryAll_Inr: "(\<And>x. x \<in> set xs \<Longrightarrow> f (g x) = Inr (h x)) \<Longrightarrow> tryAll f (map g xs) = Inr (map h xs)"
  by (induction xs) simp_all

lemma tryAll_length: "tryAll f xs = Inr ys \<Longrightarrow> length ys = length xs"
  by (induction xs arbitrary: ys) (auto simp: tryR_Inr)

lemma tryAll_all: "tryAll f xs = Inr ys \<Longrightarrow> (\<And>x y. f x = Inr y \<Longrightarrow> P y) \<Longrightarrow> \<forall>y \<in> set ys. P y"
  by (induction xs arbitrary: ys) (auto simp: tryR_Inr)

end
