(* ===== verification/Api_Client.thy ===== *)
theory Api_Client
  imports Json_Values
begin

text \<open>
  The HTTP side of the lobby: URLs and requests
  (\<open>src/client/desktop_client/src/Network/ApiClient.cpp\<close>) and the cookie of the session
  (\<open>src/Network/SessionCookieJar.cpp\<close>). The exchange with the server, behind the interface
  \<open>IHttpTransport\<close>, is a parameter on a state \<open>'n\<close>; so is the JSON library. The mutex of the cookie jar
  makes each of its operations atomic.
\<close>

section \<open>URLs\<close>

record ParsedUrl =
  scheme :: string
  urlHost :: string
  urlPort :: string
  target :: string

fun splitScheme :: "string \<Rightarrow> (string \<times> string) option" where
  "splitScheme [] = None"
| "splitScheme (c # cs) =
     (if take 3 (c # cs) = ''://'' then Some ([], drop 3 (c # cs))
      else map_option (apfst (Cons c)) (splitScheme cs))"

text \<open>The parts of a URL; \<open>secure\<close> is the scheme whose default port is 443.\<close>

definition splitUrl :: "string \<Rightarrow> string \<Rightarrow> string \<Rightarrow> string \<Rightarrow> string + ParsedUrl" where
  "splitUrl secure noScheme badAuthority url =
     (case splitScheme url of
        None \<Rightarrow> Inl noScheme
      | Some (name, rest) \<Rightarrow>
          (let authority = takeWhile (\<lambda>c. c \<noteq> CHR ''/'') rest;
               path = dropWhile (\<lambda>c. c \<noteq> CHR ''/'') rest;
               (h, p) = (if CHR '':'' \<in> set authority
                 then (rev (tl (dropWhile (\<lambda>c. c \<noteq> CHR '':'') (rev authority))),
                       rev (takeWhile (\<lambda>c. c \<noteq> CHR '':'') (rev authority)))
                 else (authority, if name = secure then ''443'' else ''80''))
           in if h = [] \<or> p = [] then Inl badAuthority
              else Inr \<lparr>scheme = name, urlHost = h, urlPort = p, target = (if path = [] then ''/'' else path)\<rparr>))"

definition parseUrl :: "string \<Rightarrow> string + ParsedUrl" where
  "parseUrl = splitUrl ''https'' ''URL is missing a scheme'' ''URL authority is invalid''"

section \<open>Requests and responses\<close>

datatype HttpMethod = HttpGet | HttpPost

record HttpRequest =
  httpMethod :: HttpMethod
  url :: string
  requestBody :: string
  requestHeaders :: "(string \<times> string) list"

record HttpResponse =
  statusCode :: int
  responseBody :: string
  responseHeaders :: "(string \<times> string) list"
  transportError :: string

definition noResponse :: HttpResponse where
  "noResponse = \<lparr>statusCode = 0, responseBody = [], responseHeaders = [], transportError = []\<rparr>"

text \<open>
  The exchange over a socket is a parameter: it gets the URL's parts and the request and yields a
  response or the text of an exception.
\<close>

definition beastSend :: "(ParsedUrl \<Rightarrow> HttpRequest \<Rightarrow> string + HttpResponse) \<Rightarrow> HttpRequest \<Rightarrow> HttpResponse" where
  "beastSend exchange request =
     (case parseUrl (url request) of
        Inl what \<Rightarrow> noResponse\<lparr>transportError := what\<rparr>
      | Inr parsed \<Rightarrow>
          (if scheme parsed \<noteq> ''http''
           then noResponse\<lparr>transportError := ''Only local HTTP is supported by this transport''\<rparr>
           else case exchange parsed request of
             Inl what \<Rightarrow> noResponse\<lparr>transportError := what\<rparr>
           | Inr r \<Rightarrow> r\<lparr>transportError := []\<rparr>))"

definition tolower :: "char \<Rightarrow> char" where
  "tolower c = (if 65 \<le> (of_char c :: nat) \<and> (of_char c :: nat) \<le> 90 then char_of ((of_char c :: nat) + 32) else c)"

definition headerValue :: "HttpResponse \<Rightarrow> string \<Rightarrow> string" where
  "headerValue response expectedName =
     (case find (\<lambda>h. map tolower (fst h) = map tolower expectedName) (responseHeaders response) of
        None \<Rightarrow> [] | Some h \<Rightarrow> snd h)"

section \<open>The cookie of the session\<close>

definition cookieTrim :: "string \<Rightarrow> string" where
  "cookieTrim s = rev (dropWhile isspace (rev (dropWhile isspace s)))"

type_synonym SessionCookieJar = "string option"

definition acceptSetCookie :: "string \<Rightarrow> SessionCookieJar \<Rightarrow> SessionCookieJar" where
  "acceptSetCookie value jar =
     (let cookie = cookieTrim (takeWhile (\<lambda>c. c \<noteq> CHR '';'') value) in
      if CHR ''='' \<notin> set cookie then jar
      else let name = cookieTrim (takeWhile (\<lambda>c. c \<noteq> CHR ''='') cookie);
               session = cookieTrim (tl (dropWhile (\<lambda>c. c \<noteq> CHR ''='') cookie))
           in if name \<noteq> ''ctd_session'' then jar
              else if session = [] then None else Some session)"

definition clearJar :: "SessionCookieJar \<Rightarrow> SessionCookieJar" where
  "clearJar jar = None"

definition hasSession :: "SessionCookieJar \<Rightarrow> bool" where
  "hasSession jar \<longleftrightarrow> jar \<noteq> None"

definition cookieHeader :: "SessionCookieJar \<Rightarrow> string option" where
  "cookieHeader jar = map_option (\<lambda>s. ''ctd_session='' @ s) jar"

definition debugDescription :: "SessionCookieJar \<Rightarrow> string" where
  "debugDescription jar =
     (if hasSession jar then ''SessionCookieJar(authenticated)'' else ''SessionCookieJar(empty)'')"

section \<open>The client\<close>

record AuthenticatedUser =
  au_id :: string
  au_username :: string
  au_createdAt :: string

record MatchHistoryEntry =
  mh_opponent :: string
  mh_color :: string
  mh_result :: string
  ratingBefore :: int
  ratingAfter :: int
  mh_reason :: string
  endedAt :: string

record MatchHistoryResult =
  mh_succeeded :: bool
  mh_entries :: "MatchHistoryEntry list"
  mh_message :: string

datatype AuthResultKind =
  AuthSuccess | InvalidCredentials | AlreadyRegistered | Unauthorized | ValidationError | ServerFailure |
  TransportFailure | InvalidResponse

record AuthResult =
  authKind :: AuthResultKind
  authStatus :: int
  authUser :: "AuthenticatedUser option"
  errorCode :: string
  authMessage :: string

definition newAuthResult :: AuthResult where
  "newAuthResult = \<lparr>authKind = InvalidResponse, authStatus = 0, authUser = None, errorCode = [], authMessage = []\<rparr>"

definition succeeded :: "AuthResult \<Rightarrow> bool" where
  "succeeded r \<longleftrightarrow> authKind r = AuthSuccess"

record ClientTransportConfig =
  apiBaseUrl :: string
  websocketUrl :: string

definition makeTransportConfig :: "string \<Rightarrow> nat \<Rightarrow> ClientTransportConfig" where
  "makeTransportConfig h p =
     (let hostPort = h @ '':'' @ to_string (int p) in
      \<lparr>apiBaseUrl = ''http://'' @ hostPort, websocketUrl = ''ws://'' @ hostPort @ ''/ws''\<rparr>)"

text \<open>The client with what it is built on: the JSON library and the transport.\<close>

record 'n ApiClient =
  json :: JsonLibrary
  sendRequest :: "HttpRequest \<Rightarrow> 'n \<Rightarrow> HttpResponse \<times> 'n"
  baseUrl :: string

text \<open>Its state is the cookie jar and the state of the network.\<close>

type_synonym 'n apiState = "SessionCookieJar \<times> 'n"

definition jsonString :: "jobject \<Rightarrow> string \<Rightarrow> string + string" where
  "jsonString object name =
     (case if_contains object name of Some (JString s) \<Rightarrow> Inr s | _ \<Rightarrow> Inl ''Required JSON string is missing'')"

definition apiSend :: "'n ApiClient \<Rightarrow> HttpMethod \<Rightarrow> string \<Rightarrow> string \<Rightarrow> 'n apiState \<Rightarrow> HttpResponse \<times> 'n apiState" where
  "apiSend api method path body = (\<lambda>(jar, n).
     (case sendRequest api
        \<lparr>httpMethod = method, url = baseUrl api @ path, requestBody = body,
         requestHeaders = (if body \<noteq> [] then [(''Content-Type'', ''application/json'')] else []) @
           (case cookieHeader jar of None \<Rightarrow> [] | Some c \<Rightarrow> [(''Cookie'', c)])\<rparr> n
      of (r, n') \<Rightarrow> (r, (jar, n'))))"

text \<open>The user of a response with a status of success.\<close>

definition responseUser :: "jvalue \<Rightarrow> string + AuthenticatedUser" where
  "responseUser v =
     (case v of
        JObject object \<Rightarrow>
          tryR (jsonString object ''id'') (\<lambda>i. tryR (jsonString object ''username'') (\<lambda>n.
          tryR (jsonString object ''created_at'') (\<lambda>t. Inr \<lparr>au_id = i, au_username = n, au_createdAt = t\<rparr>)))
      | _ \<Rightarrow> Inl ''not an object'')"

definition parseAuthResponse :: "JsonLibrary \<Rightarrow> HttpResponse \<Rightarrow> AuthResult" where
  "parseAuthResponse jl response =
     (let status = statusCode response; r = newAuthResult\<lparr>authStatus := status\<rparr>;
          invalid = r\<lparr>authKind := InvalidResponse, authMessage := ''Server returned an invalid response''\<rparr>
      in if transportError response \<noteq> []
         then r\<lparr>authKind := TransportFailure, authMessage := transportError response\<rparr>
         else case jl_parse jl (responseBody response) of
           Inl _ \<Rightarrow> invalid
         | Inr v \<Rightarrow>
             (if 200 \<le> status \<and> status < 300
              then (case responseUser v of
                      Inl _ \<Rightarrow> invalid
                    | Inr u \<Rightarrow> r\<lparr>authUser := Some u, authKind := AuthSuccess\<rparr>)
              else let r1 = (case v of
                               JObject object \<Rightarrow>
                                 (case if_contains object ''detail'' of
                                    Some (JString d) \<Rightarrow> r\<lparr>authMessage := d\<rparr> | _ \<Rightarrow> r)
                             | _ \<Rightarrow> r)
                   in if status = 401
                      then r1\<lparr>authKind := InvalidCredentials, errorCode := ''invalid_credentials''\<rparr>
                      else if status = 409
                      then r1\<lparr>authKind := AlreadyRegistered, errorCode := ''username_already_registered''\<rparr>
                      else if status = 422
                      then r1\<lparr>authKind := ValidationError, errorCode := ''validation_error''\<rparr>
                      else r1\<lparr>authKind := ServerFailure, errorCode := ''server_error''\<rparr>))"

definition credentialsRequest ::
    "'n ApiClient \<Rightarrow> string \<Rightarrow> string \<Rightarrow> string \<Rightarrow> 'n apiState \<Rightarrow> AuthResult \<times> 'n apiState" where
  "credentialsRequest api path name pass s =
     (case apiSend api HttpPost path (jl_serialize (json api) (JObject [(''username'', JString name), (''password'', JString pass)])) s of
        (response, (jar, n)) \<Rightarrow>
          (let jar1 =
             (if path = ''/auth/login''
              then if statusCode response = 200
                   then let setCookie = headerValue response ''Set-Cookie'' in
                        if setCookie \<noteq> [] then acceptSetCookie setCookie jar else jar
                   else clearJar jar
              else jar);
               r = parseAuthResponse (json api) response
           in (if path = ''/auth/login'' \<and> succeeded r \<and> \<not> hasSession jar1
               then r\<lparr>authKind := InvalidResponse, authUser := None,
                       authMessage := ''Login response did not establish a session''\<rparr>
               else r, (jar1, n))))"

definition apiRegister :: "'n ApiClient \<Rightarrow> string \<Rightarrow> string \<Rightarrow> 'n apiState \<Rightarrow> AuthResult \<times> 'n apiState" where
  "apiRegister api = credentialsRequest api ''/auth/register''"

definition apiLogin :: "'n ApiClient \<Rightarrow> string \<Rightarrow> string \<Rightarrow> 'n apiState \<Rightarrow> AuthResult \<times> 'n apiState" where
  "apiLogin api = credentialsRequest api ''/auth/login''"

definition apiMe :: "'n ApiClient \<Rightarrow> 'n apiState \<Rightarrow> AuthResult \<times> 'n apiState" where
  "apiMe api s =
     (case apiSend api HttpGet ''/auth/me'' [] s of
        (response, (jar, n)) \<Rightarrow>
          (let r = parseAuthResponse (json api) response in
           if statusCode response = 401
           then (r\<lparr>authKind := Unauthorized, errorCode := ''unauthorized''\<rparr>, (clearJar jar, n))
           else (r, (jar, n))))"

text \<open>One entry of the history; \<open>at\<close> and \<open>as_int64\<close> throw when there is no such number.\<close>

definition ratingAt :: "jobject \<Rightarrow> string \<Rightarrow> string + int" where
  "ratingAt object name =
     (case if_contains object name of Some (JInt64 i) \<Rightarrow> Inr (castInt i) | _ \<Rightarrow> Inl ''no integer'')"

definition historyEntry :: "jvalue \<Rightarrow> string + MatchHistoryEntry" where
  "historyEntry v =
     (case v of
        JObject object \<Rightarrow>
          tryR (jsonString object ''opponent'') (\<lambda>n. tryR (jsonString object ''color'') (\<lambda>c.
          tryR (jsonString object ''result'') (\<lambda>r. tryR (ratingAt object ''rating_before'') (\<lambda>b.
          tryR (ratingAt object ''rating_after'') (\<lambda>a. tryR (jsonString object ''reason'') (\<lambda>w.
          tryR (jsonString object ''ended_at'') (\<lambda>t.
          Inr \<lparr>mh_opponent = n, mh_color = c, mh_result = r, ratingBefore = b, ratingAfter = a, mh_reason = w,
            endedAt = t\<rparr>)))))))
      | _ \<Rightarrow> Inl ''not an object'')"

text \<open>The entries read before the first that fails, and whether all could be read.\<close>

fun historyLoop :: "jvalue list \<Rightarrow> MatchHistoryEntry list \<times> bool" where
  "historyLoop [] = ([], True)"
| "historyLoop (v # vs) =
     (case historyEntry v of Inl _ \<Rightarrow> ([], False) | Inr e \<Rightarrow> apfst (Cons e) (historyLoop vs))"

definition getMatchHistory :: "'n ApiClient \<Rightarrow> 'n apiState \<Rightarrow> MatchHistoryResult \<times> 'n apiState" where
  "getMatchHistory api s =
     (let failed = (\<lambda>es m. \<lparr>mh_succeeded = False, mh_entries = es, mh_message = m\<rparr>) in
      case apiSend api HttpGet ''/matches/history'' [] s of
        (response, (jar, n)) \<Rightarrow>
          (if transportError response \<noteq> [] then (failed [] (transportError response), (jar, n))
           else if statusCode response = 401 then (failed [] ''Not authenticated'', (clearJar jar, n))
           else if statusCode response < 200 \<or> statusCode response \<ge> 300
           then (failed [] ''Failed to load match history'', (jar, n))
           else (case jl_parse (json api) (responseBody response) of
                   Inr (JArray vs) \<Rightarrow>
                     (case historyLoop vs of (es, ok) \<Rightarrow>
                        if ok then \<lparr>mh_succeeded = True, mh_entries = es, mh_message = []\<rparr>
                        else failed es ''Malformed match history response'')
                 | _ \<Rightarrow> failed [] ''Malformed match history response'', (jar, n))))"

definition apiLogout :: "'n ApiClient \<Rightarrow> 'n apiState \<Rightarrow> AuthResult \<times> 'n apiState" where
  "apiLogout api s =
     (case apiSend api HttpPost ''/auth/logout'' [] s of
        (response, (jar, n)) \<Rightarrow>
          ((if transportError response \<noteq> []
            then newAuthResult\<lparr>authKind := TransportFailure, authMessage := transportError response\<rparr>
            else if statusCode response = 204 then newAuthResult\<lparr>authKind := AuthSuccess, authStatus := 204\<rparr>
            else newAuthResult\<lparr>authKind := ServerFailure, authStatus := statusCode response,
                   errorCode := ''server_error'', authMessage := ''Logout failed''\<rparr>),
           (clearJar jar, n)))"

end
