(* ===== verification/Lobby_State.thy ===== *)
theory Lobby_State
  imports Messages Api_Client
begin

text \<open>
  The lobby of the desktop client: the events of the gateway
  (\<open>src/client/desktop_client/include/Network/LobbyProtocol.hpp\<close>), the view model
  (\<open>include/Lobby/LobbyApplicationState.hpp\<close>) and how each event changes it
  (\<open>src/Lobby/LobbyApplicationState.cpp\<close>). Log lines are left out: the logger never fails and
  nothing reads them back.
\<close>

section \<open>Events of the gateway\<close>

record LobbyUser =
  userId :: string
  userName :: string
  userRating :: int

record LobbyRoom =
  roomId :: string
  roomName :: string
  visibility :: string
  roomStatus :: string
  host :: "LobbyUser option"
  whiteUser :: "LobbyUser option"
  blackUser :: "LobbyUser option"
  roomCode :: "string option"
  createdAt :: string
  roomSpectators :: int

datatype LobbyEvent =
    ConnectedEvent LobbyUser
  | PongEvent
  | LobbySnapshotEvent "LobbyRoom list" "LobbyRoom list"
  | RoomCreatedEvent LobbyRoom
  | GameStartedEvent (eventRoom: string) (eventName: string) (eventColor: string) (eventOpponent: LobbyUser)
  | WatchingGameEvent (eventRoom: string) (eventName: string) LobbyUser LobbyUser int
  | MatchReadyEvent (eventRoom: string) (eventColor: string) string (eventRevision: "64 word")
      GameStateSnapshot string int int
  | MatchCountdownEvent (eventRoom: string) string string
  | MatchStartedEvent (eventRoom: string) (eventRevision: "64 word") GameStateSnapshot string
  | MatchCancelledEvent (eventRoom: string) string
  | MatchSnapshotEvent (eventRoom: string) (eventRevision: "64 word") GameStateSnapshot
  | MatchStateEvent (eventRoom: string) (eventRevision: "64 word") GameStateSnapshot
  | MoveResultEvent (eventRoom: string) "64 word" bool string
  | SpectatorLeftEvent (eventRoom: string)
  | OpponentDisconnectedEvent (eventRoom: string)
  | RoomStatusEvent (eventRoom: string) string
  | ProtocolErrorEvent string string
  | SearchingEvent
  | MatchNotFoundEvent
  | FindMatchCancelledEvent
  | RatingUpdatedEvent int

section \<open>The view model\<close>

datatype LobbyScreen =
  AuthenticationScreen | ConnectingScreen | LobbyScreen | WaitingRoom | HiddenRoomWaiting | RoomReady |
  MatchHistoryScreen | SpectatorPlaceholder | GameScreen | SpectatorGame | ErrorScreen

datatype LobbyModal = NoModal | CreateRoomModal | JoinHiddenRoomModal

datatype AuthenticationField = UsernameField | PasswordField | ConfirmPasswordField

datatype AuthenticationMode = LoginMode | RegisterMode

datatype RoomVisibilitySelection = PublicRoom | HiddenRoom

datatype PendingLobbyAction =
  NothingPending | PendingLogin | PendingRegister | CreatePublicRoom | CreateHiddenRoom | PendingJoinPublic |
  PendingJoinHidden | PendingWatch | PendingFindMatch | PendingLogout

datatype WebSocketConnectionState = WsDisconnected | WsConnecting | WsConnected | WsClosing | WsFailed

datatype MatchPhase = MatchLoading | MatchCountdown | MatchPlaying | MatchFinished

record SpectatorView =
  sv_roomId :: string
  sv_roomName :: string
  sv_whiteUsername :: string
  sv_blackUsername :: string
  sv_spectatorCount :: int

record RoomReadyView =
  rr_roomId :: string
  rr_roomName :: string
  rr_assignedColor :: string
  rr_opponentUsername :: string
  rr_opponentRating :: int

record MatchView =
  mv_roomId :: string
  mv_assignedColor :: string
  mv_opponentUsername :: string
  revision :: "64 word"
  mv_nextSequence :: "64 word"
  mv_snapshot :: GameStateSnapshot
  selectedSource :: "Position option"
  moveStatus :: string
  spectator :: bool
  phase :: MatchPhase
  mv_gameStartsAt :: string
  countdownValue :: string
  mv_whiteRating :: int
  mv_blackRating :: int

record LobbyViewModel =
  screen :: LobbyScreen
  modal :: LobbyModal
  focusedField :: AuthenticationField
  authMode :: AuthenticationMode
  pendingAction :: PendingLobbyAction
  wsState :: WebSocketConnectionState
  usernameInput :: string
  passwordLength :: nat
  confirmPasswordLength :: nat
  authenticatedUsername :: string
  authenticatedUserRating :: int
  visibleError :: string
  statusMessage :: string
  roomNameInput :: string
  currentRoomName :: string
  selectedRoomVisibility :: RoomVisibilitySelection
  hiddenRoomCodeInput :: string
  hiddenRoomCode :: string
  pendingRoomId :: string
  waitingRooms :: "LobbyRoom list"
  activeRooms :: "LobbyRoom list"
  spectatorView :: "SpectatorView option"
  roomReady :: "RoomReadyView option"
  matchView :: "MatchView option"
  waitingPage :: int
  activePage :: int
  matchHistory :: "MatchHistoryEntry list"
  matchHistoryError :: string

definition newLobbyView :: LobbyViewModel where
  "newLobbyView = \<lparr>screen = AuthenticationScreen, modal = NoModal, focusedField = UsernameField,
     authMode = LoginMode, pendingAction = NothingPending, wsState = WsDisconnected, usernameInput = [],
     passwordLength = 0, confirmPasswordLength = 0, authenticatedUsername = [],
     authenticatedUserRating = 1200, visibleError = [], statusMessage = [], roomNameInput = [],
     currentRoomName = [], selectedRoomVisibility = PublicRoom, hiddenRoomCodeInput = [],
     hiddenRoomCode = [], pendingRoomId = [], waitingRooms = [], activeRooms = [], spectatorView = None,
     roomReady = None, matchView = None, waitingPage = 0, activePage = 0, matchHistory = [],
     matchHistoryError = []\<rparr>"

definition networkActionsEnabled :: "LobbyViewModel \<Rightarrow> bool" where
  "networkActionsEnabled v \<longleftrightarrow> screen v = LobbyScreen \<and> wsState v = WsConnected \<and> pendingAction v = NothingPending"

text \<open>The two status lines are always empty; only the back button is computed.\<close>

definition showBackButton :: "LobbyViewModel \<Rightarrow> bool" where
  "showBackButton v \<longleftrightarrow> screen v = SpectatorGame \<or>
     screen v = GameScreen \<and> (case matchView v of None \<Rightarrow> False | Some m \<Rightarrow> snapGameOver (mv_snapshot m))"

section \<open>Operations of the state\<close>

definition beginAuthenticationView :: "PendingLobbyAction \<Rightarrow> LobbyViewModel \<Rightarrow> LobbyViewModel" where
  "beginAuthenticationView action v = v\<lparr>pendingAction := action, visibleError := [],
     statusMessage := (if action = PendingRegister then ''Creating account...'' else ''Signing in...'')\<rparr>"

definition authenticationFailed :: "string \<Rightarrow> LobbyViewModel \<Rightarrow> LobbyViewModel" where
  "authenticationFailed message v = v\<lparr>screen := AuthenticationScreen, pendingAction := NothingPending,
     statusMessage := [], visibleError := message, passwordLength := 0, confirmPasswordLength := 0\<rparr>"

definition authenticationSucceeded :: "string \<Rightarrow> LobbyViewModel \<Rightarrow> LobbyViewModel" where
  "authenticationSucceeded name v = v\<lparr>screen := ConnectingScreen, authenticatedUsername := name,
     usernameInput := name, passwordLength := 0, confirmPasswordLength := 0, visibleError := [],
     statusMessage := ''Connecting to lobby...'', pendingAction := NothingPending\<rparr>"

definition setConnectionState :: "WebSocketConnectionState \<Rightarrow> LobbyViewModel \<Rightarrow> LobbyViewModel" where
  "setConnectionState st v =
     (let v1 = v\<lparr>wsState := st\<rparr> in
      if st = WsFailed \<or> st = WsDisconnected
      then (if screen v1 \<noteq> AuthenticationScreen then v1\<lparr>visibleError := ''Lobby connection is unavailable.''\<rparr> else v1)
             \<lparr>pendingAction := NothingPending\<rparr>
      else v1)"

definition showError :: "string \<Rightarrow> LobbyViewModel \<Rightarrow> LobbyViewModel" where
  "showError message v = v\<lparr>visibleError := message, pendingAction := NothingPending\<rparr>"

definition clearPending :: "LobbyViewModel \<Rightarrow> LobbyViewModel" where
  "clearPending v = v\<lparr>pendingAction := NothingPending\<rparr>"

definition resetForLogout :: "LobbyViewModel \<Rightarrow> LobbyViewModel" where
  "resetForLogout v = newLobbyView"

definition connectionStatusText :: "WebSocketConnectionState \<Rightarrow> string" where
  "connectionStatusText st =
     (case st of WsConnecting \<Rightarrow> ''CONNECTING'' | WsConnected \<Rightarrow> ''CONNECTED'' | WsClosing \<Rightarrow> ''CLOSING''
      | _ \<Rightarrow> ''DISCONNECTED'')"

section \<open>Events\<close>

text \<open>A change of the match that is shown, when it is the one in the room \<open>i\<close>.\<close>

definition onMatch :: "string \<Rightarrow> (MatchView \<Rightarrow> MatchView) \<Rightarrow> LobbyViewModel \<Rightarrow> LobbyViewModel" where
  "onMatch i f v =
     (case matchView v of
        None \<Rightarrow> v
      | Some m \<Rightarrow> (if mv_roomId m = i then v\<lparr>matchView := Some (f m)\<rparr> else v))"

fun applyEvent :: "LobbyEvent \<Rightarrow> LobbyViewModel \<Rightarrow> LobbyViewModel" where
  "applyEvent (ConnectedEvent u) v =
     v\<lparr>authenticatedUsername := userName u, authenticatedUserRating := userRating u, statusMessage := ''Loading lobby...''\<rparr>"
| "applyEvent (LobbySnapshotEvent waiting active) v =
     (let v1 = v\<lparr>waitingRooms := waiting, activeRooms := active\<rparr>;
          v2 = (if screen v1 \<in> {ConnectingScreen, AuthenticationScreen, LobbyScreen} then v1\<lparr>screen := LobbyScreen\<rparr> else v1);
          v3 = v2\<lparr>statusMessage := [], visibleError := []\<rparr>;
          v4 = (if pendingAction v3 \<noteq> PendingJoinPublic \<and> pendingAction v3 \<noteq> PendingJoinHidden \<and>
                  pendingAction v3 \<noteq> PendingWatch then v3\<lparr>pendingAction := NothingPending\<rparr> else v3)
      in v4\<lparr>waitingPage := 0, activePage := 0\<rparr>)"
| "applyEvent (RoomCreatedEvent room) v =
     (let v1 = v\<lparr>pendingAction := NothingPending, currentRoomName := roomName room, roomNameInput := []\<rparr>;
          v2 = (if visibility room = ''hidden'' \<and> roomCode room \<noteq> None
                then v1\<lparr>hiddenRoomCode := the (roomCode room), screen := HiddenRoomWaiting\<rparr>
                else v1\<lparr>screen := WaitingRoom\<rparr>)
      in v2\<lparr>modal := NoModal, pendingRoomId := roomId room\<rparr>)"
| "applyEvent (GameStartedEvent i name color opponent) v =
     v\<lparr>currentRoomName := name,
       roomReady := Some \<lparr>rr_roomId = i, rr_roomName = name, rr_assignedColor = color,
         rr_opponentUsername = userName opponent, rr_opponentRating = userRating opponent\<rparr>,
       screen := RoomReady, pendingAction := NothingPending\<rparr>"
| "applyEvent (WatchingGameEvent i name white black watchers) v =
     v\<lparr>spectatorView := Some \<lparr>sv_roomId = i, sv_roomName = name, sv_whiteUsername = userName white,
         sv_blackUsername = userName black, sv_spectatorCount = watchers\<rparr>,
       screen := SpectatorPlaceholder, pendingAction := NothingPending\<rparr>"
| "applyEvent (MatchReadyEvent i color opponent number state startsAt whiteRating blackRating) v =
     v\<lparr>matchView := Some \<lparr>mv_roomId = i, mv_assignedColor = color, mv_opponentUsername = opponent,
         revision = number, mv_nextSequence = 1, mv_snapshot = state, selectedSource = None, moveStatus = [],
         spectator = (color = ''spectator''), phase = MatchCountdown, mv_gameStartsAt = startsAt,
         countdownValue = ''3'', mv_whiteRating = whiteRating, mv_blackRating = blackRating\<rparr>,
       pendingRoomId := i, screen := (if color = ''spectator'' then SpectatorGame else GameScreen),
       roomReady := None, pendingAction := NothingPending\<rparr>"
| "applyEvent (MatchSnapshotEvent i number state) v =
     v\<lparr>matchView := Some \<lparr>mv_roomId = i, mv_assignedColor = [], mv_opponentUsername = [],
         revision = number, mv_nextSequence = 1, mv_snapshot = state, selectedSource = None, moveStatus = [],
         spectator = True, phase = MatchPlaying, mv_gameStartsAt = [], countdownValue = [],
         mv_whiteRating = 1200, mv_blackRating = 1200\<rparr>,
       pendingRoomId := i, screen := SpectatorGame, pendingAction := NothingPending\<rparr>"
| "applyEvent (MatchCountdownEvent i value startsAt) v =
     onMatch i (\<lambda>m. if phase m = MatchCountdown \<and> mv_gameStartsAt m = startsAt then m\<lparr>countdownValue := value\<rparr> else m) v"
| "applyEvent (MatchStartedEvent i number state startsAt) v =
     onMatch i (\<lambda>m. m\<lparr>revision := number, mv_snapshot := state, phase := MatchPlaying, countdownValue := []\<rparr>) v"
| "applyEvent (MatchCancelledEvent i why) v =
     (case matchView v of
        None \<Rightarrow> v
      | Some m \<Rightarrow>
          (if mv_roomId m = i
           then v\<lparr>matchView := None, screen := LobbyScreen,
                  visibleError := ''Match cancelled because a player disconnected.''\<rparr>
           else v))"
| "applyEvent (MatchStateEvent i number state) v =
     onMatch i (\<lambda>m. if number > revision m then m\<lparr>revision := number, mv_snapshot := state\<rparr> else m) v"
| "applyEvent (MoveResultEvent i sq ok why) v =
     onMatch i (\<lambda>m. m\<lparr>moveStatus := (if ok then [] else ''Move rejected: '' @ why)\<rparr>) v"
| "applyEvent (OpponentDisconnectedEvent i) v =
     v\<lparr>visibleError := ''The opponent disconnected.'', pendingAction := NothingPending\<rparr>"
| "applyEvent (RoomStatusEvent i st) v =
     (if st = ''removed''
      then v\<lparr>screen := LobbyScreen, visibleError := ''The room is no longer available.'', pendingRoomId := [], spectatorView := None\<rparr>
      else v)\<lparr>pendingAction := NothingPending\<rparr>"
| "applyEvent (ProtocolErrorEvent code message) v = v\<lparr>visibleError := message, pendingAction := NothingPending\<rparr>"
| "applyEvent SearchingEvent v =
     v\<lparr>pendingAction := PendingFindMatch, statusMessage := ''Searching for an opponent...'', visibleError := []\<rparr>"
| "applyEvent MatchNotFoundEvent v =
     v\<lparr>pendingAction := NothingPending, statusMessage := [], visibleError := ''No opponent was found. Try again.''\<rparr>"
| "applyEvent FindMatchCancelledEvent v = v\<lparr>pendingAction := NothingPending, statusMessage := []\<rparr>"
| "applyEvent (RatingUpdatedEvent r) v = v\<lparr>authenticatedUserRating := r\<rparr>"
| "applyEvent PongEvent v = v"
| "applyEvent (SpectatorLeftEvent i) v = v"

end
