(* ===== verification/Lobby_Controller.thy ===== *)
theory Lobby_Controller
  imports Lobby_State Protocol_Scan
begin

text \<open>
  The controller of the lobby, \<open>src/client/desktop_client/src/Lobby/LobbyController.cpp\<close>. The
  transport behind the interface \<open>ILobbyTransport\<close> is a parameter: a record of its operations on a
  state \<open>'t\<close> of the network. An exception is \<open>None\<close>; only reading a page number can throw. Log
  lines are left out, and so is the overwriting of passwords with zeros, which the model
  cannot see.
\<close>

section \<open>The transport\<close>

datatype WebSocketEventKind = WsText | WsClosed | WsAuthenticationFailed | WsTransportError

text \<open>What \<open>pollEvent\<close> yields: a transport event, a parsed event, or the text of a parse error.\<close>

datatype envelope = TransportEvent WebSocketEventKind | ProtocolEvent LobbyEvent | ParseError string

record 't LobbyTransport =
  tp_registerUser :: "string \<Rightarrow> string \<Rightarrow> 't \<Rightarrow> AuthResult \<times> 't"
  tp_login :: "string \<Rightarrow> string \<Rightarrow> 't \<Rightarrow> AuthResult \<times> 't"
  tp_logout :: "'t \<Rightarrow> AuthResult \<times> 't"
  tp_matchHistory :: "'t \<Rightarrow> MatchHistoryResult \<times> 't"
  tp_connectRealtime :: "'t \<Rightarrow> bool \<times> 't"
  tp_connectionState :: "'t \<Rightarrow> WebSocketConnectionState"
  tp_subscribeLobby :: "'t \<Rightarrow> bool \<times> 't"
  tp_requestLobby :: "'t \<Rightarrow> bool \<times> 't"
  tp_createRoom :: "string \<Rightarrow> bool \<Rightarrow> 't \<Rightarrow> bool \<times> 't"
  tp_joinPublicRoom :: "string \<Rightarrow> 't \<Rightarrow> bool \<times> 't"
  tp_joinHiddenRoom :: "string \<Rightarrow> 't \<Rightarrow> bool \<times> 't"
  tp_watchRoom :: "string \<Rightarrow> 't \<Rightarrow> bool \<times> 't"
  tp_leaveSpectator :: "string \<Rightarrow> 't \<Rightarrow> bool \<times> 't"
  tp_findMatch :: "'t \<Rightarrow> bool \<times> 't"
  tp_cancelFindMatch :: "'t \<Rightarrow> bool \<times> 't"
  tp_sendMove :: "string \<Rightarrow> 64 word \<Rightarrow> Position \<Rightarrow> Position \<Rightarrow> 't \<Rightarrow> bool \<times> 't"
  tp_sendJump :: "string \<Rightarrow> 64 word \<Rightarrow> Position \<Rightarrow> 't \<Rightarrow> bool \<times> 't"
  tp_pollEvent :: "'t \<Rightarrow> envelope option \<times> 't"

section \<open>Actions and state\<close>

datatype LobbyActionType =
  NoAction | FocusUsername | FocusPassword | FocusConfirmPassword | ToggleAuthMode | LoginAction | RegisterAction |
  OpenCreateRoom | OpenJoinHidden | OpenMatchHistory | SelectPublicVisibility | SelectHiddenVisibility |
  SubmitCreateRoom | SubmitHiddenCode | CancelModal | JoinPublicRoom | WatchRoom | FindMatch | CancelFindMatch |
  BackToLobby | LogoutAction | NextWaitingPage | PreviousWaitingPage | NextActivePage | PreviousActivePage

text \<open>
  The task of the authentication thread is kept with its arguments; it runs on the transport when
  it is due, and \<open>tick\<close> takes its result.
\<close>

record LobbyController =
  lobbyView :: LobbyViewModel
  passwordText :: string
  confirmPassword :: string
  authenticationTask :: "(string \<times> string \<times> bool) option"

definition newLobbyController :: LobbyController where
  "newLobbyController = \<lparr>lobbyView = newLobbyView, passwordText = [], confirmPassword = [], authenticationTask = None\<rparr>"

definition onView :: "(LobbyViewModel \<Rightarrow> LobbyViewModel) \<Rightarrow> LobbyController \<Rightarrow> LobbyController" where
  "onView f c = c\<lparr>lobbyView := f (lobbyView c)\<rparr>"

definition clearPasswords :: "LobbyController \<Rightarrow> LobbyController" where
  "clearPasswords c = c\<lparr>passwordText := [], confirmPassword := []\<rparr>"

section \<open>Characters\<close>

definition isprint :: "char \<Rightarrow> bool" where
  "isprint c \<longleftrightarrow> 32 \<le> (of_char c :: nat) \<and> (of_char c :: nat) \<le> 126"

definition toupper :: "char \<Rightarrow> char" where
  "toupper c = (if 97 \<le> (of_char c :: nat) \<and> (of_char c :: nat) \<le> 122 then char_of ((of_char c :: nat) - 32) else c)"

definition isalnum :: "char \<Rightarrow> bool" where
  "isalnum c \<longleftrightarrow> isdigit c \<or> 65 \<le> (of_char c :: nat) \<and> (of_char c :: nat) \<le> 90 \<or>
     97 \<le> (of_char c :: nat) \<and> (of_char c :: nat) \<le> 122"

definition codeAlphabet :: string where
  "codeAlphabet = ''ABCDEFGHJKLMNPQRSTUVWXYZ23456789''"

fun normalizeLoop :: "string \<Rightarrow> string \<Rightarrow> string" where
  "normalizeLoop normalized [] = normalized"
| "normalizeLoop normalized (c # cs) =
     (if isspace c then normalizeLoop normalized cs
      else if toupper c \<notin> set codeAlphabet then []
      else normalizeLoop (normalized @ [toupper c]) cs)"

definition normalizeHiddenCode :: "string \<Rightarrow> string" where
  "normalizeHiddenCode value = normalizeLoop [] value"

definition trimRoomName :: "string \<Rightarrow> string" where
  "trimRoomName value =
     (let rest = dropWhile isspace value in
      if rest = [] then [] else rev (dropWhile isspace (rev rest)))"

definition stoi :: "string \<Rightarrow> int option" where
  "stoi s = do { (v, _) \<leftarrow> stoll s; if inInt v then Some v else None }"

section \<open>Authentication\<close>

definition beginAuthentication :: "bool \<Rightarrow> LobbyController \<Rightarrow> LobbyController" where
  "beginAuthentication registration c =
     (if authenticationTask c \<noteq> None \<or> pendingAction (lobbyView c) \<noteq> NothingPending then c
      else if length (usernameInput (lobbyView c)) < 3 \<or> length (passwordText c) < 10
      then onView (authenticationFailed ''Enter a valid username and a password of at least 10 characters.'') c
      else (onView (beginAuthenticationView (if registration then PendingRegister else PendingLogin)) c)
        \<lparr>authenticationTask := Some (usernameInput (lobbyView c), passwordText c, registration)\<rparr>)"

definition runAuthentication ::
    "'t LobbyTransport \<Rightarrow> string \<times> string \<times> bool \<Rightarrow> 't \<Rightarrow> AuthResult \<times> 't" where
  "runAuthentication tp task t =
     (case task of (name, pass, registration) \<Rightarrow>
        if registration
        then (case tp_registerUser tp name pass t of (r, t1) \<Rightarrow> if succeeded r then tp_login tp name pass t1 else (r, t1))
        else tp_login tp name pass t)"

definition authErrorMessage :: "AuthResult \<Rightarrow> bool \<Rightarrow> string" where
  "authErrorMessage r registration =
     (case authKind r of
        InvalidCredentials \<Rightarrow> ''Invalid username or password.''
      | AlreadyRegistered \<Rightarrow> ''That username is already registered.''
      | ValidationError \<Rightarrow>
          (if registration then ''The username or password does not meet the requirements.''
           else ''Check the username and password format.'')
      | TransportFailure \<Rightarrow> ''The authentication service is unreachable.''
      | ServerFailure \<Rightarrow> ''The authentication service is unavailable.''
      | _ \<Rightarrow> ''Authentication could not be completed.'')"

definition finishAuthentication ::
    "'t LobbyTransport \<Rightarrow> AuthResult \<Rightarrow> LobbyController \<times> 't \<Rightarrow> LobbyController \<times> 't" where
  "finishAuthentication tp r = (\<lambda>(c, t).
     (let registration = (pendingAction (lobbyView c) = PendingRegister);
          c1 = onView (\<lambda>v. v\<lparr>passwordLength := 0, confirmPasswordLength := 0\<rparr>) (clearPasswords c)
      in if \<not> succeeded r \<or> authUser r = None
         then (onView (authenticationFailed (authErrorMessage r registration)) c1, t)
         else let c2 = onView (authenticationSucceeded (au_username (the (authUser r)))) c1
              in (case tp_connectRealtime tp t of (ok, t1) \<Rightarrow>
                    if ok then (c2, t1)
                    else (onView (authenticationFailed ''Could not connect to the lobby service.'') c2, t1))))"

section \<open>Actions\<close>

definition beginRoomAction :: "PendingLobbyAction \<Rightarrow> string \<Rightarrow> LobbyController \<Rightarrow> bool \<times> LobbyController" where
  "beginRoomAction pending i c =
     (if \<not> networkActionsEnabled (lobbyView c) then (False, c)
      else (True, onView (\<lambda>v. v\<lparr>pendingAction := pending, pendingRoomId := i, visibleError := []\<rparr>) c))"

text \<open>A room action that is sent when it can begin, and an error when it cannot be sent.\<close>

definition roomAction ::
    "PendingLobbyAction \<Rightarrow> string \<Rightarrow> ('t \<Rightarrow> bool \<times> 't) \<Rightarrow> string \<Rightarrow> LobbyController \<times> 't \<Rightarrow> LobbyController \<times> 't" where
  "roomAction pending i send failure = (\<lambda>(c, t).
     (case beginRoomAction pending i c of
        (False, c1) \<Rightarrow> (c1, t)
      | (True, c1) \<Rightarrow> (case send t of (ok, t1) \<Rightarrow> (if ok then c1 else onView (showError failure) c1, t1))))"

definition toggleAuthMode :: "LobbyController \<Rightarrow> LobbyController" where
  "toggleAuthMode c =
     (if authenticationTask c \<noteq> None \<or> pendingAction (lobbyView c) \<noteq> NothingPending then c
      else onView (\<lambda>v.
         (if authMode v = LoginMode then v\<lparr>authMode := RegisterMode\<rparr>
          else let v1 = v\<lparr>authMode := LoginMode\<rparr> in
            (if focusedField v1 = ConfirmPasswordField then v1\<lparr>focusedField := PasswordField\<rparr> else v1))
         \<lparr>confirmPasswordLength := 0, visibleError := []\<rparr>) (c\<lparr>confirmPassword := []\<rparr>))"

definition registerAction :: "LobbyController \<Rightarrow> LobbyController" where
  "registerAction c =
     (if authMode (lobbyView c) = RegisterMode
      then if authenticationTask c \<noteq> None \<or> pendingAction (lobbyView c) \<noteq> NothingPending then c
           else if confirmPassword c = [] then onView (showError ''Confirm your password.'') c
           else if confirmPassword c \<noteq> passwordText c then onView (showError ''Passwords do not match.'') c
           else beginAuthentication True c
      else beginAuthentication True c)"

definition nextPage :: "string \<Rightarrow> int \<Rightarrow> int option" where
  "nextPage value page = map_option (\<lambda>n. min (page + 1) (max 0 n)) (stoi value)"

definition handle ::
    "'t LobbyTransport \<Rightarrow> LobbyActionType \<Rightarrow> string \<Rightarrow> LobbyController \<times> 't \<Rightarrow> (LobbyController \<times> 't) option" where
  "handle tp action value = (\<lambda>(c, t).
     (let view = lobbyView c; edit = (\<lambda>f. Some (onView f c, t)) in
      case action of
        FocusUsername \<Rightarrow> edit (\<lambda>v. v\<lparr>focusedField := UsernameField\<rparr>)
      | FocusPassword \<Rightarrow> edit (\<lambda>v. v\<lparr>focusedField := PasswordField\<rparr>)
      | FocusConfirmPassword \<Rightarrow>
          edit (\<lambda>v. if authMode v = RegisterMode then v\<lparr>focusedField := ConfirmPasswordField\<rparr> else v)
      | ToggleAuthMode \<Rightarrow> Some (toggleAuthMode c, t)
      | LoginAction \<Rightarrow> Some (beginAuthentication False c, t)
      | RegisterAction \<Rightarrow> Some (registerAction c, t)
      | OpenCreateRoom \<Rightarrow>
          edit (\<lambda>v. if networkActionsEnabled v
                 then v\<lparr>modal := CreateRoomModal, selectedRoomVisibility := PublicRoom, visibleError := []\<rparr> else v)
      | OpenJoinHidden \<Rightarrow>
          edit (\<lambda>v. if networkActionsEnabled v
                 then v\<lparr>modal := JoinHiddenRoomModal, hiddenRoomCodeInput := []\<rparr> else v)
      | OpenMatchHistory \<Rightarrow>
          (if networkActionsEnabled view
           then (case tp_matchHistory tp t of (result, t1) \<Rightarrow>
                   Some (onView (\<lambda>v. v\<lparr>matchHistory := mh_entries result,
                           matchHistoryError := (if mh_succeeded result then [] else mh_message result),
                           screen := MatchHistoryScreen\<rparr>) c, t1))
           else Some (c, t))
      | SelectPublicVisibility \<Rightarrow> edit (\<lambda>v. v\<lparr>selectedRoomVisibility := PublicRoom\<rparr>)
      | SelectHiddenVisibility \<Rightarrow> edit (\<lambda>v. v\<lparr>selectedRoomVisibility := HiddenRoom\<rparr>)
      | SubmitCreateRoom \<Rightarrow>
          (let name = trimRoomName (roomNameInput view); hidden = (selectedRoomVisibility view = HiddenRoom) in
           if name = [] then edit (showError ''Room name is required.'')
           else if length name > 40 then edit (showError ''Room name must be at most 40 UTF-8 bytes.'')
           else Some (roomAction (if hidden then CreateHiddenRoom else CreatePublicRoom) []
                  (tp_createRoom tp name hidden) ''Could not create the room.'' (c, t)))
      | SubmitHiddenCode \<Rightarrow>
          (let code = normalizeHiddenCode (hiddenRoomCodeInput view) in
           if length code \<noteq> 6 then edit (showError ''Room codes contain exactly six characters.'')
           else Some (roomAction PendingJoinHidden [] (tp_joinHiddenRoom tp code) ''Could not join the hidden room.'' (c, t)))
      | CancelModal \<Rightarrow> edit (\<lambda>v. if pendingAction v = NothingPending then v\<lparr>modal := NoModal\<rparr> else v)
      | JoinPublicRoom \<Rightarrow>
          Some (roomAction PendingJoinPublic value (tp_joinPublicRoom tp value) ''Could not join the room.'' (c, t))
      | WatchRoom \<Rightarrow>
          Some (roomAction PendingWatch value (tp_watchRoom tp value) ''Could not watch the room.'' (c, t))
      | FindMatch \<Rightarrow>
          Some (roomAction PendingFindMatch [] (tp_findMatch tp) ''Could not start matchmaking.'' (c, t))
      | CancelFindMatch \<Rightarrow>
          (if pendingAction view = PendingFindMatch then Some (c, snd (tp_cancelFindMatch tp t)) else Some (c, t))
      | BackToLobby \<Rightarrow>
          (let t1 = (case matchView view of
                       None \<Rightarrow> t
                     | Some m \<Rightarrow> (if spectator m then snd (tp_leaveSpectator tp (mv_roomId m) t) else t))
           in Some (onView (\<lambda>v. v\<lparr>screen := LobbyScreen, spectatorView := None, roomReady := None, matchView := None,
                      hiddenRoomCode := [], currentRoomName := [], pendingRoomId := [], visibleError := []\<rparr>) c,
                    snd (tp_requestLobby tp t1)))
      | LogoutAction \<Rightarrow> Some (onView resetForLogout (clearPasswords c), snd (tp_logout tp t))
      | NextWaitingPage \<Rightarrow>
          (if value = [] then Some (c, t)
           else map_option (\<lambda>p. (onView (\<lambda>v. v\<lparr>waitingPage := p\<rparr>) c, t)) (nextPage value (waitingPage view)))
      | PreviousWaitingPage \<Rightarrow> edit (\<lambda>v. v\<lparr>waitingPage := max 0 (waitingPage v - 1)\<rparr>)
      | NextActivePage \<Rightarrow>
          (if value = [] then Some (c, t)
           else map_option (\<lambda>p. (onView (\<lambda>v. v\<lparr>activePage := p\<rparr>) c, t)) (nextPage value (activePage view)))
      | PreviousActivePage \<Rightarrow> edit (\<lambda>v. v\<lparr>activePage := max 0 (activePage v - 1)\<rparr>)
      | NoAction \<Rightarrow> Some (c, t)))"

section \<open>Keys\<close>

definition inputCharacter :: "char \<Rightarrow> LobbyController \<Rightarrow> LobbyController" where
  "inputCharacter ch c =
     (let view = lobbyView c in
      if screen view = AuthenticationScreen
      then if focusedField view = UsernameField
           then (if isprint ch \<and> length (usernameInput view) < 32
                 then onView (\<lambda>v. v\<lparr>usernameInput := usernameInput v @ [ch]\<rparr>) c else c)
           else if focusedField view = ConfirmPasswordField \<and> authMode view = RegisterMode
           then (if isprint ch \<and> length (confirmPassword c) < 128
                 then onView (\<lambda>v. v\<lparr>confirmPasswordLength := length (confirmPassword c) + 1, visibleError := []\<rparr>)
                        (c\<lparr>confirmPassword := confirmPassword c @ [ch]\<rparr>)
                 else c)
           else if focusedField view = PasswordField \<and> isprint ch \<and> length (passwordText c) < 128
           then onView (\<lambda>v. (if authMode v = RegisterMode then v\<lparr>visibleError := []\<rparr> else v)
                    \<lparr>passwordLength := length (passwordText c) + 1\<rparr>) (c\<lparr>passwordText := passwordText c @ [ch]\<rparr>)
           else c
      else if modal view = CreateRoomModal
      then (if isprint ch
            then if length (roomNameInput view @ [ch]) \<le> 40
                 then onView (\<lambda>v. v\<lparr>roomNameInput := roomNameInput v @ [ch], visibleError := []\<rparr>) c
                 else onView (showError ''Room name must be at most 40 UTF-8 bytes.'') c
            else c)
      else if modal view = JoinHiddenRoomModal
      then (if isalnum (toupper ch) \<and> length (hiddenRoomCodeInput view) < 6
            then onView (\<lambda>v. v\<lparr>hiddenRoomCodeInput := hiddenRoomCodeInput v @ [toupper ch]\<rparr>) c else c)
      else c)"

definition backspace :: "LobbyController \<Rightarrow> LobbyController" where
  "backspace c =
     (let view = lobbyView c in
      if screen view = AuthenticationScreen
      then if focusedField view = UsernameField
           then onView (\<lambda>v. v\<lparr>usernameInput := butlast (usernameInput v)\<rparr>) c
           else if focusedField view = ConfirmPasswordField \<and> authMode view = RegisterMode
           then (if confirmPassword c \<noteq> []
                 then onView (\<lambda>v. v\<lparr>confirmPasswordLength := length (confirmPassword c) - 1, visibleError := []\<rparr>)
                        (c\<lparr>confirmPassword := butlast (confirmPassword c)\<rparr>)
                 else c)
           else if focusedField view = PasswordField \<and> passwordText c \<noteq> []
           then onView (\<lambda>v. (if authMode v = RegisterMode then v\<lparr>visibleError := []\<rparr> else v)
                    \<lparr>passwordLength := length (passwordText c) - 1\<rparr>) (c\<lparr>passwordText := butlast (passwordText c)\<rparr>)
           else c
      else if modal view = CreateRoomModal \<and> roomNameInput view \<noteq> []
      then onView (\<lambda>v. v\<lparr>roomNameInput := butlast (roomNameInput v), visibleError := []\<rparr>) c
      else if modal view = JoinHiddenRoomModal \<and> hiddenRoomCodeInput view \<noteq> []
      then onView (\<lambda>v. v\<lparr>hiddenRoomCodeInput := butlast (hiddenRoomCodeInput v)\<rparr>) c
      else c)"

definition handleTab :: "'t LobbyTransport \<Rightarrow> LobbyController \<times> 't \<Rightarrow> (LobbyController \<times> 't) option" where
  "handleTab tp = (\<lambda>(c, t).
     (if screen (lobbyView c) \<noteq> AuthenticationScreen then Some (c, t)
      else handle tp
        (if focusedField (lobbyView c) = UsernameField then FocusPassword
         else if focusedField (lobbyView c) = PasswordField
         then (if authMode (lobbyView c) = RegisterMode then FocusConfirmPassword else FocusUsername)
         else FocusUsername) [] (c, t)))"

definition handleEnter :: "'t LobbyTransport \<Rightarrow> LobbyController \<times> 't \<Rightarrow> (LobbyController \<times> 't) option" where
  "handleEnter tp = (\<lambda>(c, t).
     (if modal (lobbyView c) = CreateRoomModal then handle tp SubmitCreateRoom [] (c, t)
      else if modal (lobbyView c) = JoinHiddenRoomModal then handle tp SubmitHiddenCode [] (c, t)
      else if screen (lobbyView c) = AuthenticationScreen
      then handle tp (if authMode (lobbyView c) = RegisterMode then RegisterAction else LoginAction) [] (c, t)
      else Some (c, t)))"

section \<open>Network events\<close>

definition applyTransportEvent :: "WebSocketEventKind \<Rightarrow> LobbyController \<Rightarrow> LobbyController" where
  "applyTransportEvent kind c =
     (if kind = WsAuthenticationFailed
      then onView (authenticationFailed ''Your session expired. Please sign in again.'') (onView resetForLogout c)
      else if kind = WsClosed \<or> kind = WsTransportError then onView (setConnectionState WsDisconnected) c
      else c)"

definition consumeEvent :: "'t LobbyTransport \<Rightarrow> envelope \<Rightarrow> LobbyController \<times> 't \<Rightarrow> LobbyController \<times> 't" where
  "consumeEvent tp e = (\<lambda>(c, t).
     (case e of
        TransportEvent k \<Rightarrow> (applyTransportEvent k c, t)
      | ProtocolEvent ev \<Rightarrow>
          (let c1 = onView (applyEvent ev) c in
           case ev of
             ConnectedEvent _ \<Rightarrow>
               (case tp_subscribeLobby tp t of (ok, t1) \<Rightarrow>
                  (if ok then c1 else onView (showError ''Could not subscribe to lobby updates.'') c1, t1))
           | _ \<Rightarrow> (c1, t))
      | ParseError why \<Rightarrow> (if why \<noteq> [] then onView (showError ''The lobby sent an invalid message.'') c else c, t)))"

text \<open>The loop goes on as long as the transport has events, so it is a partial function.\<close>

partial_function (option) consumeNetworkEvents ::
    "'t LobbyTransport \<Rightarrow> LobbyController \<times> 't \<Rightarrow> (LobbyController \<times> 't) option" where
  "consumeNetworkEvents tp s =
     (case fst (tp_pollEvent tp (snd s)) of
        None \<Rightarrow> Some (fst s, snd (tp_pollEvent tp (snd s)))
      | Some e \<Rightarrow> consumeNetworkEvents tp (consumeEvent tp e (fst s, snd (tp_pollEvent tp (snd s)))))"

declare consumeNetworkEvents.simps [code]

text \<open>One tick; \<open>outcome\<close> is the result of the authentication task when it is ready by now.\<close>

definition tick ::
    "'t LobbyTransport \<Rightarrow> AuthResult option \<Rightarrow> LobbyController \<times> 't \<Rightarrow> (LobbyController \<times> 't) option" where
  "tick tp outcome = (\<lambda>(c, t).
     (let (c1, t1) =
        (if authenticationTask c \<noteq> None
         then (case outcome of None \<Rightarrow> (c, t) | Some r \<Rightarrow> finishAuthentication tp r (c\<lparr>authenticationTask := None\<rparr>, t))
         else (c, t))
      in consumeNetworkEvents tp (onView (setConnectionState (tp_connectionState tp t1)) c1, t1)))"

section \<open>The board of a match\<close>

text \<open>The guard with which both board actions begin.\<close>

definition playableMatch :: "Position \<Rightarrow> LobbyViewModel \<Rightarrow> MatchView option" where
  "playableMatch p v =
     (case matchView v of
        None \<Rightarrow> None
      | Some m \<Rightarrow>
          (if spectator m \<or> phase m \<noteq> MatchPlaying \<or> screen v \<noteq> GameScreen \<or>
              getRow p < 0 \<or> getRow p > 7 \<or> getCol p < 0 \<or> getCol p > 7 then None else Some m))"

definition holdsOwnPiece :: "Position \<Rightarrow> MatchView \<Rightarrow> bool" where
  "holdsOwnPiece p m =
     (case find (\<lambda>x. getRow (ps_position x) = getRow p \<and> getCol (ps_position x) = getCol p \<and> ps_state x \<noteq> ''captured'')
             (snapPieces (mv_snapshot m)) of
        None \<Rightarrow> False
      | Some x \<Rightarrow> ps_token x \<noteq> [] \<and> hd (ps_token x) = (if mv_assignedColor m = ''black'' then CHR ''b'' else CHR ''w''))"

definition onShownMatch :: "MatchView \<Rightarrow> LobbyController \<Rightarrow> LobbyController" where
  "onShownMatch m c = onView (\<lambda>v. v\<lparr>matchView := Some m\<rparr>) c"

definition gameBoardClick :: "'t LobbyTransport \<Rightarrow> Position \<Rightarrow> LobbyController \<times> 't \<Rightarrow> LobbyController \<times> 't" where
  "gameBoardClick tp p = (\<lambda>(c, t).
     (case playableMatch p (lobbyView c) of
        None \<Rightarrow> (c, t)
      | Some m \<Rightarrow>
          (case selectedSource m of
             None \<Rightarrow>
               (if \<not> holdsOwnPiece p m then (onShownMatch (m\<lparr>moveStatus := ''Select one of your pieces.''\<rparr>) c, t)
                else (onShownMatch (m\<lparr>selectedSource := Some p, moveStatus := []\<rparr>) c, t))
           | Some source \<Rightarrow>
               (let sq = mv_nextSequence m; m1 = m\<lparr>mv_nextSequence := sq + 1, selectedSource := None\<rparr> in
                if source = p
                then (case tp_sendJump tp (mv_roomId m) sq p t of (ok, t1) \<Rightarrow>
                        (onShownMatch (if ok then m1 else m1\<lparr>moveStatus := ''Could not send the jump.''\<rparr>) c, t1))
                else (case tp_sendMove tp (mv_roomId m) sq source p t of (ok, t1) \<Rightarrow>
                        (onShownMatch (m1\<lparr>moveStatus := (if ok then ''Waiting for authoritative result...''
                                                         else ''Could not send the move.'')\<rparr>) c, t1))))))"

definition gameBoardJump :: "'t LobbyTransport \<Rightarrow> Position \<Rightarrow> LobbyController \<times> 't \<Rightarrow> LobbyController \<times> 't" where
  "gameBoardJump tp p = (\<lambda>(c, t).
     (case playableMatch p (lobbyView c) of
        None \<Rightarrow> (c, t)
      | Some m \<Rightarrow>
          (if \<not> holdsOwnPiece p m then (onShownMatch (m\<lparr>moveStatus := ''Select one of your pieces.''\<rparr>) c, t)
           else let sq = mv_nextSequence m; m1 = m\<lparr>mv_nextSequence := sq + 1, selectedSource := None\<rparr> in
             (case tp_sendJump tp (mv_roomId m) sq p t of (ok, t1) \<Rightarrow>
                (onShownMatch (if ok then m1 else m1\<lparr>moveStatus := ''Could not send the jump.''\<rparr>) c, t1)))))"

end
