(* ===== verification/Lobby_Protocol.thy ===== *)
theory Lobby_Protocol
  imports Json_Values Protocol_Roundtrip Lobby_State
begin

text \<open>
  The messages between the client and the gateway:
  \<open>src/client/desktop_client/src/Network/LobbyProtocol.cpp\<close>.
\<close>

section \<open>Reading fields\<close>

definition requiredObject :: "jobject \<Rightarrow> string \<Rightarrow> string + jobject" where
  "requiredObject object name =
     (case if_contains object name of Some (JObject o') \<Rightarrow> Inr o' | _ \<Rightarrow> Inl (''Missing object: '' @ name))"

definition requiredArray :: "jobject \<Rightarrow> string \<Rightarrow> string + jvalue list" where
  "requiredArray object name =
     (case if_contains object name of Some (JArray vs) \<Rightarrow> Inr vs | _ \<Rightarrow> Inl (''Missing array: '' @ name))"

definition requiredString :: "jobject \<Rightarrow> string \<Rightarrow> string + string" where
  "requiredString object name =
     (case if_contains object name of Some (JString s) \<Rightarrow> Inr s | _ \<Rightarrow> Inl (''Missing string: '' @ name))"

text \<open>
  The regular expression \<open>^\d{4}-\d{2}-\d{2}T\d{2}:\d{2}:\d{2}(?:\.\d+)?Z$\<close>: the fixed part as a
  pattern, \<open>d\<close> standing for a digit, and behind it either nothing or a point with digits.
\<close>

definition timestampPattern :: string where
  "timestampPattern = ''dddd-dd-ddTdd:dd:dd''"

definition fitsPattern :: "string \<Rightarrow> string \<Rightarrow> bool" where
  "fitsPattern pattern s \<longleftrightarrow> list_all2 (\<lambda>p c. if p = CHR ''d'' then isdigit c else c = p) pattern s"

definition isUtcTimestamp :: "string \<Rightarrow> bool" where
  "isUtcTimestamp s \<longleftrightarrow>
     (let n = length timestampPattern; rest = drop n s in
      fitsPattern timestampPattern (take n s) \<and>
      (rest = ''Z'' \<or>
       length rest \<ge> 3 \<and> hd rest = CHR ''.'' \<and> last rest = CHR ''Z'' \<and> list_all isdigit (butlast (tl rest))))"

definition requiredUtcTimestamp :: "jobject \<Rightarrow> string \<Rightarrow> string + string" where
  "requiredUtcTimestamp object name =
     tryR (requiredString object name)
       (\<lambda>s. if \<not> isUtcTimestamp s then Inl ''Invalid UTC timestamp'' else Inr s)"

definition optionalInteger :: "jobject \<Rightarrow> string \<Rightarrow> int \<Rightarrow> string + int" where
  "optionalInteger object name fallback =
     (case if_contains object name of
        None \<Rightarrow> Inr fallback
      | Some (JInt64 i) \<Rightarrow> (if i < 0 then Inl (''Invalid integer: '' @ name) else Inr (castInt i))
      | _ \<Rightarrow> Inl (''Invalid integer: '' @ name))"

definition requiredUnsigned :: "jobject \<Rightarrow> string \<Rightarrow> string + 64 word" where
  "requiredUnsigned object name =
     (case if_contains object name of
        Some (JInt64 i) \<Rightarrow> (if i < 0 then Inl (''Invalid integer: '' @ name) else Inr (word_of_int i))
      | _ \<Rightarrow> Inl (''Invalid integer: '' @ name))"

definition unusedCell :: jvalue where
  "unusedCell = JObject [(''row'', JInt64 (-1)), (''col'', JInt64 (-1))]"

definition snapshotEnvelope :: "jobject \<Rightarrow> jvalue" where
  "snapshotEnvelope object = JObject
     [(''version'', JInt64 VERSION), (''type'', JString ''game_state_updated''), (''sequence'', JInt64 0),
      (''source'', unusedCell), (''destination'', unusedCell), (''accepted'', JBool True),
      (''reason'', JString ''gateway_snapshot''), (''playerColor'', JString []), (''reconnectToken'', JString []),
      (''username'', JString []), (''whiteUsername'', JString []), (''blackUsername'', JString []),
      (''secondsRemaining'', JInt64 0), (''createdAtMs'', JInt64 0), (''hasSnapshot'', JBool True),
      (''snapshot'', JObject object)]"

definition parseSnapshot :: "JsonLibrary \<Rightarrow> jobject \<Rightarrow> string + GameStateSnapshot" where
  "parseSnapshot jl object =
     (let wire = jl_serialize jl (snapshotEnvelope object) in
      case deserialize wire of None \<Rightarrow> Inl (jl_refusal jl wire) | Some m \<Rightarrow> Inr (snapshot m))"

definition optionalRating :: "jobject \<Rightarrow> string + int" where
  "optionalRating object =
     (case if_contains object ''rating'' of
        None \<Rightarrow> Inr 1200
      | Some (JInt64 i) \<Rightarrow> Inr (castInt i)
      | _ \<Rightarrow> Inl ''Invalid integer: rating'')"

definition parseUser :: "jobject \<Rightarrow> string + LobbyUser" where
  "parseUser object =
     tryR (requiredString object ''id'') (\<lambda>i.
     tryR (requiredString object ''username'') (\<lambda>n.
     tryR (optionalRating object) (\<lambda>r. Inr \<lparr>userId = i, userName = n, userRating = r\<rparr>)))"

definition optionalUser :: "jobject \<Rightarrow> string \<Rightarrow> string + LobbyUser option" where
  "optionalUser object name =
     (case if_contains object name of
        None \<Rightarrow> Inr None
      | Some JNull \<Rightarrow> Inr None
      | Some (JObject o') \<Rightarrow> tryR (parseUser o') (\<lambda>u. Inr (Some u))
      | _ \<Rightarrow> Inl (''Invalid user: '' @ name))"

text \<open>A text member that is taken only when it is a text.\<close>

definition textMember :: "jobject \<Rightarrow> string \<Rightarrow> string option" where
  "textMember object name = (case if_contains object name of Some (JString s) \<Rightarrow> Some s | _ \<Rightarrow> None)"

definition parseRoom :: "jobject \<Rightarrow> string + LobbyRoom" where
  "parseRoom object =
     tryR (requiredString object ''room_id'') (\<lambda>i.
     tryR (requiredString object ''name'') (\<lambda>n.
     tryR (requiredString object ''status'') (\<lambda>st.
     tryR (optionalUser object ''host'') (\<lambda>h.
     tryR (optionalUser object ''white'') (\<lambda>w.
     tryR (optionalUser object ''black'') (\<lambda>b.
     tryR (optionalInteger object ''spectator_count'' 0) (\<lambda>k.
     Inr \<lparr>roomId = i, roomName = n,
       visibility = (case textMember object ''visibility'' of Some v \<Rightarrow> v | None \<Rightarrow> []),
       roomStatus = st, host = h, whiteUser = w, blackUser = b, roomCode = textMember object ''room_code'',
       createdAt = (case textMember object ''created_at'' of Some v \<Rightarrow> v | None \<Rightarrow> []), roomSpectators = k\<rparr>)))))))"

definition parseRooms :: "jvalue list \<Rightarrow> string + LobbyRoom list" where
  "parseRooms values =
     tryAll (\<lambda>v. case v of JObject o' \<Rightarrow> parseRoom o' | _ \<Rightarrow> Inl ''Room must be an object'') values"

definition countdownText :: "jobject \<Rightarrow> string + string" where
  "countdownText object =
     (case if_contains object ''value'' of
        Some (JInt64 i) \<Rightarrow> (if 1 \<le> i \<and> i \<le> 3 then Inr (to_string i) else Inl ''Invalid countdown value'')
      | Some (JString s) \<Rightarrow> (if s = ''GO'' then Inr ''GO'' else Inl ''Invalid countdown value'')
      | _ \<Rightarrow> Inl ''Invalid countdown value'')"

section \<open>Events\<close>

text \<open>The event of a type, \<open>None\<close> when the type is unknown.\<close>

definition parseEvent :: "JsonLibrary \<Rightarrow> string \<Rightarrow> jobject \<Rightarrow> string + LobbyEvent option" where
  "parseEvent jl type object =
     (let done = (\<lambda>e. Inr (Some e)); str = requiredString object in
      if type = ''connected''
      then tryR (requiredObject object ''user'') (\<lambda>o'. tryR (parseUser o') (\<lambda>u. done (ConnectedEvent u)))
      else if type = ''pong'' then done PongEvent
      else if type = ''lobby_snapshot''
      then tryR (requiredArray object ''waiting_rooms'') (\<lambda>a. tryR (parseRooms a) (\<lambda>waiting.
           tryR (requiredArray object ''active_games'') (\<lambda>b. tryR (parseRooms b) (\<lambda>active.
           done (LobbySnapshotEvent waiting active)))))
      else if type = ''room_created''
      then tryR (requiredObject object ''room'') (\<lambda>o'. tryR (parseRoom o') (\<lambda>r. done (RoomCreatedEvent r)))
      else if type = ''game_started''
      then tryR (str ''room_id'') (\<lambda>i. tryR (str ''name'') (\<lambda>n. tryR (str ''color'') (\<lambda>c.
           tryR (requiredObject object ''opponent'') (\<lambda>o'. tryR (parseUser o') (\<lambda>u.
           done (GameStartedEvent i n c u))))))
      else if type = ''watching_game''
      then tryR (optionalUser object ''white'') (\<lambda>white. tryR (optionalUser object ''black'') (\<lambda>black.
           if white = None \<or> black = None then Inl ''Watching game requires both players''
           else tryR (str ''room_id'') (\<lambda>i. tryR (str ''name'') (\<lambda>n.
                tryR (optionalInteger object ''spectator_count'' 0) (\<lambda>k.
                done (WatchingGameEvent i n (the white) (the black) k))))))
      else if type = ''match_ready''
      then tryR (str ''room_id'') (\<lambda>i. tryR (str ''color'') (\<lambda>c. tryR (str ''opponent'') (\<lambda>n.
           tryR (requiredUnsigned object ''revision'') (\<lambda>r. tryR (requiredObject object ''state'') (\<lambda>o'.
           tryR (parseSnapshot jl o') (\<lambda>s. tryR (requiredUtcTimestamp object ''game_starts_at'') (\<lambda>t.
           tryR (optionalInteger object ''white_rating'' 1200) (\<lambda>w.
           tryR (optionalInteger object ''black_rating'' 1200) (\<lambda>b.
           done (MatchReadyEvent i c n r s t w b))))))))))
      else if type = ''match_countdown''
      then tryR (countdownText object) (\<lambda>v. tryR (str ''room_id'') (\<lambda>i.
           tryR (requiredUtcTimestamp object ''game_starts_at'') (\<lambda>t. done (MatchCountdownEvent i v t))))
      else if type = ''match_started''
      then tryR (str ''room_id'') (\<lambda>i. tryR (requiredUnsigned object ''revision'') (\<lambda>r.
           tryR (requiredObject object ''state'') (\<lambda>o'. tryR (parseSnapshot jl o') (\<lambda>s.
           tryR (requiredUtcTimestamp object ''game_starts_at'') (\<lambda>t. done (MatchStartedEvent i r s t))))))
      else if type = ''match_cancelled''
      then tryR (str ''room_id'') (\<lambda>i. tryR (str ''reason'') (\<lambda>w. done (MatchCancelledEvent i w)))
      else if type = ''match_snapshot''
      then tryR (str ''room_id'') (\<lambda>i. tryR (requiredUnsigned object ''revision'') (\<lambda>r.
           tryR (requiredObject object ''state'') (\<lambda>o'. tryR (parseSnapshot jl o') (\<lambda>s.
           done (MatchSnapshotEvent i r s)))))
      else if type = ''match_state''
      then tryR (str ''room_id'') (\<lambda>i. tryR (requiredUnsigned object ''revision'') (\<lambda>r.
           tryR (requiredObject object ''state'') (\<lambda>o'. tryR (parseSnapshot jl o') (\<lambda>s.
           done (MatchStateEvent i r s)))))
      else if type = ''move_result''
      then (case if_contains object ''accepted'' of
              Some (JBool ok) \<Rightarrow>
                tryR (str ''room_id'') (\<lambda>i. tryR (requiredUnsigned object ''sequence'') (\<lambda>n.
                tryR (str ''reason'') (\<lambda>w. done (MoveResultEvent i n ok w))))
            | _ \<Rightarrow> Inl ''Missing bool: accepted'')
      else if type = ''spectator_left'' then tryR (str ''room_id'') (\<lambda>i. done (SpectatorLeftEvent i))
      else if type = ''opponent_disconnected'' then tryR (str ''room_id'') (\<lambda>i. done (OpponentDisconnectedEvent i))
      else if type = ''room_status''
      then tryR (str ''room_id'') (\<lambda>i. tryR (str ''status'') (\<lambda>st. done (RoomStatusEvent i st)))
      else if type = ''error''
      then tryR (str ''code'') (\<lambda>c. tryR (str ''message'') (\<lambda>t. done (ProtocolErrorEvent c t)))
      else if type = ''searching'' then done SearchingEvent
      else if type = ''match_not_found'' then done MatchNotFoundEvent
      else if type = ''find_match_cancelled'' then done FindMatchCancelledEvent
      else if type = ''rating_updated''
      then tryR (optionalInteger object ''rating'' 0) (\<lambda>r. done (RatingUpdatedEvent r))
      else Inr None)"

type_synonym ProtocolParseResult = "LobbyEvent option \<times> string"

definition parse :: "JsonLibrary \<Rightarrow> string \<Rightarrow> ProtocolParseResult" where
  "parse jl message =
     (case jl_parse jl message of
        Inl what \<Rightarrow> (None, ''Malformed lobby message: '' @ what)
      | Inr (JObject object) \<Rightarrow>
          (case tryR (requiredString object ''type'') (\<lambda>type. parseEvent jl type object) of
             Inl what \<Rightarrow> (None, ''Malformed lobby message: '' @ what)
           | Inr None \<Rightarrow> (None, ''Unsupported message type'')
           | Inr (Some e) \<Rightarrow> (Some e, []))
      | Inr _ \<Rightarrow> (None, ''Message must be a JSON object''))"

section \<open>Requests\<close>

definition plainRequest :: "JsonLibrary \<Rightarrow> string \<Rightarrow> jobject \<Rightarrow> string" where
  "plainRequest jl type members = jl_serialize jl (JObject ((''type'', JString type) # members))"

definition ping :: "JsonLibrary \<Rightarrow> string" where
  "ping jl = plainRequest jl ''ping'' []"

definition subscribeLobby :: "JsonLibrary \<Rightarrow> string" where
  "subscribeLobby jl = plainRequest jl ''subscribe_lobby'' []"

definition getLobby :: "JsonLibrary \<Rightarrow> string" where
  "getLobby jl = plainRequest jl ''get_lobby'' []"

definition createRoom :: "JsonLibrary \<Rightarrow> string \<Rightarrow> bool \<Rightarrow> string" where
  "createRoom jl name hidden = plainRequest jl ''create_room''
     [(''name'', JString name), (''visibility'', JString (if hidden then ''hidden'' else ''public''))]"

definition joinRoom :: "JsonLibrary \<Rightarrow> string \<Rightarrow> string" where
  "joinRoom jl i = plainRequest jl ''join_room'' [(''room_id'', JString i)]"

definition joinHiddenRoom :: "JsonLibrary \<Rightarrow> string \<Rightarrow> string" where
  "joinHiddenRoom jl code = plainRequest jl ''join_hidden_room'' [(''room_code'', JString code)]"

definition watchGame :: "JsonLibrary \<Rightarrow> string \<Rightarrow> string" where
  "watchGame jl i = plainRequest jl ''watch_game'' [(''room_id'', JString i)]"

definition leaveSpectator :: "JsonLibrary \<Rightarrow> string \<Rightarrow> string" where
  "leaveSpectator jl i = plainRequest jl ''leave_spectator'' [(''room_id'', JString i)]"

definition findMatch :: "JsonLibrary \<Rightarrow> string" where
  "findMatch jl = plainRequest jl ''find_match'' []"

definition cancelFindMatch :: "JsonLibrary \<Rightarrow> string" where
  "cancelFindMatch jl = plainRequest jl ''cancel_find_match'' []"

definition cellValue :: "Position \<Rightarrow> jvalue" where
  "cellValue p = JObject [(''row'', JInt64 (getRow p)), (''col'', JInt64 (getCol p))]"

definition jumpRequest :: "JsonLibrary \<Rightarrow> string \<Rightarrow> 64 word \<Rightarrow> Position \<Rightarrow> string" where
  "jumpRequest jl i n p = plainRequest jl ''jump_request''
     [(''room_id'', JString i), (''sequence'', JUint64 (uint n)), (''cell'', cellValue p)]"

definition moveRequest :: "JsonLibrary \<Rightarrow> string \<Rightarrow> 64 word \<Rightarrow> Position \<Rightarrow> Position \<Rightarrow> string" where
  "moveRequest jl i n s d = plainRequest jl ''move_request''
     [(''room_id'', JString i), (''sequence'', JUint64 (uint n)), (''from'', cellValue s), (''to'', cellValue d)]"

end
