(* ===== verification/Lobby_Client.thy ===== *)
theory Lobby_Client
  imports Lobby_Controller Lobby_Protocol
begin

text \<open>
  The network of the lobby: the web socket
  (\<open>src/client/desktop_client/src/Network/WebSocketClient.cpp\<close>, its queue of events
  \<open>include/Network/ThreadSafeQueue.hpp\<close>), the client over socket and HTTP
  (\<open>src/Network/LobbyClient.cpp\<close>) and the transport the controller gets
  (\<open>src/Lobby/LobbyTransport.cpp\<close>).

  The worker thread of a socket runs handlers, one at a time; each handler is an operation here, with
  the result of the read or write it completes as an argument. Resolving, connecting, the handshake
  and the bytes on the wire are Boost's.
\<close>

section \<open>The queue of events\<close>

text \<open>Each operation holds the mutex, so it is atomic.\<close>

definition queuePush :: "'a \<Rightarrow> 'a list \<Rightarrow> 'a list" where
  "queuePush x q = q @ [x]"

definition tryPop :: "'a list \<Rightarrow> 'a option \<times> 'a list" where
  "tryPop q = (case q of [] \<Rightarrow> (None, []) | x # xs \<Rightarrow> (Some x, xs))"

section \<open>The web socket\<close>

record WebSocketEvent =
  eventKind :: WebSocketEventKind
  eventText :: string
  closeCode :: nat

text \<open>
  The state of the implementation object. \<open>posted\<close> holds the messages whose task waits in the I/O
  context, \<open>inFlight\<close> the message of the \<open>async_write\<close> that runs and \<open>written\<close> all that were handed
  to \<open>async_write\<close>, in order; \<open>worker\<close> tells that the thread object is joinable.
\<close>

record WsImpl =
  connState :: WebSocketConnectionState
  events :: "WebSocketEvent list"
  outgoing :: "string list"
  writeActive :: bool
  posted :: "string list"
  inFlight :: "string option"
  written :: "string list"
  reading :: bool
  worker :: bool

definition newWsImpl :: WsImpl where
  "newWsImpl = \<lparr>connState = WsDisconnected, events = [], outgoing = [], writeActive = False, posted = [],
     inFlight = None, written = [], reading = False, worker = False\<rparr>"

definition parseWebSocketUrl :: "string \<Rightarrow> string + ParsedUrl" where
  "parseWebSocketUrl = splitUrl ''wss'' ''WebSocket URL is missing a scheme'' ''WebSocket URL authority is invalid''"

definition eventKindForCloseCode :: "nat \<Rightarrow> WebSocketEventKind" where
  "eventKindForCloseCode code = (if code = 4401 then WsAuthenticationFailed else WsClosed)"

definition pushEvent :: "WebSocketEventKind \<Rightarrow> string \<Rightarrow> nat \<Rightarrow> WsImpl \<Rightarrow> WsImpl" where
  "pushEvent kind t code w = w\<lparr>events := queuePush \<lparr>eventKind = kind, eventText = t, closeCode = code\<rparr> (events w)\<rparr>"

text \<open>
  The end of a read: a text, or an error with the close code of the socket, whether the error is
  \<open>websocket::error::closed\<close>, and its message.
\<close>

datatype ReadOutcome = ReadText string | ReadError nat bool string

definition readDone :: "ReadOutcome \<Rightarrow> WsImpl \<Rightarrow> WsImpl" where
  "readDone outcome w =
     (case outcome of
        ReadText t \<Rightarrow> (pushEvent WsText t 0 w)\<lparr>reading := True\<rparr>
      | ReadError code closed message \<Rightarrow>
          (let w = w\<lparr>reading := False\<rparr> in
           if eventKindForCloseCode code = WsAuthenticationFailed
           then pushEvent WsAuthenticationFailed [] code (w\<lparr>connState := WsFailed\<rparr>)
           else if closed then pushEvent WsClosed [] code (w\<lparr>connState := WsDisconnected\<rparr>)
           else if connState w \<noteq> WsClosing
           then pushEvent WsTransportError message code (w\<lparr>connState := WsFailed\<rparr>)
           else w))"

definition writeNext :: "WsImpl \<Rightarrow> WsImpl" where
  "writeNext w =
     (if outgoing w = [] \<or> writeActive w then w
      else w\<lparr>writeActive := True, inFlight := Some (hd (outgoing w)), written := written w @ [hd (outgoing w)]\<rparr>)"

text \<open>The end of a write, with the message of its error when there is one.\<close>

definition writeDone :: "string option \<Rightarrow> WsImpl \<Rightarrow> WsImpl" where
  "writeDone error w =
     (let w = w\<lparr>inFlight := None\<rparr> in
      case error of
        Some message \<Rightarrow> pushEvent WsTransportError message 0 (w\<lparr>connState := WsFailed\<rparr>)
      | None \<Rightarrow> writeNext (w\<lparr>outgoing := tl (outgoing w), writeActive := False\<rparr>))"

text \<open>The worker's beginning; \<open>establish\<close> yields the text of an exception, if there is one.\<close>

definition wsRun :: "(ParsedUrl \<Rightarrow> string option \<Rightarrow> string option) \<Rightarrow> ParsedUrl \<Rightarrow> string option \<Rightarrow> WsImpl \<Rightarrow> WsImpl" where
  "wsRun establish parsed cookie w =
     (case (if scheme parsed \<noteq> ''ws'' then Some ''Only local ws:// is supported by this transport''
            else establish parsed cookie) of
        Some what \<Rightarrow> pushEvent WsTransportError what 0 (w\<lparr>connState := WsFailed\<rparr>)
      | None \<Rightarrow> w\<lparr>connState := WsConnected, reading := True\<rparr>)"

text \<open>
  Connecting starts the worker with the URL's parts and the cookie; the worker goes on with \<open>wsRun\<close>.
  An exception leaves the old object with a failure.
\<close>

definition wsConnect :: "string \<Rightarrow> WsImpl \<Rightarrow> bool \<times> WsImpl" where
  "wsConnect address w =
     (if connState w \<noteq> WsDisconnected \<and> connState w \<noteq> WsFailed then (False, w)
      else let w1 = w\<lparr>worker := False\<rparr> in
        case parseWebSocketUrl address of
          Inl what \<Rightarrow> (False, pushEvent WsTransportError what 0 (w1\<lparr>connState := WsFailed\<rparr>))
        | Inr parsed \<Rightarrow> (True, newWsImpl\<lparr>connState := WsConnecting, worker := True\<rparr>))"

definition sendText :: "string \<Rightarrow> WsImpl \<Rightarrow> bool \<times> WsImpl" where
  "sendText message w =
     (if connState w \<noteq> WsConnected then (False, w) else (True, w\<lparr>posted := posted w @ [message]\<rparr>))"

text \<open>The task that \<open>sendText\<close> posts.\<close>

definition runPosted :: "WsImpl \<Rightarrow> WsImpl" where
  "runPosted w =
     (case posted w of [] \<Rightarrow> w | m # ms \<Rightarrow> writeNext (w\<lparr>posted := ms, outgoing := outgoing w @ [m]\<rparr>))"

text \<open>The end of \<open>async_close\<close>, with the message of its error unless that is \<open>closed\<close>.\<close>

definition closeDone :: "string option \<Rightarrow> WsImpl \<Rightarrow> WsImpl" where
  "closeDone error w =
     (let w = w\<lparr>connState := WsDisconnected\<rparr> in
      case error of Some m \<Rightarrow> pushEvent WsTransportError m 0 w | None \<Rightarrow> pushEvent WsClosed [] 1000 w)"

text \<open>
  Disconnecting waits for the worker; \<open>drain\<close> is what the worker still does until it ends: the
  handlers above when the socket was connected, nothing new when the context was stopped.
\<close>

definition wsDisconnect :: "(WsImpl \<Rightarrow> WsImpl) \<Rightarrow> WsImpl \<Rightarrow> WsImpl" where
  "wsDisconnect drain w =
     (let w1 = (if connState w = WsConnected \<or> connState w = WsConnecting then w\<lparr>connState := WsClosing\<rparr> else w);
          w2 = (if worker w1 then (drain w1)\<lparr>worker := False\<rparr> else w1)
      in w2\<lparr>connState := WsDisconnected\<rparr>)"

definition pollSocket :: "WsImpl \<Rightarrow> WebSocketEvent option \<times> WsImpl" where
  "pollSocket w = (case tryPop (events w) of (e, q) \<Rightarrow> (e, w\<lparr>events := q\<rparr>))"

record WebSocketHandshakeMetadata =
  hm_target :: string
  includesCookie :: bool
  tokenAppearsInUrl :: bool

definition contains :: "string \<Rightarrow> string \<Rightarrow> bool" where
  "contains part s \<longleftrightarrow> list_ex (\<lambda>n. take (length part) (drop n s) = part) [0..<Suc (length s)]"

definition handshakeMetadata :: "string \<Rightarrow> SessionCookieJar \<Rightarrow> string + WebSocketHandshakeMetadata" where
  "handshakeMetadata address jar =
     tryR (parseWebSocketUrl address) (\<lambda>parsed.
       Inr \<lparr>hm_target = target parsed, includesCookie = (cookieHeader jar \<noteq> None),
         tokenAppearsInUrl = (case cookieHeader jar of None \<Rightarrow> False | Some c \<Rightarrow> contains c address)\<rparr>)"

section \<open>The client of the lobby\<close>

text \<open>Its fixed parts: HTTP, JSON, the addresses and what ends a worker.\<close>

record 'n LobbyClientConfig =
  api :: "'n ApiClient"
  socketUrl :: string
  drainWorker :: "WsImpl \<Rightarrow> WsImpl"

record 'n LobbyClient =
  cookieJar :: SessionCookieJar
  network :: 'n
  socket :: WsImpl

definition newLobbyClient :: "'n \<Rightarrow> 'n LobbyClient" where
  "newLobbyClient n = \<lparr>cookieJar = None, network = n, socket = newWsImpl\<rparr>"

definition callApi :: "('n apiState \<Rightarrow> 'r \<times> 'n apiState) \<Rightarrow> 'n LobbyClient \<Rightarrow> 'r \<times> 'n LobbyClient" where
  "callApi f c = (case f (cookieJar c, network c) of (r, (jar, n)) \<Rightarrow> (r, c\<lparr>cookieJar := jar, network := n\<rparr>))"

definition clientRegister :: "'n LobbyClientConfig \<Rightarrow> string \<Rightarrow> string \<Rightarrow> 'n LobbyClient \<Rightarrow> AuthResult \<times> 'n LobbyClient" where
  "clientRegister cfg name pass = callApi (apiRegister (api cfg) name pass)"

definition currentUser :: "'n LobbyClientConfig \<Rightarrow> 'n LobbyClient \<Rightarrow> AuthResult \<times> 'n LobbyClient" where
  "currentUser cfg = callApi (apiMe (api cfg))"

definition clientLogin :: "'n LobbyClientConfig \<Rightarrow> string \<Rightarrow> string \<Rightarrow> 'n LobbyClient \<Rightarrow> AuthResult \<times> 'n LobbyClient" where
  "clientLogin cfg name pass c =
     (case callApi (apiLogin (api cfg) name pass) c of (r, c1) \<Rightarrow>
        if \<not> succeeded r then (r, c1) else currentUser cfg c1)"

definition disconnectRealtime :: "'n LobbyClientConfig \<Rightarrow> 'n LobbyClient \<Rightarrow> 'n LobbyClient" where
  "disconnectRealtime cfg c = c\<lparr>socket := wsDisconnect (drainWorker cfg) (socket c)\<rparr>"

definition clientLogout :: "'n LobbyClientConfig \<Rightarrow> 'n LobbyClient \<Rightarrow> AuthResult \<times> 'n LobbyClient" where
  "clientLogout cfg c = callApi (apiLogout (api cfg)) (disconnectRealtime cfg c)"

definition clientHistory :: "'n LobbyClientConfig \<Rightarrow> 'n LobbyClient \<Rightarrow> MatchHistoryResult \<times> 'n LobbyClient" where
  "clientHistory cfg = callApi (getMatchHistory (api cfg))"

definition connectRealtime :: "'n LobbyClientConfig \<Rightarrow> 'n LobbyClient \<Rightarrow> bool \<times> 'n LobbyClient" where
  "connectRealtime cfg c =
     (if \<not> hasSession (cookieJar c) then (False, c)
      else case wsConnect (socketUrl cfg) (socket c) of (ok, w) \<Rightarrow> (ok, c\<lparr>socket := w\<rparr>))"

definition clientSend :: "(JsonLibrary \<Rightarrow> string) \<Rightarrow> 'n LobbyClientConfig \<Rightarrow> 'n LobbyClient \<Rightarrow> bool \<times> 'n LobbyClient" where
  "clientSend message cfg c =
     (case sendText (message (json (api cfg))) (socket c) of (ok, w) \<Rightarrow> (ok, c\<lparr>socket := w\<rparr>))"

definition clientPoll :: "'n LobbyClientConfig \<Rightarrow> 'n LobbyClient \<Rightarrow> envelope option \<times> 'n LobbyClient" where
  "clientPoll cfg c =
     (case pollSocket (socket c) of (e, w) \<Rightarrow>
        (case e of
           None \<Rightarrow> None
         | Some ev \<Rightarrow>
             (if eventKind ev \<noteq> WsText then Some (TransportEvent (eventKind ev))
              else case parse (json (api cfg)) (eventText ev) of
                (Some p, _) \<Rightarrow> Some (ProtocolEvent p) | (None, why) \<Rightarrow> Some (ParseError why)),
         c\<lparr>socket := w\<rparr>))"

text \<open>The transport: every operation of the interface is the client's.\<close>

definition lobbyTransport :: "'n LobbyClientConfig \<Rightarrow> 'n LobbyClient LobbyTransport" where
  "lobbyTransport cfg = \<lparr>
     tp_registerUser = clientRegister cfg, tp_login = clientLogin cfg, tp_logout = clientLogout cfg,
     tp_matchHistory = clientHistory cfg, tp_connectRealtime = connectRealtime cfg,
     tp_connectionState = (\<lambda>c. connState (socket c)),
     tp_subscribeLobby = clientSend subscribeLobby cfg, tp_requestLobby = clientSend getLobby cfg,
     tp_createRoom = (\<lambda>name hidden. clientSend (\<lambda>jl. createRoom jl name hidden) cfg),
     tp_joinPublicRoom = (\<lambda>i. clientSend (\<lambda>jl. joinRoom jl i) cfg),
     tp_joinHiddenRoom = (\<lambda>code. clientSend (\<lambda>jl. joinHiddenRoom jl code) cfg),
     tp_watchRoom = (\<lambda>i. clientSend (\<lambda>jl. watchGame jl i) cfg),
     tp_leaveSpectator = (\<lambda>i. clientSend (\<lambda>jl. leaveSpectator jl i) cfg),
     tp_findMatch = clientSend findMatch cfg, tp_cancelFindMatch = clientSend cancelFindMatch cfg,
     tp_sendMove = (\<lambda>i n s d. clientSend (\<lambda>jl. moveRequest jl i n s d) cfg),
     tp_sendJump = (\<lambda>i n p. clientSend (\<lambda>jl. jumpRequest jl i n p) cfg),
     tp_pollEvent = clientPoll cfg\<rparr>"

end
