(* ===== verification/Lobby_Properties.thy ===== *)
theory Lobby_Properties
  imports Lobby_Controller
begin

text \<open>
  Properties of the lobby: what a player can enter stays bounded, the shown match follows the newest
  revision, and two places where the view loses track of what is under way.
\<close>

section \<open>Steps of the controller\<close>

text \<open>Between the steps of the controller the network goes on by itself, in any way.\<close>

inductive lobbyStep :: "'t LobbyTransport \<Rightarrow> LobbyController \<times> 't \<Rightarrow> LobbyController \<times> 't \<Rightarrow> bool" for tp where
  key: "lobbyStep tp (c, t) (inputCharacter ch c, t)"
| erased: "lobbyStep tp (c, t) (backspace c, t)"
| acted: "handle tp action value s = Some s' \<Longrightarrow> lobbyStep tp s s'"
| ticked: "tick tp outcome s = Some s' \<Longrightarrow> lobbyStep tp s s'"
| clicked: "lobbyStep tp s (gameBoardClick tp p s)"
| jumped: "lobbyStep tp s (gameBoardJump tp p s)"
| network: "lobbyStep tp (c, t) (c, t')"

text \<open>
  An invariant of the controller that every change keeps: of the texts of the player by keys and
  actions, of the rest by whatever arrives. \<open>E\<close> is what is known of the events of the transport.
\<close>

locale lobby_invariant =
  fixes tp :: "'t LobbyTransport" and E :: "LobbyEvent \<Rightarrow> bool" and P :: "LobbyController \<Rightarrow> bool"
  assumes keys: "P c \<Longrightarrow> P (inputCharacter ch c)" "P c \<Longrightarrow> P (backspace c)"
    and actions: "P c \<Longrightarrow> handle tp action value (c, t) = Some (c', t') \<Longrightarrow> P c'"
    and passwords: "P c \<Longrightarrow> P (clearPasswords c)"
    and task: "P c \<Longrightarrow> P (c\<lparr>authenticationTask := x\<rparr>)"
    and views: "P c \<Longrightarrow> P (onView (authenticationFailed m) c)" "P c \<Longrightarrow> P (onView (authenticationSucceeded m) c)"
      "P c \<Longrightarrow> P (onView (\<lambda>v. v\<lparr>passwordLength := 0, confirmPasswordLength := 0\<rparr>) c)"
      "P c \<Longrightarrow> P (onView (setConnectionState st) c)" "P c \<Longrightarrow> P (onView (showError m) c)"
      "P c \<Longrightarrow> P (onView resetForLogout c)"
    and events: "P c \<Longrightarrow> E e \<Longrightarrow> P (onView (applyEvent e) c)"
    and polled: "fst (tp_pollEvent tp t) = Some (ProtocolEvent e) \<Longrightarrow> E e"
    and board: "P c \<Longrightarrow> matchView (lobbyView c) = Some shown \<Longrightarrow> spectator mt = spectator shown \<Longrightarrow>
        mv_snapshot mt = mv_snapshot shown \<Longrightarrow> P (onShownMatch mt c)"
begin

lemma transport_event: "P c \<Longrightarrow> P (applyTransportEvent k c)"
  by (simp add: applyTransportEvent_def views)

lemma consumed: "P c \<Longrightarrow> (\<And>ev. e = ProtocolEvent ev \<Longrightarrow> E ev) \<Longrightarrow> P (fst (consumeEvent tp e (c, t)))"
  by (auto simp: consumeEvent_def Let_def views events transport_event split: envelope.split LobbyEvent.split prod.split)

lemma consumes:
  assumes "consumeNetworkEvents tp s = Some s'"
  shows "P (fst s) \<longrightarrow> P (fst s')"
proof -
  have "tp = tp \<longrightarrow> P (fst s) \<longrightarrow> P (fst s')"
  proof (rule consumeNetworkEvents.raw_induct [where P = "\<lambda>x s s'. x = tp \<longrightarrow> P (fst s) \<longrightarrow> P (fst s')", OF _ assms])
    fix f :: "'t LobbyTransport \<Rightarrow> LobbyController \<times> 't \<Rightarrow> (LobbyController \<times> 't) option" and x s s'
    assume ih: "\<And>x s s'. f x s = Some s' \<Longrightarrow> x = tp \<longrightarrow> P (fst s) \<longrightarrow> P (fst s')"
      and body: "(case fst (tp_pollEvent x (snd s)) of None \<Rightarrow> Some (fst s, snd (tp_pollEvent x (snd s)))
        | Some e \<Rightarrow> f x (consumeEvent x e (fst s, snd (tp_pollEvent x (snd s))))) = Some s'"
    show "x = tp \<longrightarrow> P (fst s) \<longrightarrow> P (fst s')"
    proof (cases "fst (tp_pollEvent x (snd s))")
      case None
      then show ?thesis using body by auto
    next
      case (Some e)
      then have "x = tp \<longrightarrow> P (fst (consumeEvent x e (fst s, snd (tp_pollEvent x (snd s))))) \<longrightarrow> P (fst s')"
        using ih body by simp
      moreover have "E ev" if "x = tp" "e = ProtocolEvent ev" for ev using polled Some that by metis
      ultimately show ?thesis using consumed [of "fst s" e "snd (tp_pollEvent x (snd s))"] by metis
    qed
  qed
  then show ?thesis by simp
qed

lemma finishes: "P c \<Longrightarrow> P (fst (finishAuthentication tp r (c, t)))"
  by (auto simp: finishAuthentication_def Let_def passwords views split: prod.split)

lemma ticks:
  assumes "P c" "tick tp outcome (c, t) = Some s'"
  shows "P (fst s')"
proof -
  obtain c1 t1 where made: "(if authenticationTask c \<noteq> None
         then (case outcome of None \<Rightarrow> (c, t) | Some r \<Rightarrow> finishAuthentication tp r (c\<lparr>authenticationTask := None\<rparr>, t))
         else (c, t)) = (c1, t1)" by fastforce
  then have "P c1"
    using assms(1) finishes [OF task [of c None], of _ t] by (auto split: if_splits option.splits) (metis fst_conv)
  then have "P (onView (setConnectionState (tp_connectionState tp t1)) c1)" by (rule views(4))
  moreover have "consumeNetworkEvents tp (onView (setConnectionState (tp_connectionState tp t1)) c1, t1) = Some s'"
    using assms(2) made by (simp add: tick_def)
  ultimately show ?thesis using consumes by fastforce
qed

lemma board_actions: "P c \<Longrightarrow> P (fst (gameBoardClick tp p (c, t)))" "P c \<Longrightarrow> P (fst (gameBoardJump tp p (c, t)))"
  by (auto simp: gameBoardClick_def gameBoardJump_def playableMatch_def Let_def
      split: option.split prod.split if_splits intro!: board)

lemma step: "lobbyStep tp s s' \<Longrightarrow> P (fst s) \<Longrightarrow> P (fst s')"
proof (induction rule: lobbyStep.induct)
  case (acted act val s s')
  then have "handle tp act val (fst s, snd s) = Some (fst s', snd s')" by simp
  with acted(2) show ?case by (rule actions)
next
  case (ticked outcome s s')
  then show ?case using ticks by (cases s) simp
next
  case (clicked s p)
  then show ?case using board_actions(1) by (cases s) simp
next
  case (jumped s p)
  then show ?case using board_actions(2) by (cases s) simp
qed (simp_all add: keys)

lemma run: "(lobbyStep tp)\<^sup>*\<^sup>* s s' \<Longrightarrow> P (fst s) \<Longrightarrow> P (fst s')"
  by (induction rule: rtranclp_induct) (blast intro: step)+

end

section \<open>What a player can enter\<close>

definition codeChar :: "char \<Rightarrow> bool" where
  "codeChar c \<longleftrightarrow> isalnum c \<and> toupper c = c"

definition viewInputsOk :: "LobbyViewModel \<Rightarrow> bool" where
  "viewInputsOk v \<longleftrightarrow> length (roomNameInput v) \<le> 40 \<and> length (hiddenRoomCodeInput v) \<le> 6 \<and>
     list_all codeChar (hiddenRoomCodeInput v) \<and> 0 \<le> waitingPage v \<and> 0 \<le> activePage v"

definition inputsOk :: "LobbyController \<Rightarrow> bool" where
  "inputsOk c \<longleftrightarrow> length (passwordText c) \<le> 128 \<and> length (confirmPassword c) \<le> 128 \<and> viewInputsOk (lobbyView c)"

lemma toupper_idem [simp]: "toupper (toupper c) = toupper c"
  by (auto simp: toupper_def)

lemma inputsOk_onView: "(\<And>v. viewInputsOk v \<Longrightarrow> viewInputsOk (f v)) \<Longrightarrow> inputsOk c \<Longrightarrow> inputsOk (onView f c)"
  by (simp add: inputsOk_def onView_def)

lemma viewInputs_views:
  "viewInputsOk v \<Longrightarrow> viewInputsOk (authenticationFailed m v)"
  "viewInputsOk v \<Longrightarrow> viewInputsOk (authenticationSucceeded m v)"
  "viewInputsOk v \<Longrightarrow> viewInputsOk (beginAuthenticationView a v)"
  "viewInputsOk v \<Longrightarrow> viewInputsOk (setConnectionState st v)"
  "viewInputsOk v \<Longrightarrow> viewInputsOk (showError m v)"
  "viewInputsOk (resetForLogout v)"
  by (simp_all add: viewInputsOk_def authenticationFailed_def authenticationSucceeded_def beginAuthenticationView_def
    setConnectionState_def showError_def resetForLogout_def newLobbyView_def Let_def)

lemma viewInputs_event: "viewInputsOk v \<Longrightarrow> viewInputsOk (applyEvent e v)"
  by (cases e) (auto simp: viewInputsOk_def onMatch_def Let_def split: option.split)

lemma inputs_key: "inputsOk c \<Longrightarrow> inputsOk (inputCharacter ch c)"
  by (auto simp: inputCharacter_def inputsOk_def viewInputsOk_def onView_def showError_def codeChar_def Let_def)

lemma inputs_backspace: "inputsOk c \<Longrightarrow> inputsOk (backspace c)"
  by (auto simp: backspace_def inputsOk_def viewInputsOk_def onView_def Let_def list_all_iff dest: in_set_butlastD)

lemma inputs_authentication: "inputsOk c \<Longrightarrow> inputsOk (beginAuthentication b c)"
  by (auto simp: beginAuthentication_def inputsOk_def onView_def viewInputs_views)

lemma inputs_roomAction: "inputsOk c \<Longrightarrow> inputsOk (fst (roomAction a i f m (c, t)))"
  by (auto simp: roomAction_def beginRoomAction_def inputsOk_def onView_def viewInputsOk_def showError_def split: prod.split)

lemma nextPage_nonneg: "nextPage val page = Some n \<Longrightarrow> 0 \<le> page \<Longrightarrow> 0 \<le> n"
  by (auto simp: nextPage_def)

lemma inputs_toggle: "inputsOk c \<Longrightarrow> inputsOk (toggleAuthMode c)"
  by (simp add: toggleAuthMode_def inputsOk_def onView_def viewInputsOk_def Let_def)

lemma inputs_register: "inputsOk c \<Longrightarrow> inputsOk (registerAction c)"
  by (simp add: registerAction_def inputs_authentication inputsOk_onView viewInputs_views)

lemma inputs_page:
  assumes "inputsOk c" "(if val = [] then Some (c, t) else map_option (\<lambda>p. (onView (f p) c, t)) (nextPage val page)) = Some (c', t')"
    and "0 \<le> page" "\<And>p v. 0 \<le> p \<Longrightarrow> viewInputsOk v \<Longrightarrow> viewInputsOk (f p v)"
  shows "inputsOk c'"
proof (cases "val = []")
  case False
  then obtain n where n: "nextPage val page = Some n" "c' = onView (f n) c" using assms(2) by auto
  then show ?thesis using nextPage_nonneg [OF n(1) assms(3)] assms(1,4) by (auto intro: inputsOk_onView)
qed (use assms in auto)

lemma inputs_edit: "Some (onView f c, t) = Some (c', t') \<Longrightarrow> inputsOk c \<Longrightarrow> (\<And>v. viewInputsOk v \<Longrightarrow> viewInputsOk (f v)) \<Longrightarrow> inputsOk c'"
  by (auto intro: inputsOk_onView)

lemma inputs_roomSent: "inputsOk c \<Longrightarrow> roomAction a i f m (c, t) = (c', t') \<Longrightarrow> inputsOk c'"
  by (metis fst_conv inputs_roomAction)

lemma inputs_handle_room:
  assumes "inputsOk c" "action \<in> {SubmitCreateRoom, SubmitHiddenCode, JoinPublicRoom, WatchRoom, FindMatch}"
    and "handle tp action val (c, t) = Some (c', t')"
  shows "inputsOk c'"
proof -
  have e: "inputsOk (onView (showError m) c)" for m
    using assms(1) by (auto intro: inputsOk_onView viewInputs_views)
  from assms(2) consider "action = SubmitCreateRoom" | "action = SubmitHiddenCode" | "action = JoinPublicRoom"
    | "action = WatchRoom" | "action = FindMatch" by blast
  then show ?thesis
    using assms(3)
    by cases (auto simp: handle_def Let_def e split: if_split_asm dest: inputs_roomSent [OF assms(1)])
qed

lemma inputs_handle_edit:
  assumes "inputsOk c" "action \<notin> {SubmitCreateRoom, SubmitHiddenCode, JoinPublicRoom, WatchRoom, FindMatch}"
    and "action \<notin> {NextWaitingPage, NextActivePage}" "action \<notin> {ToggleAuthMode, LoginAction, RegisterAction}"
    and "handle tp action val (c, t) = Some (c', t')"
  shows "inputsOk c'"
  using assms
  by (cases action)
    (auto simp: handle_def Let_def viewInputs_views clearPasswords_def resetForLogout_def newLobbyView_def inputsOk_def onView_def viewInputsOk_def
      split: if_split_asm prod.split_asm)

lemma inputs_handle:
  assumes "inputsOk c" "handle tp action val (c, t) = Some (c', t')"
  shows "inputsOk c'"
proof (cases "action \<in> {NextWaitingPage, NextActivePage}")
  case True
  have pages: "0 \<le> waitingPage (lobbyView c)" "0 \<le> activePage (lobbyView c)"
    using assms(1) by (simp_all add: inputsOk_def viewInputsOk_def)
  from True consider "action = NextWaitingPage" | "action = NextActivePage" by blast
  then show ?thesis
  proof cases
    case 1
    with assms(2) have "(if val = [] then Some (c, t)
        else map_option (\<lambda>p. (onView (\<lambda>v. v\<lparr>waitingPage := p\<rparr>) c, t)) (nextPage val (waitingPage (lobbyView c)))) = Some (c', t')"
      by (simp add: handle_def)
    from inputs_page [OF assms(1) this pages(1)] show ?thesis by (simp add: viewInputsOk_def)
  next
    case 2
    with assms(2) have "(if val = [] then Some (c, t)
        else map_option (\<lambda>p. (onView (\<lambda>v. v\<lparr>activePage := p\<rparr>) c, t)) (nextPage val (activePage (lobbyView c)))) = Some (c', t')"
      by (simp add: handle_def)
    from inputs_page [OF assms(1) this pages(2)] show ?thesis by (simp add: viewInputsOk_def)
  qed
next
  case False
  show ?thesis
  proof (cases "action \<in> {SubmitCreateRoom, SubmitHiddenCode, JoinPublicRoom, WatchRoom, FindMatch}")
    case True
    then show ?thesis using inputs_handle_room [OF assms(1) _ assms(2)] by blast
  next
    case other: False
    show ?thesis
    proof (cases "action \<in> {ToggleAuthMode, LoginAction, RegisterAction}")
      case True
      then show ?thesis using assms
        by (auto simp: handle_def Let_def inputs_toggle inputs_authentication inputs_register)
    next
      case third: False
      show ?thesis using inputs_handle_edit [OF assms(1) other False third assms(2)] .
    qed
  qed
qed

lemma inputs_passwords: "inputsOk c \<Longrightarrow> inputsOk (clearPasswords c)"
  by (simp add: clearPasswords_def inputsOk_def)

lemma inputs_task: "inputsOk c \<Longrightarrow> inputsOk (c\<lparr>authenticationTask := x\<rparr>)"
  by (simp add: inputsOk_def)

lemma viewInputs_updates:
  "viewInputsOk v \<Longrightarrow> viewInputsOk (v\<lparr>passwordLength := a, confirmPasswordLength := b\<rparr>)"
  "viewInputsOk v \<Longrightarrow> viewInputsOk (v\<lparr>matchView := m\<rparr>)"
  by (simp_all add: viewInputsOk_def)

interpretation lobby_inputs: lobby_invariant tp "\<lambda>_. True" inputsOk for tp :: "'t LobbyTransport"
proof
  show "inputsOk c'" if "inputsOk c" "handle tp action val (c, t) = Some (c', t')" for c action val t c' t'
    using that by (rule inputs_handle)
  show "inputsOk (onView (applyEvent e) c)" if "inputsOk c" for c e
    using inputsOk_onView [OF viewInputs_event that] .
qed (simp_all add: inputs_key inputs_backspace inputs_passwords inputs_task onShownMatch_def
  inputsOk_onView viewInputs_views viewInputs_updates)

text \<open>In every run of the lobby, whatever the player types and clicks and whatever the network
  sends, the password fields hold at most 128 characters, the room name at most 40 bytes, the room
  code at most six capital letters and digits, and no page number is negative.
\<close>

theorem lobby_inputs_bounded:
  assumes "(lobbyStep tp)\<^sup>*\<^sup>* (newLobbyController, t) (c, t')"
  shows "length (passwordText c) \<le> 128 \<and> length (confirmPassword c) \<le> 128 \<and>
    length (roomNameInput (lobbyView c)) \<le> 40 \<and>
    length (hiddenRoomCodeInput (lobbyView c)) \<le> 6 \<and> list_all codeChar (hiddenRoomCodeInput (lobbyView c)) \<and>
    0 \<le> waitingPage (lobbyView c) \<and> 0 \<le> activePage (lobbyView c)"
proof -
  have "inputsOk newLobbyController"
    by (simp add: inputsOk_def viewInputsOk_def newLobbyController_def newLobbyView_def)
  then have "inputsOk c" using lobby_inputs.run [OF assms] by simp
  then show ?thesis by (simp add: inputsOk_def viewInputsOk_def)
qed

section \<open>Every screen has the data it shows\<close>

definition screenHasData :: "LobbyViewModel \<Rightarrow> bool" where
  "screenHasData v \<longleftrightarrow>
     (screen v = GameScreen \<longrightarrow> map_option spectator (matchView v) = Some False) \<and>
     (screen v = SpectatorGame \<longrightarrow> map_option spectator (matchView v) = Some True) \<and>
     (screen v = SpectatorPlaceholder \<longrightarrow> spectatorView v \<noteq> None) \<and>
     (screen v = RoomReady \<longrightarrow> roomReady v \<noteq> None)"

abbreviation (input) shownOk :: "LobbyController \<Rightarrow> bool" where
  "shownOk c \<equiv> screenHasData (lobbyView c)"

lemma screenHasData_other:
  "screen v \<notin> {GameScreen, SpectatorGame, SpectatorPlaceholder, RoomReady} \<Longrightarrow> screenHasData v"
  by (auto simp: screenHasData_def)

lemma screenHasData_updates [simp]:
  "screenHasData (v\<lparr>modal := x0\<rparr>) = screenHasData v"
  "screenHasData (v\<lparr>focusedField := x1\<rparr>) = screenHasData v"
  "screenHasData (v\<lparr>authMode := x2\<rparr>) = screenHasData v"
  "screenHasData (v\<lparr>pendingAction := x3\<rparr>) = screenHasData v"
  "screenHasData (v\<lparr>wsState := x4\<rparr>) = screenHasData v"
  "screenHasData (v\<lparr>usernameInput := x5\<rparr>) = screenHasData v"
  "screenHasData (v\<lparr>passwordLength := x6\<rparr>) = screenHasData v"
  "screenHasData (v\<lparr>confirmPasswordLength := x7\<rparr>) = screenHasData v"
  "screenHasData (v\<lparr>visibleError := x8\<rparr>) = screenHasData v"
  "screenHasData (v\<lparr>roomNameInput := x9\<rparr>) = screenHasData v"
  "screenHasData (v\<lparr>selectedRoomVisibility := x10\<rparr>) = screenHasData v"
  "screenHasData (v\<lparr>hiddenRoomCodeInput := x11\<rparr>) = screenHasData v"
  "screenHasData (v\<lparr>pendingRoomId := x12\<rparr>) = screenHasData v"
  "screenHasData (v\<lparr>waitingPage := x13\<rparr>) = screenHasData v"
  "screenHasData (v\<lparr>activePage := x14\<rparr>) = screenHasData v"
  by (simp_all add: screenHasData_def)

lemma onMatch_same [simp]:
  "screen (onMatch i f v) = screen v" "spectatorView (onMatch i f v) = spectatorView v"
  "roomReady (onMatch i f v) = roomReady v"
  by (auto simp: onMatch_def split: option.split)

lemma onMatch_spectator: "(\<And>m. spectator (f m) = spectator m) \<Longrightarrow>
  map_option spectator (matchView (onMatch i f v)) = map_option spectator (matchView v)"
  by (auto simp: onMatch_def split: option.split)

lemma screenHasData_onMatch:
  assumes "screenHasData v" "\<And>m. spectator (f m) = spectator m"
  shows "screenHasData (onMatch i f v)"
  using assms(1) by (simp add: screenHasData_def onMatch_spectator [of f, OF assms(2)])

lemma shown_event: "screenHasData v \<Longrightarrow> screenHasData (applyEvent e v)"
  by (cases e) (auto simp: screenHasData_def Let_def onMatch_spectator split: option.split)

lemma shown_views:
  "screenHasData (authenticationFailed m v)" "screenHasData (authenticationSucceeded m v)"
  "screenHasData v \<Longrightarrow> screenHasData (beginAuthenticationView a v)"
  "screenHasData v \<Longrightarrow> screenHasData (setConnectionState st v)"
  "screenHasData (showError m v) = screenHasData v"
  "screenHasData (resetForLogout v)"
  by (simp_all add: screenHasData_def authenticationFailed_def authenticationSucceeded_def beginAuthenticationView_def
    setConnectionState_def showError_def resetForLogout_def newLobbyView_def Let_def)

lemma shown_key: "shownOk c \<Longrightarrow> shownOk (inputCharacter ch c)"
  by (auto simp: inputCharacter_def onView_def showError_def Let_def)

lemma shown_backspace: "shownOk c \<Longrightarrow> shownOk (backspace c)"
  by (auto simp: backspace_def onView_def Let_def)

lemma shown_authentication: "shownOk c \<Longrightarrow> shownOk (beginAuthentication b c)"
  by (auto simp: beginAuthentication_def onView_def shown_views)

lemma shown_register: "shownOk c \<Longrightarrow> shownOk (registerAction c)"
  by (simp add: registerAction_def shown_authentication onView_def shown_views)

lemma shown_toggle: "shownOk c \<Longrightarrow> shownOk (toggleAuthMode c)"
  by (auto simp: toggleAuthMode_def onView_def Let_def)

lemma shown_roomAction: "shownOk c \<Longrightarrow> roomAction a i f m (c, t) = (c', t') \<Longrightarrow> shownOk c'"
  by (auto simp: roomAction_def beginRoomAction_def onView_def shown_views
    split: prod.splits if_splits)

lemma shown_handle:
  assumes "shownOk c" "handle tp action val (c, t) = Some (c', t')"
  shows "shownOk c'"
  using assms
  by (cases action)
    (auto simp: handle_def Let_def shown_authentication shown_register shown_toggle onView_def shown_views
      clearPasswords_def screenHasData_other networkActionsEnabled_def
      split: if_split_asm prod.split_asm dest: shown_roomAction)

interpretation lobby_shown: lobby_invariant tp "\<lambda>_. True" shownOk for tp :: "'t LobbyTransport"
proof
  show "shownOk c'" if "shownOk c" "handle tp action val (c, t) = Some (c', t')" for c action val t c' t'
    using that by (rule shown_handle)
  show "shownOk (onView (\<lambda>v. v\<lparr>passwordLength := 0, confirmPasswordLength := 0\<rparr>) c)" if "shownOk c" for c
    using that by (auto simp: onView_def)
  show "shownOk (onShownMatch mt c)"
    if "shownOk c" "matchView (lobbyView c) = Some m" "spectator mt = spectator m" for c m mt
    using that by (simp add: onShownMatch_def onView_def screenHasData_def)
qed (simp_all add: shown_key shown_backspace clearPasswords_def onView_def shown_views shown_event)

text \<open>In every run of the lobby each screen has the data it draws: the game screen a match the
  player plays, the spectator screens a match that is watched or the room to be watched, and the
  ready screen the room that is ready.
\<close>

theorem screens_have_their_data:
  assumes "(lobbyStep tp)\<^sup>*\<^sup>* (newLobbyController, t) (c, t')"
  shows "screenHasData (lobbyView c)"
proof (rule lobby_shown.run [OF assms, simplified])
  show "screenHasData (lobbyView newLobbyController)"
    by (simp add: screenHasData_def newLobbyController_def newLobbyView_def)
qed

section \<open>A concrete network\<close>

text \<open>For the witnesses: a network that accepts every request and delivers the given events.\<close>

definition scripted :: "LobbyEvent list LobbyTransport" where
  "scripted = \<lparr>
     tp_registerUser = \<lambda>n p es. (newAuthResult\<lparr>authKind := AuthSuccess, authUser := Some \<lparr>au_id = [], au_username = n, au_createdAt = []\<rparr>\<rparr>, es),
     tp_login = \<lambda>n p es. (newAuthResult\<lparr>authKind := AuthSuccess, authUser := Some \<lparr>au_id = [], au_username = n, au_createdAt = []\<rparr>\<rparr>, es),
     tp_logout = \<lambda>es. (newAuthResult, es),
     tp_matchHistory = \<lambda>es. (\<lparr>mh_succeeded = True, mh_entries = [], mh_message = []\<rparr>, es),
     tp_connectRealtime = \<lambda>es. (True, es), tp_connectionState = \<lambda>es. WsConnected,
     tp_subscribeLobby = \<lambda>es. (True, es), tp_requestLobby = \<lambda>es. (True, es),
     tp_createRoom = \<lambda>n b es. (True, es), tp_joinPublicRoom = \<lambda>i es. (True, es),
     tp_joinHiddenRoom = \<lambda>i es. (True, es), tp_watchRoom = \<lambda>i es. (True, es),
     tp_leaveSpectator = \<lambda>i es. (True, es), tp_findMatch = \<lambda>es. (True, es),
     tp_cancelFindMatch = \<lambda>es. (True, es), tp_sendMove = \<lambda>i n a b es. (True, es),
     tp_sendJump = \<lambda>i n a es. (True, es),
     tp_pollEvent = \<lambda>es. case es of [] \<Rightarrow> (None, []) | e # es' \<Rightarrow> (Some (ProtocolEvent e), es')\<rparr>"

definition readyEvent :: LobbyEvent where
  "readyEvent = MatchReadyEvent ''7'' ''white'' ''bo'' 3 newSnapshot [] 1200 1200"

definition afterReady :: LobbyController where
  "afterReady = fst (the (tick scripted None (newLobbyController, [readyEvent])))"

lemma ready_step: "lobbyStep scripted (newLobbyController, [readyEvent]) (afterReady, [])"
  and ready_screen: "screen (lobbyView afterReady) = GameScreen"
proof -
  have t: "tick scripted None (newLobbyController, [readyEvent]) = Some (afterReady, [])"
    unfolding afterReady_def tick_def
    by (subst (1 2) consumeNetworkEvents.simps, subst (1 2) consumeNetworkEvents.simps)
      (simp add: newLobbyController_def scripted_def consumeEvent_def readyEvent_def)
  show "lobbyStep scripted (newLobbyController, [readyEvent]) (afterReady, [])" by (rule lobbyStep.ticked [OF t])
  show "screen (lobbyView afterReady) = GameScreen"
    unfolding afterReady_def tick_def
    by (subst consumeNetworkEvents.simps, subst consumeNetworkEvents.simps)
      (simp add: newLobbyController_def scripted_def consumeEvent_def readyEvent_def onView_def)
qed

theorem lobby_inputs_bounded_witness:
  "(lobbyStep scripted)\<^sup>*\<^sup>* (newLobbyController, [readyEvent]) (afterReady, []) \<and>
   length (passwordText afterReady) \<le> 128"
  using lobby_inputs_bounded [OF r_into_rtranclp, OF ready_step] ready_step by blast

theorem screens_have_their_data_witness:
  "screen (lobbyView afterReady) = GameScreen \<and> screenHasData (lobbyView afterReady)"
  using screens_have_their_data [OF r_into_rtranclp, OF ready_step] ready_screen by blast

section \<open>Where the view loses track\<close>

text \<open>
  A login refused because the name or the password is too short empties the password field that
  is shown, but not the password behind it. The player, who sees an empty field and types the
  password again, has it appended to the old one.
\<close>

theorem hidden_password_kept:
  assumes "screen (lobbyView c) = AuthenticationScreen" "authMode (lobbyView c) = LoginMode"
    and "pendingAction (lobbyView c) = NothingPending" "authenticationTask c = None"
    and "focusedField (lobbyView c) = PasswordField"
    and "length (usernameInput (lobbyView c)) < 3 \<or> length (passwordText c) < 10"
    and "length (passwordText c) < 128" "isprint ch"
  shows "\<exists>c1. handle tp LoginAction val (c, t) = Some (c1, t) \<and> passwordLength (lobbyView c1) = 0 \<and>
     passwordText (inputCharacter ch c1) = passwordText c @ [ch]"
proof -
  have "handle tp LoginAction val (c, t) =
      Some (onView (authenticationFailed ''Enter a valid username and a password of at least 10 characters.'') c, t)"
    using assms(3,4,6) by (auto simp: handle_def beginAuthentication_def)
  then show ?thesis using assms(1,2,5,7,8)
    by (simp add: inputCharacter_def onView_def authenticationFailed_def)
qed

definition shortLogin :: LobbyController where
  "shortLogin = newLobbyController
     \<lparr>lobbyView := newLobbyView\<lparr>usernameInput := ''ann'', focusedField := PasswordField, passwordLength := 4\<rparr>,
      passwordText := ''hush''\<rparr>"

theorem hidden_password_kept_witness:
  "\<exists>c1. handle scripted LoginAction [] (shortLogin, []) = Some (c1, []) \<and> passwordLength (lobbyView c1) = 0 \<and>
     passwordText (inputCharacter CHR ''h'' c1) = ''hushh''"
  using hidden_password_kept [of shortLogin "CHR ''h''" scripted "[]" "[]"]
  by (simp add: shortLogin_def newLobbyController_def newLobbyView_def isprint_def)

text \<open>
  While a registration is under way the socket is still closed, and every tick takes that as a reason
  to clear the pending action. A refusal that arrives after the first tick is therefore explained as
  if the player had tried to sign in.
\<close>

lemma registration_is_forgotten:
  assumes "authenticationTask c \<noteq> None" "tp_connectionState tp t = WsDisconnected" "tp_pollEvent tp t = (None, t)"
    and "tick tp None (c, t) = Some (c1, t1)" "authKind r = ValidationError"
  shows "visibleError (lobbyView (fst (finishAuthentication tp r (c1, t1)))) = ''Check the username and password format.''"
proof -
  have "pendingAction (lobbyView c1) = NothingPending"
    using assms(1-4) by (auto simp: tick_def consumeNetworkEvents.simps onView_def setConnectionState_def Let_def)
  then show ?thesis using assms(5)
    by (simp add: finishAuthentication_def Let_def onView_def succeeded_def authErrorMessage_def authenticationFailed_def)
qed

text \<open>An update of the lobby makes the client forget that it searches for an opponent: nothing is
  pending any more, the button that would cancel the search does nothing, although the gateway goes
  on searching, and a second search can be started. Joining and watching are not forgotten.
\<close>

theorem lobby_update_forgets_the_search:
  assumes "pendingAction (lobbyView c) = PendingFindMatch" "screen (lobbyView c) = LobbyScreen"
    and "wsState (lobbyView c) = WsConnected"
  shows "\<exists>c1. consumeEvent tp (ProtocolEvent (LobbySnapshotEvent waiting active)) (c, t) = (c1, t) \<and>
     handle tp CancelFindMatch val (c1, t) = Some (c1, t) \<and> networkActionsEnabled (lobbyView c1)"
  using assms by (simp add: consumeEvent_def onView_def handle_def networkActionsEnabled_def)

definition searching :: LobbyController where
  "searching = newLobbyController\<lparr>lobbyView := newLobbyView
     \<lparr>screen := LobbyScreen, wsState := WsConnected, pendingAction := PendingFindMatch\<rparr>\<rparr>"

theorem lobby_update_forgets_the_search_witness:
  "\<exists>c1. consumeEvent scripted (ProtocolEvent (LobbySnapshotEvent [] [])) (searching, []) = (c1, []) \<and>
     handle scripted CancelFindMatch [] (c1, []) = Some (c1, []) \<and> networkActionsEnabled (lobbyView c1)"
  using lobby_update_forgets_the_search [of searching scripted "[]" "[]" "[]" "[]"]
  by (simp add: searching_def)

section \<open>The newest state of a match\<close>

definition stateUpdates :: "string \<Rightarrow> (64 word \<times> GameStateSnapshot) list \<Rightarrow> LobbyViewModel \<Rightarrow> LobbyViewModel" where
  "stateUpdates i us v = fold (\<lambda>(n, s). applyEvent (MatchStateEvent i n s)) us v"

lemma stateUpdates_newest:
  assumes "matchView v = Some m" "mv_roomId m = i"
  shows "\<exists>n s. stateUpdates i us v = v\<lparr>matchView := Some (m\<lparr>revision := n, mv_snapshot := s\<rparr>)\<rparr> \<and>
     (n, s) \<in> insert (revision m, mv_snapshot m) (set us) \<and> (\<forall>(k, x) \<in> insert (revision m, mv_snapshot m) (set us). k \<le> n)"
  using assms
proof (induction us arbitrary: v m)
  case Nil
  then show ?case by (simp add: stateUpdates_def)
next
  case (Cons u us)
  obtain k x where u: "u = (k, x)" by fastforce
  define m1 where "m1 = (if k > revision m then m\<lparr>revision := k, mv_snapshot := x\<rparr> else m)"
  have run: "stateUpdates i (u # us) v = stateUpdates i us (v\<lparr>matchView := Some m1\<rparr>)"
    using Cons.prems by (simp add: stateUpdates_def u onMatch_def m1_def)
  have shown: "matchView (v\<lparr>matchView := Some m1\<rparr>) = Some m1" by simp
  have room: "mv_roomId m1 = i" using Cons.prems by (simp add: m1_def)
  obtain n s where ns: "stateUpdates i us (v\<lparr>matchView := Some m1\<rparr>) =
      v\<lparr>matchView := Some m1\<rparr>\<lparr>matchView := Some (m1\<lparr>revision := n, mv_snapshot := s\<rparr>)\<rparr>"
    "(n, s) \<in> insert (revision m1, mv_snapshot m1) (set us)"
    "\<forall>(k, x) \<in> insert (revision m1, mv_snapshot m1) (set us). k \<le> n"
    using Cons.IH [OF shown room] by blast
  then show ?case unfolding run
    by (intro exI [of _ n] exI [of _ s]) (cases "revision m < k"; auto simp: m1_def u)
qed

text \<open>Whatever the order in which the updates of a running match arrive, the match ends up with the
  greatest revision among them and the one it had, with the snapshot of that revision, and nothing
  else of the view changes.
\<close>

theorem match_shows_newest_revision:
  assumes "matchView v = Some m" "mv_roomId m = i"
  shows "\<exists>n s. stateUpdates i us v = v\<lparr>matchView := Some (m\<lparr>revision := n, mv_snapshot := s\<rparr>)\<rparr> \<and>
     (n, s) \<in> insert (revision m, mv_snapshot m) (set us) \<and>
     n = Max (fst ` insert (revision m, mv_snapshot m) (set us))"
proof -
  obtain n s where ns: "stateUpdates i us v = v\<lparr>matchView := Some (m\<lparr>revision := n, mv_snapshot := s\<rparr>)\<rparr>"
     "(n, s) \<in> insert (revision m, mv_snapshot m) (set us)"
     "\<forall>(k, x) \<in> insert (revision m, mv_snapshot m) (set us). k \<le> n"
    using stateUpdates_newest [OF assms] by blast
  then have "Max (fst ` insert (revision m, mv_snapshot m) (set us)) = n"
    by (intro Max_eqI) (auto simp: image_iff, force)
  then show ?thesis using ns by metis
qed

theorem match_shows_newest_revision_witness:
  "\<exists>n s. stateUpdates ''7'' [(5, newSnapshot), (4, newSnapshot)] (lobbyView afterReady) =
       lobbyView afterReady\<lparr>matchView := Some (the (matchView (lobbyView afterReady))\<lparr>revision := n, mv_snapshot := s\<rparr>)\<rparr> \<and>
     n = Max (fst ` {(revision (the (matchView (lobbyView afterReady))), mv_snapshot (the (matchView (lobbyView afterReady)))),
       (5, newSnapshot), (4, newSnapshot)})"
proof -
  obtain m where m: "matchView (lobbyView afterReady) = Some m" "mv_roomId m = ''7''"
    unfolding afterReady_def tick_def
    by (subst (asm) consumeNetworkEvents.simps, subst (asm) consumeNetworkEvents.simps)
      (simp add: newLobbyController_def scripted_def consumeEvent_def readyEvent_def onView_def)
  show ?thesis
    using match_shows_newest_revision [OF m, of "[(5, newSnapshot), (4, newSnapshot)]"] m by auto
qed

end
