(* ===== verification/Lobby_Protocol_Properties.thy ===== *)
theory Lobby_Protocol_Properties
  imports Lobby_Protocol Protocol_Properties
begin

text \<open>
  Properties of the messages of the gateway: a state written by the game server reaches the view of
  the lobby unchanged, and whatever the gateway sends, what is read is within the bounds of the
  protocol.
\<close>

section \<open>Values and their text\<close>

text \<open>The compact text of a value, and the value a parser reads from the texts this program writes.\<close>

primrec asText :: "jvalue \<Rightarrow> json" where
  "asText JNull = JText ''null''"
| "asText (JBool b) = JText (boolText b)"
| "asText (JInt64 i) = JText (to_string i)"
| "asText (JUint64 i) = JText (to_string i)"
| "asText (JDouble t) = JText t"
| "asText (JString s) = JStr s"
| "asText (JArray vs) = JArr (map asText vs)"
| "asText (JObject fs) = JObj (map (map_prod id asText) fs)"

primrec valueOf :: "json \<Rightarrow> jvalue" where
  "valueOf (JText t) =
     (if t = ''true'' then JBool True else if t = ''false'' then JBool False
      else case stoll t of Some (i, _) \<Rightarrow> JInt64 i | None \<Rightarrow> JNull)"
| "valueOf (JStr s) = JString s"
| "valueOf (JObj fs) = JObject (map (map_prod id valueOf) fs)"
| "valueOf (JArr vs) = JArray (map valueOf vs)"

inductive scalarsOk :: "json \<Rightarrow> bool" where
  okBool: "scalarsOk (jsonBool b)"
| okInt: "inLongLong i \<Longrightarrow> scalarsOk (jsonInt i)"
| okStr: "scalarsOk (JStr s)"
| okObj: "(\<And>k v. (k, v) \<in> set fs \<Longrightarrow> scalarsOk v) \<Longrightarrow> scalarsOk (JObj fs)"
| okArr: "(\<And>v. v \<in> set vs \<Longrightarrow> scalarsOk v) \<Longrightarrow> scalarsOk (JArr vs)"

lemma scalarsOk_fields: "list_all (\<lambda>f. scalarsOk (snd f)) fs \<Longrightarrow> scalarsOk (JObj fs)"
  by (rule okObj) (force simp: list_all_iff)

lemma scalarsOk_objects: "list_all (\<lambda>x. scalarsOk (JObj (fs x))) xs \<Longrightarrow> scalarsOk (objects fs xs)"
  unfolding objects_def by (rule okArr) (force simp: list_all_iff)

lemma valueOf_bool [simp]: "valueOf (jsonBool b) = JBool b"
  by (simp add: jsonBool_def boolText_def)

lemma valueOf_int:
  assumes "inLongLong i"
  shows "valueOf (jsonInt i) = JInt64 i"
proof -
  have "stoll (to_string i) = Some (i, [])"
    using stoll_to_string [of "[]" i] assms by (simp add: noDigitFirst_def)
  moreover have "CHR ''t'' \<notin> set (to_string i)" "CHR ''f'' \<notin> set (to_string i)"
    using to_string_chars by (force simp: isdigit_def)+
  then have "to_string i \<noteq> ''true'' \<and> to_string i \<noteq> ''false''" by auto
  ultimately show ?thesis by (simp add: jsonInt_def)
qed

lemma asText_valueOf: "scalarsOk j \<Longrightarrow> asText (valueOf j) = j"
proof (induction rule: scalarsOk.induct)
  case (okInt i)
  then show ?case by (simp add: valueOf_int) (simp add: jsonInt_def)
next
  case (okObj fs)
  then show ?case by (auto simp: o_def intro!: map_idI)
next
  case (okArr vs)
  then show ?case by (auto simp: o_def intro!: map_idI)
next
  case (okBool b)
  show ?case by (simp only: valueOf_bool asText.simps) (simp add: jsonBool_def)
qed simp

section \<open>A state on its way to the lobby\<close>

lemma inLongLong_small: "0 \<le> i \<Longrightarrow> i \<le> LLONG_MAX \<Longrightarrow> inLongLong i" "inInt i \<Longrightarrow> inLongLong i"
  "i \<in> {-1, 0, 1} \<Longrightarrow> inLongLong i"
  by (auto simp: inLongLong_def LLONG_MIN_def LLONG_MAX_def inInt_def INT_MIN_def INT_MAX_def)

lemma inLongLong_le: "0 \<le> i \<Longrightarrow> i \<le> j \<Longrightarrow> j \<le> LLONG_MAX \<Longrightarrow> inLongLong i"
  using inLongLong_small(1) order_trans by blast

lemma scalars_position: "isBoardPosition p \<Longrightarrow> scalarsOk (jsonPosition p)"
  unfolding jsonPosition_def
  by (rule scalarsOk_fields)
    (auto simp: isBoardPosition_def jsonInt_def [symmetric] intro!: okInt inLongLong_small(1) simp: LLONG_MAX_def)

lemma scalars_piece: "wirePiece p \<Longrightarrow> scalarsOk (JObj (pieceFields p))"
  by (rule scalarsOk_fields)
    (auto simp: pieceFields_def wirePiece_def okInt okBool okStr scalars_position inLongLong_small(1,2) inLongLong_le)

lemma step_inLongLong: "-1 \<le> i \<Longrightarrow> i \<le> 1 \<Longrightarrow> inLongLong i"
  by (auto simp: inLongLong_def LLONG_MIN_def LLONG_MAX_def)

lemma scalars_motion: "wireMotion m \<Longrightarrow> scalarsOk (JObj (motionFields m))"
  by (rule scalarsOk_fields)
    (auto simp: motionFields_def wireMotion_def step_inLongLong
      okInt okBool okStr scalars_position inLongLong_small(1,2))

lemma scalars_jump: "wireJump j \<Longrightarrow> scalarsOk (JObj (jumpFields j))"
  by (rule scalarsOk_fields)
    (auto simp: jumpFields_def wireJump_def okInt scalars_position inLongLong_small(1,2))

lemma scalars_history: "validHistory t h \<Longrightarrow> scalarsOk (JObj (historyFields h))"
  by (rule scalarsOk_fields)
    (auto simp: historyFields_def validHistory_def okInt okBool okStr scalars_position inLongLong_small(1,2))

lemma scalars_snapshot:
  assumes "validSnapshot t s"
  shows "scalarsOk (JObj (snapshotFields s))"
proof (rule scalarsOk_fields)
  have arrays: "scalarsOk (objects pieceFields (snapPieces s))" "scalarsOk (objects motionFields (snapMotions s))"
    "scalarsOk (objects jumpFields (snapJumps s))" "scalarsOk (objects historyFields (snapWhiteMoveHistory s))"
    "scalarsOk (objects historyFields (snapBlackMoveHistory s))"
    using assms unfolding validSnapshot_def
    by (auto intro!: scalarsOk_objects elim!: list.pred_mono_strong
      intro: scalars_piece scalars_motion scalars_jump scalars_history)
  show "list_all (\<lambda>f. scalarsOk (snd f)) (snapshotFields s)"
    using assms arrays unfolding validSnapshot_def
    by (auto simp: snapshotFields_def okInt okBool okStr inLongLong_small(1,2))
qed

definition stateMembers :: "GameStateSnapshot \<Rightarrow> jobject" where
  "stateMembers s = map (map_prod id valueOf) (snapshotFields s)"

text \<open>The message of the game protocol that \<open>parseSnapshot\<close> wraps around a state.\<close>

definition envelopeMessage :: "GameStateSnapshot \<Rightarrow> Message" where
  "envelopeMessage s = newMessage\<lparr>msgType := GameStateUpdated, sequence := 0, msgSource := Position (-1) (-1),
     msgDestination := Position (-1) (-1), accepted := True, reason := ''gateway_snapshot'',
     playerColor := [], reconnectToken := [], username := [], whiteUsername := [], blackUsername := [],
     secondsRemaining := 0, createdAtMs := 0, hasSnapshot := True, snapshot := s\<rparr>"

lemma envelope_text:
  assumes "validSnapshot t s"
  shows "asText (snapshotEnvelope (stateMembers s)) = JObj (messageFields (envelopeMessage s))"
proof -
  have "asText (JObject (stateMembers s)) = JObj (snapshotFields s)"
    using asText_valueOf [OF scalars_snapshot [OF assms]] by (simp add: stateMembers_def)
  then show ?thesis
    by (simp add: snapshotEnvelope_def messageFields_def envelopeMessage_def unusedCell_def jsonPosition_def
      jsonInt_def jsonBool_def messageTypeToString_def)
qed

lemma wire_envelope: "validSnapshot escapable s \<Longrightarrow> wireMessage (envelopeMessage s)"
  by (simp add: validMessage_def envelopeMessage_def wirePosition_def noPosition_def inInt_def INT_MIN_def INT_MAX_def LLONG_MAX_def
    escapable_iff escapeChar_def)

lemma parseSnapshot_state:
  assumes "validSnapshot escapable s"
    and "jl_serialize jl (snapshotEnvelope (stateMembers s)) = render (asText (snapshotEnvelope (stateMembers s)))"
  shows "parseSnapshot jl (stateMembers s) = Inr s"
proof -
  have "deserialize (jl_serialize jl (snapshotEnvelope (stateMembers s))) = Some (envelopeMessage s)"
    unfolding assms(2) envelope_text [OF assms(1)] by (rule readMessage_render [OF wire_envelope [OF assms(1)]])
  then show ?thesis by (simp add: parseSnapshot_def Let_def envelopeMessage_def)
qed

text \<open>What the gateway sends for a state of a match, to players and to spectators.\<close>

definition gatewayState :: "string \<Rightarrow> string \<Rightarrow> 64 word \<Rightarrow> GameStateSnapshot \<Rightarrow> (string \<times> json) list" where
  "gatewayState kind i r s = [(''type'', JStr kind), (''room_id'', JStr i),
     (''revision'', jsonInt (uint r)), (''state'', JObj (snapshotFields s))]"

definition stateEvent :: "string \<Rightarrow> string \<Rightarrow> 64 word \<Rightarrow> GameStateSnapshot \<Rightarrow> LobbyEvent" where
  "stateEvent kind i r s = (if kind = ''match_state'' then MatchStateEvent i r s else MatchSnapshotEvent i r s)"

lemma gateway_state_read:
  assumes "jl_parse jl (render (JObj (gatewayState kind i r s))) = Inr (valueOf (JObj (gatewayState kind i r s)))"
    and "jl_serialize jl (snapshotEnvelope (stateMembers s)) = render (asText (snapshotEnvelope (stateMembers s)))"
    and "validSnapshot escapable s" "uint r \<le> LLONG_MAX" "kind \<in> {''match_state'', ''match_snapshot''}"
  shows "parse jl (render (JObj (gatewayState kind i r s))) = (Some (stateEvent kind i r s), [])"
proof -
  have "valueOf (jsonInt (uint r)) = JInt64 (uint r)"
    using assms(4) by (intro valueOf_int inLongLong_small(1)) auto
  then have members: "valueOf (JObj (gatewayState kind i r s)) = JObject [(''type'', JString kind),
      (''room_id'', JString i), (''revision'', JInt64 (uint r)), (''state'', JObject (stateMembers s))]"
    by (simp add: gatewayState_def stateMembers_def)
  from assms(5) consider "kind = ''match_state''" | "kind = ''match_snapshot''" by blast
  then show ?thesis unfolding parse_def assms(1) members
    by cases (simp_all add: requiredString_def requiredUnsigned_def requiredObject_def if_contains_def parseEvent_def
      stateEvent_def parseSnapshot_state [OF assms(3,2)])
qed

text \<open>C29: A state of a match that the gateway sends, in the form in which the game server writes it, is read
  by the lobby as exactly that state with its room and revision, when the JSON library reads the
  members it was given and writes the envelope compactly.\<close>

theorem gateway_state_arrives:
  assumes "jl_parse jl (render (JObj (gatewayState kind i r s))) = Inr (valueOf (JObj (gatewayState kind i r s)))"
    and "jl_serialize jl (snapshotEnvelope (stateMembers s)) = render (asText (snapshotEnvelope (stateMembers s)))"
    and "validSnapshot escapable s" "uint r \<le> LLONG_MAX" "kind \<in> {''match_state'', ''match_snapshot''}"
  shows "parse jl (render (JObj (gatewayState kind i r s))) = (Some (stateEvent kind i r s), [])"
  using assms by (rule gateway_state_read)

text \<open>A library that reads just one text.\<close>

definition demoText :: string where
  "demoText = render (JObj (gatewayState ''match_snapshot'' ''7'' 5 demoSnapshot))"

definition demoLibrary :: JsonLibrary where
  "demoLibrary = \<lparr>jl_parse = (\<lambda>t. if t = demoText
       then Inr (valueOf (JObj (gatewayState ''match_snapshot'' ''7'' 5 demoSnapshot))) else Inl ''syntax error''),
     jl_serialize = (\<lambda>v. render (asText v)), jl_refusal = (\<lambda>t. ''refused'')\<rparr>"

lemma demoSnapshot_valid: "validSnapshot escapable demoSnapshot"
  by code_simp

lemma demo_read: "parse demoLibrary demoText = (Some (MatchSnapshotEvent ''7'' 5 demoSnapshot), [])"
  unfolding demoText_def
  by (subst gateway_state_read) (simp_all add: demoLibrary_def demoText_def demoSnapshot_valid stateEvent_def LLONG_MAX_def)

theorem gateway_state_arrives_witness:
  "parse demoLibrary demoText = (Some (stateEvent ''match_snapshot'' ''7'' 5 demoSnapshot), [])"
  unfolding demoText_def
  by (rule gateway_state_arrives) (simp_all add: demoLibrary_def demoText_def demoSnapshot_valid LLONG_MAX_def)

section \<open>What can arrive at all\<close>

lemma parseSnapshot_bounds: "parseSnapshot jl object = Inr s \<Longrightarrow> validSnapshot (\<lambda>_. True) s"
  by (auto simp: parseSnapshot_def Let_def validMessage_def validSnapshot_def newSnapshot_def inInt_def INT_MIN_def
      INT_MAX_def LLONG_MAX_def split: option.splits if_splits dest!: deserialize_bounds)

fun eventSnapshot :: "LobbyEvent \<Rightarrow> GameStateSnapshot option" where
  "eventSnapshot (MatchReadyEvent i c n r s t w b) = Some s"
| "eventSnapshot (MatchStartedEvent i r s t) = Some s"
| "eventSnapshot (MatchSnapshotEvent i r s) = Some s"
| "eventSnapshot (MatchStateEvent i r s) = Some s"
| "eventSnapshot e = None"

definition eventInBounds :: "LobbyEvent \<Rightarrow> bool" where
  "eventInBounds e \<longleftrightarrow> (\<forall>s. eventSnapshot e = Some s \<longrightarrow> validSnapshot (\<lambda>_. True) s)"

lemma parseEvent_bounds: "parseEvent jl type object = Inr (Some e) \<Longrightarrow> eventInBounds e"
  unfolding parseEvent_def Let_def
  by (auto simp: tryR_Inr eventInBounds_def dest: parseSnapshot_bounds split: if_split_asm option.split_asm jvalue.split_asm)

lemma parse_bounds: "fst (parse jl message) = Some e \<Longrightarrow> eventInBounds e"
  by (auto simp: parse_def tryR_def dest: parseEvent_bounds split: sum.split_asm jvalue.split_asm option.split_asm)

text \<open>A message yields an event or the text of an error, never both and never none.\<close>

lemma parse_event_or_error: "fst (parse jl message) = None \<longleftrightarrow> snd (parse jl message) \<noteq> []"
  by (auto simp: parse_def split: sum.split jvalue.split option.split)

text \<open>
  A rating or a number of watchers is checked not to be negative before it is cut to 32 bits, so a
  number that does not fit is accepted and can come out negative.
\<close>

lemma large_count_wraps: "optionalInteger [(''spectator_count'', JInt64 2147483648)] ''spectator_count'' 0 = Inr (-2147483648)"
  by (simp add: optionalInteger_def if_contains_def castInt_def)

end
