(* ===== verification/Lobby_Client_Properties.thy ===== *)
theory Lobby_Client_Properties
  imports Lobby_Client Lobby_Properties Lobby_Protocol_Properties
begin

text \<open>
  Properties of the network of the lobby: messages are written in the order they are sent, a login
  that succeeds has a session and a user, and only states within the bounds of the protocol are shown.
\<close>

section \<open>Sending\<close>

text \<open>What the two threads do with the socket between two connects.\<close>

datatype wsAction =
  AppSends string | AppPolls | PostedRuns | WriteEnds "string option" | ReadEnds ReadOutcome

fun wsDo :: "wsAction \<Rightarrow> WsImpl \<Rightarrow> WsImpl" where
  "wsDo (AppSends m) w = snd (sendText m w)"
| "wsDo AppPolls w = snd (pollSocket w)"
| "wsDo PostedRuns w = runPosted w"
| "wsDo (WriteEnds e) w = (if inFlight w = None then w else writeDone e w)"
| "wsDo (ReadEnds r) w = (if reading w then readDone r w else w)"

text \<open>The messages for which \<open>sendText\<close> returned true.\<close>

fun wsAccepted :: "wsAction list \<Rightarrow> WsImpl \<Rightarrow> string list" where
  "wsAccepted [] w = []"
| "wsAccepted (a # as) w =
     (case a of AppSends m \<Rightarrow> (if fst (sendText m w) then [m] else []) | _ \<Rightarrow> []) @ wsAccepted as (wsDo a w)"

text \<open>
  All messages accepted so far are those whose write is over, in this order, then the queue, then
  the posted tasks. A write that runs is one of the front of the queue.
\<close>

definition wsOk :: "string list \<Rightarrow> WsImpl \<Rightarrow> bool" where
  "wsOk sent w \<longleftrightarrow>
     (\<exists>over. sent = over @ outgoing w @ posted w \<and>
       written w = over @ (if writeActive w then [hd (outgoing w)] else [])) \<and>
     (writeActive w \<longrightarrow> outgoing w \<noteq> []) \<and>
     (\<forall>m. inFlight w = Some m \<longrightarrow> writeActive w \<and> m = hd (outgoing w))"

lemma pushEvent_simps [simp]:
  "outgoing (pushEvent k t c w) = outgoing w" "posted (pushEvent k t c w) = posted w"
  "written (pushEvent k t c w) = written w" "writeActive (pushEvent k t c w) = writeActive w"
  "inFlight (pushEvent k t c w) = inFlight w"
  by (simp_all add: pushEvent_def)

lemma wsOk_writeNext: "wsOk sent w \<Longrightarrow> wsOk sent (writeNext w)"
  by (auto simp: wsOk_def writeNext_def)

lemma wsOk_send:
  "wsOk sent w \<Longrightarrow> wsOk (sent @ (if fst (sendText m w) then [m] else [])) (snd (sendText m w))"
  by (auto simp: wsOk_def sendText_def)

lemma wsOk_posted: "wsOk sent w \<Longrightarrow> wsOk sent (runPosted w)"
proof (cases "posted w")
  case (Cons m ms)
  assume ok: "wsOk sent w"
  then have "wsOk sent (w\<lparr>posted := ms, outgoing := outgoing w @ [m]\<rparr>)"
    using Cons by (auto simp: wsOk_def)
  then show ?thesis using Cons wsOk_writeNext by (simp add: runPosted_def)
qed (simp add: runPosted_def)

lemma wsOk_written:
  assumes "wsOk sent w" "inFlight w \<noteq> None"
  shows "wsOk sent (writeDone e w)"
proof (cases e)
  case None
  obtain over where over: "sent = over @ outgoing w @ posted w" "written w = over @ [hd (outgoing w)]" "outgoing w \<noteq> []"
    using assms by (auto simp: wsOk_def)
  then have "wsOk sent (w\<lparr>inFlight := None, outgoing := tl (outgoing w), writeActive := False\<rparr>)"
    by (auto simp: wsOk_def intro!: exI [of _ "over @ [hd (outgoing w)]"])
  then show ?thesis using None wsOk_writeNext by (simp add: writeDone_def Let_def)
next
  case (Some m)
  then show ?thesis using assms by (auto simp: writeDone_def Let_def wsOk_def)
qed

lemma wsOk_read: "wsOk sent w \<Longrightarrow> wsOk sent (readDone r w)"
  by (auto simp: readDone_def wsOk_def Let_def split: ReadOutcome.split)

lemma wsOk_poll: "wsOk sent w \<Longrightarrow> wsOk sent (snd (pollSocket w))"
  by (auto simp: pollSocket_def wsOk_def split: prod.split)

lemma wsOk_run: "wsOk sent w \<Longrightarrow> wsOk (sent @ wsAccepted as w) (foldl (\<lambda>w a. wsDo a w) w as)"
proof (induction as arbitrary: sent w)
  case (Cons a as)
  have "wsOk (sent @ (case a of AppSends m \<Rightarrow> (if fst (sendText m w) then [m] else []) | _ \<Rightarrow> [])) (wsDo a w)"
    using Cons.prems
    by (cases a) (use wsOk_send in \<open>simp_all add: wsOk_posted wsOk_written wsOk_read wsOk_poll\<close>)
  from Cons.IH [OF this] show ?case by (simp add: append_assoc)
qed simp

text \<open>C30: However sending, the tasks of the worker and the ends of reads and writes interleave, the messages
  that were accepted are written in the order they were sent, each once: what was written, what
  waits behind it and what is still posted are together exactly the accepted messages. At most one
  write runs at a time, and none is started while another one runs.\<close>

theorem websocket_writes_in_order:
  fixes as :: "wsAction list" and w :: WsImpl
  defines "w' \<equiv> foldl (\<lambda>w a. wsDo a w) (w\<lparr>outgoing := [], posted := [], written := [], writeActive := False, inFlight := None\<rparr>) as"
    and "sent \<equiv> wsAccepted as (w\<lparr>outgoing := [], posted := [], written := [], writeActive := False, inFlight := None\<rparr>)"
  shows "sent = written w' @ (if writeActive w' then tl (outgoing w') else outgoing w') @ posted w' \<and>
    (inFlight w' \<noteq> None \<longrightarrow> writeNext w' = w' \<and> inFlight w' = Some (last (written w')))"
proof -
  have "wsOk [] (w\<lparr>outgoing := [], posted := [], written := [], writeActive := False, inFlight := None\<rparr>)"
    by (simp add: wsOk_def)
  from wsOk_run [OF this, of as] have ok: "wsOk sent w'" by (simp add: sent_def w'_def)
  then show ?thesis by (auto simp: wsOk_def writeNext_def)
qed

definition openSocket :: WsImpl where
  "openSocket = newWsImpl\<lparr>connState := WsConnected\<rparr>"

theorem websocket_writes_in_order_witness:
  "inFlight (foldl (\<lambda>w a. wsDo a w) openSocket [AppSends ''a'', PostedRuns, AppSends ''b'', PostedRuns]) = Some ''a'' \<and>
   written (foldl (\<lambda>w a. wsDo a w) openSocket [AppSends ''a'', PostedRuns, AppSends ''b'', PostedRuns]) = [''a''] \<and>
   wsAccepted [AppSends ''a'', PostedRuns, AppSends ''b'', PostedRuns] openSocket = [''a'', ''b'']"
  using websocket_writes_in_order [of "[AppSends ''a'', PostedRuns, AppSends ''b'', PostedRuns]" openSocket]
  by (simp add: openSocket_def newWsImpl_def sendText_def runPosted_def writeNext_def)

section \<open>Signing in\<close>

lemma apiLogin_session:
  "apiLogin a name pass s = (r, (jar, n)) \<Longrightarrow> succeeded r \<Longrightarrow> hasSession jar"
  by (auto simp: apiLogin_def credentialsRequest_def Let_def succeeded_def split: prod.split_asm if_split_asm)

lemma parseAuth_success: "succeeded (parseAuthResponse jl response) \<Longrightarrow>
  authUser (parseAuthResponse jl response) \<noteq> None \<and> 200 \<le> statusCode response \<and> statusCode response < 300"
  by (auto simp: parseAuthResponse_def Let_def succeeded_def newAuthResult_def split: sum.split_asm if_split_asm
    jvalue.split_asm option.split_asm)

lemma apiSend_jar [simp]: "fst (snd (apiSend a method path body s)) = fst s"
  by (cases s) (auto simp: apiSend_def split: prod.split)

lemma apiMe_success:
  assumes "apiMe a (jar, n) = (r, (jar', n'))" "succeeded r"
  shows "jar' = jar \<and> authUser r \<noteq> None"
proof -
  obtain response n1 where send: "apiSend a HttpGet ''/auth/me'' [] (jar, n) = (response, (jar, n1))"
    by (metis apiSend_jar fst_conv prod.collapse)
  have "r = parseAuthResponse (json a) response" "jar' = jar"
    using assms send by (auto simp: apiMe_def succeeded_def Let_def split: if_split_asm)
  then show ?thesis using parseAuth_success assms(2) by metis
qed

text \<open>When a login succeeds, the client has the cookie of a session and knows the user, so the controller
  can take the name from the result; and with the socket closed and an address that can be read,
  opening the socket is not refused.\<close>

theorem login_has_session_and_user:
  assumes "clientLogin cfg name pass c = (r, c')" "succeeded r"
    and "connState (socket c) = WsDisconnected" "parseWebSocketUrl (socketUrl cfg) = Inr parsed"
  shows "hasSession (cookieJar c') \<and> authUser r \<noteq> None \<and> fst (connectRealtime cfg c')"
proof -
  obtain r1 jar1 n1 where login: "apiLogin (api cfg) name pass (cookieJar c, network c) = (r1, (jar1, n1))"
    by (metis prod.collapse)
  let ?c1 = "c\<lparr>cookieJar := jar1, network := n1\<rparr>"
  have good: "succeeded r1" and me: "currentUser cfg ?c1 = (r, c')"
    using assms(1,2) login by (auto simp: clientLogin_def callApi_def split: if_split_asm)
  obtain r2 jar2 n2 where who: "apiMe (api cfg) (jar1, n1) = (r2, (jar2, n2))" by (metis prod.collapse)
  have "r = r2" "c' = ?c1\<lparr>cookieJar := jar2, network := n2\<rparr>"
    using me who by (auto simp: currentUser_def callApi_def)
  moreover have "jar2 = jar1 \<and> authUser r2 \<noteq> None"
    using apiMe_success [OF who] assms(2) \<open>r = r2\<close> by simp
  moreover have "hasSession jar1" using apiLogin_session [OF login good] .
  ultimately show ?thesis using assms(3,4)
    by (auto simp: connectRealtime_def wsConnect_def Let_def split: prod.split)
qed

section \<open>What is shown\<close>

definition shownInBounds :: "LobbyController \<Rightarrow> bool" where
  "shownInBounds c \<longleftrightarrow> (\<forall>m. matchView (lobbyView c) = Some m \<longrightarrow> validSnapshot (\<lambda>_. True) (mv_snapshot m))"

lemma shownInBounds_updates [simp]:
  "shownInBounds (c\<lparr>passwordText := p\<rparr>) = shownInBounds c" "shownInBounds (c\<lparr>confirmPassword := p\<rparr>) = shownInBounds c"
  "shownInBounds (c\<lparr>authenticationTask := t\<rparr>) = shownInBounds c"
  by (simp_all add: shownInBounds_def)

lemma shownInBounds_onView:
  "shownInBounds c \<Longrightarrow> matchView (f (lobbyView c)) \<in> {None, matchView (lobbyView c)} \<Longrightarrow> shownInBounds (onView f c)"
  by (auto simp: shownInBounds_def onView_def)

lemma matchView_operations [simp]:
  "matchView (authenticationFailed m v) = matchView v" "matchView (authenticationSucceeded m v) = matchView v"
  "matchView (setConnectionState st v) = matchView v" "matchView (showError m v) = matchView v"
  "matchView (resetForLogout v) = None" "matchView (beginAuthenticationView a v) = matchView v"
  by (simp_all add: authenticationFailed_def authenticationSucceeded_def setConnectionState_def showError_def
    resetForLogout_def newLobbyView_def beginAuthenticationView_def Let_def)

lemma bounds_event:
  assumes "shownInBounds c" "eventInBounds e"
  shows "shownInBounds (onView (applyEvent e) c)"
  using assms
  by (cases e) (auto simp: shownInBounds_def eventInBounds_def onView_def onMatch_def Let_def split: option.splits if_splits)

lemma bounds_authentication: "shownInBounds c \<Longrightarrow> shownInBounds (beginAuthentication b c)"
  by (simp add: beginAuthentication_def shownInBounds_onView)

lemma bounds_register: "shownInBounds c \<Longrightarrow> shownInBounds (registerAction c)"
  by (simp add: registerAction_def bounds_authentication shownInBounds_onView)

lemma bounds_toggle: "shownInBounds c \<Longrightarrow> shownInBounds (toggleAuthMode c)"
  by (simp add: toggleAuthMode_def shownInBounds_onView Let_def)

lemma bounds_roomAction: "shownInBounds c \<Longrightarrow> roomAction a i f m (c, t) = (c', t') \<Longrightarrow> shownInBounds c'"
  by (auto simp: roomAction_def beginRoomAction_def shownInBounds_onView split: prod.splits if_splits)

lemma bounds_handle:
  assumes "shownInBounds c" "handle tp action val (c, t) = Some (c', t')"
  shows "shownInBounds c'"
  using assms
  by (cases action)
    (auto simp: handle_def Let_def bounds_authentication bounds_register bounds_toggle clearPasswords_def
      split: if_split_asm prod.split_asm dest: bounds_roomAction intro!: shownInBounds_onView)

lemma bounds_keys: "shownInBounds c \<Longrightarrow> shownInBounds (inputCharacter ch c)" "shownInBounds c \<Longrightarrow> shownInBounds (backspace c)"
  by (simp_all add: inputCharacter_def backspace_def Let_def shownInBounds_onView)

lemma clientPoll_bounds: "fst (clientPoll cfg c) = Some (ProtocolEvent e) \<Longrightarrow> eventInBounds e"
  using parse_bounds [of "json (api cfg)"]
  by (auto simp: clientPoll_def split: prod.splits option.splits if_splits) (metis fst_conv)

interpretation lobby_bounds: lobby_invariant "lobbyTransport cfg" eventInBounds shownInBounds for cfg :: "'n LobbyClientConfig"
proof
  show "shownInBounds c'" if "shownInBounds c" "handle (lobbyTransport cfg) action val (c, t) = Some (c', t')"
    for c action val t c' t'
    using that by (rule bounds_handle)
  show "eventInBounds e" if "fst (tp_pollEvent (lobbyTransport cfg) t) = Some (ProtocolEvent e)" for t e
    using that clientPoll_bounds by (simp add: lobbyTransport_def)
  show "shownInBounds (onShownMatch mt c)"
    if "shownInBounds c" "matchView (lobbyView c) = Some m" "spectator mt = spectator m" "mv_snapshot mt = mv_snapshot m"
    for c m mt
    using that by (simp add: onShownMatch_def onView_def shownInBounds_def)
qed (simp_all add: bounds_keys clearPasswords_def shownInBounds_onView bounds_event)

text \<open>C31: Over the real transport, whatever texts the gateway sends and whatever the player does, the match that
  is shown is within the bounds of the protocol: its pieces have known tokens and states, ids that
  are not negative and cells on the 8x8 board, its motions steps of at most one cell, no cooldown
  is longer than its total, and times and scores are not negative.\<close>

theorem shown_matches_are_valid:
  assumes "(lobbyStep (lobbyTransport cfg))\<^sup>*\<^sup>* (newLobbyController, client) (c, client')"
    and "matchView (lobbyView c) = Some m"
  shows "validSnapshot (\<lambda>_. True) (mv_snapshot m)"
proof -
  have "shownInBounds newLobbyController"
    by (simp add: shownInBounds_def newLobbyController_def newLobbyView_def)
  then have "shownInBounds c" using lobby_bounds.run [OF assms(1)] by simp
  then show ?thesis using assms(2) by (simp add: shownInBounds_def)
qed

section \<open>A concrete network\<close>

text \<open>A gateway that accepts every login, sets the cookie and says who is signed in.\<close>

definition friendlyGateway :: "HttpRequest \<Rightarrow> unit \<Rightarrow> HttpResponse \<times> unit" where
  "friendlyGateway request n =
     (noResponse\<lparr>statusCode := 200, responseBody := ''user'',
        responseHeaders := [(''set-cookie'', ''ctd_session=abc; Path=/; HttpOnly'')]\<rparr>, n)"

definition demoConfig :: "unit LobbyClientConfig" where
  "demoConfig = \<lparr>api = \<lparr>json = demoLibrary\<lparr>jl_parse := (\<lambda>t. if t = ''user''
         then Inr (JObject [(''id'', JString ''1''), (''username'', JString ''ann''), (''created_at'', JString ''today'')])
         else jl_parse demoLibrary t)\<rparr>,
       sendRequest = friendlyGateway, baseUrl = ''http://127.0.0.1:8000''\<rparr>,
     socketUrl = ''ws://127.0.0.1:8000/ws'', drainWorker = (\<lambda>w. w)\<rparr>"

lemma demo_cookie:
  "headerValue (fst (friendlyGateway r ())) ''Set-Cookie'' = ''ctd_session=abc; Path=/; HttpOnly''"
  "acceptSetCookie ''ctd_session=abc; Path=/; HttpOnly'' None = Some ''abc''"
proof -
  have "map tolower ''set-cookie'' = map tolower ''Set-Cookie''" by code_simp
  then show "headerValue (fst (friendlyGateway r ())) ''Set-Cookie'' = ''ctd_session=abc; Path=/; HttpOnly''"
    by (simp add: headerValue_def friendlyGateway_def noResponse_def)
  show "acceptSetCookie ''ctd_session=abc; Path=/; HttpOnly'' None = Some ''abc''" by code_simp
qed

theorem login_has_session_and_user_witness:
  "hasSession (cookieJar (snd (clientLogin demoConfig ''ann'' ''secret-word'' (newLobbyClient ())))) \<and>
   authUser (fst (clientLogin demoConfig ''ann'' ''secret-word'' (newLobbyClient ()))) =
     Some \<lparr>au_id = ''1'', au_username = ''ann'', au_createdAt = ''today''\<rparr>"
proof -
  have good: "authUser (fst (clientLogin demoConfig ''ann'' ''secret-word'' (newLobbyClient ()))) =
     Some \<lparr>au_id = ''1'', au_username = ''ann'', au_createdAt = ''today''\<rparr>"
    "succeeded (fst (clientLogin demoConfig ''ann'' ''secret-word'' (newLobbyClient ())))"
    using demo_cookie
    by (simp_all add: clientLogin_def callApi_def apiLogin_def credentialsRequest_def apiSend_def demoConfig_def
      newLobbyClient_def friendlyGateway_def noResponse_def Let_def parseAuthResponse_def responseUser_def jsonString_def
      if_contains_def newAuthResult_def succeeded_def hasSession_def currentUser_def apiMe_def)
  have "parseWebSocketUrl ''ws://127.0.0.1:8000/ws'' =
      Inr \<lparr>scheme = ''ws'', urlHost = ''127.0.0.1'', urlPort = ''8000'', target = ''/ws''\<rparr>"
    by code_simp
  then have "parseWebSocketUrl (socketUrl demoConfig) =
      Inr \<lparr>scheme = ''ws'', urlHost = ''127.0.0.1'', urlPort = ''8000'', target = ''/ws''\<rparr>"
    by (simp add: demoConfig_def)
  then show ?thesis
    using login_has_session_and_user [of demoConfig "''ann''" "''secret-word''" "newLobbyClient ()", OF prod.collapse [symmetric] good(2)]
      good(1) by (simp add: newLobbyClient_def newWsImpl_def)
qed

definition watchingClient :: "unit LobbyClient" where
  "watchingClient = newLobbyClient ()
     \<lparr>socket := newWsImpl\<lparr>connState := WsConnected, events := [\<lparr>eventKind = WsText, eventText = demoText, closeCode = 0\<rparr>]\<rparr>\<rparr>"

definition watched :: LobbyController where
  "watched = fst (the (tick (lobbyTransport demoConfig) None (newLobbyController, watchingClient)))"

lemma demo_parse: "parse (json (api demoConfig)) demoText = (Some (MatchSnapshotEvent ''7'' 5 demoSnapshot), [])"
proof -
  have "demoText \<noteq> ''user''" by (simp add: demoText_def)
  then have "parse (json (api demoConfig)) (render (JObj (gatewayState ''match_snapshot'' ''7'' 5 demoSnapshot))) =
      (Some (stateEvent ''match_snapshot'' ''7'' 5 demoSnapshot), [])"
    by (intro gateway_state_read)
      (simp_all add: demoConfig_def demoLibrary_def demoText_def demoSnapshot_valid LLONG_MAX_def)
  then show ?thesis by (simp add: demoText_def stateEvent_def)
qed

lemma watched_tick:
  "\<exists>client. tick (lobbyTransport demoConfig) None (newLobbyController, watchingClient) = Some (watched, client)"
  and watched_match: "\<exists>m. matchView (lobbyView watched) = Some m \<and> mv_snapshot m = demoSnapshot"
proof -
  define c0 where "c0 = onView (setConnectionState WsConnected) newLobbyController"
  define c1 where "c1 = onView (applyEvent (MatchSnapshotEvent ''7'' 5 demoSnapshot)) c0"
  have polled: "clientPoll demoConfig watchingClient =
      (Some (ProtocolEvent (MatchSnapshotEvent ''7'' 5 demoSnapshot)),
       watchingClient\<lparr>socket := (socket watchingClient)\<lparr>events := []\<rparr>\<rparr>)"
    by (simp add: clientPoll_def pollSocket_def tryPop_def watchingClient_def newWsImpl_def demo_parse)
  have empty: "clientPoll demoConfig (watchingClient\<lparr>socket := (socket watchingClient)\<lparr>events := []\<rparr>\<rparr>) =
      (None, watchingClient\<lparr>socket := (socket watchingClient)\<lparr>events := []\<rparr>\<rparr>)"
    by (simp add: clientPoll_def pollSocket_def tryPop_def)
  have poll: "tp_pollEvent (lobbyTransport demoConfig) = clientPoll demoConfig" by (simp add: lobbyTransport_def)
  have run: "consumeNetworkEvents (lobbyTransport demoConfig) (c0, watchingClient) =
      Some (c1, watchingClient\<lparr>socket := (socket watchingClient)\<lparr>events := []\<rparr>\<rparr>)"
    by (subst consumeNetworkEvents.simps, subst consumeNetworkEvents.simps)
      (simp add: poll polled empty consumeEvent_def c1_def del: applyEvent.simps)
  have "connState (socket watchingClient) = WsConnected" by (simp add: watchingClient_def)
  then have tick: "tick (lobbyTransport demoConfig) None (newLobbyController, watchingClient) =
      Some (c1, watchingClient\<lparr>socket := (socket watchingClient)\<lparr>events := []\<rparr>\<rparr>)"
    using run by (simp add: tick_def newLobbyController_def lobbyTransport_def c0_def)
  then have "watched = c1" by (simp add: watched_def)
  then show "\<exists>client. tick (lobbyTransport demoConfig) None (newLobbyController, watchingClient) = Some (watched, client)"
    using tick by blast
  show "\<exists>m. matchView (lobbyView watched) = Some m \<and> mv_snapshot m = demoSnapshot"
    by (simp add: \<open>watched = c1\<close> c1_def onView_def)
qed

theorem shown_matches_are_valid_witness:
  "\<exists>m. matchView (lobbyView watched) = Some m \<and> validSnapshot (\<lambda>_. True) (mv_snapshot m) \<and> mv_snapshot m = demoSnapshot"
proof -
  obtain client where "lobbyStep (lobbyTransport demoConfig) (newLobbyController, watchingClient) (watched, client)"
    using watched_tick lobbyStep.ticked by blast
  then show ?thesis using shown_matches_are_valid [OF r_into_rtranclp] watched_match by blast
qed

end
