(* ===== verification/Lobby_Layout.thy ===== *)
theory Lobby_Layout
  imports Lobby_Controller
begin

text \<open>
  Where the lobby draws its parts and what a click on them means:
  \<open>src/client/desktop_client/src/Lobby/LobbyLayout.cpp\<close> and \<open>LobbyInputMapper.cpp\<close>. Rectangles and
  points are OpenCV's; whether a rectangle contains a point is OpenCV's \<open>contains\<close>, a parameter.
\<close>

section \<open>Layout\<close>

record Rect =
  rx :: int
  ry :: int
  rw :: int
  rh :: int

definition rect :: "int \<Rightarrow> int \<Rightarrow> int \<Rightarrow> int \<Rightarrow> Rect" where
  "rect x y w h = \<lparr>rx = x, ry = y, rw = w, rh = h\<rparr>"

definition MinimumWidth :: int where "MinimumWidth = 1200"

definition MinimumHeight :: int where "MinimumHeight = 700"

definition columnsForWidth :: "int \<Rightarrow> int" where
  "columnsForWidth w = (if w \<ge> 1600 then 4 else if w \<ge> MinimumWidth then 3 else 2)"

definition cardActionButton :: "Rect \<Rightarrow> Rect" where
  "cardActionButton r = rect (rx r + rw r - 116) (ry r + rh r - 46) 96 32"

text \<open>C++ division truncates; the dividends here are not negative for a window of the minimum size.\<close>

definition cardWidth :: "Rect \<Rightarrow> int \<Rightarrow> int" where
  "cardWidth section columns = (rw section - 18 * (columns - 1)) div columns"

definition cardHeight :: "Rect \<Rightarrow> int \<Rightarrow> int \<Rightarrow> int" where
  "cardHeight section columns cardsPerPage =
     (let rows = max 1 (cardsPerPage div columns); availableHeight = rh section - 54
      in max 120 ((availableHeight - 18 * (rows - 1)) div rows))"

definition cardRects :: "Rect \<Rightarrow> int \<Rightarrow> int \<Rightarrow> int \<Rightarrow> int \<Rightarrow> Rect list" where
  "cardRects section columns number page cardsPerPage =
     (let start = page * cardsPerPage; stop = min number (start + cardsPerPage);
          w = cardWidth section columns; h = cardHeight section columns cardsPerPage
      in map (\<lambda>index. (let local = index - start; row = local div columns; column = local mod columns
            in rect (rx section + column * (w + 18)) (ry section + 54 + row * (h + 18)) w h)) [start..stop - 1])"

record LobbyLayoutResult =
  windowSize :: "int \<times> int"
  header :: Rect
  content :: Rect
  waitingSection :: Rect
  activeSection :: Rect
  authenticationPanel :: Rect
  usernameField :: Rect
  passwordField :: Rect
  confirmPasswordField :: Rect
  authModeToggle :: Rect
  loginButton :: Rect
  registerButton :: Rect
  historyButton :: Rect
  playButton :: Rect
  createRoomButton :: Rect
  joinHiddenButton :: Rect
  logoutButton :: Rect
  modalPanel :: Rect
  modalPrimaryButton :: Rect
  modalSecondaryButton :: Rect
  roomNameField :: Rect
  publicVisibilityButton :: Rect
  hiddenVisibilityButton :: Rect
  hiddenCodeField :: Rect
  backButton :: Rect
  waitingCards :: "Rect list"
  activeCards :: "Rect list"
  columns :: int
  cardsPerPage :: int

definition calculate :: "int \<Rightarrow> int \<Rightarrow> int \<Rightarrow> int \<Rightarrow> int \<Rightarrow> int \<Rightarrow> bool \<Rightarrow> LobbyLayoutResult" where
  "calculate width0 height0 waitingCount activeCount waitingPageNo activePageNo registrationMode =
     (let w = max width0 MinimumWidth; h = max height0 MinimumHeight;
          contentRect = rect 36 (92 + 22) (w - 36 * 2) (h - 92 - 36 - 22);
          sectionHeight = (rh contentRect - 24) div 2;
          waiting = rect (rx contentRect) (ry contentRect) (rw contentRect) sectionHeight;
          active = rect (rx contentRect) (ry contentRect + sectionHeight + 24) (rw contentRect)
                     (rh contentRect - sectionHeight - 24);
          cols = columnsForWidth w;
          panelHeight = (if registrationMode then 520 else 440);
          panel = rect ((w - 520) div 2) ((h - panelHeight) div 2) 520 panelHeight;
          buttonY = (if registrationMode then ry panel + 390 else ry panel + 304);
          dialog = rect ((w - 560) div 2) ((h - 440) div 2) 560 440
      in \<lparr>windowSize = (w, h), header = rect 0 0 w 92, content = contentRect,
          waitingSection = waiting, activeSection = active, authenticationPanel = panel,
          usernameField = rect (rx panel + 50) (ry panel + 130) (520 - 100) 54,
          passwordField = rect (rx panel + 50) (ry panel + 216) (520 - 100) 54,
          confirmPasswordField = (if registrationMode then rect (rx panel + 50) (ry panel + 302) (520 - 100) 54
                                  else rect 0 0 0 0),
          authModeToggle = rect (rx panel + 50) (ry panel + panelHeight - 74) (520 - 100) 28,
          loginButton = rect (rx panel + 50) buttonY 196 52,
          registerButton = rect (rx panel + 274) buttonY 196 52,
          historyButton = rect (w - 780) 25 100 44, playButton = rect (w - 670) 25 110 44,
          createRoomButton = rect (w - 548) 25 150 44, joinHiddenButton = rect (w - 386) 25 176 44,
          logoutButton = rect (w - 196) 25 124 44, modalPanel = dialog,
          modalPrimaryButton = rect (rx dialog + 60) (ry dialog + 326) 200 52,
          modalSecondaryButton = rect (rx dialog + 300) (ry dialog + 326) 200 52,
          roomNameField = rect (rx dialog + 60) (ry dialog + 122) (rw dialog - 120) 54,
          publicVisibilityButton = rect (rx dialog + 60) (ry dialog + 218) 200 48,
          hiddenVisibilityButton = rect (rx dialog + 300) (ry dialog + 218) 200 48,
          hiddenCodeField = rect (rx dialog + 60) (ry dialog + 120) (rw dialog - 120) 54,
          backButton = rect 36 25 160 44,
          waitingCards = cardRects waiting cols waitingCount waitingPageNo cols,
          activeCards = cardRects active cols activeCount activePageNo cols,
          columns = cols, cardsPerPage = cols\<rparr>)"

section \<open>Clicks\<close>

type_synonym point = "int \<times> int"

type_synonym action = "LobbyActionType \<times> string"

text \<open>The first card of a page whose button contains the point, if a room belongs to it.\<close>

fun cardAction ::
    "(Rect \<Rightarrow> point \<Rightarrow> bool) \<Rightarrow> point \<Rightarrow> LobbyActionType \<Rightarrow> LobbyRoom list \<Rightarrow> int \<Rightarrow> Rect list \<Rightarrow> action option" where
  "cardAction contains p kind rooms roomIndex [] = None"
| "cardAction contains p kind rooms roomIndex (r # cards) =
     (if roomIndex < int (length rooms) \<and> contains (cardActionButton r) p
      then Some (kind, roomId (rooms ! nat roomIndex))
      else cardAction contains p kind rooms (roomIndex + 1) cards)"

definition mapClick :: "(Rect \<Rightarrow> point \<Rightarrow> bool) \<Rightarrow> point \<Rightarrow> LobbyViewModel \<Rightarrow> LobbyLayoutResult \<Rightarrow> action" where
  "mapClick contains p view layout =
     (let hit = (\<lambda>r. contains r p); act = (\<lambda>a. (a, [])) in
      if screen view = AuthenticationScreen
      then if hit (usernameField layout) then act FocusUsername
           else if hit (passwordField layout) then act FocusPassword
           else if authMode view = RegisterMode \<and> hit (confirmPasswordField layout) then act FocusConfirmPassword
           else if hit (loginButton layout) then act LoginAction
           else if hit (registerButton layout)
           then act (if authMode view = LoginMode then ToggleAuthMode else RegisterAction)
           else if hit (authModeToggle layout) then act ToggleAuthMode
           else act NoAction
      else if modal view = CreateRoomModal
      then if hit (roomNameField layout) then act NoAction
           else if hit (publicVisibilityButton layout) then act SelectPublicVisibility
           else if hit (hiddenVisibilityButton layout) then act SelectHiddenVisibility
           else if hit (modalPrimaryButton layout) then act SubmitCreateRoom
           else if hit (modalSecondaryButton layout) then act CancelModal
           else act NoAction
      else if modal view = JoinHiddenRoomModal
      then if hit (modalPrimaryButton layout) then act SubmitHiddenCode
           else if hit (modalSecondaryButton layout) then act CancelModal
           else act NoAction
      else if screen view = LobbyScreen
      then if hit (historyButton layout) then act OpenMatchHistory
           else if hit (playButton layout) then act FindMatch
           else if hit (createRoomButton layout)
           then act (if pendingAction view = PendingFindMatch then CancelFindMatch else OpenCreateRoom)
           else if hit (joinHiddenButton layout) then act OpenJoinHidden
           else if hit (logoutButton layout) then act LogoutAction
           else (case cardAction contains p JoinPublicRoom (waitingRooms view)
                        (waitingPage view * cardsPerPage layout) (waitingCards layout) of
                   Some a \<Rightarrow> a
                 | None \<Rightarrow>
                     (case cardAction contains p WatchRoom (activeRooms view)
                             (activePage view * cardsPerPage layout) (activeCards layout) of
                        Some a \<Rightarrow> a
                      | None \<Rightarrow> act NoAction))
      else if hit (backButton layout) then act BackToLobby
      else act NoAction)"

section \<open>The cards of a section\<close>

lemma length_cardRects:
  "length (cardRects s n number page k) = nat (min number (page * k + k) - page * k)"
  by (simp add: cardRects_def Let_def)

lemma cardRects_nth:
  assumes "k = n" "0 < n" "i < length (cardRects s n number page k)"
  shows "cardRects s n number page k ! i =
      rect (rx s + int i * (cardWidth s n + 18)) (ry s + 54)
        (cardWidth s n) (cardHeight s n k)"
    and "int i < n"
proof -
  have i: "int i < n" "int i < min number (page * k + k) - page * k"
    using assms length_cardRects [of s n number page k] by auto
  then show "int i < n" by simp
  show "cardRects s n number page k ! i =
      rect (rx s + int i * (cardWidth s n + 18)) (ry s + 54)
        (cardWidth s n) (cardHeight s n k)"
    using i assms(1,2) by (simp add: cardRects_def Let_def)
qed

lemma cards_fit: "0 < n \<Longrightarrow> n * cardWidth r n + 18 * (n - 1) \<le> rw r"
proof -
  assume n: "0 < n"
  have "n * ((rw r - 18 * (n - 1)) div n) \<le> rw r - 18 * (n - 1)"
    using n by (simp add: minus_mod_eq_mult_div [symmetric])
  then show ?thesis by (simp add: cardWidth_def)
qed

lemma columnsForWidth_cases:
  obtains "columnsForWidth w = 2" | "columnsForWidth w = 3" | "columnsForWidth w = 4"
  unfolding columnsForWidth_def by presburger

lemma columns_calculate [simp]:
  "columns (calculate w h a b p q r) = columnsForWidth (max w MinimumWidth)"
  "cardsPerPage (calculate w h a b p q r) = columnsForWidth (max w MinimumWidth)"
  by (simp_all add: calculate_def Let_def)

lemma columnsForWidth_pos [simp]: "0 < columnsForWidth w"
  by (simp add: columnsForWidth_def)

lemma waiting_calculate:
  "waitingCards (calculate w h a b p q r) = cardRects (waitingSection (calculate w h a b p q r))
     (columnsForWidth (max w MinimumWidth)) a p (columnsForWidth (max w MinimumWidth))"
  "activeCards (calculate w h a b p q r) = cardRects (activeSection (calculate w h a b p q r))
     (columnsForWidth (max w MinimumWidth)) b q (columnsForWidth (max w MinimumWidth))"
  by (simp_all add: calculate_def Let_def)

lemma section_size:
  "rh (waitingSection (calculate w h a b p q r)) \<ge> 174" "rh (activeSection (calculate w h a b p q r)) \<ge> 174"
  by (simp_all add: calculate_def Let_def rect_def MinimumHeight_def)

definition inside :: "Rect \<Rightarrow> Rect \<Rightarrow> bool" where
  "inside a b \<longleftrightarrow> rx b \<le> rx a \<and> rx a + rw a \<le> rx b + rw b \<and> ry b \<le> ry a \<and> ry a + rh a \<le> ry b + rh b"

lemma section_width:
  "1128 \<le> rw (waitingSection (calculate w h a b p q r))" "1128 \<le> rw (activeSection (calculate w h a b p q r))"
  by (simp_all add: calculate_def Let_def rect_def MinimumWidth_def)

lemma cardWidth_nonneg: "1128 \<le> rw s \<Longrightarrow> 0 \<le> cardWidth s (columnsForWidth w)"
  by (cases w rule: columnsForWidth_cases) (auto simp: cardWidth_def)

lemma cards_row:
  assumes "0 < n" "rh s \<ge> 174" "0 \<le> cardWidth s n" "i < length (cardRects s n number page n)"
  shows "inside (cardRects s n number page n ! i) s"
    and "j < i \<Longrightarrow> rx (cardRects s n number page n ! j) + rw (cardRects s n number page n ! j) < rx (cardRects s n number page n ! i)"
proof -
  note at = cardRects_nth(1) [OF refl assms(1)]
  have i: "int i < n" using cardRects_nth(2) [OF refl assms(1,4)] .
  have "(int i + 1) * (cardWidth s n + 18) \<le> n * (cardWidth s n + 18)"
    using i assms(3) by (intro mult_right_mono) auto
  then have "int i * (cardWidth s n + 18) + cardWidth s n \<le> rw s"
    using cards_fit [OF assms(1), of s] by (simp add: algebra_simps)
  moreover have "cardHeight s n n \<le> rh s - 54"
    using assms(1,2) by (simp add: cardHeight_def Let_def)
  ultimately show "inside (cardRects s n number page n ! i) s"
    using assms(3) by (simp add: at [OF assms(4)] inside_def rect_def)
  assume "j < i"
  then have "(int j + 1) * (cardWidth s n + 18) \<le> int i * (cardWidth s n + 18)"
    using assms(3) by (intro mult_right_mono) auto
  moreover have "j < length (cardRects s n number page n)" using \<open>j < i\<close> assms(4) by simp
  ultimately show "rx (cardRects s n number page n ! j) + rw (cardRects s n number page n ! j) < rx (cardRects s n number page n ! i)"
    by (simp add: at assms(4) rect_def algebra_simps)
qed

text \<open>
  Whatever the size of the window and however many rooms there are, the cards of a page lie
  inside their section and side by side without touching; there are at most four of them, and the
  sections do not overlap.
\<close>

theorem cards_lie_apart:
  fixes w h a b p q :: int and r :: bool
  defines "L \<equiv> calculate w h a b p q r"
  shows "(\<forall>c \<in> set (waitingCards L). inside c (waitingSection L)) \<and> (\<forall>c \<in> set (activeCards L). inside c (activeSection L)) \<and>
    sorted_wrt (\<lambda>c d. rx c + rw c < rx d) (waitingCards L) \<and> sorted_wrt (\<lambda>c d. rx c + rw c < rx d) (activeCards L) \<and>
    length (waitingCards L) \<le> 4 \<and> length (activeCards L) \<le> 4 \<and>
    ry (waitingSection L) + rh (waitingSection L) < ry (activeSection L)"
proof -
  define n where "n = columnsForWidth (max w MinimumWidth)"
  have n: "0 < n" "n \<le> 4" by (simp_all add: n_def columnsForWidth_def)
  have row: "(\<forall>c \<in> set (cardRects s n k page n). inside c s) \<and> sorted_wrt (\<lambda>c d. rx c + rw c < rx d) (cardRects s n k page n)
      \<and> length (cardRects s n k page n) \<le> 4"
    if "174 \<le> rh s" "1128 \<le> rw s" for s k page
  proof -
    have "0 \<le> cardWidth s n" unfolding n_def by (rule cardWidth_nonneg [OF that(2)])
    note each = cards_row [OF n(1) that(1) this]
    have "length (cardRects s n k page n) \<le> 4" using n(2) unfolding length_cardRects by linarith
    then show ?thesis using each by (auto simp: in_set_conv_nth sorted_wrt_iff_nth_less)
  qed
  have "ry (waitingSection L) + rh (waitingSection L) < ry (activeSection L)"
    by (simp add: L_def calculate_def Let_def rect_def)
  then show ?thesis
    using row [OF section_size(1) section_width(1)] row [OF section_size(2) section_width(2)]
    unfolding L_def waiting_calculate n_def [symmetric] by blast
qed

section \<open>What a click names\<close>

lemma cardAction_names:
  assumes "cardAction contains pt kind rooms k cards = Some (x, i)" "0 \<le> k"
  shows "x = kind \<and> (\<exists>j < length cards. k + int j < int (length rooms) \<and> i = roomId (rooms ! nat (k + int j)) \<and>
    contains (cardActionButton (cards ! j)) pt)"
  using assms
proof (induction contains pt kind rooms k cards rule: cardAction.induct)
  case (2 contains pt kind rooms k r cards)
  show ?case
  proof (cases "k < int (length rooms) \<and> contains (cardActionButton r) pt")
    case True
    then show ?thesis using 2(2) by (auto intro!: exI [of _ 0])
  next
    case False
    then have "cardAction contains pt kind rooms (k + 1) cards = Some (x, i)" using 2(2) by auto
    from 2(1) [OF False this] 2(3) obtain j where "x = kind" "j < length cards" "k + 1 + int j < int (length rooms)"
      "i = roomId (rooms ! nat (k + 1 + int j))" "contains (cardActionButton (cards ! j)) pt" by auto
    then show ?thesis by (intro conjI exI [of _ "Suc j"]) (auto simp: algebra_simps)
  qed
qed simp

text \<open>A click that asks to join or to watch names a room of the list that belongs to it: the room of
  the card that is drawn under the point, on the page that is shown.
\<close>

theorem click_names_the_room_under_it:
  fixes v :: LobbyViewModel and w h :: int and contains :: "Rect \<Rightarrow> point \<Rightarrow> bool"
  defines "L \<equiv> calculate w h (int (length (waitingRooms v))) (int (length (activeRooms v)))
      (waitingPage v) (activePage v) (authMode v = RegisterMode)"
  assumes "mapClick contains pt v L = (kind, i)" "kind \<in> {JoinPublicRoom, WatchRoom}"
    and "0 \<le> waitingPage v" "0 \<le> activePage v"
  shows "screen v = LobbyScreen \<and> modal v = NoModal \<and>
    (if kind = JoinPublicRoom
     then \<exists>j < length (waitingCards L). waitingPage v * columns L + int j < int (length (waitingRooms v)) \<and>
        i = roomId (waitingRooms v ! nat (waitingPage v * columns L + int j)) \<and>
        contains (cardActionButton (waitingCards L ! j)) pt
     else \<exists>j < length (activeCards L). activePage v * columns L + int j < int (length (activeRooms v)) \<and>
        i = roomId (activeRooms v ! nat (activePage v * columns L + int j)) \<and>
        contains (cardActionButton (activeCards L ! j)) pt)"
proof -
  have same: "cardsPerPage L = columns L" "0 \<le> columns L" by (simp_all add: L_def less_imp_le)
  have pos: "0 \<le> waitingPage v * cardsPerPage L" "0 \<le> activePage v * cardsPerPage L"
    using assms(4,5) same by simp_all
  have lobby: "screen v = LobbyScreen" "modal v = NoModal"
    using assms(2,3) by (cases "modal v"; auto simp: mapClick_def Let_def split: if_split_asm)+
  define joins where "joins = cardAction contains pt JoinPublicRoom (waitingRooms v) (waitingPage v * cardsPerPage L) (waitingCards L)"
  define watches where "watches = cardAction contains pt WatchRoom (activeRooms v) (activePage v * cardsPerPage L) (activeCards L)"
  have "joins = Some (kind, i) \<or> watches = Some (kind, i)"
    using assms(2,3) lobby by (auto simp: mapClick_def Let_def joins_def [symmetric] watches_def [symmetric]
      split: if_split_asm option.split_asm)
  then show ?thesis
    using lobby cardAction_names [OF _ pos(1), of contains pt JoinPublicRoom "waitingRooms v" "waitingCards L" kind i]
      cardAction_names [OF _ pos(2), of contains pt WatchRoom "activeRooms v" "activeCards L" kind i]
    unfolding joins_def watches_def same by auto
qed

text \<open>The witness reads \<open>contains\<close> as OpenCV documents it: the right and lower edges are outside.\<close>

definition halfOpen :: "Rect \<Rightarrow> point \<Rightarrow> bool" where
  "halfOpen r pt \<longleftrightarrow> rx r \<le> fst pt \<and> fst pt < rx r + rw r \<and> ry r \<le> snd pt \<and> snd pt < ry r + rh r"

definition oneRoom :: LobbyRoom where
  "oneRoom = \<lparr>roomId = ''r1'', roomName = ''room'', visibility = ''public'', roomStatus = ''waiting'', host = None,
     whiteUser = None, blackUser = None, roomCode = None, createdAt = [], roomSpectators = 0\<rparr>"

definition oneRoomView :: LobbyViewModel where
  "oneRoomView = newLobbyView\<lparr>screen := LobbyScreen, waitingRooms := [oneRoom]\<rparr>"

theorem click_names_the_room_under_it_witness:
  "mapClick halfOpen (290, 340) oneRoomView (calculate 800 600 1 0 0 0 False) = (JoinPublicRoom, ''r1'') \<and>
   (\<exists>j < length (waitingCards (calculate 800 600 1 0 0 0 False)).
      halfOpen (cardActionButton (waitingCards (calculate 800 600 1 0 0 0 False) ! j)) (290, 340))"
proof -
  have v: "length (waitingRooms oneRoomView) = 1" "length (activeRooms oneRoomView) = 0" "waitingPage oneRoomView = 0"
    "activePage oneRoomView = 0" "authMode oneRoomView = LoginMode"
    by (simp_all add: oneRoomView_def newLobbyView_def)
  have "mapClick halfOpen (290, 340) oneRoomView (calculate 800 600 1 0 0 0 False) = (JoinPublicRoom, ''r1'')"
    by code_simp
  then show ?thesis
    using click_names_the_room_under_it [of halfOpen "(290, 340)" oneRoomView 800 600 JoinPublicRoom "''r1''"]
    by (auto simp: v)
qed

end
