(* ===== verification/Visuals.thy ===== *)
theory Visuals
  imports Complex_Main Messages
begin

text \<open>
  What the client draws, up to the drawing itself: the state, place and picture of every piece
  (\<open>src/client/desktop_client/src/Graphics/\<close>, files \<open>VisualState\<close>, \<open>VisualStateMachine\<close>, \<open>VisualMotion\<close>,
  \<open>AnimationPlayer\<close>, \<open>AnimatedPiece\<close> and \<open>VisualSnapshotBuilder\<close>). Places are computed with exact
  rational numbers where the code uses \<open>double\<close>, so rounding is left out. The animation library, which
  reads the files of the assets, is a parameter.
\<close>

section \<open>Visual states\<close>

datatype VisualState = VisualIdle | VisualMove | VisualJump | ShortRest | LongRest | VisualCaptured

definition visualStateToFolderName :: "VisualState \<Rightarrow> string" where
  "visualStateToFolderName state =
     (case state of
        VisualIdle \<Rightarrow> ''idle'' | VisualMove \<Rightarrow> ''move'' | VisualJump \<Rightarrow> ''jump''
      | ShortRest \<Rightarrow> ''short_rest'' | LongRest \<Rightarrow> ''long_rest'' | VisualCaptured \<Rightarrow> ''captured'')"

definition chooseState :: "PieceState \<Rightarrow> int \<Rightarrow> int \<Rightarrow> VisualState" where
  "chooseState pieceState remaining total_ms =
     (if pieceState = Captured then VisualCaptured
      else if pieceState = Moving then VisualMove
      else if pieceState = Airborne then VisualJump
      else if remaining > 0 then (if total_ms \<ge> 5000 then LongRest else ShortRest)
      else VisualIdle)"

section \<open>Visual motions\<close>

record VisualMotion =
  fromRow :: int
  fromCol :: int
  toRow :: int
  toCol :: int
  vmElapsedMs :: int
  vmDurationMs :: int
  vmActive :: bool

definition VISUAL_MOVE_TIME_PER_CELL_MS :: int where "VISUAL_MOVE_TIME_PER_CELL_MS = 1000"

definition createVisualMotion :: "int \<Rightarrow> int \<Rightarrow> int \<Rightarrow> int \<Rightarrow> VisualMotion" where
  "createVisualMotion r1 c1 r2 c2 =
     (let cellDistance = max \<bar>r2 - r1\<bar> \<bar>c2 - c1\<bar>; d = cellDistance * VISUAL_MOVE_TIME_PER_CELL_MS
      in \<lparr>fromRow = r1, fromCol = c1, toRow = r2, toCol = c2, vmElapsedMs = 0,
          vmDurationMs = (if d \<le> 0 then VISUAL_MOVE_TIME_PER_CELL_MS else d), vmActive = True\<rparr>)"

definition getMotionProgress :: "VisualMotion \<Rightarrow> rat" where
  "getMotionProgress m =
     (if \<not> vmActive m then 1
      else if vmDurationMs m \<le> 0 then 1
      else let progress = of_int (vmElapsedMs m) / of_int (vmDurationMs m)
           in if progress < 0 then 0 else if progress > 1 then 1 else progress)"

section \<open>Playing an animation\<close>

record AnimationPlayer =
  framePaths :: "string list"
  currentFrameIndex :: int
  framesPerSecond :: int
  looped :: bool
  playedMs :: int

definition newAnimationPlayer :: AnimationPlayer where
  "newAnimationPlayer = \<lparr>framePaths = [], currentFrameIndex = 0, framesPerSecond = 8, looped = True, playedMs = 0\<rparr>"

definition setFrames :: "string list \<Rightarrow> int \<Rightarrow> bool \<Rightarrow> AnimationPlayer \<Rightarrow> AnimationPlayer" where
  "setFrames paths fps shouldLoop p = p\<lparr>framePaths := paths, framesPerSecond := fps, looped := shouldLoop,
     currentFrameIndex := 0, playedMs := 0\<rparr>"

definition advanceFrame :: "int \<Rightarrow> AnimationPlayer \<Rightarrow> AnimationPlayer" where
  "advanceFrame frameDurationMs p =
     (let p = p\<lparr>playedMs := playedMs p - frameDurationMs, currentFrameIndex := currentFrameIndex p + 1\<rparr> in
      if currentFrameIndex p \<ge> int (length (framePaths p))
      then p\<lparr>currentFrameIndex := (if looped p then 0 else int (length (framePaths p)) - 1)\<rparr>
      else p)"

text \<open>The loop of \<open>update\<close> does not end when a frame lasts no time, so it is a partial function.\<close>

partial_function (option) frameLoop :: "int \<Rightarrow> AnimationPlayer \<Rightarrow> AnimationPlayer option" where
  "frameLoop frameDurationMs p =
     (if playedMs p \<ge> frameDurationMs then frameLoop frameDurationMs (advanceFrame frameDurationMs p) else Some p)"

declare frameLoop.simps [code]

definition playerUpdate :: "int \<Rightarrow> AnimationPlayer \<Rightarrow> AnimationPlayer option" where
  "playerUpdate deltaMs p =
     (if framePaths p = [] then Some p
      else if framesPerSecond p \<le> 0 then Some p
      else frameLoop (1000 div framesPerSecond p) (p\<lparr>playedMs := playedMs p + deltaMs\<rparr>))"

definition getCurrentFramePath :: "AnimationPlayer \<Rightarrow> string" where
  "getCurrentFramePath p = (if framePaths p = [] then [] else framePaths p ! nat (currentFrameIndex p))"

section \<open>Animated pieces\<close>

record AnimationLibrary =
  getFramePaths :: "string \<Rightarrow> VisualState \<Rightarrow> string list"
  getFramesPerSecond :: "string \<Rightarrow> VisualState \<Rightarrow> int"
  isLoop :: "string \<Rightarrow> VisualState \<Rightarrow> bool"

record AnimatedPiece =
  pieceCode :: string
  visualState :: VisualState
  ap_row :: int
  ap_col :: int
  ap_pixelX :: rat
  ap_pixelY :: rat
  ap_cooldownRatio :: rat
  animationPlayer :: AnimationPlayer

definition loadAnimation :: "AnimationLibrary \<Rightarrow> AnimatedPiece \<Rightarrow> AnimatedPiece" where
  "loadAnimation lib p =
     (let frames = getFramePaths lib (pieceCode p) (visualState p);
          frames' = (if frames = [] \<and> visualState p \<noteq> VisualIdle
                     then getFramePaths lib (pieceCode p) VisualIdle else frames)
      in if frames' = [] then p
         else p\<lparr>animationPlayer := setFrames frames' (getFramesPerSecond lib (pieceCode p) (visualState p))
                  (isLoop lib (pieceCode p) (visualState p)) (animationPlayer p)\<rparr>)"

definition newAnimatedPiece ::
    "AnimationLibrary \<Rightarrow> string \<Rightarrow> VisualState \<Rightarrow> int \<Rightarrow> int \<Rightarrow> rat \<Rightarrow> rat \<Rightarrow> rat \<Rightarrow> AnimatedPiece" where
  "newAnimatedPiece lib code st r c x y ratio = loadAnimation lib
     \<lparr>pieceCode = code, visualState = st, ap_row = r, ap_col = c, ap_pixelX = x, ap_pixelY = y,
      ap_cooldownRatio = ratio, animationPlayer = newAnimationPlayer\<rparr>"

definition pieceUpdate :: "int \<Rightarrow> AnimatedPiece \<Rightarrow> AnimatedPiece option" where
  "pieceUpdate deltaMs p = map_option (\<lambda>a. p\<lparr>animationPlayer := a\<rparr>) (playerUpdate deltaMs (animationPlayer p))"

definition setVisualState :: "AnimationLibrary \<Rightarrow> VisualState \<Rightarrow> AnimatedPiece \<Rightarrow> AnimatedPiece" where
  "setVisualState lib st p = (if visualState p = st then p else loadAnimation lib (p\<lparr>visualState := st\<rparr>))"

definition setPixelPosition :: "rat \<Rightarrow> rat \<Rightarrow> AnimatedPiece \<Rightarrow> AnimatedPiece" where
  "setPixelPosition x y p = p\<lparr>ap_pixelX := x, ap_pixelY := y\<rparr>"

definition setCooldownRatio :: "rat \<Rightarrow> AnimatedPiece \<Rightarrow> AnimatedPiece" where
  "setCooldownRatio ratio p = p\<lparr>ap_cooldownRatio := (if ratio < 0 then 0 else if ratio > 1 then 1 else ratio)\<rparr>"

definition setBoardCell :: "int \<Rightarrow> int \<Rightarrow> AnimatedPiece \<Rightarrow> AnimatedPiece" where
  "setBoardCell r c p = p\<lparr>ap_row := r, ap_col := c\<rparr>"

definition setPieceCode :: "AnimationLibrary \<Rightarrow> string \<Rightarrow> AnimatedPiece \<Rightarrow> AnimatedPiece" where
  "setPieceCode lib code p = (if pieceCode p = code then p else loadAnimation lib (p\<lparr>pieceCode := code\<rparr>))"

record VisualPiece =
  vp_pieceId :: int
  vp_pieceCode :: string
  vp_state :: VisualState
  vp_row :: int
  vp_col :: int
  vp_pixelX :: rat
  vp_pixelY :: rat
  vp_cooldownRatio :: rat
  imagePath :: string
  opacity :: rat
  alignVisibleCenter :: bool

definition toVisualPiece :: "AnimatedPiece \<Rightarrow> VisualPiece" where
  "toVisualPiece p = \<lparr>vp_pieceId = -1, vp_pieceCode = pieceCode p, vp_state = visualState p, vp_row = ap_row p,
     vp_col = ap_col p, vp_pixelX = ap_pixelX p, vp_pixelY = ap_pixelY p, vp_cooldownRatio = ap_cooldownRatio p,
     imagePath = getCurrentFramePath (animationPlayer p), opacity = 1, alignVisibleCenter = False\<rparr>"

section \<open>Building the picture of a state\<close>

definition clampProgress :: "rat \<Rightarrow> rat" where
  "clampProgress progress = max 0 (min 1 progress)"

definition pieceStateFromString :: "string \<Rightarrow> PieceState" where
  "pieceStateFromString s =
     (if s = ''moving'' then Moving else if s = ''airborne'' then Airborne
      else if s = ''captured'' then Captured else Idle)"

definition calculateCooldownRatio :: "PieceSnapshot \<Rightarrow> rat" where
  "calculateCooldownRatio p =
     (if ps_totalCooldownMs p \<le> 0 \<or> ps_remainingCooldownMs p \<le> 0 then 0
      else clampProgress (of_int (ps_remainingCooldownMs p) / of_int (ps_totalCooldownMs p)))"

record VisualPlacement =
  pl_row :: int
  pl_col :: int
  pixelX :: rat
  pixelY :: rat

record VisualSnapshotBuilder =
  boardStartX :: int
  boardStartY :: int
  cellSizeX :: int
  cellSizeY :: int
  spriteSize :: int
  cachedPieces :: "(int \<times> AnimatedPiece) list"

definition newVisualSnapshotBuilder :: "int \<Rightarrow> int \<Rightarrow> int \<Rightarrow> int \<Rightarrow> int \<Rightarrow> VisualSnapshotBuilder" where
  "newVisualSnapshotBuilder x y w h sprite = \<lparr>boardStartX = x, boardStartY = y, cellSizeX = w, cellSizeY = h,
     spriteSize = sprite, cachedPieces = []\<rparr>"

definition cellCenterX :: "VisualSnapshotBuilder \<Rightarrow> int \<Rightarrow> rat" where
  "cellCenterX b c = of_int (boardStartX b + c * cellSizeX b) + of_int (cellSizeX b) / 2"

definition cellCenterY :: "VisualSnapshotBuilder \<Rightarrow> int \<Rightarrow> rat" where
  "cellCenterY b r = of_int (boardStartY b + r * cellSizeY b) + of_int (cellSizeY b) / 2"

definition findCachedPiece :: "int \<Rightarrow> VisualSnapshotBuilder \<Rightarrow> AnimatedPiece option" where
  "findCachedPiece i b = map_of (cachedPieces b) i"

definition findMovement :: "GameStateSnapshot \<Rightarrow> int \<Rightarrow> MotionSnapshot option" where
  "findMovement s i = find (\<lambda>m. ms_pieceId m = i) (snapMotions s)"

definition findJump :: "GameStateSnapshot \<Rightarrow> int \<Rightarrow> JumpSnapshot option" where
  "findJump s i = find (\<lambda>j. js_pieceId j = i) (snapJumps s)"

definition removeMissingPieces :: "int list \<Rightarrow> VisualSnapshotBuilder \<Rightarrow> VisualSnapshotBuilder" where
  "removeMissingPieces visiblePieceIds b =
     b\<lparr>cachedPieces := filter (\<lambda>c. fst c \<in> set visiblePieceIds) (cachedPieces b)\<rparr>"

definition applyMovement :: "VisualSnapshotBuilder \<Rightarrow> MotionSnapshot \<Rightarrow> int \<Rightarrow> VisualPlacement" where
  "applyMovement b m currentTimeMs =
     (let r = getRow (ms_currentCell m); c = getCol (ms_currentCell m);
          startX = cellCenterX b c; startY = cellCenterY b r
      in if ms_stepDurationMs m \<le> 0 then \<lparr>pl_row = r, pl_col = c, pixelX = startX, pixelY = startY\<rparr>
         else let nextCell = (if ms_directMove m then ms_destination m
                              else Position (r + ms_rowStep m) (c + ms_colStep m));
                  segmentStartTimeMs = ms_nextStepTimeMs m - ms_stepDurationMs m;
                  progress = clampProgress (of_int (currentTimeMs - segmentStartTimeMs) / of_int (ms_stepDurationMs m))
              in \<lparr>pl_row = r, pl_col = c,
                  pixelX = startX + (cellCenterX b (getCol nextCell) - startX) * progress,
                  pixelY = startY + (cellCenterY b (getRow nextCell) - startY) * progress\<rparr>)"

definition JUMP_DURATION_MS :: int where "JUMP_DURATION_MS = 1000"

definition JUMP_HEIGHT_PIXELS :: rat where "JUMP_HEIGHT_PIXELS = 70"

definition applyJump :: "VisualPlacement \<Rightarrow> JumpSnapshot \<Rightarrow> int \<Rightarrow> VisualPlacement" where
  "applyJump placement j currentTimeMs =
     (let startTimeMs = js_finishTimeMs j - JUMP_DURATION_MS;
          progress = clampProgress (of_int (currentTimeMs - startTimeMs) / of_int JUMP_DURATION_MS);
          jumpArc = 4 * progress * (1 - progress)
      in placement\<lparr>pixelY := pixelY placement - JUMP_HEIGHT_PIXELS * jumpArc\<rparr>)"

definition calculatePlacement :: "VisualSnapshotBuilder \<Rightarrow> GameStateSnapshot \<Rightarrow> PieceSnapshot \<Rightarrow> VisualPlacement" where
  "calculatePlacement b s p =
     (let r = getRow (ps_position p); c = getCol (ps_position p);
          resting = \<lparr>pl_row = r, pl_col = c, pixelX = cellCenterX b c, pixelY = cellCenterY b r\<rparr>;
          moved = (case findMovement s (ps_id p) of None \<Rightarrow> resting | Some m \<Rightarrow> applyMovement b m (serverTimeMs s))
      in case findJump s (ps_id p) of None \<Rightarrow> moved | Some j \<Rightarrow> applyJump moved j (serverTimeMs s))"

definition getOrCreateCachedPiece ::
    "AnimationLibrary \<Rightarrow> PieceSnapshot \<Rightarrow> VisualState \<Rightarrow> VisualPlacement \<Rightarrow> rat \<Rightarrow> VisualSnapshotBuilder \<Rightarrow> VisualSnapshotBuilder" where
  "getOrCreateCachedPiece lib p st placement ratio b =
     (case findCachedPiece (ps_id p) b of
        Some _ \<Rightarrow> b
      | None \<Rightarrow> b\<lparr>cachedPieces := cachedPieces b @
          [(ps_id p, newAnimatedPiece lib (ps_token p) st (pl_row placement) (pl_col placement)
              (pixelX placement) (pixelY placement) ratio)]\<rparr>)"

text \<open>What is done to the piece of the cache.\<close>

definition updateCachedPiece ::
    "AnimationLibrary \<Rightarrow> PieceSnapshot \<Rightarrow> VisualState \<Rightarrow> VisualPlacement \<Rightarrow> rat \<Rightarrow> int \<Rightarrow> AnimatedPiece \<Rightarrow> AnimatedPiece option" where
  "updateCachedPiece lib p st placement ratio deltaMs a =
     pieceUpdate deltaMs (setCooldownRatio ratio (setPixelPosition (pixelX placement) (pixelY placement)
       (setBoardCell (pl_row placement) (pl_col placement) (setVisualState lib st (setPieceCode lib (ps_token p) a)))))"

text \<open>The first cached piece with an id, changed in place.\<close>

fun changeCached :: "int \<Rightarrow> (AnimatedPiece \<Rightarrow> AnimatedPiece option) \<Rightarrow> (int \<times> AnimatedPiece) list \<Rightarrow> (int \<times> AnimatedPiece) list option" where
  "changeCached i f [] = Some []"
| "changeCached i f ((k, a) # cs) =
     (if k = i then map_option (\<lambda>a'. (k, a') # cs) (f a)
      else map_option (Cons (k, a)) (changeCached i f cs))"

definition createSnapshot :: "VisualSnapshotBuilder \<Rightarrow> VisualPiece list" where
  "createSnapshot b = map (\<lambda>(i, a). (toVisualPiece a)\<lparr>vp_pieceId := i\<rparr>) (cachedPieces b)"

definition buildPiece ::
    "AnimationLibrary \<Rightarrow> GameStateSnapshot \<Rightarrow> int \<Rightarrow> PieceSnapshot \<Rightarrow> VisualSnapshotBuilder \<Rightarrow> VisualSnapshotBuilder option" where
  "buildPiece lib s deltaMs p b =
     (let st = chooseState (pieceStateFromString (ps_state p)) (ps_remainingCooldownMs p) (ps_totalCooldownMs p);
          ratio = calculateCooldownRatio p; placement = calculatePlacement b s p;
          b1 = getOrCreateCachedPiece lib p st placement ratio b
      in map_option (\<lambda>cs. b1\<lparr>cachedPieces := cs\<rparr>)
           (changeCached (ps_id p) (updateCachedPiece lib p st placement ratio deltaMs) (cachedPieces b1)))"

fun buildLoop ::
    "AnimationLibrary \<Rightarrow> GameStateSnapshot \<Rightarrow> int \<Rightarrow> PieceSnapshot list \<Rightarrow> VisualSnapshotBuilder \<Rightarrow> VisualSnapshotBuilder option" where
  "buildLoop lib s deltaMs [] b = Some b"
| "buildLoop lib s deltaMs (p # ps) b =
     (if ps_state p = ''captured'' then buildLoop lib s deltaMs ps b
      else case buildPiece lib s deltaMs p b of None \<Rightarrow> None | Some b1 \<Rightarrow> buildLoop lib s deltaMs ps b1)"

definition visibleIds :: "GameStateSnapshot \<Rightarrow> int list" where
  "visibleIds s = map ps_id (filter (\<lambda>p. ps_state p \<noteq> ''captured'') (snapPieces s))"

definition buildVisuals ::
    "AnimationLibrary \<Rightarrow> GameStateSnapshot \<Rightarrow> int \<Rightarrow> VisualSnapshotBuilder \<Rightarrow> (VisualPiece list \<times> VisualSnapshotBuilder) option" where
  "buildVisuals lib s deltaMs b =
     map_option (\<lambda>b1. let b2 = removeMissingPieces (visibleIds s) b1 in (createSnapshot b2, b2))
       (buildLoop lib s deltaMs (snapPieces s) b)"

end
