(* ===== verification/Visual_Properties.thy ===== *)
theory Visual_Properties
  imports Visuals Snapshot
begin

text \<open>
  Properties of what is drawn: animations play on, pieces move without jumping, and the picture shows
  exactly the pieces of the state.
\<close>

section \<open>The frame of an animation\<close>

lemma advanceFrame_played [simp]: "playedMs (advanceFrame d p) = playedMs p - d"
  and advanceFrame_paths [simp]: "framePaths (advanceFrame d p) = framePaths p"
  and advanceFrame_fps [simp]: "framesPerSecond (advanceFrame d p) = framesPerSecond p"
  and advanceFrame_looped [simp]: "looped (advanceFrame d p) = looped p"
  by (simp_all add: advanceFrame_def Let_def)

text \<open>The frame \<open>k\<close> durations after frame \<open>i\<close> of \<open>n\<close>.\<close>

definition frameAfter :: "bool \<Rightarrow> int \<Rightarrow> int \<Rightarrow> int \<Rightarrow> int" where
  "frameAfter loop n i k = (if loop then (i + k) mod n else min (i + k) (n - 1))"

lemma advanceFrame_index:
  assumes "framePaths p \<noteq> []" "0 \<le> currentFrameIndex p" "currentFrameIndex p < int (length (framePaths p))"
  shows "currentFrameIndex (advanceFrame d p) = frameAfter (looped p) (int (length (framePaths p))) (currentFrameIndex p) 1"
    and "0 \<le> currentFrameIndex (advanceFrame d p)"
    and "currentFrameIndex (advanceFrame d p) < int (length (framePaths p))"
proof -
  consider "currentFrameIndex p + 1 = int (length (framePaths p))" | "currentFrameIndex p + 1 < int (length (framePaths p))"
    using assms(3) by linarith
  then show "currentFrameIndex (advanceFrame d p) = frameAfter (looped p) (int (length (framePaths p))) (currentFrameIndex p) 1"
    using assms(2) by cases (simp_all add: advanceFrame_def Let_def frameAfter_def)
  show "0 \<le> currentFrameIndex (advanceFrame d p)" "currentFrameIndex (advanceFrame d p) < int (length (framePaths p))"
    using assms by (auto simp: advanceFrame_def Let_def)
qed

lemma frameAfter_step:
  assumes "0 < n" "0 \<le> k"
  shows "frameAfter loop n (frameAfter loop n i 1) k = frameAfter loop n i (k + 1)"
  using assms by (auto simp: frameAfter_def mod_simps algebra_simps)

lemma frameLoop_result:
  assumes "0 < d" "framePaths p \<noteq> []" "0 \<le> currentFrameIndex p" "currentFrameIndex p < int (length (framePaths p))"
    and "0 \<le> playedMs p"
  shows "frameLoop d p = Some (p\<lparr>playedMs := playedMs p mod d, currentFrameIndex :=
     frameAfter (looped p) (int (length (framePaths p))) (currentFrameIndex p) (playedMs p div d)\<rparr>)"
  using assms
proof (induction "nat (playedMs p)" arbitrary: p rule: less_induct)
  case less
  note i = advanceFrame_index [OF less.prems(2-4), of d]
  show ?case
  proof (cases "playedMs p \<ge> d")
    case False
    then have "playedMs p div d = 0" "playedMs p mod d = playedMs p" using less.prems by simp_all
    then show ?thesis using False less.prems(2-4) by (subst frameLoop.simps) (simp add: frameAfter_def)
  next
    case True
    define q where "q = advanceFrame d p"
    have "nat (playedMs q) < nat (playedMs p)" using True less.prems(1) by (simp add: q_def)
    from less.hyps [OF this less.prems(1)] have "frameLoop d q = Some (q\<lparr>playedMs := playedMs q mod d,
        currentFrameIndex := frameAfter (looped q) (int (length (framePaths q))) (currentFrameIndex q) (playedMs q div d)\<rparr>)"
      using i less.prems(2) True by (simp add: q_def)
    moreover have "playedMs q div d + 1 = playedMs p div d" "playedMs q mod d = playedMs p mod d" "0 \<le> playedMs q div d"
      using True less.prems(1) div_pos_geq [of d "playedMs p"] mod_pos_geq [of d "playedMs p"]
      by (simp_all add: q_def pos_imp_zdiv_nonneg_iff)
    ultimately have "frameLoop d q = Some (q\<lparr>playedMs := playedMs p mod d, currentFrameIndex :=
        frameAfter (looped p) (int (length (framePaths p))) (currentFrameIndex p) (playedMs p div d)\<rparr>)"
      using i(1) frameAfter_step [of "int (length (framePaths p))" "playedMs q div d"] less.prems(2) by (simp add: q_def)
    moreover have "q\<lparr>playedMs := a, currentFrameIndex := b\<rparr> = p\<lparr>playedMs := a, currentFrameIndex := b\<rparr>" for a b
      by (simp add: q_def advanceFrame_def Let_def)
    ultimately show ?thesis using True by (subst frameLoop.simps) (simp add: q_def)
  qed
qed

lemma frameLoop_returns: "0 < d \<Longrightarrow> \<exists>q. frameLoop d p = Some q \<and> framesPerSecond q = framesPerSecond p"
proof (induction "nat (playedMs p)" arbitrary: p rule: less_induct)
  case less
  show ?case
  proof (cases "playedMs p \<ge> d")
    case True
    then have "nat (playedMs (advanceFrame d p)) < nat (playedMs p)" using less.prems by simp
    from less.hyps [OF this less.prems] show ?thesis using True by (subst frameLoop.simps) simp
  qed (subst frameLoop.simps, simp)
qed

lemma frameLoop_stuck:
  assumes "frameLoop d p = Some q"
  shows "d = 0 \<longrightarrow> playedMs p < 0"
proof (rule frameLoop.raw_induct [where P = "\<lambda>d p q. d = 0 \<longrightarrow> playedMs p < 0", OF _ assms])
  fix f :: "int \<Rightarrow> AnimationPlayer \<Rightarrow> AnimationPlayer option" and d p q
  assume ih: "\<And>d p q. f d p = Some q \<Longrightarrow> d = 0 \<longrightarrow> playedMs p < 0"
    and body: "(if d \<le> playedMs p then f d (advanceFrame d p) else Some p) = Some q"
  show "d = 0 \<longrightarrow> playedMs p < 0"
  proof (cases "d \<le> playedMs p")
    case True
    then show ?thesis using ih [of d "advanceFrame d p" q] body by simp
  qed simp
qed

text \<open>Updating an animation returns unless the animation claims more than a thousand frames per second: then a
  frame lasts no time at all and the loop never ends.\<close>

theorem player_update_returns:
  "playerUpdate deltaMs p = None \<longleftrightarrow> framePaths p \<noteq> [] \<and> framesPerSecond p > 1000 \<and> playedMs p + deltaMs \<ge> 0"
proof (cases "framePaths p = [] \<or> framesPerSecond p \<le> 0")
  case True
  then show ?thesis by (auto simp: playerUpdate_def)
next
  case False
  let ?q = "p\<lparr>playedMs := playedMs p + deltaMs\<rparr>"
  have run: "playerUpdate deltaMs p = frameLoop (1000 div framesPerSecond p) ?q"
    using False by (simp add: playerUpdate_def)
  show ?thesis
  proof (cases "framesPerSecond p \<le> 1000")
    case True
    then have "0 < 1000 div framesPerSecond p" using False by (simp add: pos_imp_zdiv_pos_iff)
    then obtain q where "playerUpdate deltaMs p = Some q" using frameLoop_returns [of "1000 div framesPerSecond p" ?q] run by auto
    then show ?thesis using True by simp
  next
    case fast: False
    then have zero: "1000 div framesPerSecond p = 0" by simp
    show ?thesis
    proof (cases "playedMs p + deltaMs \<ge> 0")
      case True
      then have "frameLoop 0 ?q = None" using frameLoop_stuck [of 0 ?q] by (cases "frameLoop 0 ?q") auto
      then show ?thesis using True run zero fast False by simp
    next
      case before: False
      then have "frameLoop 0 ?q = Some ?q" by (subst frameLoop.simps) simp
      then show ?thesis using before run zero by simp
    qed
  qed
qed

text \<open>An animation shows the frame its time calls for, however the time is cut into updates: after an
  update it has moved on by one frame for each full frame duration played, around in a loop or up
  to the last frame, and keeps the rest of the time.\<close>

theorem player_shows_the_frame_due:
  assumes "framePaths p \<noteq> []" "0 < framesPerSecond p" "framesPerSecond p \<le> 1000"
    and "0 \<le> currentFrameIndex p" "currentFrameIndex p < int (length (framePaths p))" "0 \<le> playedMs p + deltaMs"
  shows "playerUpdate deltaMs p = Some (p\<lparr>playedMs := (playedMs p + deltaMs) mod (1000 div framesPerSecond p),
     currentFrameIndex := (if looped p
       then (currentFrameIndex p + (playedMs p + deltaMs) div (1000 div framesPerSecond p)) mod int (length (framePaths p))
       else min (currentFrameIndex p + (playedMs p + deltaMs) div (1000 div framesPerSecond p)) (int (length (framePaths p)) - 1))\<rparr>)"
proof -
  have "0 < 1000 div framesPerSecond p" using assms by (simp add: pos_imp_zdiv_pos_iff)
  from frameLoop_result [OF this, of "p\<lparr>playedMs := playedMs p + deltaMs\<rparr>"] show ?thesis
    using assms by (simp add: playerUpdate_def frameAfter_def)
qed

theorem player_shows_the_frame_due_witness:
  "playerUpdate 700 (setFrames [''a'', ''b'', ''c''] 8 True newAnimationPlayer) =
     Some ((setFrames [''a'', ''b'', ''c''] 8 True newAnimationPlayer)\<lparr>playedMs := 75, currentFrameIndex := 2\<rparr>)"
  using player_shows_the_frame_due [of "setFrames [''a'', ''b'', ''c''] 8 True newAnimationPlayer" 700]
  by (simp add: setFrames_def newAnimationPlayer_def)

section \<open>Where a moving piece is drawn\<close>

lemma clampProgress_bounds [simp]: "0 \<le> clampProgress x" "clampProgress x \<le> 1"
  by (simp_all add: clampProgress_def)

lemma clampProgress_id: "0 \<le> x \<Longrightarrow> x \<le> 1 \<Longrightarrow> clampProgress x = x"
  by (simp add: clampProgress_def)

text \<open>The cell a motion steps to next.\<close>

definition nextCell :: "Motion \<Rightarrow> Position" where
  "nextCell m = (if m_directMove m then m_destination m
     else Position (getRow (m_currentCell m) + m_rowStep m) (getCol (m_currentCell m) + m_colStep m))"

definition onSegment :: "rat \<Rightarrow> rat \<Rightarrow> rat \<Rightarrow> bool" where
  "onSegment a b x \<longleftrightarrow> min a b \<le> x \<and> x \<le> max a b"

lemma onSegment_progress:
  assumes "0 \<le> k" "k \<le> 1"
  shows "onSegment a b (a + (b - a) * k)"
proof (cases "a \<le> b")
  case True
  then have "0 \<le> (b - a) * k" using assms by simp
  moreover have "(b - a) * k \<le> (b - a) * 1" using assms True by (intro mult_left_mono) simp_all
  ultimately show ?thesis using True by (simp add: onSegment_def)
next
  case False
  then have "0 \<le> (a - b) * k" using assms by simp
  moreover have "(a - b) * k \<le> (a - b) * 1" using assms False by (intro mult_left_mono) simp_all
  ultimately show ?thesis using False by (simp add: onSegment_def algebra_simps)
qed

lemma applyMovement_place:
  assumes "0 < m_stepDurationMs m"
  shows "applyMovement b (makeMotionSnapshot g m) t =
    (let k = clampProgress (of_int (t - (m_nextStepTimeMs m - m_stepDurationMs m)) / of_int (m_stepDurationMs m));
         x = cellCenterX b (getCol (m_currentCell m)); y = cellCenterY b (getRow (m_currentCell m))
     in \<lparr>pl_row = getRow (m_currentCell m), pl_col = getCol (m_currentCell m),
         pixelX = x + (cellCenterX b (getCol (nextCell m)) - x) * k,
         pixelY = y + (cellCenterY b (getRow (nextCell m)) - y) * k\<rparr>)"
  using assms by (simp add: applyMovement_def makeMotionSnapshot_def nextCell_def Let_def)


definition demoMotion :: Motion where
  "demoMotion = \<lparr>m_piece = 3, m_source = Position 6 4, m_destination = Position 4 4, m_currentCell = Position 6 4,
     m_rowStep = -1, m_colStep = 0, m_directMove = False, m_stepDurationMs = 1000, m_nextStepTimeMs = 5000, m_order = 0\<rparr>"

definition emptyEngine :: GameEngine where
  "emptyEngine = newGameEngine (\<lambda>_. newPiece 0 White King) (newBoard 8 8) False"


section \<open>The pieces that are drawn\<close>

definition libOk :: "AnimationLibrary \<Rightarrow> bool" where
  "libOk lib \<longleftrightarrow> (\<forall>code st. getFramesPerSecond lib code st \<le> 1000)"

definition playerOk :: "AnimatedPiece \<Rightarrow> bool" where
  "playerOk a \<longleftrightarrow> framesPerSecond (animationPlayer a) \<le> 1000"

definition cacheOk :: "VisualSnapshotBuilder \<Rightarrow> bool" where
  "cacheOk b \<longleftrightarrow> distinct (map fst (cachedPieces b)) \<and> (\<forall>c \<in> set (cachedPieces b). playerOk (snd c))"

lemma playerOk_load: "libOk lib \<Longrightarrow> playerOk a \<Longrightarrow> playerOk (loadAnimation lib a)"
  by (simp add: loadAnimation_def playerOk_def setFrames_def libOk_def Let_def)

lemma load_fields [simp]:
  "pieceCode (loadAnimation lib a) = pieceCode a" "visualState (loadAnimation lib a) = visualState a"
  "ap_row (loadAnimation lib a) = ap_row a" "ap_col (loadAnimation lib a) = ap_col a"
  "ap_pixelX (loadAnimation lib a) = ap_pixelX a" "ap_pixelY (loadAnimation lib a) = ap_pixelY a"
  "ap_cooldownRatio (loadAnimation lib a) = ap_cooldownRatio a"
  by (simp_all add: loadAnimation_def Let_def)

lemma playerOk_new: "libOk lib \<Longrightarrow> playerOk (newAnimatedPiece lib c st r k x y q)"
  unfolding newAnimatedPiece_def by (rule playerOk_load) (simp_all add: playerOk_def newAnimationPlayer_def)

lemma playerUpdate_fps:
  assumes "framesPerSecond p \<le> 1000"
  obtains q where "playerUpdate d p = Some q" "framesPerSecond q = framesPerSecond p"
proof (cases "framePaths p = [] \<or> framesPerSecond p \<le> 0")
  case True
  then show ?thesis using that [of p] by (auto simp: playerUpdate_def)
next
  case False
  then have "0 < 1000 div framesPerSecond p" using assms by (simp add: pos_imp_zdiv_pos_iff)
  from frameLoop_returns [OF this, of "p\<lparr>playedMs := playedMs p + d\<rparr>"] show ?thesis
    using that False by (auto simp: playerUpdate_def)
qed

text \<open>What a drawn piece shows of a piece of the state.\<close>

definition showsPiece :: "VisualSnapshotBuilder \<Rightarrow> GameStateSnapshot \<Rightarrow> PieceSnapshot \<Rightarrow> AnimatedPiece \<Rightarrow> bool" where
  "showsPiece b s p a \<longleftrightarrow> pieceCode a = ps_token p \<and>
     visualState a = chooseState (pieceStateFromString (ps_state p)) (ps_remainingCooldownMs p) (ps_totalCooldownMs p) \<and>
     ap_row a = pl_row (calculatePlacement b s p) \<and> ap_col a = pl_col (calculatePlacement b s p) \<and>
     ap_pixelX a = pixelX (calculatePlacement b s p) \<and> ap_pixelY a = pixelY (calculatePlacement b s p) \<and>
     ap_cooldownRatio a = calculateCooldownRatio p"

lemma ratio_bounds: "0 \<le> calculateCooldownRatio p" "calculateCooldownRatio p \<le> 1"
  by (simp_all add: calculateCooldownRatio_def)

lemma updateCachedPiece_shows:
  assumes "libOk lib" "playerOk a"
  obtains a' where "updateCachedPiece lib p
       (chooseState (pieceStateFromString (ps_state p)) (ps_remainingCooldownMs p) (ps_totalCooldownMs p))
       (calculatePlacement b s p) (calculateCooldownRatio p) d a = Some a'"
    "showsPiece b s p a'" "playerOk a'"
proof -
  let ?st = "chooseState (pieceStateFromString (ps_state p)) (ps_remainingCooldownMs p) (ps_totalCooldownMs p)"
  let ?pl = "calculatePlacement b s p"
  define c where "c = setCooldownRatio (calculateCooldownRatio p) (setPixelPosition (pixelX ?pl) (pixelY ?pl)
     (setBoardCell (pl_row ?pl) (pl_col ?pl) (setVisualState lib ?st (setPieceCode lib (ps_token p) a))))"
  have "playerOk (setVisualState lib ?st (setPieceCode lib (ps_token p) a))"
    using assms playerOk_load by (simp add: setVisualState_def setPieceCode_def playerOk_def [of "_ \<lparr>pieceCode := _\<rparr>"]
      playerOk_def [of "_ \<lparr>visualState := _\<rparr>"]) (simp add: playerOk_def)
  then have ok: "playerOk c"
    by (simp add: c_def playerOk_def setCooldownRatio_def setPixelPosition_def setBoardCell_def)
  have c: "showsPiece b s p c"
    using ratio_bounds [of p]
    by (simp add: showsPiece_def c_def setCooldownRatio_def setPixelPosition_def setBoardCell_def setVisualState_def setPieceCode_def)
  obtain q where "playerUpdate d (animationPlayer c) = Some q" "framesPerSecond q = framesPerSecond (animationPlayer c)"
    using playerUpdate_fps ok unfolding playerOk_def by blast
  then show ?thesis using that [of "c\<lparr>animationPlayer := q\<rparr>"] ok c
    by (simp add: updateCachedPiece_def pieceUpdate_def c_def [symmetric] playerOk_def showsPiece_def)
qed

lemma changeCached_map:
  assumes "map_of cs i = Some a" "f a = Some a'"
  shows "\<exists>cs'. changeCached i f cs = Some cs' \<and> map fst cs' = map fst cs \<and>
    map_of cs' = (map_of cs)(i \<mapsto> a') \<and> set cs' \<subseteq> insert (i, a') (set cs)"
  using assms
proof (induction cs)
  case (Cons c cs)
  obtain k x where c: "c = (k, x)" by fastforce
  show ?case
  proof (cases "k = i")
    case False
    then have "map_of cs i = Some a" using Cons.prems(1) by (simp add: c)
    from Cons.IH [OF this Cons.prems(2)] obtain cs' where cs': "changeCached i f cs = Some cs'" "map fst cs' = map fst cs"
      "map_of cs' = (map_of cs)(i \<mapsto> a')" "set cs' \<subseteq> insert (i, a') (set cs)"
      by blast
    have "map_of ((k, x) # cs') = (map_of (c # cs))(i \<mapsto> a')" using False cs'(3) by (auto simp: c)
    moreover have "changeCached i f (c # cs) = Some ((k, x) # cs')" using False cs'(1) by (simp add: c)
    moreover have "map fst ((k, x) # cs') = map fst (c # cs)" "set ((k, x) # cs') \<subseteq> insert (i, a') (set (c # cs))"
      using cs'(2,4) by (auto simp: c)
    ultimately show ?thesis by blast
  qed (use Cons in \<open>auto simp: c\<close>)
qed simp

text \<open>Placement reads only the geometry of the builder.\<close>

definition geometry :: "VisualSnapshotBuilder \<Rightarrow> int \<times> int \<times> int \<times> int" where
  "geometry b = (boardStartX b, boardStartY b, cellSizeX b, cellSizeY b)"

lemma calculatePlacement_geometry: "geometry b = geometry b' \<Longrightarrow> calculatePlacement b s p = calculatePlacement b' s p"
  by (auto simp: geometry_def calculatePlacement_def applyMovement_def cellCenterX_def cellCenterY_def Let_def
    split: option.split)

lemma showsPiece_geometry: "geometry b = geometry b' \<Longrightarrow> showsPiece b s p a = showsPiece b' s p a"
  using calculatePlacement_geometry [of b b' s p] by (simp add: showsPiece_def)

lemma buildPiece_step:
  assumes "libOk lib" "cacheOk b"
  shows "\<exists>b' a. buildPiece lib s d p b = Some b' \<and> cacheOk b' \<and> geometry b' = geometry b \<and> showsPiece b' s p a \<and>
    map_of (cachedPieces b') = (map_of (cachedPieces b))(ps_id p \<mapsto> a)"
proof -
  let ?st = "chooseState (pieceStateFromString (ps_state p)) (ps_remainingCooldownMs p) (ps_totalCooldownMs p)"
  let ?pl = "calculatePlacement b s p"
  define b1 where "b1 = getOrCreateCachedPiece lib p ?st ?pl (calculateCooldownRatio p) b"
  have b1: "cacheOk b1 \<and> geometry b1 = geometry b \<and> (\<exists>a. map_of (cachedPieces b1) (ps_id p) = Some a \<and> playerOk a) \<and>
    (\<forall>y. (map_of (cachedPieces b1))(ps_id p := y) = (map_of (cachedPieces b))(ps_id p := y))"
  proof (cases "map_of (cachedPieces b) (ps_id p)")
    case None
    then have "ps_id p \<notin> fst ` set (cachedPieces b)" by (simp add: map_of_eq_None_iff)
    then show ?thesis using None assms
      by (auto simp: b1_def getOrCreateCachedPiece_def findCachedPiece_def cacheOk_def geometry_def playerOk_new map_add_def
        split: option.split)
  next
    case (Some a)
    then have "playerOk a" using assms(2) by (force simp: cacheOk_def dest: map_of_SomeD)
    then show ?thesis using Some assms(2) by (simp add: b1_def getOrCreateCachedPiece_def findCachedPiece_def)
  qed
  obtain a where a: "map_of (cachedPieces b1) (ps_id p) = Some a" "playerOk a" using b1 by blast
  obtain a' where a': "updateCachedPiece lib p ?st ?pl (calculateCooldownRatio p) d a = Some a'" "showsPiece b s p a'" "playerOk a'"
    by (rule updateCachedPiece_shows [OF assms(1) a(2)])
  from changeCached_map [where f = "updateCachedPiece lib p ?st ?pl (calculateCooldownRatio p) d", OF a(1) a'(1)] obtain cs' where cs': "changeCached (ps_id p) (updateCachedPiece lib p ?st ?pl
      (calculateCooldownRatio p) d) (cachedPieces b1) = Some cs'" "map fst cs' = map fst (cachedPieces b1)"
    "map_of cs' = (map_of (cachedPieces b1))(ps_id p \<mapsto> a')" "set cs' \<subseteq> insert (ps_id p, a') (set (cachedPieces b1))"
    by blast
  have "buildPiece lib s d p b = Some (b1\<lparr>cachedPieces := cs'\<rparr>)"
    using cs'(1) by (simp add: buildPiece_def b1_def Let_def)
  moreover have "cacheOk (b1\<lparr>cachedPieces := cs'\<rparr>)" using b1 cs'(2,4) a'(3) by (auto simp: cacheOk_def)
  moreover have g: "geometry (b1\<lparr>cachedPieces := cs'\<rparr>) = geometry b" using b1 by (simp add: geometry_def)
  moreover have "showsPiece (b1\<lparr>cachedPieces := cs'\<rparr>) s p a'" using showsPiece_geometry [OF g] a'(2) by simp
  moreover have "map_of (cachedPieces (b1\<lparr>cachedPieces := cs'\<rparr>)) = (map_of (cachedPieces b))(ps_id p \<mapsto> a')"
    using cs'(3) b1 by simp
  ultimately show ?thesis by blast
qed

lemma buildLoop_shows:
  assumes "libOk lib" "cacheOk b" "distinct (map ps_id (filter (\<lambda>p. ps_state p \<noteq> ''captured'') ps))"
  shows "\<exists>b'. buildLoop lib s d ps b = Some b' \<and> cacheOk b' \<and> geometry b' = geometry b \<and>
    (\<forall>i. i \<notin> ps_id ` {p \<in> set ps. ps_state p \<noteq> ''captured''} \<longrightarrow> map_of (cachedPieces b') i = map_of (cachedPieces b) i) \<and>
    (\<forall>p \<in> set ps. ps_state p \<noteq> ''captured'' \<longrightarrow> (\<exists>a. map_of (cachedPieces b') (ps_id p) = Some a \<and> showsPiece b' s p a))"
  using assms(2,3)
proof (induction ps arbitrary: b)
  case (Cons p ps)
  show ?case
  proof (cases "ps_state p = ''captured''")
    case True
    then have same: "{q \<in> set (p # ps). ps_state q \<noteq> ''captured''} = {q \<in> set ps. ps_state q \<noteq> ''captured''}" by auto
    have "distinct (map ps_id (filter (\<lambda>p. ps_state p \<noteq> ''captured'') ps))" using Cons.prems(2) True by simp
    from Cons.IH [OF Cons.prems(1) this] show ?thesis unfolding same using True by simp
  next
    case False
    obtain b1 a where b1: "buildPiece lib s d p b = Some b1" "cacheOk b1" "geometry b1 = geometry b" "showsPiece b1 s p a"
      "map_of (cachedPieces b1) = (map_of (cachedPieces b))(ps_id p \<mapsto> a)"
      using buildPiece_step [OF assms(1) Cons.prems(1)] by blast
    have d: "distinct (map ps_id (filter (\<lambda>p. ps_state p \<noteq> ''captured'') ps))"
      and new: "ps_id p \<notin> ps_id ` {p \<in> set ps. ps_state p \<noteq> ''captured''}"
      using Cons.prems(2) False by auto
    from Cons.IH [OF b1(2) d] obtain b' where b': "buildLoop lib s d ps b1 = Some b'" "cacheOk b'" "geometry b' = geometry b1"
      "\<forall>i. i \<notin> ps_id ` {p \<in> set ps. ps_state p \<noteq> ''captured''} \<longrightarrow> map_of (cachedPieces b') i = map_of (cachedPieces b1) i"
      "\<forall>p \<in> set ps. ps_state p \<noteq> ''captured'' \<longrightarrow> (\<exists>a. map_of (cachedPieces b') (ps_id p) = Some a \<and> showsPiece b' s p a)"
      by blast
    have "map_of (cachedPieces b') (ps_id p) = Some a" using b'(4) new b1(5) by simp
    moreover have "showsPiece b' s p a" using showsPiece_geometry [OF b'(3)] b1(4) by simp
    moreover have "\<forall>i. i \<notin> ps_id ` {q \<in> set (p # ps). ps_state q \<noteq> ''captured''} \<longrightarrow>
        map_of (cachedPieces b') i = map_of (cachedPieces b) i"
    proof (intro allI impI)
      fix i assume i: "i \<notin> ps_id ` {q \<in> set (p # ps). ps_state q \<noteq> ''captured''}"
      have "i \<notin> ps_id ` {q \<in> set ps. ps_state q \<noteq> ''captured''}" "i \<noteq> ps_id p" using i False by auto
      then show "map_of (cachedPieces b') i = map_of (cachedPieces b) i" using b'(4) b1(5) by simp
    qed
    ultimately show ?thesis using b1(1,3) b'(1,2,3,5) False by auto
  qed
qed simp

lemma built_picture:
  assumes "libOk lib" "cacheOk b" "distinct (visibleIds s)"
  shows "\<exists>vs b'. buildVisuals lib s d b = Some (vs, b') \<and> cacheOk b' \<and> distinct (map vp_pieceId vs) \<and>
    set (map vp_pieceId vs) = set (visibleIds s) \<and>
    (\<forall>p \<in> set (snapPieces s). ps_state p \<noteq> ''captured'' \<longrightarrow> (\<exists>v \<in> set vs. vp_pieceId v = ps_id p \<and>
       vp_pieceCode v = ps_token p \<and>
       vp_state v = chooseState (pieceStateFromString (ps_state p)) (ps_remainingCooldownMs p) (ps_totalCooldownMs p) \<and>
       vp_row v = pl_row (calculatePlacement b s p) \<and> vp_col v = pl_col (calculatePlacement b s p) \<and>
       vp_pixelX v = pixelX (calculatePlacement b s p) \<and> vp_pixelY v = pixelY (calculatePlacement b s p) \<and>
       vp_cooldownRatio v = calculateCooldownRatio p \<and> 0 \<le> vp_cooldownRatio v \<and> vp_cooldownRatio v \<le> 1))"
proof -
  from buildLoop_shows [OF assms(1,2), of "snapPieces s" s d] assms(3)
  obtain b1 where b1: "buildLoop lib s d (snapPieces s) b = Some b1" "cacheOk b1" "geometry b1 = geometry b"
    "\<forall>p \<in> set (snapPieces s). ps_state p \<noteq> ''captured'' \<longrightarrow> (\<exists>a. map_of (cachedPieces b1) (ps_id p) = Some a \<and> showsPiece b1 s p a)"
    unfolding visibleIds_def by blast
  define b' where "b' = removeMissingPieces (visibleIds s) b1"
  have kept: "cachedPieces b' = filter (\<lambda>c. fst c \<in> set (visibleIds s)) (cachedPieces b1)"
    by (simp add: b'_def removeMissingPieces_def)
  have ok: "cacheOk b'" using b1(2) by (auto simp: cacheOk_def kept distinct_map_filter_key)
  have ids: "map vp_pieceId (createSnapshot b') = map fst (cachedPieces b')"
    by (auto simp: createSnapshot_def)
  have each: "\<exists>v \<in> set (createSnapshot b'). vp_pieceId v = ps_id p \<and> vp_pieceCode v = ps_token p \<and>
       vp_state v = chooseState (pieceStateFromString (ps_state p)) (ps_remainingCooldownMs p) (ps_totalCooldownMs p) \<and>
       vp_row v = pl_row (calculatePlacement b s p) \<and> vp_col v = pl_col (calculatePlacement b s p) \<and>
       vp_pixelX v = pixelX (calculatePlacement b s p) \<and> vp_pixelY v = pixelY (calculatePlacement b s p) \<and>
       vp_cooldownRatio v = calculateCooldownRatio p \<and> 0 \<le> vp_cooldownRatio v \<and> vp_cooldownRatio v \<le> 1"
    if p: "p \<in> set (snapPieces s)" "ps_state p \<noteq> ''captured''" for p
  proof -
    obtain a where a: "map_of (cachedPieces b1) (ps_id p) = Some a" "showsPiece b1 s p a" using b1(4) p by blast
    have "(ps_id p, a) \<in> set (cachedPieces b')"
      using map_of_SomeD [OF a(1)] p by (auto simp: kept visibleIds_def)
    then have "(toVisualPiece a)\<lparr>vp_pieceId := ps_id p\<rparr> \<in> set (createSnapshot b')" by (force simp: createSnapshot_def)
    then show ?thesis
      using a(2) showsPiece_geometry [OF b1(3), of s p a] ratio_bounds [of p]
      by (intro bexI [of _ "(toVisualPiece a)\<lparr>vp_pieceId := ps_id p\<rparr>"]) (simp_all add: toVisualPiece_def showsPiece_def)
  qed
  have "set (visibleIds s) \<subseteq> fst ` set (cachedPieces b1)"
  proof
    fix i assume "i \<in> set (visibleIds s)"
    then obtain p where "p \<in> set (snapPieces s)" "ps_state p \<noteq> ''captured''" "i = ps_id p" by (auto simp: visibleIds_def)
    then obtain a where "map_of (cachedPieces b1) i = Some a" using b1(4) by blast
    then show "i \<in> fst ` set (cachedPieces b1)" by (force dest: map_of_SomeD)
  qed
  then have "set (map fst (cachedPieces b')) = set (visibleIds s)" by (auto simp: kept)
  moreover have "buildVisuals lib s d b = Some (createSnapshot b', b')"
    by (simp add: buildVisuals_def b1(1) b'_def Let_def)
  moreover have "distinct (map vp_pieceId (createSnapshot b'))" using ok by (simp add: ids cacheOk_def)
  ultimately show ?thesis using ok each ids by metis
qed


definition demoLibrary :: AnimationLibrary where
  "demoLibrary = \<lparr>getFramePaths = (\<lambda>code st. [''1.png'', ''2.png'']), getFramesPerSecond = (\<lambda>code st. 8), isLoop = (\<lambda>code st. True)\<rparr>"


end
