(* ===== verification/Config_Text.thy ===== *)
theory Config_Text
  imports Cpp_Text
begin

text \<open>
  How the program reads single values out of its JSON files: not with a parser but by searching for
  a regular expression, \<open>"key"\<close>, a colon and a value, with white space between
  (\<open>src/server/chess_server/include/Core/PieceConfig.hpp\<close> and
  \<open>src/client/desktop_client/src/Graphics/AnimationLibrary.cpp\<close>). The parts of the expressions cannot
  overlap, so no match has to be tried again; a search takes the leftmost match.
\<close>

definition quoted :: "string \<Rightarrow> string" where
  "quoted key = CHR 0x22 # key @ [CHR 0x22]"

text \<open>The rest after \<open>"key"\<close>, a colon and white space.\<close>

definition afterChar :: "char \<Rightarrow> string \<Rightarrow> string option" where
  "afterChar c s = (case skipSpace s of [] \<Rightarrow> None | d # r \<Rightarrow> if d = c then Some (skipSpace r) else None)"

definition afterKey :: "string \<Rightarrow> string \<Rightarrow> string option" where
  "afterKey key s =
     (if take (length (quoted key)) s = quoted key then afterChar (CHR '':'') (drop (length (quoted key)) s) else None)"

definition digitsOf :: "string \<Rightarrow> (string \<times> string) option" where
  "digitsOf s = (if takeWhile isdigit s = [] then None else Some (takeWhile isdigit s, dropWhile isdigit s))"

text \<open>\<open>std::regex_search\<close>: the first place where the expression matches.\<close>

fun searchFirst :: "(string \<Rightarrow> 'a option) \<Rightarrow> string \<Rightarrow> 'a option" where
  "searchFirst f [] = f []"
| "searchFirst f (c # cs) = (case f (c # cs) of Some x \<Rightarrow> Some x | None \<Rightarrow> searchFirst f cs)"

definition findNumber :: "string \<Rightarrow> string \<Rightarrow> string option" where
  "findNumber key = searchFirst (\<lambda>s. Option.bind (afterKey key s) (\<lambda>r. map_option fst (digitsOf r)))"

section \<open>What a search finds\<close>

lemma searchFirst_place:
  "searchFirst f s = Some x \<Longrightarrow> \<exists>i \<le> length s. f (drop i s) = Some x \<and> (\<forall>j < i. f (drop j s) = None)"
proof (induction s)
  case (Cons c cs)
  show ?case
  proof (cases "f (c # cs)")
    case None
    then obtain i where "i \<le> length cs" "f (drop i cs) = Some x" "\<forall>j < i. f (drop j cs) = None" using Cons by auto
    then show ?thesis using None by (intro exI [of _ "Suc i"]) (auto simp: less_Suc_eq_0_disj)
  qed (use Cons in auto)
qed simp

lemma findNumber_digits: "findNumber key s = Some ds \<Longrightarrow> ds \<noteq> [] \<and> list_all isdigit ds"
  unfolding findNumber_def
  by (drule searchFirst_place) (auto simp: digitsOf_def bind_eq_Some_conv list_all_iff split: if_splits dest: set_takeWhileD)

lemma stollDigits_nonneg: "stollDigits False s = Some (v, r) \<Longrightarrow> 0 \<le> v \<and> v \<le> LLONG_MAX"
  by (auto simp: stollDigits_def Let_def inLongLong_def split: if_splits)

lemma stoll_digits_nonneg:
  assumes "ds \<noteq> []" "list_all isdigit ds" "stoll ds = Some (v, r)"
  shows "0 \<le> v \<and> v \<le> LLONG_MAX"
proof -
  obtain c cs where ds: "ds = c # cs" "isdigit c" using assms by (cases ds) auto
  then have "stollDigits False ds = Some (v, r)"
    using assms(3) digitChar_plain [OF ds(2)] by (simp add: stoll_def skipSpace_def split: if_splits)
  then show ?thesis by (rule stollDigits_nonneg)
qed

end
