(* ===== verification/Animation_Files.thy ===== *)
theory Animation_Files
  imports Visuals Config_Text Protocol_Scan
begin

text \<open>
  The animation library, \<open>src/client/desktop_client/src/Graphics/AnimationLibrary.cpp\<close>. The files are a
  parameter: the names in a directory, when it exists, and the contents of a file. Exceptions are
  \<open>None\<close>. \<open>std::sort\<close> promises a result only when the comparison is a strict weak order on what is
  sorted, and then any order of what is equivalent; the model sorts by insertion.
\<close>

section \<open>Names of files\<close>

text \<open>\<open>stem\<close> and \<open>extension\<close> of \<open>std::filesystem::path\<close>: split at the last dot, unless it comes first.\<close>

definition extensionOf :: "string \<Rightarrow> string" where
  "extensionOf name =
     (let ext = takeWhile (\<lambda>c. c \<noteq> CHR ''.'') (rev name) in
      if name = ''.'' \<or> name = ''..'' \<or> length ext + 1 \<ge> length name then [] else CHR ''.'' # rev ext)"

definition stemOf :: "string \<Rightarrow> string" where
  "stemOf name = take (length name - length (extensionOf name)) name"

definition extractNumberFromFileName :: "string \<Rightarrow> int option" where
  "extractNumberFromFileName fileName =
     (let digits = filter isdigit fileName in
      if digits = [] then Some (-1)
      else Option.bind (stoll digits) (\<lambda>(v, r). if inInt v then Some v else None))"

section \<open>The order of frames\<close>

fun lessText :: "string \<Rightarrow> string \<Rightarrow> bool" where
  "lessText s [] = False"
| "lessText [] (d # ds) = True"
| "lessText (c # cs) (d # ds) = ((of_char c :: nat) < of_char d \<or> c = d \<and> lessText cs ds)"

definition frameLess :: "string \<times> int \<Rightarrow> string \<times> int \<Rightarrow> bool" where
  "frameLess a b = (if snd a \<noteq> -1 \<and> snd b \<noteq> -1 then snd a < snd b else lessText (fst a) (fst b))"

fun insertFrame :: "string \<times> int \<Rightarrow> (string \<times> int) list \<Rightarrow> (string \<times> int) list" where
  "insertFrame a [] = [a]"
| "insertFrame a (b # bs) = (if frameLess b a then b # insertFrame a bs else a # b # bs)"

definition sortFrames :: "(string \<times> int) list \<Rightarrow> (string \<times> int) list" where
  "sortFrames fs = foldr insertFrame fs []"

fun numbered :: "(string \<Rightarrow> string) \<Rightarrow> string list \<Rightarrow> (string \<times> int) list option" where
  "numbered place [] = Some []"
| "numbered place (n # ns) =
     (case extractNumberFromFileName (stemOf n) of
        None \<Rightarrow> None
      | Some k \<Rightarrow> map_option (Cons (place n, k)) (numbered place ns))"

section \<open>The library\<close>

definition SEP :: string where "SEP = [CHR 0x5C]"

definition buildStateFolderPath :: "string \<Rightarrow> VisualState \<Rightarrow> string" where
  "buildStateFolderPath code st = ''assets'' @ SEP @ ''pieces'' @ SEP @ code @ SEP @ ''states'' @ SEP @ visualStateToFolderName st"

definition buildSpritesFolderPath :: "string \<Rightarrow> VisualState \<Rightarrow> string" where
  "buildSpritesFolderPath code st = buildStateFolderPath code st @ SEP @ ''sprites''"

text \<open>A single file is sorted without a comparison, so its number is not read.\<close>

definition libraryFramePaths :: "(string \<Rightarrow> string list option) \<Rightarrow> string \<Rightarrow> VisualState \<Rightarrow> string list option" where
  "libraryFramePaths listing code st =
     (let folder = buildSpritesFolderPath code st in
      case listing folder of
        None \<Rightarrow> Some []
      | Some names \<Rightarrow>
          (let pngs = filter (\<lambda>n. extensionOf n = ''.png'') names; place = (\<lambda>n. folder @ SEP @ n) in
           if length pngs \<le> 1 then Some (map place pngs)
           else map_option (\<lambda>fs. map fst (sortFrames fs)) (numbered place pngs)))"

record AnimationConfig =
  frameCount :: int
  configFps :: int
  configLoop :: bool
  spriteWidth :: int
  spriteHeight :: int

definition newAnimationConfig :: AnimationConfig where
  "newAnimationConfig = \<lparr>frameCount = 1, configFps = 6, configLoop = True, spriteWidth = 320, spriteHeight = 320\<rparr>"

definition stoiDigits :: "string \<Rightarrow> int option" where
  "stoiDigits ds = Option.bind (stoll ds) (\<lambda>(v, r). if inInt v then Some v else None)"

definition configInt :: "string \<Rightarrow> string \<Rightarrow> int \<Rightarrow> int option" where
  "configInt contents key fallback =
     (case findNumber key contents of None \<Rightarrow> Some fallback | Some ds \<Rightarrow> stoiDigits ds)"

definition configBool :: "string \<Rightarrow> string \<Rightarrow> bool \<Rightarrow> bool" where
  "configBool contents key fallback =
     (case searchFirst (\<lambda>s. Option.bind (afterKey key s) (\<lambda>r.
             if take 4 r = ''true'' then Some True else if take 5 r = ''false'' then Some False else None)) contents of
        None \<Rightarrow> fallback | Some b \<Rightarrow> b)"

definition spriteSizeAt :: "string \<Rightarrow> (string \<times> string) option" where
  "spriteSizeAt s =
     Option.bind (afterKey ''sprite_size'' s) (\<lambda>r.
     Option.bind (afterChar (CHR ''['') r) (\<lambda>r.
     Option.bind (digitsOf r) (\<lambda>(w, r).
     Option.bind (afterChar (CHR '','') r) (\<lambda>r.
     map_option (\<lambda>(h, r). (w, h)) (digitsOf r)))))"

definition getConfig :: "(string \<Rightarrow> string option) \<Rightarrow> string \<Rightarrow> VisualState \<Rightarrow> AnimationConfig option" where
  "getConfig files code st =
     (case files (buildStateFolderPath code st @ SEP @ ''config.json'') of
        None \<Rightarrow> Some newAnimationConfig
      | Some contents \<Rightarrow>
          Option.bind (configInt contents ''frame_count'' (frameCount newAnimationConfig)) (\<lambda>n.
          Option.bind (configInt contents ''frames_per_sec'' (configFps newAnimationConfig)) (\<lambda>fps.
          let c = newAnimationConfig\<lparr>frameCount := n, configFps := fps,
                configLoop := configBool contents ''is_loop'' (configLoop newAnimationConfig)\<rparr>
          in case searchFirst spriteSizeAt contents of
               None \<Rightarrow> Some c
             | Some (w, h) \<Rightarrow>
                 Option.bind (stoiDigits w) (\<lambda>w.
                 Option.bind (stoiDigits h) (\<lambda>h. Some (c\<lparr>spriteWidth := w, spriteHeight := h\<rparr>))))))"

definition libraryFps :: "(string \<Rightarrow> string option) \<Rightarrow> string \<Rightarrow> VisualState \<Rightarrow> int option" where
  "libraryFps files code st = map_option configFps (getConfig files code st)"

definition libraryLoop :: "(string \<Rightarrow> string option) \<Rightarrow> string \<Rightarrow> VisualState \<Rightarrow> bool option" where
  "libraryLoop files code st = map_option configLoop (getConfig files code st)"

text \<open>The library as its users see it, on files that are read without an exception.\<close>

definition fileLibrary :: "(string \<Rightarrow> string list option) \<Rightarrow> (string \<Rightarrow> string option) \<Rightarrow> AnimationLibrary" where
  "fileLibrary listing files =
     \<lparr>getFramePaths = (\<lambda>code st. the (libraryFramePaths listing code st)),
      getFramesPerSecond = (\<lambda>code st. the (libraryFps files code st)),
      isLoop = (\<lambda>code st. the (libraryLoop files code st))\<rparr>"

section \<open>The order of the frames\<close>

definition frameNumber :: "string \<Rightarrow> int" where
  "frameNumber name = the (extractNumberFromFileName (stemOf name))"

definition hasNumber :: "string \<Rightarrow> bool" where
  "hasNumber name \<longleftrightarrow> extractNumberFromFileName (stemOf name) \<notin> {None, Some (-1)}"

lemma insertFrame_insort:
  "snd a \<noteq> -1 \<Longrightarrow> \<forall>b \<in> set bs. snd b \<noteq> -1 \<Longrightarrow> insertFrame a bs = insort_key snd a bs"
  by (induction bs) (auto simp: frameLess_def)

lemma sortFrames_sort: "\<forall>b \<in> set fs. snd b \<noteq> -1 \<Longrightarrow> sortFrames fs = sort_key snd fs"
  by (induction fs) (simp_all add: sortFrames_def insertFrame_insort)

lemma insort_key_map: "insort_key f (g x) (map g xs) = map g (insort_key (\<lambda>x. f (g x)) x xs)"
  by (induction xs) simp_all

lemma sort_key_map: "sort_key f (map g xs) = map g (sort_key (\<lambda>x. f (g x)) xs)"
  by (induction xs) (simp_all add: insort_key_map)

lemma numbered_all: "\<forall>n \<in> set ns. hasNumber n \<Longrightarrow> numbered place ns = Some (map (\<lambda>n. (place n, frameNumber n)) ns)"
  by (induction ns) (auto simp: hasNumber_def frameNumber_def)

lemma short_sorted: "length xs \<le> Suc 0 \<Longrightarrow> sort_key f xs = xs"
  by (cases xs) auto

text \<open>When every picture of an animation has a number in its name, its frames play in the order of these
  numbers, whatever the order in which the directory lists the files and whatever else it holds.\<close>

theorem frames_play_in_number_order:
  fixes code :: string and st :: VisualState and listing :: "string \<Rightarrow> string list option"
  defines "folder \<equiv> buildSpritesFolderPath code st"
  assumes "listing folder = Some names" "\<forall>n \<in> set names. extensionOf n = ''.png'' \<longrightarrow> hasNumber n"
  shows "libraryFramePaths listing code st =
    Some (map (\<lambda>n. folder @ SEP @ n) (sort_key frameNumber (filter (\<lambda>n. extensionOf n = ''.png'') names)))"
proof -
  let ?pngs = "filter (\<lambda>n. extensionOf n = ''.png'') names" and ?place = "\<lambda>n. folder @ SEP @ n"
  have all: "\<forall>n \<in> set ?pngs. hasNumber n" using assms(3) by simp
  have "numbered ?place ?pngs = Some (map (\<lambda>n. (?place n, frameNumber n)) ?pngs)" by (rule numbered_all [OF all])
  moreover have "\<forall>b \<in> set (map (\<lambda>n. (?place n, frameNumber n)) ?pngs). snd b \<noteq> -1"
    using all by (auto simp: hasNumber_def frameNumber_def)
  ultimately show ?thesis
    using assms(2) short_sorted [of ?pngs frameNumber]
    by (auto simp: libraryFramePaths_def folder_def [symmetric] Let_def sortFrames_sort sort_key_map comp_def)
qed

theorem frames_play_in_number_order_witness:
  "libraryFramePaths (\<lambda>_. Some [''10.png'', ''readme.txt'', ''2.png'', ''1.png'']) ''wK'' VisualIdle =
     Some (map (\<lambda>n. buildSpritesFolderPath ''wK'' VisualIdle @ SEP @ n) [''1.png'', ''2.png'', ''10.png''])"
proof -
  have "\<forall>n \<in> set [''10.png'', ''readme.txt'', ''2.png'', ''1.png'']. extensionOf n = ''.png'' \<longrightarrow> hasNumber n"
    unfolding hasNumber_def by code_simp
  moreover have "sort_key frameNumber (filter (\<lambda>n. extensionOf n = ''.png'') [''10.png'', ''readme.txt'', ''2.png'', ''1.png'']) =
      [''1.png'', ''2.png'', ''10.png'']"
    unfolding frameNumber_def by code_simp
  ultimately show ?thesis
    using frames_play_in_number_order [of "\<lambda>_. Some [''10.png'', ''readme.txt'', ''2.png'', ''1.png'']" "''wK''" VisualIdle] by simp
qed

text \<open>With names that have no number the comparison is not an order: it goes round in a circle.\<close>

lemma frame_order_goes_round:
  "frameLess (''x9'', 9) (''b10'', 10) \<and> frameLess (''b10'', 10) (''m'', -1) \<and> frameLess (''m'', -1) (''x9'', 9)"
  by (simp add: frameLess_def)

section \<open>Frames of no duration\<close>

text \<open>A configuration may ask for any number of frames per second; beyond a thousand a frame lasts no time.\<close>

lemma fps_from_the_file:
  "libraryFps (\<lambda>_. Some (CHR 0x7B # quoted ''frames_per_sec'' @ '': 1001'' @ [CHR 0x7D])) ''wK'' VisualMove = Some 1001"
  by code_simp

end
