(* ===== verification/Game_Screen.thy ===== *)
theory Game_Screen
  imports Visuals Network_Controller Username
begin

text \<open>
  The window of the network game, \<open>src/client/desktop_client/src/App/VisualApp.cpp\<close>, up to the drawing:
  what the player types and clicks, and what one frame hands to the renderer. OpenCV's window is a
  parameter: each frame gets the key, the clicks that arrived and whether the window is visible;
  whether a rectangle contains a point is the parameter \<open>contains\<close> on the button that is hit.
\<close>

section \<open>Layout\<close>

record VisualLayout =
  vl_boardSize :: int
  vl_boardStartX :: int
  vl_boardStartY :: int
  vl_cellSizeX :: int
  vl_cellSizeY :: int
  vl_spriteSize :: int

definition SIDE_PANEL_WIDTH :: int where "SIDE_PANEL_WIDTH = 250"

definition SCORE_PANEL_HEIGHT :: int where "SCORE_PANEL_HEIGHT = 70"

text \<open>A cast of a positive \<open>double\<close> to \<open>int\<close> drops the fraction; the fractions are taken as exact.\<close>

definition createVisualLayout :: VisualLayout where
  "createVisualLayout =
     (let size = 600; part = (\<lambda>q :: rat. \<lfloor>of_int size * q\<rfloor>) in
      \<lparr>vl_boardSize = size, vl_boardStartX = SIDE_PANEL_WIDTH + part (11 / 100),
       vl_boardStartY = SCORE_PANEL_HEIGHT + part (11 / 100), vl_cellSizeX = part (98 / 1000),
       vl_cellSizeY = part (97 / 1000), vl_spriteSize = part (105 / 1000)\<rparr>)"

section \<open>The mouse\<close>

record MouseState =
  mouseX :: int
  mouseY :: int
  pendingClicks :: "(int \<times> int) list"

definition onMouse :: "bool \<Rightarrow> int \<Rightarrow> int \<Rightarrow> MouseState \<Rightarrow> MouseState" where
  "onMouse leftButtonDown x y m =
     m\<lparr>mouseX := x, mouseY := y, pendingClicks := (if leftButtonDown then pendingClicks m @ [(x, y)] else pendingClicks m)\<rparr>"

definition consumeConnectClick :: "(int \<times> int \<Rightarrow> bool) \<Rightarrow> MouseState \<Rightarrow> bool \<times> MouseState" where
  "consumeConnectClick hitsButton m = (list_ex hitsButton (pendingClicks m), m\<lparr>pendingClicks := []\<rparr>)"

section \<open>Entering a name\<close>

text \<open>
  A frame of the name screen: the key (or a number that is no key), what the mouse did while the
  frame waited and whether the window is visible.
\<close>

record NameFrame =
  frameKey :: int
  frameMouse :: "(bool \<times> int \<times> int) list"
  frameVisible :: bool

definition editName :: "int \<Rightarrow> string \<times> string \<Rightarrow> string \<times> string" where
  "editName k = (\<lambda>(name, message).
     (if k = 8 \<and> name \<noteq> [] then (butlast name, [])
      else if k \<ge> 32 \<and> k \<le> 255 \<and> length name < MAX_LENGTH then (name @ [char_of (nat k)], [])
      else (name, message)))"

text \<open>The loop ends with a name, or with the empty text when the window is left; \<open>None\<close> while it goes on.\<close>

fun requestUsernameLoop ::
    "(int \<times> int \<Rightarrow> bool) \<Rightarrow> NameFrame list \<Rightarrow> string \<times> string \<Rightarrow> MouseState \<Rightarrow> (string \<times> MouseState) option" where
  "requestUsernameLoop hitsButton [] s m = None"
| "requestUsernameLoop hitsButton (f # fs) s m =
     (let m1 = fold (\<lambda>(b, x, y). onMouse b x y) (frameMouse f) m;
          (submit, m2) = (if frameKey f = 13 then (True, m1) else consumeConnectClick hitsButton m1)
      in if frameKey f = 27 \<or> \<not> frameVisible f then Some ([], m2)
         else let (name, message) = editName (frameKey f) s in
           if submit
           then if isValid (trim name) then Some (trim name, m2\<lparr>pendingClicks := []\<rparr>)
                else requestUsernameLoop hitsButton fs (trim name, ''Please enter a display name.'') m2
           else requestUsernameLoop hitsButton fs (name, message) m2)"

definition requestUsernameInWindow :: "(int \<times> int \<Rightarrow> bool) \<Rightarrow> NameFrame list \<Rightarrow> MouseState \<Rightarrow> (string \<times> MouseState) option" where
  "requestUsernameInWindow hitsButton frames m = requestUsernameLoop hitsButton frames ([], []) m"

section \<open>The selected piece\<close>

definition findVisualPieceByCell :: "VisualPiece list \<Rightarrow> Position \<Rightarrow> int" where
  "findVisualPieceByCell pieces cell =
     (case find (\<lambda>i. vp_row (pieces ! i) = getRow cell \<and> vp_col (pieces ! i) = getCol cell) [0..<length pieces] of
        None \<Rightarrow> -1 | Some i \<Rightarrow> int i)"

definition createSelectionGhost :: "VisualPiece \<Rightarrow> int \<Rightarrow> int \<Rightarrow> VisualPiece" where
  "createSelectionGhost p x y = p\<lparr>vp_pixelX := of_int x, vp_pixelY := of_int y, opacity := 55 / 100, alignVisibleCenter := True\<rparr>"

text \<open>Indexing the pieces to render out of range is undefined, here \<open>None\<close>.\<close>

definition appendSelectionGhost ::
    "VisualPiece list \<Rightarrow> VisualPiece list \<Rightarrow> NetworkController \<Rightarrow> bool \<Rightarrow> MouseState \<Rightarrow> VisualPiece list option" where
  "appendSelectionGhost piecesToRender visualPieces controller gameOver m =
     (if gameOver then Some piecesToRender
      else case netSelected controller of
        None \<Rightarrow> Some piecesToRender
      | Some cell \<Rightarrow>
          (let selectedIndex = findVisualPieceByCell visualPieces cell in
           if selectedIndex < 0 then Some piecesToRender
           else if nat selectedIndex \<ge> length piecesToRender then None
           else let i = nat selectedIndex in
             Some (piecesToRender[i := (piecesToRender ! i)\<lparr>opacity := 25 / 100\<rparr>] @
               [createSelectionGhost (visualPieces ! i) (mouseX m) (mouseY m)])))"

section \<open>Clicks of a frame\<close>

text \<open>What each click leads to while its request waits is given by \<open>meanwhile\<close>, in the order of the clicks.\<close>

fun processClicks ::
    "sender \<Rightarrow> string \<Rightarrow> (GameClient \<Rightarrow> GameClient) \<Rightarrow> (int \<times> int) list \<Rightarrow> NetworkController \<Rightarrow> NetworkController" where
  "processClicks send what meanwhile [] c = c"
| "processClicks send what meanwhile ((x, y) # clicks) c =
     processClicks send what meanwhile clicks (snd (netClick send what meanwhile x y c))"

definition processPendingClicks ::
    "sender \<Rightarrow> string \<Rightarrow> (GameClient \<Rightarrow> GameClient) \<Rightarrow> bool \<Rightarrow> NetworkController \<times> MouseState \<Rightarrow> NetworkController \<times> MouseState" where
  "processPendingClicks send what meanwhile gameOver = (\<lambda>(c, m).
     (if gameOver then c else processClicks send what meanwhile (pendingClicks m) c, m\<lparr>pendingClicks := []\<rparr>))"

section \<open>What the renderer is told\<close>

definition convertMoveHistory :: "MoveHistorySnapshot list \<Rightarrow> MoveHistoryEntry list" where
  "convertMoveHistory snapshots = map (\<lambda>h. \<lparr>h_completedAtMs = hs_completedAtMs h,
     h_color = (if hs_color h = ''b'' then Black else White),
     h_pieceKind = (if hs_pieceKind h = [] then Pawn else kindFromChar (hd (hs_pieceKind h))),
     h_source = hs_source h, h_destination = hs_destination h, h_wasCapture = hs_wasCapture h,
     h_wasPromotion = hs_wasPromotion h, h_wasJump = hs_wasJump h, h_notation = hs_notation h\<rparr>) snapshots"

definition buildLocalPlayerColor :: "GameClient \<Rightarrow> string" where
  "buildLocalPlayerColor k =
     (if \<not> playerAssigned k then [] else if gcColor k = White then ''white'' else ''black'')"

definition buildConnectionStatus :: "GameClient \<Rightarrow> string \<times> string" where
  "buildConnectionStatus k =
     (if gcGameClosed k then (''Game closed'', ''Reconnection time expired'')
      else if tryingToReconnect k
      then (''Connection lost'', ''Trying to reconnect...'' @
             (if reconnectSecondsRemaining k > 0
              then ''  Reconnection time left: '' @ to_string (reconnectSecondsRemaining k) else []))
      else if gcReconnecting k
      then (''Opponent disconnected'', ''Waiting for reconnection: '' @ to_string (reconnectSecondsRemaining k))
      else if \<not> gcGameStarted k then (''Waiting for opponent...'', [])
      else ([], []))"

datatype RenderOverlayMode = NoOverlay | StatusOverlay | WaitingOverlay | CountdownOverlay

section \<open>Waiting for the first snapshot\<close>

text \<open>
  A round of the wait: the deadline is not over, and the updates that are pending are applied. The
  answer is \<open>Some\<close> when the wait is over: \<open>Inl\<close> the text of the exception.
\<close>

definition waitRound :: "GameClient \<times> ClientGameState \<Rightarrow> (string + unit) option \<times> GameClient \<times> ClientGameState" where
  "waitRound = (\<lambda>(k, s).
     (case pendingUpdates k s False of (_, k1, s1) \<Rightarrow>
        ((if gcGameFull k1 then Some (Inr ())
          else if initialized s1 then Some (Inr ())
          else if \<not> gcConnected k1
          then Some (Inl (if connectionError k1 = [] then ''Server disconnected'' else connectionError k1))
          else None), k1, s1)))"

text \<open>The rounds until the deadline, each with what the receiver thread did before it.\<close>

fun waitForInitialSnapshot ::
    "(GameClient \<Rightarrow> GameClient) list \<Rightarrow> GameClient \<times> ClientGameState \<Rightarrow> (string + unit) \<times> GameClient \<times> ClientGameState" where
  "waitForInitialSnapshot [] s = (Inl ''Timed out while waiting for the initial game snapshot'', s)"
| "waitForInitialSnapshot (receive # rounds) (k, s) =
     (case waitRound (receive k, s) of
        (Some outcome, s1) \<Rightarrow> (outcome, s1)
      | (None, s1) \<Rightarrow> waitForInitialSnapshot rounds s1)"

section \<open>One frame\<close>

record GameWindow =
  controller :: NetworkController
  phaseMachine :: ClientUiPhaseMachine
  builder :: VisualSnapshotBuilder
  mouse :: MouseState

record RenderedFrame =
  rf_pieces :: "VisualPiece list"
  rf_gameOver :: bool
  rf_blackScore :: int
  rf_whiteScore :: int
  rf_blackMoves :: "MoveHistoryEntry list"
  rf_whiteMoves :: "MoveHistoryEntry list"
  rf_localColor :: string
  rf_whiteUsername :: string
  rf_blackUsername :: string
  rf_status :: "string \<times> string"
  rf_overlay :: RenderOverlayMode

definition overlayAndStatus :: "GameClient \<Rightarrow> ClientUiPhase \<Rightarrow> string \<Rightarrow> RenderOverlayMode \<times> string \<times> string" where
  "overlayAndStatus k framePhase startText =
     (let status = buildConnectionStatus k in
      if \<not> gcReconnecting k \<and> \<not> tryingToReconnect k \<and> \<not> gcGameClosed k \<and>
         framePhase \<noteq> Playing \<and> framePhase \<noteq> ReconnectingPhase \<and> framePhase \<noteq> GameOverPhase
      then (if framePhase = Countdown then CountdownOverlay else WaitingOverlay, startText, [])
      else (if fst status = [] then NoOverlay else StatusOverlay, status))"

text \<open>
  A frame: \<open>Inl\<close> when the connection is lost for good, otherwise what is drawn. Between the two
  applications of pending updates the receiver thread may go on (\<open>between\<close>). \<open>None\<close> is an animation
  that never returns or an index out of range.
\<close>

definition gameFrame ::
    "AnimationLibrary \<Rightarrow> sender \<Rightarrow> string \<Rightarrow> (GameClient \<Rightarrow> GameClient) \<Rightarrow> (GameClient \<Rightarrow> GameClient) \<Rightarrow>
       int \<Rightarrow> int \<Rightarrow> int \<Rightarrow> GameWindow \<Rightarrow> (string \<times> GameWindow + RenderedFrame \<times> GameWindow) option" where
  "gameFrame lib send what between meanwhile epochMs steadyMs deltaMs w =
     (let c1 = snd (applyPendingUpdates (controller w)); k = client c1 in
      if \<not> gcConnected k \<and> \<not> tryingToReconnect k \<and> \<not> gcGameClosed k then Some (Inl (connectionError k, w\<lparr>controller := c1\<rparr>))
      else let c2 = snd (applyPendingUpdates (c1\<lparr>client := between k\<rparr>));
               s = currentSnapshot (gameState c2);
               (startDisplay, pm1) = observe s epochMs steadyMs (phaseMachine w);
               away = gcReconnecting (client c2) \<or> tryingToReconnect (client c2);
               pm2 = (if away then markReconnecting pm1 else pm1);
               framePhase = (if away then ReconnectingPhase else displayPhase startDisplay);
               gameplayEnabled = (framePhase = Playing \<or> framePhase = ReconnectingPhase);
               (c3, m3) = processPendingClicks send what meanwhile
                 (snapGameOver s \<or> gcGameClosed (client c2) \<or> \<not> gameplayEnabled) (c2, mouse w)
           in case buildVisuals lib s (if gameplayEnabled then deltaMs else 0) (builder w) of
                None \<Rightarrow> None
              | Some (visualPieces, b') \<Rightarrow>
                  (case appendSelectionGhost (if framePhase \<noteq> WaitingPhase then visualPieces else []) visualPieces c3
                          (snapGameOver s \<or> \<not> gameplayEnabled) m3 of
                     None \<Rightarrow> None
                   | Some pieces \<Rightarrow>
                       (case overlayAndStatus (client c3) framePhase (displayText startDisplay) of (overlay, status) \<Rightarrow>
                          Some (Inr (\<lparr>rf_pieces = pieces, rf_gameOver = snapGameOver s, rf_blackScore = snapBlackScore s,
                            rf_whiteScore = snapWhiteScore s, rf_blackMoves = convertMoveHistory (snapBlackMoveHistory s),
                            rf_whiteMoves = convertMoveHistory (snapWhiteMoveHistory s),
                            rf_localColor = buildLocalPlayerColor (client c3), rf_whiteUsername = snapWhiteUsername s,
                            rf_blackUsername = snapBlackUsername s, rf_status = status, rf_overlay = overlay\<rparr>,
                            w\<lparr>controller := c3, phaseMachine := pm2, builder := b', mouse := m3\<rparr>)))))"

section \<open>The loop\<close>

text \<open>
  What one round of the loop gets from outside: what the receiver thread does before the round,
  between its two updates and while a request waits, the clocks, the key and the mouse events
  that arrive while the round waits, and whether the window is still visible.
\<close>

record FrameInput =
  fi_before :: "GameClient \<Rightarrow> GameClient"
  fi_between :: "GameClient \<Rightarrow> GameClient"
  fi_meanwhile :: "GameClient \<Rightarrow> GameClient"
  fi_epochMs :: int
  fi_steadyMs :: int
  fi_deltaMs :: int
  fi_key :: int
  fi_mouse :: "(bool \<times> int \<times> int) list"
  fi_visible :: bool

datatype LoopEnd = StillOpen | WindowClosed | ConnectionLost string

definition receiveInto :: "(GameClient \<Rightarrow> GameClient) \<Rightarrow> GameWindow \<Rightarrow> GameWindow" where
  "receiveInto receive w = w\<lparr>controller := (controller w)\<lparr>client := receive (client (controller w))\<rparr>\<rparr>"

definition mouseInto :: "(bool \<times> int \<times> int) list \<Rightarrow> GameWindow \<Rightarrow> GameWindow" where
  "mouseInto events w = w\<lparr>mouse := fold (\<lambda>(b, x, y). onMouse b x y) events (mouse w)\<rparr>"

fun gameLoop ::
    "AnimationLibrary \<Rightarrow> sender \<Rightarrow> string \<Rightarrow> FrameInput list \<Rightarrow> GameWindow \<Rightarrow> (LoopEnd \<times> RenderedFrame list \<times> GameWindow) option" where
  "gameLoop lib send what [] w = Some (StillOpen, [], w)"
| "gameLoop lib send what (i # is) w =
     (case gameFrame lib send what (fi_between i) (fi_meanwhile i) (fi_epochMs i) (fi_steadyMs i) (fi_deltaMs i)
             (receiveInto (fi_before i) w) of
        None \<Rightarrow> None
      | Some (Inl (e, w1)) \<Rightarrow> Some (ConnectionLost e, [], w1)
      | Some (Inr (frame, w1)) \<Rightarrow>
          (let w2 = mouseInto (fi_mouse i) w1 in
           if fi_key i = 27 \<or> \<not> fi_visible i then Some (WindowClosed, [frame], w2)
           else map_option (\<lambda>(e, frames, w3). (e, frame # frames, w3)) (gameLoop lib send what is w2)))"

section \<open>The whole run\<close>

datatype RunEnd = NoName | RunThrew string | RunGameFull | RunAborted | RunEnded LoopEnd

definition windowOf :: "GameClient \<Rightarrow> ClientGameState \<Rightarrow> MouseState \<Rightarrow> GameWindow option" where
  "windowOf k s m =
     (let l = createVisualLayout in
      map_option (\<lambda>c. \<lparr>controller = c, phaseMachine = markConnecting newPhaseMachine,
          builder = newVisualSnapshotBuilder (vl_boardStartX l) (vl_boardStartY l) (vl_cellSizeX l) (vl_cellSizeY l) (vl_spriteSize l),
          mouse = m\<rparr>)
        (newNetworkController k s (vl_boardStartX l) (vl_boardStartY l) (vl_cellSizeX l) (vl_cellSizeY l) 8 8 5000))"

text \<open>
  \<open>VisualApp::run\<close>. The inputs are those of the name screen, the rounds of the wait for the first
  snapshot and the rounds of the loop; the result is \<open>None\<close> when a name is never entered or an
  animation never returns. Whatever \<open>connectTo\<close> throws becomes one message. The destructor of the
  client disconnects it on the way out of every exception; the end of the run gives the client.
\<close>

definition runVisualApp ::
    "AnimationLibrary \<Rightarrow> opener \<Rightarrow> sender \<Rightarrow> string \<Rightarrow> (int \<times> int \<Rightarrow> bool) \<Rightarrow> string option \<Rightarrow> string \<Rightarrow> int \<Rightarrow>
       NameFrame list \<Rightarrow> (GameClient \<Rightarrow> GameClient) list \<Rightarrow> FrameInput list \<Rightarrow>
       (RunEnd \<times> RenderedFrame list \<times> GameClient) option" where
  "runVisualApp lib dial send what hitsButton environment host port names rounds inputs =
     (case requestUsernameInWindow hitsButton names \<lparr>mouseX = 0, mouseY = 0, pendingClicks = []\<rparr> of
        None \<Rightarrow> None
      | Some (name, m) \<Rightarrow>
          (if name = [] then Some (NoName, [], newGameClient environment)
           else case connectClient dial send what host port name (newGameClient environment) of
             (ConnectFailed e, k) \<Rightarrow>
               Some (RunThrew (''Unable to connect to '' @ host @ '':'' @ to_string port), [], disconnectClient k)
           | (ProgramTerminated, k) \<Rightarrow> Some (RunAborted, [], k)
           | (_, k) \<Rightarrow>
               (case waitForInitialSnapshot rounds (k, newClientGameState) of
                  (Inl e, k1, s) \<Rightarrow> Some (RunThrew e, [], disconnectClient k1)
                | (Inr _, k1, s) \<Rightarrow>
                    (if gcGameFull k1 then Some (RunGameFull, [], disconnectClient k1)
                     else case windowOf k1 s m of
                       None \<Rightarrow> Some (RunThrew ''Invalid NetworkController configuration'', [], disconnectClient k1)
                     | Some w \<Rightarrow>
                         map_option (\<lambda>(e, frames, w1). (RunEnded e, frames, disconnectClient (client (controller w1))))
                           (gameLoop lib send what inputs w)))))"

end
