(* ===== verification/Text_Client.thy ===== *)
theory Text_Client
  imports Network_Controller Username
begin

text \<open>
  The client without a window, \<open>src/client/desktop_client/src/Client/ClientApp.cpp\<close>: a fixed session
  that tries a legal move, an illegal one and two clicks of the controller, and throws when the
  server does not answer as it should. What the receiver thread does during the \<open>n\<close>-th wait is the
  parameter \<open>during n\<close>.
\<close>

definition sendMoveRequest ::
    "sender \<Rightarrow> string \<Rightarrow> (GameClient \<Rightarrow> GameClient) \<Rightarrow> Position \<Rightarrow> Position \<Rightarrow> GameClient \<Rightarrow> (string + Message) \<times> GameClient" where
  "sendMoveRequest send what meanwhile source destination k =
     (case createSequence k of (sq, k1) \<Rightarrow>
        let request = newMessage\<lparr>msgType := MoveRequest, sequence := sq, msgSource := source,
              msgDestination := destination, createdAtMs := 0\<rparr>
        in (case sendToServer send what request k1 of
              (Some e, k2) \<Rightarrow> (Inl e, k2)
            | (None, k2) \<Rightarrow> waitForResponse sq 5000 (meanwhile k2)))"

definition responseText :: "int \<Rightarrow> Message \<Rightarrow> string" where
  "responseText number response =
     ''Response '' @ to_string number @ '': accepted='' @ (if accepted response then ''true'' else ''false'') @
     '', reason='' @ reason response @ [CHR 0x0A]"

text \<open>The rounds until the deadline: what the receiver did before it, and the time it is.\<close>

fun waitForReadyGame ::
    "((GameClient \<Rightarrow> GameClient) \<times> int) list \<Rightarrow> GameClient \<times> ClientGameState \<Rightarrow> (string + unit) \<times> GameClient \<times> ClientGameState" where
  "waitForReadyGame [] s = (Inl ''Timed out while waiting for the game to start'', s)"
| "waitForReadyGame ((receive, epochMs) # rounds) (k, s) =
     (case pendingUpdates (receive k) s False of (_, k1, s1) \<Rightarrow>
        (if playerAssigned k1 \<and> gcGameStarted k1 \<and> initialized s1 \<and>
            displayPhase (buildGameStartDisplay (playersReady (currentSnapshot s1))
              (gameplayStartsAtEpochMs (currentSnapshot s1)) epochMs) = Playing
         then (Inr (), k1, s1)
         else if \<not> gcConnected k1 then (Inl ''Connection lost while waiting for the game to start'', k1, s1)
         else waitForReadyGame rounds (k1, s1)))"

text \<open>The parts of the session, each with the text it prints and the client it leaves.\<close>

type_synonym session = "(string + ClientGameState) \<times> string \<times> GameClient"

definition firstMove :: "sender \<Rightarrow> string \<Rightarrow> (GameClient \<Rightarrow> GameClient) \<Rightarrow> bool \<Rightarrow> GameClient \<times> ClientGameState \<Rightarrow> session" where
  "firstMove send what meanwhile isWhite = (\<lambda>(k, s).
     (case sendMoveRequest send what meanwhile (if isWhite then Position 6 4 else Position 1 4)
             (if isWhite then Position 5 4 else Position 2 4) k of
        (Inl e, k1) \<Rightarrow> (Inl e, [], k1)
      | (Inr response, k1) \<Rightarrow>
          (let out = responseText 1 response; n = length (snapPieces (currentSnapshot s)) in
           if n \<noteq> 32 then (Inl ''Initial snapshot must contain 32 pieces'', out, k1)
           else let out1 = out @ ''Initial snapshot received: '' @ to_string (int n) @ '' pieces'' @ [CHR 0x0A] in
             (case applyMessage response s of
                (False, s1) \<Rightarrow> (Inl ''Move response has no snapshot'', out1, k1)
              | (True, s1) \<Rightarrow>
                  (if \<not> accepted response then (Inl ''The legal move was rejected'', out1, k1)
                   else (Inr s1, out1, k1))))))"

definition illegalMove :: "sender \<Rightarrow> string \<Rightarrow> (GameClient \<Rightarrow> GameClient) \<Rightarrow> GameClient \<times> ClientGameState \<Rightarrow> session" where
  "illegalMove send what meanwhile = (\<lambda>(k, s).
     (case sendMoveRequest send what meanwhile (Position 4 4) (Position 3 4) k of
        (Inl e, k1) \<Rightarrow> (Inl e, [], k1)
      | (Inr response, k1) \<Rightarrow>
          (let out = responseText 2 response in
           case applyMessage response s of
             (False, s1) \<Rightarrow> (Inl ''Rejected response has no snapshot'', out, k1)
           | (True, s1) \<Rightarrow>
               (if accepted response then (Inl ''The move from an empty cell was accepted'', out, k1)
                else (Inr s1, out, k1)))))"

definition clickMove ::
    "sender \<Rightarrow> string \<Rightarrow> (GameClient \<Rightarrow> GameClient) \<Rightarrow> (GameClient \<Rightarrow> GameClient) \<Rightarrow> bool \<Rightarrow> GameClient \<times> ClientGameState \<Rightarrow> session" where
  "clickMove send what meanwhile1 meanwhile2 isWhite = (\<lambda>(k, s).
     (case newNetworkController k s 0 0 100 100 8 8 5000 of
        None \<Rightarrow> (Inl ''Invalid NetworkController configuration'', [], k)
      | Some c \<Rightarrow>
          (let ownPawnRow = (if isWhite then 6 else 1); ownDestinationRow = (if isWhite then 5 else 2);
               (selection, c1) = netClick send what meanwhile1 350 (ownPawnRow * 100 + 50) c
           in if \<not> handled selection \<or> netSelected c1 = None
              then (Inl ''NetworkController could not select the piece'', [], client c1)
              else let (move, c2) = netClick send what meanwhile2 350 (ownDestinationRow * 100 + 50) c1;
                       out = ''NetworkController move: accepted='' @ (if handled move then ''true'' else ''false'') @
                         '', reason='' @ controllerReason move @ [CHR 0x0A]
                   in if \<not> handled move
                      then (Inl (''NetworkController move was rejected: '' @ controllerReason move), out, client c2)
                      else if netSelected c2 \<noteq> None
                      then (Inl ''Selection was not cleared after the response'', out, client c2)
                      else (Inr (gameState c2), out @ ''NetworkController test passed'' @ [CHR 0x0A], client c2))))"

text \<open>One part after another; an exception ends the session.\<close>

definition andThen :: "session \<Rightarrow> (GameClient \<times> ClientGameState \<Rightarrow> session) \<Rightarrow> session" where
  "andThen first next =
     (case first of
        (Inl e, out, k) \<Rightarrow> (Inl e, out, k)
      | (Inr s, out, k) \<Rightarrow> (case next (k, s) of (r, out1, k1) \<Rightarrow> (r, out @ out1, k1)))"

definition playSession :: "sender \<Rightarrow> string \<Rightarrow> (nat \<Rightarrow> GameClient \<Rightarrow> GameClient) \<Rightarrow> GameClient \<times> ClientGameState \<Rightarrow> session" where
  "playSession send what during = (\<lambda>(k, s).
     (case getAssignedColorOf k of
        Inl e \<Rightarrow> (Inl e, [], k)
      | Inr color \<Rightarrow>
          (let isWhite = (color = White);
               assigned = ''Assigned player: '' @ gcUsername k @ '' ('' @ (if isWhite then ''white'' else ''black'') @ '')'' @ [CHR 0x0A]
           in andThen (andThen (andThen (Inr s, assigned, k) (firstMove send what (during 1) isWhite))
                (illegalMove send what (during 2)))
                (clickMove send what (during 3) (during 4) isWhite))))"

text \<open>
  \<open>ClientApp::run\<close>: the lines of the input for the name, the rounds of the wait. \<open>None\<close> is a name
  that is never entered; the client is disconnected in the end, by its destructor when an
  exception leaves the function.
\<close>

definition runClientApp ::
    "opener \<Rightarrow> sender \<Rightarrow> string \<Rightarrow> string option \<Rightarrow> string \<Rightarrow> int \<Rightarrow> string list \<Rightarrow> ((GameClient \<Rightarrow> GameClient) \<times> int) list \<Rightarrow>
       (nat \<Rightarrow> GameClient \<Rightarrow> GameClient) \<Rightarrow> ((string + unit) \<times> string \<times> GameClient) option" where
  "runClientApp dial send what environment hostName port typed rounds during =
     (case prompt typed of
        (None, asked) \<Rightarrow> None
      | (Some name, asked) \<Rightarrow>
          (case connectClient dial send what hostName port name (newGameClient environment) of
             (ConnectFailed e, k) \<Rightarrow>
               Some (Inl (''Unable to connect to '' @ hostName @ '':'' @ to_string port), asked, disconnectClient k)
           | (ProgramTerminated, k) \<Rightarrow> None
           | (_, k) \<Rightarrow>
               (let greeted = asked @ ''Connected to game server'' @ [CHR 0x0A] in
                case waitForReadyGame rounds (k, newClientGameState) of
                  (Inl e, k1, s) \<Rightarrow> Some (Inl e, greeted, disconnectClient k1)
                | (Inr _, k1, s) \<Rightarrow>
                    (case playSession send what during (k1, s) of
                       (Inl e, out, k2) \<Rightarrow> Some (Inl e, greeted @ out, disconnectClient k2)
                     | (Inr s2, out, k2) \<Rightarrow>
                         Some (Inr (), greeted @ out @ ''Permanent GameClient test passed'' @ [CHR 0x0A], disconnectClient k2)))))"

end
