(* ===== verification/Game_Screen_Properties.thy ===== *)
theory Game_Screen_Properties
  imports Game_Screen Text_Client Visual_Properties
begin

text \<open>
  Properties of the window of the network game: a name that is entered is a valid one, a click goes
  to the cell that is drawn there, no click is played before the game runs, and every frame is
  drawn.
\<close>

section \<open>The name\<close>

lemma requestUsernameLoop_result:
  assumes "requestUsernameLoop hits frames s m = Some (name, m')"
  shows "name = [] \<or> isValid name \<and> (\<exists>t. name = trim t) \<and> pendingClicks m' = []"
  using assms
proof (induction hits frames s m rule: requestUsernameLoop.induct)
  case (2 hits f fs s m)
  then show ?case by (auto simp: Let_def split: if_splits prod.splits)
qed simp

section \<open>Frames\<close>

lemma buildVisuals_returns:
  assumes "libOk lib" "cacheOk b"
  shows "\<exists>vs b'. buildVisuals lib s d b = Some (vs, b') \<and> cacheOk b' \<and> geometry b' = geometry b"
proof -
  have "\<exists>b'. buildLoop lib s d ps b = Some b' \<and> cacheOk b' \<and> geometry b' = geometry b" for ps
    using assms(2)
  proof (induction ps arbitrary: b)
    case (Cons p ps)
    show ?case
    proof (cases "ps_state p = ''captured''")
      case False
      obtain b1 a where b1: "buildPiece lib s d p b = Some b1" "cacheOk b1" "geometry b1 = geometry b"
        using buildPiece_step [OF assms(1) Cons.prems, of s d p] by blast
      show ?thesis using Cons.IH [OF b1(2)] b1 False by simp
    qed (use Cons in simp)
  qed simp
  from this [of "snapPieces s"] obtain b1 where "buildLoop lib s d (snapPieces s) b = Some b1" "cacheOk b1" "geometry b1 = geometry b"
    by blast
  moreover have "cacheOk (removeMissingPieces ids b1)" if "cacheOk b1" for ids
    using that by (auto simp: cacheOk_def removeMissingPieces_def distinct_map_filter_key)
  moreover have "geometry (removeMissingPieces ids b1) = geometry b1" for ids
    by (simp add: geometry_def removeMissingPieces_def)
  ultimately show ?thesis by (simp add: buildVisuals_def Let_def)
qed

lemma findVisualPiece_range: "findVisualPieceByCell vs cell < int (length vs)"
  by (auto simp: findVisualPieceByCell_def find_Some_iff split: option.split)

lemma appendSelectionGhost_same:
  assumes "\<not> over \<longrightarrow> pieces = vs"
  shows "\<exists>ps. appendSelectionGhost pieces vs c over m = Some ps"
proof (cases "over \<or> netSelected c = None")
  case False
  then obtain cell where cell: "netSelected c = Some cell" "pieces = vs" using assms by auto
  then show ?thesis
    using findVisualPiece_range [of vs cell] False
    by (auto simp: appendSelectionGhost_def Let_def)
qed (auto simp: appendSelectionGhost_def)

lemma phase_enabled:
  "fst (observe s e t pm) = d \<Longrightarrow> displayPhase d \<in> {WaitingPhase, Countdown, Playing, GameOverPhase}"
  by (auto simp: observe_def waitingDisplay_def buildGameStartDisplay_def Let_def split: if_splits)

lemma gameFrame_returns:
  assumes "libOk lib" "cacheOk (builder w)"
  shows "\<exists>r. gameFrame lib send what between meanwhile e t d w = Some r \<and>
    (\<forall>x. r = Inl x \<longrightarrow> cacheOk (builder (snd x))) \<and> (\<forall>x. r = Inr x \<longrightarrow> cacheOk (builder (snd x)))"
proof -
  let ?c1 = "snd (applyPendingUpdates (controller w))"
  show ?thesis
  proof (cases "\<not> gcConnected (client ?c1) \<and> \<not> tryingToReconnect (client ?c1) \<and> \<not> gcGameClosed (client ?c1)")
    case True
    then show ?thesis using assms(2) by (simp add: gameFrame_def Let_def)
  next
    case False
    define c2 where "c2 = snd (applyPendingUpdates (?c1\<lparr>client := between (client ?c1)\<rparr>))"
    define s where "s = currentSnapshot (gameState c2)"
    define away where "away = (gcReconnecting (client c2) \<or> tryingToReconnect (client c2))"
    obtain display pm1 where o: "observe s e t (phaseMachine w) = (display, pm1)" by fastforce
    define phase where "phase = (if away then ReconnectingPhase else displayPhase display)"
    define enabled where "enabled = (phase = Playing \<or> phase = ReconnectingPhase)"
    obtain c3 m3 where clicks: "processPendingClicks send what meanwhile
        (snapGameOver s \<or> gcGameClosed (client c2) \<or> \<not> enabled) (c2, mouse w) = (c3, m3)" by fastforce
    obtain vs b' where b: "buildVisuals lib s (if enabled then d else 0) (builder w) = Some (vs, b')" "cacheOk b'"
      using buildVisuals_returns [OF assms] by blast
    have "\<not> (snapGameOver s \<or> \<not> enabled) \<longrightarrow> (if phase \<noteq> WaitingPhase then vs else []) = vs"
      by (auto simp: enabled_def)
    from appendSelectionGhost_same [OF this] obtain ps where
      g: "appendSelectionGhost (if phase \<noteq> WaitingPhase then vs else []) vs c3 (snapGameOver s \<or> \<not> enabled) m3 = Some ps"
      by blast
    obtain overlay status where v: "overlayAndStatus (client c3) phase (displayText display) = (overlay, status)" by (metis prod.collapse)
    show ?thesis
      unfolding gameFrame_def Let_def c2_def [symmetric] s_def [symmetric] away_def [symmetric] o prod.case
        phase_def [symmetric] enabled_def [symmetric] clicks b(1) option.case g v
      using False b(2) by auto
  qed
qed

text \<open>A player who leaves the name screen either closed it, or has entered a name that is valid and
  trimmed; then no click of that screen is left over to be played on the board.\<close>

theorem name_screen_gives_valid_name:
  assumes "requestUsernameInWindow hitsButton frames m = Some (name, m')"
  shows "name = [] \<or> isValid name \<and> (\<exists>entered. name = trim entered) \<and> pendingClicks m' = []"
  using requestUsernameLoop_result [OF assms [unfolded requestUsernameInWindow_def]] .

theorem name_screen_gives_valid_name_witness:
  "requestUsernameInWindow (\<lambda>p. False) (map (\<lambda>k. \<lparr>frameKey = k, frameMouse = [], frameVisible = True\<rparr>) [32, 65, 100, 97, 13])
     \<lparr>mouseX = 0, mouseY = 0, pendingClicks = []\<rparr> = Some (''Ada'', \<lparr>mouseX = 0, mouseY = 0, pendingClicks = []\<rparr>) \<and> isValid ''Ada''"
proof -
  have run: "requestUsernameInWindow (\<lambda>p. False) (map (\<lambda>k. \<lparr>frameKey = k, frameMouse = [], frameVisible = True\<rparr>) [32, 65, 100, 97, 13])
     \<lparr>mouseX = 0, mouseY = 0, pendingClicks = []\<rparr> = Some (''Ada'', \<lparr>mouseX = 0, mouseY = 0, pendingClicks = []\<rparr>)"
    by code_simp
  show ?thesis using name_screen_gives_valid_name [OF run] run by simp
qed

text \<open>When no animation claims more than a thousand frames per second, the loop of the window never gets
  stuck and never reads a piece out of range: whatever arrives, is typed and clicked, and however
  the clocks run, every round draws its frame until the window is closed or the connection lost.\<close>

theorem every_round_is_drawn:
  assumes "libOk lib" "cacheOk (builder w)"
  shows "\<exists>end frames w'. gameLoop lib send what inputs w = Some (end, frames, w') \<and> cacheOk (builder w') \<and>
    (end = StillOpen \<longrightarrow> length frames = length inputs)"
  using assms(2)
proof (induction inputs arbitrary: w)
  case (Cons i inputs)
  let ?w = "receiveInto (fi_before i) w"
  have "cacheOk (builder ?w)" using Cons.prems by (simp add: receiveInto_def)
  from gameFrame_returns [OF assms(1) this] obtain r where
    r: "gameFrame lib send what (fi_between i) (fi_meanwhile i) (fi_epochMs i) (fi_steadyMs i) (fi_deltaMs i) ?w = Some r"
    "\<forall>x. r = Inl x \<longrightarrow> cacheOk (builder (snd x))" "\<forall>x. r = Inr x \<longrightarrow> cacheOk (builder (snd x))"
    by blast
  show ?case
  proof (cases r)
    case (Inl x)
    then show ?thesis using r by (cases x) simp
  next
    case (Inr x)
    obtain frame w1 where x: "x = (frame, w1)" by fastforce
    have ok: "cacheOk (builder (mouseInto (fi_mouse i) w1))" using r(3) Inr x by (simp add: mouseInto_def)
    show ?thesis
    proof (cases "fi_key i = 27 \<or> \<not> fi_visible i")
      case True
      then show ?thesis using r(1) Inr x ok by (simp add: Let_def)
    next
      case False
      then show ?thesis using r(1) Inr x Cons.IH [OF ok] by (auto simp: Let_def)
    qed
  qed
qed simp

theorem every_round_is_drawn_witness:
  fixes send what inputs
  defines "w \<equiv> the (windowOf (newGameClient None) newClientGameState \<lparr>mouseX = 0, mouseY = 0, pendingClicks = []\<rparr>)"
  shows "gameLoop demoLibrary send what inputs w \<noteq> None"
proof -
  have "libOk demoLibrary" by (simp add: libOk_def demoLibrary_def)
  moreover have "cacheOk (builder w)"
    by (simp add: w_def windowOf_def Let_def newNetworkController_def createVisualLayout_def cacheOk_def newVisualSnapshotBuilder_def)
  ultimately show ?thesis using every_round_is_drawn [of demoLibrary w send what inputs] by auto
qed


definition waitingWindow :: GameWindow where
  "waitingWindow = the (windowOf ((newGameClient None)\<lparr>gcConnected := True, playerAssigned := True\<rparr>) newClientGameState
     \<lparr>mouseX = 400, mouseY = 400, pendingClicks = [(400, 400)]\<rparr>)"


section \<open>Where a click goes\<close>

lemma createVisualLayout_numbers [simp]:
  "vl_boardStartX createVisualLayout = 316" "vl_boardStartY createVisualLayout = 136"
  "vl_cellSizeX createVisualLayout = 58" "vl_cellSizeY createVisualLayout = 58" "vl_spriteSize createVisualLayout = 63"
  by (simp_all add: createVisualLayout_def Let_def SIDE_PANEL_WIDTH_def SCORE_PANEL_HEIGHT_def floor_unique)

lemma within_cell:
  fixes x c :: int and z :: rat
  assumes "\<bar>of_int x - (of_int (a + c * 58) + z)\<bar> < z" "z = 29"
  shows "(x - a) div 58 = c"
proof -
  have "of_int (a + c * 58) < (of_int x :: rat)" "(of_int x :: rat) < of_int (a + c * 58 + 58)" using assms by simp_all
  then have "a + c * 58 < x" "x < a + c * 58 + 58" by (simp_all only: of_int_less_iff)
  then show ?thesis by linarith
qed

text \<open>A click less than half a cell away from where the window draws the centre of a cell of the board is a
  click on that cell: the picture and the mouse agree on the geometry of the board.\<close>

theorem click_goes_to_the_drawn_cell:
  assumes "windowOf k s m = Some w" "0 \<le> r" "r < 8" "0 \<le> c" "c < 8"
    and "\<bar>of_int x - cellCenterX (builder w) c\<bar> < 29" "\<bar>of_int y - cellCenterY (builder w) r\<bar> < 29"
  shows "netClickToCell x y (controller w) = Some (Position r c)"
proof -
  have w: "builder w = newVisualSnapshotBuilder 316 136 58 58 63"
    "netStartX (controller w) = 316" "netStartY (controller w) = 136" "netCellX (controller w) = 58" "netCellY (controller w) = 58"
    "boardRows (controller w) = 8" "boardCols (controller w) = 8"
    using assms(1) by (auto simp: windowOf_def newNetworkController_def Let_def)
  have x: "(x - 316) div 58 = c" and y: "(y - 136) div 58 = r"
    using assms(6,7) within_cell [of x 316 c 29] within_cell [of y 136 r 29]
    by (simp_all add: w(1) cellCenterX_def cellCenterY_def newVisualSnapshotBuilder_def)
  then have "0 \<le> x - 316" "0 \<le> y - 136" using assms(2,4) by linarith+
  then show ?thesis using x y assms(2-5) by (simp add: netClickToCell_def w(2-) Let_def)
qed

theorem click_goes_to_the_drawn_cell_witness:
  "\<exists>w. windowOf (newGameClient None) newClientGameState \<lparr>mouseX = 0, mouseY = 0, pendingClicks = []\<rparr> = Some w \<and>
     netClickToCell 577 580 (controller w) = Some (Position 7 4)"
proof -
  obtain w where w: "windowOf (newGameClient None) newClientGameState \<lparr>mouseX = 0, mouseY = 0, pendingClicks = []\<rparr> = Some w"
    by (simp add: windowOf_def newNetworkController_def Let_def)
  then have "builder w = newVisualSnapshotBuilder 316 136 58 58 63"
    by (auto simp: windowOf_def newNetworkController_def Let_def)
  then show ?thesis using w click_goes_to_the_drawn_cell [OF w, of 7 4 577 580]
    by (auto simp: cellCenterX_def cellCenterY_def newVisualSnapshotBuilder_def)
qed

section \<open>Nothing is left open\<close>

definition shutDown :: "GameClient \<Rightarrow> bool" where
  "shutDown k \<longleftrightarrow> \<not> gcConnected k \<and> tcp k = None \<and> \<not> receiverJoinable k"

lemma shutDown_new [simp]: "shutDown (newGameClient environment)"
  by (simp add: shutDown_def newGameClient_def)

lemma shutDown_disconnect [simp]: "shutDown (disconnectClient k)"
  by (simp add: shutDown_def disconnectClient_def Let_def)

text \<open>A new client has no receiver thread yet, so connecting it cannot end the program.\<close>

lemma connect_new: "fst (connectClient dial send what host port name (newGameClient environment)) \<noteq> ProgramTerminated"
proof -
  let ?s = "resetClient host port name (newGameClient environment)"
  have "receiverJoinable (snd (connectWithSavedToken dial send what ?s)) = receiverJoinable ?s"
    by (simp add: connectWithSavedToken_def split: sum.split option.split)
  moreover have "\<not> receiverJoinable ?s" by (simp add: resetClient_def newGameClient_def)
  ultimately show ?thesis by (auto simp: connectClient_def Let_def split: prod.split)
qed

lemma connect_not_terminated: "connectClient dial send what host port name (newGameClient environment) \<noteq> (ProgramTerminated, k)"
  using connect_new by (metis fst_conv)

lemma text_session_leaves_nothing_open:
  assumes "runClientApp dial send what environment host port typed rounds during = Some (r, out, k)"
  shows "shutDown k"
  using assms connect_not_terminated
  by (auto simp: runClientApp_def Let_def split: option.split_asm prod.split_asm connectOutcome.split_asm sum.split_asm)

text \<open>However a run of the window ends - no name, no connection, an exception while it waits, a full game, a
  closed window or a lost connection - it leaves the client disconnected, its socket closed and its
  receiver thread joined, and it never ends the program by starting a second receiver.\<close>

theorem run_leaves_nothing_open:
  assumes "runVisualApp lib dial send what hitsButton environment host port names rounds inputs = Some (e, frames, k)"
  shows "e \<noteq> RunAborted \<and> \<not> gcConnected k \<and> tcp k = None \<and> \<not> receiverJoinable k"
proof -
  have "e \<noteq> RunAborted \<and> shutDown k"
    using assms connect_not_terminated
    by (auto simp: runVisualApp_def split: option.split_asm prod.split_asm connectOutcome.split_asm sum.split_asm if_split_asm)
  then show ?thesis by (simp add: shutDown_def)
qed

theorem run_leaves_nothing_open_witness:
  "\<exists>k. runVisualApp demoLibrary (\<lambda>_ _. Inl ''refused'') (\<lambda>_ _. None) [] (\<lambda>p. False) None ''localhost'' 5050
      (map (\<lambda>k. \<lparr>frameKey = k, frameMouse = [], frameVisible = True\<rparr>) [65, 13]) [] [] =
    Some (RunThrew (''Unable to connect to localhost:'' @ to_string 5050), [], k) \<and> \<not> gcConnected k"
proof -
  let ?typed = "map (\<lambda>k. \<lparr>frameKey = k, frameMouse = [], frameVisible = True\<rparr>) [65, 13]"
  let ?m = "\<lparr>mouseX = 0, mouseY = 0, pendingClicks = []\<rparr>"
  have name: "requestUsernameInWindow (\<lambda>p. False) ?typed ?m = Some (''A'', ?m)" by code_simp
  have "fst (connectClient (\<lambda>_ _. Inl ''refused'') (\<lambda>_ _. None) [] ''localhost'' 5050 ''A'' (newGameClient None)) = ConnectFailed ''refused''"
    by (simp add: connectClient_def newGameClient_def resetClient_def connectWithSavedToken_def Let_def)
  then obtain k where c: "connectClient (\<lambda>_ _. Inl ''refused'') (\<lambda>_ _. None) [] ''localhost'' 5050 ''A'' (newGameClient None) =
      (ConnectFailed ''refused'', k)" by (metis prod.collapse)
  have run: "runVisualApp demoLibrary (\<lambda>_ _. Inl ''refused'') (\<lambda>_ _. None) [] (\<lambda>p. False) None ''localhost'' 5050 ?typed [] [] =
    Some (RunThrew (''Unable to connect to localhost:'' @ to_string 5050), [], disconnectClient k)"
    unfolding runVisualApp_def name by (simp add: c)
  show ?thesis using run_leaves_nothing_open [OF run] run by blast
qed

end
