(* ===== verification/Lobby_Screen.thy ===== *)
theory Lobby_Screen
  imports Lobby_Layout Game_Screen
begin

text \<open>
  The window of the lobby, \<open>src/client/desktop_client/src/App/LobbyApp.cpp\<close>: the events of mouse and
  keyboard, and the loop that gives them to the controller and asks for a frame. The window of
  OpenCV is a parameter as in \<open>Game_Screen\<close>; an exception, or a loop that does not end, is \<open>None\<close>.
\<close>

section \<open>The pointer\<close>

datatype PointerEventType = PointerClick | PointerJump | PointerWheel

record PointerEvent =
  pe_type :: PointerEventType
  pe_position :: point
  wheelDelta :: int

record PointerState =
  pointerPosition :: point
  pointerEvents :: "PointerEvent list"

definition newPointerState :: PointerState where
  "newPointerState = \<lparr>pointerPosition = (-1, -1), pointerEvents = []\<rparr>"

datatype MouseEvent = LeftButtonDown | RightButtonDown | MouseWheel int | OtherMouseEvent

definition pushPointer :: "PointerEventType \<Rightarrow> point \<Rightarrow> int \<Rightarrow> PointerState \<Rightarrow> PointerState" where
  "pushPointer kind pt delta s = s\<lparr>pointerEvents := pointerEvents s @ [\<lparr>pe_type = kind, pe_position = pt, wheelDelta = delta\<rparr>]\<rparr>"

definition mouseCallback :: "MouseEvent \<Rightarrow> point \<Rightarrow> PointerState \<Rightarrow> PointerState" where
  "mouseCallback ev pt s =
     (let s1 = s\<lparr>pointerPosition := pt\<rparr> in
      case ev of
        LeftButtonDown \<Rightarrow> pushPointer PointerClick pt 0 s1
      | RightButtonDown \<Rightarrow> pushPointer PointerJump pt 0 s1
      | MouseWheel delta \<Rightarrow> pushPointer PointerWheel pt delta s1
      | OtherMouseEvent \<Rightarrow> s1)"

section \<open>Keys\<close>

definition handleKey ::
    "'t LobbyTransport \<Rightarrow> int \<Rightarrow> LobbyViewModel \<Rightarrow> LobbyController \<times> 't \<Rightarrow> (LobbyController \<times> 't) option" where
  "handleKey tp k view = (\<lambda>(c, t).
     (if k = 8 then Some (backspace c, t)
      else if k = 9 \<and> screen view = AuthenticationScreen then handleTab tp (c, t)
      else if k = 13 then handleEnter tp (c, t)
      else if k \<ge> 32 \<and> k \<le> 126 then Some (inputCharacter (char_of (nat k)) c, t)
      else Some (c, t)))"

section \<open>The board\<close>

definition lobbyBoardSize :: int where "lobbyBoardSize = 600"

definition boardInset :: int where "boardInset = 66"

definition lobbyBoardStartX :: int where "lobbyBoardStartX = SIDE_PANEL_WIDTH + boardInset"

definition lobbyBoardStartY :: int where "lobbyBoardStartY = SCORE_PANEL_HEIGHT + boardInset"

definition lobbyCellSize :: int where "lobbyCellSize = 58"

definition spectatorBackButtonRect :: Rect where
  "spectatorBackButtonRect = rect 24 14 190 42"

text \<open>The cell of the board under a point.\<close>

definition boardCellAt :: "point \<Rightarrow> Position option" where
  "boardCellAt pt =
     (let boardX = fst pt - lobbyBoardStartX; boardY = snd pt - lobbyBoardStartY in
      if boardX \<ge> 0 \<and> boardY \<ge> 0 \<and> boardX < lobbyCellSize * 8 \<and> boardY < lobbyCellSize * 8
      then Some (Position (boardY div lobbyCellSize) (boardX div lobbyCellSize)) else None)"

section \<open>Pointer events\<close>

definition clickEvent ::
    "'t LobbyTransport \<Rightarrow> (Rect \<Rightarrow> point \<Rightarrow> bool) \<Rightarrow> LobbyLayoutResult \<Rightarrow> point \<Rightarrow> LobbyController \<times> 't \<Rightarrow> (LobbyController \<times> 't) option" where
  "clickEvent tp contains layout pt s =
     (let view = lobbyView (fst s) in
      if screen view = SpectatorGame \<and> contains spectatorBackButtonRect pt then handle tp BackToLobby [] s
      else if screen view = GameScreen
      then if (case matchView view of None \<Rightarrow> False | Some m \<Rightarrow> snapGameOver (mv_snapshot m)) \<and>
              contains spectatorBackButtonRect pt
           then handle tp BackToLobby [] s
           else Some (case boardCellAt pt of None \<Rightarrow> s | Some p \<Rightarrow> gameBoardClick tp p s)
      else if screen view \<noteq> SpectatorGame
      then (case mapClick contains pt view layout of (kind, val) \<Rightarrow> handle tp kind val s)
      else Some s)"

definition jumpEvent :: "'t LobbyTransport \<Rightarrow> point \<Rightarrow> LobbyController \<times> 't \<Rightarrow> LobbyController \<times> 't" where
  "jumpEvent tp pt s =
     (if screen (lobbyView (fst s)) = GameScreen
      then (case boardCellAt pt of None \<Rightarrow> s | Some p \<Rightarrow> gameBoardJump tp p s) else s)"

text \<open>The cards of a page are at least two, so the truncating division of C++ is that of \<open>div\<close> but for an empty list.\<close>

definition maximumPage :: "int \<Rightarrow> int \<Rightarrow> int" where
  "maximumPage itemCount perPage = max 0 (if itemCount - 1 < 0 then - ((1 - itemCount) div perPage) else (itemCount - 1) div perPage)"

definition wheelEvent ::
    "'t LobbyTransport \<Rightarrow> (Rect \<Rightarrow> point \<Rightarrow> bool) \<Rightarrow> LobbyLayoutResult \<Rightarrow> point \<Rightarrow> int \<Rightarrow> LobbyController \<times> 't \<Rightarrow> (LobbyController \<times> 't) option" where
  "wheelEvent tp contains layout pt delta s =
     (if screen (lobbyView (fst s)) = LobbyScreen
      then let waiting = contains (waitingSection layout) pt;
               itemCount = (if waiting then int (length (waitingRooms (lobbyView (fst s))))
                            else int (length (activeRooms (lobbyView (fst s)))))
           in handle tp
             (if delta < 0 then (if waiting then NextWaitingPage else NextActivePage)
              else (if waiting then PreviousWaitingPage else PreviousActivePage))
             (to_string (maximumPage itemCount (cardsPerPage layout))) s
      else Some s)"

definition pointerEvent ::
    "'t LobbyTransport \<Rightarrow> (Rect \<Rightarrow> point \<Rightarrow> bool) \<Rightarrow> LobbyLayoutResult \<Rightarrow> PointerEvent \<Rightarrow> LobbyController \<times> 't \<Rightarrow> (LobbyController \<times> 't) option" where
  "pointerEvent tp contains layout ev s =
     (case pe_type ev of
        PointerClick \<Rightarrow> clickEvent tp contains layout (pe_position ev) s
      | PointerJump \<Rightarrow> Some (jumpEvent tp (pe_position ev) s)
      | PointerWheel \<Rightarrow> wheelEvent tp contains layout (pe_position ev) (wheelDelta ev) s)"

fun drainPointer ::
    "'t LobbyTransport \<Rightarrow> (Rect \<Rightarrow> point \<Rightarrow> bool) \<Rightarrow> LobbyLayoutResult \<Rightarrow> PointerEvent list \<Rightarrow> LobbyController \<times> 't \<Rightarrow> (LobbyController \<times> 't) option" where
  "drainPointer tp contains layout [] s = Some s"
| "drainPointer tp contains layout (ev # evs) s =
     (case pointerEvent tp contains layout ev s of
        None \<Rightarrow> None | Some s1 \<Rightarrow> drainPointer tp contains layout evs s1)"

section \<open>Frames\<close>

text \<open>What is drawn: the game of a match, or a screen of the lobby.\<close>

record MatchFrame =
  mf_pieces :: "VisualPiece list"
  mf_gameOver :: bool
  mf_blackScore :: int
  mf_whiteScore :: int
  mf_blackMoves :: "MoveHistoryEntry list"
  mf_whiteMoves :: "MoveHistoryEntry list"
  mf_localColor :: string
  mf_whiteUsername :: string
  mf_blackUsername :: string
  mf_backButton :: bool
  mf_countdown :: string
  mf_whiteRating :: int
  mf_blackRating :: int

datatype LobbyFrame = MatchDrawn MatchFrame | ScreenDrawn LobbyViewModel LobbyLayoutResult point

record 't LobbyWindow =
  lw_state :: "LobbyController \<times> 't"
  lw_pointer :: PointerState
  lw_builder :: VisualSnapshotBuilder
  lw_size :: "int \<times> int"
  previousScreen :: LobbyScreen

text \<open>
  What one round gets from outside: what the network does before it, the result of the
  authentication task when it is ready, the size of the image of the window (not positive when
  OpenCV does not know it), the time since the last drawing of a match, the key and the mouse
  events that arrive while it waits, and whether the window is visible.
\<close>

record 't RoundInput =
  ri_network :: "'t \<Rightarrow> 't"
  ri_outcome :: "AuthResult option"
  ri_imageSize :: "int \<times> int"
  ri_deltaMs :: int
  ri_key :: int
  ri_mouse :: "(MouseEvent \<times> point) list"
  ri_visible :: bool

definition resizeForScreen :: "LobbyScreen \<Rightarrow> 't LobbyWindow \<Rightarrow> 't LobbyWindow" where
  "resizeForScreen sc w =
     (if sc \<noteq> previousScreen w
      then w\<lparr>lw_size := (if sc = GameScreen \<or> sc = SpectatorGame then (1100, 740) else (1366, 768)), previousScreen := sc\<rparr>
      else w)"

definition layoutFor :: "int \<times> int \<Rightarrow> LobbyViewModel \<Rightarrow> LobbyLayoutResult" where
  "layoutFor imageSize view = calculate
     (max MinimumWidth (if fst imageSize > 0 then fst imageSize else 1366))
     (max MinimumHeight (if snd imageSize > 0 then snd imageSize else 768))
     (int (length (waitingRooms view))) (int (length (activeRooms view)))
     (waitingPage view) (activePage view) (authMode view = RegisterMode)"

definition matchFrame :: "VisualPiece list \<Rightarrow> LobbyViewModel \<Rightarrow> MatchView \<Rightarrow> MatchFrame" where
  "matchFrame pieces view m =
     (let s = mv_snapshot m in
      \<lparr>mf_pieces = pieces, mf_gameOver = snapGameOver s, mf_blackScore = snapBlackScore s, mf_whiteScore = snapWhiteScore s,
       mf_blackMoves = convertMoveHistory (snapBlackMoveHistory s), mf_whiteMoves = convertMoveHistory (snapWhiteMoveHistory s),
       mf_localColor = (if spectator m then [] else mv_assignedColor m),
       mf_whiteUsername = snapWhiteUsername s, mf_blackUsername = snapBlackUsername s,
       mf_backButton = showBackButton view,
       mf_countdown = (if phase m = MatchCountdown then countdownValue m else []),
       mf_whiteRating = mv_whiteRating m, mf_blackRating = mv_blackRating m\<rparr>)"

definition drawLobbyFrame ::
    "AnimationLibrary \<Rightarrow> int \<Rightarrow> LobbyLayoutResult \<Rightarrow> 't LobbyWindow \<Rightarrow> (LobbyFrame \<times> 't LobbyWindow) option" where
  "drawLobbyFrame lib delta layout w =
     (let view = lobbyView (fst (lw_state w)); screenFrame = Some (ScreenDrawn view layout (pointerPosition (lw_pointer w)), w) in
      if screen view = GameScreen \<or> screen view = SpectatorGame
      then (case matchView view of
              None \<Rightarrow> screenFrame
            | Some m \<Rightarrow>
                map_option (\<lambda>(pieces, b). (MatchDrawn (matchFrame pieces view m), w\<lparr>lw_builder := b\<rparr>))
                  (buildVisuals lib (mv_snapshot m) delta (lw_builder w)))
      else screenFrame)"

definition keyOfRound :: "'t LobbyTransport \<Rightarrow> int \<Rightarrow> LobbyController \<times> 't \<Rightarrow> (bool \<times> LobbyController \<times> 't) option" where
  "keyOfRound tp k s =
     (let view = lobbyView (fst s) in
      if k = 27
      then if screen view = SpectatorGame then map_option (Pair True) (handle tp BackToLobby [] s)
           else if modal view \<noteq> NoModal then map_option (Pair True) (handle tp CancelModal [] s)
           else Some (False, s)
      else map_option (Pair True) (handleKey tp k view s))"

text \<open>A round of the loop: what is drawn, and whether the loop goes on.\<close>

definition lobbyRound ::
    "AnimationLibrary \<Rightarrow> 't LobbyTransport \<Rightarrow> (Rect \<Rightarrow> point \<Rightarrow> bool) \<Rightarrow> 't RoundInput \<Rightarrow> 't LobbyWindow \<Rightarrow>
       (LobbyFrame \<times> bool \<times> 't LobbyWindow) option" where
  "lobbyRound lib tp contains i w =
     (case tick tp (ri_outcome i) (fst (lw_state w), ri_network i (snd (lw_state w))) of
        None \<Rightarrow> None
      | Some s1 \<Rightarrow>
          (let view = lobbyView (fst s1); w1 = resizeForScreen (screen view) w; layout = layoutFor (ri_imageSize i) view in
           case drainPointer tp contains layout (pointerEvents (lw_pointer w1)) s1 of
             None \<Rightarrow> None
           | Some s2 \<Rightarrow>
               (case drawLobbyFrame lib (ri_deltaMs i) layout
                       (w1\<lparr>lw_state := s2, lw_pointer := (lw_pointer w1)\<lparr>pointerEvents := []\<rparr>\<rparr>) of
                  None \<Rightarrow> None
                | Some (frame, w2) \<Rightarrow>
                    (let w3 = w2\<lparr>lw_pointer := fold (\<lambda>(ev, pt). mouseCallback ev pt) (ri_mouse i) (lw_pointer w2)\<rparr> in
                     case keyOfRound tp (ri_key i) (lw_state w3) of
                       None \<Rightarrow> None
                     | Some (running, s3) \<Rightarrow> Some (frame, running \<and> ri_visible i, w3\<lparr>lw_state := s3\<rparr>)))))"

fun lobbyLoop ::
    "AnimationLibrary \<Rightarrow> 't LobbyTransport \<Rightarrow> (Rect \<Rightarrow> point \<Rightarrow> bool) \<Rightarrow> 't RoundInput list \<Rightarrow> 't LobbyWindow \<Rightarrow>
       (LobbyFrame list \<times> bool \<times> 't LobbyWindow) option" where
  "lobbyLoop lib tp contains [] w = Some ([], True, w)"
| "lobbyLoop lib tp contains (i # is) w =
     (case lobbyRound lib tp contains i w of
        None \<Rightarrow> None
      | Some (frame, running, w1) \<Rightarrow>
          (if running then map_option (\<lambda>(frames, r). (frame # frames, r)) (lobbyLoop lib tp contains is w1)
           else Some ([frame], False, w1)))"

definition newLobbyWindow :: "'t \<Rightarrow> 't LobbyWindow" where
  "newLobbyWindow t = \<lparr>lw_state = (newLobbyController, t), lw_pointer = newPointerState,
     lw_builder = newVisualSnapshotBuilder lobbyBoardStartX lobbyBoardStartY lobbyCellSize lobbyCellSize 63,
     lw_size = (1366, 768), previousScreen = screen newLobbyView\<rparr>"

text \<open>The run: the frames that are drawn and the window, whose transport is disconnected when the loop ends.\<close>

definition runLobbyApp ::
    "AnimationLibrary \<Rightarrow> 't LobbyTransport \<Rightarrow> ('t \<Rightarrow> 't) \<Rightarrow> (Rect \<Rightarrow> point \<Rightarrow> bool) \<Rightarrow> 't RoundInput list \<Rightarrow> 't \<Rightarrow>
       (LobbyFrame list \<times> 't LobbyWindow) option" where
  "runLobbyApp lib tp disconnect contains inputs t =
     map_option (\<lambda>(frames, running, w).
        (frames, if running then w else w\<lparr>lw_state := (fst (lw_state w), disconnect (snd (lw_state w)))\<rparr>))
       (lobbyLoop lib tp contains inputs (newLobbyWindow t))"

end
