(* ===== verification/Lobby_Screen_Properties.thy ===== *)
theory Lobby_Screen_Properties
  imports Lobby_Screen Lobby_Properties Game_Screen_Properties
begin

text \<open>
  Properties of the window of the lobby: its loop does nothing but steps of the controller, so the
  invariants of the controller hold of everything that is drawn; no key and no pointer event throws;
  and a click on the board goes to the cell that is drawn there.
\<close>

section \<open>The window makes steps of the controller\<close>

lemma handled: "handle tp action val s = Some s' \<Longrightarrow> (lobbyStep tp)\<^sup>*\<^sup>* s s'"
  by (blast intro: lobbyStep.acted)

lemma typed: "(lobbyStep tp)\<^sup>*\<^sup>* (c, t) (inputCharacter ch c, t)" "(lobbyStep tp)\<^sup>*\<^sup>* (c, t) (backspace c, t)"
  by (blast intro: lobbyStep.key lobbyStep.erased)+

lemma entered:
  "handleTab tp s = Some s' \<Longrightarrow> (lobbyStep tp)\<^sup>*\<^sup>* s s'" "handleEnter tp s = Some s' \<Longrightarrow> (lobbyStep tp)\<^sup>*\<^sup>* s s'"
  by (cases s; auto simp: handleTab_def handleEnter_def split: if_splits dest: handled)+

lemma key_handled: "handleKey tp k view s = Some s' \<Longrightarrow> (lobbyStep tp)\<^sup>*\<^sup>* s s'"
  by (cases s) (auto simp: handleKey_def typed split: if_splits dest: entered)

lemma key_of_round: "keyOfRound tp k s = Some (running, s') \<Longrightarrow> (lobbyStep tp)\<^sup>*\<^sup>* s s'"
  by (auto simp: keyOfRound_def Let_def split: if_splits dest: key_handled handled)

lemma pointed: "pointerEvent tp contains layout ev s = Some s' \<Longrightarrow> (lobbyStep tp)\<^sup>*\<^sup>* s s'"
  by (auto simp: pointerEvent_def clickEvent_def jumpEvent_def wheelEvent_def Let_def
      split: PointerEventType.splits if_splits option.splits prod.splits dest: handled
      intro: r_into_rtranclp lobbyStep.clicked lobbyStep.jumped)

lemma drained: "drainPointer tp contains layout evs s = Some s' \<Longrightarrow> (lobbyStep tp)\<^sup>*\<^sup>* s s'"
proof (induction evs arbitrary: s)
  case (Cons ev evs)
  then obtain s1 where s1: "pointerEvent tp contains layout ev s = Some s1" "drainPointer tp contains layout evs s1 = Some s'"
    by (auto split: option.splits)
  show ?case by (rule rtranclp_trans [OF pointed [OF s1(1)] Cons.IH [OF s1(2)]])
qed simp

lemma drawn_state: "drawLobbyFrame lib d layout w = Some (frame, w') \<Longrightarrow> lw_state w' = lw_state w"
  by (auto simp: drawLobbyFrame_def Let_def split: if_splits option.splits)

lemma resize_state [simp]: "lw_state (resizeForScreen sc w) = lw_state w" "lw_builder (resizeForScreen sc w) = lw_builder w"
    "lw_pointer (resizeForScreen sc w) = lw_pointer w"
  by (simp_all add: resizeForScreen_def)

text \<open>A round in parts: the state when it draws, and the state when it ends.\<close>

lemma round_parts:
  assumes "lobbyRound lib tp contains i w = Some (frame, running, w')"
  obtains s2 layout w1 w2 where "(lobbyStep tp)\<^sup>*\<^sup>* (lw_state w) s2" "lw_state w1 = s2" "lw_builder w1 = lw_builder w"
    "drawLobbyFrame lib (ri_deltaMs i) layout w1 = Some (frame, w2)"
    "lw_builder w' = lw_builder w2" "(lobbyStep tp)\<^sup>*\<^sup>* s2 (lw_state w')"
proof -
  obtain s1 where s1: "tick tp (ri_outcome i) (fst (lw_state w), ri_network i (snd (lw_state w))) = Some s1"
    using assms by (auto simp: lobbyRound_def split: option.splits)
  define layout where "layout = layoutFor (ri_imageSize i) (lobbyView (fst s1))"
  define w0 where "w0 = resizeForScreen (screen (lobbyView (fst s1))) w"
  obtain s2 where s2: "drainPointer tp contains layout (pointerEvents (lw_pointer w0)) s1 = Some s2"
    using assms s1 by (auto simp: lobbyRound_def Let_def layout_def w0_def split: option.splits)
  define w1 where "w1 = w0\<lparr>lw_state := s2, lw_pointer := (lw_pointer w0)\<lparr>pointerEvents := []\<rparr>\<rparr>"
  obtain w2 where w2: "drawLobbyFrame lib (ri_deltaMs i) layout w1 = Some (frame, w2)"
    using assms s1 s2 by (auto simp: lobbyRound_def Let_def layout_def w0_def w1_def split: option.splits prod.splits)
  define w3 where "w3 = w2\<lparr>lw_pointer := fold (\<lambda>(ev, pt). mouseCallback ev pt) (ri_mouse i) (lw_pointer w2)\<rparr>"
  obtain s3 r where s3: "keyOfRound tp (ri_key i) (lw_state w3) = Some (r, s3)" "w' = w3\<lparr>lw_state := s3\<rparr>"
    using assms s1 s2 w2 by (auto simp: lobbyRound_def Let_def layout_def w0_def w1_def w3_def split: option.splits prod.splits)
  have "(lobbyStep tp)\<^sup>*\<^sup>* (lw_state w) (fst (lw_state w), ri_network i (snd (lw_state w)))"
    using lobbyStep.network [of tp "fst (lw_state w)" "snd (lw_state w)" "ri_network i (snd (lw_state w))"] by simp
  also have "(lobbyStep tp)\<^sup>*\<^sup>* \<dots> s1" using lobbyStep.ticked [OF s1] by blast
  also have "(lobbyStep tp)\<^sup>*\<^sup>* \<dots> s2" by (rule drained [OF s2])
  finally have "(lobbyStep tp)\<^sup>*\<^sup>* (lw_state w) s2" .
  moreover have "(lobbyStep tp)\<^sup>*\<^sup>* s2 (lw_state w')"
    using key_of_round [OF s3(1)] drawn_state [OF w2] s3(2) by (simp add: w3_def w1_def)
  ultimately show ?thesis
    using that [of s2 w1 layout w2] w2 s3(2) by (simp add: w1_def w0_def w3_def)
qed

section \<open>What is drawn\<close>

text \<open>
  A good frame: a match shows each piece once; any other frame shows a screen that is not that of a
  game, with the data and the inputs that belong to it.
\<close>

fun frameOk :: "LobbyFrame \<Rightarrow> bool" where
  "frameOk (MatchDrawn f) \<longleftrightarrow> distinct (map vp_pieceId (mf_pieces f))"
| "frameOk (ScreenDrawn v layout pt) \<longleftrightarrow>
     screen v \<noteq> GameScreen \<and> screen v \<noteq> SpectatorGame \<and> screenHasData v \<and> viewInputsOk v"

lemma buildVisuals_ids:
  assumes "libOk lib" "cacheOk b" "buildVisuals lib s d b = Some (vs, b')"
  shows "distinct (map vp_pieceId vs)" "cacheOk b'"
proof -
  show ok: "cacheOk b'" using buildVisuals_returns [OF assms(1,2), of s d] assms(3) by auto
  have "vs = createSnapshot b'" using assms(3) by (auto simp: buildVisuals_def Let_def)
  then have "map vp_pieceId vs = map fst (cachedPieces b')" by (auto simp: createSnapshot_def)
  then show "distinct (map vp_pieceId vs)" using ok by (simp add: cacheOk_def)
qed

lemma drawn_ok:
  assumes "libOk lib" "cacheOk (lw_builder w)" "screenHasData (lobbyView (fst (lw_state w)))" "viewInputsOk (lobbyView (fst (lw_state w)))"
    and "drawLobbyFrame lib d layout w = Some (frame, w')"
  shows "frameOk frame \<and> cacheOk (lw_builder w')"
proof (cases "screen (lobbyView (fst (lw_state w))) = GameScreen \<or> screen (lobbyView (fst (lw_state w))) = SpectatorGame")
  case False
  then show ?thesis using assms by (auto simp: drawLobbyFrame_def Let_def)
next
  case True
  then obtain m where m: "matchView (lobbyView (fst (lw_state w))) = Some m"
    using assms(3) by (auto simp: screenHasData_def)
  then obtain vs b where b: "buildVisuals lib (mv_snapshot m) d (lw_builder w) = Some (vs, b)"
    "frame = MatchDrawn (matchFrame vs (lobbyView (fst (lw_state w))) m)" "w' = w\<lparr>lw_builder := b\<rparr>"
    using assms(5) True by (auto simp: drawLobbyFrame_def Let_def)
  then show ?thesis using buildVisuals_ids [OF assms(1,2) b(1)] by (simp add: matchFrame_def Let_def)
qed

definition windowOk :: "'t LobbyWindow \<Rightarrow> bool" where
  "windowOk w \<longleftrightarrow> inputsOk (fst (lw_state w)) \<and> screenHasData (lobbyView (fst (lw_state w))) \<and> cacheOk (lw_builder w)"

lemma round_ok:
  assumes "libOk lib" "windowOk w" "lobbyRound lib tp contains i w = Some (frame, running, w')"
  shows "frameOk frame \<and> windowOk w'"
proof -
  obtain s2 layout w1 w2 where r: "(lobbyStep tp)\<^sup>*\<^sup>* (lw_state w) s2" "lw_state w1 = s2" "lw_builder w1 = lw_builder w"
    "drawLobbyFrame lib (ri_deltaMs i) layout w1 = Some (frame, w2)"
    "lw_builder w' = lw_builder w2" "(lobbyStep tp)\<^sup>*\<^sup>* s2 (lw_state w')"
    by (rule round_parts [OF assms(3)])
  have s2: "inputsOk (fst s2)" "screenHasData (lobbyView (fst s2))"
    using lobby_inputs.run [OF r(1)] lobby_shown.run [OF r(1)] assms(2) by (simp_all add: windowOk_def)
  have "frameOk frame \<and> cacheOk (lw_builder w2)"
    by (rule drawn_ok [OF assms(1) _ _ _ r(4)]) (use s2 r(2,3) assms(2) in \<open>simp_all add: windowOk_def inputsOk_def\<close>)
  moreover have "inputsOk (fst (lw_state w'))" "screenHasData (lobbyView (fst (lw_state w')))"
    using lobby_inputs.run [OF r(6)] lobby_shown.run [OF r(6)] s2 by simp_all
  ultimately show ?thesis using r(5) by (simp add: windowOk_def)
qed

lemma loop_ok:
  assumes "libOk lib"
  shows "windowOk w \<Longrightarrow> lobbyLoop lib tp contains inputs w = Some (frames, running, w') \<Longrightarrow>
    list_all frameOk frames \<and> windowOk w'"
proof (induction inputs arbitrary: w frames)
  case (Cons i inputs)
  obtain frame r w1 where r: "lobbyRound lib tp contains i w = Some (frame, r, w1)"
    using Cons.prems(2) by (cases "lobbyRound lib tp contains i w") auto
  note ok = round_ok [OF assms Cons.prems(1) r]
  show ?case
  proof (cases r)
    case True
    then obtain fs where "lobbyLoop lib tp contains inputs w1 = Some (fs, running, w')" "frames = frame # fs"
      using Cons.prems(2) \<open>lobbyRound lib tp contains i w = _\<close> by auto
    then show ?thesis using Cons.IH [of w1 fs] ok by simp
  next
    case False
    then show ?thesis using Cons.prems(2) \<open>lobbyRound lib tp contains i w = _\<close> ok by auto
  qed
qed simp

lemma newLobbyWindow_ok: "windowOk (newLobbyWindow t)"
  by (simp add: windowOk_def newLobbyWindow_def inputsOk_def viewInputsOk_def newLobbyController_def newLobbyView_def
    screenHasData_def cacheOk_def newVisualSnapshotBuilder_def)


definition quietRound :: "int \<Rightarrow> LobbyEvent list RoundInput" where
  "quietRound k = \<lparr>ri_network = id, ri_outcome = None, ri_imageSize = (0, 0), ri_deltaMs = 16, ri_key = k, ri_mouse = [],
     ri_visible = True\<rparr>"


section \<open>Nothing that is typed or clicked throws\<close>

text \<open>How many rooms the lists of the lobby hold; their sizes are cast to \<open>int\<close>.\<close>

definition roomsFit :: "LobbyController \<Rightarrow> bool" where
  "roomsFit c \<longleftrightarrow> int (length (waitingRooms (lobbyView c))) \<le> INT_MAX \<and> int (length (activeRooms (lobbyView c))) \<le> INT_MAX"

lemma stoi_to_string: "0 \<le> n \<Longrightarrow> n \<le> INT_MAX \<Longrightarrow> stoi (to_string n) = Some n"
  using stoll_to_string [of "[]" n]
  by (simp add: stoi_def noDigitFirst_def inLongLong_def inInt_def LLONG_MIN_def LLONG_MAX_def INT_MIN_def INT_MAX_def)

lemma handle_returns:
  "action \<notin> {NextWaitingPage, NextActivePage} \<or> stoi val \<noteq> None \<Longrightarrow> \<exists>s'. handle tp action val s = Some s'"
  by (cases s; cases action) (auto simp: handle_def Let_def nextPage_def split: prod.split)

lemma rooms_view:
  "roomsFit (onView (authenticationFailed m) c) = roomsFit c" "roomsFit (onView (beginAuthenticationView a) c) = roomsFit c"
  "roomsFit (onView (showError m) c) = roomsFit c" "roomsFit (onView resetForLogout c)"
  "roomsFit (c\<lparr>confirmPassword := x\<rparr>) = roomsFit c" "roomsFit (c\<lparr>passwordText := x\<rparr>) = roomsFit c"
  "roomsFit (c\<lparr>authenticationTask := u\<rparr>) = roomsFit c"
  by (simp_all add: roomsFit_def onView_def authenticationFailed_def beginAuthenticationView_def showError_def
    resetForLogout_def newLobbyView_def INT_MAX_def)

lemma rooms_actions:
  "roomsFit c \<Longrightarrow> roomsFit (beginAuthentication b c)" "roomsFit c \<Longrightarrow> roomsFit (registerAction c)"
  "roomsFit c \<Longrightarrow> roomsFit (toggleAuthMode c)" "roomsFit c \<Longrightarrow> roomsFit (clearPasswords c)"
  by (simp_all add: beginAuthentication_def registerAction_def rooms_view toggleAuthMode_def clearPasswords_def)
    (simp_all add: roomsFit_def onView_def Let_def)

lemma rooms_roomAction: "roomsFit c \<Longrightarrow> roomAction a i f m (c, t) = (c', t') \<Longrightarrow> roomsFit c'"
  by (auto simp: roomAction_def beginRoomAction_def rooms_view split: prod.splits if_splits)
    (simp_all add: roomsFit_def onView_def)

lemma rooms_handle: "handle tp action val (c, t) = Some (c', t') \<Longrightarrow> roomsFit c \<Longrightarrow> roomsFit c'"
  by (cases action; clarsimp simp: handle_def Let_def rooms_actions rooms_view split: if_split_asm prod.split_asm;
      (drule (1) rooms_roomAction)?; (simp add: roomsFit_def onView_def)?)

lemma maximumPage_bounds:
  assumes "0 \<le> n" "n \<le> INT_MAX" "0 < k"
  shows "0 \<le> maximumPage n k" "maximumPage n k \<le> INT_MAX"
proof -
  have "(n - 1) div k \<le> (n - 1) div 1" if "0 \<le> n - 1" using assms that by (intro zdiv_mono2) simp_all
  moreover have "0 \<le> (1 - n) div k" if "n - 1 < 0" using assms that by (simp add: pos_imp_zdiv_nonneg_iff)
  ultimately show "0 \<le> maximumPage n k" "maximumPage n k \<le> INT_MAX"
    using assms(2) by (auto simp: maximumPage_def INT_MAX_def)
qed

lemma cardAction_kind: "cardAction contains pt kind rooms k cards = Some (x, i) \<Longrightarrow> x = kind"
  by (induction contains pt kind rooms k cards rule: cardAction.induct) (auto split: if_split_asm)

lemma mapClick_never_pages: "mapClick contains pt v layout = (kind, val) \<Longrightarrow> kind \<notin> {NextWaitingPage, NextActivePage}"
  by (auto simp: mapClick_def Let_def split: if_split_asm option.split_asm dest: cardAction_kind)

lemma layoutFor_cards [simp]: "0 < cardsPerPage (layoutFor sz v)"
  by (simp add: layoutFor_def)

lemma board_rooms: "roomsFit c \<Longrightarrow> roomsFit (fst (gameBoardClick tp p (c, t)))" "roomsFit c \<Longrightarrow> roomsFit (fst (gameBoardJump tp p (c, t)))"
  by (auto simp: gameBoardClick_def gameBoardJump_def onShownMatch_def onView_def roomsFit_def Let_def split: option.split prod.split)

lemma handled_fits:
  assumes "action \<notin> {NextWaitingPage, NextActivePage} \<or> stoi val \<noteq> None" "roomsFit (fst s)"
  shows "\<exists>s'. handle tp action val s = Some s' \<and> roomsFit (fst s')"
  using handle_returns [OF assms(1), of tp s] rooms_handle [of tp action val "fst s" "snd s"] assms(2) by (metis prod.collapse)

lemma pointerEvent_returns:
  assumes "roomsFit (fst s)" "0 < cardsPerPage layout"
  shows "\<exists>s'. pointerEvent tp contains layout ev s = Some s' \<and> roomsFit (fst s')"
proof (cases "pe_type ev")
  case PointerClick
  have board: "roomsFit (fst (gameBoardClick tp p s))" for p using board_rooms(1) [OF assms(1), of tp p "snd s"] by simp
  obtain kind val where m: "mapClick contains (pe_position ev) (lobbyView (fst s)) layout = (kind, val)" by fastforce
  obtain home where home: "handle tp BackToLobby [] s = Some home" "roomsFit (fst home)"
    using handled_fits [of BackToLobby "[]" s tp] assms(1) by auto
  obtain acted where acted: "handle tp kind val s = Some acted" "roomsFit (fst acted)"
    using handled_fits [of kind val s tp] assms(1) mapClick_never_pages [OF m] by auto
  define place where "place = (case boardCellAt (pe_position ev) of None \<Rightarrow> s | Some p \<Rightarrow> gameBoardClick tp p s)"
  have "roomsFit (fst place)" using board assms(1) by (simp add: place_def split: option.split)
  then show ?thesis
    using PointerClick assms(1) by (simp add: pointerEvent_def clickEvent_def Let_def m home acted place_def [symmetric] del: split_paired_Ex)
next
  case PointerJump
  have "roomsFit (fst (gameBoardJump tp p s))" for p using board_rooms(2) [OF assms(1), of tp p "snd s"] by simp
  then show ?thesis using PointerJump assms(1) by (auto simp: pointerEvent_def jumpEvent_def split: option.split)
next
  case PointerWheel
  let ?n = "if contains (waitingSection layout) (pe_position ev) then int (length (waitingRooms (lobbyView (fst s))))
     else int (length (activeRooms (lobbyView (fst s))))"
  have "0 \<le> ?n" "?n \<le> INT_MAX" using assms(1) by (simp_all add: roomsFit_def)
  then have "stoi (to_string (maximumPage ?n (cardsPerPage layout))) \<noteq> None"
    using stoi_to_string maximumPage_bounds [OF _ _ assms(2)] by simp
  then have "\<exists>s'. handle tp action (to_string (maximumPage ?n (cardsPerPage layout))) s = Some s' \<and> roomsFit (fst s')" for action
    using handled_fits assms(1) by blast
  then show ?thesis
    using PointerWheel assms(1) unfolding pointerEvent_def wheelEvent_def Let_def by (simp del: split_paired_Ex)
qed

lemma drainPointer_returns:
  assumes "0 < cardsPerPage layout"
  shows "roomsFit (fst s) \<Longrightarrow> \<exists>s'. drainPointer tp contains layout evs s = Some s' \<and> roomsFit (fst s')"
proof (induction evs arbitrary: s)
  case (Cons ev evs)
  obtain s1 where "pointerEvent tp contains layout ev s = Some s1" "roomsFit (fst s1)"
    using pointerEvent_returns [OF Cons.prems assms] by blast
  then show ?case using Cons.IH by simp
qed simp

lemma keyOfRound_returns: "\<exists>r. keyOfRound tp k s = Some r"
proof -
  have h: "\<exists>s'. handle tp action [] s = Some s'" if "action \<notin> {NextWaitingPage, NextActivePage}" for action
    using handle_returns that by blast
  have "\<exists>s'. handleTab tp s = Some s'" "\<exists>s'. handleEnter tp s = Some s'"
    using h by (cases s; auto simp: handleTab_def handleEnter_def)+
  then have "\<exists>s'. handleKey tp k view s = Some s'" for view by (cases s) (auto simp: handleKey_def)
  then show ?thesis using h [of BackToLobby] h [of CancelModal] by (auto simp: keyOfRound_def Let_def)
qed

lemma drawLobbyFrame_returns:
  assumes "libOk lib" "cacheOk (lw_builder w)"
  shows "\<exists>r. drawLobbyFrame lib d layout w = Some r \<and> cacheOk (lw_builder (snd r))"
proof -
  have "\<exists>r. buildVisuals lib s d (lw_builder w) = Some r \<and> cacheOk (snd r)" for s
    using buildVisuals_returns [OF assms, of s d] by fastforce
  then have "\<exists>r. map_option (\<lambda>(pieces, b). (MatchDrawn (matchFrame pieces v m), w\<lparr>lw_builder := b\<rparr>))
      (buildVisuals lib (mv_snapshot m) d (lw_builder w)) = Some r \<and> cacheOk (lw_builder (snd r))" for v m
    by (metis (mono_tags, lifting) LobbyWindow.select_convs(3) LobbyWindow.update_convs(3) LobbyWindow.surjective case_prod_unfold option.simps(9) snd_conv)
  then show ?thesis using assms(2) by (auto simp: drawLobbyFrame_def Let_def split: option.split simp del: split_paired_Ex)
qed

text \<open>A round of the lobby's window ends with a frame whenever the events of the network run out: however
  the player types, clicks, turns the wheel and resizes the window, nothing throws and no page number
  is unreadable, as long as the lists of rooms have a size that fits an \<open>int\<close> and no animation claims
  more than a thousand frames per second.\<close>

theorem lobby_round_returns:
  assumes "libOk lib" "cacheOk (lw_builder w)"
    and "tick tp (ri_outcome i) (fst (lw_state w), ri_network i (snd (lw_state w))) = Some s"
    and "roomsFit (fst s)"
  shows "\<exists>frame running w'. lobbyRound lib tp contains i w = Some (frame, running, w') \<and> cacheOk (lw_builder w')"
proof -
  define layout where "layout = layoutFor (ri_imageSize i) (lobbyView (fst s))"
  define w1 where "w1 = resizeForScreen (screen (lobbyView (fst s))) w"
  obtain s2 where s2: "drainPointer tp contains layout (pointerEvents (lw_pointer w1)) s = Some s2"
    using drainPointer_returns [OF _ assms(4), of layout] unfolding layout_def by (meson layoutFor_cards)
  define w2 where "w2 = w1\<lparr>lw_state := s2, lw_pointer := (lw_pointer w1)\<lparr>pointerEvents := []\<rparr>\<rparr>"
  have "cacheOk (lw_builder w2)" using assms(2) by (simp add: w2_def w1_def)
  then obtain frame w3 where w3: "drawLobbyFrame lib (ri_deltaMs i) layout w2 = Some (frame, w3)" "cacheOk (lw_builder w3)"
    using drawLobbyFrame_returns [OF assms(1)] by (metis prod.collapse)
  define w4 where "w4 = w3\<lparr>lw_pointer := fold (\<lambda>(ev, pt). mouseCallback ev pt) (ri_mouse i) (lw_pointer w3)\<rparr>"
  obtain running s3 where "keyOfRound tp (ri_key i) (lw_state w4) = Some (running, s3)"
    using keyOfRound_returns [of tp "ri_key i" "lw_state w4"] by auto
  then show ?thesis
    unfolding lobbyRound_def assms(3) Let_def option.case layout_def [symmetric] w1_def [symmetric] s2 w2_def [symmetric] w3(1) prod.case
      w4_def [symmetric]
    using w3(2) by (simp add: w4_def)
qed

theorem lobby_round_returns_witness:
  "\<exists>frame running w'. lobbyRound demoLibrary scripted halfOpen (quietRound 27) (newLobbyWindow [readyEvent]) =
     Some (frame, running, w')"
proof -
  let ?w = "newLobbyWindow [readyEvent]" and ?i = "quietRound 27"
  have "case tick scripted (ri_outcome ?i) (fst (lw_state ?w), ri_network ?i (snd (lw_state ?w))) of
      None \<Rightarrow> False | Some s \<Rightarrow> roomsFit (fst s)"
    by code_simp
  then obtain s where s: "tick scripted (ri_outcome ?i) (fst (lw_state ?w), ri_network ?i (snd (lw_state ?w))) = Some s"
    "roomsFit (fst s)" by (auto split: option.split_asm)
  have "libOk demoLibrary" by (simp add: libOk_def demoLibrary_def)
  moreover have "cacheOk (lw_builder ?w)" using newLobbyWindow_ok [of "[readyEvent]"] by (simp add: windowOk_def)
  ultimately show ?thesis using lobby_round_returns [OF _ _ s, of demoLibrary halfOpen] by blast
qed

section \<open>Where a click goes\<close>

lemma lobby_click_goes_to_the_drawn_cell:
  assumes "0 \<le> r" "r < 8" "0 \<le> c" "c < 8"
    and "\<bar>of_int x - cellCenterX (lw_builder (newLobbyWindow t)) c\<bar> < 29"
    and "\<bar>of_int y - cellCenterY (lw_builder (newLobbyWindow t)) r\<bar> < 29"
  shows "boardCellAt (x, y) = Some (Position r c)"
proof -
  have x: "(x - 316) div 58 = c" and y: "(y - 136) div 58 = r"
    using assms(5,6) within_cell [of x 316 c 29] within_cell [of y 136 r 29]
    by (simp_all add: newLobbyWindow_def cellCenterX_def cellCenterY_def newVisualSnapshotBuilder_def lobbyBoardStartX_def
      lobbyBoardStartY_def lobbyCellSize_def boardInset_def SIDE_PANEL_WIDTH_def SCORE_PANEL_HEIGHT_def)
  then have "0 \<le> x - 316" "0 \<le> y - 136" "x - 316 < 464" "y - 136 < 464" using assms(1-4) by linarith+
  then show ?thesis using x y
    by (simp add: boardCellAt_def Let_def lobbyBoardStartX_def lobbyBoardStartY_def lobbyCellSize_def boardInset_def
      SIDE_PANEL_WIDTH_def SCORE_PANEL_HEIGHT_def)
qed

end
