(* ===== verification/Piece_Config.thy ===== *)
theory Piece_Config
  imports Engine Config_Text
begin

text \<open>
  The durations of a piece, \<open>src/server/chess_server/include/Core/PieceConfig.hpp\<close>. The files are a
  parameter: the contents at a path, or nothing. A number that does not fit makes \<open>std::stoll\<close>
  throw, \<open>None\<close>; the engine's configuration reader is the one that a run without a throw uses.
\<close>

definition defaultPieceConfig :: PieceStateConfig where
  "defaultPieceConfig = \<lparr>moveTimePerCellMs = 1000, jumpDurationMs = 1000, shortCooldownMs = 3000\<rparr>"

definition readLong :: "string \<Rightarrow> string \<Rightarrow> int \<Rightarrow> int option" where
  "readLong contents key fallback =
     (case findNumber key contents of None \<Rightarrow> Some fallback | Some ds \<Rightarrow> map_option fst (stoll ds))"

definition configPath :: "string \<Rightarrow> string \<Rightarrow> string" where
  "configPath pieceCode state =
     ''assets'' @ [CHR 0x5C] @ ''pieces'' @ [CHR 0x5C] @ pieceCode @ [CHR 0x5C] @ ''states'' @ [CHR 0x5C] @ state @
     [CHR 0x5C] @ ''config.json''"

definition loadPieceConfig :: "(string \<Rightarrow> string option) \<Rightarrow> string \<Rightarrow> string \<Rightarrow> PieceStateConfig option" where
  "loadPieceConfig files pieceCode state =
     (case files (configPath pieceCode state) of
        None \<Rightarrow> Some defaultPieceConfig
      | Some contents \<Rightarrow>
          (case readLong contents ''move_time_per_cell_ms'' (moveTimePerCellMs defaultPieceConfig) of
             None \<Rightarrow> None
           | Some moveTime \<Rightarrow>
               (case readLong contents ''jump_duration_ms'' (jumpDurationMs defaultPieceConfig) of
                  None \<Rightarrow> None
                | Some jumpTime \<Rightarrow>
                    (case readLong contents ''short_cooldown_ms'' (shortCooldownMs defaultPieceConfig) of
                       None \<Rightarrow> None
                     | Some cooldown \<Rightarrow>
                         Some \<lparr>moveTimePerCellMs = moveTime, jumpDurationMs = jumpTime, shortCooldownMs = cooldown\<rparr>))))"

lemma readLong_bounds:
  assumes "readLong contents key fallback = Some v" "0 \<le> fallback" "fallback \<le> LLONG_MAX"
  shows "0 \<le> v \<and> v \<le> LLONG_MAX"
proof (cases "findNumber key contents")
  case None
  then show ?thesis using assms by (simp add: readLong_def)
next
  case (Some ds)
  then obtain r where "stoll ds = Some (v, r)" using assms(1) by (auto simp: readLong_def)
  then show ?thesis using stoll_digits_nonneg findNumber_digits [OF Some] by blast
qed

text \<open>Whatever the files hold, a configuration that is read has no negative duration.\<close>

theorem piece_config_bounds:
  assumes "loadPieceConfig files pieceCode state = Some c"
  shows "0 \<le> moveTimePerCellMs c \<and> 0 \<le> jumpDurationMs c \<and> 0 \<le> shortCooldownMs c \<and>
    moveTimePerCellMs c \<le> LLONG_MAX \<and> jumpDurationMs c \<le> LLONG_MAX \<and> shortCooldownMs c \<le> LLONG_MAX"
  using assms readLong_bounds
  by (auto simp: loadPieceConfig_def defaultPieceConfig_def LLONG_MAX_def split: option.split_asm)

end
