(* ===== verification/Console.thy ===== *)
theory Console
  imports Board_Text Control Protocol_Scan
begin

text \<open>
  The console application, \<open>src/server/chess_server/src/App/ConsoleApp.cpp\<close>: a board and then
  commands from standard input. \<open>std::cin\<close> is a stream of characters with its fail flag. The
  variables that a command reads into are not initialized, and whether reading succeeded is not
  tested: what such a variable holds when nothing is written to it is the parameter \<open>junk\<close>.
\<close>

section \<open>Standard input\<close>

record InputStream =
  unread :: string
  streamFailed :: bool

text \<open>\<open>>>\<close> into a string: a word; without one the stream fails and the string is not changed.\<close>

definition readWord :: "InputStream \<Rightarrow> string option \<times> InputStream" where
  "readWord s =
     (if streamFailed s then (None, s)
      else let r = skipSpace (unread s) in
        if r = [] then (None, s\<lparr>unread := [], streamFailed := True\<rparr>)
        else (Some (takeWhile (\<lambda>c. \<not> isspace c) r), s\<lparr>unread := dropWhile (\<lambda>c. \<not> isspace c) r\<rparr>))"

text \<open>
  \<open>>>\<close> into an integer with the bounds \<open>lo\<close> and \<open>hi\<close>: a stream that has failed or is at its end
  writes nothing, a text that is no number writes zero, and one that is too large the nearest bound;
  each of them leaves the stream failed.
\<close>

definition readNumber :: "int \<Rightarrow> int \<Rightarrow> InputStream \<Rightarrow> int option \<times> InputStream" where
  "readNumber lo hi s =
     (if streamFailed s then (None, s)
      else let r = skipSpace (unread s) in
        if r = [] then (None, s\<lparr>unread := [], streamFailed := True\<rparr>)
        else let negative = (hd r = CHR ''-''); r1 = (if hd r = CHR ''-'' \<or> hd r = CHR ''+'' then tl r else r);
                 ds = takeWhile isdigit r1; s1 = s\<lparr>unread := dropWhile isdigit r1\<rparr>;
                 v = (if negative then - int (digitsValue ds) else int (digitsValue ds))
             in if ds = [] then (Some 0, s1\<lparr>streamFailed := True\<rparr>)
                else if v < lo then (Some lo, s1\<lparr>streamFailed := True\<rparr>)
                else if v > hi then (Some hi, s1\<lparr>streamFailed := True\<rparr>)
                else (Some v, s1))"

lemma readWord_shorter: "readWord s = (Some w, s') \<Longrightarrow> length (unread s') < length (unread s)"
proof -
  assume a: "readWord s = (Some w, s')"
  then have "skipSpace (unread s) \<noteq> []" "unread s' = dropWhile (\<lambda>c. \<not> isspace c) (skipSpace (unread s))"
    by (auto simp: readWord_def Let_def split: if_splits)
  moreover obtain c cs where cs: "skipSpace (unread s) = c # cs" using calculation(1) by (cases "skipSpace (unread s)") auto
  moreover have "\<not> isspace c" "length (c # cs) \<le> length (unread s)" using skipSpace_Cons [OF cs] by blast+
  ultimately show ?thesis using length_dropWhile_le [of "\<lambda>c. \<not> isspace c" cs] by simp
qed

lemma readWord_unread: "readWord s = (w, s') \<Longrightarrow> length (unread s') \<le> length (unread s)"
  using readWord_shorter [of s _ s'] by (cases w) (auto simp: readWord_def Let_def split: if_splits)

lemma readNumber_unread: "length (unread (snd (readNumber lo hi s))) \<le> length (unread s)"
proof -
  define r where "r = skipSpace (unread s)"
  have r: "length r \<le> length (unread s)" by (simp add: r_def skipSpace_def length_dropWhile_le)
  have "length (dropWhile isdigit x) \<le> length (unread s)" if "x = r \<or> x = tl r" for x
    using order_trans [OF length_dropWhile_le r, of isdigit] length_dropWhile_le [of isdigit "tl r"] r that by fastforce
  then show ?thesis by (simp add: readNumber_def Let_def r_def [symmetric])
qed

lemma readNumber_le: "readNumber lo hi s = (v, s') \<Longrightarrow> length (unread s') \<le> length (unread s)"
  using readNumber_unread [of lo hi s] by simp

section \<open>Commands\<close>

record ConsoleRun =
  stdIn :: InputStream
  stdOut :: string
  consoleController :: Controller

definition theEngine :: "ConsoleRun \<Rightarrow> GameEngine" where
  "theEngine r = engine (consoleController r)"

text \<open>Two coordinates, one after the other.\<close>

definition readPoint :: "int \<Rightarrow> InputStream \<Rightarrow> (int \<times> int) \<times> InputStream" where
  "readPoint junk s =
     (let (x, s1) = readNumber INT_MIN INT_MAX s; (y, s2) = readNumber INT_MIN INT_MAX s1
      in ((case x of None \<Rightarrow> junk | Some v \<Rightarrow> v, case y of None \<Rightarrow> junk | Some v \<Rightarrow> v), s2))"

text \<open>One command; \<open>None\<close> when waiting never ends.\<close>

definition runCommand :: "configReader \<Rightarrow> int \<Rightarrow> string \<Rightarrow> ConsoleRun \<Rightarrow> ConsoleRun option" where
  "runCommand cfg junk command r =
     (if command = ''click''
      then (case readPoint junk (stdIn r) of ((x, y), s) \<Rightarrow>
              Some (r\<lparr>stdIn := s, consoleController := snd (click cfg x y (consoleController r))\<rparr>))
      else if command = ''jump''
      then (case readPoint junk (stdIn r) of ((x, y), s) \<Rightarrow>
              Some (r\<lparr>stdIn := s, consoleController := snd (jump cfg x y (consoleController r))\<rparr>))
      else if command = ''print''
      then (case readWord (stdIn r) of (what, s) \<Rightarrow>
              Some (if what = Some ''board''
                    then r\<lparr>stdIn := s, stdOut := stdOut r @ print (heap (theEngine r)) (board (theEngine r))\<rparr>
                    else r\<lparr>stdIn := s\<rparr>))
      else if command = ''wait''
      then (case readNumber LLONG_MIN LLONG_MAX (stdIn r) of (ms, s) \<Rightarrow>
              map_option (\<lambda>g. r\<lparr>stdIn := s, consoleController := (consoleController r)\<lparr>engine := g\<rparr>\<rparr>)
                (wait cfg (case ms of None \<Rightarrow> junk | Some v \<Rightarrow> v) (theEngine r)))
      else Some r)"

lemma runCommand_input:
  "runCommand cfg junk w r = Some r' \<Longrightarrow> length (unread (stdIn r')) \<le> length (unread (stdIn r))"
  by (auto simp: runCommand_def readPoint_def split: if_splits prod.splits
      dest!: readNumber_le readWord_unread intro: order_trans)

function runCommands :: "configReader \<Rightarrow> int \<Rightarrow> ConsoleRun \<Rightarrow> ConsoleRun option" where
  "runCommands cfg junk r =
     (case readWord (stdIn r) of
        (None, s) \<Rightarrow> Some (r\<lparr>stdIn := s\<rparr>)
      | (Some command, s) \<Rightarrow>
          (case runCommand cfg junk command (r\<lparr>stdIn := s\<rparr>) of
             None \<Rightarrow> None | Some r1 \<Rightarrow> runCommands cfg junk r1))"
  by pat_completeness auto

termination
  by (relation "measure (\<lambda>(cfg, junk, r). length (unread (stdIn r)))")
    (auto dest!: readWord_shorter [OF sym] runCommand_input)

declare runCommands.simps [simp del]

section \<open>The run\<close>

text \<open>The lines after the board, as the text that is left for the commands.\<close>

definition runConsole :: "configReader \<Rightarrow> int \<Rightarrow> string \<Rightarrow> (string \<times> ConsoleRun) option" where
  "runConsole cfg junk t =
     (let (boardLines, left) = readBoardLines False (textLines t); (errors, h, b) = parse boardLines
      in map_option (\<lambda>r. (stdOut r, r))
           (runCommands cfg junk
              \<lparr>stdIn = \<lparr>unread = concat (map (\<lambda>l. l @ [CHR 0x0A]) left), streamFailed = False\<rparr>,
               stdOut = concat (map (\<lambda>e. e @ [CHR 0x0A]) errors),
               consoleController = newControllerDefault (newGameEngine h b False)\<rparr>))"

end
