(* ===== verification/Console_Properties.thy ===== *)
theory Console_Properties
  imports Console Control_Properties
begin

text \<open>
  A session at the console always ends, whatever is typed, and is a run of the engine on the board
  that was read.
\<close>

section \<open>Commands are runs of the engine\<close>

definition runsTo :: "configReader \<Rightarrow> GameEngine \<Rightarrow> GameEngine \<Rightarrow> bool" where
  "runsTo cfg g g' \<longleftrightarrow> (\<exists>ops. g' = runOps cfg g ops)"

lemma runsTo_refl [simp]: "runsTo cfg g g"
  unfolding runsTo_def by (rule exI [of _ "[]"]) (simp add: runOps_def)

lemma runsTo_op: "runsTo cfg g (runOp cfg g action)"
  unfolding runsTo_def by (rule exI [of _ "[action]"]) (simp add: runOps_def)

lemma runsTo_trans: "runsTo cfg g g1 \<Longrightarrow> runsTo cfg g1 g2 \<Longrightarrow> runsTo cfg g g2"
  unfolding runsTo_def by (auto simp: runOps_def) (metis foldl_append)

lemma sendRequest_runs:
  assumes "idleBus c"
  shows "idleBus (snd (sendRequest cfg MoveRequest s d c)) \<and> runsTo cfg (engine c) (engine (snd (sendRequest cfg MoveRequest s d c)))"
    and "idleBus (snd (sendRequest cfg JumpRequest s d c)) \<and> runsTo cfg (engine c) (engine (snd (sendRequest cfg JumpRequest s d c)))"
  using assms runsTo_op [of cfg "engine c" "OpMove s d"] runsTo_op [of cfg "engine c" "OpJump s"]
  by (simp_all add: sendRequest_move sendRequest_jump runOp_def)

lemma click_runs:
  assumes "idleBus c"
  shows "idleBus (snd (click cfg x y c)) \<and> runsTo cfg (engine c) (engine (snd (click cfg x y c)))"
  using assms sendRequest_runs [of "c\<lparr>selectedCell := None\<rparr>" cfg]
  by (auto simp: click_def handleSelectedCell_def requestSelectedMove_def selectFirstPiece_def selectFriendlyPiece_def Let_def
      split: option.split)

lemma jump_runs:
  assumes "idleBus c"
  shows "idleBus (snd (jump cfg x y c)) \<and> runsTo cfg (engine c) (engine (snd (jump cfg x y c)))"
  using assms sendRequest_runs [of "c\<lparr>selectedCell := None\<rparr>" cfg]
  by (auto simp: jump_def Let_def split: option.split)

lemma wait_runs:
  assumes "engine_wf g"
  shows "\<exists>g'. wait cfg ms g = Some g' \<and> runsTo cfg g g'"
proof -
  obtain g' where "wait cfg ms g = Some g'" using wait_rule [of g "\<lambda>_. True" cfg ms] assms by auto
  then show ?thesis using runsTo_op [of cfg g "OpWait ms"] by (simp add: runOp_def)
qed

lemma runsTo_wf: "runsTo cfg g g' \<Longrightarrow> engine_wf g \<Longrightarrow> engine_wf g'"
  unfolding runsTo_def using wf_runOps by blast

text \<open>A console in order: nothing is queued and the engine is well-formed.\<close>

definition consoleOk :: "ConsoleRun \<Rightarrow> bool" where
  "consoleOk r \<longleftrightarrow> idleBus (consoleController r) \<and> engine_wf (theEngine r)"

lemma command_runs:
  assumes "consoleOk r"
  shows "\<exists>r'. runCommand cfg junk w r = Some r' \<and> consoleOk r' \<and> runsTo cfg (theEngine r) (theEngine r')"
proof -
  have ok: "idleBus (consoleController r)" "engine_wf (engine (consoleController r))"
    using assms by (simp_all add: consoleOk_def theEngine_def)
  have moved: "consoleOk (r\<lparr>stdIn := s, consoleController := c\<rparr>) \<and> runsTo cfg (theEngine r) (theEngine (r\<lparr>stdIn := s, consoleController := c\<rparr>))"
    if "idleBus c" "runsTo cfg (engine (consoleController r)) (engine c)" for s c
    using that ok runsTo_wf by (auto simp: consoleOk_def theEngine_def)
  have clicks: "idleBus (snd (click cfg x y (consoleController r)))"
    "runsTo cfg (engine (consoleController r)) (engine (snd (click cfg x y (consoleController r))))" for x y
    using click_runs [OF ok(1)] by blast+
  have jumps: "idleBus (snd (jump cfg x y (consoleController r)))"
    "runsTo cfg (engine (consoleController r)) (engine (snd (jump cfg x y (consoleController r))))" for x y
    using jump_runs [OF ok(1)] by blast+
  consider "w = ''click''" | "w = ''jump''" | "w = ''print''" | "w = ''wait''"
    | "w \<noteq> ''click''" "w \<noteq> ''jump''" "w \<noteq> ''print''" "w \<noteq> ''wait''" by blast
  then show ?thesis
  proof cases
    case 4
    obtain n s where n: "readNumber LLONG_MIN LLONG_MAX (stdIn r) = (n, s)" by fastforce
    obtain g' where g': "wait cfg (case n of None \<Rightarrow> junk | Some v \<Rightarrow> v) (theEngine r) = Some g'" "runsTo cfg (theEngine r) g'"
      using wait_runs ok(2) unfolding theEngine_def by blast
    have "idleBus ((consoleController r)\<lparr>engine := g'\<rparr>)" using ok(1) by (simp add: idleBus_def)
    then show ?thesis
      using 4 g' moved [of "(consoleController r)\<lparr>engine := g'\<rparr>" s] by (simp add: runCommand_def n theEngine_def)
  qed (use assms moved clicks jumps in
      \<open>auto simp: runCommand_def consoleOk_def theEngine_def split: prod.split\<close>)
qed

lemma commands_run:
  "consoleOk r \<Longrightarrow> \<exists>r'. runCommands cfg junk r = Some r' \<and> consoleOk r' \<and> runsTo cfg (theEngine r) (theEngine r')"
proof (induction cfg junk r rule: runCommands.induct)
  case (1 cfg junk r)
  obtain w s where w: "readWord (stdIn r) = (w, s)" by fastforce
  have ok: "consoleOk (r\<lparr>stdIn := s\<rparr>)" "theEngine (r\<lparr>stdIn := s\<rparr>) = theEngine r"
    using 1(2) by (simp_all add: consoleOk_def theEngine_def)
  show ?case
  proof (cases w)
    case None
    then show ?thesis using w ok by (subst runCommands.simps) simp
  next
    case (Some command)
    obtain r1 where r1: "runCommand cfg junk command (r\<lparr>stdIn := s\<rparr>) = Some r1" "consoleOk r1"
      "runsTo cfg (theEngine r) (theEngine r1)"
      using command_runs [OF ok(1)] ok(2) by metis
    from 1(1) [OF w [symmetric] Some r1(1,2)] obtain r' where "runCommands cfg junk r1 = Some r'" "consoleOk r'"
      "runsTo cfg (theEngine r1) (theEngine r')" by blast
    then show ?thesis using w Some r1 runsTo_trans [OF r1(3)] by (subst runCommands.simps) simp
  qed
qed

section \<open>The board that is read\<close>

lemma tokenRowError_shape:
  "tokenRowError w rows = None \<Longrightarrow> \<forall>row \<in> set rows. length row = w \<and> (\<forall>tok \<in> set row. isAllowedToken tok)"
  by (induction rows) (auto simp: list_ex_iff split: if_splits)

lemma fresh_piece: "freshPieces h \<Longrightarrow> cooldown_ok 0 (h r) \<and> getState (h r) = Idle"
  unfolding freshPieces_def by (drule spec [of _ r]) (auto simp: newPiece_def cooldown_ok_def)

lemma parsedOk_fresh: "parsedOk (n, h, b) \<Longrightarrow> engine_wf (newGameEngine h b bus)"
  by (intro fresh_engine_wf fresh_newGameEngine) (simp_all add: parsedOk_def fresh_piece)

lemma parsed_wf:
  assumes "parse ls = (errors, h, b)"
  shows "engine_wf (newGameEngine h b bus)"
proof -
  have empty: "engine_wf (newGameEngine noPieces (newBoard 0 0) bus)"
    using parsedOk_fresh [OF parsedOk_new [of 0 0]] by simp
  define rows where "rows = filter (\<lambda>row. row \<noteq> []) (map splitLineToTokens ls)"
  show ?thesis
  proof (cases rows)
    case Nil
    then show ?thesis using assms empty by (simp add: parse_def rows_def [symmetric])
  next
    case (Cons first more)
    show ?thesis
    proof (cases "tokenRowError (length first) rows")
      case (Some e)
      then show ?thesis using assms empty Cons by (simp add: parse_def rows_def [symmetric] Let_def)
    next
      case None
      obtain n h' b' where "parse ls = ([], h', b')" "parsedOk (n, h', b')"
        using parse_rows [OF rows_def [symmetric] _ tokenRowError_shape [OF None]] Cons by auto
      then show ?thesis using assms parsedOk_fresh by auto
    qed
  qed
qed


end
