(* ===== verification/Entry_Points.thy ===== *)
theory Entry_Points
  imports Api_Client
begin

text \<open>
  What the two programs do with their arguments, \<open>src/client/desktop_client/main.cpp\<close> and
  \<open>src/server/chess_server/main.cpp\<close>. Changing to the directory of the program is left out.
\<close>

section \<open>Ports\<close>

definition portMessage :: string where
  "portMessage = ''Port must be between 1 and 65535''"

text \<open>\<open>std::from_chars\<close> into an unsigned number: only digits, no sign and no white space.\<close>

definition fromChars :: "string \<Rightarrow> (int \<times> string) option" where
  "fromChars t =
     (let ds = takeWhile isdigit t in
      if ds = [] \<or> int (digitsValue ds) \<ge> 2 ^ 64 then None else Some (int (digitsValue ds), dropWhile isdigit t))"

definition parsePort :: "string \<Rightarrow> string + int" where
  "parsePort t =
     (case fromChars t of
        None \<Rightarrow> Inl portMessage
      | Some (v, left) \<Rightarrow> if t = [] \<or> left \<noteq> [] \<or> v < 1 \<or> v > 65535 then Inl portMessage else Inr v)"

section \<open>The client\<close>

datatype ClientMode = LobbyMode | GameMode | TextMode

text \<open>What is started: a mode with an endpoint when one is given; or the usage, or an error.\<close>

datatype 'm started = Usage | Refused string | Started 'm

definition modeOf :: "string list \<Rightarrow> ClientMode \<times> string list" where
  "modeOf arguments =
     (case arguments of
        [] \<Rightarrow> (LobbyMode, [])
      | a # as \<Rightarrow>
          (if a = ''text'' then (TextMode, as)
           else if a = ''game'' then (GameMode, as)
           else if a = ''lobby'' then (LobbyMode, as)
           else (LobbyMode, a # as)))"

definition clientMain :: "string list \<Rightarrow> (ClientMode \<times> (string \<times> int) option) started" where
  "clientMain arguments =
     (case modeOf arguments of (mode, endpoint) \<Rightarrow>
        (case endpoint of
           [] \<Rightarrow> Started (mode, None)
         | [hostName, port] \<Rightarrow>
             (case parsePort port of Inl e \<Rightarrow> Refused e | Inr p \<Rightarrow> Started (mode, Some (hostName, p)))
         | _ \<Rightarrow> Usage))"

section \<open>The server\<close>

datatype ServerMode = ConsoleMode | ServeDefault | ServePort int

definition serverMain :: "string list \<Rightarrow> ServerMode started" where
  "serverMain arguments =
     (case arguments of
        [] \<Rightarrow> Started ServeDefault
      | a # as \<Rightarrow>
          (if a = ''console'' then (if as = [] then Started ConsoleMode else Usage)
           else if as = [] then (case parsePort a of Inl e \<Rightarrow> Refused e | Inr p \<Rightarrow> Started (ServePort p))
           else Usage))"

section \<open>Only ports are accepted\<close>

lemma digits_only: "dropWhile isdigit t = [] \<longleftrightarrow> list_all isdigit t"
  by (auto simp: dropWhile_eq_Nil_conv list_all_iff)

lemma parsePort_iff:
  "parsePort t = Inr v \<longleftrightarrow> t \<noteq> [] \<and> list_all isdigit t \<and> v = int (digitsValue t) \<and> 1 \<le> v \<and> v \<le> 65535"
proof (cases "list_all isdigit t")
  case True
  then have t: "takeWhile isdigit t = t" by (simp add: takeWhile_eq_all_conv list_all_iff)
  have d: "dropWhile isdigit t = []" using True digits_only by blast
  show ?thesis using True unfolding parsePort_def fromChars_def Let_def t d by auto
next
  case False
  then have "dropWhile isdigit t \<noteq> []" using digits_only by blast
  then show ?thesis using False by (auto simp: parsePort_def fromChars_def Let_def split: option.split)
qed

lemma port_is_read_back: "1 \<le> p \<Longrightarrow> p \<le> 65535 \<Longrightarrow> parsePort (to_string p) = Inr p"
  by (simp add: parsePort_iff to_string_def list_all_iff natDigits_digits)

end
