(* ===== verification/Drawing_Ops.thy ===== *)
theory Drawing_Ops
  imports Complex_Main Lobby_Layout
begin

text \<open>
  What the code asks OpenCV to draw, as data in the order of the calls. What a call does to an image is
  not modelled here; the size of a text is a parameter. Scales and weights are exact rationals.
\<close>

section \<open>Calls\<close>

datatype Font = Simplex | Duplex

datatype LineType = PlainLine | SmoothLine

type_synonym color = "int \<times> int \<times> int"

text \<open>
  A rectangle that is filled or outlined with a thickness, a text at an origin, a line, a filled convex
  polygon, and a rectangle that is mixed into the image with a weight. \<open>MixRect\<close> draws the rectangle
  on a copy of the whole image and mixes the two; \<open>MixRegion\<close> mixes the region of the image itself,
  which OpenCV refuses with an exception when the region leaves the image.
\<close>

datatype DrawOp =
    FillRect Rect color LineType
  | OutlineRect Rect color int LineType
  | PutText string "int \<times> int" Font rat color int
  | DrawLine "int \<times> int" "int \<times> int" color int LineType
  | FillPolygon "(int \<times> int) list" color
  | MixRect Rect color rat
  | MixRegion Rect color rat

text \<open>The width, the height and the baseline of a text (\<open>cv::getTextSize\<close>).\<close>

type_synonym metrics = "string \<Rightarrow> Font \<Rightarrow> rat \<Rightarrow> int \<Rightarrow> int \<times> int \<times> int"

text \<open>A cast from \<open>double\<close> to \<open>int\<close> truncates.\<close>

definition truncRat :: "rat \<Rightarrow> int" where
  "truncRat q = (if q \<ge> 0 then \<lfloor>q\<rfloor> else \<lceil>q\<rceil>)"

lemma truncRat_mono: "p \<le> q \<Longrightarrow> truncRat p \<le> truncRat q"
proof -
  assume le: "p \<le> q"
  have "\<lceil>p\<rceil> \<le> \<lfloor>q\<rfloor>" if "p < 0" "0 \<le> q"
    using that by (meson ceiling_le_iff le_floor_iff less_le_not_le linear of_int_0 order_trans zero_le_floor ceiling_le_zero)
  then show ?thesis
    using le floor_mono [OF le] ceiling_mono [OF le] by (auto simp: truncRat_def)
qed

lemma truncRat_of_int [simp]: "truncRat (of_int n) = n"
  by (simp add: truncRat_def)

end
