(* ===== verification/Images.thy ===== *)
theory Images
  imports Complex_Main "HOL-Library.Word"
begin

text \<open>
  Drawing one image on another, pixel by pixel:
  \<open>src/client/desktop_client/src/Graphics/GraphicsHelper.cpp\<close>. An image is what OpenCV documents of a
  continuous \<open>cv::Mat\<close> of bytes: its rows, columns and channels and the bytes row by row, and
  \<open>at<T>(row, col)\<close> is the \<open>T\<close> at \<open>col\<close> times the size of \<open>T\<close> from the start of the row, whatever the
  channels of the image are. Reading or writing outside of the bytes is undefined, \<open>None\<close>. Adding an alpha
  channel (\<open>cv::cvtColor\<close>) is a parameter. Mixed colors are exact rationals before the cast to a byte.
\<close>

section \<open>Images\<close>

record Mat =
  matRows :: int
  matCols :: int
  matChannels :: int
  matBytes :: "int \<Rightarrow> 8 word"

definition matEmpty :: "Mat \<Rightarrow> bool" where
  "matEmpty m \<longleftrightarrow> matRows m \<le> 0 \<or> matCols m \<le> 0"

text \<open>The address of \<open>at<T>(r, c)\<close> for a \<open>T\<close> of \<open>n\<close> bytes, and whether all its bytes belong to the image.\<close>

definition address :: "Mat \<Rightarrow> int \<Rightarrow> int \<Rightarrow> int \<Rightarrow> int" where
  "address m n r c = r * (matCols m * matChannels m) + c * n"

definition accessible :: "Mat \<Rightarrow> int \<Rightarrow> int \<Rightarrow> int \<Rightarrow> bool" where
  "accessible m n r c \<longleftrightarrow>
     0 \<le> address m n r c \<and> address m n r c + n \<le> matRows m * matCols m * matChannels m"

section \<open>Mixing colors\<close>

text \<open>The cast of a \<open>double\<close> between 0 and 255 to a byte drops the fraction.\<close>

definition mixByte :: "rat \<Rightarrow> 8 word \<Rightarrow> 8 word \<Rightarrow> 8 word" where
  "mixByte alpha t s = word_of_int \<lfloor>(1 - alpha) * of_int (uint t) + alpha * of_int (uint s)\<rfloor>"

primrec eachCell :: "('a \<Rightarrow> Mat \<Rightarrow> Mat option) \<Rightarrow> 'a list \<Rightarrow> Mat \<Rightarrow> Mat option" where
  "eachCell f [] m = Some m"
| "eachCell f (c # cs) m = (case f c m of None \<Rightarrow> None | Some m1 \<Rightarrow> eachCell f cs m1)"

definition cellsOf :: "int \<Rightarrow> int \<Rightarrow> (int \<times> int) list" where
  "cellsOf h w = concat (map (\<lambda>r. map (Pair r) [0..w - 1]) [0..h - 1])"

section \<open>Drawing with the alpha of the image\<close>

definition blendPixel :: "Mat \<Rightarrow> int \<Rightarrow> int \<Rightarrow> int \<times> int \<Rightarrow> Mat \<Rightarrow> Mat option" where
  "blendPixel source x y = (\<lambda>(r, c) target.
     (if accessible source 4 r c \<and> accessible target 4 (y + r) (x + c)
      then let s = address source 4 r c; t = address target 4 (y + r) (x + c);
               alpha = of_int (uint (matBytes source (s + 3))) / 255;
               mixed = (\<lambda>k. mixByte alpha (matBytes target (t + k)) (matBytes source (s + k)))
           in Some (target\<lparr>matBytes := (matBytes target)(t := mixed 0, t + 1 := mixed 1, t + 2 := mixed 2, t + 3 := 255)\<rparr>)
      else None))"

text \<open>The exception is \<open>Inl\<close>. The target is a reference: its conversion stays even when nothing is drawn.\<close>

definition drawTransparent :: "(Mat \<Rightarrow> Mat) \<Rightarrow> Mat \<Rightarrow> int \<Rightarrow> int \<Rightarrow> Mat \<Rightarrow> (string + Mat) option" where
  "drawTransparent addAlpha source x y target =
     (if matEmpty target \<or> matEmpty source then Some (Inl ''Images must be loaded before drawing.'')
      else let src = (if matChannels source = 3 then addAlpha source else source);
               tgt = (if matChannels target = 3 then addAlpha target else target)
           in if x \<ge> matCols tgt \<or> y \<ge> matRows tgt then Some (Inr tgt)
              else let w = (if x + matCols src > matCols tgt then matCols tgt - x else matCols src);
                       h = (if y + matRows src > matRows tgt then matRows tgt - y else matRows src)
                   in if w \<le> 0 \<or> h \<le> 0 then Some (Inr tgt)
                      else map_option Inr (eachCell (blendPixel src x y) (cellsOf h w) tgt))"

section \<open>Drawing with an opacity\<close>

text \<open>The color and the alpha of a pixel of the foreground.\<close>

definition foregroundPixel :: "Mat \<Rightarrow> int \<Rightarrow> int \<Rightarrow> (rat \<times> (int \<Rightarrow> 8 word)) option" where
  "foregroundPixel m r c =
     (if matChannels m = 4
      then if accessible m 4 r c
           then Some (of_int (uint (matBytes m (address m 4 r c + 3))) / 255, \<lambda>k. matBytes m (address m 4 r c + k))
           else None
      else if accessible m 3 r c then Some (1, \<lambda>k. matBytes m (address m 3 r c + k))
      else None)"

definition fadePixel :: "Mat \<Rightarrow> int \<Rightarrow> int \<Rightarrow> rat \<Rightarrow> int \<times> int \<Rightarrow> Mat \<Rightarrow> Mat option" where
  "fadePixel foreground x y opac = (\<lambda>(r, c) target.
     (if x + c < 0 \<or> y + r < 0 \<or> x + c \<ge> matCols target \<or> y + r \<ge> matRows target then Some target
      else case foregroundPixel foreground r c of
        None \<Rightarrow> None
      | Some (pngAlpha, color) \<Rightarrow>
          (if accessible target 3 (y + r) (x + c)
           then let t = address target 3 (y + r) (x + c); alpha = opac * pngAlpha;
                    mixed = (\<lambda>k. mixByte alpha (matBytes target (t + k)) (color k))
                in Some (target\<lparr>matBytes := (matBytes target)(t := mixed 0, t + 1 := mixed 1, t + 2 := mixed 2)\<rparr>)
           else None)))"

definition drawTransparentWithOpacity :: "Mat \<Rightarrow> int \<Rightarrow> int \<Rightarrow> rat \<Rightarrow> Mat \<Rightarrow> Mat option" where
  "drawTransparentWithOpacity foreground x y opac target =
     (if matEmpty target \<or> matEmpty foreground then Some target
      else eachCell (fadePixel foreground x y (max 0 (min 1 opac))) (cellsOf (matRows foreground) (matCols foreground)) target)"

section \<open>Loops over pixels\<close>

lemma eachCell_invariant:
  assumes "P m" "\<And>c m m'. c \<in> set cs \<Longrightarrow> P m \<Longrightarrow> f c m = Some m' \<Longrightarrow> P m'" "eachCell f cs m = Some m'"
  shows "P m'"
  using assms
proof (induction cs arbitrary: m)
  case (Cons c cs)
  then obtain m1 where m1: "f c m = Some m1" "eachCell f cs m1 = Some m'" by (auto split: option.splits)
  have "P m1" by (rule Cons.prems(2) [OF _ Cons.prems(1) m1(1)]) simp
  then show ?case by (rule Cons.IH [OF _ _ m1(2)]) (rule Cons.prems(2), simp_all)
qed simp

lemma eachCell_returns:
  assumes "P m" "\<And>c m. c \<in> set cs \<Longrightarrow> P m \<Longrightarrow> \<exists>m'. f c m = Some m' \<and> P m'"
  shows "\<exists>m'. eachCell f cs m = Some m' \<and> P m'"
  using assms
proof (induction cs arbitrary: m)
  case (Cons c cs)
  obtain m1 where "f c m = Some m1" "P m1" using Cons.prems(2) [of c m] Cons.prems(1) by auto
  with Cons.IH [OF this(2)] Cons.prems(2) show ?case by simp
qed simp

lemma in_cellsOf [simp]: "(r, c) \<in> set (cellsOf h w) \<longleftrightarrow> 0 \<le> r \<and> r < h \<and> 0 \<le> c \<and> c < w"
  by (auto simp: cellsOf_def image_iff)

text \<open>The size and the channels of an image.\<close>

definition shape :: "Mat \<Rightarrow> int \<times> int \<times> int" where
  "shape m = (matRows m, matCols m, matChannels m)"

lemma accessible_inside:
  assumes "0 \<le> r" "r < matRows m" "0 \<le> c" "c < matCols m" "0 < n" "n \<le> matChannels m"
  shows "accessible m n r c"
proof -
  have "(c + 1) * n \<le> matCols m * matChannels m"
    using assms by (intro mult_mono) simp_all
  moreover have "(r + 1) * (matCols m * matChannels m) \<le> matRows m * (matCols m * matChannels m)"
    using assms by (intro mult_right_mono) simp_all
  ultimately have "address m n r c + n \<le> matRows m * matCols m * matChannels m"
    by (simp add: address_def algebra_simps)
  then show ?thesis using assms by (simp add: accessible_def address_def)
qed

section \<open>What drawing touches\<close>

lemma blendPixel_defined:
  assumes "matChannels source = 4" "matChannels m = 4" "0 \<le> x" "0 \<le> y"
    and "0 \<le> r" "r < matRows source" "y + r < matRows m" "0 \<le> c" "c < matCols source" "x + c < matCols m"
  shows "\<exists>m'. blendPixel source x y (r, c) m = Some m' \<and> shape m' = shape m"
  using assms accessible_inside [of r source c 4] accessible_inside [of "y + r" m "x + c" 4]
  by (simp add: blendPixel_def Let_def shape_def)

text \<open>A conversion that adds an alpha channel, as OpenCV documents it.\<close>

definition addsAlpha :: "(Mat \<Rightarrow> Mat) \<Rightarrow> bool" where
  "addsAlpha f \<longleftrightarrow> (\<forall>m. matChannels m = 3 \<longrightarrow> shape (f m) = (matRows m, matCols m, 4))"

lemma drawTransparent_defined:
  assumes "addsAlpha f" "\<not> matEmpty source" "\<not> matEmpty target" "0 \<le> x" "0 \<le> y"
    and "matChannels source \<in> {3, 4}" "matChannels target \<in> {3, 4}"
  shows "\<exists>m. drawTransparent f source x y target = Some (Inr m) \<and> shape m = (matRows target, matCols target, 4)"
proof -
  define src where "src = (if matChannels source = 3 then f source else source)"
  define tgt where "tgt = (if matChannels target = 3 then f target else target)"
  define w where "w = (if x + matCols src > matCols tgt then matCols tgt - x else matCols src)"
  define h where "h = (if y + matRows src > matRows tgt then matRows tgt - y else matRows src)"
  have src: "matChannels src = 4" using assms(1,6) by (auto simp: src_def addsAlpha_def shape_def)
  have tgt: "shape tgt = (matRows target, matCols target, 4)" using assms(1,7) by (auto simp: tgt_def addsAlpha_def shape_def)
  have "\<exists>m. eachCell (blendPixel src x y) (cellsOf h w) tgt = Some m \<and> shape m = shape tgt"
  proof (rule eachCell_returns)
    fix p m assume p: "p \<in> set (cellsOf h w)" and m: "shape m = shape tgt"
    obtain r c where pc: "p = (r, c)" by fastforce
    then have rc: "p = (r, c)" "0 \<le> r" "r < h" "0 \<le> c" "c < w" using p by simp_all
    have "r < matRows src" "y + r < matRows m" "c < matCols src" "x + c < matCols m"
      using rc m by (auto simp: h_def w_def shape_def split: if_splits)
    then show "\<exists>m'. blendPixel src x y p m = Some m' \<and> shape m' = shape tgt"
      using blendPixel_defined [OF src _ assms(4,5) rc(2) _ _ rc(4), of m] m tgt by (auto simp: rc(1) shape_def)
  qed simp
  then show ?thesis
    using assms(2,3) tgt
    by (auto simp: drawTransparent_def Let_def src_def [symmetric] tgt_def [symmetric] w_def [symmetric] h_def [symmetric])
qed

text \<open>Left of the image, in its first row, the first pixel already lies before the image.\<close>

lemma eachCell_first: "f (0, 0) m = None \<Longrightarrow> 0 < h \<Longrightarrow> 0 < w \<Longrightarrow> eachCell f (cellsOf h w) m = None"
  by (simp add: cellsOf_def upto_rec1 [of 0])

lemma drawing_left_of_the_image:
  assumes "matChannels source = 4" "matChannels target = 4" "\<not> matEmpty source" "\<not> matEmpty target" "x < 0"
  shows "drawTransparent f source x 0 target = None"
proof -
  have "blendPixel source x 0 (0, 0) target = None"
    using assms(5) by (simp add: blendPixel_def accessible_def address_def)
  then show ?thesis using assms by (simp add: drawTransparent_def Let_def matEmpty_def eachCell_first)
qed

text \<open>
  Fading writes three bytes for each pixel, at three bytes for each column. On an image with four
  channels that is not where the column is.
\<close>

lemma fadePixel_writes:
  assumes "fadePixel foreground x y opac (r, c) m = Some m'"
  shows "shape m' = shape m"
    and "(a < address m 3 (y + r) (x + c) \<or> address m 3 (y + r) (x + c) + 3 \<le> a) \<or>
        x + c < 0 \<or> y + r < 0 \<or> matCols m \<le> x + c \<or> matRows m \<le> y + r \<Longrightarrow> matBytes m' a = matBytes m a"
  using assms by (auto simp: fadePixel_def shape_def Let_def split: if_splits option.splits)

lemma rows_apart:
  fixes r r' n i j :: int
  assumes "0 \<le> i" "i < n" "0 \<le> j" "j < n" "r * n + i = r' * n + j"
  shows "r = r'"
proof -
  have "(r * n + i) div n = r" "(r' * n + j) div n = r'" using assms(1-4) by simp_all
  then show ?thesis using assms(5) by metis
qed

lemma faded_apart:
  assumes four: "matChannels m = 4" and place: "0 \<le> x" "0 \<le> r'" "3 * w \<le> x" "x \<le> c" "c < matCols m" "0 \<le> k" "k < 4"
    and c': "0 \<le> c'" "c' < w" "x + c' < matCols m"
  shows "address m 4 r c + k < address m 3 (y + r') (x + c') \<or> address m 3 (y + r') (x + c') + 3 \<le> address m 4 r c + k"
proof (rule ccontr)
  let ?n = "matCols m * 4"
  assume "\<not> ?thesis"
  then obtain j where j: "0 \<le> j" "j < 3" "r * ?n + (c * 4 + k) = (y + r') * ?n + ((x + c') * 3 + j)"
    using that by (auto simp: address_def four algebra_simps)
      (metis add.commute diff_add_cancel diff_ge_0_iff_ge linorder_not_le)
  have "0 \<le> c * 4 + k" "c * 4 + k < ?n" "0 \<le> (x + c') * 3 + j" "(x + c') * 3 + j < ?n"
    using place c' j(1,2) by simp_all
  then have "r = y + r'" using rows_apart j(3) by blast
  then have "c * 4 + k = (x + c') * 3 + j" using j(3) by simp
  moreover have "x * 4 \<le> c * 4 + k" using place by simp
  moreover have "(x + c') * 3 + j < x * 3 + w * 3" using c' j(2) by simp
  ultimately show False using place(3) by linarith
qed

end
