(* ===== verification/Renderer.thy ===== *)
theory Renderer
  imports Drawing_Ops Images Game_Screen "HOL-Library.Signed_Division"
begin

text \<open>
  The picture of a game: \<open>src/client/desktop_client/src/Graphics/Renderer.cpp\<close>. Shapes and texts are the calls
  of \<open>Drawing_Ops\<close>; what they do to an image, and reading, resizing and converting an image, are
  parameters (\<open>DrawLibrary\<close>). Sprites are put on the image byte by byte, as in \<open>Images\<close>. An operation that
  leaves the bytes of an image is \<open>None\<close>, an exception is \<open>Inl\<close>. Fractions are exact rationals.
\<close>

section \<open>OpenCV and the files\<close>

record DrawLibrary =
  textSize :: metrics
  paint :: "DrawOp \<Rightarrow> Mat \<Rightarrow> string + Mat"
  bgrToBgra :: "Mat \<Rightarrow> Mat"
  bgraToBgr :: "Mat \<Rightarrow> Mat"
  grayToBgr :: "Mat \<Rightarrow> Mat"
  imread :: "string \<Rightarrow> Mat"
  pathExists :: "string \<Rightarrow> bool"
  resizeImage :: "int \<Rightarrow> int \<Rightarrow> Mat \<Rightarrow> string + Mat"

type_synonym 'a outcome = "(string + 'a) option"

definition thenDraw :: "'a outcome \<Rightarrow> ('a \<Rightarrow> 'b outcome) \<Rightarrow> 'b outcome" where
  "thenDraw r f = (case r of None \<Rightarrow> None | Some (Inl e) \<Rightarrow> Some (Inl e) | Some (Inr a) \<Rightarrow> f a)"

text \<open>The steps of a loop, one after the other.\<close>

primrec inTurn :: "('a \<Rightarrow> 's \<Rightarrow> 's outcome) \<Rightarrow> 'a list \<Rightarrow> 's \<Rightarrow> 's outcome" where
  "inTurn f [] s = Some (Inr s)"
| "inTurn f (x # xs) s = thenDraw (f x s) (inTurn f xs)"

definition paintAll :: "DrawLibrary \<Rightarrow> DrawOp list \<Rightarrow> Mat \<Rightarrow> Mat outcome" where
  "paintAll lib = inTurn (\<lambda>op m. Some (paint lib op m))"

section \<open>Scores, countdown and overlays\<close>

definition drawScore :: "metrics \<Rightarrow> int \<Rightarrow> string \<Rightarrow> int \<Rightarrow> int \<Rightarrow> bool \<Rightarrow> DrawOp list" where
  "drawScore measured boardSize label score y localPlayer =
     (let area = rect SIDE_PANEL_WIDTH y boardSize SCORE_PANEL_HEIGHT; t = label @ '': '' @ to_string score in
      case measured t Simplex (8 / 10) 2 of (w, h, baseline) \<Rightarrow>
        [FillRect area (245, 245, 245) PlainLine,
         OutlineRect area (if localPlayer then (0, 165, 255) else (120, 120, 120)) (if localPlayer then 5 else 1) PlainLine,
         PutText t (rx area + (rw area - w) sdiv 2, ry area + (rh area + h) sdiv 2) Simplex (8 / 10) (35, 35, 35) 2])"

definition boardRect :: "int \<Rightarrow> Rect" where
  "boardRect boardSize = rect SIDE_PANEL_WIDTH SCORE_PANEL_HEIGHT boardSize boardSize"

definition drawCountdown :: "metrics \<Rightarrow> int \<Rightarrow> string \<Rightarrow> DrawOp list" where
  "drawCountdown measured boardSize val =
     (let area = boardRect boardSize; scale = of_int boardSize / (if val = ''GO'' then 180 else 135);
          thickness = max 5 (boardSize sdiv 65)
      in case measured val Duplex scale thickness of (w, h, baseline) \<Rightarrow>
        let origin = (rx area + (rw area - w) sdiv 2, ry area + (rh area + h) sdiv 2)
        in [MixRect area (20, 20, 20) (28 / 100),
            PutText val origin Duplex scale (15, 15, 15) (thickness + 6),
            PutText val origin Duplex scale (245, 220, 120) thickness])"

definition drawCenteredText :: "metrics \<Rightarrow> Rect \<Rightarrow> string \<Rightarrow> int \<Rightarrow> rat \<Rightarrow> int \<Rightarrow> color \<Rightarrow> DrawOp list" where
  "drawCenteredText measured area t centerY scale thickness col =
     (case measured t Duplex scale thickness of (w, h, baseline) \<Rightarrow>
        let origin = (rx area + (rw area - w) sdiv 2, centerY + (h - baseline) sdiv 2)
        in [PutText t origin Duplex scale (15, 15, 15) (thickness + 6), PutText t origin Duplex scale col thickness])"

definition overlayScale :: "metrics \<Rightarrow> int \<Rightarrow> string \<Rightarrow> RenderOverlayMode \<Rightarrow> rat \<times> int" where
  "overlayScale measured boardSize line1 mode =
     (case measured line1 Duplex 1 3 of (w, h, baseline) \<Rightarrow>
        if mode = CountdownOverlay
        then let scale = of_int boardSize * (if line1 = ''GO!'' then 25 / 100 else 31 / 100) / of_int (max 1 h)
             in (scale, max 5 (truncRat (scale * 2)))
        else if mode = WaitingOverlay
        then (min (145 / 100) (of_int boardSize * (78 / 100) / of_int (max 1 w)), 3)
        else (75 / 100, 2))"

definition waitingPanel :: "metrics \<Rightarrow> int \<Rightarrow> string \<Rightarrow> rat \<Rightarrow> int \<Rightarrow> Rect" where
  "waitingPanel measured boardSize line1 scale thickness =
     (case measured line1 Duplex scale thickness of (w, h, baseline) \<Rightarrow>
        let area = boardRect boardSize; paddingX = max 28 (boardSize sdiv 24); paddingY = max 24 (boardSize sdiv 28);
            textHeight = h + baseline
        in rect (rx area + (rw area - w - 2 * paddingX) sdiv 2) (ry area + (rh area - textHeight - 2 * paddingY) sdiv 2)
             (w + 2 * paddingX) (textHeight + 2 * paddingY))"

definition drawOverlay :: "metrics \<Rightarrow> int \<Rightarrow> string \<Rightarrow> string \<Rightarrow> RenderOverlayMode \<Rightarrow> DrawOp list" where
  "drawOverlay measured boardSize line1 line2 mode =
     (if line1 = [] \<or> mode = NoOverlay then []
      else let area = boardRect boardSize; (scale, thickness) = overlayScale measured boardSize line1 mode
           in (if mode = CountdownOverlay then [MixRegion area (20, 20, 20) (34 / 100)] else []) @
              (if mode = WaitingOverlay
               then [MixRegion (waitingPanel measured boardSize line1 scale thickness) (20, 20, 20) (72 / 100)] else []) @
              drawCenteredText measured area line1 (ry area + rh area sdiv 2) scale thickness
                (if mode = CountdownOverlay then (170, 225, 255) else (255, 255, 255)) @
              (if line2 = [] then []
               else drawCenteredText measured area line2 (ry area + rh area sdiv 2 + 58) (72 / 100) 2 (255, 255, 255)))"

text \<open>The rectangle that two rectangles share (\<open>operator&=\<close>), the second an image of the given size.\<close>

definition cutRect :: "Rect \<Rightarrow> int \<Rightarrow> int \<Rightarrow> Rect" where
  "cutRect r w h =
     (let x1 = max (rx r) 0; y1 = max (ry r) 0; x2 = min (rx r + rw r) w; y2 = min (ry r + rh r) h
      in if x2 - x1 \<le> 0 \<or> y2 - y1 \<le> 0 then rect 0 0 0 0 else rect x1 y1 (x2 - x1) (y2 - y1))"

definition drawGameOver :: "metrics \<Rightarrow> int \<Rightarrow> int \<Rightarrow> DrawOp list" where
  "drawGameOver measured cols rows =
     (let t = ''GAME OVER''; scale = of_int cols / 400; thickness = max 4 (cols sdiv 150) in
      case measured t Duplex scale thickness of (w, h, baseline) \<Rightarrow>
        let textX = (cols - w) sdiv 2; textY = (rows + h) sdiv 2;
            part = (\<lambda>n q. truncRat (of_int n * q));
            background = cutRect (rect (textX - part cols (45 / 1000)) (textY - h - part rows (35 / 1000))
              (w + part cols (9 / 100)) (h + part rows (7 / 100) + baseline)) cols rows
        in [MixRect background (15, 15, 15) (78 / 100), OutlineRect background (240, 240, 240) 3 SmoothLine,
            PutText t (textX + 5, textY + 5) Duplex scale (0, 0, 0) (thickness + 4),
            PutText t (textX, textY) Duplex scale (255, 255, 255) thickness])"

section \<open>The history of moves\<close>

text \<open>\<open>printf\<close> with a width and leading zeros; the sign counts.\<close>

definition padded :: "nat \<Rightarrow> int \<Rightarrow> string" where
  "padded width n =
     (let digits = natDigits (nat \<bar>n\<bar>); signs = (if n < 0 then ''-'' else [])
      in signs @ replicate (width - length signs - length digits) (CHR ''0'') @ digits)"

definition formatTime :: "int \<Rightarrow> string" where
  "formatTime timeMs =
     padded 2 (timeMs sdiv 60000) @ '':'' @ padded 2 ((timeMs sdiv 1000) smod 60) @ ''.'' @ padded 3 (timeMs smod 1000)"

definition rowHeight :: int where "rowHeight = 27"

definition maxRows :: "int \<Rightarrow> int" where
  "maxRows height = max 0 ((height - 90) sdiv rowHeight)"

definition drawMoveRow :: "int \<Rightarrow> int \<Rightarrow> int \<Rightarrow> MoveHistoryEntry \<Rightarrow> DrawOp list" where
  "drawMoveRow x width textY entry =
     [DrawLine (x, textY + 7) (x + width, textY + 7) (220, 220, 220) 1 PlainLine,
      PutText (formatTime (h_completedAtMs entry)) (x + 7, textY) Simplex (42 / 100) (55, 55, 55) 1,
      PutText (h_notation entry) (x + width - 82, textY) Simplex (48 / 100) (55, 55, 55) 1]"

definition drawMoveRows :: "MoveHistoryEntry list \<Rightarrow> int \<Rightarrow> int \<Rightarrow> int \<Rightarrow> int \<Rightarrow> DrawOp list" where
  "drawMoveRows moves x y width height =
     (let start = max 0 (int (length moves) - maxRows height) in
      concat (map (\<lambda>index. drawMoveRow x width (y + 84 + (index - start) * rowHeight) (moves ! nat index))
        [start..int (length moves) - 1]))"

definition drawMoveHistory :: "MoveHistoryEntry list \<Rightarrow> string \<Rightarrow> int \<Rightarrow> int \<Rightarrow> int \<Rightarrow> int \<Rightarrow> DrawOp list" where
  "drawMoveHistory moves title x y width height =
     (let area = rect x y width height in
      [FillRect area (248, 248, 248) PlainLine, OutlineRect area (120, 120, 120) 1 PlainLine,
       PutText title (x + 18, y + 30) Simplex (6 / 10) (30, 30, 30) 2,
       PutText ''Time'' (x + 8, y + 58) Simplex (45 / 100) (40, 40, 40) 1,
       PutText ''Move'' (x + width - 78, y + 58) Simplex (45 / 100) (40, 40, 40) 1] @
      drawMoveRows moves x y width height)"

section \<open>Resting pieces\<close>

definition isRestState :: "VisualState \<Rightarrow> bool" where
  "isRestState st \<longleftrightarrow> st = ShortRest \<or> st = LongRest"

definition drawSleepZ :: "int \<Rightarrow> int \<Rightarrow> VisualState \<Rightarrow> DrawOp list" where
  "drawSleepZ x y st =
     (let scale = (if st = LongRest then 75 / 100 else 55 / 100) in
      [PutText ''Z'' (x + 2, y + 2) Simplex scale (50, 50, 50) 4, PutText ''Z'' (x, y) Simplex scale (255, 255, 255) 2] @
      (if st = LongRest
       then [PutText ''z'' (x + 15, y - 13) Simplex (45 / 100) (50, 50, 50) 3,
             PutText ''z'' (x + 13, y - 15) Simplex (45 / 100) (255, 255, 255) 1]
       else []))"

definition drawHourglassFrame :: "int \<Rightarrow> int \<Rightarrow> int \<Rightarrow> int \<Rightarrow> DrawOp list" where
  "drawHourglassFrame x y width height =
     map (\<lambda>(p, q). DrawLine p q (60, 40, 20) 2 SmoothLine)
       [((x, y), (x + width, y)), ((x, y + height), (x + width, y + height)),
        ((x + 2, y + 2), (x + width - 2, y + height - 2)), ((x + width - 2, y + 2), (x + 2, y + height - 2))]"

definition drawHourglassSand :: "int \<Rightarrow> int \<Rightarrow> int \<Rightarrow> int \<Rightarrow> rat \<Rightarrow> DrawOp list" where
  "drawHourglassSand x y width height ratio =
     (let sand = (40, 180, 240); upperHeight = truncRat (9 * ratio); lowerHeight = truncRat (9 * (1 - ratio)) in
      (if upperHeight > 0
       then [FillPolygon [(x + 4, y + 4), (x + width - 4, y + 4), (x + width sdiv 2, y + 4 + upperHeight)] sand] else []) @
      (if lowerHeight > 0
       then [FillPolygon [(x + width sdiv 2, y + height - 4 - lowerHeight), (x + 4, y + height - 4), (x + width - 4, y + height - 4)] sand]
       else []) @
      (if ratio > 3 / 100 \<and> ratio < 97 / 100
       then [DrawLine (x + width sdiv 2, y + 10) (x + width sdiv 2, y + height - 10) sand 1 SmoothLine] else []))"

definition drawCooldownHourglass :: "int \<Rightarrow> int \<Rightarrow> rat \<Rightarrow> DrawOp list" where
  "drawCooldownHourglass x y cooldown =
     (let ratio = max 0 (min 1 cooldown) in drawHourglassFrame x y 18 28 @ drawHourglassSand x y 18 28 ratio)"

definition drawRestEffects :: "VisualPiece \<Rightarrow> int \<Rightarrow> int \<Rightarrow> int \<Rightarrow> DrawOp list" where
  "drawRestEffects piece pieceX pieceY sprite =
     (let part = (\<lambda>q. truncRat (of_int sprite * q)) in
      drawSleepZ (pieceX + part (70 / 100)) (pieceY + part (22 / 100)) (vp_state piece) @
      drawCooldownHourglass (pieceX + part (68 / 100)) (pieceY + part (62 / 100)) (vp_cooldownRatio piece))"

section \<open>Sprites\<close>

definition readImage :: "DrawLibrary \<Rightarrow> string \<Rightarrow> Mat outcome" where
  "readImage lib path =
     (let image = imread lib path in
      if matEmpty image then Some (Inl (''Cannot load image: '' @ path)) else Some (Inr image))"

definition noMat :: Mat where
  "noMat = \<lparr>matRows = 0, matCols = 0, matChannels = 1, matBytes = (\<lambda>_. 0)\<rparr>"

definition buildPieceImagePath :: "VisualPiece \<Rightarrow> string" where
  "buildPieceImagePath piece =
     ''assets'' @ [CHR 0x5C] @ ''pieces'' @ [CHR 0x5C] @ vp_pieceCode piece @ [CHR 0x5C] @ ''states'' @ [CHR 0x5C] @
     visualStateToFolderName (vp_state piece) @ [CHR 0x5C] @ ''sprites'' @ [CHR 0x5C] @ ''1.png''"

definition buildFallbackIdlePath :: "VisualPiece \<Rightarrow> string" where
  "buildFallbackIdlePath piece =
     ''assets'' @ [CHR 0x5C] @ ''pieces'' @ [CHR 0x5C] @ vp_pieceCode piece @ [CHR 0x5C] @ ''states'' @ [CHR 0x5C] @
     ''idle'' @ [CHR 0x5C] @ ''sprites'' @ [CHR 0x5C] @ ''1.png''"

definition getSpriteSizeForPiece :: "VisualPiece \<Rightarrow> int \<Rightarrow> int" where
  "getSpriteSizeForPiece piece defaultSize =
     (let isKing = vp_pieceCode piece = ''wK'' \<or> vp_pieceCode piece = ''bK'';
          isQueen = vp_pieceCode piece = ''wQ'' \<or> vp_pieceCode piece = ''bQ''
      in if isKing \<or> isQueen then truncRat (of_int defaultSize * (135 / 100)) else defaultSize)"

definition loadPieceSprite :: "DrawLibrary \<Rightarrow> VisualPiece \<Rightarrow> Mat outcome" where
  "loadPieceSprite lib piece =
     (let path = (if imagePath piece = [] then buildPieceImagePath piece else imagePath piece);
          path = (if pathExists lib path then path else buildFallbackIdlePath piece)
      in if pathExists lib path then readImage lib path else Some (Inr noMat))"

text \<open>The smallest and the largest column and row of the pixels that are seen.\<close>

definition seenPixel :: "Mat \<Rightarrow> int \<times> int \<Rightarrow> bool" where
  "seenPixel m = (\<lambda>(y, x). matBytes m (address m 4 y x + 3) > 10)"

definition growBox :: "Mat \<Rightarrow> int \<times> int \<Rightarrow> int \<times> int \<times> int \<times> int \<Rightarrow> int \<times> int \<times> int \<times> int" where
  "growBox m = (\<lambda>(y, x) (minX, minY, maxX, maxY).
     (if seenPixel m (y, x) then (min minX x, min minY y, max maxX x, max maxY y) else (minX, minY, maxX, maxY)))"

definition visibleBox :: "Mat \<Rightarrow> int \<times> int \<times> int \<times> int" where
  "visibleBox m = fold (growBox m) (cellsOf (matRows m) (matCols m)) (matCols m, matRows m, -1, -1)"

text \<open>A copy of the part of an image under a rectangle.\<close>

definition subImage :: "Mat \<Rightarrow> Rect \<Rightarrow> Mat" where
  "subImage m r =
     \<lparr>matRows = rh r, matCols = rw r, matChannels = matChannels m,
      matBytes = (\<lambda>a. matBytes m ((ry r + a div (rw r * matChannels m)) * (matCols m * matChannels m) +
        (rx r * matChannels m + a mod (rw r * matChannels m))))\<rparr>"

definition cropTransparentMargins :: "Mat \<Rightarrow> Mat" where
  "cropTransparentMargins sprite =
     (if matEmpty sprite \<or> matChannels sprite < 4 then sprite
      else case visibleBox sprite of (minX, minY, maxX, maxY) \<Rightarrow>
        if maxX < minX \<or> maxY < minY then sprite
        else subImage sprite (rect minX minY (maxX - minX + 1) (maxY - minY + 1)))"

definition resizePieceSprite :: "DrawLibrary \<Rightarrow> Mat \<Rightarrow> int \<Rightarrow> bool \<Rightarrow> Mat outcome" where
  "resizePieceSprite lib source sprite cropMargins =
     (let m = (if cropMargins then cropTransparentMargins source else source) in
      if matEmpty m then Some (Inr m)
      else let longestSide = max (matCols m) (matRows m);
               scale = (if longestSide > 0 then of_int sprite / of_int longestSide else 1 :: rat);
               (w, h) = (if cropMargins
                 then (max 1 (truncRat (of_int (matCols m) * scale)), max 1 (truncRat (of_int (matRows m) * scale)))
                 else (sprite, sprite))
           in Some (resizeImage lib w h m))"

section \<open>Pieces\<close>

definition pieceOpacity :: "VisualPiece \<Rightarrow> rat" where
  "pieceOpacity piece = max 0 (min 1 (opacity piece))"

text \<open>The sprite is put with its center on the place of the piece.\<close>

definition putSprite :: "DrawLibrary \<Rightarrow> VisualPiece \<Rightarrow> int \<Rightarrow> Mat \<Rightarrow> Mat \<Rightarrow> Mat outcome" where
  "putSprite lib piece sz sprite canvas =
     (let x = truncRat (vp_pixelX piece - of_int (matCols sprite) / 2);
          y = truncRat (vp_pixelY piece - of_int (matRows sprite) / 2); opac = pieceOpacity piece
      in if opac \<le> 0 then Some (Inr canvas)
         else thenDraw (if opac \<ge> 99 / 100 then drawTransparent (bgrToBgra lib) sprite x y canvas
                       else map_option Inr (drawTransparentWithOpacity sprite x y opac canvas))
           (\<lambda>drawn. if isRestState (vp_state piece) \<and> opac \<ge> 99 / 100
                    then paintAll lib (drawRestEffects piece x y sz) drawn else Some (Inr drawn)))"

definition drawSinglePiece :: "DrawLibrary \<Rightarrow> int \<Rightarrow> VisualPiece \<Rightarrow> Mat \<Rightarrow> Mat outcome" where
  "drawSinglePiece lib defaultSpriteSize piece canvas =
     (let sz = getSpriteSizeForPiece piece defaultSpriteSize in
      thenDraw (loadPieceSprite lib piece)
        (\<lambda>source. if matEmpty source then Some (Inr canvas)
          else thenDraw (resizePieceSprite lib source sz (alignVisibleCenter piece))
            (\<lambda>sprite. putSprite lib piece sz sprite canvas)))"

definition defaultSpriteSize :: "int \<Rightarrow> int" where
  "defaultSpriteSize boardSize = truncRat (of_int boardSize * (105 / 1000))"

definition drawPieces :: "DrawLibrary \<Rightarrow> int \<Rightarrow> VisualPiece list \<Rightarrow> Mat \<Rightarrow> Mat outcome" where
  "drawPieces lib boardSize = inTurn (drawSinglePiece lib (defaultSpriteSize boardSize))"

section \<open>The frame\<close>

record Renderer =
  boardImagePath :: string
  boardDisplaySize :: int
  windowName :: string

definition newRenderer :: "string \<Rightarrow> int \<Rightarrow> Renderer" where
  "newRenderer path sz = \<lparr>boardImagePath = path, boardDisplaySize = sz, windowName = ''Kung Fu Chess''\<rparr>"

definition toThreeChannels :: "DrawLibrary \<Rightarrow> Mat \<Rightarrow> Mat" where
  "toThreeChannels lib m =
     (if matChannels m = 4 then bgraToBgr lib m
      else if matChannels m = 1 then grayToBgr lib m
      else if matChannels m \<noteq> 3 then noMat else m)"

definition loadBoardImage :: "DrawLibrary \<Rightarrow> Renderer \<Rightarrow> Mat outcome" where
  "loadBoardImage lib r =
     thenDraw (readImage lib (boardImagePath r))
       (\<lambda>m. if matEmpty m then Some (Inr m)
        else thenDraw (Some (resizeImage lib (boardDisplaySize r) (boardDisplaySize r) m))
          (\<lambda>b. Some (Inr (toThreeChannels lib b))))"

text \<open>A canvas of one gray, and the board copied into it. A copy of another size or type would leave it as it is.\<close>

definition newCanvas :: "int \<Rightarrow> int \<Rightarrow> Mat" where
  "newCanvas rows cols = \<lparr>matRows = rows, matCols = cols, matChannels = 3, matBytes = (\<lambda>_. 225)\<rparr>"

definition copyTo :: "Mat \<Rightarrow> Rect \<Rightarrow> Mat \<Rightarrow> Mat" where
  "copyTo m r canvas =
     (if shape m = (rh r, rw r, matChannels canvas)
      then canvas\<lparr>matBytes := (\<lambda>a.
        let stride = matCols canvas * matChannels canvas; row = a div stride - ry r; place = a mod stride - rx r * matChannels canvas
        in if 0 \<le> row \<and> row < rh r \<and> 0 \<le> place \<and> place < rw r * matChannels canvas
           then matBytes m (row * (rw r * matChannels canvas) + place) else matBytes canvas a)\<rparr>
      else canvas)"

text \<open>The button that leaves a game one watches, in the top left corner.\<close>

definition drawBackButton :: "DrawOp list" where
  "drawBackButton =
     (let button = rect 24 14 190 42 in
      [FillRect button (45, 45, 45) PlainLine, OutlineRect button (215, 145, 55) 2 PlainLine,
       PutText ''BACK TO LOBBY'' (rx button + 18, ry button + 28) Simplex (58 / 100) (255, 255, 255) 2])"

text \<open>
  What is drawn under the pieces and over them. The arguments of the call that the game window
  makes are the fields of the frame; the last four are only given in the lobby.
\<close>

definition beneathPieces :: "metrics \<Rightarrow> int \<Rightarrow> RenderedFrame \<Rightarrow> int \<Rightarrow> int \<Rightarrow> DrawOp list" where
  "beneathPieces measured sz f whiteRating' blackRating' =
     (let d = buildPlayerScoreDisplay (rf_whiteUsername f) (rf_blackUsername f) (rf_whiteScore f) (rf_blackScore f)
                whiteRating' blackRating'
      in drawScore measured sz (topName d) (topScore d) 0 (rf_localColor f = ''black'') @
         drawScore measured sz (bottomName d) (bottomScore d) (SCORE_PANEL_HEIGHT + sz) (rf_localColor f = ''white'') @
         drawMoveHistory (rf_blackMoves f) ''BLACK MOVES'' 0 SCORE_PANEL_HEIGHT SIDE_PANEL_WIDTH sz @
         drawMoveHistory (rf_whiteMoves f) ''WHITE MOVES'' (SIDE_PANEL_WIDTH + sz) SCORE_PANEL_HEIGHT SIDE_PANEL_WIDTH sz)"

definition abovePieces :: "metrics \<Rightarrow> int \<Rightarrow> RenderedFrame \<Rightarrow> bool \<Rightarrow> string \<Rightarrow> Mat \<Rightarrow> DrawOp list" where
  "abovePieces measured sz f showSpectatorBackButton countdown canvas =
     (if countdown = [] then [] else drawCountdown measured sz countdown) @
     (if rf_gameOver f then drawGameOver measured (matCols canvas) (matRows canvas) else []) @
     drawOverlay measured sz (fst (rf_status f)) (snd (rf_status f)) (rf_overlay f) @
     (if showSpectatorBackButton then drawBackButton else [])"

text \<open>The picture that is shown; without a board there is none.\<close>

definition render ::
    "DrawLibrary \<Rightarrow> Renderer \<Rightarrow> RenderedFrame \<Rightarrow> bool \<Rightarrow> string \<Rightarrow> int \<Rightarrow> int \<Rightarrow> Mat option outcome" where
  "render lib r f showSpectatorBackButton countdown whiteRating' blackRating' =
     (let sz = boardDisplaySize r in
      thenDraw (loadBoardImage lib r)
        (\<lambda>board. if matEmpty board then Some (Inr None)
          else let canvas = copyTo board (boardRect sz) (newCanvas (sz + 2 * SCORE_PANEL_HEIGHT) (sz + 2 * SIDE_PANEL_WIDTH))
               in thenDraw (paintAll lib (beneathPieces (textSize lib) sz f whiteRating' blackRating') canvas)
                 (\<lambda>m1. thenDraw (drawPieces lib sz (rf_pieces f) m1)
                   (\<lambda>m2. thenDraw (paintAll lib (abovePieces (textSize lib) sz f showSpectatorBackButton countdown m2) m2)
                     (\<lambda>m3. Some (Inr (Some m3)))))))"

end
