(* ===== verification/Renderer_Properties.thy ===== *)
theory Renderer_Properties
  imports Renderer
begin

text \<open>
  What the picture of a game shows: the last moves inside their panel, sprites cut to what is seen, no
  pixel outside of the picture, and what becomes of a piece that is drawn faded.
\<close>

section \<open>Outcomes\<close>

lemma thenDraw_Inr [simp]: "thenDraw (Some (Inr a)) f = f a"
  and thenDraw_Inl [simp]: "thenDraw (Some (Inl e)) f = Some (Inl e)"
  and thenDraw_None [simp]: "thenDraw None f = None"
  by (simp_all add: thenDraw_def)

lemma thenDraw_result:
  assumes "thenDraw r f = Some (Inr b)"
  obtains a where "r = Some (Inr a)" "f a = Some (Inr b)"
  using assms by (auto simp: thenDraw_def split: option.split_asm sum.split_asm)

lemma thenDraw_defined:
  "r \<noteq> None \<Longrightarrow> (\<And>a. r = Some (Inr a) \<Longrightarrow> f a \<noteq> None) \<Longrightarrow> thenDraw r f \<noteq> None"
  by (auto simp: thenDraw_def split: option.split sum.split)

lemma thenDraw_total: "thenDraw (Some s) (\<lambda>a. Some (g a)) \<noteq> None"
  by (cases s) simp_all

lemma inTurn_one [simp]: "thenDraw r (inTurn f []) = r"
  by (auto simp: thenDraw_def split: option.split sum.split)

lemma inTurn_append: "inTurn f (xs @ ys) s = thenDraw (inTurn f xs s) (inTurn f ys)"
proof (induction xs arbitrary: s)
  case (Cons x xs)
  then show ?case by (cases "f x s") (auto simp: thenDraw_def split: sum.split)
qed simp

lemma inTurn_invariant:
  assumes "P s" "\<And>x s s'. x \<in> set xs \<Longrightarrow> P s \<Longrightarrow> f x s = Some (Inr s') \<Longrightarrow> P s'" "inTurn f xs s = Some (Inr s')"
  shows "P s'"
  using assms
proof (induction xs arbitrary: s)
  case (Cons x xs)
  obtain s1 where s1: "f x s = Some (Inr s1)" "inTurn f xs s1 = Some (Inr s')"
    using Cons.prems(3) by (auto elim: thenDraw_result)
  have "P s1" by (rule Cons.prems(2) [OF _ Cons.prems(1) s1(1)]) simp
  then show ?case by (rule Cons.IH [OF _ _ s1(2)]) (rule Cons.prems(2), simp_all)
qed simp

lemma inTurn_defined:
  assumes "P s" "\<And>x s s'. x \<in> set xs \<Longrightarrow> P s \<Longrightarrow> f x s = Some (Inr s') \<Longrightarrow> P s'"
    and "\<And>x s. x \<in> set xs \<Longrightarrow> P s \<Longrightarrow> f x s \<noteq> None"
  shows "inTurn f xs s \<noteq> None"
  using assms
proof (induction xs arbitrary: s)
  case (Cons x xs)
  have "thenDraw (f x s) (inTurn f xs) \<noteq> None"
  proof (rule thenDraw_defined)
    show "f x s \<noteq> None" by (rule Cons.prems(3) [OF _ Cons.prems(1)]) simp
    fix s1 assume s1: "f x s = Some (Inr s1)"
    have "P s1" by (rule Cons.prems(2) [OF _ Cons.prems(1) s1]) simp
    then show "inTurn f xs s1 \<noteq> None"
    proof (rule Cons.IH)
      show "P t'" if "y \<in> set xs" "P t" "f y t = Some (Inr t')" for y t t'
        by (rule Cons.prems(2) [OF _ that(2,3)]) (simp add: that(1))
      show "f y t \<noteq> None" if "y \<in> set xs" "P t" for y t
        by (rule Cons.prems(3) [OF _ that(2)]) (simp add: that(1))
    qed
  qed
  then show ?case by simp
qed simp

section \<open>What is documented of OpenCV\<close>

text \<open>
  Drawing keeps the size and the channels of an image, a conversion changes the channels only, and an image
  that is resized has the size asked for.
\<close>

definition libraryOk :: "DrawLibrary \<Rightarrow> bool" where
  "libraryOk lib \<longleftrightarrow>
     (\<forall>op m m'. paint lib op m = Inr m' \<longrightarrow> shape m' = shape m) \<and>
     addsAlpha (bgrToBgra lib) \<and>
     (\<forall>m. matChannels m = 4 \<longrightarrow> shape (bgraToBgr lib m) = (matRows m, matCols m, 3)) \<and>
     (\<forall>m. matChannels m = 1 \<longrightarrow> shape (grayToBgr lib m) = (matRows m, matCols m, 3)) \<and>
     (\<forall>w h m m'. resizeImage lib w h m = Inr m' \<longrightarrow> shape m' = (h, w, matChannels m))"

lemma painted:
  assumes "libraryOk lib" "paintAll lib ops m = Some (Inr m')"
  shows "shape m' = shape m"
  using assms(2) unfolding paintAll_def
  by (rule inTurn_invariant [where P = "\<lambda>s. shape s = shape m", rotated 2])
    (use assms(1) in \<open>auto simp: libraryOk_def\<close>)

lemma paintAll_defined: "paintAll lib ops m \<noteq> None"
  unfolding paintAll_def by (rule inTurn_defined [where P = "\<lambda>_. True"]) simp_all

section \<open>An example\<close>

definition exampleMove :: MoveHistoryEntry where
  "exampleMove = \<lparr>h_completedAtMs = 61005, h_color = White, h_pieceKind = Pawn, h_source = Position 6 0,
     h_destination = Position 5 0, h_wasCapture = False, h_wasPromotion = False, h_wasJump = False, h_notation = ''a3''\<rparr>"

definition exampleLibrary :: DrawLibrary where
  "exampleLibrary = \<lparr>textSize = (\<lambda>t f scale thickness. (10 * int (length t), 20, 5)), paint = (\<lambda>op m. Inr m),
     bgrToBgra = (\<lambda>m. m\<lparr>matChannels := 4\<rparr>), bgraToBgr = (\<lambda>m. m\<lparr>matChannels := 3\<rparr>), grayToBgr = (\<lambda>m. m\<lparr>matChannels := 3\<rparr>),
     imread = (\<lambda>path. \<lparr>matRows = 1, matCols = 1, matChannels = 4, matBytes = (\<lambda>_. 200)\<rparr>), pathExists = (\<lambda>_. True),
     resizeImage = (\<lambda>w h m. Inr (m\<lparr>matRows := h, matCols := w\<rparr>))\<rparr>"

definition examplePiece :: "rat \<Rightarrow> rat \<Rightarrow> rat \<Rightarrow> VisualPiece" where
  "examplePiece x y opac = \<lparr>vp_pieceId = 0, vp_pieceCode = ''wP'', vp_state = VisualIdle, vp_row = 0, vp_col = 0,
     vp_pixelX = x, vp_pixelY = y, vp_cooldownRatio = 0, imagePath = [], opacity = opac, alignVisibleCenter = False\<rparr>"

definition exampleFrame :: RenderedFrame where
  "exampleFrame = \<lparr>rf_pieces = [examplePiece 400 400 1, examplePiece 345 165 (25 / 100)], rf_gameOver = False,
     rf_blackScore = 0, rf_whiteScore = 3, rf_blackMoves = [], rf_whiteMoves = [exampleMove], rf_localColor = ''white'',
     rf_whiteUsername = ''Ann'', rf_blackUsername = ''Bob'', rf_status = ([], []), rf_overlay = NoOverlay\<rparr>"

lemma exampleLibrary_ok: "libraryOk exampleLibrary"
  by (auto simp: libraryOk_def exampleLibrary_def addsAlpha_def shape_def)

section \<open>The history of moves\<close>

lemma upto_shifted: "[int n..int m - 1] = map (\<lambda>i. int n + int i) [0..<m - n]"
proof -
  have "nat (int m - int n) = m - n" by linarith
  then show ?thesis by (intro nth_equalityI) simp_all
qed

text \<open>The panel of a player shows the moves of the player that were made last, as many as fit and in
  their order, one row for each, and every row with its line lies inside the panel.
\<close>

theorem history_shows_the_last_moves:
  fixes moves :: "MoveHistoryEntry list" and x y width height :: int
  assumes "90 \<le> height"
  defines "shown \<equiv> drop (length moves - nat (maxRows height)) moves"
  shows "drawMoveRows moves x y width height =
      concat (map (\<lambda>(i, e). drawMoveRow x width (y + 84 + int i * rowHeight) e) (enumerate 0 shown)) \<and>
    (\<forall>i < length shown. y + 84 + int i * rowHeight + 7 \<le> y + height)"
proof -
  let ?n = "length moves - nat (maxRows height)"
  have start: "max 0 (int (length moves) - maxRows height) = int ?n" by (auto simp: maxRows_def)
  have len: "length shown = length moves - ?n" by (simp add: shown_def)
  have "drawMoveRows moves x y width height =
      concat (map (\<lambda>i. drawMoveRow x width (y + 84 + int i * rowHeight) (shown ! i)) [0..<length shown])"
    unfolding drawMoveRows_def Let_def start upto_shifted len
    by (simp add: comp_def shown_def nat_add_distrib cong: map_cong)
  moreover have "enumerate 0 shown = map (\<lambda>i. (i, shown ! i)) [0..<length shown]"
    by (rule nth_equalityI) (simp_all add: nth_enumerate_eq)
  moreover have "y + 84 + int i * rowHeight + 7 \<le> y + height" if "i < length shown" for i
  proof -
    have "int i < maxRows height" using that by (simp add: shown_def)
    define d where "d = (height - 90) div 27"
    have i: "int i < d"
      using assms(1) \<open>int i < maxRows height\<close> by (simp add: d_def maxRows_def rowHeight_def signed_divide_int_def sgn_if split: if_splits)
    have "27 * d \<le> height - 90" by (simp add: d_def minus_mod_eq_mult_div [symmetric])
    moreover have "27 * (int i + 1) \<le> 27 * d" using i by (intro mult_left_mono) auto
    ultimately have "27 * (int i + 1) \<le> height - 90" by (rule order_trans [rotated])
    then show ?thesis by (simp add: rowHeight_def)
  qed
  ultimately show ?thesis by (simp add: comp_def)
qed

theorem history_shows_the_last_moves_witness:
  "drawMoveRows (replicate 3 exampleMove) 0 70 250 144 =
     drawMoveRow 0 250 154 exampleMove @ drawMoveRow 0 250 181 exampleMove"
  using history_shows_the_last_moves [of 144 "replicate 3 exampleMove" 0 70 250]
  by (simp add: maxRows_def rowHeight_def signed_divide_int_def numeral_3_eq_3 numeral_2_eq_2)

section \<open>Sprites cut to what is seen\<close>

lemma growBox_fold:
  "fold (growBox m) cs (a, b, c, d) =
     (Min (set (a # map snd (filter (seenPixel m) cs))), Min (set (b # map fst (filter (seenPixel m) cs))),
      Max (set (c # map snd (filter (seenPixel m) cs))), Max (set (d # map fst (filter (seenPixel m) cs))))"
  unfolding Min.set_eq_fold Max.set_eq_fold
  by (induction cs arbitrary: a b c d) (auto simp: growBox_def min.commute max.commute)

lemma smallest: "finite A \<Longrightarrow> Min (insert a A) \<le> a \<and> (\<forall>x \<in> A. Min (insert a A) \<le> x) \<and> (Min (insert a A) = a \<or> Min (insert a A) \<in> A)"
  for a :: int
  using Min_in [of "insert a A"] by (auto intro: Min_le)

lemma largest: "finite A \<Longrightarrow> a \<le> Max (insert a A) \<and> (\<forall>x \<in> A. x \<le> Max (insert a A)) \<and> (Max (insert a A) = a \<or> Max (insert a A) \<in> A)"
  for a :: int
  using Max_in [of "insert a A"] by (auto intro: Max_ge)

lemma grown:
  assumes "fold (growBox m) cs (a, b, c, d) = (a', b', c', d')"
  shows "\<And>y x. (y, x) \<in> set cs \<Longrightarrow> seenPixel m (y, x) \<Longrightarrow> a' \<le> x \<and> x \<le> c' \<and> b' \<le> y \<and> y \<le> d'"
    and "a' = a \<or> (\<exists>y. (y, a') \<in> set cs \<and> seenPixel m (y, a'))"
    and "b' = b \<or> (\<exists>x. (b', x) \<in> set cs \<and> seenPixel m (b', x))"
    and "c' = c \<or> (\<exists>y. (y, c') \<in> set cs \<and> seenPixel m (y, c'))"
    and "d' = d \<or> (\<exists>x. (d', x) \<in> set cs \<and> seenPixel m (d', x))"
proof -
  let ?X = "snd ` {p \<in> set cs. seenPixel m p}" and ?Y = "fst ` {p \<in> set cs. seenPixel m p}"
  have box: "a' = Min (insert a ?X)" "b' = Min (insert b ?Y)" "c' = Max (insert c ?X)" "d' = Max (insert d ?Y)"
    using assms by (auto simp: growBox_fold)
  have fin: "finite ?X" "finite ?Y" by simp_all
  note ext = smallest [OF fin(1), of a] smallest [OF fin(2), of b] largest [OF fin(1), of c] largest [OF fin(2), of d]
  show "a' \<le> x \<and> x \<le> c' \<and> b' \<le> y \<and> y \<le> d'" if "(y, x) \<in> set cs" "seenPixel m (y, x)" for y x
  proof -
    have "x \<in> ?X" "y \<in> ?Y" using that by (force simp: image_iff)+
    then show ?thesis using ext unfolding box by blast
  qed
  show "a' = a \<or> (\<exists>y. (y, a') \<in> set cs \<and> seenPixel m (y, a'))" using ext(1) unfolding box [symmetric] by auto
  show "b' = b \<or> (\<exists>x. (b', x) \<in> set cs \<and> seenPixel m (b', x))" using ext(2) unfolding box [symmetric] by auto
  show "c' = c \<or> (\<exists>y. (y, c') \<in> set cs \<and> seenPixel m (y, c'))" using ext(3) unfolding box [symmetric] by auto
  show "d' = d \<or> (\<exists>x. (d', x) \<in> set cs \<and> seenPixel m (d', x))" using ext(4) unfolding box [symmetric] by auto
qed

text \<open>The pixels of a part of an image are those of the image.\<close>

lemma subImage_pixel:
  assumes "matChannels m = 4" "0 < rw r" "0 \<le> x" "x < rw r" "0 \<le> k" "k < 4"
  shows "matBytes (subImage m r) (address (subImage m r) 4 y x + k) = matBytes m (address m 4 (ry r + y) (rx r + x) + k)"
proof -
  have "0 \<le> x * 4 + k" "x * 4 + k < rw r * 4" using assms by simp_all
  then have "(y * (rw r * 4) + (x * 4 + k)) div (rw r * 4) = y" "(y * (rw r * 4) + (x * 4 + k)) mod (rw r * 4) = x * 4 + k"
    by simp_all
  then have "matBytes (subImage m r) (y * (rw r * 4) + (x * 4 + k)) =
      matBytes m ((ry r + y) * (matCols m * 4) + (rx r * 4 + (x * 4 + k)))"
    by (simp add: subImage_def assms(1))
  then show ?thesis by (simp add: address_def assms(1) algebra_simps subImage_def)
qed

text \<open>
  A sprite with some pixel that is seen is cut to the smallest rectangle that holds all of them: no
  seen pixel is lost, and each of the four sides touches one.
\<close>

definition tightBox :: "Mat \<Rightarrow> Rect \<Rightarrow> bool" where
  "tightBox m b \<longleftrightarrow> inside b (rect 0 0 (matCols m) (matRows m)) \<and>
     (\<forall>y x. (y, x) \<in> set (cellsOf (matRows m) (matCols m)) \<longrightarrow> seenPixel m (y, x) \<longrightarrow>
        rx b \<le> x \<and> x < rx b + rw b \<and> ry b \<le> y \<and> y < ry b + rh b) \<and>
     (\<exists>y. seenPixel m (y, rx b)) \<and> (\<exists>y. seenPixel m (y, rx b + rw b - 1)) \<and>
     (\<exists>x. seenPixel m (ry b, x)) \<and> (\<exists>x. seenPixel m (ry b + rh b - 1, x))"

lemma visibleBox_tight:
  assumes "visibleBox m = (a, b, c, d)" "(y, x) \<in> set (cellsOf (matRows m) (matCols m))" "seenPixel m (y, x)"
  shows "a \<le> c" "b \<le> d" "tightBox m (rect a b (c - a + 1) (d - b + 1))"
proof -
  note g = grown [OF assms(1) [unfolded visibleBox_def]]
  have in_box: "a \<le> x" "x \<le> c" "b \<le> y" "y \<le> d" using g(1) [OF assms(2,3)] by simp_all
  then show "a \<le> c" "b \<le> d" by simp_all
  have range: "0 \<le> x" "x < matCols m" "0 \<le> y" "y < matRows m" using assms(2) by auto
  let ?seen = "\<lambda>p. p \<in> set (cellsOf (matRows m) (matCols m)) \<and> seenPixel m p"
  have left: "\<exists>y. ?seen (y, a)" using g(2) in_box(1) range(2) by auto
  have top: "\<exists>x. ?seen (b, x)" using g(3) in_box(3) range(4) by auto
  have right: "\<exists>y. ?seen (y, c)" using g(4) in_box(2) range(1) by auto
  have bottom: "\<exists>x. ?seen (d, x)" using g(5) in_box(4) range(3) by auto
  have "0 \<le> a" "0 \<le> b" "c < matCols m" "d < matRows m" using left top right bottom by auto
  then have "inside (rect a b (c - a + 1) (d - b + 1)) (rect 0 0 (matCols m) (matRows m))"
    by (simp add: rect_def inside_def)
  moreover have "a \<le> x' \<and> x' < a + (c - a + 1) \<and> b \<le> y' \<and> y' < b + (d - b + 1)"
    if "(y', x') \<in> set (cellsOf (matRows m) (matCols m))" "seenPixel m (y', x')" for x' y'
    using g(1) [OF that] by simp
  ultimately show "tightBox m (rect a b (c - a + 1) (d - b + 1))"
    using left top right bottom unfolding tightBox_def by (simp add: rect_def) blast
qed

theorem sprites_are_cut_to_what_is_seen:
  assumes "matChannels m = 4" "(y, x) \<in> set (cellsOf (matRows m) (matCols m))" "seenPixel m (y, x)"
  shows "\<exists>b. tightBox m b \<and> matRows (cropTransparentMargins m) = rh b \<and> matCols (cropTransparentMargins m) = rw b \<and>
    (\<forall>r c k. 0 \<le> r \<and> r < rh b \<and> 0 \<le> c \<and> c < rw b \<and> 0 \<le> k \<and> k < 4 \<longrightarrow>
       matBytes (cropTransparentMargins m) (address (cropTransparentMargins m) 4 r c + k) =
       matBytes m (address m 4 (ry b + r) (rx b + c) + k))"
proof -
  obtain a b c d where v: "visibleBox m = (a, b, c, d)" by (metis prod_cases4)
  let ?b = "rect a b (c - a + 1) (d - b + 1)"
  note t = visibleBox_tight [OF v assms(2,3)]
  have "\<not> matEmpty m" using assms(2) by (auto simp: matEmpty_def)
  then have crop: "cropTransparentMargins m = subImage m ?b"
    using t(1,2) by (simp add: cropTransparentMargins_def assms(1) v)
  have "0 < rw ?b" using t(1) by (simp add: rect_def)
  then have "matBytes (subImage m ?b) (address (subImage m ?b) 4 r c + k) = matBytes m (address m 4 (ry ?b + r) (rx ?b + c) + k)"
    if "0 \<le> c \<and> c < rw ?b \<and> 0 \<le> k \<and> k < 4" for r c k
    using subImage_pixel [OF assms(1)] that by blast
  then show ?thesis unfolding crop by (intro exI [of _ ?b]) (use t(3) in \<open>auto simp: subImage_def\<close>)
qed

definition exampleSprite :: Mat where
  "exampleSprite = \<lparr>matRows = 3, matCols = 4, matChannels = 4, matBytes = (\<lambda>a. if a = 27 then 255 else 0)\<rparr>"

theorem sprites_are_cut_to_what_is_seen_witness:
  "\<exists>b. tightBox exampleSprite b \<and> matRows (cropTransparentMargins exampleSprite) = rh b \<and>
    matCols (cropTransparentMargins exampleSprite) = rw b \<and>
    (\<forall>r c k. 0 \<le> r \<and> r < rh b \<and> 0 \<le> c \<and> c < rw b \<and> 0 \<le> k \<and> k < 4 \<longrightarrow>
       matBytes (cropTransparentMargins exampleSprite) (address (cropTransparentMargins exampleSprite) 4 r c + k) =
       matBytes exampleSprite (address exampleSprite 4 (ry b + r) (rx b + c) + k))"
  by (rule sprites_are_cut_to_what_is_seen [of _ 1 2]) (simp_all add: exampleSprite_def seenPixel_def address_def)

section \<open>What drawing a sprite leaves\<close>

lemma blendPixel_shape: "blendPixel source x y p m = Some m' \<Longrightarrow> shape m' = shape m"
  by (cases p) (auto simp: blendPixel_def shape_def Let_def split: if_split_asm)

lemma drawTransparent_shape:
  assumes "addsAlpha f" "matChannels canvas \<in> {3, 4}" "drawTransparent f source x y canvas = Some (Inr m)"
  shows "shape m = (matRows canvas, matCols canvas, 4)"
proof -
  define tgt where "tgt = (if matChannels canvas = 3 then f canvas else canvas)"
  have tgt: "shape tgt = (matRows canvas, matCols canvas, 4)"
    using assms(1,2) by (auto simp: tgt_def addsAlpha_def shape_def)
  consider "m = tgt" | g cs where "eachCell (blendPixel g x y) cs tgt = Some m"
    using assms(3) unfolding drawTransparent_def Let_def tgt_def [symmetric] by (auto split: if_split_asm)
  then have "shape m = shape tgt"
  proof cases
    case 2
    show ?thesis
      by (rule eachCell_invariant [where P = "\<lambda>s. shape s = shape tgt", OF refl _ 2]) (simp add: blendPixel_shape)
  qed simp
  then show ?thesis using tgt by simp
qed

lemma fading:
  assumes "drawTransparentWithOpacity sprite x y opac canvas = Some m"
  shows "shape m = shape canvas"
    and "matChannels canvas = 4 \<Longrightarrow> 0 \<le> x \<Longrightarrow> 3 * matCols sprite \<le> x \<Longrightarrow> x \<le> c \<Longrightarrow> c < matCols canvas \<Longrightarrow>
      0 \<le> k \<Longrightarrow> k < 4 \<Longrightarrow> matBytes m (address canvas 4 r c + k) = matBytes canvas (address canvas 4 r c + k)"
proof -
  let ?o = "max 0 (min 1 opac)"
  let ?cs = "cellsOf (matRows sprite) (matCols sprite)"
  consider "m = canvas" | "eachCell (fadePixel sprite x y ?o) ?cs canvas = Some m"
    using assms unfolding drawTransparentWithOpacity_def by (metis option.inject)
  note cases = this
  show shape: "shape m = shape canvas"
    using cases
  proof cases
    case 2
    show ?thesis
    proof (rule eachCell_invariant [where P = "\<lambda>s. shape s = shape canvas", OF refl _ 2])
      fix p s s' assume "shape s = shape canvas" "fadePixel sprite x y ?o p s = Some s'"
      moreover obtain r' c' where "p = (r', c')" by fastforce
      ultimately show "shape s' = shape canvas" using fadePixel_writes(1) [of sprite x y ?o r' c' s s'] by simp
    qed
  qed simp
  assume four: "matChannels canvas = 4" and place: "0 \<le> x" "3 * matCols sprite \<le> x" "x \<le> c" "c < matCols canvas" "0 \<le> k" "k < 4"
  let ?a = "address canvas 4 r c + k"
  show "matBytes m ?a = matBytes canvas ?a"
    using cases
  proof cases
    case 2
    have "shape m = shape canvas \<and> matBytes m ?a = matBytes canvas ?a"
    proof (rule eachCell_invariant [where P = "\<lambda>s. shape s = shape canvas \<and> matBytes s ?a = matBytes canvas ?a", OF _ _ 2])
      fix p s s' assume p: "p \<in> set ?cs" and s: "shape s = shape canvas \<and> matBytes s ?a = matBytes canvas ?a"
        and step: "fadePixel sprite x y ?o p s = Some s'"
      obtain r' c' where rc: "p = (r', c')" by fastforce
      then have in_sprite: "0 \<le> r'" "0 \<le> c'" "c' < matCols sprite" using p by simp_all
      have same: "matChannels s = 4" "matCols s = matCols canvas" "address s 4 r c = address canvas 4 r c"
        using s four by (simp_all add: shape_def address_def)
      note w1 = fadePixel_writes(1) [OF step [unfolded rc]]
      note w2 = fadePixel_writes(2) [OF step [unfolded rc], of ?a]
      have "matBytes s' ?a = matBytes s ?a"
      proof (cases "x + c' < matCols s")
        case True
        from faded_apart [OF same(1) place(1) in_sprite(1) place(2,3) _ place(5,6) in_sprite(2,3) True, of r y]
        show ?thesis using w2 same(2,3) place(4) by simp
      next
        case False
        then show ?thesis using w2 by simp
      qed
      then show "shape s' = shape canvas \<and> matBytes s' ?a = matBytes canvas ?a" using s w1 by simp
    qed simp
    then show ?thesis by simp
  qed simp
qed

section \<open>Pieces\<close>

definition opaque :: "VisualPiece \<Rightarrow> bool" where
  "opaque piece \<longleftrightarrow> pieceOpacity piece \<ge> 99 / 100"

lemma putSprite_cases:
  assumes "putSprite lib piece sz sprite canvas = Some (Inr m)"
  obtains "pieceOpacity piece \<le> 0" "m = canvas"
  | drawn where "opaque piece" "drawTransparent (bgrToBgra lib) sprite (truncRat (vp_pixelX piece - of_int (matCols sprite) / 2))
        (truncRat (vp_pixelY piece - of_int (matRows sprite) / 2)) canvas = Some (Inr drawn)"
      "m = drawn \<or> (\<exists>ops. paintAll lib ops drawn = Some (Inr m))"
  | "\<not> opaque piece" "drawTransparentWithOpacity sprite (truncRat (vp_pixelX piece - of_int (matCols sprite) / 2))
        (truncRat (vp_pixelY piece - of_int (matRows sprite) / 2)) (pieceOpacity piece) canvas = Some m"
proof (cases "pieceOpacity piece \<le> 0")
  case True
  then show ?thesis using assms that(1) by (simp add: putSprite_def Let_def)
next
  case False
  show ?thesis
  proof (cases "opaque piece")
    case True
    with assms False obtain drawn where
      "drawTransparent (bgrToBgra lib) sprite (truncRat (vp_pixelX piece - of_int (matCols sprite) / 2))
        (truncRat (vp_pixelY piece - of_int (matRows sprite) / 2)) canvas = Some (Inr drawn)"
      "(if isRestState (vp_state piece) \<and> 99 / 100 \<le> pieceOpacity piece
        then paintAll lib (drawRestEffects piece (truncRat (vp_pixelX piece - of_int (matCols sprite) / 2))
          (truncRat (vp_pixelY piece - of_int (matRows sprite) / 2)) sz) drawn else Some (Inr drawn)) = Some (Inr m)"
      by (auto simp: putSprite_def Let_def opaque_def elim: thenDraw_result)
    then show ?thesis using that(2) [OF True] by (auto split: if_split_asm)
  next
    case f: False
    then have "drawTransparentWithOpacity sprite (truncRat (vp_pixelX piece - of_int (matCols sprite) / 2))
        (truncRat (vp_pixelY piece - of_int (matRows sprite) / 2)) (pieceOpacity piece) canvas = Some m"
      using assms False by (auto simp: putSprite_def Let_def opaque_def elim!: thenDraw_result)
    then show ?thesis by (rule that(3) [OF f])
  qed
qed

lemma drawSinglePiece_cases:
  assumes "drawSinglePiece lib n piece canvas = Some (Inr m)"
  obtains source where "loadPieceSprite lib piece = Some (Inr source)" "matEmpty source" "m = canvas"
  | source sprite where "loadPieceSprite lib piece = Some (Inr source)" "\<not> matEmpty source"
      "resizePieceSprite lib source (getSpriteSizeForPiece piece n) (alignVisibleCenter piece) = Some (Inr sprite)"
      "putSprite lib piece (getSpriteSizeForPiece piece n) sprite canvas = Some (Inr m)"
  using assms unfolding drawSinglePiece_def Let_def
  by (elim thenDraw_result) (auto split: if_split_asm elim: thenDraw_result)

text \<open>The canvas keeps its size, and has an alpha channel once a piece was drawn opaque.\<close>

definition canvasOk :: "int \<Rightarrow> int \<Rightarrow> Mat \<Rightarrow> bool" where
  "canvasOk rows cols m \<longleftrightarrow> matRows m = rows \<and> matCols m = cols \<and> matChannels m \<in> {3, 4}"

lemma drawSinglePiece_canvas:
  assumes lib: "libraryOk lib" and canvas: "canvasOk rows cols canvas" and drawn: "drawSinglePiece lib n piece canvas = Some (Inr m)"
  shows "canvasOk rows cols m" "matChannels canvas = 4 \<Longrightarrow> matChannels m = 4"
    and "opaque piece \<Longrightarrow> loadPieceSprite lib piece = Some (Inr source) \<Longrightarrow> \<not> matEmpty source \<Longrightarrow> matChannels m = 4"
proof -
  have put: "canvasOk rows cols m \<and> (matChannels canvas = 4 \<or> opaque piece \<longrightarrow> matChannels m = 4)"
    if "putSprite lib piece sz sprite canvas = Some (Inr m)" for sz sprite
    using that
  proof (cases rule: putSprite_cases)
    case 1
    then show ?thesis using canvas by (auto simp: opaque_def)
  next
    case (2 drawn)
    have "shape drawn = (rows, cols, 4)"
      using drawTransparent_shape [OF _ _ 2(2)] lib canvas by (simp add: libraryOk_def canvasOk_def)
    then have "shape m = (rows, cols, 4)" using 2(3) painted [OF lib] by metis
    then show ?thesis by (simp add: shape_def canvasOk_def)
  next
    case 3
    then have "shape m = shape canvas" using fading(1) by blast
    then show ?thesis using canvas 3(1) by (simp add: shape_def canvasOk_def)
  qed
  from drawn show "canvasOk rows cols m"
    by (cases rule: drawSinglePiece_cases) (use canvas put in auto)
  from drawn show "matChannels canvas = 4 \<Longrightarrow> matChannels m = 4"
    by (cases rule: drawSinglePiece_cases) (use put in auto)
  assume "opaque piece" "loadPieceSprite lib piece = Some (Inr source)" "\<not> matEmpty source"
  with drawn show "matChannels m = 4"
    by (cases rule: drawSinglePiece_cases) (use put in auto)
qed

section \<open>A piece that is drawn faded\<close>

lemma drawPieces_canvas:
  assumes lib: "libraryOk lib" and canvas: "canvasOk rows cols canvas" and drawn: "drawPieces lib b pieces canvas = Some (Inr m)"
  shows "canvasOk rows cols m" "matChannels canvas = 4 \<Longrightarrow> matChannels m = 4"
    and "p \<in> set pieces \<Longrightarrow> opaque p \<Longrightarrow> loadPieceSprite lib p = Some (Inr source) \<Longrightarrow> \<not> matEmpty source \<Longrightarrow> matChannels m = 4"
proof -
  have keep: "canvasOk rows cols m' \<and> (matChannels c0 = 4 \<longrightarrow> matChannels m' = 4)"
    if "canvasOk rows cols c0" "inTurn (drawSinglePiece lib (defaultSpriteSize b)) ps c0 = Some (Inr m')" for ps c0 m'
    by (rule inTurn_invariant [where P = "\<lambda>s. canvasOk rows cols s \<and> (matChannels c0 = 4 \<longrightarrow> matChannels s = 4)", OF _ _ that(2)])
      (use that(1) drawSinglePiece_canvas(1,2) [OF lib] in blast)+
  show "canvasOk rows cols m" "matChannels canvas = 4 \<Longrightarrow> matChannels m = 4"
    using keep [OF canvas] drawn by (simp_all add: drawPieces_def)
  assume p: "p \<in> set pieces" and seen: "opaque p" "loadPieceSprite lib p = Some (Inr source)" "\<not> matEmpty source"
  obtain xs ys where "pieces = xs @ p # ys" using split_list [OF p] by blast
  then obtain m1 m2 where m: "inTurn (drawSinglePiece lib (defaultSpriteSize b)) xs canvas = Some (Inr m1)"
      "drawSinglePiece lib (defaultSpriteSize b) p m1 = Some (Inr m2)"
      "inTurn (drawSinglePiece lib (defaultSpriteSize b)) ys m2 = Some (Inr m)"
    using drawn by (auto simp: drawPieces_def inTurn_append elim!: thenDraw_result)
  have m1: "canvasOk rows cols m1" using keep [OF canvas m(1)] by simp
  have "matChannels m2 = 4" by (rule drawSinglePiece_canvas(3) [OF lib m1 m(2) seen])
  then show "matChannels m = 4" using keep [OF drawSinglePiece_canvas(1) [OF lib m1 m(2)] m(3)] by simp
qed

lemma floors: "\<lfloor>1701 / 20 :: rat\<rfloor> = 85" "\<lfloor>294 / 5 :: rat\<rfloor> = 58"
  by (rule floor_unique; simp)+

lemma spriteSizes: "getSpriteSizeForPiece piece (defaultSpriteSize (vl_boardSize createVisualLayout)) \<in> {63, 85}"
  by (simp add: getSpriteSizeForPiece_def defaultSpriteSize_def createVisualLayout_def truncRat_def Let_def floors)

lemma resized_whole:
  assumes "libraryOk lib" "\<not> matEmpty source" "resizePieceSprite lib source n False = Some (Inr sprite)"
  shows "shape sprite = (n, n, matChannels source)"
  using assms by (simp add: resizePieceSprite_def libraryOk_def Let_def)

lemma first_column_far:
  assumes "of_int (vl_boardStartX createVisualLayout) + of_int (vl_cellSizeX createVisualLayout) / 2 \<le> q" "n \<in> {63, 85 :: int}"
  shows "3 * n \<le> truncRat (q - of_int n / 2)"
proof -
  have "345 \<le> q" using assms(1) by (simp add: createVisualLayout_def SIDE_PANEL_WIDTH_def Let_def floors)
  then have "of_int 302 \<le> q - of_int n / 2" using assms(2) by auto
  then have "truncRat (of_int 302) \<le> truncRat (q - of_int n / 2)" by (rule truncRat_mono)
  then show ?thesis using assms(2) unfolding truncRat_of_int by auto
qed

text \<open>C37: Once some piece was drawn opaque, the canvas has four channels, and a piece that is drawn faded, as
  the selected one is, changes no pixel from its left edge to the right end of the canvas: it is not
  drawn in its place.
\<close>

theorem faded_piece_is_not_in_its_place:
  assumes lib: "libraryOk lib" and canvas0: "canvasOk rows cols canvas0"
    and others: "drawPieces lib (vl_boardSize createVisualLayout) others canvas0 = Some (Inr canvas)"
    and seen: "p \<in> set others" "opaque p" "loadPieceSprite lib p = Some (Inr source)" "\<not> matEmpty source"
    and piece: "\<not> opaque piece" "\<not> alignVisibleCenter piece"
      "of_int (vl_boardStartX createVisualLayout) + of_int (vl_cellSizeX createVisualLayout) / 2 \<le> vp_pixelX piece"
    and drawn: "drawPieces lib (vl_boardSize createVisualLayout) (others @ [piece]) canvas0 = Some (Inr m)"
    and place: "truncRat (vp_pixelX piece -
        of_int (getSpriteSizeForPiece piece (defaultSpriteSize (vl_boardSize createVisualLayout))) / 2) \<le> c" "c < cols" "0 \<le> k" "k < 4"
  shows "matBytes m (address m 4 r c + k) = matBytes canvas (address canvas 4 r c + k)"
proof -
  let ?n = "defaultSpriteSize (vl_boardSize createVisualLayout)"
  let ?sz = "getSpriteSizeForPiece piece ?n"
  have four: "matChannels canvas = 4" and ok: "canvasOk rows cols canvas"
    using drawPieces_canvas [OF lib canvas0 others] seen by blast+
  have one: "drawSinglePiece lib ?n piece canvas = Some (Inr m)"
    using drawn others by (auto simp: drawPieces_def inTurn_append elim: thenDraw_result)
  have "canvasOk rows cols m \<and> matChannels m = 4" using drawSinglePiece_canvas(1,2) [OF lib ok one] four by simp
  then have same: "address m 4 r c = address canvas 4 r c" using ok four by (simp add: address_def canvasOk_def)
  from one show ?thesis
  proof (cases rule: drawSinglePiece_cases)
    case 1
    then show ?thesis by simp
  next
    case (2 source' sprite)
    have cols: "matCols sprite = ?sz" using resized_whole [OF lib 2(2)] 2(3) piece(2) by (simp add: shape_def)
    from 2(4) show ?thesis
    proof (cases rule: putSprite_cases)
      case 3
      have x: "3 * matCols sprite \<le> truncRat (vp_pixelX piece - of_int (matCols sprite) / 2)"
        unfolding cols by (rule first_column_far [OF piece(3) spriteSizes])
      then have "0 \<le> truncRat (vp_pixelX piece - of_int (matCols sprite) / 2)" using spriteSizes [of piece] cols by auto
      from fading(2) [OF 3(2) four this x] place ok show ?thesis
        unfolding same cols by (simp add: canvasOk_def)
    qed (use piece(1) in simp_all)
  qed
qed

section \<open>No pixel outside of the picture\<close>

lemma fading_defined:
  assumes "matChannels sprite \<in> {3, 4}" "matChannels canvas \<in> {3, 4}"
  shows "drawTransparentWithOpacity sprite x y opac canvas \<noteq> None"
proof -
  let ?f = "fadePixel sprite x y (max 0 (min 1 opac))"
  have "\<exists>m. eachCell ?f (cellsOf (matRows sprite) (matCols sprite)) canvas = Some m \<and> shape m = shape canvas"
  proof (rule eachCell_returns)
    fix p m assume p: "p \<in> set (cellsOf (matRows sprite) (matCols sprite))" and m: "shape m = shape canvas"
    obtain r c where rc: "p = (r, c)" by fastforce
    then have in_sprite: "0 \<le> r" "r < matRows sprite" "0 \<le> c" "c < matCols sprite" using p by simp_all
    have "foregroundPixel sprite r c \<noteq> None"
      using accessible_inside [OF in_sprite, of "matChannels sprite"] assms(1)
      by (auto simp: foregroundPixel_def simp del: not_None_eq)
    then obtain a color where fg: "foregroundPixel sprite r c = Some (a, color)" by fastforce
    have "matChannels m \<in> {3, 4}" using m assms(2) by (auto simp: shape_def)
    then have "accessible m 3 (y + r) (x + c)"
      if "0 \<le> x + c" "0 \<le> y + r" "x + c < matCols m" "y + r < matRows m"
      using accessible_inside [of "y + r" m "x + c" 3] that by auto
    then have "?f (r, c) m \<noteq> None" by (auto simp: fadePixel_def fg Let_def simp del: not_None_eq)
    then obtain m' where m': "?f (r, c) m = Some m'" by blast
    show "\<exists>m'. ?f p m = Some m' \<and> shape m' = shape canvas"
      using m' fadePixel_writes(1) [OF m'] m by (simp add: rc)
  qed simp
  then show ?thesis by (auto simp: drawTransparentWithOpacity_def)
qed

text \<open>
  The files of the sprites have three or four channels. A piece that is drawn opaque lies at least half its size
  from the left and the upper edge; a faded one may lie anywhere.
\<close>

definition spritesOk :: "DrawLibrary \<Rightarrow> bool" where
  "spritesOk lib \<longleftrightarrow> (\<forall>path. matChannels (imread lib path) \<in> {3, 4})"

definition placedInside :: "int \<Rightarrow> VisualPiece \<Rightarrow> bool" where
  "placedInside b piece \<longleftrightarrow> (opaque piece \<longrightarrow> \<not> alignVisibleCenter piece \<and>
     of_int (getSpriteSizeForPiece piece (defaultSpriteSize b)) / 2 \<le> vp_pixelX piece \<and>
     of_int (getSpriteSizeForPiece piece (defaultSpriteSize b)) / 2 \<le> vp_pixelY piece)"

lemma loaded_channels:
  assumes "spritesOk lib" "loadPieceSprite lib piece = Some (Inr m)" "\<not> matEmpty m"
  shows "matChannels m \<in> {3, 4}"
  using assms by (auto simp: loadPieceSprite_def readImage_def spritesOk_def noMat_def matEmpty_def Let_def split: if_split_asm)

lemma crop_channels: "matChannels (cropTransparentMargins m) = matChannels m"
  by (simp add: cropTransparentMargins_def subImage_def split: prod.split)

lemma resized_channels:
  assumes "libraryOk lib" "resizePieceSprite lib source n crop = Some (Inr sprite)"
  shows "matChannels sprite = matChannels source"
  using assms by (auto simp: resizePieceSprite_def libraryOk_def Let_def crop_channels shape_def split: if_split_asm)

lemma truncRat_nonneg: "0 \<le> q \<Longrightarrow> 0 \<le> truncRat q"
  by (simp add: truncRat_def)

lemma drawTransparent_defined':
  assumes "addsAlpha f" "0 \<le> x" "0 \<le> y" "matChannels sprite \<in> {3, 4}" "matChannels canvas \<in> {3, 4}"
  shows "drawTransparent f sprite x y canvas \<noteq> None"
proof (cases "matEmpty canvas \<or> matEmpty sprite")
  case False
  then show ?thesis using drawTransparent_defined [OF assms(1) _ _ assms(2-5)] by auto
qed (simp add: drawTransparent_def)

lemma putSprite_defined:
  assumes lib: "libraryOk lib" and ch: "matChannels sprite \<in> {3, 4}" "matChannels canvas \<in> {3, 4}"
    and place: "opaque piece \<Longrightarrow> of_int (matCols sprite) / 2 \<le> vp_pixelX piece \<and> of_int (matRows sprite) / 2 \<le> vp_pixelY piece"
  shows "putSprite lib piece sz sprite canvas \<noteq> None"
proof -
  have rest: "thenDraw r (\<lambda>drawn. if b then paintAll lib (ops drawn) drawn else Some (Inr drawn)) \<noteq> None"
    if "r \<noteq> None" for r b ops
    using that by (rule thenDraw_defined) (simp only: paintAll_defined option.distinct split: if_split, simp)
  let ?x = "truncRat (vp_pixelX piece - of_int (matCols sprite) / 2)"
  let ?y = "truncRat (vp_pixelY piece - of_int (matRows sprite) / 2)"
  have "drawTransparent (bgrToBgra lib) sprite ?x ?y canvas \<noteq> None" if "opaque piece"
    using place [OF that] lib by (intro drawTransparent_defined' truncRat_nonneg ch) (simp_all add: libraryOk_def)
  then have "(if pieceOpacity piece \<ge> 99 / 100 then drawTransparent (bgrToBgra lib) sprite ?x ?y canvas
      else map_option Inr (drawTransparentWithOpacity sprite ?x ?y (pieceOpacity piece) canvas)) \<noteq> None"
    using fading_defined [OF ch, of ?x ?y "pieceOpacity piece"]
    unfolding opaque_def by (auto simp del: not_None_eq)
  then show ?thesis
    unfolding putSprite_def Let_def
    by (cases "pieceOpacity piece \<le> 0") (simp, simp only: if_False, rule rest)
qed

lemma drawSinglePiece_defined:
  assumes lib: "libraryOk lib" "spritesOk lib" and canvas: "matChannels canvas \<in> {3, 4}" and piece: "placedInside b piece"
  shows "drawSinglePiece lib (defaultSpriteSize b) piece canvas \<noteq> None"
proof -
  let ?sz = "getSpriteSizeForPiece piece (defaultSpriteSize b)"
  have inner: "thenDraw (resizePieceSprite lib source ?sz (alignVisibleCenter piece)) (\<lambda>sprite. putSprite lib piece ?sz sprite canvas) \<noteq> None"
    if source: "matChannels source \<in> {3, 4}" "\<not> matEmpty source" for source
  proof (rule thenDraw_defined)
    show "resizePieceSprite lib source ?sz (alignVisibleCenter piece) \<noteq> None"
      by (simp add: resizePieceSprite_def Let_def split: prod.split)
    fix sprite assume sprite: "resizePieceSprite lib source ?sz (alignVisibleCenter piece) = Some (Inr sprite)"
    have ch: "matChannels sprite \<in> {3, 4}" using resized_channels [OF lib(1) sprite] source(1) by simp
    show "putSprite lib piece ?sz sprite canvas \<noteq> None"
    proof (rule putSprite_defined [OF lib(1) ch canvas])
      assume "opaque piece"
      then have p: "\<not> alignVisibleCenter piece" "of_int ?sz / 2 \<le> vp_pixelX piece" "of_int ?sz / 2 \<le> vp_pixelY piece"
        using piece by (simp_all add: placedInside_def)
      with sprite have "shape sprite = (?sz, ?sz, matChannels source)" using resized_whole [OF lib(1) source(2)] by simp
      then show "of_int (matCols sprite) / 2 \<le> vp_pixelX piece \<and> of_int (matRows sprite) / 2 \<le> vp_pixelY piece"
        using p by (simp add: shape_def)
    qed
  qed
  have "loadPieceSprite lib piece \<noteq> None" by (simp add: loadPieceSprite_def readImage_def Let_def)
  then show ?thesis
    unfolding drawSinglePiece_def Let_def
    by (rule thenDraw_defined) (use inner loaded_channels [OF lib(2)] in auto)
qed

lemma shape_copyTo: "shape (copyTo m r canvas) = shape canvas"
  by (simp add: copyTo_def shape_def)

lemma pictures_inside:
  assumes lib: "libraryOk lib" "spritesOk lib" and pieces: "\<forall>p \<in> set (rf_pieces f). placedInside (boardDisplaySize r) p"
  shows "render lib r f showBack countdown whiteRating' blackRating' \<noteq> None"
proof -
  let ?b = "boardDisplaySize r"
  have drawn: "drawPieces lib ?b (rf_pieces f) m \<noteq> None"
    if "canvasOk (?b + 2 * SCORE_PANEL_HEIGHT) (?b + 2 * SIDE_PANEL_WIDTH) m" for m
    unfolding drawPieces_def
  proof (rule inTurn_defined [where P = "canvasOk (?b + 2 * SCORE_PANEL_HEIGHT) (?b + 2 * SIDE_PANEL_WIDTH)", OF that])
    fix p s assume "p \<in> set (rf_pieces f)" "canvasOk (?b + 2 * SCORE_PANEL_HEIGHT) (?b + 2 * SIDE_PANEL_WIDTH) s"
    then show "drawSinglePiece lib (defaultSpriteSize ?b) p s \<noteq> None"
      using drawSinglePiece_defined [OF lib] pieces by (simp add: canvasOk_def)
  qed (rule drawSinglePiece_canvas(1) [OF lib(1)])
  have "canvasOk (?b + 2 * SCORE_PANEL_HEIGHT) (?b + 2 * SIDE_PANEL_WIDTH) m1"
    if "paintAll lib ops (copyTo board q (newCanvas (?b + 2 * SCORE_PANEL_HEIGHT) (?b + 2 * SIDE_PANEL_WIDTH))) = Some (Inr m1)"
    for ops board q m1
    using painted [OF lib(1) that] unfolding shape_copyTo by (simp add: canvasOk_def shape_def newCanvas_def)
  note canvas = this
  have "loadBoardImage lib r \<noteq> None"
    unfolding loadBoardImage_def
    by (rule thenDraw_defined) (simp_all add: readImage_def Let_def thenDraw_total del: not_None_eq)
  moreover have "thenDraw (paintAll lib ops canvas0) (\<lambda>m1. thenDraw (drawPieces lib ?b (rf_pieces f) m1)
      (\<lambda>m2. thenDraw (paintAll lib (above_ops m2) m2) (\<lambda>m3. Some (Inr (Some m3))))) \<noteq> None"
    if "canvas0 = copyTo board q (newCanvas (?b + 2 * SCORE_PANEL_HEIGHT) (?b + 2 * SIDE_PANEL_WIDTH))"
    for ops canvas0 board q above_ops
  proof (rule thenDraw_defined [OF paintAll_defined])
    fix m1 assume "paintAll lib ops canvas0 = Some (Inr m1)"
    then have "drawPieces lib ?b (rf_pieces f) m1 \<noteq> None" using drawn canvas that by blast
    then show "thenDraw (drawPieces lib ?b (rf_pieces f) m1)
      (\<lambda>m2. thenDraw (paintAll lib (above_ops m2) m2) (\<lambda>m3. Some (Inr (Some m3)))) \<noteq> None"
      by (rule thenDraw_defined) (rule thenDraw_defined [OF paintAll_defined], simp)
  qed
  ultimately show ?thesis
    unfolding render_def Let_def by (intro thenDraw_defined) (auto simp del: not_None_eq)
qed

text \<open>With sprites of three or four channels and pieces on the board, no step of the picture reads or writes
  outside of an image: the picture is drawn, not drawn without a board, or the exception is raised
  that a file or OpenCV causes.
\<close>

theorem picture_stays_inside:
  assumes lib: "libraryOk lib" "spritesOk lib" and pieces: "\<forall>p \<in> set (rf_pieces f). placedInside (boardDisplaySize r) p"
  shows "render lib r f showBack countdown whiteRating' blackRating' \<noteq> None"
  by (rule pictures_inside [OF assms])

section \<open>The example\<close>

lemma example_sprite:
  "loadPieceSprite exampleLibrary (examplePiece x y opac) = Some (Inr \<lparr>matRows = 1, matCols = 1, matChannels = 4, matBytes = (\<lambda>_. 200)\<rparr>)"
  by (simp add: loadPieceSprite_def exampleLibrary_def examplePiece_def readImage_def matEmpty_def Let_def)

lemma exampleLibrary_sprites: "spritesOk exampleLibrary"
  by (simp add: spritesOk_def exampleLibrary_def)

lemma example_opaque [simp]: "opaque (examplePiece x y 1)" "\<not> opaque (examplePiece x y (25 / 100))"
  by (simp_all add: opaque_def pieceOpacity_def examplePiece_def)

lemma example_inside: "32 \<le> x \<Longrightarrow> 32 \<le> y \<Longrightarrow> placedInside 600 (examplePiece x y opac)"
  by (simp add: placedInside_def examplePiece_def getSpriteSizeForPiece_def defaultSpriteSize_def truncRat_def)

theorem picture_stays_inside_witness:
  "render exampleLibrary (newRenderer ''board.png'' 600) exampleFrame False [] (-1) (-1) \<noteq> None"
  by (rule picture_stays_inside)
    (simp_all add: exampleLibrary_ok exampleLibrary_sprites exampleFrame_def newRenderer_def example_inside)

lemma example_drawn:
  assumes "32 \<le> x" "32 \<le> y" "canvasOk 740 1100 canvas"
  shows "\<exists>m. drawSinglePiece exampleLibrary (defaultSpriteSize 600) (examplePiece x y opac) canvas = Some (Inr m)"
proof -
  let ?p = "examplePiece x y opac"
  let ?sprite = "\<lparr>matRows = 63, matCols = 63, matChannels = 4, matBytes = (\<lambda>_. 200)\<rparr> :: Mat"
  let ?x = "truncRat (x - 63 / 2)" and ?y = "truncRat (y - 63 / 2)"
  have ok: "matChannels canvas \<in> {3, 4}" "\<not> matEmpty canvas" using assms(3) by (auto simp: canvasOk_def matEmpty_def)
  have one: "drawSinglePiece exampleLibrary (defaultSpriteSize 600) ?p canvas = putSprite exampleLibrary ?p 63 ?sprite canvas"
    unfolding drawSinglePiece_def Let_def example_sprite
    by (simp add: resizePieceSprite_def matEmpty_def getSpriteSizeForPiece_def defaultSpriteSize_def truncRat_def
        examplePiece_def exampleLibrary_def)
  have "0 \<le> ?x" "0 \<le> ?y" using assms(1,2) by (auto intro!: truncRat_nonneg)
  moreover have "addsAlpha (bgrToBgra exampleLibrary)" using exampleLibrary_ok by (simp add: libraryOk_def)
  ultimately obtain m1 where m1: "drawTransparent (bgrToBgra exampleLibrary) ?sprite ?x ?y canvas = Some (Inr m1)"
    using drawTransparent_defined [of "bgrToBgra exampleLibrary" ?sprite canvas ?x ?y] ok by (auto simp: matEmpty_def)
  obtain m2 where m2: "drawTransparentWithOpacity ?sprite ?x ?y (pieceOpacity ?p) canvas = Some m2"
    using fading_defined [of ?sprite canvas] ok(1) by fastforce
  show ?thesis
    unfolding one putSprite_def Let_def using m1 m2
    by (simp add: examplePiece_def isRestState_def)
qed

theorem faded_piece_is_not_in_its_place_witness:
  "\<exists>canvas m. drawPieces exampleLibrary 600 [examplePiece 400 400 1] (newCanvas 740 1100) = Some (Inr canvas) \<and>
     drawPieces exampleLibrary 600 [examplePiece 400 400 1, examplePiece 345 165 (25 / 100)] (newCanvas 740 1100) = Some (Inr m) \<and>
     matBytes m (address m 4 165 345 + 0) = matBytes canvas (address canvas 4 165 345 + 0)"
proof -
  have "vl_boardSize createVisualLayout = 600" by (simp add: createVisualLayout_def Let_def)
  note board = this
  have new: "canvasOk 740 1100 (newCanvas 740 1100)" by (simp add: canvasOk_def newCanvas_def)
  obtain canvas where canvas: "drawPieces exampleLibrary 600 [examplePiece 400 400 1] (newCanvas 740 1100) = Some (Inr canvas)"
    using example_drawn [of 400 400 "newCanvas 740 1100" 1] new by (auto simp: drawPieces_def)
  have "canvasOk 740 1100 canvas" by (rule drawPieces_canvas(1) [OF exampleLibrary_ok new canvas])
  then obtain m where one: "drawSinglePiece exampleLibrary (defaultSpriteSize 600) (examplePiece 345 165 (25 / 100)) canvas = Some (Inr m)"
    using example_drawn [of 345 165 canvas] by auto
  have m: "drawPieces exampleLibrary 600 ([examplePiece 400 400 1] @ [examplePiece 345 165 (25 / 100)])
      (newCanvas 740 1100) = Some (Inr m)"
    using canvas one unfolding drawPieces_def inTurn_append by (simp only: thenDraw_Inr inTurn.simps inTurn_one)
  have "matBytes m (address m 4 165 345 + 0) = matBytes canvas (address canvas 4 165 345 + 0)"
    by (rule faded_piece_is_not_in_its_place [unfolded board, OF exampleLibrary_ok new canvas _ _ example_sprite _ _ _ _ m])
      (simp_all add: matEmpty_def, simp_all add: examplePiece_def createVisualLayout_def SIDE_PANEL_WIDTH_def Let_def floors
        getSpriteSizeForPiece_def defaultSpriteSize_def truncRat_def opaque_def pieceOpacity_def)
  then show ?thesis using canvas m by auto
qed

end
