(* ===== verification/Picture_Safety.thy ===== *)
theory Picture_Safety
  imports Renderer_Properties Game_Screen_Properties Protocol_Roundtrip
begin

text \<open>
  From a state that is read off the wire to the bytes of the picture: whatever state within the bounds of
  the protocol arrives, its pieces are drawn inside of the picture, as long as no king or queen is said to
  move and to jump at the same time; such a state, which the protocol lets pass, makes the client
  write before the first row of the image.
\<close>

section \<open>Places\<close>

text \<open>A builder of the windows of the game: the geometry of \<open>createVisualLayout\<close>, which is also that of the lobby.\<close>

definition windowBuilder :: "VisualSnapshotBuilder \<Rightarrow> bool" where
  "windowBuilder b \<longleftrightarrow> geometry b = (316, 136, 58, 58)"

lemma windowBuilder_new:
  "windowBuilder (newVisualSnapshotBuilder (vl_boardStartX createVisualLayout) (vl_boardStartY createVisualLayout)
     (vl_cellSizeX createVisualLayout) (vl_cellSizeY createVisualLayout) n)"
  by (simp add: windowBuilder_def geometry_def newVisualSnapshotBuilder_def)

lemma between:
  fixes a b t m :: rat
  assumes "m \<le> a" "m \<le> b" "0 \<le> t" "t \<le> 1"
  shows "m \<le> a + (b - a) * t"
proof -
  have "(1 - t) * m + t * m \<le> (1 - t) * a + t * b"
    using assms by (intro add_mono mult_left_mono) simp_all
  then show ?thesis by (simp add: algebra_simps)
qed

lemma centers:
  assumes "windowBuilder b"
  shows "cellCenterX b c = of_int (345 + 58 * c)" "cellCenterY b r = of_int (165 + 58 * r)"
  using assms by (simp_all add: windowBuilder_def geometry_def cellCenterX_def cellCenterY_def)

lemma moved_inside:
  assumes b: "windowBuilder b" and m: "wireMotion m"
  shows "287 \<le> pixelX (applyMovement b m t)" "107 \<le> pixelY (applyMovement b m t)"
proof -
  define n where "n = (if ms_directMove m then ms_destination m
    else Position (getRow (ms_currentCell m) + ms_rowStep m) (getCol (ms_currentCell m) + ms_colStep m))"
  have cells: "0 \<le> getRow (ms_currentCell m)" "0 \<le> getCol (ms_currentCell m)" "-1 \<le> getRow n" "-1 \<le> getCol n"
    using m by (auto simp: wireMotion_def isBoardPosition_def n_def)
  have "287 \<le> cellCenterX b (getCol (ms_currentCell m))" "287 \<le> cellCenterX b (getCol n)"
    "107 \<le> cellCenterY b (getRow (ms_currentCell m))" "107 \<le> cellCenterY b (getRow n)"
    unfolding centers [OF b] using cells by linarith+
  then show "287 \<le> pixelX (applyMovement b m t)" "107 \<le> pixelY (applyMovement b m t)"
    by (auto simp: applyMovement_def Let_def n_def [symmetric] intro: between)
qed

text \<open>A jump lifts a piece by 70 at most.\<close>

lemma jump_lift: "pixelY pl - 70 \<le> pixelY (applyJump pl j t)" "pixelX (applyJump pl j t) = pixelX pl"
proof -
  define q where "q = clampProgress (of_int (t - (js_finishTimeMs j - JUMP_DURATION_MS)) / of_int JUMP_DURATION_MS)"
  have "0 \<le> (2 * q - 1) * (2 * q - 1)" by simp
  then have "4 * q * (1 - q) \<le> 1" by (simp add: algebra_simps)
  then show "pixelY pl - 70 \<le> pixelY (applyJump pl j t)"
    unfolding applyJump_def Let_def q_def [symmetric] by (simp add: JUMP_HEIGHT_PIXELS_def)
  show "pixelX (applyJump pl j t) = pixelX pl" by (simp add: applyJump_def Let_def)
qed

lemma placed:
  assumes b: "windowBuilder b" and s: "validSnapshot okText s" and p: "p \<in> set (snapPieces s)"
  shows "287 \<le> pixelX (calculatePlacement b s p)" "37 \<le> pixelY (calculatePlacement b s p)"
    and "findMovement s (ps_id p) = None \<or> findJump s (ps_id p) = None \<Longrightarrow> 95 \<le> pixelY (calculatePlacement b s p)"
proof -
  define resting where "resting = \<lparr>pl_row = getRow (ps_position p), pl_col = getCol (ps_position p),
    pixelX = cellCenterX b (getCol (ps_position p)), pixelY = cellCenterY b (getRow (ps_position p))\<rparr>"
  have "wirePiece p" using s p by (simp add: validSnapshot_def list_all_iff)
  then have rest: "287 \<le> pixelX resting" "165 \<le> pixelY resting"
    unfolding resting_def using centers [OF b] by (auto simp: wirePiece_def isBoardPosition_def)
  have wire: "wireMotion m" if "findMovement s (ps_id p) = Some m" for m
    using that s by (auto simp: findMovement_def find_Some_iff validSnapshot_def list_all_iff)
  define moved where "moved = (case findMovement s (ps_id p) of None \<Rightarrow> resting | Some m \<Rightarrow> applyMovement b m (serverTimeMs s))"
  have moved: "287 \<le> pixelX moved" "107 \<le> pixelY moved" "findMovement s (ps_id p) = None \<Longrightarrow> 165 \<le> pixelY moved"
    using rest moved_inside [OF b wire] by (auto simp: moved_def split: option.split)
  have place: "calculatePlacement b s p = (case findJump s (ps_id p) of None \<Rightarrow> moved | Some j \<Rightarrow> applyJump moved j (serverTimeMs s))"
    unfolding calculatePlacement_def Let_def moved_def resting_def by (rule refl)
  show "287 \<le> pixelX (calculatePlacement b s p)"
    using moved jump_lift(2) by (simp add: place split: option.split)
  have lift: "pixelY moved - 70 \<le> pixelY (applyJump moved j t)" for j t by (rule jump_lift)
  show "37 \<le> pixelY (calculatePlacement b s p)"
    using moved(2) lift by (auto simp: place split: option.split intro: order_trans [OF _ lift])
  assume "findMovement s (ps_id p) = None \<or> findJump s (ps_id p) = None"
  then show "95 \<le> pixelY (calculatePlacement b s p)"
    using moved(2,3) by (auto simp: place split: option.split intro: order_trans [OF _ lift])
qed

section \<open>Drawn inside\<close>

definition royal :: "string \<Rightarrow> bool" where
  "royal code \<longleftrightarrow> code \<in> {''wK'', ''bK'', ''wQ'', ''bQ''}"

text \<open>No king and no queen moves and jumps at the same time; in the engine no piece does.\<close>

definition noFlyingRoyals :: "GameStateSnapshot \<Rightarrow> bool" where
  "noFlyingRoyals s \<longleftrightarrow> (\<forall>p \<in> set (snapPieces s). royal (ps_token p) \<longrightarrow>
     findMovement s (ps_id p) = None \<or> findJump s (ps_id p) = None)"

lemma sprite_half:
  "getSpriteSizeForPiece v (defaultSpriteSize 600) = (if royal (vp_pieceCode v) then 85 else 63)"
  by (simp add: getSpriteSizeForPiece_def defaultSpriteSize_def truncRat_def royal_def floors)

lemma created_plain: "v \<in> set (createSnapshot b) \<Longrightarrow> \<not> alignVisibleCenter v"
  by (auto simp: createSnapshot_def toVisualPiece_def)

lemma built_inside:
  assumes ok: "libOk lib" "cacheOk b" "windowBuilder b" "validSnapshot okText s" "distinct (visibleIds s)" "noFlyingRoyals s"
    and built: "buildVisuals lib s d b = Some (vs, b')" and v: "v \<in> set vs"
  shows "placedInside 600 v"
proof -
  obtain vs0 b0 where facts: "buildVisuals lib s d b = Some (vs0, b0)" "distinct (map vp_pieceId vs0)"
    "set (map vp_pieceId vs0) = set (visibleIds s)"
    "\<forall>p \<in> set (snapPieces s). ps_state p \<noteq> ''captured'' \<longrightarrow> (\<exists>v \<in> set vs0. vp_pieceId v = ps_id p \<and>
       vp_pieceCode v = ps_token p \<and>
       vp_state v = chooseState (pieceStateFromString (ps_state p)) (ps_remainingCooldownMs p) (ps_totalCooldownMs p) \<and>
       vp_row v = pl_row (calculatePlacement b s p) \<and> vp_col v = pl_col (calculatePlacement b s p) \<and>
       vp_pixelX v = pixelX (calculatePlacement b s p) \<and> vp_pixelY v = pixelY (calculatePlacement b s p) \<and>
       vp_cooldownRatio v = calculateCooldownRatio p \<and> 0 \<le> vp_cooldownRatio v \<and> vp_cooldownRatio v \<le> 1)"
    using built_picture [OF ok(1,2,5), of d] by (elim exE conjE)
  have "vs0 = vs" using facts(1) built by simp
  note vs = facts(2,3) [unfolded this]
  have each: "\<exists>u \<in> set vs. vp_pieceId u = ps_id p \<and> vp_pieceCode u = ps_token p \<and>
      vp_pixelX u = pixelX (calculatePlacement b s p) \<and> vp_pixelY u = pixelY (calculatePlacement b s p)"
    if "p \<in> set (snapPieces s)" "ps_state p \<noteq> ''captured''" for p
    using bspec [OF facts(4) that(1), THEN mp, OF that(2)] unfolding \<open>vs0 = vs\<close> by (elim bexE) (rule bexI, auto)
  have "vp_pieceId v \<in> set (visibleIds s)" using v vs(2) by auto
  then obtain p where p: "p \<in> set (snapPieces s)" "ps_state p \<noteq> ''captured''" "ps_id p = vp_pieceId v"
    by (auto simp: visibleIds_def)
  from each [OF p(1,2)] obtain u where u: "u \<in> set vs" "vp_pieceId u = ps_id p" "vp_pieceCode u = ps_token p"
    "vp_pixelX u = pixelX (calculatePlacement b s p)" "vp_pixelY u = pixelY (calculatePlacement b s p)" by blast
  have "u = v" using vs(1) u(1,2) v p(3) by (simp add: distinct_map inj_on_def)
  moreover have "\<not> alignVisibleCenter v"
    using built v created_plain by (auto simp: buildVisuals_def Let_def)
  moreover have "95 \<le> pixelY (calculatePlacement b s p)" if "royal (ps_token p)"
  proof (rule placed(3) [OF ok(3,4) p(1)])
    show "findMovement s (ps_id p) = None \<or> findJump s (ps_id p) = None"
      by (rule mp [OF bspec [OF ok(6) [unfolded noFlyingRoyals_def] p(1)] that])
  qed
  ultimately show ?thesis
    using placed(1,2) [OF ok(3,4) p(1)] u(3-5) by (auto simp: placedInside_def sprite_half)
qed

lemma ghost_inside:
  assumes "\<forall>v \<in> set vs. placedInside 600 v" "appendSelectionGhost vs vs c over m = Some pieces"
  shows "\<forall>v \<in> set pieces. placedInside 600 v"
proof -
  have faded: "placedInside 600 (v\<lparr>opacity := 25 / 100\<rparr>)" "placedInside 600 (createSelectionGhost v x y)" for v x y
    by (simp_all add: placedInside_def opaque_def pieceOpacity_def createSelectionGhost_def)
  show ?thesis
    using assms faded
    by (auto simp: appendSelectionGhost_def Let_def split: if_split_asm option.split_asm dest!: set_update_subset_insert [THEN subsetD])
qed

text \<open>C39: A state within the bounds of the protocol, whoever sends it, is drawn without reading or writing
  outside of an image, with the selected piece and its ghost, wherever the mouse is: as long as no id is
  used twice and no king or queen is said to move and to jump at the same time.\<close>

theorem valid_states_are_drawn_inside:
  assumes "libOk lib" "cacheOk b" "windowBuilder b" "validSnapshot okText s" "distinct (visibleIds s)" "noFlyingRoyals s"
    and "buildVisuals lib s d b = Some (vs, b')" "appendSelectionGhost vs vs c over m = Some pieces"
    and "libraryOk dl" "spritesOk dl"
  shows "Renderer.render dl (newRenderer path 600) (f\<lparr>rf_pieces := pieces\<rparr>) showBack countdown whiteRating' blackRating' \<noteq> None"
  using pictures_inside [OF assms(9,10)] ghost_inside [OF _ assms(8)] built_inside [OF assms(1-7)]
  by (simp add: newRenderer_def)

section \<open>A piece that flies\<close>

text \<open>
  The states are valid: a pawn at rest for the witness, and a king that is said to move up from the
  first row and to jump at the same time.
\<close>

definition restingState :: GameStateSnapshot where
  "restingState = newSnapshot\<lparr>snapPieces := [\<lparr>ps_id = 4, ps_token = ''wP'', ps_position = Position 6 3, ps_state = ''idle'',
     ps_hasMoved = False, ps_remainingCooldownMs = 0, ps_totalCooldownMs = 0\<rparr>]\<rparr>"

definition flyingState :: GameStateSnapshot where
  "flyingState = newSnapshot\<lparr>serverTimeMs := 1000,
     snapPieces := [\<lparr>ps_id = 4, ps_token = ''wK'', ps_position = Position 0 3, ps_state = ''moving'',
       ps_hasMoved = True, ps_remainingCooldownMs = 0, ps_totalCooldownMs = 0\<rparr>],
     snapMotions := [\<lparr>ms_pieceId = 4, ms_source = Position 0 3, ms_destination = Position 0 3, ms_currentCell = Position 0 3,
       ms_rowStep = -1, ms_colStep = 0, ms_directMove = False, ms_stepDurationMs = 1000, ms_nextStepTimeMs = 1000, ms_order = 0\<rparr>],
     snapJumps := [\<lparr>js_pieceId = 4, js_cell = Position 0 3, js_finishTimeMs = 1500\<rparr>]\<rparr>"

abbreviation gameBuilder :: VisualSnapshotBuilder where
  "gameBuilder \<equiv> newVisualSnapshotBuilder 316 136 58 58 63"

lemma example_states:
  "validSnapshot (\<lambda>_. True) restingState" "validSnapshot (\<lambda>_. True) flyingState"
  by (simp_all add: validSnapshot_def restingState_def flyingState_def newSnapshot_def wirePiece_def wireMotion_def wireJump_def
      inInt_def INT_MIN_def INT_MAX_def LLONG_MAX_def isValidToken_def isValidState_def isBoardPosition_def)

lemma gameBuilder_ok: "cacheOk gameBuilder" "windowBuilder gameBuilder"
  by (simp_all add: cacheOk_def windowBuilder_def geometry_def newVisualSnapshotBuilder_def)

lemma demoLibrary_ok: "libOk demoLibrary"
  by (simp add: libOk_def demoLibrary_def)

theorem valid_states_are_drawn_inside_witness:
  "\<exists>vs b'. buildVisuals demoLibrary restingState 16 gameBuilder = Some (vs, b') \<and>
     Renderer.render exampleLibrary (newRenderer ''board.png'' 600) (exampleFrame\<lparr>rf_pieces := vs\<rparr>) False [] (-1) (-1) \<noteq> None"
proof -
  obtain vs b' where vs: "buildVisuals demoLibrary restingState 16 gameBuilder = Some (vs, b')"
    using buildVisuals_returns [OF demoLibrary_ok gameBuilder_ok(1)] by blast
  have state: "distinct (visibleIds restingState)" "noFlyingRoyals restingState"
    by (simp_all add: visibleIds_def restingState_def newSnapshot_def noFlyingRoyals_def findJump_def)
  have ghost: "appendSelectionGhost vs vs c True m = Some vs" for c m by (simp add: appendSelectionGhost_def)
  have "Renderer.render exampleLibrary (newRenderer ''board.png'' 600) (exampleFrame\<lparr>rf_pieces := vs\<rparr>) False [] (-1) (-1) \<noteq> None"
    by (rule valid_states_are_drawn_inside [OF demoLibrary_ok gameBuilder_ok example_states(1) state vs ghost exampleLibrary_ok exampleLibrary_sprites])
  then show ?thesis using vs by blast
qed

text \<open>Above an image, the first pixel already lies before its bytes.\<close>

lemma drawing_above_the_image:
  assumes f: "addsAlpha f" and ch: "matChannels source = 4" "matChannels canvas \<in> {3, 4}"
    and some: "\<not> matEmpty source" "\<not> matEmpty canvas" and place: "y < 0" "x < matCols canvas"
  shows "drawTransparent f source x y canvas = None"
proof -
  define tgt where "tgt = (if matChannels canvas = 3 then f canvas else canvas)"
  have tgt: "shape tgt = (matRows canvas, matCols canvas, 4)"
    using f ch(2) by (auto simp: tgt_def addsAlpha_def shape_def)
  have cols: "0 < matCols canvas" "0 < matCols source" "0 < matRows source" using some by (simp_all add: matEmpty_def)
  have "y * (matCols canvas * 4) \<le> -1 * (matCols canvas * 4)" using place(1) cols(1) by (intro mult_right_mono) simp_all
  then have "address tgt 4 y x < 0" using tgt place(2) by (simp add: address_def shape_def)
  then have "blendPixel source x y (0, 0) tgt = None" by (simp add: blendPixel_def accessible_def)
  moreover have "\<not> matRows canvas \<le> y" using some(2) place(1) by (simp add: matEmpty_def)
  ultimately show ?thesis
    using some ch(1) tgt place cols
    by (auto simp: drawTransparent_def Let_def tgt_def [symmetric] shape_def intro!: eachCell_first)
qed

lemma one_element: "distinct xs \<Longrightarrow> set xs = {x} \<Longrightarrow> xs = [x]"
  by (cases xs) (auto simp: subset_singleton_iff)

lemma flying_place:
  "pixelX (calculatePlacement gameBuilder flyingState (hd (snapPieces flyingState))) = 519"
  "pixelY (calculatePlacement gameBuilder flyingState (hd (snapPieces flyingState))) = 37"
  by (simp_all add: flyingState_def newSnapshot_def calculatePlacement_def findMovement_def findJump_def applyMovement_def
      applyJump_def cellCenterX_def cellCenterY_def newVisualSnapshotBuilder_def clampProgress_def JUMP_DURATION_MS_def
      JUMP_HEIGHT_PIXELS_def Let_def)

text \<open>C40: The bounds of the protocol are not enough: a state within them, in which a king moves up from the first
  row and jumps at the same time, makes the client write outside of the picture when it draws the king.\<close>

theorem flying_king_leaves_the_picture:
  "validSnapshot (\<lambda>_. True) flyingState \<and>
   (\<exists>vs b'. buildVisuals demoLibrary flyingState 16 gameBuilder = Some (vs, b') \<and>
     drawPieces exampleLibrary 600 vs (newCanvas 740 1100) = None)"
proof -
  let ?p = "hd (snapPieces flyingState)"
  have ids: "visibleIds flyingState = [4]" by (simp add: visibleIds_def flyingState_def newSnapshot_def)
  then have "distinct (visibleIds flyingState)" by simp
  from built_picture [OF demoLibrary_ok gameBuilder_ok(1) this, of 16] ids
  obtain vs b' where built: "buildVisuals demoLibrary flyingState 16 gameBuilder = Some (vs, b')"
    and vs: "distinct (map vp_pieceId vs)" "set (map vp_pieceId vs) = {4}"
    and each: "\<forall>p \<in> set (snapPieces flyingState). ps_state p \<noteq> ''captured'' \<longrightarrow> (\<exists>v \<in> set vs. vp_pieceId v = ps_id p \<and>
       vp_pieceCode v = ps_token p \<and>
       vp_state v = chooseState (pieceStateFromString (ps_state p)) (ps_remainingCooldownMs p) (ps_totalCooldownMs p) \<and>
       vp_row v = pl_row (calculatePlacement gameBuilder flyingState p) \<and> vp_col v = pl_col (calculatePlacement gameBuilder flyingState p) \<and>
       vp_pixelX v = pixelX (calculatePlacement gameBuilder flyingState p) \<and> vp_pixelY v = pixelY (calculatePlacement gameBuilder flyingState p) \<and>
       vp_cooldownRatio v = calculateCooldownRatio p \<and> 0 \<le> vp_cooldownRatio v \<and> vp_cooldownRatio v \<le> 1)"
    by (elim exE conjE) simp
  have p: "?p \<in> set (snapPieces flyingState)" "ps_state ?p \<noteq> ''captured''" "ps_token ?p = ''wK''"
    by (simp_all add: flyingState_def newSnapshot_def)
  from mp [OF bspec [OF each p(1)] p(2)] obtain v where v: "v \<in> set vs" "vp_pieceCode v = ''wK''"
    "vp_pixelX v = 519" "vp_pixelY v = 37" unfolding flying_place p(3) by blast
  have "length vs = 1" using one_element [OF vs] by (metis length_map length_Cons list.size(3) One_nat_def)
  then have one: "vs = [v]" using v(1) by (cases vs) auto
  have plain: "\<not> alignVisibleCenter v" "opacity v = 1"
    using built v(1) by (auto simp: buildVisuals_def Let_def createSnapshot_def toVisualPiece_def)
  let ?sprite = "\<lparr>matRows = 85, matCols = 85, matChannels = 4, matBytes = (\<lambda>_. 200)\<rparr> :: Mat"
  have sprite: "loadPieceSprite exampleLibrary v = Some (Inr \<lparr>matRows = 1, matCols = 1, matChannels = 4, matBytes = (\<lambda>_. 200)\<rparr>)"
    by (simp add: loadPieceSprite_def exampleLibrary_def readImage_def matEmpty_def Let_def)
  have "drawSinglePiece exampleLibrary (defaultSpriteSize 600) v (newCanvas 740 1100) = putSprite exampleLibrary v 85 ?sprite (newCanvas 740 1100)"
    unfolding drawSinglePiece_def Let_def sprite sprite_half
    by (simp add: resizePieceSprite_def matEmpty_def plain(1) exampleLibrary_def royal_def v(2))
  moreover have "drawTransparent (bgrToBgra exampleLibrary) ?sprite (truncRat (519 - 85 / 2)) (truncRat (37 - 85 / 2)) (newCanvas 740 1100) = None"
    using exampleLibrary_ok
    by (intro drawing_above_the_image) (simp_all add: libraryOk_def newCanvas_def matEmpty_def truncRat_def)
  ultimately have "drawPieces exampleLibrary 600 vs (newCanvas 740 1100) = None"
    by (simp add: drawPieces_def one putSprite_def pieceOpacity_def plain(2) v(3,4) Let_def)
  then show ?thesis using built example_states(2) by blast
qed

end
