(* ===== verification/Lobby_Drawing.thy ===== *)
theory Lobby_Drawing
  imports Drawing_Ops "HOL-Library.Signed_Division"
begin

text \<open>
  The picture of the lobby: \<open>src/client/desktop_client/src/Lobby/LobbyRenderer.cpp\<close>, as the calls of OpenCV it makes, in
  their order (\<open>Drawing_Ops\<close>). The size of a text and whether a rectangle contains a point are
  parameters (\<open>measured\<close>, \<open>contains\<close>).
\<close>

section \<open>Colors and parts\<close>

definition Background :: color where "Background = (246, 247, 250)"

definition Surface :: color where "Surface = (255, 255, 255)"

definition Ink :: color where "Ink = (37, 39, 46)"

definition Muted :: color where "Muted = (117, 119, 128)"

definition Border :: color where "Border = (224, 226, 232)"

definition Primary :: color where "Primary = (198, 105, 42)"

definition PrimaryHover :: color where "PrimaryHover = (218, 124, 53)"

definition Green :: color where "Green = (91, 158, 58)"

definition Red :: color where "Red = (69, 76, 210)"

definition drawText :: "string \<Rightarrow> point \<Rightarrow> rat \<Rightarrow> color \<Rightarrow> int \<Rightarrow> DrawOp" where
  "drawText val origin scale col thickness = PutText val origin Duplex scale col thickness"

definition drawPanel :: "Rect \<Rightarrow> DrawOp list" where
  "drawPanel r =
     [FillRect (rect (rx r + 4) (ry r + 5) (rw r) (rh r)) (230, 231, 235) SmoothLine,
      FillRect r Surface SmoothLine, OutlineRect r Border 1 SmoothLine]"

definition drawButton :: "metrics \<Rightarrow> Rect \<Rightarrow> string \<Rightarrow> bool \<Rightarrow> bool \<Rightarrow> bool \<Rightarrow> bool \<Rightarrow> DrawOp list" where
  "drawButton measured r label primary enabled hovered focused =
     (let fill0 = (if primary then Primary else Surface);
          border0 = (if primary then Primary else (194, 197, 207));
          color0 = (if primary then Surface else Ink);
          (fill, border, col) =
            (if \<not> enabled then ((222, 224, 230), (222, 224, 230), (155, 157, 164))
             else if hovered then (if primary then PrimaryHover else (247, 242, 238), border0, color0)
             else (fill0, border0, color0))
      in case measured label Duplex (55 / 100) 1 of (w, h, baseline) \<Rightarrow>
        [FillRect r fill SmoothLine,
         OutlineRect r (if focused then (235, 150, 76) else border) (if focused then 3 else 1) SmoothLine,
         drawText label (rx r + (rw r - w) sdiv 2, ry r + (rh r + h) sdiv 2) (55 / 100) col 1])"

definition clipped :: "string \<Rightarrow> nat \<Rightarrow> string" where
  "clipped val maximum = (if length val \<le> maximum then val else take (maximum - 3) val @ ''...'')"

definition withRating :: "string \<Rightarrow> int \<Rightarrow> string" where
  "withRating name rating = name @ '' ('' @ to_string rating @ '')''"

definition hover :: "(Rect \<Rightarrow> point \<Rightarrow> bool) \<Rightarrow> Rect \<Rightarrow> point \<Rightarrow> bool" where
  "hover contains r pt \<longleftrightarrow> fst pt \<ge> 0 \<and> contains r pt"

definition drawInputField :: "Rect \<Rightarrow> string \<Rightarrow> bool \<Rightarrow> string \<Rightarrow> DrawOp list" where
  "drawInputField r val focused placeholder =
     [FillRect r Surface SmoothLine,
      OutlineRect r (if focused then Primary else Border) (if focused then 2 else 1) SmoothLine,
      drawText (if val = [] then placeholder else clipped val 42) (rx r + 16, ry r + 35) (58 / 100)
        (if val = [] then Muted else Ink) 1]"

section \<open>Authentication\<close>

definition drawAuthentication :: "metrics \<Rightarrow> (Rect \<Rightarrow> point \<Rightarrow> bool) \<Rightarrow> LobbyViewModel \<Rightarrow> LobbyLayoutResult \<Rightarrow> point \<Rightarrow> DrawOp list" where
  "drawAuthentication measured contains view layout pt =
     (let box = authenticationPanel layout; over = (\<lambda>r. hover contains r pt);
          stars = (\<lambda>n. replicate n (CHR ''*'')); enabled = (pendingAction view = NothingPending);
          message = (rx box + 50, ry box + rh box - 34)
      in drawPanel box @
         [drawText ''KUNG FU CHESS'' (rx box + 50, ry box + 62) 1 Ink 2,
          drawText ''Sign in to enter the live lobby'' (rx box + 50, ry box + 94) (48 / 100) Muted 1,
          drawText ''USERNAME'' (rx (usernameField layout), ry (usernameField layout) - 10) (42 / 100) Muted 1] @
         drawInputField (usernameField layout) (usernameInput view) (focusedField view = UsernameField) ''player_name'' @
         [drawText ''PASSWORD'' (rx (passwordField layout), ry (passwordField layout) - 10) (42 / 100) Muted 1] @
         drawInputField (passwordField layout) (stars (passwordLength view)) (focusedField view = PasswordField)
           ''at least 10 characters'' @
         (if authMode view = RegisterMode
          then [drawText ''CONFIRM PASSWORD'' (rx (confirmPasswordField layout), ry (confirmPasswordField layout) - 10)
                  (42 / 100) Muted 1] @
               drawInputField (confirmPasswordField layout) (stars (confirmPasswordLength view))
                 (focusedField view = ConfirmPasswordField) ''re-enter password''
          else []) @
         drawButton measured (loginButton layout)
           (if pendingAction view = PendingLogin then ''SIGNING IN...'' else ''LOGIN'') True enabled (over (loginButton layout)) False @
         drawButton measured (registerButton layout)
           (if pendingAction view = PendingRegister then ''CREATING...'' else ''REGISTER'') False enabled
           (over (registerButton layout)) False @
         [drawText (if authMode view = RegisterMode then ''Already have an account? Sign in'' else ''Need an account? Register'')
            (rx (authModeToggle layout), ry (authModeToggle layout) + 20) (44 / 100)
            (if over (authModeToggle layout) then Primary else Muted) 1,
          if visibleError view \<noteq> [] then drawText (clipped (visibleError view) 62) message (45 / 100) Red 1
          else if statusMessage view \<noteq> [] then drawText (statusMessage view) message (45 / 100) Primary 1
          else drawText ''SERVER  127.0.0.1:8000'' message (42 / 100) Muted 1])"

section \<open>The lobby\<close>

definition drawHeader :: "metrics \<Rightarrow> (Rect \<Rightarrow> point \<Rightarrow> bool) \<Rightarrow> LobbyViewModel \<Rightarrow> LobbyLayoutResult \<Rightarrow> point \<Rightarrow> DrawOp list" where
  "drawHeader measured contains view layout pt =
     (let over = (\<lambda>r. hover contains r pt); enabled = networkActionsEnabled view;
          searching = (pendingAction view = PendingFindMatch); idle = (pendingAction view = NothingPending)
      in [FillRect (header layout) Surface PlainLine,
          DrawLine (0, rh (header layout) - 1) (rw (header layout), rh (header layout) - 1) Border 1 SmoothLine,
          drawText ''KUNG FU CHESS'' (36, 42) (82 / 100) Ink 2,
          drawText (''LOBBY  /  '' @ withRating (clipped (authenticatedUsername view) 18) (authenticatedUserRating view))
            (36, 68) (42 / 100) Muted 1] @
         drawButton measured (historyButton layout) ''HISTORY'' False idle (over (historyButton layout)) False @
         drawButton measured (playButton layout) (if searching then ''SEARCHING...'' else ''PLAY'') True
           (if searching then False else enabled) (over (playButton layout)) False @
         (if searching
          then drawButton measured (createRoomButton layout) ''CANCEL'' False True (over (createRoomButton layout)) False
          else drawButton measured (createRoomButton layout) ''CREATE ROOM'' True enabled (over (createRoomButton layout)) False) @
         drawButton measured (joinHiddenButton layout) ''JOIN WITH CODE'' False enabled (over (joinHiddenButton layout)) False @
         drawButton measured (logoutButton layout) ''LOGOUT'' False idle (over (logoutButton layout)) False @
         [drawText (connectionStatusText (wsState view)) (rx (historyButton layout) - 130, 53) (38 / 100)
            (if wsState view = WsConnected then Green else Red) 1])"

definition playerName :: "LobbyUser option \<Rightarrow> string" where
  "playerName user = (case user of None \<Rightarrow> ''-'' | Some u \<Rightarrow> withRating (clipped (userName u) 18) (userRating u))"

definition drawRoomCard ::
    "metrics \<Rightarrow> (Rect \<Rightarrow> point \<Rightarrow> bool) \<Rightarrow> LobbyRoom \<Rightarrow> Rect \<Rightarrow> bool \<Rightarrow> bool \<Rightarrow> bool \<Rightarrow> point \<Rightarrow> DrawOp list" where
  "drawRoomCard measured contains room r active enabled pending pt =
     (let action = cardActionButton r in
      drawPanel r @
      [drawText (if active then ''LIVE'' else ''WAITING'') (rx r + 20, ry r + 28) (42 / 100) (if active then Red else Primary) 1,
       drawText (clipped (roomName room) 28) (rx r + 20, ry r + 54) (55 / 100) Ink 1] @
      (if active
       then [drawText (''WHITE   '' @ playerName (whiteUser room)) (rx r + 20, ry r + 82) (47 / 100) Ink 1,
             drawText (''BLACK   '' @ playerName (blackUser room)) (rx r + 20, ry r + 107) (47 / 100) Ink 1,
             drawText (to_string (roomSpectators room) @ '' watching'') (rx r + 20, ry r + rh r - 22) (4 / 10) Muted 1]
       else [drawText (case host room of None \<Rightarrow> ''Unknown host'' | Some u \<Rightarrow> withRating (clipped (userName u) 24) (userRating u))
               (rx r + 20, ry r + 84) (48 / 100) Ink 1,
             drawText ''Ready for an opponent'' (rx r + 20, ry r + 109) (4 / 10) Muted 1]) @
      drawButton measured action (if pending then ''WAIT...'' else if active then ''WATCH'' else ''JOIN'') (\<not> active)
        (enabled \<and> \<not> pending) (hover contains action pt) False)"

text \<open>The cards of a page, from the room with a given number, as long as there are rooms.\<close>

fun drawCards ::
    "(LobbyRoom \<Rightarrow> Rect \<Rightarrow> DrawOp list) \<Rightarrow> LobbyRoom list \<Rightarrow> int \<Rightarrow> Rect list \<Rightarrow> DrawOp list" where
  "drawCards draw rooms roomIndex [] = []"
| "drawCards draw rooms roomIndex (r # cards) =
     (if roomIndex \<ge> int (length rooms) then []
      else draw (rooms ! nat roomIndex) r @ drawCards draw rooms (roomIndex + 1) cards)"

definition drawWaitingCards :: "metrics \<Rightarrow> (Rect \<Rightarrow> point \<Rightarrow> bool) \<Rightarrow> LobbyViewModel \<Rightarrow> LobbyLayoutResult \<Rightarrow> point \<Rightarrow> DrawOp list" where
  "drawWaitingCards measured contains view layout pt =
     drawCards (\<lambda>room r. drawRoomCard measured contains room r False (networkActionsEnabled view)
         (pendingAction view = PendingJoinPublic \<and> pendingRoomId view = roomId room) pt)
       (waitingRooms view) (waitingPage view * cardsPerPage layout) (waitingCards layout)"

definition drawActiveCards :: "metrics \<Rightarrow> (Rect \<Rightarrow> point \<Rightarrow> bool) \<Rightarrow> LobbyViewModel \<Rightarrow> LobbyLayoutResult \<Rightarrow> point \<Rightarrow> DrawOp list" where
  "drawActiveCards measured contains view layout pt =
     drawCards (\<lambda>room r. drawRoomCard measured contains room r True (networkActionsEnabled view)
         (pendingAction view = PendingWatch \<and> pendingRoomId view = roomId room) pt)
       (activeRooms view) (activePage view * cardsPerPage layout) (activeCards layout)"

definition drawLobby :: "metrics \<Rightarrow> (Rect \<Rightarrow> point \<Rightarrow> bool) \<Rightarrow> LobbyViewModel \<Rightarrow> LobbyLayoutResult \<Rightarrow> point \<Rightarrow> DrawOp list" where
  "drawLobby measured contains view layout pt =
     (let waiting = waitingSection layout; active = activeSection layout;
          warning = rect (rx (content layout)) (rh (header layout) + 4) (rw (content layout)) 34
      in drawHeader measured contains view layout pt @
         [drawText ''WAITING FOR OPPONENT'' (rx waiting, ry waiting + 30) (62 / 100) Ink 1,
          drawText ''Public rooms you can join'' (rx waiting, ry waiting + 52) (4 / 10) Muted 1,
          drawText ''LIVE ROOMS'' (rx active, ry active + 30) (62 / 100) Ink 1,
          drawText ''Watch games currently in progress'' (rx active, ry active + 52) (4 / 10) Muted 1] @
         (if waitingRooms view = []
          then [drawText ''No public rooms are waiting.'' (rx waiting + 12, ry waiting + 112) (55 / 100) Muted 1] else []) @
         (if activeRooms view = []
          then [drawText ''No live rooms are available.'' (rx active + 12, ry active + 112) (55 / 100) Muted 1] else []) @
         drawWaitingCards measured contains view layout pt @
         drawActiveCards measured contains view layout pt @
         (if visibleError view = [] then []
          else [FillRect warning (238, 232, 255) PlainLine,
                drawText (clipped (visibleError view) 110) (rx warning + 12, ry warning + 23) (43 / 100) Red 1]))"

section \<open>Dialogs\<close>

definition drawCreateDialog :: "metrics \<Rightarrow> (Rect \<Rightarrow> bool) \<Rightarrow> LobbyViewModel \<Rightarrow> LobbyLayoutResult \<Rightarrow> DrawOp list" where
  "drawCreateDialog measured over view layout =
     (let dialog = modalPanel layout; idle = (pendingAction view = NothingPending) in
      [drawText ''CREATE A ROOM'' (rx dialog + 60, ry dialog + 60) (78 / 100) Ink 2,
       drawText ''Public rooms are visible. Hidden rooms use an invite code.'' (rx dialog + 60, ry dialog + 98) (42 / 100) Muted 1,
       drawText ''ROOM NAME'' (rx (roomNameField layout), ry (roomNameField layout) - 10) (42 / 100) Muted 1] @
      drawInputField (roomNameField layout) (roomNameInput view) True ''My Room'' @
      [drawText ''VISIBILITY'' (rx (publicVisibilityButton layout), ry (publicVisibilityButton layout) - 10) (42 / 100) Muted 1] @
      drawButton measured (publicVisibilityButton layout) ''PUBLIC'' False idle (over (publicVisibilityButton layout))
        (selectedRoomVisibility view = PublicRoom) @
      drawButton measured (hiddenVisibilityButton layout) ''HIDDEN'' False idle (over (hiddenVisibilityButton layout))
        (selectedRoomVisibility view = HiddenRoom) @
      drawButton measured (modalPrimaryButton layout) ''CREATE ROOM'' True (idle \<and> roomNameInput view \<noteq> [])
        (over (modalPrimaryButton layout)) False @
      drawButton measured (modalSecondaryButton layout) ''CANCEL'' False idle (over (modalSecondaryButton layout)) False)"

definition drawJoinDialog :: "metrics \<Rightarrow> (Rect \<Rightarrow> bool) \<Rightarrow> LobbyViewModel \<Rightarrow> LobbyLayoutResult \<Rightarrow> DrawOp list" where
  "drawJoinDialog measured over view layout =
     (let dialog = modalPanel layout; idle = (pendingAction view = NothingPending) in
      [drawText ''JOIN HIDDEN ROOM'' (rx dialog + 60, ry dialog + 60) (78 / 100) Ink 2,
       drawText ''Enter the six-character invitation code.'' (rx dialog + 60, ry dialog + 92) (42 / 100) Muted 1] @
      drawInputField (hiddenCodeField layout) (hiddenRoomCodeInput view) True ''ABC234'' @
      drawButton measured (modalPrimaryButton layout) ''JOIN'' True idle (over (modalPrimaryButton layout)) False @
      drawButton measured (modalSecondaryButton layout) ''CANCEL'' False idle (over (modalSecondaryButton layout)) False)"

definition drawModal :: "metrics \<Rightarrow> (Rect \<Rightarrow> point \<Rightarrow> bool) \<Rightarrow> LobbyViewModel \<Rightarrow> LobbyLayoutResult \<Rightarrow> point \<Rightarrow> DrawOp list" where
  "drawModal measured contains view layout pt =
     [MixRect (rect 0 0 (fst (windowSize layout)) (snd (windowSize layout))) (30, 31, 36) (35 / 100)] @
     drawPanel (modalPanel layout) @
     (if modal view = CreateRoomModal then drawCreateDialog measured (\<lambda>r. hover contains r pt) view layout
      else drawJoinDialog measured (\<lambda>r. hover contains r pt) view layout) @
     (if visibleError view = [] then []
      else [drawText (clipped (visibleError view) 64) (rx (modalPanel layout) + 60, ry (modalPanel layout) + 306) (4 / 10) Red 1])"

section \<open>The other screens\<close>

definition drawSpectatorInfo :: "SpectatorView \<Rightarrow> Rect \<Rightarrow> DrawOp list" where
  "drawSpectatorInfo s center =
     [drawText ''LIVE SPECTATOR'' (rx center + 60, ry center + 68) (9 / 10) Red 2,
      drawText (sv_roomName s) (rx center + 60, ry center + 100) (55 / 100) Muted 1,
      drawText (''WHITE   '' @ sv_whiteUsername s) (rx center + 60, ry center + 130) (65 / 100) Ink 1,
      drawText (''BLACK   '' @ sv_blackUsername s) (rx center + 60, ry center + 172) (65 / 100) Ink 1,
      drawText (to_string (sv_spectatorCount s) @ '' spectators'') (rx center + 60, ry center + 220) (48 / 100) Muted 1,
      drawText ''Board streaming is not connected yet.'' (rx center + 60, ry center + 292) (52 / 100) Primary 1]"

definition drawRoomReady :: "RoomReadyView \<Rightarrow> int \<Rightarrow> Rect \<Rightarrow> DrawOp list" where
  "drawRoomReady r ownRating center =
     [drawText ''ROOM READY'' (rx center + 60, ry center + 82) 1 Green 2,
      drawText (rr_roomName r) (rx center + 60, ry center + 112) (55 / 100) Muted 1,
      drawText (''You are '' @ rr_assignedColor r @ ''  ('' @ to_string ownRating @ '')'') (rx center + 60, ry center + 150) (68 / 100) Ink 1,
      drawText (''Opponent: '' @ withRating (rr_opponentUsername r) (rr_opponentRating r)) (rx center + 60, ry center + 195)
        (62 / 100) Ink 1,
      drawText ''Game Server allocation is a later stage.'' (rx center + 60, ry center + 275) (5 / 10) Primary 1]"

text \<open>The last column of \<open>drawHistoryRows\<close> is the height of the row; eight rows at most are drawn.\<close>

fun drawHistoryRows :: "int \<Rightarrow> MatchHistoryEntry list \<Rightarrow> int \<Rightarrow> DrawOp list" where
  "drawHistoryRows x [] rowY = []"
| "drawHistoryRows x (e # es) rowY =
     (let won = (mh_result e = ''win'') in
      drawText ((if won then ''WIN  vs '' else ''LOSS vs '') @ mh_opponent e @ ''  '' @ to_string (ratingBefore e) @ '' -> '' @
        to_string (ratingAfter e)) (x, rowY) (52 / 100) (if won then Green else Red) 1
      # drawHistoryRows x es (rowY + 34))"

definition drawMatchHistory :: "LobbyViewModel \<Rightarrow> Rect \<Rightarrow> DrawOp list" where
  "drawMatchHistory view center =
     drawText ''MATCH HISTORY'' (rx center + 60, ry center + 68) (9 / 10) Ink 2 #
     (if matchHistoryError view \<noteq> []
      then [drawText (matchHistoryError view) (rx center + 60, ry center + 110) (5 / 10) Red 1]
      else if matchHistory view = []
      then [drawText ''No games played yet.'' (rx center + 60, ry center + 110) (52 / 100) Muted 1]
      else drawHistoryRows (rx center + 60) (take 8 (matchHistory view)) (ry center + 108))"

definition drawWaiting :: "LobbyViewModel \<Rightarrow> Rect \<Rightarrow> DrawOp list" where
  "drawWaiting view center =
     (let hidden = (screen view = HiddenRoomWaiting) in
      [drawText (if hidden then ''HIDDEN ROOM CREATED'' else ''WAITING FOR OPPONENT'') (rx center + 60, ry center + 86) (85 / 100) Ink 2,
       drawText (currentRoomName view) (rx center + 60, ry center + 120) (55 / 100) Muted 1] @
      (if hidden
       then [drawText ''INVITE CODE'' (rx center + 60, ry center + 160) (45 / 100) Muted 1,
             drawText (hiddenRoomCode view) (rx center + 60, ry center + 225) (14 / 10) Primary 3,
             drawText ''This code is private and is not listed publicly.'' (rx center + 60, ry center + 270) (46 / 100) Muted 1]
       else [drawText ''The room will start when another player joins.'' (rx center + 60, ry center + 175) (5 / 10) Muted 1]))"

definition drawPlaceholder :: "metrics \<Rightarrow> (Rect \<Rightarrow> point \<Rightarrow> bool) \<Rightarrow> LobbyViewModel \<Rightarrow> LobbyLayoutResult \<Rightarrow> point \<Rightarrow> DrawOp list" where
  "drawPlaceholder measured contains view layout pt =
     (let center = rect (fst (windowSize layout) sdiv 2 - 340) (snd (windowSize layout) sdiv 2 - 190) 680 380 in
      FillRect (header layout) Surface PlainLine #
      drawButton measured (backButton layout) ''BACK TO LOBBY'' False True (hover contains (backButton layout) pt) False @
      drawPanel center @
      (if screen view = SpectatorPlaceholder \<and> spectatorView view \<noteq> None then drawSpectatorInfo (the (spectatorView view)) center
       else if screen view = RoomReady \<and> roomReady view \<noteq> None
       then drawRoomReady (the (roomReady view)) (authenticatedUserRating view) center
       else if screen view = MatchHistoryScreen then drawMatchHistory view center
       else drawWaiting view center))"

section \<open>The frame\<close>

text \<open>The picture starts as a rectangle of the background in the size of the window.\<close>

definition lobbyRender :: "metrics \<Rightarrow> (Rect \<Rightarrow> point \<Rightarrow> bool) \<Rightarrow> LobbyViewModel \<Rightarrow> LobbyLayoutResult \<Rightarrow> point \<Rightarrow> DrawOp list" where
  "lobbyRender measured contains view layout pt =
     FillRect (rect 0 0 (fst (windowSize layout)) (snd (windowSize layout))) Background PlainLine #
     (if screen view = AuthenticationScreen \<or> screen view = ConnectingScreen then drawAuthentication measured contains view layout pt
      else if screen view = LobbyScreen then drawLobby measured contains view layout pt
      else drawPlaceholder measured contains view layout pt) @
     (if modal view \<noteq> NoModal then drawModal measured contains view layout pt else [])"

end
