(* ===== verification/Lobby_Drawing_Properties.thy ===== *)
theory Lobby_Drawing_Properties
  imports Lobby_Drawing
begin

text \<open>
  The picture of the lobby and its clicks agree: a room button does what the card it is drawn on says. Which
  screens show the error of the view, and how long texts may get.
\<close>

section \<open>Cards and clicks\<close>

lemma cardAction_first:
  assumes "j < length cards" "0 \<le> k" "k + int j < int (length rooms)" "contains (cardActionButton (cards ! j)) pt"
    and "\<And>i. i < j \<Longrightarrow> \<not> contains (cardActionButton (cards ! i)) pt"
  shows "cardAction contains pt kind rooms k cards = Some (kind, roomId (rooms ! nat (k + int j)))"
  using assms
proof (induction j arbitrary: k cards)
  case 0
  then show ?case by (cases cards) simp_all
next
  case (Suc j)
  then obtain r cs where cards: "cards = r # cs" by (cases cards) auto
  have "\<not> contains (cardActionButton r) pt" using Suc.prems(5) [of 0] by (simp add: cards)
  moreover have "cardAction contains pt kind rooms (k + 1) cs = Some (kind, roomId (rooms ! nat (k + 1 + int j)))"
  proof (rule Suc.IH)
    show "\<not> contains (cardActionButton (cs ! i)) pt" if "i < j" for i
      using Suc.prems(5) [of "Suc i"] that by (simp add: cards)
  qed (use Suc.prems in \<open>simp_all add: cards\<close>)
  ultimately show ?case by (simp add: cards algebra_simps)
qed

lemma cardAction_none:
  "(\<And>c. c \<in> set cards \<Longrightarrow> \<not> contains (cardActionButton c) pt) \<Longrightarrow> cardAction contains pt kind rooms k cards = None"
  by (induction cards arbitrary: k) simp_all

lemma drawCards_at:
  assumes "j < length cards" "0 \<le> k" "k + int j < int (length rooms)"
  shows "\<exists>before after. drawCards draw rooms k cards = before @ draw (rooms ! nat (k + int j)) (cards ! j) @ after"
  using assms
proof (induction j arbitrary: k cards)
  case 0
  then obtain r cs where "cards = r # cs" by (cases cards) auto
  then show ?case using 0 by (intro exI [of _ "[]"] exI [of _ "drawCards draw rooms (k + 1) cs"]) simp
next
  case (Suc j)
  then obtain r cs where cards: "cards = r # cs" by (cases cards) auto
  obtain before after where "drawCards draw rooms (k + 1) cs = before @ draw (rooms ! nat (k + 1 + int j)) (cs ! j) @ after"
    using Suc.IH [of cs "k + 1"] Suc.prems by (auto simp: cards)
  then show ?case
    using Suc.prems(3) by (intro exI [of _ "draw (rooms ! nat k) r @ before"] exI [of _ after]) (simp add: cards algebra_simps)
qed

text \<open>Where the buttons of the cards are.\<close>

lemma button_in_card:
  assumes "halfOpen (cardActionButton c) pt" "inside c s" "120 \<le> rh c"
  shows "ry s + 74 \<le> snd pt" "snd pt < ry s + rh s" "fst pt < rx c + rw c" "rx c + rw c - 116 \<le> fst pt"
  using assms by (simp_all add: halfOpen_def cardActionButton_def inside_def rect_def)

lemma card_height: "c \<in> set (cardRects s n k page n) \<Longrightarrow> 120 \<le> rh c"
  by (auto simp: cardRects_def cardHeight_def rect_def Let_def)

text \<open>A card is wide enough for its button.\<close>

lemma card_width:
  assumes "1128 \<le> rw s" "c \<in> set (cardRects s (columnsForWidth w) k page (columnsForWidth w))"
  shows "116 \<le> rw c"
proof -
  have "116 \<le> cardWidth s (columnsForWidth w)"
    using assms(1) by (cases w rule: columnsForWidth_cases) (auto simp: cardWidth_def)
  then show ?thesis using assms(2) by (auto simp: cardRects_def rect_def Let_def)
qed

lemma one_button:
  assumes s: "174 \<le> rh s" "1128 \<le> rw s" and n: "n = columnsForWidth w" "cards = cardRects s n k page n"
    and j: "j < length cards" "halfOpen (cardActionButton (cards ! j)) pt" and i: "i < j"
  shows "\<not> halfOpen (cardActionButton (cards ! i)) pt"
proof
  assume other: "halfOpen (cardActionButton (cards ! i)) pt"
  have pos: "0 < n" "0 \<le> cardWidth s n" using n(1) cardWidth_nonneg [OF s(2)] by simp_all
  have jth: "j < length (cardRects s n k page n)" using j(1) n(2) by simp
  have "rx (cards ! i) + rw (cards ! i) < rx (cards ! j)"
    using cards_row(2) [OF pos(1) s(1) pos(2) jth i] by (simp add: n(2))
  moreover have "116 \<le> rw (cards ! j)"
  proof -
    have "cards ! j \<in> set (cardRects s (columnsForWidth w) k page (columnsForWidth w))" using j(1) n by simp
    then show ?thesis by (rule card_width [OF s(2)])
  qed
  moreover have "rx (cards ! j) + rw (cards ! j) - 116 \<le> fst pt" "fst pt < rx (cards ! i) + rw (cards ! i)"
    using j(2) other by (simp_all add: halfOpen_def cardActionButton_def rect_def)
  ultimately show False by linarith
qed

lemma card_inside:
  assumes "174 \<le> rh s" "1128 \<le> rw s" "c \<in> set (cardRects s (columnsForWidth w) k page (columnsForWidth w))"
  shows "inside c s"
proof -
  obtain i where "i < length (cardRects s (columnsForWidth w) k page (columnsForWidth w))"
    "c = cardRects s (columnsForWidth w) k page (columnsForWidth w) ! i" using assms(3) by (auto simp: in_set_conv_nth)
  then show ?thesis using cards_row(1) [OF columnsForWidth_pos assms(1) cardWidth_nonneg [OF assms(2)]] by simp
qed

text \<open>C38: In the lobby, a point on the button of a card is on no other button, and the card is drawn for the
  room that a click there asks to join or to watch; \<open>live\<close> says in which of the two sections the
  card is.
\<close>

theorem cards_show_what_their_button_does:
  fixes v :: LobbyViewModel and w h :: int and live :: bool and j :: nat
  defines "L \<equiv> calculate w h (int (length (waitingRooms v))) (int (length (activeRooms v)))
      (waitingPage v) (activePage v) (authMode v = RegisterMode)"
  defines "cards \<equiv> if live then activeCards L else waitingCards L"
  defines "room \<equiv> if live then activeRooms v ! nat (activePage v * columns L + int j)
      else waitingRooms v ! nat (waitingPage v * columns L + int j)"
  assumes lobby: "screen v = LobbyScreen" "modal v = NoModal" and pages: "0 \<le> waitingPage v" "0 \<le> activePage v"
    and on: "j < length cards" "halfOpen (cardActionButton (cards ! j)) pt"
  shows "(\<exists>before after pending. lobbyRender measured halfOpen v L mouse =
      before @ drawRoomCard measured halfOpen room (cards ! j) live (networkActionsEnabled v) pending mouse @ after) \<and>
    mapClick halfOpen pt v L = (if live then WatchRoom else JoinPublicRoom, roomId room)"
proof -
  let ?n = "columnsForWidth (max w MinimumWidth)"
  have cols: "columns L = ?n" "cardsPerPage L = ?n" by (simp_all add: L_def)
  let ?W = "waitingSection L" and ?A = "activeSection L"
  have sizes: "174 \<le> rh ?W" "174 \<le> rh ?A" "1128 \<le> rw ?W" "1128 \<le> rw ?A"
    unfolding L_def by (rule section_size section_width)+
  have waiting: "waitingCards L = cardRects ?W ?n (int (length (waitingRooms v))) (waitingPage v) ?n"
    and active: "activeCards L = cardRects ?A ?n (int (length (activeRooms v))) (activePage v) ?n"
    by (simp_all only: L_def waiting_calculate)
  have apart: "114 \<le> ry ?W" "ry ?W + rh ?W < ry ?A" by (simp_all add: L_def calculate_def Let_def rect_def)
  have low: "ry ?W + 74 \<le> snd pt"
  proof (cases live)
    case True
    then have "cards ! j \<in> set (activeCards L)" using on(1) by (simp add: cards_def)
    then have "ry ?A + 74 \<le> snd pt"
      unfolding active using button_in_card(1) [OF on(2) card_inside [OF sizes(2,4)] card_height] by blast
    then show ?thesis using apart(2) sizes(1) by linarith
  next
    case False
    then have "cards ! j \<in> set (waitingCards L)" using on(1) by (simp add: cards_def)
    then show ?thesis
      unfolding waiting using button_in_card(1) [OF on(2) card_inside [OF sizes(1,3)] card_height] by blast
  qed
  then have "\<not> halfOpen r pt" if "ry r + rh r \<le> 188" for r
    using that apart(1) by (simp add: halfOpen_def)
  then have headers: "\<not> halfOpen (historyButton L) pt" "\<not> halfOpen (playButton L) pt" "\<not> halfOpen (createRoomButton L) pt"
    "\<not> halfOpen (joinHiddenButton L) pt" "\<not> halfOpen (logoutButton L) pt"
    by (simp_all add: L_def calculate_def Let_def rect_def)
  have pos: "0 \<le> waitingPage v * ?n" "0 \<le> activePage v * ?n" using pages by (simp_all add: less_imp_le)
  show ?thesis
  proof (cases live)
    case False
    then have on': "j < length (waitingCards L)" "halfOpen (cardActionButton (waitingCards L ! j)) pt"
      using on by (simp_all add: cards_def)
    then have number: "waitingPage v * ?n + int j < int (length (waitingRooms v))"
      unfolding waiting length_cardRects by linarith
    have "cardAction halfOpen pt JoinPublicRoom (waitingRooms v) (waitingPage v * ?n) (waitingCards L) = Some (JoinPublicRoom, roomId room)"
      using cardAction_first [OF on'(1) pos(1) number, of halfOpen pt JoinPublicRoom]
        one_button [OF sizes(1,3) refl waiting on'] on'(2) False by (simp add: room_def cols(1))
    then have "mapClick halfOpen pt v L = (JoinPublicRoom, roomId room)"
      using lobby headers by (simp add: mapClick_def cols(2) Let_def)
    moreover obtain before after where "drawWaitingCards measured halfOpen v L mouse = before @
        drawRoomCard measured halfOpen room (cards ! j) live (networkActionsEnabled v)
          (pendingAction v = PendingJoinPublic \<and> pendingRoomId v = roomId room) mouse @ after"
      using drawCards_at [OF on'(1) pos(1) number] False
      unfolding drawWaitingCards_def cols(2) room_def cols(1) cards_def by (simp del: drawCards.simps) blast
    then have "\<exists>before after pending. drawLobby measured halfOpen v L mouse =
      before @ drawRoomCard measured halfOpen room (cards ! j) live (networkActionsEnabled v) pending mouse @ after"
      unfolding drawLobby_def Let_def by (metis append.assoc)
    ultimately show ?thesis
      using lobby False unfolding lobbyRender_def by simp (metis append_Cons)
  next
    case True
    then have on': "j < length (activeCards L)" "halfOpen (cardActionButton (activeCards L ! j)) pt"
      using on by (simp_all add: cards_def)
    then have number: "activePage v * ?n + int j < int (length (activeRooms v))"
      unfolding active length_cardRects by linarith
    have "\<not> halfOpen (cardActionButton c) pt" if "c \<in> set (waitingCards L)" for c
    proof
      assume c: "halfOpen (cardActionButton c) pt"
      have "snd pt < ry ?W + rh ?W"
        using button_in_card(2) [OF c card_inside [OF sizes(1,3)] card_height] that unfolding waiting by blast
      moreover have "ry ?A + 74 \<le> snd pt"
      proof -
        have "cards ! j \<in> set (activeCards L)" using on'(1) True by (simp add: cards_def)
        then show ?thesis
          unfolding active using button_in_card(1) [OF on(2) card_inside [OF sizes(2,4)] card_height] by blast
      qed
      ultimately show False using apart(2) by linarith
    qed
    then have none: "cardAction halfOpen pt kind rooms k (waitingCards L) = None" for kind rooms k by (rule cardAction_none)
    have "cardAction halfOpen pt WatchRoom (activeRooms v) (activePage v * ?n) (activeCards L) = Some (WatchRoom, roomId room)"
      using cardAction_first [OF on'(1) pos(2) number, of halfOpen pt WatchRoom]
        one_button [OF sizes(2,4) refl active on'] on'(2) True by (simp add: room_def cols(1))
    then have "mapClick halfOpen pt v L = (WatchRoom, roomId room)"
      using lobby headers by (simp add: mapClick_def cols(2) Let_def none)
    moreover obtain before after where "drawActiveCards measured halfOpen v L mouse = before @
        drawRoomCard measured halfOpen room (cards ! j) live (networkActionsEnabled v)
          (pendingAction v = PendingWatch \<and> pendingRoomId v = roomId room) mouse @ after"
      using drawCards_at [OF on'(1) pos(2) number] True
      unfolding drawActiveCards_def cols(2) room_def cols(1) cards_def by (simp del: drawCards.simps) blast
    then have "\<exists>before after pending. drawLobby measured halfOpen v L mouse =
      before @ drawRoomCard measured halfOpen room (cards ! j) live (networkActionsEnabled v) pending mouse @ after"
      unfolding drawLobby_def Let_def by (metis append.assoc)
    ultimately show ?thesis
      using lobby True unfolding lobbyRender_def by simp (metis append_Cons)
  qed
qed

definition plainMetrics :: metrics where
  "plainMetrics t f scale thickness = (10 * int (length t), 20, 5)"

theorem cards_show_what_their_button_does_witness:
  "(\<exists>before after pending. lobbyRender plainMetrics halfOpen oneRoomView (calculate 800 600 1 0 0 0 False) (0, 0) =
      before @ drawRoomCard plainMetrics halfOpen oneRoom (waitingCards (calculate 800 600 1 0 0 0 False) ! 0) False
        (networkActionsEnabled oneRoomView) pending (0, 0) @ after) \<and>
    mapClick halfOpen (290, 340) oneRoomView (calculate 800 600 1 0 0 0 False) = (JoinPublicRoom, roomId oneRoom)"
proof -
  have v: "waitingRooms oneRoomView = [oneRoom]" "activeRooms oneRoomView = []" "waitingPage oneRoomView = 0"
    "activePage oneRoomView = 0" "authMode oneRoomView = LoginMode" "screen oneRoomView = LobbyScreen" "modal oneRoomView = NoModal"
    by (simp_all add: oneRoomView_def newLobbyView_def)
  have "0 < length (waitingCards (calculate 800 600 1 0 0 0 False))"
    and "halfOpen (cardActionButton (waitingCards (calculate 800 600 1 0 0 0 False) ! 0)) (290, 340)"
    by code_simp+
  then show ?thesis
    using cards_show_what_their_button_does [of oneRoomView 0 False 800 600 "(290, 340)" plainMetrics "(0, 0)"]
    by (simp add: v)
qed

section \<open>Errors\<close>

text \<open>
  An error is drawn on the screen that asks for a name and a password, in the lobby and in a dialog,
  cut to a length. On the other screens, those of a room that waits or of the history, the picture
  is the same with an error and without.
\<close>

theorem errors_are_drawn_on_some_screens:
  fixes v :: LobbyViewModel
  assumes "visibleError v \<noteq> []"
  shows "if screen v \<in> {AuthenticationScreen, ConnectingScreen, LobbyScreen} \<or> modal v \<noteq> NoModal
    then \<exists>n origin scale. 62 \<le> n \<and> drawText (clipped (visibleError v) n) origin scale Red 1 \<in> set (lobbyRender measured contains v L mouse)
    else lobbyRender measured contains v L mouse = lobbyRender measured contains (v\<lparr>visibleError := []\<rparr>) L mouse"
proof -
  consider "screen v \<in> {AuthenticationScreen, ConnectingScreen}" | "screen v = LobbyScreen" | "modal v \<noteq> NoModal"
    | "screen v \<notin> {AuthenticationScreen, ConnectingScreen, LobbyScreen}" "modal v = NoModal" by blast
  then show ?thesis
  proof cases
    case 1
    have "drawText (clipped (visibleError v) 62) (rx (authenticationPanel L) + 50, ry (authenticationPanel L) + rh (authenticationPanel L) - 34)
        (45 / 100) Red 1 \<in> set (drawAuthentication measured contains v L mouse)"
      using assms by (simp add: drawAuthentication_def Let_def)
    then have "drawText (clipped (visibleError v) 62) (rx (authenticationPanel L) + 50, ry (authenticationPanel L) + rh (authenticationPanel L) - 34)
        (45 / 100) Red 1 \<in> set (lobbyRender measured contains v L mouse)"
      using 1 by (auto simp: lobbyRender_def)
    then show ?thesis using 1 by (auto intro!: exI [of _ "62 :: nat"])
  next
    case 2
    have "drawText (clipped (visibleError v) 110) (rx (content L) + 12, 27 + rh (header L)) (43 / 100) Red 1
        \<in> set (drawLobby measured contains v L mouse)"
      using assms by (simp add: drawLobby_def rect_def Let_def)
    then have "drawText (clipped (visibleError v) 110) (rx (content L) + 12, 27 + rh (header L)) (43 / 100) Red 1
        \<in> set (lobbyRender measured contains v L mouse)"
      using 2 by (simp add: lobbyRender_def)
    then show ?thesis using 2 by (auto intro!: exI [of _ "110 :: nat"])
  next
    case 3
    have "drawText (clipped (visibleError v) 64) (rx (modalPanel L) + 60, ry (modalPanel L) + 306) (4 / 10) Red 1
        \<in> set (drawModal measured contains v L mouse)"
      using assms by (simp add: drawModal_def)
    then have "drawText (clipped (visibleError v) 64) (rx (modalPanel L) + 60, ry (modalPanel L) + 306) (4 / 10) Red 1
        \<in> set (lobbyRender measured contains v L mouse)"
      using 3 by (simp add: lobbyRender_def)
    then show ?thesis using 3 by (auto intro!: exI [of _ "64 :: nat"])
  next
    case 4
    have "drawPlaceholder measured contains v L mouse = drawPlaceholder measured contains (v\<lparr>visibleError := []\<rparr>) L mouse"
      by (simp add: drawPlaceholder_def drawMatchHistory_def drawWaiting_def Let_def split del: if_split cong: if_cong)
    then show ?thesis using 4 by (simp add: lobbyRender_def)
  qed
qed

theorem errors_are_drawn_on_some_screens_witness:
  "lobbyRender plainMetrics halfOpen (newLobbyView\<lparr>screen := WaitingRoom, visibleError := ''Lost''\<rparr>) (calculate 800 600 0 0 0 0 False) (0, 0) =
   lobbyRender plainMetrics halfOpen (newLobbyView\<lparr>screen := WaitingRoom, visibleError := []\<rparr>) (calculate 800 600 0 0 0 0 False) (0, 0)"
  using errors_are_drawn_on_some_screens [of "newLobbyView\<lparr>screen := WaitingRoom, visibleError := ''Lost''\<rparr>" plainMetrics halfOpen
      "calculate 800 600 0 0 0 0 False" "(0, 0)"]
  by (simp add: newLobbyView_def)

text \<open>An error that arrives while a room waits is such an error: the connection that is lost.\<close>

lemma lost_connection_in_a_room_is_not_drawn:
  assumes "screen v = WaitingRoom" "modal v = NoModal"
  shows "visibleError (setConnectionState WsFailed v) = ''Lobby connection is unavailable.''"
    and "lobbyRender measured contains (setConnectionState WsFailed v) L mouse =
      lobbyRender measured contains (setConnectionState WsFailed v\<lparr>visibleError := []\<rparr>) L mouse"
  using assms by (simp_all add: setConnectionState_def lobbyRender_def drawPlaceholder_def drawWaiting_def Let_def)

section \<open>Connecting\<close>

lemma drawn_here: "\<exists>before after. xs @ ys = before @ xs @ after"
  by (intro exI [of _ "[]"] exI [of _ ys]) simp

lemma drawn_later: "\<exists>before after. ys = before @ xs @ after \<Longrightarrow> \<exists>before after. zs @ ys = before @ xs @ after"
  by (metis append.assoc)

text \<open>
  While the lobby connects, the buttons of the first screen are drawn as enabled, but no click on
  them does anything.
\<close>

lemma buttons_while_connecting:
  assumes "screen v = ConnectingScreen" "modal v = NoModal" "pendingAction v = NothingPending" "\<not> contains (backButton L) pt"
  shows "\<exists>before after. lobbyRender measured contains v L mouse =
      before @ drawButton measured (loginButton L) ''LOGIN'' True True (hover contains (loginButton L) mouse) False @ after"
    and "mapClick contains pt v L = (NoAction, [])"
proof -
  have "\<exists>before after. drawAuthentication measured contains v L mouse =
      before @ drawButton measured (loginButton L) ''LOGIN'' True True (hover contains (loginButton L) mouse) False @ after"
    using assms(3) unfolding drawAuthentication_def Let_def assms(3)
    by (simp only: PendingLobbyAction.distinct if_False refl) (rule drawn_here | rule drawn_later)+
  then show "\<exists>before after. lobbyRender measured contains v L mouse =
      before @ drawButton measured (loginButton L) ''LOGIN'' True True (hover contains (loginButton L) mouse) False @ after"
    using assms(1,2) unfolding lobbyRender_def by simp (metis append_Cons)
  show "mapClick contains pt v L = (NoAction, [])"
    using assms by (simp add: mapClick_def Let_def)
qed

section \<open>The header\<close>

text \<open>
  The button that logs out is drawn as disabled while an action is pending, yet a click on it logs
  out. The one of the history is drawn as enabled without a connection, and a click on it does nothing.
\<close>

lemma in_header:
  assumes "screen v = LobbyScreen" "modal v = NoModal"
    and "\<exists>before after. drawHeader measured contains v L mouse = before @ xs @ after"
  shows "\<exists>before after. lobbyRender measured contains v L mouse = before @ xs @ after"
proof -
  obtain first others where "lobbyRender measured contains v L mouse = [first] @ drawHeader measured contains v L mouse @ others"
    using assms(1,2) by (simp add: lobbyRender_def drawLobby_def Let_def)
  then show ?thesis using assms(3) by (metis append.assoc)
qed

lemma logout_drawn_disabled:
  assumes "screen v = LobbyScreen" "modal v = NoModal" "pendingAction v \<noteq> NothingPending"
  shows "\<exists>before after. lobbyRender measured contains v L mouse =
      before @ drawButton measured (logoutButton L) ''LOGOUT'' False False (hover contains (logoutButton L) mouse) False @ after"
proof -
  have pending: "(pendingAction v = NothingPending) = False" using assms(3) by simp
  show ?thesis
    by (rule in_header [OF assms(1,2)], unfold drawHeader_def Let_def pending) (rule drawn_here | rule drawn_later)+
qed

lemma logout_is_always_done:
  "handle tp LogoutAction val (c, t) = Some (onView resetForLogout (clearPasswords c), snd (tp_logout tp t))"
  by (simp add: handle_def)

lemma history_drawn_enabled:
  assumes "screen v = LobbyScreen" "modal v = NoModal" "pendingAction v = NothingPending" "wsState v \<noteq> WsConnected"
  shows "\<exists>before after. lobbyRender measured contains v L mouse =
      before @ drawButton measured (historyButton L) ''HISTORY'' False True (hover contains (historyButton L) mouse) False @ after"
    and "lobbyView c = v \<Longrightarrow> handle tp OpenMatchHistory val (c, t) = Some (c, t)"
proof -
  have idle: "(pendingAction v = NothingPending) = True" using assms(3) by simp
  show "\<exists>before after. lobbyRender measured contains v L mouse =
      before @ drawButton measured (historyButton L) ''HISTORY'' False True (hover contains (historyButton L) mouse) False @ after"
    by (rule in_header [OF assms(1,2)], unfold drawHeader_def Let_def idle) (rule drawn_here | rule drawn_later)+
  show "lobbyView c = v \<Longrightarrow> handle tp OpenMatchHistory val (c, t) = Some (c, t)"
    using assms by (simp add: handle_def networkActionsEnabled_def)
qed

section \<open>Texts\<close>

lemma clipped_short: "3 \<le> n \<Longrightarrow> length (clipped t n) \<le> n"
  by (auto simp: clipped_def min_def)

lemma clipped_same: "length t \<le> n \<Longrightarrow> clipped t n = t"
  by (simp add: clipped_def)

text \<open>Eight games of the history are drawn at most, the first ones, one below the other.\<close>

lemma length_drawHistoryRows [simp]: "length (drawHistoryRows x es y) = length es"
  by (induction es arbitrary: y) (simp_all add: Let_def)

lemma history_rows_fit:
  "length (drawHistoryRows x (take 8 es) (y + 108)) \<le> 8" "y + 108 + 34 * 7 < y + 380"
  by simp_all

end
