(* ===== verification/Window_Drawing.thy ===== *)
theory Window_Drawing
  imports Renderer
begin

text \<open>
  What the window of the network game draws besides the game, \<open>src/client/desktop_client/src/App/VisualApp.cpp\<close>:
  the screen that asks for a name, the frame while the first snapshot is awaited and the message that the
  game is full, as calls of \<open>Drawing_Ops\<close>.
\<close>

section \<open>The name\<close>

definition USERNAME_FIELD :: Rect where "USERNAME_FIELD = rect 250 265 600 64"

definition CONNECT_BUTTON :: Rect where "CONNECT_BUTTON = rect 425 370 250 64"

text \<open>A new image of one color is a filled rectangle of its size.\<close>

definition drawUsernameScreen :: "string \<Rightarrow> string \<Rightarrow> DrawOp list" where
  "drawUsernameScreen name message =
     [FillRect (rect 0 0 1100 740) (238, 241, 245) PlainLine,
      PutText ''Kung Fu Chess'' (365, 145) Duplex (15 / 10) (35, 35, 35) 3,
      PutText ''Display name'' (rx USERNAME_FIELD, ry USERNAME_FIELD - 18) Simplex (75 / 100) (60, 60, 60) 2,
      FillRect USERNAME_FIELD (255, 255, 255) PlainLine,
      OutlineRect USERNAME_FIELD (75, 125, 210) 2 PlainLine,
      PutText name (rx USERNAME_FIELD + 16, ry USERNAME_FIELD + 42) Simplex (8 / 10) (35, 35, 35) 2,
      FillRect CONNECT_BUTTON (75, 125, 210) PlainLine,
      PutText ''Connect'' (rx CONNECT_BUTTON + 70, ry CONNECT_BUTTON + 42) Simplex (9 / 10) (255, 255, 255) 2] @
     (if message = [] then [] else [PutText message (250, 485) Simplex (65 / 100) (40, 40, 190) 2])"

section \<open>Waiting and the full game\<close>

definition waitingFrame :: "GameClient \<Rightarrow> RenderedFrame" where
  "waitingFrame k = \<lparr>rf_pieces = [], rf_gameOver = False, rf_blackScore = 0, rf_whiteScore = 0, rf_blackMoves = [],
     rf_whiteMoves = [], rf_localColor = (if gcColor k = White then ''white'' else ''black''),
     rf_whiteUsername = gcWhiteUsername k, rf_blackUsername = gcBlackUsername k,
     rf_status = (''Waiting for another player...'', []), rf_overlay = WaitingOverlay\<rparr>"

definition showGameFullMessage :: "metrics \<Rightarrow> DrawOp list" where
  "showGameFullMessage measured =
     (case measured ''Game is full'' Duplex (13 / 10) 2 of (w, h, baseline) \<Rightarrow>
        [FillRect (rect 0 0 640 240) (245, 245, 245) PlainLine,
         PutText ''Game is full'' ((640 - w) sdiv 2, (240 + h) sdiv 2) Duplex (13 / 10) (35, 35, 35) 2])"

section \<open>The button that is drawn\<close>

text \<open>
  A click on the button that is drawn ends the name screen with the name that was typed, without the
  spaces around it, when it is a valid one; a click beside it keeps the screen and what was typed.
\<close>

definition clickAt :: "int \<Rightarrow> int \<Rightarrow> NameFrame" where
  "clickAt x y = \<lparr>frameKey = -1, frameMouse = [(True, x, y)], frameVisible = True\<rparr>"

lemma edit_nothing: "editName (-1) s = s"
  by (cases s) (simp add: editName_def)

theorem connect_button_connects:
  assumes "pendingClicks m = []"
  shows "requestUsernameLoop (halfOpen CONNECT_BUTTON) (clickAt x y # frames) (name, message) m =
    (if 425 \<le> x \<and> x < 675 \<and> 370 \<le> y \<and> y < 434
     then if isValid (trim name) then Some (trim name, m\<lparr>mouseX := x, mouseY := y, pendingClicks := []\<rparr>)
          else requestUsernameLoop (halfOpen CONNECT_BUTTON) frames (trim name, ''Please enter a display name.'') (m\<lparr>mouseX := x, mouseY := y, pendingClicks := []\<rparr>)
     else requestUsernameLoop (halfOpen CONNECT_BUTTON) frames (name, message) (m\<lparr>mouseX := x, mouseY := y, pendingClicks := []\<rparr>))"
  using assms
  by (auto simp: clickAt_def onMouse_def consumeConnectClick_def edit_nothing halfOpen_def CONNECT_BUTTON_def rect_def Let_def)

end
