(* ===== verification/Tcp_Server.thy ===== *)
theory Tcp_Server
  imports Tcp_Connection
begin

text \<open>
  The listening socket of the server, \<open>src/server/chess_server/src/Network/TcpServer.cpp\<close>. The calls of the operating
  system are a parameter on a state \<open>'w\<close> of the network, as in \<open>Tcp_Connection\<close>: \<open>socket\<close> and \<open>accept\<close> return a
  handle or \<open>None\<close> for \<open>INVALID_SOCKET\<close>, \<open>bind\<close> and \<open>listen\<close> the \<open>int\<close> of the call. An exception is \<open>Inl\<close> of its text.
\<close>

section \<open>Operations\<close>

record 'w listenCalls =
  lc_socket :: "'w \<Rightarrow> nat option \<times> 'w"
  lc_bind :: "nat \<Rightarrow> 16 word \<Rightarrow> 'w \<Rightarrow> int \<times> 'w"
  lc_listen :: "nat \<Rightarrow> 'w \<Rightarrow> int \<times> 'w"
  lc_accept :: "nat option \<Rightarrow> 'w \<Rightarrow> nat option \<times> 'w"
  lc_close :: "nat \<Rightarrow> 'w \<Rightarrow> 'w"

type_synonym TcpServer = "nat option"

definition newTcpServer :: TcpServer where "newTcpServer = None"

definition stopServer :: "'w listenCalls \<Rightarrow> TcpServer \<times> 'w \<Rightarrow> TcpServer \<times> 'w" where
  "stopServer os = (\<lambda>(s, w). (case s of None \<Rightarrow> (None, w) | Some h \<Rightarrow> (None, lc_close os h w)))"

definition startServer :: "'w listenCalls \<Rightarrow> 16 word \<Rightarrow> TcpServer \<times> 'w \<Rightarrow> (string + unit) \<times> TcpServer \<times> 'w" where
  "startServer os port s =
     (case lc_socket os (snd (stopServer os s)) of
        (None, w1) \<Rightarrow> (Inl ''TcpServer: socket creation failed'', None, w1)
      | (Some h, w1) \<Rightarrow>
          (let (bound, w2) = lc_bind os h port w1 in
           if bound = SOCKET_ERROR then (Inl ''TcpServer: bind failed'', stopServer os (Some h, w2))
           else let (listening, w3) = lc_listen os h w2 in
             if listening = SOCKET_ERROR then (Inl ''TcpServer: listen failed'', stopServer os (Some h, w3))
             else (Inr (), Some h, w3)))"

definition acceptConnection :: "'w listenCalls \<Rightarrow> TcpServer \<times> 'w \<Rightarrow> (string + connection) \<times> TcpServer \<times> 'w" where
  "acceptConnection os = (\<lambda>(s, w).
     (case lc_accept os s w of
        (None, w1) \<Rightarrow> (Inl ''TcpServer: accept failed'', s, w1)
      | (Some h, w1) \<Rightarrow> (Inr (Some h), s, w1)))"

section \<open>No socket is lost\<close>

text \<open>
  What is documented of the calls, for the set of sockets that are open in a state: \<open>socket\<close> and \<open>accept\<close> open
  the handle they return and no other, \<open>close\<close> closes one.
\<close>

definition socketsOk :: "'w listenCalls \<Rightarrow> ('w \<Rightarrow> nat set) \<Rightarrow> bool" where
  "socketsOk os opened \<longleftrightarrow>
     (\<forall>w. case lc_socket os w of (None, w') \<Rightarrow> opened w' = opened w
        | (Some h, w') \<Rightarrow> h \<notin> opened w \<and> opened w' = insert h (opened w)) \<and>
     (\<forall>s w. case lc_accept os s w of (None, w') \<Rightarrow> opened w' = opened w
        | (Some h, w') \<Rightarrow> h \<notin> opened w \<and> opened w' = insert h (opened w)) \<and>
     (\<forall>h port w. opened (snd (lc_bind os h port w)) = opened w) \<and>
     (\<forall>h w. opened (snd (lc_listen os h w)) = opened w) \<and>
     (\<forall>h w. opened (lc_close os h w) = opened w - {h})"

text \<open>The sockets that are open beside those of others are the listening one.\<close>

definition ownsOne :: "('w \<Rightarrow> nat set) \<Rightarrow> nat set \<Rightarrow> TcpServer \<times> 'w \<Rightarrow> bool" where
  "ownsOne opened others = (\<lambda>(s, w). set_option s \<inter> others = {} \<and> opened w = others \<union> set_option s)"

lemma stop_owns:
  assumes "socketsOk os opened" "ownsOne opened others s"
  shows "ownsOne opened others (stopServer os s)" "fst (stopServer os s) = None"
  using assms by (cases s; cases "fst s"; auto simp: stopServer_def ownsOne_def socketsOk_def)+

text \<open>
  Starting the server, again and again or on a port that is taken, leaves one listening socket when it
  succeeds and none when it throws, and closes no socket of a client.
\<close>

lemma start_owns:
  assumes os: "socketsOk os opened" and s: "ownsOne opened others s" and run: "startServer os port s = (r, s')"
  shows "ownsOne opened others s' \<and> (fst s' = None \<longleftrightarrow> r \<noteq> Inr ())"
proof -
  define w0 where "w0 = snd (stopServer os s)"
  have w0: "opened w0 = others"
    using stop_owns [OF os s] by (cases "stopServer os s") (simp add: ownsOne_def w0_def)
  obtain h w1 where h: "lc_socket os w0 = (h, w1)" by fastforce
  show ?thesis
  proof (cases h)
    case None
    have "opened w1 = others" using os h w0 None by (auto simp: socketsOk_def split: option.splits prod.splits)
    then show ?thesis using run by (auto simp: startServer_def w0_def [symmetric] ownsOne_def h None)
  next
    case (Some k)
    have w1: "k \<notin> others" "opened w1 = insert k others"
      using os h w0 Some by (auto simp: socketsOk_def split: option.splits prod.splits)
    obtain bound w2 where b: "lc_bind os k port w1 = (bound, w2)" by fastforce
    obtain listening w3 where l: "lc_listen os k w2 = (listening, w3)" by fastforce
    have same: "opened w2 = insert k others" "opened w3 = insert k others"
      using os b l w1 unfolding socketsOk_def by (metis snd_conv)+
    then have own: "ownsOne opened others (Some k, w2)" "ownsOne opened others (Some k, w3)"
      using w1(1) by (simp_all add: ownsOne_def)
    have result: "(r, s') = (if bound = SOCKET_ERROR then (Inl ''TcpServer: bind failed'', stopServer os (Some k, w2))
        else if listening = SOCKET_ERROR then (Inl ''TcpServer: listen failed'', stopServer os (Some k, w3)) else (Inr (), Some k, w3))"
      using run by (simp add: startServer_def w0_def [symmetric] h Some b l cong: if_cong)
    show ?thesis
      using result stop_owns [OF os own(1)] stop_owns [OF os own(2)] own(2) by (simp split: if_split_asm)
  qed
qed

lemma accept_owns:
  assumes "socketsOk os opened" "ownsOne opened others s" "acceptConnection os s = (r, s')"
  shows "fst s' = fst s" "r = Inl e \<Longrightarrow> ownsOne opened others s'" "r = Inr c \<Longrightarrow> ownsOne opened (others \<union> set_option c) s'"
proof -
  obtain l w where s: "s = (l, w)" by fastforce
  obtain h w1 where h: "lc_accept os l w = (h, w1)" by fastforce
  have "case (h, w1) of (None, w') \<Rightarrow> opened w' = opened w | (Some h, w') \<Rightarrow> h \<notin> opened w \<and> opened w' = insert h (opened w)"
  proof -
    have "\<forall>s w. case lc_accept os s w of (None, w') \<Rightarrow> opened w' = opened w
        | (Some h, w') \<Rightarrow> h \<notin> opened w \<and> opened w' = insert h (opened w)"
      using assms(1) unfolding socketsOk_def by (elim conjE)
    from spec [OF spec [OF this, of l], of w] show ?thesis by (simp add: h)
  qed
  then show "fst s' = fst s" "r = Inl e \<Longrightarrow> ownsOne opened others s'"
    "r = Inr c \<Longrightarrow> ownsOne opened (others \<union> set_option c) s'"
    using assms(2,3) by (cases h; auto simp: acceptConnection_def s ownsOne_def h)+
qed

section \<open>Any sequence of calls\<close>

datatype ServerCall = StartCall "16 word" | AcceptCall | StopCall

text \<open>The sockets of the clients so far, beside the server.\<close>

fun callServer :: "'w listenCalls \<Rightarrow> ServerCall \<Rightarrow> nat set \<times> TcpServer \<times> 'w \<Rightarrow> nat set \<times> TcpServer \<times> 'w" where
  "callServer os (StartCall port) (clients, s) = (clients, snd (startServer os port s))"
| "callServer os AcceptCall (clients, s) =
     (case acceptConnection os s of (Inl e, s') \<Rightarrow> (clients, s') | (Inr c, s') \<Rightarrow> (clients \<union> set_option c, s'))"
| "callServer os StopCall (clients, s) = (clients, stopServer os s)"

text \<open>
  However the server is started, stopped and asked for clients, whichever calls of the system fail, the
  sockets that are open are those of the clients it accepted and at most one more, the one it listens on;
  once it is stopped, as the destructor does, only those of the clients.
\<close>

theorem server_loses_no_socket:
  assumes "socketsOk os opened" "opened w = {}"
    and "fold (callServer os) calls ({}, newTcpServer, w) = (clients, s')"
  shows "opened (snd s') = clients \<union> set_option (fst s') \<and> opened (snd (stopServer os s')) = clients"
proof -
  have step: "ownsOne opened (fst (callServer os c x)) (snd (callServer os c x))" if "ownsOne opened (fst x) (snd x)" for c x
  proof (cases c)
    case (StartCall port)
    then show ?thesis using start_owns [OF assms(1) that, of port] by (cases x; cases "startServer os port (snd x)") auto
  next
    case AcceptCall
    obtain r s1 where r: "acceptConnection os (snd x) = (r, s1)" by (metis surj_pair)
    show ?thesis using accept_owns(2,3) [OF assms(1) that r] AcceptCall r by (cases x; cases r) auto
  next
    case StopCall
    then show ?thesis using stop_owns(1) [OF assms(1) that] by (cases x) simp
  qed
  have "ownsOne opened (fst (fold (callServer os) calls x)) (snd (fold (callServer os) calls x))"
    if "ownsOne opened (fst x) (snd x)" for x
    using that by (induction calls arbitrary: x) (simp_all add: step)
  from this [of "({}, newTcpServer, w)"] have "ownsOne opened clients s'"
    using assms(2,3) by (simp add: ownsOne_def newTcpServer_def)
  with stop_owns [OF assms(1) this] show ?thesis
    by (cases s'; cases "stopServer os s'") (auto simp: ownsOne_def)
qed

text \<open>A system for the witness: the open handles; the port 80 is taken.\<close>

definition demoCalls :: "nat list listenCalls" where
  "demoCalls = \<lparr>lc_socket = (\<lambda>l. (Some (sum_list l + 1), (sum_list l + 1) # l)),
     lc_bind = (\<lambda>h port l. (if port = 80 then SOCKET_ERROR else 0, l)), lc_listen = (\<lambda>h l. (0, l)),
     lc_accept = (\<lambda>s l. (if s = None then (None, l) else (Some (sum_list l + 1), (sum_list l + 1) # l))),
     lc_close = (\<lambda>h l. removeAll h l)\<rparr>"

lemma demoCalls_ok: "socketsOk demoCalls set"
proof -
  have "Suc (sum_list l) \<notin> set l" for l :: "nat list" using member_le_sum_list [of "Suc (sum_list l)" l] by auto
  then show ?thesis by (auto simp: socketsOk_def demoCalls_def)
qed

theorem server_loses_no_socket_witness:
  "fold (callServer demoCalls) [StartCall 80, StartCall 5000, AcceptCall, StartCall 5000, AcceptCall, StopCall] ({}, newTcpServer, []) =
     ({2, 6}, None, [6, 2]) \<and> set [6, 2 :: nat] = {2, 6} \<union> set_option None"
proof -
  have run: "fold (callServer demoCalls) [StartCall 80, StartCall 5000, AcceptCall, StartCall 5000, AcceptCall, StopCall] ({}, newTcpServer, []) =
     ({2, 6}, None, [6, 2])"
    by (simp add: startServer_def stopServer_def acceptConnection_def newTcpServer_def demoCalls_def SOCKET_ERROR_def insert_commute) (simp add: eval_nat_numeral)
  show ?thesis using run server_loses_no_socket [OF demoCalls_ok _ run] by simp
qed

end
