(* ===== verification/Logging.thy ===== *)
theory Logging
  imports Cpp_Text
begin

text \<open>
  The log of the client, \<open>src/client/desktop_client/src/Logging/FileLogger.cpp\<close>. The file is its text; whether it can be
  opened, the clock, and the text of a calendar time in seconds (\<open>gmtime\<close> and \<open>put_time\<close>) are parameters. The
  warning on the console about a file that cannot be opened is left out.
\<close>

section \<open>Lines\<close>

datatype LogLevel = LogInfo | LogWarn | LogError

definition levelText :: "LogLevel \<Rightarrow> string" where
  "levelText level = (case level of LogInfo \<Rightarrow> ''INFO'' | LogWarn \<Rightarrow> ''WARN'' | LogError \<Rightarrow> ''ERROR'')"

text \<open>Milliseconds since the epoch, which are not negative.\<close>

definition isoTimestamp :: "(nat \<Rightarrow> string) \<Rightarrow> nat \<Rightarrow> string" where
  "isoTimestamp utcText nowMs =
     (let millis = natDigits (nowMs mod 1000)
      in utcText (nowMs div 1000) @ ''.'' @ replicate (3 - length millis) (CHR ''0'') @ millis @ ''Z'')"

section \<open>The logger\<close>

record FileLogger =
  logEnabled :: bool
  logFile :: string

text \<open>The file is opened to append.\<close>

definition newFileLogger :: "bool \<Rightarrow> string \<Rightarrow> FileLogger" where
  "newFileLogger opened present = \<lparr>logEnabled = opened, logFile = present\<rparr>"

definition logMessage :: "(nat \<Rightarrow> string) \<Rightarrow> nat \<Rightarrow> LogLevel \<Rightarrow> string \<Rightarrow> FileLogger \<Rightarrow> FileLogger" where
  "logMessage utcText nowMs level message l =
     (if \<not> logEnabled l then l
      else l\<lparr>logFile := logFile l @ isoTimestamp utcText nowMs @ '' '' @ levelText level @ '' '' @ message @ [CHR 0x0A]\<rparr>)"

definition logInfo :: "(nat \<Rightarrow> string) \<Rightarrow> nat \<Rightarrow> string \<Rightarrow> FileLogger \<Rightarrow> FileLogger" where
  "logInfo utcText nowMs = logMessage utcText nowMs LogInfo"

definition logWarn :: "(nat \<Rightarrow> string) \<Rightarrow> nat \<Rightarrow> string \<Rightarrow> FileLogger \<Rightarrow> FileLogger" where
  "logWarn utcText nowMs = logMessage utcText nowMs LogWarn"

definition logError :: "(nat \<Rightarrow> string) \<Rightarrow> nat \<Rightarrow> string \<Rightarrow> FileLogger \<Rightarrow> FileLogger" where
  "logError utcText nowMs = logMessage utcText nowMs LogError"

section \<open>What a log holds\<close>

text \<open>
  A log only grows: what was written stays, and the messages follow each other in the order in which they were
  logged, each with its time and level on lines of its own.
\<close>

definition logLine :: "(nat \<Rightarrow> string) \<Rightarrow> nat \<times> LogLevel \<times> string \<Rightarrow> string" where
  "logLine utcText = (\<lambda>(nowMs, level, message). isoTimestamp utcText nowMs @ '' '' @ levelText level @ '' '' @ message @ [CHR 0x0A])"

theorem log_only_grows:
  "logFile (fold (\<lambda>(nowMs, level, message). logMessage utcText nowMs level message) entries l) =
     logFile l @ (if logEnabled l then concat (map (logLine utcText) entries) else [])"
proof (induction entries arbitrary: l)
  case (Cons e entries)
  obtain nowMs level message where e: "e = (nowMs, level, message)" by (cases e)
  show ?case by (simp add: e Cons.IH) (simp add: logMessage_def logLine_def)
qed simp

lemma millis_three_digits: "n < 1000 \<Longrightarrow> length (natDigits n) \<le> 3"
proof -
  assume "n < 1000"
  then have "n < 10 \<or> (\<exists>a < 10. n div 10 = a) \<or> (\<exists>a < 10. n div 10 div 10 = a)" by auto
  then show ?thesis using \<open>n < 1000\<close> by (subst natDigits.simps, subst natDigits.simps, subst natDigits.simps) auto
qed

lemma timestamp_length: "length (isoTimestamp utcText nowMs) = length (utcText (nowMs div 1000)) + 5"
  using millis_three_digits [of "nowMs mod 1000"] by (simp add: isoTimestamp_def Let_def)

end
