(* ===== verification/Spec2Isabelle.thy ===== *)
theory Spec2Isabelle
  imports Control_Properties Protocol_Properties Tcp_Connection Client_Properties Game_Client_Properties Network_Controller
    Lobby_Client_Properties Lobby_Layout Visual_Properties Animation_Files Game_Screen_Properties
    Lobby_Screen_Properties Piece_Config Console_Properties Entry_Points Picture_Safety Lobby_Drawing_Properties
    Window_Drawing Tcp_Server Logging
begin

text \<open>
  This library models the C++ programs of the repository, a chess game played in real time over the
  network, and proves what makes them correct. In the game there are no turns: each player
  moves any rested piece at any time, a move takes a second for each cell, pieces that meet
  on the way capture each other, and a piece rests after it has moved or jumped.

  \<^bold>\<open>The programs.\<close> The server (\<open>src/server/chess_server\<close>) holds the one engine of a game. Its
  threads accept clients, read their requests and run the game loop, which lets time pass in the
  engine and sends snapshots. The desktop client (\<open>src/client/desktop_client\<close>) has a window for a game
  on such a server (\<open>VisualApp\<close>), a client without a window (\<open>ClientApp\<close>) and a lobby
  (\<open>LobbyApp\<close>), which logs in at an HTTP gateway, lists rooms over a web socket and plays or watches matches. Both
  share the value types, the messages and the wire format of \<open>src/shared/cpp\<close>. The parts call
  each other in this order: a click becomes a cell, the cell a request, the request a message, the message a
  line on a socket, the line a request of the server's engine; the state goes back as a snapshot, whose
  pieces become sprites at places, and the sprites become pixels.

  \<^bold>\<open>How code is modelled.\<close> A class is a record, an enumeration a datatype, each method a
  function from the old state to the new one, with every early return and every exception a
  branch of the model: an exception is \<open>Inl\<close> or \<open>None\<close> (each theory says which), and so is an
  operation whose behaviour is undefined, such as an index out of range. Numbers of the wire are
  checked against their widths where the code checks them, sequence numbers and revisions are 64-bit words, bytes of an image
  8-bit words; the other integers are unbounded: they are cells, pixels, counts
  and times in milliseconds, and their overflow is not modelled. The
  \<open>double\<close>s of the drawing code are exact rationals, so rounding is not modelled. Text is a list of
  characters, which are bytes.

  Threads are step relations: \<open>serverStep\<close> (\<open>Server_Runs\<close>), \<open>clientStep\<close> (\<open>Game_Client_Properties\<close>) and \<open>lobbyStep\<close>
  (\<open>Lobby_Properties\<close>) run any section between two releases of a mutex, in any order, and the properties hold for all runs.
  Loops whose end is part of a claim are partial functions, so that a loop that does not end is \<open>None\<close>:
  the wait of the engine (\<open>waitLoop\<close>), the path of a move (\<open>pathLoop\<close>), sending a text (\<open>sendLoop\<close>), the
  frames of an animation (\<open>frameLoop\<close>), the events of the lobby (\<open>consumeNetworkEvents\<close>); the theorems prove that they return. The other
  loops are total functions with their measures. The endless loops of the windows take the list of what happens in each round
  (\<open>FrameInput\<close>, \<open>RoundInput\<close>), so a statement about every list is one about every run so far. No fuel is used.

  \<^bold>\<open>What is a parameter.\<close> The operating system's sockets (\<open>sockets\<close>, \<open>listenCalls\<close>, \<open>network\<close>), Boost's JSON
  values, HTTP and web sockets (\<open>Json_Values\<close>, \<open>Api_Client\<close>, \<open>Lobby_Client\<close>), OpenCV's window, text sizes, shapes, image files
  and \<open>Rect::contains\<close> (\<open>DrawLibrary\<close>, \<open>metrics\<close>, \<open>contains\<close>), the files of the assets and of the configuration, the
  clocks and random numbers. What is used of their documented behaviour is a named definition (\<open>reliable\<close>, \<open>socketsOk\<close>, \<open>libraryOk\<close>,
  \<open>libOk\<close>, \<open>halfOpen\<close>) and each is shown to hold of an example.

  \<^bold>\<open>Foundations.\<close> \<open>Prelude\<close> has the collections of rewrite rules, generic lemmas and the interfaces as
  locales: \<open>event_machine\<close> (operations that keep an invariant and publish events, interpreted five times on the engine's
  runs), \<open>cell_store\<close> (what a board is to its users), \<open>fifo_queue\<close> (the queues of messages) and \<open>codec\<close> (writers and readers, interpreted on
  tokens, decimal numbers, message types and the whole wire format). \<open>session_invariant\<close> and \<open>step_invariant\<close> in \<open>Server_Steps\<close> and
  \<open>Server_Runs\<close> and \<open>lobby_invariant\<close> in \<open>Lobby_Properties\<close> are the interfaces of the concurrent parts. \<open>Cpp_Text\<close> is what the
  program uses of the C++ library on text, \<open>Username\<close> the names of players.

  \<^bold>\<open>The engine.\<close> \<open>Core\<close>: positions and pieces with their cooldowns (\<open>src/shared/cpp/src/Core\<close>). \<open>Board\<close>: the grid. \<open>Rules\<close>: move shapes and
  \<open>RuleEngine::validateMove\<close>. \<open>Arbiter\<close>: motions, jumps and the time of the next step (\<open>RealTimeArbiter.cpp\<close>). \<open>Events\<close>: the event bus and its
  subscribers. \<open>Engine\<close>: \<open>GameEngine.cpp\<close>, requests, castling, steps, captures, promotion and \<open>wait\<close>. \<open>Engine_Steps\<close> says what each
  operation does to each part of the state; \<open>Engine_Invariant\<close>, \<open>Engine_Progress\<close> and \<open>Engine_Runs\<close> prove the well-formedness invariant and that
  waiting ends; \<open>Engine_Log\<close> that the events tell the truth; \<open>Engine_Occupancy\<close> that, while no castling is requested, no
  two pieces show at one cell and the score is the material captured; \<open>Engine_Identity\<close> that pieces keep colour and
  id; \<open>Engine_Liveness\<close> that an accepted move arrives. \<open>Engine_Properties\<close> holds the claims. \<open>Board_Text\<close>, \<open>Console\<close> and
  \<open>Console_Properties\<close> are the console program, \<open>Piece_Config\<close> and \<open>Config_Text\<close> the configuration files.

  \<^bold>\<open>Messages and the server.\<close> \<open>Messages\<close>: messages, snapshots and queues. \<open>Snapshot\<close>: \<open>GameStateSnapshotBuilder\<close>.
  \<open>Control\<close>: \<open>BoardMapper\<close>, the message handler and the controller. \<open>Protocol_Scan\<close> and \<open>Protocol\<close>: the hand-written JSON scanner, \<open>serialize\<close> and
  \<open>deserialize\<close>; \<open>Json_Text\<close> and \<open>Protocol_Roundtrip\<close> prove that what is written is read back, and \<open>Protocol_Properties\<close> states
  it as an equivalence. \<open>Tcp_Connection\<close> and \<open>Tcp_Server\<close>: lines over sockets, and that no socket is lost. \<open>Server_State\<close>, \<open>Server\<close> and \<open>Server_Steps\<close>:
  \<open>GameServer.cpp\<close> section by section; \<open>Server_Runs\<close> its step relation; \<open>Server_Properties\<close> and \<open>Server_Loop\<close> its invariants, who may move and who gets a seat, and
  three ways in which a game or the server is lost.

  \<^bold>\<open>The client of a game.\<close> \<open>Client_State\<close> and \<open>Client_Properties\<close>: the latest snapshot, the phases and the countdown. \<open>Game_Client\<close> and
  \<open>Game_Client_Properties\<close>: the connection with its receiver thread and its queue, and joining from end to end. \<open>Network_Controller\<close>: clicks. \<open>Game_Screen\<close>,
  \<open>Game_Screen_Properties\<close> and \<open>Text_Client\<close>: the loops of the two clients. \<open>Entry_Points\<close>: the arguments of both programs. \<open>Logging\<close>: the log.

  \<^bold>\<open>The lobby.\<close> \<open>Json_Values\<close>, \<open>Api_Client\<close>, \<open>Lobby_Protocol\<close> and \<open>Lobby_Client\<close>: the gateway as the client sees it.
  \<open>Lobby_State\<close> and \<open>Lobby_Controller\<close>: the view and the actions. \<open>Lobby_Layout\<close>: where things are and what a click means. \<open>Lobby_Screen\<close>: the loop.
  The theories with \<open>Properties\<close> in their name hold what is proved of each.

  \<^bold>\<open>The pictures.\<close> \<open>Visuals\<close> and \<open>Animation_Files\<close>: states, places and frames of the pieces; \<open>Visual_Properties\<close>: they show the state and move without jumps.
  \<open>Images\<close>: the pixel loops of \<open>GraphicsHelper.cpp\<close> on the bytes of an image. \<open>Drawing_Ops\<close>: the calls of OpenCV as data.
  \<open>Renderer\<close> (\<open>Renderer.cpp\<close>), \<open>Window_Drawing\<close> and \<open>Lobby_Drawing\<close> (\<open>LobbyRenderer.cpp\<close>): the frames. \<open>Renderer_Properties\<close>: the history shows the last
  moves inside its panel, sprites are cut to what is seen, a faded piece is not in its place. \<open>Picture_Safety\<close>: a state within the
  bounds of the protocol is drawn inside of the picture, with one exception. \<open>Lobby_Drawing_Properties\<close>: a card is drawn for the room its
  button joins, and which screens hide an error.

  \<^bold>\<open>Not modelled.\<close> Rounding of \<open>double\<close>s, and overflow of integers that do not cross the wire. What OpenCV does to an image for a shape or a text. Starting the socket library (\<open>ServerApp.cpp\<close>), the texts the programs
  print to their consoles, and the log lines of the callers of the log, which never fails and is never read. \<open>img.cpp\<close> and
  \<open>Piece::getCooldownRatio\<close>, which nothing uses. The Python gateway, the tests, the test framework and the assets, which are not the C++ program.
\<close>

end
